(* ===== verification/Prelude.thy ===== *)
theory Prelude
  imports
    Complex_Main
    "HOL-Library.Word"
    "HOL-Library.Char_ord"
    "HOL-Library.List_Lexorder"
    "HOL-Library.Product_Lexorder"
begin

text \<open>
  What every component of the relay and of the agent shares:
  \<^item> the outcome of Go code that may panic (\<open>outcome\<close>, sequenced with \<open>andThen\<close>);
  \<^item> the functions of the packages \<^verbatim>\<open>strings\<close> and \<^verbatim>\<open>strconv\<close> the sources call. A Go string
    is a byte string; \<open>ToLower\<close>, \<open>TrimSpace\<close> and \<open>Fields\<close> are given on ASCII and leave
    the bytes of other code points alone;
  \<^item> 64-bit integers and durations (\<open>in_int64\<close>, \<open>in_uint64\<close>, \<open>seconds\<close>);
  \<^item> SQL tables with a primary key: a table is the list of its rows in rowid order,
    \<open>select_pk\<close> is a lookup, \<open>update_rows\<close> an UPDATE with its WHERE clause, and \<open>sort_key\<close>
    an ORDER BY (stable, so that ties keep the rowid order);
  \<^item> two interfaces used by more than one component: invariants of step relations
    (locale \<open>invariant_system\<close>) and queues that ignore a known identifier
    (locale \<open>idempotent_queue\<close>).
\<close>

named_theorems go_simps \<open>unfolding rules for the sequencing of Go statements\<close>
named_theorems sql_simps \<open>rules for lookups in updated tables\<close>
named_theorems dec_simps \<open>rules that evaluate JSON decoding on marshalled structs\<close>

section \<open>Panics\<close>

text \<open>
  A panic in a goroutine of the relay that nobody recovers ends the process, so it is
  the value of the whole handler: the statements after it have no effect.
\<close>

datatype go_panic = SendOnClosedChannel | SliceOutOfRange | NilDereference | NonPositiveInterval

datatype 'a outcome = Panic go_panic | Ret 'a

primrec andThen :: "'a outcome \<Rightarrow> ('a \<Rightarrow> 'b outcome) \<Rightarrow> 'b outcome" where
  "andThen (Panic p) f = Panic p"
| "andThen (Ret x) f = f x"

primrec panics :: "'a outcome \<Rightarrow> bool" where
  "panics (Panic p) = True"
| "panics (Ret x) = False"

declare andThen.simps [go_simps]

lemma andThen_Ret_iff: "andThen m f = Ret y \<longleftrightarrow> (\<exists>x. m = Ret x \<and> f x = Ret y)"
  by (cases m) auto

lemma andThen_assoc: "andThen (andThen m f) g = andThen m (\<lambda>x. andThen (f x) g)"
  by (cases m) auto

lemma not_panics_iff: "\<not> panics m \<longleftrightarrow> (\<exists>x. m = Ret x)"
  by (cases m) auto

section \<open>Strings\<close>

definition lower_char :: "char \<Rightarrow> char" where
  "lower_char c = (if 65 \<le> (of_char c :: nat) \<and> (of_char c :: nat) \<le> 90
                   then char_of ((of_char c :: nat) + 32) else c)"

definition ToLower :: "string \<Rightarrow> string" where
  "ToLower s = map lower_char s"

definition is_space :: "char \<Rightarrow> bool" where
  "is_space c \<longleftrightarrow> (of_char c :: nat) = 32 \<or> (9 \<le> (of_char c :: nat) \<and> (of_char c :: nat) \<le> 13)"

definition TrimLeftBy :: "(char \<Rightarrow> bool) \<Rightarrow> string \<Rightarrow> string" where
  "TrimLeftBy p s = dropWhile p s"

definition TrimRightBy :: "(char \<Rightarrow> bool) \<Rightarrow> string \<Rightarrow> string" where
  "TrimRightBy p s = rev (dropWhile p (rev s))"

definition TrimBy :: "(char \<Rightarrow> bool) \<Rightarrow> string \<Rightarrow> string" where
  "TrimBy p s = TrimRightBy p (TrimLeftBy p s)"

abbreviation TrimSpace :: "string \<Rightarrow> string" where
  "TrimSpace s \<equiv> TrimBy is_space s"

definition HasPrefix :: "string \<Rightarrow> string \<Rightarrow> bool" where
  "HasPrefix s p \<longleftrightarrow> take (length p) s = p"

text \<open>\<open>runs_of p s\<close>: the maximal runs of characters that do not satisfy \<open>p\<close>.\<close>

function runs_of :: "(char \<Rightarrow> bool) \<Rightarrow> string \<Rightarrow> string list" where
  "runs_of p s = (case dropWhile p s of [] \<Rightarrow> []
     | c # cs \<Rightarrow> takeWhile (\<lambda>x. \<not> p x) (c # cs) # runs_of p (dropWhile (\<lambda>x. \<not> p x) (c # cs)))"
  by pat_completeness auto
termination
proof (relation "measure (\<lambda>(p, s). length s)", goal_cases)
  case (2 p s c cs)
  have "\<not> p c"
    using 2 hd_dropWhile [of p s] by (metis list.sel(1) list.distinct(1))
  then have "length (dropWhile (\<lambda>x. \<not> p x) (c # cs)) \<le> length cs"
    by (simp add: length_dropWhile_le)
  moreover have "length (c # cs) \<le> length s"
    using length_dropWhile_le [of p s] 2 by simp
  ultimately show ?case by simp
qed simp

declare runs_of.simps [simp del]

text \<open>\<open>strings.Fields\<close> splits around white space.\<close>

definition Fields :: "string \<Rightarrow> string list" where
  "Fields s = runs_of is_space s"

fun digits :: "nat \<Rightarrow> string" where
  "digits n = (if n < 10 then [char_of (48 + n)]
               else digits (n div 10) @ [char_of (48 + n mod 10)])"

declare digits.simps [simp del]

definition itoa :: "int \<Rightarrow> string" where
  "itoa n = (if n < 0 then ''-'' @ digits (nat (- n)) else digits (nat n))"

definition newline :: string where
  "newline = [CHR 0x0A]"

text \<open>\<open>%-Ns\<close> pads with spaces on the right to \<open>N\<close> characters.\<close>

definition pad_right :: "nat \<Rightarrow> string \<Rightarrow> string" where
  "pad_right n s = s @ replicate (n - length s) CHR '' ''"

definition bool_string :: "bool \<Rightarrow> string" where
  "bool_string b = (if b then ''true'' else ''false'')"

section \<open>Integers and durations\<close>

definition in_int64 :: "int \<Rightarrow> bool" where
  "in_int64 n \<longleftrightarrow> - (2 ^ 63) \<le> n \<and> n < 2 ^ 63"

definition in_uint64 :: "int \<Rightarrow> bool" where
  "in_uint64 n \<longleftrightarrow> 0 \<le> n \<and> n < 2 ^ 64"

text \<open>
  A \<open>time.Duration\<close> is an \<open>int64\<close> count of nanoseconds, and the product
  \<open>time.Duration(n) * time.Second\<close> wraps around at 64 bits.
\<close>

definition second_ns :: int where
  "second_ns = 1000000000"

definition wrap_int64 :: "int \<Rightarrow> int" where
  "wrap_int64 n = sint (word_of_int n :: 64 word)"

definition seconds :: "int \<Rightarrow> int" where
  "seconds n = wrap_int64 (n * second_ns)"

lemma wrap_int64_id: "in_int64 n \<Longrightarrow> wrap_int64 n = n"
  by (simp add: wrap_int64_def in_int64_def sint_sbintrunc' signed_take_bit_int_eq_self)

lemma wrap_int64_range: "in_int64 (wrap_int64 n)"
  using sint_greater_eq [of "word_of_int n :: 64 word"] sint_less [of "word_of_int n :: 64 word"]
  by (simp add: wrap_int64_def in_int64_def)

lemma seconds_exact: "- 9223372036 \<le> n \<Longrightarrow> n \<le> 9223372036 \<Longrightarrow> seconds n = n * second_ns"
  unfolding seconds_def by (rule wrap_int64_id) (simp add: in_int64_def second_ns_def)

text \<open>
  \<open>Duration.String\<close>: the largest unit first, a fraction without trailing zeros, and units
  below one second for durations below one second.
\<close>

definition frac_digits :: "nat \<Rightarrow> int \<Rightarrow> string" where
  "frac_digits prec v =
     (let ds = digits (nat (v mod 10 ^ prec));
          padded = replicate (prec - length ds) CHR ''0'' @ ds;
          f = rev (dropWhile (\<lambda>c. c = CHR ''0'') (rev padded))
      in if f = [] then [] else ''.'' @ f)"

definition Duration_String :: "int \<Rightarrow> string" where
  "Duration_String d =
     (let u = \<bar>d\<bar>; s = u div second_ns; sign = (if d < 0 then ''-'' else '''') in
      if u = 0 then ''0s''
      else if u < 1000 then sign @ itoa u @ ''ns''
      else if u < 1000000 then sign @ itoa (u div 1000) @ frac_digits 3 u @ [CHR 0xC2, CHR 0xB5, CHR ''s'']
      else if u < second_ns then sign @ itoa (u div 1000000) @ frac_digits 6 u @ ''ms''
      else sign
        @ (if s div 3600 > 0 then itoa (s div 3600) @ ''h'' else '''')
        @ (if s div 60 > 0 then itoa (s div 60 mod 60) @ ''m'' else '''')
        @ itoa (s mod 60) @ frac_digits 9 u @ ''s'')"

section \<open>Processes\<close>

text \<open>
  What running a process through \<^verbatim>\<open>os/exec\<close> under a context with a deadline gives back: the
  captured output, the error of \<open>Run\<close> (none, an \<open>ExitError\<close> with its code, or another one
  with its text), whether the context's deadline has passed, and the time it took.
\<close>

datatype run_err = RunOk | RunExit int | RunOther string

record RunResult =
  run_stdout :: string
  run_stderr :: string
  run_err :: run_err
  run_deadline :: bool
  run_ms :: int

section \<open>Tables with a primary key\<close>

definition select_pk :: "('r \<Rightarrow> 'k) \<Rightarrow> 'k \<Rightarrow> 'r list \<Rightarrow> 'r option" where
  "select_pk key k rows = find (\<lambda>r. key r = k) rows"

definition update_rows :: "('r \<Rightarrow> bool) \<Rightarrow> ('r \<Rightarrow> 'r) \<Rightarrow> 'r list \<Rightarrow> 'r list" where
  "update_rows p f rows = map (\<lambda>r. if p r then f r else r) rows"

definition pk_ok :: "('r \<Rightarrow> 'k) \<Rightarrow> 'r list \<Rightarrow> bool" where
  "pk_ok key rows \<longleftrightarrow> distinct (map key rows)"

lemma select_pk_None_iff: "select_pk key k rows = None \<longleftrightarrow> k \<notin> key ` set rows"
  by (auto simp: select_pk_def find_None_iff)

lemma select_pk_SomeD:
  "select_pk key k rows = Some r \<Longrightarrow> r \<in> set rows \<and> key r = k"
  by (auto simp: select_pk_def find_Some_iff)

lemma select_pk_Some_iff:
  "pk_ok key rows \<Longrightarrow> select_pk key k rows = Some r \<longleftrightarrow> r \<in> set rows \<and> key r = k"
  by (induction rows) (auto simp: select_pk_def pk_ok_def)

lemma select_pk_append [sql_simps]:
  "select_pk key k (rows @ [r]) =
     (case select_pk key k rows of Some x \<Rightarrow> Some x
      | None \<Rightarrow> if key r = k then Some r else None)"
  by (induction rows) (auto simp: select_pk_def)

lemma select_pk_update_rows [sql_simps]:
  "(\<And>r. p r \<Longrightarrow> key (f r) = key r) \<Longrightarrow>
   select_pk key k (update_rows p f rows) =
     map_option (\<lambda>r. if p r then f r else r) (select_pk key k rows)"
  by (induction rows) (auto simp: select_pk_def update_rows_def)

lemma map_key_update_rows:
  "(\<And>r. p r \<Longrightarrow> key (f r) = key r) \<Longrightarrow> map key (update_rows p f rows) = map key rows"
  by (simp add: update_rows_def)

lemma pk_ok_update_rows [sql_simps]:
  "(\<And>r. p r \<Longrightarrow> key (f r) = key r) \<Longrightarrow> pk_ok key (update_rows p f rows) = pk_ok key rows"
  by (simp add: pk_ok_def map_key_update_rows)

lemma pk_ok_insert:
  "pk_ok key rows \<Longrightarrow> select_pk key (key r) rows = None \<Longrightarrow> pk_ok key (rows @ [r])"
  by (auto simp: pk_ok_def select_pk_None_iff)

lemma pk_ok_Nil [simp]: "pk_ok key []"
  by (simp add: pk_ok_def)

lemma set_update_rows: "set (update_rows p f rows) = (\<lambda>r. if p r then f r else r) ` set rows"
  by (auto simp: update_rows_def)

lemma ball_update_rows:
  "(\<forall>x \<in> set (update_rows p f rows). q x) \<longleftrightarrow> (\<forall>r \<in> set rows. q (if p r then f r else r))"
  by (auto simp: update_rows_def)

lemma update_rows_none: "(\<And>r. r \<in> set rows \<Longrightarrow> \<not> p r) \<Longrightarrow> update_rows p f rows = rows"
  by (induction rows) (auto simp: update_rows_def)

lemma length_update_rows [simp]: "length (update_rows p f rows) = length rows"
  by (simp add: update_rows_def)

lemma filter_update_rows:
  "filter q (update_rows p f rows) =
     map (\<lambda>r. if p r then f r else r) (filter (\<lambda>r. q (if p r then f r else r)) rows)"
  by (induction rows) (auto simp: update_rows_def)

lemma image_key_update_rows:
  "(\<And>r. p r \<Longrightarrow> key (f r) = key r) \<Longrightarrow> key ` set (update_rows p f rows) = key ` set rows"
  by (metis map_key_update_rows set_map)

lemma update_rows_twice:
  "(\<And>r. p r \<Longrightarrow> p (f r) \<and> f (f r) = f r) \<Longrightarrow> update_rows p f (update_rows p f rows) = update_rows p f rows"
  by (simp add: update_rows_def)

lemma find_append_single:
  "find p (xs @ [x]) = (case find p xs of Some y \<Rightarrow> Some y | None \<Rightarrow> if p x then Some x else None)"
  by (induction xs) auto

lemma find_append: "find p (xs @ ys) = (case find p xs of Some x \<Rightarrow> Some x | None \<Rightarrow> find p ys)"
  by (induction xs) auto

section \<open>Invariants of step relations\<close>

inductive reach :: "('s \<Rightarrow> bool) \<Rightarrow> ('s \<Rightarrow> 's \<Rightarrow> bool) \<Rightarrow> 's \<Rightarrow> bool" for init step where
  reach_init: "init s \<Longrightarrow> reach init step s"
| reach_step: "reach init step s \<Longrightarrow> step s t \<Longrightarrow> reach init step t"

locale invariant_system =
  fixes init :: "'s \<Rightarrow> bool" and step :: "'s \<Rightarrow> 's \<Rightarrow> bool" and inv :: "'s \<Rightarrow> bool"
  assumes inv_init: "init s \<Longrightarrow> inv s"
    and inv_step: "inv s \<Longrightarrow> step s t \<Longrightarrow> inv t"
begin

lemma reach_inv: "reach init step s \<Longrightarrow> inv s"
  by (induction rule: reach.induct) (auto intro: inv_init inv_step)

end

section \<open>Queues that ignore a known identifier\<close>

text \<open>
  Both stores keep commands under an identifier and ignore (the agent) or refuse (the
  relay) a second insertion under the same one. A client of such a queue may deliver an
  entry any number of times: only the first delivery has an effect.
\<close>

locale idempotent_queue =
  fixes put :: "'e \<Rightarrow> 'q \<Rightarrow> 'q" and ident :: "'e \<Rightarrow> 'i" and get :: "'q \<Rightarrow> 'i \<Rightarrow> 'v option"
    and entry :: "'e \<Rightarrow> 'v"
  assumes get_put: "get (put e q) i =
      (case get q i of Some v \<Rightarrow> Some v | None \<Rightarrow> if i = ident e then Some (entry e) else None)"
begin

lemma get_put_known: "get q (ident e) \<noteq> None \<Longrightarrow> get (put e q) = get q"
  by (rule ext) (auto simp: get_put split: option.splits)

lemma get_fold_put:
  "get (fold put es q) i =
     (case get q i of Some v \<Rightarrow> Some v | None \<Rightarrow> map_option entry (find (\<lambda>e. ident e = i) es))"
  by (induction es arbitrary: q) (auto simp: get_put split: option.splits)

lemma redelivery:
  assumes "set es' \<subseteq> set es"
  shows "get (fold put es' (fold put es q)) = get (fold put es q)"
proof (rule ext)
  fix i
  have "find (\<lambda>e. ident e = i) es' = None" if "find (\<lambda>e. ident e = i) es = None"
    using that assms by (auto simp: find_None_iff)
  then show "get (fold put es' (fold put es q)) i = get (fold put es q) i"
    by (auto simp: get_fold_put split: option.splits)
qed

lemma delivered: "e \<in> set es \<Longrightarrow> get (fold put es q) (ident e) \<noteq> None"
  by (cases "find (\<lambda>x. ident x = ident e) es")
     (auto simp: get_fold_put find_None_iff split: option.splits)

lemma undisturbed: "get q i = Some v \<Longrightarrow> get (fold put es q) i = Some v"
  by (simp add: get_fold_put)

end

end
