(* ===== verification/Json.thy ===== *)
theory Json
  imports Prelude
begin

text \<open>
  The part of Go's \<^verbatim>\<open>encoding/json\<close> the protocol relies on, on JSON values.
  \<^item> \<open>json\<close> is a parsed value. A number is the rational it denotes, an object keeps the
    order and the duplicates of its members.
  \<^item> Decoding follows \<^verbatim>\<open>json.Unmarshal\<close>: it writes into an existing value, goes through
    the members of an object in their order, matches a key exactly and then
    case-insensitively (\<open>find_field\<close>), ignores unknown keys, leaves the target alone on
    \<open>null\<close>, and on a type mismatch remembers the error and goes on. A decoder therefore
    returns the error flag together with the value written so far.
  \<^item> A \<open>float64\<close> is the rational it denotes; NaN and the infinities have no JSON form.
  \<^item> The locale \<open>codec\<close> is the contract between a marshaller and the decoder of the same
    struct: decoding a marshalled value into the zero value gives it back.
\<close>

type_synonym float64 = rat

datatype json =
    JNull
  | JBool bool
  | JNum rat
  | JStr string
  | JArr "json list"
  | JObj "(string \<times> json) list"

type_synonym 'a dec = "json \<Rightarrow> 'a \<Rightarrow> bool \<times> 'a"

section \<open>Decoding scalars and slices\<close>

definition dec_string :: "string dec" where
  "dec_string j old = (case j of JStr s \<Rightarrow> (False, s) | JNull \<Rightarrow> (False, old) | _ \<Rightarrow> (True, old))"

definition dec_bool :: "bool dec" where
  "dec_bool j old = (case j of JBool b \<Rightarrow> (False, b) | JNull \<Rightarrow> (False, old) | _ \<Rightarrow> (True, old))"

definition dec_float :: "float64 dec" where
  "dec_float j old = (case j of JNum q \<Rightarrow> (False, q) | JNull \<Rightarrow> (False, old) | _ \<Rightarrow> (True, old))"

definition dec_integer :: "(int \<Rightarrow> bool) \<Rightarrow> int dec" where
  "dec_integer in_range j old =
     (case j of
        JNum q \<Rightarrow> (if snd (quotient_of q) = 1 \<and> in_range (fst (quotient_of q))
                   then (False, fst (quotient_of q)) else (True, old))
      | JNull \<Rightarrow> (False, old)
      | _ \<Rightarrow> (True, old))"

abbreviation dec_int64 :: "int dec" where
  "dec_int64 \<equiv> dec_integer in_int64"

abbreviation dec_uint64 :: "int dec" where
  "dec_uint64 \<equiv> dec_integer in_uint64"

text \<open>A slice is reset and filled with one decoded element per member of the array.\<close>

fun dec_elems :: "'a dec \<Rightarrow> 'a \<Rightarrow> json list \<Rightarrow> bool \<times> 'a list" where
  "dec_elems d zero [] = (False, [])"
| "dec_elems d zero (j # js) =
     (let (e, x) = d j zero; (es, xs) = dec_elems d zero js in (e \<or> es, x # xs))"

definition dec_slice :: "'a dec \<Rightarrow> 'a \<Rightarrow> 'a list dec" where
  "dec_slice d zero j old =
     (case j of JArr js \<Rightarrow> dec_elems d zero js | JNull \<Rightarrow> (False, []) | _ \<Rightarrow> (True, old))"

section \<open>Decoding structs\<close>

type_synonym 'r fields = "(string \<times> 'r dec) list"

definition find_field :: "'r fields \<Rightarrow> string \<Rightarrow> 'r dec option" where
  "find_field fs k =
     (case find (\<lambda>f. fst f = k) fs of
        Some f \<Rightarrow> Some (snd f)
      | None \<Rightarrow> map_option snd (find (\<lambda>f. ToLower (fst f) = ToLower k) fs))"

fun dec_members :: "'r fields \<Rightarrow> (string \<times> json) list \<Rightarrow> 'r \<Rightarrow> bool \<times> 'r" where
  "dec_members fs [] r = (False, r)"
| "dec_members fs ((k, v) # kvs) r =
     (case find_field fs k of
        None \<Rightarrow> dec_members fs kvs r
      | Some d \<Rightarrow> (let (e, r1) = d v r; (e2, r2) = dec_members fs kvs r1 in (e \<or> e2, r2)))"

definition dec_struct :: "'r fields \<Rightarrow> 'r dec" where
  "dec_struct fs j r =
     (case j of JObj kvs \<Rightarrow> dec_members fs kvs r | JNull \<Rightarrow> (False, r) | _ \<Rightarrow> (True, r))"

text \<open>A field of a struct: decode into the old value of the field and store the new one.\<close>

definition into :: "'a dec \<Rightarrow> ('r \<Rightarrow> 'a) \<Rightarrow> (('a \<Rightarrow> 'a) \<Rightarrow> 'r \<Rightarrow> 'r) \<Rightarrow> 'r dec" where
  "into d get_fld upd j r = (let (e, x) = d j (get_fld r) in (e, upd (\<lambda>_. x) r))"

section \<open>Encoding\<close>

definition enc_int :: "int \<Rightarrow> json" where
  "enc_int n = JNum (of_int n)"

definition enc_slice :: "('a \<Rightarrow> json) \<Rightarrow> 'a list \<Rightarrow> json" where
  \<comment> \<open>a nil slice is \<open>null\<close>; the slices encoded this way are nil when they are empty\<close>
  "enc_slice f xs = (if xs = [] then JNull else JArr (map f xs))"

text \<open>A member with the option \<open>omitempty\<close> is left out when the value is empty.\<close>

definition omitempty :: "bool \<Rightarrow> string \<Rightarrow> json \<Rightarrow> (string \<times> json) list" where
  "omitempty is_empty k v = (if is_empty then [] else [(k, v)])"

section \<open>Facts about decoding\<close>

lemma dec_scalar_simps [dec_simps]:
  "dec_string (JStr s) s0 = (False, s)"
  "dec_bool (JBool b) b0 = (False, b)"
  "dec_float (JNum q) q0 = (False, q)"
  by (simp_all add: dec_string_def dec_bool_def dec_float_def)

lemma dec_integer_enc_int [dec_simps]: "in_range n \<Longrightarrow> dec_integer in_range (enc_int n) n0 = (False, n)"
  by (simp add: dec_integer_def enc_int_def quotient_of_int)

lemma dec_members_append:
  "dec_members fs (xs @ ys) r =
     (let (e1, r1) = dec_members fs xs r; (e2, r2) = dec_members fs ys r1 in (e1 \<or> e2, r2))"
  by (induction fs xs r rule: dec_members.induct) (auto simp: Let_def split: option.splits prod.splits)

lemma dec_members_omitempty:
  "dec_members fs (omitempty c k v @ kvs) r =
     (if c then dec_members fs kvs r else dec_members fs ((k, v) # kvs) r)"
  by (simp add: omitempty_def)

lemma find_field_exact [dec_simps]:
  "find_field ((k, d) # fs) k = Some d"
  "k' \<noteq> k \<Longrightarrow> find (\<lambda>f. fst f = k) fs \<noteq> None \<Longrightarrow> find_field ((k', d') # fs) k = find_field fs k"
  by (auto simp: find_field_def)

lemma dec_elems_map:
  "(\<And>x. x \<in> set xs \<Longrightarrow> d (f x) zero = (False, x)) \<Longrightarrow> dec_elems d zero (map f xs) = (False, xs)"
  by (induction xs) auto

lemma dec_struct_JObj [dec_simps]: "dec_struct fs (JObj kvs) r = dec_members fs kvs r"
  by (simp add: dec_struct_def)

lemma dec_struct_JNull [dec_simps]: "dec_struct fs JNull r = (False, r)"
  by (simp add: dec_struct_def)

lemma dec_struct_mismatch:
  "(\<forall>kvs. j \<noteq> JObj kvs) \<Longrightarrow> j \<noteq> JNull \<Longrightarrow> dec_struct fs j r = (True, r)"
  by (cases j) (auto simp: dec_struct_def)

section \<open>The contract of a marshaller and its decoder\<close>

locale codec =
  fixes enc :: "'a \<Rightarrow> json" and dec :: "'a dec" and zero :: 'a and valid :: "'a \<Rightarrow> bool"
  assumes dec_enc: "valid x \<Longrightarrow> dec (enc x) zero = (False, x)"
begin

lemma slice_roundtrip:
  "(\<forall>x \<in> set xs. valid x) \<Longrightarrow> dec_slice dec zero (enc_slice enc xs) old = (False, xs)"
  by (simp add: dec_slice_def enc_slice_def dec_elems_map dec_enc)

lemma array_roundtrip:
  "(\<forall>x \<in> set xs. valid x) \<Longrightarrow> dec_slice dec zero (JArr (map enc xs)) old = (False, xs)"
  by (simp add: dec_slice_def dec_elems_map dec_enc)

lemma enc_inject: "valid x \<Longrightarrow> valid y \<Longrightarrow> enc x = enc y \<longleftrightarrow> x = y"
  using dec_enc by (metis prod.inject)

end

interpretation string_codec: codec JStr dec_string "''''" "\<lambda>_. True"
  by unfold_locales (simp add: dec_simps)

end
