(* ===== verification/Protocol.thy ===== *)
theory Protocol
  imports Json
begin

text \<open>
  The wire protocol, \<^verbatim>\<open>internal/protocol/protocol.go\<close> (the agent has a copy of the same
  declarations in \<^verbatim>\<open>agent/internal/protocol/protocol.go\<close>): the message types, the
  envelope, and one record per payload struct. For each payload, \<open>marshal_X\<close> is the value
  \<^verbatim>\<open>json.Marshal\<close> produces from the struct tags (\<open>omitempty\<close> included) and \<open>unmarshal_X\<close>
  the decoder the tags induce; \<open>valid_X\<close> says that the integers of the record fit the width
  their Go types have. Every pair is an interpretation of the locale \<open>codec\<close>, and the locale
  \<open>payload_codec\<close> lifts the round trip to whole envelopes.
\<close>

section \<open>Message types, roles and states\<close>

abbreviation TypeAuth :: string where
  "TypeAuth \<equiv> ''AUTH''"

abbreviation TypeAuthAck :: string where
  "TypeAuthAck \<equiv> ''AUTH_ACK''"

abbreviation TypeHeartbeat :: string where
  "TypeHeartbeat \<equiv> ''HEARTBEAT''"

abbreviation TypeHeartbeatAck :: string where
  "TypeHeartbeatAck \<equiv> ''HEARTBEAT_ACK''"

abbreviation TypeEnqueueCmd :: string where
  "TypeEnqueueCmd \<equiv> ''ENQUEUE_CMD''"

abbreviation TypeDispatchCmd :: string where
  "TypeDispatchCmd \<equiv> ''DISPATCH_CMD''"

abbreviation TypeCmdResult :: string where
  "TypeCmdResult \<equiv> ''CMD_RESULT''"

abbreviation TypeResultAck :: string where
  "TypeResultAck \<equiv> ''RESULT_ACK''"

abbreviation TypeSyncReq :: string where
  "TypeSyncReq \<equiv> ''SYNC_REQ''"

abbreviation TypeSyncResp :: string where
  "TypeSyncResp \<equiv> ''SYNC_RESP''"

abbreviation TypeDeviceStatus :: string where
  "TypeDeviceStatus \<equiv> ''DEVICE_STATUS''"

abbreviation TypeGetDevices :: string where
  "TypeGetDevices \<equiv> ''GET_DEVICES''"

abbreviation TypeDeviceList :: string where
  "TypeDeviceList \<equiv> ''DEVICE_LIST''"

abbreviation TypeError :: string where
  "TypeError \<equiv> ''ERROR''"

abbreviation TypeFileListReq :: string where
  "TypeFileListReq \<equiv> ''FILE_LIST_REQ''"

abbreviation TypeFileListResp :: string where
  "TypeFileListResp \<equiv> ''FILE_LIST_RESP''"

abbreviation TypeFileReadReq :: string where
  "TypeFileReadReq \<equiv> ''FILE_READ_REQ''"

abbreviation TypeFileReadResp :: string where
  "TypeFileReadResp \<equiv> ''FILE_READ_RESP''"

abbreviation TypeFileWriteReq :: string where
  "TypeFileWriteReq \<equiv> ''FILE_WRITE_REQ''"

abbreviation TypeFileWriteResp :: string where
  "TypeFileWriteResp \<equiv> ''FILE_WRITE_RESP''"

abbreviation TypeFileDeleteReq :: string where
  "TypeFileDeleteReq \<equiv> ''FILE_DELETE_REQ''"

abbreviation TypeFileDeleteResp :: string where
  "TypeFileDeleteResp \<equiv> ''FILE_DELETE_RESP''"

abbreviation TypeProcessListReq :: string where
  "TypeProcessListReq \<equiv> ''PROCESS_LIST_REQ''"

abbreviation TypeProcessListResp :: string where
  "TypeProcessListResp \<equiv> ''PROCESS_LIST_RESP''"

abbreviation TypeProcessKillReq :: string where
  "TypeProcessKillReq \<equiv> ''PROCESS_KILL_REQ''"

abbreviation TypeProcessKillResp :: string where
  "TypeProcessKillResp \<equiv> ''PROCESS_KILL_RESP''"

abbreviation TypeAuditLog :: string where
  "TypeAuditLog \<equiv> ''AUDIT_LOG''"

abbreviation TypeGetAuditLogs :: string where
  "TypeGetAuditLogs \<equiv> ''GET_AUDIT_LOGS''"

abbreviation TypeAuditLogsList :: string where
  "TypeAuditLogsList \<equiv> ''AUDIT_LOGS_LIST''"

abbreviation TypeScreenCaptureReq :: string where
  "TypeScreenCaptureReq \<equiv> ''SCREEN_CAPTURE_REQ''"

abbreviation TypeScreenCaptureResp :: string where
  "TypeScreenCaptureResp \<equiv> ''SCREEN_CAPTURE_RESP''"

abbreviation RoleAgent :: string where
  "RoleAgent \<equiv> ''agent''"

abbreviation RoleController :: string where
  "RoleController \<equiv> ''controller''"

abbreviation StatusOnline :: string where
  "StatusOnline \<equiv> ''ONLINE''"

abbreviation StatusDegraded :: string where
  "StatusDegraded \<equiv> ''DEGRADED''"

abbreviation StatusOffline :: string where
  "StatusOffline \<equiv> ''OFFLINE''"

section \<open>The envelope\<close>

text \<open>
  \<open>Payload\<close> is a \<^verbatim>\<open>json.RawMessage\<close>: absent (\<open>None\<close>) or the JSON value it holds.
  \<open>NewEnvelope\<close> takes the fresh identifier and the time it stamps as arguments.
\<close>

record Envelope =
  env_Type :: string
  env_ID :: string
  env_DeviceID :: string
  env_Timestamp :: int
  env_Payload :: "json option"

definition NewEnvelope :: "string \<Rightarrow> int \<Rightarrow> string \<Rightarrow> string \<Rightarrow> json option \<Rightarrow> Envelope" where
  "NewEnvelope uuid now msgType deviceID payload =
     \<lparr>env_Type = msgType, env_ID = uuid, env_DeviceID = deviceID,
      env_Timestamp = now, env_Payload = payload\<rparr>"

definition DecodePayload :: "'a dec \<Rightarrow> Envelope \<Rightarrow> 'a \<Rightarrow> bool \<times> 'a" where
  "DecodePayload dec env target =
     (case env_Payload env of None \<Rightarrow> (False, target) | Some j \<Rightarrow> dec j target)"

definition marshal_Envelope :: "Envelope \<Rightarrow> json" where
  "marshal_Envelope env = JObj (
      [(''type'', JStr (env_Type env))]
    @ omitempty (env_ID env = '''') ''id'' (JStr (env_ID env))
    @ omitempty (env_DeviceID env = '''') ''deviceId'' (JStr (env_DeviceID env))
    @ [(''timestamp'', enc_int (env_Timestamp env))]
    @ (case env_Payload env of None \<Rightarrow> [] | Some j \<Rightarrow> [(''payload'', j)]))"

definition zero_Envelope :: Envelope where
  "zero_Envelope = \<lparr>env_Type = '''', env_ID = '''', env_DeviceID = '''',
      env_Timestamp = 0, env_Payload = None\<rparr>"

definition dec_raw :: "json option dec" where
  "dec_raw j old = (False, Some j)"

definition unmarshal_Envelope :: "Envelope dec" where
  "unmarshal_Envelope = dec_struct [
      (''type'', into dec_string env_Type env_Type_update),
      (''id'', into dec_string env_ID env_ID_update),
      (''deviceId'', into dec_string env_DeviceID env_DeviceID_update),
      (''timestamp'', into dec_int64 env_Timestamp env_Timestamp_update),
      (''payload'', into dec_raw env_Payload env_Payload_update)]"

definition valid_Envelope :: "Envelope \<Rightarrow> bool" where
  "valid_Envelope env \<longleftrightarrow> in_int64 (env_Timestamp env)"

section \<open>Payloads\<close>

record AuthPayload =
  ap_Role :: string
  ap_DeviceID :: string
  ap_Token :: string
  ap_Hostname :: string
  ap_OS :: string
  ap_Version :: string
  ap_MACAddress :: string

definition zero_AuthPayload :: AuthPayload where
  "zero_AuthPayload = \<lparr>ap_Role = '''', ap_DeviceID = '''', ap_Token = '''', ap_Hostname = '''',
      ap_OS = '''', ap_Version = '''', ap_MACAddress = ''''\<rparr>"

definition marshal_AuthPayload :: "AuthPayload \<Rightarrow> json" where
  "marshal_AuthPayload p = JObj (
      [(''role'', JStr (ap_Role p))]
    @ [(''deviceId'', JStr (ap_DeviceID p))]
    @ omitempty (ap_Token p = '''') ''token'' (JStr (ap_Token p))
    @ omitempty (ap_Hostname p = '''') ''hostname'' (JStr (ap_Hostname p))
    @ omitempty (ap_OS p = '''') ''os'' (JStr (ap_OS p))
    @ omitempty (ap_Version p = '''') ''version'' (JStr (ap_Version p))
    @ omitempty (ap_MACAddress p = '''') ''macAddress'' (JStr (ap_MACAddress p)))"

definition unmarshal_AuthPayload :: "AuthPayload dec" where
  "unmarshal_AuthPayload = dec_struct [
      (''role'', into dec_string ap_Role ap_Role_update),
      (''deviceId'', into dec_string ap_DeviceID ap_DeviceID_update),
      (''token'', into dec_string ap_Token ap_Token_update),
      (''hostname'', into dec_string ap_Hostname ap_Hostname_update),
      (''os'', into dec_string ap_OS ap_OS_update),
      (''version'', into dec_string ap_Version ap_Version_update),
      (''macAddress'', into dec_string ap_MACAddress ap_MACAddress_update)]"

definition valid_AuthPayload :: "AuthPayload \<Rightarrow> bool" where
  "valid_AuthPayload p \<longleftrightarrow> True"

record AuthAckPayload =
  aa_Success :: bool
  aa_DeviceID :: string
  aa_SessionID :: string
  aa_Error :: string
  aa_ServerTime :: int

definition zero_AuthAckPayload :: AuthAckPayload where
  "zero_AuthAckPayload = \<lparr>aa_Success = False, aa_DeviceID = '''', aa_SessionID = '''', aa_Error = '''',
      aa_ServerTime = 0\<rparr>"

definition marshal_AuthAckPayload :: "AuthAckPayload \<Rightarrow> json" where
  "marshal_AuthAckPayload p = JObj (
      [(''success'', JBool (aa_Success p))]
    @ omitempty (aa_DeviceID p = '''') ''deviceId'' (JStr (aa_DeviceID p))
    @ omitempty (aa_SessionID p = '''') ''sessionId'' (JStr (aa_SessionID p))
    @ omitempty (aa_Error p = '''') ''error'' (JStr (aa_Error p))
    @ [(''serverTime'', enc_int (aa_ServerTime p))])"

definition unmarshal_AuthAckPayload :: "AuthAckPayload dec" where
  "unmarshal_AuthAckPayload = dec_struct [
      (''success'', into dec_bool aa_Success aa_Success_update),
      (''deviceId'', into dec_string aa_DeviceID aa_DeviceID_update),
      (''sessionId'', into dec_string aa_SessionID aa_SessionID_update),
      (''error'', into dec_string aa_Error aa_Error_update),
      (''serverTime'', into dec_int64 aa_ServerTime aa_ServerTime_update)]"

definition valid_AuthAckPayload :: "AuthAckPayload \<Rightarrow> bool" where
  "valid_AuthAckPayload p \<longleftrightarrow> in_int64 (aa_ServerTime p)"

record HealthMetrics =
  hm_CPUPercent :: float64
  hm_RAMPercent :: float64
  hm_RAMUsedBytes :: int
  hm_RAMTotalBytes :: int
  hm_DiskUsedBytes :: int
  hm_DiskTotalBytes :: int
  hm_UptimeSec :: int
  hm_ProcessCount :: int
  hm_PendingCmdCount :: int
  hm_MACAddress :: string

definition zero_HealthMetrics :: HealthMetrics where
  "zero_HealthMetrics = \<lparr>hm_CPUPercent = 0, hm_RAMPercent = 0, hm_RAMUsedBytes = 0, hm_RAMTotalBytes = 0,
      hm_DiskUsedBytes = 0, hm_DiskTotalBytes = 0, hm_UptimeSec = 0, hm_ProcessCount = 0,
      hm_PendingCmdCount = 0, hm_MACAddress = ''''\<rparr>"

definition marshal_HealthMetrics :: "HealthMetrics \<Rightarrow> json" where
  "marshal_HealthMetrics m = JObj (
      [(''cpuPercent'', JNum (hm_CPUPercent m))]
    @ [(''ramPercent'', JNum (hm_RAMPercent m))]
    @ [(''ramUsedBytes'', enc_int (hm_RAMUsedBytes m))]
    @ [(''ramTotalBytes'', enc_int (hm_RAMTotalBytes m))]
    @ [(''diskUsedBytes'', enc_int (hm_DiskUsedBytes m))]
    @ [(''diskTotalBytes'', enc_int (hm_DiskTotalBytes m))]
    @ [(''uptimeSec'', enc_int (hm_UptimeSec m))]
    @ [(''processCount'', enc_int (hm_ProcessCount m))]
    @ [(''pendingCmdCount'', enc_int (hm_PendingCmdCount m))]
    @ omitempty (hm_MACAddress m = '''') ''macAddress'' (JStr (hm_MACAddress m)))"

definition unmarshal_HealthMetrics :: "HealthMetrics dec" where
  "unmarshal_HealthMetrics = dec_struct [
      (''cpuPercent'', into dec_float hm_CPUPercent hm_CPUPercent_update),
      (''ramPercent'', into dec_float hm_RAMPercent hm_RAMPercent_update),
      (''ramUsedBytes'', into dec_uint64 hm_RAMUsedBytes hm_RAMUsedBytes_update),
      (''ramTotalBytes'', into dec_uint64 hm_RAMTotalBytes hm_RAMTotalBytes_update),
      (''diskUsedBytes'', into dec_uint64 hm_DiskUsedBytes hm_DiskUsedBytes_update),
      (''diskTotalBytes'', into dec_uint64 hm_DiskTotalBytes hm_DiskTotalBytes_update),
      (''uptimeSec'', into dec_int64 hm_UptimeSec hm_UptimeSec_update),
      (''processCount'', into dec_int64 hm_ProcessCount hm_ProcessCount_update),
      (''pendingCmdCount'', into dec_int64 hm_PendingCmdCount hm_PendingCmdCount_update),
      (''macAddress'', into dec_string hm_MACAddress hm_MACAddress_update)]"

definition valid_HealthMetrics :: "HealthMetrics \<Rightarrow> bool" where
  "valid_HealthMetrics m \<longleftrightarrow> 
      in_uint64 (hm_RAMUsedBytes m)
    \<and> in_uint64 (hm_RAMTotalBytes m)
    \<and> in_uint64 (hm_DiskUsedBytes m)
    \<and> in_uint64 (hm_DiskTotalBytes m)
    \<and> in_int64 (hm_UptimeSec m)
    \<and> in_int64 (hm_ProcessCount m)
    \<and> in_int64 (hm_PendingCmdCount m)"

record HeartbeatPayload =
  hb_DeviceID :: string
  hb_Metrics :: HealthMetrics

definition zero_HeartbeatPayload :: HeartbeatPayload where
  "zero_HeartbeatPayload = \<lparr>hb_DeviceID = '''', hb_Metrics = zero_HealthMetrics\<rparr>"

definition marshal_HeartbeatPayload :: "HeartbeatPayload \<Rightarrow> json" where
  "marshal_HeartbeatPayload p = JObj (
      [(''deviceId'', JStr (hb_DeviceID p))]
    @ [(''metrics'', marshal_HealthMetrics (hb_Metrics p))])"

definition unmarshal_HeartbeatPayload :: "HeartbeatPayload dec" where
  "unmarshal_HeartbeatPayload = dec_struct [
      (''deviceId'', into dec_string hb_DeviceID hb_DeviceID_update),
      (''metrics'', into unmarshal_HealthMetrics hb_Metrics hb_Metrics_update)]"

definition valid_HeartbeatPayload :: "HeartbeatPayload \<Rightarrow> bool" where
  "valid_HeartbeatPayload p \<longleftrightarrow> valid_HealthMetrics (hb_Metrics p)"

record HeartbeatAckPayload =
  ha_DeviceID :: string
  ha_ServerTime :: int

definition marshal_HeartbeatAckPayload :: "HeartbeatAckPayload \<Rightarrow> json" where
  "marshal_HeartbeatAckPayload p = JObj (
      [(''deviceId'', JStr (ha_DeviceID p))]
    @ [(''serverTime'', enc_int (ha_ServerTime p))])"

record CommandPayload =
  cp_CommandID :: string
  cp_DeviceID :: string
  cp_Command :: string
  cp_TimeoutSec :: int
  cp_CreatedAt :: int

definition zero_CommandPayload :: CommandPayload where
  "zero_CommandPayload = \<lparr>cp_CommandID = '''', cp_DeviceID = '''', cp_Command = '''', cp_TimeoutSec = 0,
      cp_CreatedAt = 0\<rparr>"

definition marshal_CommandPayload :: "CommandPayload \<Rightarrow> json" where
  "marshal_CommandPayload p = JObj (
      [(''commandId'', JStr (cp_CommandID p))]
    @ [(''deviceId'', JStr (cp_DeviceID p))]
    @ [(''command'', JStr (cp_Command p))]
    @ omitempty (cp_TimeoutSec p = 0) ''timeoutSec'' (enc_int (cp_TimeoutSec p))
    @ [(''createdAt'', enc_int (cp_CreatedAt p))])"

definition unmarshal_CommandPayload :: "CommandPayload dec" where
  "unmarshal_CommandPayload = dec_struct [
      (''commandId'', into dec_string cp_CommandID cp_CommandID_update),
      (''deviceId'', into dec_string cp_DeviceID cp_DeviceID_update),
      (''command'', into dec_string cp_Command cp_Command_update),
      (''timeoutSec'', into dec_int64 cp_TimeoutSec cp_TimeoutSec_update),
      (''createdAt'', into dec_int64 cp_CreatedAt cp_CreatedAt_update)]"

definition valid_CommandPayload :: "CommandPayload \<Rightarrow> bool" where
  "valid_CommandPayload p \<longleftrightarrow> in_int64 (cp_TimeoutSec p) \<and> in_int64 (cp_CreatedAt p)"

record ResultPayload =
  rp_ResultID :: string
  rp_CommandID :: string
  rp_DeviceID :: string
  rp_Stdout :: string
  rp_Stderr :: string
  rp_ExitCode :: int
  rp_ExecutedAt :: int
  rp_DurationMs :: int
  rp_TimedOut :: bool

definition zero_ResultPayload :: ResultPayload where
  "zero_ResultPayload = \<lparr>rp_ResultID = '''', rp_CommandID = '''', rp_DeviceID = '''', rp_Stdout = '''',
      rp_Stderr = '''', rp_ExitCode = 0, rp_ExecutedAt = 0, rp_DurationMs = 0,
      rp_TimedOut = False\<rparr>"

definition marshal_ResultPayload :: "ResultPayload \<Rightarrow> json" where
  "marshal_ResultPayload p = JObj (
      omitempty (rp_ResultID p = '''') ''resultId'' (JStr (rp_ResultID p))
    @ [(''commandId'', JStr (rp_CommandID p))]
    @ [(''deviceId'', JStr (rp_DeviceID p))]
    @ [(''stdout'', JStr (rp_Stdout p))]
    @ [(''stderr'', JStr (rp_Stderr p))]
    @ [(''exitCode'', enc_int (rp_ExitCode p))]
    @ [(''executedAt'', enc_int (rp_ExecutedAt p))]
    @ omitempty (rp_DurationMs p = 0) ''durationMs'' (enc_int (rp_DurationMs p))
    @ omitempty (\<not> rp_TimedOut p) ''timedOut'' (JBool (rp_TimedOut p)))"

definition unmarshal_ResultPayload :: "ResultPayload dec" where
  "unmarshal_ResultPayload = dec_struct [
      (''resultId'', into dec_string rp_ResultID rp_ResultID_update),
      (''commandId'', into dec_string rp_CommandID rp_CommandID_update),
      (''deviceId'', into dec_string rp_DeviceID rp_DeviceID_update),
      (''stdout'', into dec_string rp_Stdout rp_Stdout_update),
      (''stderr'', into dec_string rp_Stderr rp_Stderr_update),
      (''exitCode'', into dec_int64 rp_ExitCode rp_ExitCode_update),
      (''executedAt'', into dec_int64 rp_ExecutedAt rp_ExecutedAt_update),
      (''durationMs'', into dec_int64 rp_DurationMs rp_DurationMs_update),
      (''timedOut'', into dec_bool rp_TimedOut rp_TimedOut_update)]"

definition valid_ResultPayload :: "ResultPayload \<Rightarrow> bool" where
  "valid_ResultPayload p \<longleftrightarrow> 
      in_int64 (rp_ExitCode p)
    \<and> in_int64 (rp_ExecutedAt p)
    \<and> in_int64 (rp_DurationMs p)"

record ResultAckPayload =
  ra_CommandID :: string
  ra_ResultID :: string
  ra_Success :: bool

definition zero_ResultAckPayload :: ResultAckPayload where
  "zero_ResultAckPayload = \<lparr>ra_CommandID = '''', ra_ResultID = '''', ra_Success = False\<rparr>"

definition marshal_ResultAckPayload :: "ResultAckPayload \<Rightarrow> json" where
  "marshal_ResultAckPayload p = JObj (
      [(''commandId'', JStr (ra_CommandID p))]
    @ omitempty (ra_ResultID p = '''') ''resultId'' (JStr (ra_ResultID p))
    @ [(''success'', JBool (ra_Success p))])"

definition unmarshal_ResultAckPayload :: "ResultAckPayload dec" where
  "unmarshal_ResultAckPayload = dec_struct [
      (''commandId'', into dec_string ra_CommandID ra_CommandID_update),
      (''resultId'', into dec_string ra_ResultID ra_ResultID_update),
      (''success'', into dec_bool ra_Success ra_Success_update)]"

definition valid_ResultAckPayload :: "ResultAckPayload \<Rightarrow> bool" where
  "valid_ResultAckPayload p \<longleftrightarrow> True"

record SyncReqPayload =
  sq_DeviceID :: string
  sq_UnsyncedResults :: "ResultPayload list"

definition zero_SyncReqPayload :: SyncReqPayload where
  "zero_SyncReqPayload = \<lparr>sq_DeviceID = '''', sq_UnsyncedResults = []\<rparr>"

definition marshal_SyncReqPayload :: "SyncReqPayload \<Rightarrow> json" where
  "marshal_SyncReqPayload p = JObj (
      [(''deviceId'', JStr (sq_DeviceID p))]
    @ omitempty (sq_UnsyncedResults p = []) ''unsyncedResults'' (enc_slice marshal_ResultPayload (sq_UnsyncedResults p)))"

definition unmarshal_SyncReqPayload :: "SyncReqPayload dec" where
  "unmarshal_SyncReqPayload = dec_struct [
      (''deviceId'', into dec_string sq_DeviceID sq_DeviceID_update),
      (''unsyncedResults'', into (dec_slice unmarshal_ResultPayload zero_ResultPayload) sq_UnsyncedResults sq_UnsyncedResults_update)]"

definition valid_SyncReqPayload :: "SyncReqPayload \<Rightarrow> bool" where
  "valid_SyncReqPayload p \<longleftrightarrow> (\<forall>x \<in> set (sq_UnsyncedResults p). valid_ResultPayload x)"

record SyncRespPayload =
  sr_DeviceID :: string
  sr_AckedResults :: "string list"
  sr_PendingCommands :: "CommandPayload list"

definition zero_SyncRespPayload :: SyncRespPayload where
  "zero_SyncRespPayload = \<lparr>sr_DeviceID = '''', sr_AckedResults = [], sr_PendingCommands = []\<rparr>"

definition marshal_SyncRespPayload :: "SyncRespPayload \<Rightarrow> json" where
  "marshal_SyncRespPayload p = JObj (
      [(''deviceId'', JStr (sr_DeviceID p))]
    @ [(''ackedResults'', enc_slice JStr (sr_AckedResults p))]
    @ [(''pendingCommands'', enc_slice marshal_CommandPayload (sr_PendingCommands p))])"

definition unmarshal_SyncRespPayload :: "SyncRespPayload dec" where
  "unmarshal_SyncRespPayload = dec_struct [
      (''deviceId'', into dec_string sr_DeviceID sr_DeviceID_update),
      (''ackedResults'', into (dec_slice dec_string '''') sr_AckedResults sr_AckedResults_update),
      (''pendingCommands'', into (dec_slice unmarshal_CommandPayload zero_CommandPayload) sr_PendingCommands sr_PendingCommands_update)]"

definition valid_SyncRespPayload :: "SyncRespPayload \<Rightarrow> bool" where
  "valid_SyncRespPayload p \<longleftrightarrow> (\<forall>x \<in> set (sr_PendingCommands p). valid_CommandPayload x)"

record UserAccount =
  ua_UserID :: string
  ua_Username :: string
  ua_Password :: string
  ua_AuthToken :: string
  ua_CreatedAt :: int

definition zero_UserAccount :: UserAccount where
  "zero_UserAccount = \<lparr>ua_UserID = '''', ua_Username = '''', ua_Password = '''', ua_AuthToken = '''',
      ua_CreatedAt = 0\<rparr>"

definition marshal_UserAccount :: "UserAccount \<Rightarrow> json" where
  "marshal_UserAccount u = JObj (
      [(''userId'', JStr (ua_UserID u))]
    @ [(''username'', JStr (ua_Username u))]
    @ omitempty (ua_Password u = '''') ''password'' (JStr (ua_Password u))
    @ [(''authToken'', JStr (ua_AuthToken u))]
    @ [(''createdAt'', enc_int (ua_CreatedAt u))])"

definition unmarshal_UserAccount :: "UserAccount dec" where
  "unmarshal_UserAccount = dec_struct [
      (''userId'', into dec_string ua_UserID ua_UserID_update),
      (''username'', into dec_string ua_Username ua_Username_update),
      (''password'', into dec_string ua_Password ua_Password_update),
      (''authToken'', into dec_string ua_AuthToken ua_AuthToken_update),
      (''createdAt'', into dec_int64 ua_CreatedAt ua_CreatedAt_update)]"

definition valid_UserAccount :: "UserAccount \<Rightarrow> bool" where
  "valid_UserAccount u \<longleftrightarrow> in_int64 (ua_CreatedAt u)"

record UserAuthRequest =
  ur_Username :: string
  ur_Password :: string

definition zero_UserAuthRequest :: UserAuthRequest where
  "zero_UserAuthRequest = \<lparr>ur_Username = '''', ur_Password = ''''\<rparr>"

definition marshal_UserAuthRequest :: "UserAuthRequest \<Rightarrow> json" where
  "marshal_UserAuthRequest p = JObj (
      [(''username'', JStr (ur_Username p))]
    @ [(''password'', JStr (ur_Password p))])"

definition unmarshal_UserAuthRequest :: "UserAuthRequest dec" where
  "unmarshal_UserAuthRequest = dec_struct [
      (''username'', into dec_string ur_Username ur_Username_update),
      (''password'', into dec_string ur_Password ur_Password_update)]"

definition valid_UserAuthRequest :: "UserAuthRequest \<Rightarrow> bool" where
  "valid_UserAuthRequest p \<longleftrightarrow> True"

record DeviceInfo =
  di_DeviceID :: string
  di_UserID :: string
  di_Hostname :: string
  di_OS :: string
  di_Status :: string
  di_LastHeartbeat :: int
  di_ConnectedAt :: int
  di_MACAddress :: string
  di_Metrics :: HealthMetrics

definition zero_DeviceInfo :: DeviceInfo where
  "zero_DeviceInfo = \<lparr>di_DeviceID = '''', di_UserID = '''', di_Hostname = '''', di_OS = '''',
      di_Status = '''', di_LastHeartbeat = 0, di_ConnectedAt = 0, di_MACAddress = '''',
      di_Metrics = zero_HealthMetrics\<rparr>"

definition marshal_DeviceInfo :: "DeviceInfo \<Rightarrow> json" where
  "marshal_DeviceInfo d = JObj (
      [(''deviceId'', JStr (di_DeviceID d))]
    @ omitempty (di_UserID d = '''') ''userId'' (JStr (di_UserID d))
    @ [(''hostname'', JStr (di_Hostname d))]
    @ [(''os'', JStr (di_OS d))]
    @ [(''status'', JStr (di_Status d))]
    @ [(''lastHeartbeat'', enc_int (di_LastHeartbeat d))]
    @ [(''connectedAt'', enc_int (di_ConnectedAt d))]
    @ omitempty (di_MACAddress d = '''') ''macAddress'' (JStr (di_MACAddress d))
    @ [(''metrics'', marshal_HealthMetrics (di_Metrics d))])"

definition unmarshal_DeviceInfo :: "DeviceInfo dec" where
  "unmarshal_DeviceInfo = dec_struct [
      (''deviceId'', into dec_string di_DeviceID di_DeviceID_update),
      (''userId'', into dec_string di_UserID di_UserID_update),
      (''hostname'', into dec_string di_Hostname di_Hostname_update),
      (''os'', into dec_string di_OS di_OS_update),
      (''status'', into dec_string di_Status di_Status_update),
      (''lastHeartbeat'', into dec_int64 di_LastHeartbeat di_LastHeartbeat_update),
      (''connectedAt'', into dec_int64 di_ConnectedAt di_ConnectedAt_update),
      (''macAddress'', into dec_string di_MACAddress di_MACAddress_update),
      (''metrics'', into unmarshal_HealthMetrics di_Metrics di_Metrics_update)]"

definition valid_DeviceInfo :: "DeviceInfo \<Rightarrow> bool" where
  "valid_DeviceInfo d \<longleftrightarrow> 
      in_int64 (di_LastHeartbeat d)
    \<and> in_int64 (di_ConnectedAt d)
    \<and> valid_HealthMetrics (di_Metrics d)"

record DeviceListPayload =
  dl_Devices :: "DeviceInfo list"

definition marshal_DeviceListPayload :: "DeviceListPayload \<Rightarrow> json" where
  "marshal_DeviceListPayload p = JObj (
      [(''devices'', JArr (map marshal_DeviceInfo (dl_Devices p)))])"

record ErrorPayload =
  ep_Code :: string
  ep_Message :: string

definition marshal_ErrorPayload :: "ErrorPayload \<Rightarrow> json" where
  "marshal_ErrorPayload p = JObj (
      [(''code'', JStr (ep_Code p))]
    @ [(''message'', JStr (ep_Message p))])"

record FileInfo =
  fi_Name :: string
  fi_Path :: string
  fi_SizeBytes :: int
  fi_IsDir :: bool
  fi_ModTime :: int
  fi_Mode :: string

definition zero_FileInfo :: FileInfo where
  "zero_FileInfo = \<lparr>fi_Name = '''', fi_Path = '''', fi_SizeBytes = 0, fi_IsDir = False, fi_ModTime = 0,
      fi_Mode = ''''\<rparr>"

definition marshal_FileInfo :: "FileInfo \<Rightarrow> json" where
  "marshal_FileInfo f = JObj (
      [(''name'', JStr (fi_Name f))]
    @ [(''path'', JStr (fi_Path f))]
    @ [(''sizeBytes'', enc_int (fi_SizeBytes f))]
    @ [(''isDir'', JBool (fi_IsDir f))]
    @ [(''modTime'', enc_int (fi_ModTime f))]
    @ [(''mode'', JStr (fi_Mode f))])"

definition unmarshal_FileInfo :: "FileInfo dec" where
  "unmarshal_FileInfo = dec_struct [
      (''name'', into dec_string fi_Name fi_Name_update),
      (''path'', into dec_string fi_Path fi_Path_update),
      (''sizeBytes'', into dec_int64 fi_SizeBytes fi_SizeBytes_update),
      (''isDir'', into dec_bool fi_IsDir fi_IsDir_update),
      (''modTime'', into dec_int64 fi_ModTime fi_ModTime_update),
      (''mode'', into dec_string fi_Mode fi_Mode_update)]"

definition valid_FileInfo :: "FileInfo \<Rightarrow> bool" where
  "valid_FileInfo f \<longleftrightarrow> in_int64 (fi_SizeBytes f) \<and> in_int64 (fi_ModTime f)"

record FileListReqPayload =
  flq_DeviceID :: string
  flq_Path :: string

definition zero_FileListReqPayload :: FileListReqPayload where
  "zero_FileListReqPayload = \<lparr>flq_DeviceID = '''', flq_Path = ''''\<rparr>"

definition marshal_FileListReqPayload :: "FileListReqPayload \<Rightarrow> json" where
  "marshal_FileListReqPayload p = JObj (
      [(''deviceId'', JStr (flq_DeviceID p))]
    @ [(''path'', JStr (flq_Path p))])"

definition unmarshal_FileListReqPayload :: "FileListReqPayload dec" where
  "unmarshal_FileListReqPayload = dec_struct [
      (''deviceId'', into dec_string flq_DeviceID flq_DeviceID_update),
      (''path'', into dec_string flq_Path flq_Path_update)]"

definition valid_FileListReqPayload :: "FileListReqPayload \<Rightarrow> bool" where
  "valid_FileListReqPayload p \<longleftrightarrow> True"

record FileListRespPayload =
  flr_DeviceID :: string
  flr_Path :: string
  flr_Files :: "FileInfo list"
  flr_Error :: string

definition zero_FileListRespPayload :: FileListRespPayload where
  "zero_FileListRespPayload = \<lparr>flr_DeviceID = '''', flr_Path = '''', flr_Files = [], flr_Error = ''''\<rparr>"

definition marshal_FileListRespPayload :: "FileListRespPayload \<Rightarrow> json" where
  "marshal_FileListRespPayload p = JObj (
      [(''deviceId'', JStr (flr_DeviceID p))]
    @ [(''path'', JStr (flr_Path p))]
    @ [(''files'', enc_slice marshal_FileInfo (flr_Files p))]
    @ omitempty (flr_Error p = '''') ''error'' (JStr (flr_Error p)))"

definition unmarshal_FileListRespPayload :: "FileListRespPayload dec" where
  "unmarshal_FileListRespPayload = dec_struct [
      (''deviceId'', into dec_string flr_DeviceID flr_DeviceID_update),
      (''path'', into dec_string flr_Path flr_Path_update),
      (''files'', into (dec_slice unmarshal_FileInfo zero_FileInfo) flr_Files flr_Files_update),
      (''error'', into dec_string flr_Error flr_Error_update)]"

definition valid_FileListRespPayload :: "FileListRespPayload \<Rightarrow> bool" where
  "valid_FileListRespPayload p \<longleftrightarrow> (\<forall>x \<in> set (flr_Files p). valid_FileInfo x)"

record FileReadReqPayload =
  frq_DeviceID :: string
  frq_Path :: string

definition zero_FileReadReqPayload :: FileReadReqPayload where
  "zero_FileReadReqPayload = \<lparr>frq_DeviceID = '''', frq_Path = ''''\<rparr>"

definition marshal_FileReadReqPayload :: "FileReadReqPayload \<Rightarrow> json" where
  "marshal_FileReadReqPayload p = JObj (
      [(''deviceId'', JStr (frq_DeviceID p))]
    @ [(''path'', JStr (frq_Path p))])"

definition unmarshal_FileReadReqPayload :: "FileReadReqPayload dec" where
  "unmarshal_FileReadReqPayload = dec_struct [
      (''deviceId'', into dec_string frq_DeviceID frq_DeviceID_update),
      (''path'', into dec_string frq_Path frq_Path_update)]"

definition valid_FileReadReqPayload :: "FileReadReqPayload \<Rightarrow> bool" where
  "valid_FileReadReqPayload p \<longleftrightarrow> True"

record FileReadRespPayload =
  frr_DeviceID :: string
  frr_Path :: string
  frr_ContentBase64 :: string
  frr_SizeBytes :: int
  frr_Error :: string

definition zero_FileReadRespPayload :: FileReadRespPayload where
  "zero_FileReadRespPayload = \<lparr>frr_DeviceID = '''', frr_Path = '''', frr_ContentBase64 = '''', frr_SizeBytes = 0,
      frr_Error = ''''\<rparr>"

definition marshal_FileReadRespPayload :: "FileReadRespPayload \<Rightarrow> json" where
  "marshal_FileReadRespPayload p = JObj (
      [(''deviceId'', JStr (frr_DeviceID p))]
    @ [(''path'', JStr (frr_Path p))]
    @ [(''contentBase64'', JStr (frr_ContentBase64 p))]
    @ [(''sizeBytes'', enc_int (frr_SizeBytes p))]
    @ omitempty (frr_Error p = '''') ''error'' (JStr (frr_Error p)))"

definition unmarshal_FileReadRespPayload :: "FileReadRespPayload dec" where
  "unmarshal_FileReadRespPayload = dec_struct [
      (''deviceId'', into dec_string frr_DeviceID frr_DeviceID_update),
      (''path'', into dec_string frr_Path frr_Path_update),
      (''contentBase64'', into dec_string frr_ContentBase64 frr_ContentBase64_update),
      (''sizeBytes'', into dec_int64 frr_SizeBytes frr_SizeBytes_update),
      (''error'', into dec_string frr_Error frr_Error_update)]"

definition valid_FileReadRespPayload :: "FileReadRespPayload \<Rightarrow> bool" where
  "valid_FileReadRespPayload p \<longleftrightarrow> in_int64 (frr_SizeBytes p)"

record FileWriteReqPayload =
  fwq_DeviceID :: string
  fwq_Path :: string
  fwq_ContentBase64 :: string
  fwq_Overwrite :: bool

definition zero_FileWriteReqPayload :: FileWriteReqPayload where
  "zero_FileWriteReqPayload = \<lparr>fwq_DeviceID = '''', fwq_Path = '''', fwq_ContentBase64 = '''',
      fwq_Overwrite = False\<rparr>"

definition marshal_FileWriteReqPayload :: "FileWriteReqPayload \<Rightarrow> json" where
  "marshal_FileWriteReqPayload p = JObj (
      [(''deviceId'', JStr (fwq_DeviceID p))]
    @ [(''path'', JStr (fwq_Path p))]
    @ [(''contentBase64'', JStr (fwq_ContentBase64 p))]
    @ [(''overwrite'', JBool (fwq_Overwrite p))])"

definition unmarshal_FileWriteReqPayload :: "FileWriteReqPayload dec" where
  "unmarshal_FileWriteReqPayload = dec_struct [
      (''deviceId'', into dec_string fwq_DeviceID fwq_DeviceID_update),
      (''path'', into dec_string fwq_Path fwq_Path_update),
      (''contentBase64'', into dec_string fwq_ContentBase64 fwq_ContentBase64_update),
      (''overwrite'', into dec_bool fwq_Overwrite fwq_Overwrite_update)]"

definition valid_FileWriteReqPayload :: "FileWriteReqPayload \<Rightarrow> bool" where
  "valid_FileWriteReqPayload p \<longleftrightarrow> True"

record FileWriteRespPayload =
  fwr_DeviceID :: string
  fwr_Path :: string
  fwr_Success :: bool
  fwr_Error :: string

definition zero_FileWriteRespPayload :: FileWriteRespPayload where
  "zero_FileWriteRespPayload = \<lparr>fwr_DeviceID = '''', fwr_Path = '''', fwr_Success = False, fwr_Error = ''''\<rparr>"

definition marshal_FileWriteRespPayload :: "FileWriteRespPayload \<Rightarrow> json" where
  "marshal_FileWriteRespPayload p = JObj (
      [(''deviceId'', JStr (fwr_DeviceID p))]
    @ [(''path'', JStr (fwr_Path p))]
    @ [(''success'', JBool (fwr_Success p))]
    @ omitempty (fwr_Error p = '''') ''error'' (JStr (fwr_Error p)))"

definition unmarshal_FileWriteRespPayload :: "FileWriteRespPayload dec" where
  "unmarshal_FileWriteRespPayload = dec_struct [
      (''deviceId'', into dec_string fwr_DeviceID fwr_DeviceID_update),
      (''path'', into dec_string fwr_Path fwr_Path_update),
      (''success'', into dec_bool fwr_Success fwr_Success_update),
      (''error'', into dec_string fwr_Error fwr_Error_update)]"

definition valid_FileWriteRespPayload :: "FileWriteRespPayload \<Rightarrow> bool" where
  "valid_FileWriteRespPayload p \<longleftrightarrow> True"

record FileDeleteReqPayload =
  fdq_DeviceID :: string
  fdq_Path :: string

definition zero_FileDeleteReqPayload :: FileDeleteReqPayload where
  "zero_FileDeleteReqPayload = \<lparr>fdq_DeviceID = '''', fdq_Path = ''''\<rparr>"

definition marshal_FileDeleteReqPayload :: "FileDeleteReqPayload \<Rightarrow> json" where
  "marshal_FileDeleteReqPayload p = JObj (
      [(''deviceId'', JStr (fdq_DeviceID p))]
    @ [(''path'', JStr (fdq_Path p))])"

definition unmarshal_FileDeleteReqPayload :: "FileDeleteReqPayload dec" where
  "unmarshal_FileDeleteReqPayload = dec_struct [
      (''deviceId'', into dec_string fdq_DeviceID fdq_DeviceID_update),
      (''path'', into dec_string fdq_Path fdq_Path_update)]"

definition valid_FileDeleteReqPayload :: "FileDeleteReqPayload \<Rightarrow> bool" where
  "valid_FileDeleteReqPayload p \<longleftrightarrow> True"

record FileDeleteRespPayload =
  fdr_DeviceID :: string
  fdr_Path :: string
  fdr_Success :: bool
  fdr_Error :: string

definition zero_FileDeleteRespPayload :: FileDeleteRespPayload where
  "zero_FileDeleteRespPayload = \<lparr>fdr_DeviceID = '''', fdr_Path = '''', fdr_Success = False, fdr_Error = ''''\<rparr>"

definition marshal_FileDeleteRespPayload :: "FileDeleteRespPayload \<Rightarrow> json" where
  "marshal_FileDeleteRespPayload p = JObj (
      [(''deviceId'', JStr (fdr_DeviceID p))]
    @ [(''path'', JStr (fdr_Path p))]
    @ [(''success'', JBool (fdr_Success p))]
    @ omitempty (fdr_Error p = '''') ''error'' (JStr (fdr_Error p)))"

definition unmarshal_FileDeleteRespPayload :: "FileDeleteRespPayload dec" where
  "unmarshal_FileDeleteRespPayload = dec_struct [
      (''deviceId'', into dec_string fdr_DeviceID fdr_DeviceID_update),
      (''path'', into dec_string fdr_Path fdr_Path_update),
      (''success'', into dec_bool fdr_Success fdr_Success_update),
      (''error'', into dec_string fdr_Error fdr_Error_update)]"

definition valid_FileDeleteRespPayload :: "FileDeleteRespPayload \<Rightarrow> bool" where
  "valid_FileDeleteRespPayload p \<longleftrightarrow> True"

record ProcessInfo =
  pi_PID :: int
  pi_Name :: string
  pi_CPUPercent :: float64
  pi_MemoryMB :: float64
  pi_Status :: string

definition marshal_ProcessInfo :: "ProcessInfo \<Rightarrow> json" where
  "marshal_ProcessInfo p = JObj (
      [(''pid'', enc_int (pi_PID p))]
    @ [(''name'', JStr (pi_Name p))]
    @ [(''cpuPercent'', JNum (pi_CPUPercent p))]
    @ [(''memoryMb'', JNum (pi_MemoryMB p))]
    @ [(''status'', JStr (pi_Status p))])"

record ProcessListRespPayload =
  plr_DeviceID :: string
  plr_Processes :: "ProcessInfo list"
  plr_Error :: string

definition marshal_ProcessListRespPayload :: "ProcessListRespPayload \<Rightarrow> json" where
  "marshal_ProcessListRespPayload p = JObj (
      [(''deviceId'', JStr (plr_DeviceID p))]
    @ [(''processes'', enc_slice marshal_ProcessInfo (plr_Processes p))]
    @ omitempty (plr_Error p = '''') ''error'' (JStr (plr_Error p)))"

record ProcessKillReqPayload =
  pkq_DeviceID :: string
  pkq_PID :: int

definition zero_ProcessKillReqPayload :: ProcessKillReqPayload where
  "zero_ProcessKillReqPayload = \<lparr>pkq_DeviceID = '''', pkq_PID = 0\<rparr>"

definition marshal_ProcessKillReqPayload :: "ProcessKillReqPayload \<Rightarrow> json" where
  "marshal_ProcessKillReqPayload p = JObj (
      [(''deviceId'', JStr (pkq_DeviceID p))]
    @ [(''pid'', enc_int (pkq_PID p))])"

definition unmarshal_ProcessKillReqPayload :: "ProcessKillReqPayload dec" where
  "unmarshal_ProcessKillReqPayload = dec_struct [
      (''deviceId'', into dec_string pkq_DeviceID pkq_DeviceID_update),
      (''pid'', into dec_int64 pkq_PID pkq_PID_update)]"

definition valid_ProcessKillReqPayload :: "ProcessKillReqPayload \<Rightarrow> bool" where
  "valid_ProcessKillReqPayload p \<longleftrightarrow> in_int64 (pkq_PID p)"

record ProcessKillRespPayload =
  pkr_DeviceID :: string
  pkr_PID :: int
  pkr_Success :: bool
  pkr_Error :: string

definition zero_ProcessKillRespPayload :: ProcessKillRespPayload where
  "zero_ProcessKillRespPayload = \<lparr>pkr_DeviceID = '''', pkr_PID = 0, pkr_Success = False, pkr_Error = ''''\<rparr>"

definition marshal_ProcessKillRespPayload :: "ProcessKillRespPayload \<Rightarrow> json" where
  "marshal_ProcessKillRespPayload p = JObj (
      [(''deviceId'', JStr (pkr_DeviceID p))]
    @ [(''pid'', enc_int (pkr_PID p))]
    @ [(''success'', JBool (pkr_Success p))]
    @ omitempty (pkr_Error p = '''') ''error'' (JStr (pkr_Error p)))"

definition unmarshal_ProcessKillRespPayload :: "ProcessKillRespPayload dec" where
  "unmarshal_ProcessKillRespPayload = dec_struct [
      (''deviceId'', into dec_string pkr_DeviceID pkr_DeviceID_update),
      (''pid'', into dec_int64 pkr_PID pkr_PID_update),
      (''success'', into dec_bool pkr_Success pkr_Success_update),
      (''error'', into dec_string pkr_Error pkr_Error_update)]"

definition valid_ProcessKillRespPayload :: "ProcessKillRespPayload \<Rightarrow> bool" where
  "valid_ProcessKillRespPayload p \<longleftrightarrow> in_int64 (pkr_PID p)"

record AuditLogRecord =
  al_LogID :: string
  al_DeviceID :: string
  al_Timestamp :: int
  al_ActionType :: string
  al_CommandText :: string
  al_ExitCode :: int
  al_DurationMs :: int
  al_Details :: string

definition zero_AuditLogRecord :: AuditLogRecord where
  "zero_AuditLogRecord = \<lparr>al_LogID = '''', al_DeviceID = '''', al_Timestamp = 0, al_ActionType = '''',
      al_CommandText = '''', al_ExitCode = 0, al_DurationMs = 0, al_Details = ''''\<rparr>"

definition marshal_AuditLogRecord :: "AuditLogRecord \<Rightarrow> json" where
  "marshal_AuditLogRecord l = JObj (
      [(''logId'', JStr (al_LogID l))]
    @ [(''deviceId'', JStr (al_DeviceID l))]
    @ [(''timestamp'', enc_int (al_Timestamp l))]
    @ [(''actionType'', JStr (al_ActionType l))]
    @ [(''commandText'', JStr (al_CommandText l))]
    @ [(''exitCode'', enc_int (al_ExitCode l))]
    @ [(''durationMs'', enc_int (al_DurationMs l))]
    @ omitempty (al_Details l = '''') ''details'' (JStr (al_Details l)))"

definition unmarshal_AuditLogRecord :: "AuditLogRecord dec" where
  "unmarshal_AuditLogRecord = dec_struct [
      (''logId'', into dec_string al_LogID al_LogID_update),
      (''deviceId'', into dec_string al_DeviceID al_DeviceID_update),
      (''timestamp'', into dec_int64 al_Timestamp al_Timestamp_update),
      (''actionType'', into dec_string al_ActionType al_ActionType_update),
      (''commandText'', into dec_string al_CommandText al_CommandText_update),
      (''exitCode'', into dec_int64 al_ExitCode al_ExitCode_update),
      (''durationMs'', into dec_int64 al_DurationMs al_DurationMs_update),
      (''details'', into dec_string al_Details al_Details_update)]"

definition valid_AuditLogRecord :: "AuditLogRecord \<Rightarrow> bool" where
  "valid_AuditLogRecord l \<longleftrightarrow> 
      in_int64 (al_Timestamp l)
    \<and> in_int64 (al_ExitCode l)
    \<and> in_int64 (al_DurationMs l)"

record AuditLogsListPayload =
  alp_Logs :: "AuditLogRecord list"

definition marshal_AuditLogsListPayload :: "AuditLogsListPayload \<Rightarrow> json" where
  "marshal_AuditLogsListPayload p = JObj (
      [(''logs'', enc_slice marshal_AuditLogRecord (alp_Logs p))])"

record ScreenCaptureReqPayload =
  scq_DeviceID :: string
  scq_Quality :: int
  scq_MaxWidth :: int

definition zero_ScreenCaptureReqPayload :: ScreenCaptureReqPayload where
  "zero_ScreenCaptureReqPayload = \<lparr>scq_DeviceID = '''', scq_Quality = 0, scq_MaxWidth = 0\<rparr>"

definition marshal_ScreenCaptureReqPayload :: "ScreenCaptureReqPayload \<Rightarrow> json" where
  "marshal_ScreenCaptureReqPayload p = JObj (
      [(''deviceId'', JStr (scq_DeviceID p))]
    @ omitempty (scq_Quality p = 0) ''quality'' (enc_int (scq_Quality p))
    @ omitempty (scq_MaxWidth p = 0) ''maxWidth'' (enc_int (scq_MaxWidth p)))"

definition unmarshal_ScreenCaptureReqPayload :: "ScreenCaptureReqPayload dec" where
  "unmarshal_ScreenCaptureReqPayload = dec_struct [
      (''deviceId'', into dec_string scq_DeviceID scq_DeviceID_update),
      (''quality'', into dec_int64 scq_Quality scq_Quality_update),
      (''maxWidth'', into dec_int64 scq_MaxWidth scq_MaxWidth_update)]"

definition valid_ScreenCaptureReqPayload :: "ScreenCaptureReqPayload \<Rightarrow> bool" where
  "valid_ScreenCaptureReqPayload p \<longleftrightarrow> in_int64 (scq_Quality p) \<and> in_int64 (scq_MaxWidth p)"

record ScreenCaptureRespPayload =
  scr_DeviceID :: string
  scr_ImageBase64 :: string
  scr_Width :: int
  scr_Height :: int
  scr_Timestamp :: int
  scr_Error :: string

definition marshal_ScreenCaptureRespPayload :: "ScreenCaptureRespPayload \<Rightarrow> json" where
  "marshal_ScreenCaptureRespPayload p = JObj (
      [(''deviceId'', JStr (scr_DeviceID p))]
    @ [(''imageBase64'', JStr (scr_ImageBase64 p))]
    @ [(''width'', enc_int (scr_Width p))]
    @ [(''height'', enc_int (scr_Height p))]
    @ [(''timestamp'', enc_int (scr_Timestamp p))]
    @ omitempty (scr_Error p = '''') ''error'' (JStr (scr_Error p)))"

record TelemetryPoint =
  tp_DeviceID :: string
  tp_Timestamp :: int
  tp_CPUPercent :: float64
  tp_RAMPercent :: float64
  tp_RAMUsedBytes :: int
  tp_RAMTotalBytes :: int
  tp_DiskUsedBytes :: int
  tp_DiskTotalBytes :: int
  tp_ProcessCount :: int
  tp_PingLatencyMs :: int

definition zero_TelemetryPoint :: TelemetryPoint where
  "zero_TelemetryPoint = \<lparr>tp_DeviceID = '''', tp_Timestamp = 0, tp_CPUPercent = 0, tp_RAMPercent = 0,
      tp_RAMUsedBytes = 0, tp_RAMTotalBytes = 0, tp_DiskUsedBytes = 0,
      tp_DiskTotalBytes = 0, tp_ProcessCount = 0, tp_PingLatencyMs = 0\<rparr>"

definition marshal_TelemetryPoint :: "TelemetryPoint \<Rightarrow> json" where
  "marshal_TelemetryPoint p = JObj (
      [(''deviceId'', JStr (tp_DeviceID p))]
    @ [(''timestamp'', enc_int (tp_Timestamp p))]
    @ [(''cpuPercent'', JNum (tp_CPUPercent p))]
    @ [(''ramPercent'', JNum (tp_RAMPercent p))]
    @ [(''ramUsedBytes'', enc_int (tp_RAMUsedBytes p))]
    @ [(''ramTotalBytes'', enc_int (tp_RAMTotalBytes p))]
    @ [(''diskUsedBytes'', enc_int (tp_DiskUsedBytes p))]
    @ [(''diskTotalBytes'', enc_int (tp_DiskTotalBytes p))]
    @ [(''processCount'', enc_int (tp_ProcessCount p))]
    @ omitempty (tp_PingLatencyMs p = 0) ''pingLatencyMs'' (enc_int (tp_PingLatencyMs p)))"

definition unmarshal_TelemetryPoint :: "TelemetryPoint dec" where
  "unmarshal_TelemetryPoint = dec_struct [
      (''deviceId'', into dec_string tp_DeviceID tp_DeviceID_update),
      (''timestamp'', into dec_int64 tp_Timestamp tp_Timestamp_update),
      (''cpuPercent'', into dec_float tp_CPUPercent tp_CPUPercent_update),
      (''ramPercent'', into dec_float tp_RAMPercent tp_RAMPercent_update),
      (''ramUsedBytes'', into dec_uint64 tp_RAMUsedBytes tp_RAMUsedBytes_update),
      (''ramTotalBytes'', into dec_uint64 tp_RAMTotalBytes tp_RAMTotalBytes_update),
      (''diskUsedBytes'', into dec_uint64 tp_DiskUsedBytes tp_DiskUsedBytes_update),
      (''diskTotalBytes'', into dec_uint64 tp_DiskTotalBytes tp_DiskTotalBytes_update),
      (''processCount'', into dec_int64 tp_ProcessCount tp_ProcessCount_update),
      (''pingLatencyMs'', into dec_int64 tp_PingLatencyMs tp_PingLatencyMs_update)]"

definition valid_TelemetryPoint :: "TelemetryPoint \<Rightarrow> bool" where
  "valid_TelemetryPoint p \<longleftrightarrow> 
      in_int64 (tp_Timestamp p)
    \<and> in_uint64 (tp_RAMUsedBytes p)
    \<and> in_uint64 (tp_RAMTotalBytes p)
    \<and> in_uint64 (tp_DiskUsedBytes p)
    \<and> in_uint64 (tp_DiskTotalBytes p)
    \<and> in_int64 (tp_ProcessCount p)
    \<and> in_int64 (tp_PingLatencyMs p)"

record TelemetryHistoryResponse =
  thr_DeviceID :: string
  thr_Points :: "TelemetryPoint list"

definition marshal_TelemetryHistoryResponse :: "TelemetryHistoryResponse \<Rightarrow> json" where
  "marshal_TelemetryHistoryResponse p = JObj (
      [(''deviceId'', JStr (thr_DeviceID p))]
    @ [(''points'', JArr (map marshal_TelemetryPoint (thr_Points p)))])"

section \<open>Round trips\<close>

lemmas struct_simps = dec_simps into_def dec_members_omitempty omitempty_def Let_def
  dec_raw_def

text \<open>
  The payload of an envelope made by \<open>NewEnvelope\<close> decodes to what was put in, also after
  the envelope itself went over the wire.
\<close>

interpretation Envelope_codec: codec marshal_Envelope unmarshal_Envelope zero_Envelope valid_Envelope
  by unfold_locales
     (simp add: marshal_Envelope_def unmarshal_Envelope_def zero_Envelope_def valid_Envelope_def
       struct_simps split: option.splits)

locale payload_codec = codec +
  fixes msg :: string
begin

lemma DecodePayload_NewEnvelope:
  "valid p \<Longrightarrow> DecodePayload dec (NewEnvelope uuid now msg dev (Some (enc p))) zero = (False, p)"
  by (simp add: DecodePayload_def NewEnvelope_def dec_enc)

lemma wire_roundtrip:
  assumes "valid p" and "in_int64 now"
  shows "(let (err, env) = unmarshal_Envelope
             (marshal_Envelope (NewEnvelope uuid now msg dev (Some (enc p)))) zero_Envelope
          in \<not> err \<and> env_Type env = msg \<and> DecodePayload dec env zero = (False, p))"
  using assms Envelope_codec.dec_enc [of "NewEnvelope uuid now msg dev (Some (enc p))"]
    DecodePayload_NewEnvelope [of p uuid now dev]
  by (simp add: valid_Envelope_def) (simp add: NewEnvelope_def)

end

interpretation AuthPayload_codec: codec marshal_AuthPayload unmarshal_AuthPayload zero_AuthPayload valid_AuthPayload
  by unfold_locales
     (simp add: marshal_AuthPayload_def unmarshal_AuthPayload_def zero_AuthPayload_def valid_AuthPayload_def struct_simps)

interpretation AuthAckPayload_codec: codec marshal_AuthAckPayload unmarshal_AuthAckPayload zero_AuthAckPayload valid_AuthAckPayload
  by unfold_locales
     (simp add: marshal_AuthAckPayload_def unmarshal_AuthAckPayload_def zero_AuthAckPayload_def valid_AuthAckPayload_def struct_simps)

interpretation HealthMetrics_codec: codec marshal_HealthMetrics unmarshal_HealthMetrics zero_HealthMetrics valid_HealthMetrics
  by unfold_locales
     (simp add: marshal_HealthMetrics_def unmarshal_HealthMetrics_def zero_HealthMetrics_def valid_HealthMetrics_def struct_simps)

interpretation HeartbeatPayload_codec: codec marshal_HeartbeatPayload unmarshal_HeartbeatPayload zero_HeartbeatPayload valid_HeartbeatPayload
  by unfold_locales
     (simp add: marshal_HeartbeatPayload_def unmarshal_HeartbeatPayload_def zero_HeartbeatPayload_def valid_HeartbeatPayload_def struct_simps HealthMetrics_codec.slice_roundtrip HealthMetrics_codec.dec_enc)

interpretation CommandPayload_codec: codec marshal_CommandPayload unmarshal_CommandPayload zero_CommandPayload valid_CommandPayload
  by unfold_locales
     (simp add: marshal_CommandPayload_def unmarshal_CommandPayload_def zero_CommandPayload_def valid_CommandPayload_def struct_simps)

interpretation ResultPayload_codec: codec marshal_ResultPayload unmarshal_ResultPayload zero_ResultPayload valid_ResultPayload
  by unfold_locales
     (simp add: marshal_ResultPayload_def unmarshal_ResultPayload_def zero_ResultPayload_def valid_ResultPayload_def struct_simps)

interpretation ResultAckPayload_codec: codec marshal_ResultAckPayload unmarshal_ResultAckPayload zero_ResultAckPayload valid_ResultAckPayload
  by unfold_locales
     (simp add: marshal_ResultAckPayload_def unmarshal_ResultAckPayload_def zero_ResultAckPayload_def valid_ResultAckPayload_def struct_simps)

interpretation SyncReqPayload_codec: codec marshal_SyncReqPayload unmarshal_SyncReqPayload zero_SyncReqPayload valid_SyncReqPayload
  by unfold_locales
     (simp add: marshal_SyncReqPayload_def unmarshal_SyncReqPayload_def zero_SyncReqPayload_def valid_SyncReqPayload_def struct_simps ResultPayload_codec.slice_roundtrip ResultPayload_codec.dec_enc)

interpretation SyncRespPayload_codec: codec marshal_SyncRespPayload unmarshal_SyncRespPayload zero_SyncRespPayload valid_SyncRespPayload
  by unfold_locales
     (simp add: marshal_SyncRespPayload_def unmarshal_SyncRespPayload_def zero_SyncRespPayload_def valid_SyncRespPayload_def struct_simps string_codec.slice_roundtrip string_codec.dec_enc CommandPayload_codec.slice_roundtrip CommandPayload_codec.dec_enc)

interpretation UserAccount_codec: codec marshal_UserAccount unmarshal_UserAccount zero_UserAccount valid_UserAccount
  by unfold_locales
     (simp add: marshal_UserAccount_def unmarshal_UserAccount_def zero_UserAccount_def valid_UserAccount_def struct_simps)

interpretation UserAuthRequest_codec: codec marshal_UserAuthRequest unmarshal_UserAuthRequest zero_UserAuthRequest valid_UserAuthRequest
  by unfold_locales
     (simp add: marshal_UserAuthRequest_def unmarshal_UserAuthRequest_def zero_UserAuthRequest_def valid_UserAuthRequest_def struct_simps)

interpretation DeviceInfo_codec: codec marshal_DeviceInfo unmarshal_DeviceInfo zero_DeviceInfo valid_DeviceInfo
  by unfold_locales
     (simp add: marshal_DeviceInfo_def unmarshal_DeviceInfo_def zero_DeviceInfo_def valid_DeviceInfo_def struct_simps HealthMetrics_codec.slice_roundtrip HealthMetrics_codec.dec_enc)

interpretation FileInfo_codec: codec marshal_FileInfo unmarshal_FileInfo zero_FileInfo valid_FileInfo
  by unfold_locales
     (simp add: marshal_FileInfo_def unmarshal_FileInfo_def zero_FileInfo_def valid_FileInfo_def struct_simps)

interpretation FileListReqPayload_codec: codec marshal_FileListReqPayload unmarshal_FileListReqPayload zero_FileListReqPayload valid_FileListReqPayload
  by unfold_locales
     (simp add: marshal_FileListReqPayload_def unmarshal_FileListReqPayload_def zero_FileListReqPayload_def valid_FileListReqPayload_def struct_simps)

interpretation FileListRespPayload_codec: codec marshal_FileListRespPayload unmarshal_FileListRespPayload zero_FileListRespPayload valid_FileListRespPayload
  by unfold_locales
     (simp add: marshal_FileListRespPayload_def unmarshal_FileListRespPayload_def zero_FileListRespPayload_def valid_FileListRespPayload_def struct_simps FileInfo_codec.slice_roundtrip FileInfo_codec.dec_enc)

interpretation FileReadReqPayload_codec: codec marshal_FileReadReqPayload unmarshal_FileReadReqPayload zero_FileReadReqPayload valid_FileReadReqPayload
  by unfold_locales
     (simp add: marshal_FileReadReqPayload_def unmarshal_FileReadReqPayload_def zero_FileReadReqPayload_def valid_FileReadReqPayload_def struct_simps)

interpretation FileReadRespPayload_codec: codec marshal_FileReadRespPayload unmarshal_FileReadRespPayload zero_FileReadRespPayload valid_FileReadRespPayload
  by unfold_locales
     (simp add: marshal_FileReadRespPayload_def unmarshal_FileReadRespPayload_def zero_FileReadRespPayload_def valid_FileReadRespPayload_def struct_simps)

interpretation FileWriteReqPayload_codec: codec marshal_FileWriteReqPayload unmarshal_FileWriteReqPayload zero_FileWriteReqPayload valid_FileWriteReqPayload
  by unfold_locales
     (simp add: marshal_FileWriteReqPayload_def unmarshal_FileWriteReqPayload_def zero_FileWriteReqPayload_def valid_FileWriteReqPayload_def struct_simps)

interpretation FileWriteRespPayload_codec: codec marshal_FileWriteRespPayload unmarshal_FileWriteRespPayload zero_FileWriteRespPayload valid_FileWriteRespPayload
  by unfold_locales
     (simp add: marshal_FileWriteRespPayload_def unmarshal_FileWriteRespPayload_def zero_FileWriteRespPayload_def valid_FileWriteRespPayload_def struct_simps)

interpretation FileDeleteReqPayload_codec: codec marshal_FileDeleteReqPayload unmarshal_FileDeleteReqPayload zero_FileDeleteReqPayload valid_FileDeleteReqPayload
  by unfold_locales
     (simp add: marshal_FileDeleteReqPayload_def unmarshal_FileDeleteReqPayload_def zero_FileDeleteReqPayload_def valid_FileDeleteReqPayload_def struct_simps)

interpretation FileDeleteRespPayload_codec: codec marshal_FileDeleteRespPayload unmarshal_FileDeleteRespPayload zero_FileDeleteRespPayload valid_FileDeleteRespPayload
  by unfold_locales
     (simp add: marshal_FileDeleteRespPayload_def unmarshal_FileDeleteRespPayload_def zero_FileDeleteRespPayload_def valid_FileDeleteRespPayload_def struct_simps)

interpretation ProcessKillReqPayload_codec: codec marshal_ProcessKillReqPayload unmarshal_ProcessKillReqPayload zero_ProcessKillReqPayload valid_ProcessKillReqPayload
  by unfold_locales
     (simp add: marshal_ProcessKillReqPayload_def unmarshal_ProcessKillReqPayload_def zero_ProcessKillReqPayload_def valid_ProcessKillReqPayload_def struct_simps)

interpretation ProcessKillRespPayload_codec: codec marshal_ProcessKillRespPayload unmarshal_ProcessKillRespPayload zero_ProcessKillRespPayload valid_ProcessKillRespPayload
  by unfold_locales
     (simp add: marshal_ProcessKillRespPayload_def unmarshal_ProcessKillRespPayload_def zero_ProcessKillRespPayload_def valid_ProcessKillRespPayload_def struct_simps)

interpretation AuditLogRecord_codec: codec marshal_AuditLogRecord unmarshal_AuditLogRecord zero_AuditLogRecord valid_AuditLogRecord
  by unfold_locales
     (simp add: marshal_AuditLogRecord_def unmarshal_AuditLogRecord_def zero_AuditLogRecord_def valid_AuditLogRecord_def struct_simps)

interpretation ScreenCaptureReqPayload_codec: codec marshal_ScreenCaptureReqPayload unmarshal_ScreenCaptureReqPayload zero_ScreenCaptureReqPayload valid_ScreenCaptureReqPayload
  by unfold_locales
     (simp add: marshal_ScreenCaptureReqPayload_def unmarshal_ScreenCaptureReqPayload_def zero_ScreenCaptureReqPayload_def valid_ScreenCaptureReqPayload_def struct_simps)

interpretation TelemetryPoint_codec: codec marshal_TelemetryPoint unmarshal_TelemetryPoint zero_TelemetryPoint valid_TelemetryPoint
  by unfold_locales
     (simp add: marshal_TelemetryPoint_def unmarshal_TelemetryPoint_def zero_TelemetryPoint_def valid_TelemetryPoint_def struct_simps)

interpretation auth: payload_codec marshal_AuthPayload unmarshal_AuthPayload zero_AuthPayload valid_AuthPayload TypeAuth
  by unfold_locales

interpretation heartbeat: payload_codec marshal_HeartbeatPayload unmarshal_HeartbeatPayload zero_HeartbeatPayload valid_HeartbeatPayload TypeHeartbeat
  by unfold_locales

interpretation dispatch: payload_codec marshal_CommandPayload unmarshal_CommandPayload zero_CommandPayload valid_CommandPayload TypeDispatchCmd
  by unfold_locales

interpretation cmd_result: payload_codec marshal_ResultPayload unmarshal_ResultPayload zero_ResultPayload valid_ResultPayload TypeCmdResult
  by unfold_locales

interpretation sync_req: payload_codec marshal_SyncReqPayload unmarshal_SyncReqPayload zero_SyncReqPayload valid_SyncReqPayload TypeSyncReq
  by unfold_locales

interpretation sync_resp: payload_codec marshal_SyncRespPayload unmarshal_SyncRespPayload zero_SyncRespPayload valid_SyncRespPayload TypeSyncResp
  by unfold_locales

end
