(* ===== verification/RelayStore.thy ===== *)
theory RelayStore
  imports Protocol
begin

text \<open>
  The relay's persistence, \<^verbatim>\<open>internal/store/store.go\<close>, on its SQLite backend (a \<open>Store\<close>
  whose field \<open>supabase\<close> is nil). The schema is a record of tables; a table is the list of
  its rows in rowid order. Each method is one definition: the statements it executes,
  with their WHERE, ORDER BY, LIMIT and ON CONFLICT clauses, and the constraint errors
  SQLite raises (primary keys, UNIQUE, CHECK, and the NULL that \<open>Scan\<close> cannot store into
  a string). A method that only executes returns the database and the error; the clock
  is an argument. I/O failures of the database file are not modelled.
\<close>

section \<open>Rows and tables\<close>

abbreviation StatusPending :: string where
  "StatusPending \<equiv> ''PENDING''"

abbreviation StatusDispatched :: string where
  "StatusDispatched \<equiv> ''DISPATCHED''"

abbreviation StatusCompleted :: string where
  "StatusCompleted \<equiv> ''COMPLETED''"

abbreviation StatusFailed :: string where
  "StatusFailed \<equiv> ''FAILED''"

definition command_statuses :: "string list" where
  "command_statuses = [StatusPending, StatusDispatched, StatusCompleted, StatusFailed]"

record CommandRecord =
  cr_CommandID :: string
  cr_DeviceID :: string
  cr_Command :: string
  cr_TimeoutSec :: int
  cr_Status :: string
  cr_CreatedAt :: int
  cr_DispatchedAt :: int
  cr_CompletedAt :: int

record DeviceRow =
  dr_DeviceId :: string
  dr_UserId :: string
  dr_Hostname :: "string option"
  dr_OS :: "string option"
  dr_Status :: string
  dr_LastHeartbeat :: int
  dr_ConnectedAt :: int
  dr_HealthJSON :: "json option"

record ResultRow =
  rr_ResultId :: string
  rr_CommandId :: string
  rr_DeviceId :: string
  rr_Stdout :: string
  rr_Stderr :: string
  rr_ExitCode :: int
  rr_ExecutedAt :: int
  rr_ReceivedAt :: int

record FileCacheRow =
  fc_DeviceId :: string
  fc_Path :: string
  fc_IsDir :: int
  fc_SizeBytes :: int
  fc_ContentBase64 :: "string option"
  fc_FilesJSON :: "json option"
  fc_UpdatedAt :: int

text \<open>
  The tables of the constant \<open>schema\<close>. The columns of \<open>Users\<close>, \<open>AuditLogs\<close> and
  \<open>TelemetryHistory\<close> are those of the protocol's structs.
\<close>

record DB =
  Users :: "UserAccount list"
  Devices :: "DeviceRow list"
  CloudCommandQueue :: "CommandRecord list"
  CloudResultQueue :: "ResultRow list"
  AuditLogs :: "AuditLogRecord list"
  TelemetryHistory :: "TelemetryPoint list"
  CloudFileCache :: "FileCacheRow list"

definition empty_db :: DB where
  "empty_db = \<lparr>Users = [], Devices = [], CloudCommandQueue = [], CloudResultQueue = [],
      AuditLogs = [], TelemetryHistory = [], CloudFileCache = []\<rparr>"

datatype sql_error =
    UniqueViolation
  | CheckViolation
  | ScanNull
  | EmptyCredentials
  | UsernameTaken string
  | InvalidCredentials
  | HighBitSet

type_synonym exec = "DB \<times> sql_error option"

definition limit_or :: "int \<Rightarrow> int \<Rightarrow> nat" where
  "limit_or dflt limit = nat (if limit \<le> 0 then dflt else limit)"

section \<open>Devices\<close>

definition UpsertDevice :: "DB \<Rightarrow> DeviceInfo \<Rightarrow> exec" where
  "UpsertDevice db info =
     (let health = Some (marshal_HealthMetrics (di_Metrics info)) in
      case select_pk dr_DeviceId (di_DeviceID info) (Devices db) of
        None \<Rightarrow> (db\<lparr>Devices := Devices db @ [\<lparr>dr_DeviceId = di_DeviceID info,
            dr_UserId = di_UserID info, dr_Hostname = Some (di_Hostname info),
            dr_OS = Some (di_OS info), dr_Status = di_Status info,
            dr_LastHeartbeat = di_LastHeartbeat info, dr_ConnectedAt = di_ConnectedAt info,
            dr_HealthJSON = health\<rparr>]\<rparr>, None)
      | Some _ \<Rightarrow> (db\<lparr>Devices := update_rows (\<lambda>r. dr_DeviceId r = di_DeviceID info)
            (\<lambda>r. r\<lparr>dr_UserId := (if di_UserID info \<noteq> '''' then di_UserID info else dr_UserId r),
                   dr_Hostname := Some (di_Hostname info), dr_OS := Some (di_OS info),
                   dr_Status := di_Status info, dr_LastHeartbeat := di_LastHeartbeat info,
                   dr_ConnectedAt := di_ConnectedAt info, dr_HealthJSON := health\<rparr>)
            (Devices db)\<rparr>, None))"

definition UpdateDeviceHeartbeat :: "int \<Rightarrow> DB \<Rightarrow> string \<Rightarrow> HealthMetrics \<Rightarrow> string \<Rightarrow> exec" where
  "UpdateDeviceHeartbeat now db deviceID metrics status =
     (db\<lparr>Devices := update_rows (\<lambda>r. dr_DeviceId r = deviceID)
         (\<lambda>r. r\<lparr>dr_LastHeartbeat := now, dr_HealthJSON := Some (marshal_HealthMetrics metrics),
                dr_Status := status\<rparr>) (Devices db)\<rparr>, None)"

definition UpdateDeviceStatus :: "DB \<Rightarrow> string \<Rightarrow> string \<Rightarrow> exec" where
  "UpdateDeviceStatus db deviceID status =
     (db\<lparr>Devices := update_rows (\<lambda>r. dr_DeviceId r = deviceID) (\<lambda>r. r\<lparr>dr_Status := status\<rparr>)
         (Devices db)\<rparr>, None)"

text \<open>
  \<open>Scan\<close> into the string fields \<open>Hostname\<close> and \<open>OS\<close> fails on a NULL. An error in the JSON of
  the metrics is ignored and leaves what was decoded so far.
\<close>

definition scan_device :: "DeviceRow \<Rightarrow> sql_error + DeviceInfo" where
  "scan_device r =
     (case (dr_Hostname r, dr_OS r) of
        (Some host, Some os) \<Rightarrow>
          Inr \<lparr>di_DeviceID = dr_DeviceId r, di_UserID = dr_UserId r, di_Hostname = host,
               di_OS = os, di_Status = dr_Status r, di_LastHeartbeat = dr_LastHeartbeat r,
               di_ConnectedAt = dr_ConnectedAt r, di_MACAddress = '''',
               di_Metrics = (case dr_HealthJSON r of None \<Rightarrow> zero_HealthMetrics
                             | Some j \<Rightarrow> snd (unmarshal_HealthMetrics j zero_HealthMetrics))\<rparr>
      | _ \<Rightarrow> Inl ScanNull)"

definition GetDevice :: "DB \<Rightarrow> string \<Rightarrow> sql_error + DeviceInfo option" where
  "GetDevice db deviceID =
     (case select_pk dr_DeviceId deviceID (Devices db) of
        None \<Rightarrow> Inr None
      | Some r \<Rightarrow> (case scan_device r of Inl e \<Rightarrow> Inl e | Inr d \<Rightarrow> Inr (Some d)))"

text \<open>The loop over the rows of a query: the first row that cannot be scanned fails it all.\<close>

fun scan_devices :: "DeviceRow list \<Rightarrow> sql_error + DeviceInfo list" where
  "scan_devices [] = Inr []"
| "scan_devices (r # rs) =
     (case scan_device r of
        Inl e \<Rightarrow> Inl e
      | Inr d \<Rightarrow>
          (let d' = (if hm_MACAddress (di_Metrics d) \<noteq> ''''
                     then d\<lparr>di_MACAddress := hm_MACAddress (di_Metrics d)\<rparr> else d)
           in case scan_devices rs of Inl e \<Rightarrow> Inl e | Inr ds \<Rightarrow> Inr (d' # ds)))"

definition ListDevices :: "DB \<Rightarrow> sql_error + DeviceInfo list" where
  "ListDevices db = scan_devices (sort_key (\<lambda>r. - dr_LastHeartbeat r) (Devices db))"

definition ListDevicesForUser :: "DB \<Rightarrow> string \<Rightarrow> sql_error + DeviceInfo list" where
  "ListDevicesForUser db userID =
     (if userID = '''' then ListDevices db
      else scan_devices (sort_key (\<lambda>r. - dr_LastHeartbeat r)
             (filter (\<lambda>r. dr_UserId r = userID) (Devices db))))"

definition BindDeviceToUser :: "DB \<Rightarrow> string \<Rightarrow> string \<Rightarrow> exec" where
  "BindDeviceToUser db deviceID userID =
     (db\<lparr>Devices := update_rows (\<lambda>r. dr_DeviceId r = deviceID) (\<lambda>r. r\<lparr>dr_UserId := userID\<rparr>)
         (Devices db)\<rparr>, None)"

section \<open>Users\<close>

text \<open>
  \<open>uuid1\<close> and \<open>uuid2\<close> are the two identifiers \<^verbatim>\<open>uuid.NewString\<close> returns. The insertion fails
  when the user id, the user name or the token is in use.
\<close>

definition CreateUser ::
  "string \<Rightarrow> string \<Rightarrow> int \<Rightarrow> DB \<Rightarrow> string \<Rightarrow> string \<Rightarrow> DB \<times> (sql_error + UserAccount)" where
  "CreateUser uuid1 uuid2 now db username password =
     (if username = '''' \<or> password = '''' then (db, Inl EmptyCredentials)
      else
        let u = \<lparr>ua_UserID = ''usr_'' @ take 8 uuid1, ua_Username = username,
                 ua_Password = password, ua_AuthToken = ''usr_tok_'' @ take 12 uuid2,
                 ua_CreatedAt = now\<rparr>
        in if \<exists>x \<in> set (Users db). ua_UserID x = ua_UserID u \<or> ua_Username x = ua_Username u
                \<or> ua_AuthToken x = ua_AuthToken u
           then (db, Inl (UsernameTaken username))
           else (db\<lparr>Users := Users db @ [u]\<rparr>, Inr u))"

definition AuthenticateUser :: "DB \<Rightarrow> string \<Rightarrow> string \<Rightarrow> sql_error + UserAccount" where
  "AuthenticateUser db username password =
     (case find (\<lambda>u. ua_Username u = username \<and> ua_Password u = password) (Users db) of
        None \<Rightarrow> Inl InvalidCredentials | Some u \<Rightarrow> Inr u)"

definition GetUserByToken :: "DB \<Rightarrow> string \<Rightarrow> UserAccount option" where
  "GetUserByToken db token =
     (if token = '''' then None else find (\<lambda>u. ua_AuthToken u = token) (Users db))"

definition GetUserByUsername :: "DB \<Rightarrow> string \<Rightarrow> UserAccount option" where
  "GetUserByUsername db username = find (\<lambda>u. ua_Username u = username) (Users db)"

section \<open>The cloud command queue\<close>

text \<open>
  \<open>EnqueueCommand\<close> first makes sure the device exists (\<open>INSERT OR IGNORE\<close>, which leaves the
  host name and the operating system NULL); that row stays even when the command's own
  insertion fails because its identifier is taken.
\<close>

definition ensure_device :: "DB \<Rightarrow> string \<Rightarrow> DB" where
  "ensure_device db deviceID =
     (case select_pk dr_DeviceId deviceID (Devices db) of
        Some _ \<Rightarrow> db
      | None \<Rightarrow> db\<lparr>Devices := Devices db @ [\<lparr>dr_DeviceId = deviceID, dr_UserId = '''',
            dr_Hostname = None, dr_OS = None, dr_Status = StatusOffline,
            dr_LastHeartbeat = 0, dr_ConnectedAt = 0, dr_HealthJSON = None\<rparr>]\<rparr>)"

definition EnqueueCommand :: "int \<Rightarrow> DB \<Rightarrow> CommandPayload \<Rightarrow> exec" where
  "EnqueueCommand now db cmd =
     (let created = (if cp_CreatedAt cmd = 0 then now else cp_CreatedAt cmd);
          db = ensure_device db (cp_DeviceID cmd)
      in case select_pk cr_CommandID (cp_CommandID cmd) (CloudCommandQueue db) of
           Some _ \<Rightarrow> (db, Some UniqueViolation)
         | None \<Rightarrow> (db\<lparr>CloudCommandQueue := CloudCommandQueue db @ [
               \<lparr>cr_CommandID = cp_CommandID cmd, cr_DeviceID = cp_DeviceID cmd,
                cr_Command = cp_Command cmd, cr_TimeoutSec = cp_TimeoutSec cmd,
                cr_Status = StatusPending, cr_CreatedAt = created,
                cr_DispatchedAt = 0, cr_CompletedAt = 0\<rparr>]\<rparr>, None))"

definition command_of_record :: "CommandRecord \<Rightarrow> CommandPayload" where
  "command_of_record r = \<lparr>cp_CommandID = cr_CommandID r, cp_DeviceID = cr_DeviceID r,
     cp_Command = cr_Command r, cp_TimeoutSec = cr_TimeoutSec r, cp_CreatedAt = cr_CreatedAt r\<rparr>"

definition GetPendingCommands :: "DB \<Rightarrow> string \<Rightarrow> CommandPayload list" where
  "GetPendingCommands db deviceID =
     map command_of_record
       (sort_key (\<lambda>r. (cr_CreatedAt r, cr_CommandID r))
         (filter (\<lambda>r. cr_DeviceID r = deviceID \<and> cr_Status r = StatusPending)
           (CloudCommandQueue db)))"

definition CancelPendingCommands :: "int \<Rightarrow> DB \<Rightarrow> string \<Rightarrow> exec" where
  "CancelPendingCommands now db deviceID =
     (db\<lparr>CloudCommandQueue := update_rows
         (\<lambda>r. cr_DeviceID r = deviceID \<and> cr_Status r = StatusPending)
         (\<lambda>r. r\<lparr>cr_Status := StatusFailed, cr_CompletedAt := now\<rparr>) (CloudCommandQueue db)\<rparr>, None)"

definition MarkCommandDispatched :: "int \<Rightarrow> DB \<Rightarrow> string \<Rightarrow> exec" where
  "MarkCommandDispatched now db commandID =
     (db\<lparr>CloudCommandQueue := update_rows
         (\<lambda>r. cr_CommandID r = commandID \<and> cr_Status r = StatusPending)
         (\<lambda>r. r\<lparr>cr_Status := StatusDispatched, cr_DispatchedAt := now\<rparr>) (CloudCommandQueue db)\<rparr>,
      None)"

definition MarkCommandCompleted :: "int \<Rightarrow> DB \<Rightarrow> string \<Rightarrow> string \<Rightarrow> exec" where
  "MarkCommandCompleted now db commandID status =
     (if status \<notin> set command_statuses
         \<and> select_pk cr_CommandID commandID (CloudCommandQueue db) \<noteq> None
      then (db, Some CheckViolation)
      else (db\<lparr>CloudCommandQueue := update_rows (\<lambda>r. cr_CommandID r = commandID)
             (\<lambda>r. r\<lparr>cr_Status := status, cr_CompletedAt := now\<rparr>) (CloudCommandQueue db)\<rparr>, None))"

definition GetCommand :: "DB \<Rightarrow> string \<Rightarrow> CommandRecord option" where
  "GetCommand db commandID = select_pk cr_CommandID commandID (CloudCommandQueue db)"

definition ListCommands :: "DB \<Rightarrow> string \<Rightarrow> int \<Rightarrow> CommandRecord list" where
  "ListCommands db deviceID limit =
     take (limit_or 50 limit)
       (sort_key (\<lambda>r. - cr_CreatedAt r)
         (if deviceID \<noteq> '''' then filter (\<lambda>r. cr_DeviceID r = deviceID) (CloudCommandQueue db)
          else CloudCommandQueue db))"

section \<open>Results\<close>

text \<open>The insertion both \<open>SaveResult\<close> and \<open>SaveSandboxResult\<close> start with.\<close>

definition upsert_result :: "int \<Rightarrow> DB \<Rightarrow> ResultPayload \<Rightarrow> DB" where
  "upsert_result now db res =
     (let executed = (if rp_ExecutedAt res = 0 then now else rp_ExecutedAt res);
          rid = (if rp_ResultID res = '''' then rp_CommandID res else rp_ResultID res)
      in case select_pk rr_ResultId rid (CloudResultQueue db) of
           None \<Rightarrow> db\<lparr>CloudResultQueue := CloudResultQueue db @ [
             \<lparr>rr_ResultId = rid, rr_CommandId = rp_CommandID res, rr_DeviceId = rp_DeviceID res,
              rr_Stdout = rp_Stdout res, rr_Stderr = rp_Stderr res, rr_ExitCode = rp_ExitCode res,
              rr_ExecutedAt = executed, rr_ReceivedAt = now\<rparr>]\<rparr>
         | Some _ \<Rightarrow> db\<lparr>CloudResultQueue := update_rows (\<lambda>r. rr_ResultId r = rid)
             (\<lambda>r. r\<lparr>rr_Stdout := rp_Stdout res, rr_Stderr := rp_Stderr res,
                    rr_ExitCode := rp_ExitCode res, rr_ExecutedAt := executed,
                    rr_ReceivedAt := now\<rparr>) (CloudResultQueue db)\<rparr>)"

definition SaveResult :: "int \<Rightarrow> DB \<Rightarrow> ResultPayload \<Rightarrow> exec" where
  "SaveResult now db res =
     (let db = upsert_result now db res;
          status = (if rp_ExitCode res \<noteq> 0 \<or> rp_TimedOut res then StatusFailed else StatusCompleted)
      in (fst (MarkCommandCompleted now db (rp_CommandID res) status), None))"

definition SaveSandboxResult :: "int \<Rightarrow> DB \<Rightarrow> ResultPayload \<Rightarrow> exec" where
  "SaveSandboxResult now db res = (upsert_result now db res, None)"

definition result_of_row :: "ResultRow \<Rightarrow> ResultPayload" where
  "result_of_row r = \<lparr>rp_ResultID = rr_ResultId r, rp_CommandID = rr_CommandId r,
     rp_DeviceID = rr_DeviceId r, rp_Stdout = rr_Stdout r, rp_Stderr = rr_Stderr r,
     rp_ExitCode = rr_ExitCode r, rp_ExecutedAt = rr_ExecutedAt r, rp_DurationMs = 0,
     rp_TimedOut = False\<rparr>"

definition GetResult :: "DB \<Rightarrow> string \<Rightarrow> ResultPayload option" where
  "GetResult db commandID =
     map_option result_of_row (find (\<lambda>r. rr_CommandId r = commandID) (CloudResultQueue db))"

definition ListResults :: "DB \<Rightarrow> string \<Rightarrow> int \<Rightarrow> ResultPayload list" where
  "ListResults db deviceID limit =
     map result_of_row (take (limit_or 50 limit)
       (sort_key (\<lambda>r. - rr_ExecutedAt r)
         (if deviceID \<noteq> '''' then filter (\<lambda>r. rr_DeviceId r = deviceID) (CloudResultQueue db)
          else CloudResultQueue db)))"

section \<open>Audit log and telemetry\<close>

definition RecordAuditLog :: "int \<Rightarrow> DB \<Rightarrow> AuditLogRecord \<Rightarrow> exec" where
  "RecordAuditLog now db entry =
     (let l = (if al_Timestamp entry = 0 then entry\<lparr>al_Timestamp := now\<rparr> else entry)
      in case select_pk al_LogID (al_LogID l) (AuditLogs db) of
           Some _ \<Rightarrow> (db, Some UniqueViolation)
         | None \<Rightarrow> (db\<lparr>AuditLogs := AuditLogs db @ [l]\<rparr>, None))"

definition ListAuditLogs :: "DB \<Rightarrow> string \<Rightarrow> int \<Rightarrow> AuditLogRecord list" where
  "ListAuditLogs db deviceID limit =
     take (limit_or 100 limit)
       (sort_key (\<lambda>l. - al_Timestamp l)
         (if deviceID \<noteq> '''' then filter (\<lambda>l. al_DeviceID l = deviceID) (AuditLogs db)
          else AuditLogs db))"

text \<open>
  The four byte counts are \<open>uint64\<close>; \<^verbatim>\<open>database/sql\<close> refuses an argument of that type whose high bit is set.
\<close>

definition sql_uint64s :: "TelemetryPoint \<Rightarrow> bool" where
  "sql_uint64s p \<longleftrightarrow> tp_RAMUsedBytes p < 2 ^ 63 \<and> tp_RAMTotalBytes p < 2 ^ 63
     \<and> tp_DiskUsedBytes p < 2 ^ 63 \<and> tp_DiskTotalBytes p < 2 ^ 63"

definition RecordTelemetry :: "int \<Rightarrow> DB \<Rightarrow> TelemetryPoint \<Rightarrow> exec" where
  "RecordTelemetry now db point =
     (let point = (if tp_Timestamp point = 0 then point\<lparr>tp_Timestamp := now\<rparr> else point)
      in if sql_uint64s point then (db\<lparr>TelemetryHistory := TelemetryHistory db @ [point]\<rparr>, None)
         else (db, Some HighBitSet))"

definition GetTelemetryHistory :: "DB \<Rightarrow> string \<Rightarrow> int \<Rightarrow> TelemetryPoint list" where
  "GetTelemetryHistory db deviceID limit =
     sort_key tp_Timestamp
       (take (limit_or 60 limit)
         (sort_key (\<lambda>p. - tp_Timestamp p)
           (filter (\<lambda>p. tp_DeviceID p = deviceID) (TelemetryHistory db))))"

section \<open>The file cache\<close>

definition fc_key :: "FileCacheRow \<Rightarrow> string \<times> string" where
  "fc_key r = (fc_DeviceId r, fc_Path r)"

definition CacheDirectoryListing :: "int \<Rightarrow> DB \<Rightarrow> string \<Rightarrow> string \<Rightarrow> FileInfo list \<Rightarrow> exec" where
  "CacheDirectoryListing now db deviceID path files =
     (let bytes = enc_slice marshal_FileInfo files in
      case select_pk fc_key (deviceID, path) (CloudFileCache db) of
        None \<Rightarrow> (db\<lparr>CloudFileCache := CloudFileCache db @ [\<lparr>fc_DeviceId = deviceID,
            fc_Path = path, fc_IsDir = 1, fc_SizeBytes = 0, fc_ContentBase64 = None,
            fc_FilesJSON = Some bytes, fc_UpdatedAt = now\<rparr>]\<rparr>, None)
      | Some _ \<Rightarrow> (db\<lparr>CloudFileCache := update_rows (\<lambda>r. fc_key r = (deviceID, path))
            (\<lambda>r. r\<lparr>fc_FilesJSON := Some bytes, fc_UpdatedAt := now\<rparr>) (CloudFileCache db)\<rparr>, None))"

definition GetCachedDirectoryListing :: "DB \<Rightarrow> string \<Rightarrow> string \<Rightarrow> FileInfo list option" where
  "GetCachedDirectoryListing db deviceID path =
     (case select_pk fc_key (deviceID, path) (CloudFileCache db) of
        None \<Rightarrow> None
      | Some r \<Rightarrow>
          if fc_IsDir r \<noteq> 1 then None
          else case fc_FilesJSON r of
                 None \<Rightarrow> None
               | Some j \<Rightarrow> (let (err, files) = dec_slice unmarshal_FileInfo zero_FileInfo j []
                             in if err then None else Some files))"

definition CacheFileContent :: "int \<Rightarrow> DB \<Rightarrow> string \<Rightarrow> string \<Rightarrow> string \<Rightarrow> int \<Rightarrow> exec" where
  "CacheFileContent now db deviceID path contentBase64 sizeBytes =
     (case select_pk fc_key (deviceID, path) (CloudFileCache db) of
        None \<Rightarrow> (db\<lparr>CloudFileCache := CloudFileCache db @ [\<lparr>fc_DeviceId = deviceID,
            fc_Path = path, fc_IsDir = 0, fc_SizeBytes = sizeBytes,
            fc_ContentBase64 = Some contentBase64, fc_FilesJSON = None, fc_UpdatedAt = now\<rparr>]\<rparr>, None)
      | Some _ \<Rightarrow> (db\<lparr>CloudFileCache := update_rows (\<lambda>r. fc_key r = (deviceID, path))
            (\<lambda>r. r\<lparr>fc_SizeBytes := sizeBytes, fc_ContentBase64 := Some contentBase64,
                   fc_UpdatedAt := now\<rparr>) (CloudFileCache db)\<rparr>, None))"

definition GetCachedFileContent :: "DB \<Rightarrow> string \<Rightarrow> string \<Rightarrow> (string \<times> int) option" where
  "GetCachedFileContent db deviceID path =
     (case select_pk fc_key (deviceID, path) (CloudFileCache db) of
        None \<Rightarrow> None
      | Some r \<Rightarrow>
          if fc_IsDir r \<noteq> 0 then None
          else map_option (\<lambda>content. (content, fc_SizeBytes r)) (fc_ContentBase64 r))"

end
