(* ===== verification/Offline.thy ===== *)
theory Offline
  imports RelayStore
begin

text \<open>
  What the relay answers itself while a device is offline, from \<^verbatim>\<open>internal/hub/hub.go\<close>:
  the predefined commands (\<open>tryExecutePredefinedOffline\<close>) and the cloud sandbox
  (\<open>executeCloudSandbox\<close>).

  \<open>Env\<close> is what the relay takes from its surroundings: the clock, the identifiers that
  \<^verbatim>\<open>uuid.NewString\<close> returns (call by call), the texts of errors, the formatting of a time
  in the local zone, and the outcome of running a shell. One handler reads the clock as
  one instant.
\<close>

record Env =
  e_nowNs :: int
  e_uuid :: "nat \<Rightarrow> string"
  e_jsonErr :: "json option \<Rightarrow> string"
  e_sqlErr :: "sql_error \<Rightarrow> string"
  e_format :: "string \<Rightarrow> int \<Rightarrow> string"
  e_goos :: string
  e_hasPwsh :: bool
  e_exec :: "string list \<Rightarrow> int \<Rightarrow> RunResult"

definition unix_now :: "Env \<Rightarrow> int" where
  "unix_now e = e_nowNs e div second_ns"

section \<open>Formatting\<close>

fun join_lines :: "string list \<Rightarrow> string" where
  "join_lines [] = ''''"
| "join_lines [l] = l"
| "join_lines (l # ls) = l @ newline @ join_lines ls"

text \<open>\<open>%.Nf\<close> of a non-NaN number: round the exact value half to even at \<open>N\<close> decimals.\<close>

definition round_half_even :: "rat \<Rightarrow> int" where
  "round_half_even q =
     (let n = \<lfloor>q\<rfloor>; r = q - of_int n in
      if r < 1 / 2 then n else if r > 1 / 2 then n + 1 else if even n then n else n + 1)"

definition fmt_f0 :: "rat \<Rightarrow> string" where
  "fmt_f0 q = (if q < 0 then ''-'' else '''') @ itoa (round_half_even \<bar>q\<bar>)"

definition fmt_f1 :: "rat \<Rightarrow> string" where
  "fmt_f1 q =
     (let n = round_half_even (\<bar>q\<bar> * 10)
      in (if q < 0 then ''-'' else '''') @ itoa (n div 10) @ ''.'' @ itoa (n mod 10))"

text \<open>
  \<open>time.Since(t).Round(time.Second)\<close>: half a second rounds away from zero.
\<close>

definition since_rounded :: "Env \<Rightarrow> int \<Rightarrow> int" where
  "since_rounded e t =
     (let d = e_nowNs e - t * second_ns
      in sgn d * ((\<bar>d\<bar> + second_ns div 2) div second_ns) * second_ns)"

text \<open>
  The Go layouts behind the constants \<open>time.RFC1123\<close>, \<open>time.TimeOnly\<close> and \<open>time.RFC3339\<close>.
\<close>

definition RFC1123 :: string where
  "RFC1123 = ''Mon, 02 Jan 2006 15:04:05 MST''"

definition TimeOnly :: string where
  "TimeOnly = ''15:04:05''"

definition RFC3339 :: string where
  "RFC3339 = ''2006-01-02T15:04:05Z07:00''"

section \<open>The predefined commands\<close>

definition status_text :: "Env \<Rightarrow> DeviceInfo option \<Rightarrow> string \<Rightarrow> string" where
  "status_text e dev deviceID =
     (let (status, hostname, osName, lastSeen) =
        (case dev of
           None \<Rightarrow> (''OFFLINE'', ''Unknown'', ''Unknown'', ''Never'')
         | Some d \<Rightarrow> (di_Status d, di_Hostname d, di_OS d,
             if di_LastHeartbeat d > 0 then e_format e RFC1123 (di_LastHeartbeat d) else ''Never''))
      in join_lines [
        ''[Cloud Predefined Responder - Agent Offline]'',
        ''Device ID:    '' @ deviceID,
        ''Host Name:    '' @ hostname,
        ''OS Platform:  '' @ osName,
        ''Power State:  '' @ status,
        ''Last Seen:    '' @ lastSeen,
        ''Note:         Physical machine is offline. Telemetry served from Cloud Store.''])"

definition systeminfo_text :: "DeviceInfo option \<Rightarrow> string \<Rightarrow> string" where
  "systeminfo_text dev deviceID =
     (let (hostname, osName, diskGb, ramMb) =
        (case dev of
           None \<Rightarrow> (''Unknown'', ''Windows'', ''--'', ''--'')
         | Some d \<Rightarrow> (di_Hostname d, di_OS d,
             if hm_DiskTotalBytes (di_Metrics d) > 0
             then fmt_f1 (of_int (hm_DiskTotalBytes (di_Metrics d)) / (1024 * 1024 * 1024)) @ '' GB''
             else ''--'',
             if hm_RAMTotalBytes (di_Metrics d) > 0
             then fmt_f0 (of_int (hm_RAMTotalBytes (di_Metrics d)) / (1024 * 1024)) @ '' MB''
             else ''--''))
      in join_lines [
        ''[Cloud Predefined Responder - Cached System Info]'',
        ''Host Name:                 '' @ hostname,
        ''OS Name:                   '' @ osName,
        ''Total Physical Memory:     '' @ ramMb,
        ''Total Disk Capacity:       '' @ diskGb,
        ''Device ID:                 '' @ deviceID,
        ''Cloud Management Status:   Registered & Queued''])"

text \<open>Hours and minutes of an uptime that is known to be positive.\<close>

definition uptime_string :: "int \<Rightarrow> string" where
  "uptime_string sec = itoa (sec div 3600) @ ''h '' @ itoa (sec mod 3600 div 60) @ ''m''"

definition health_text :: "DeviceInfo option \<Rightarrow> string" where
  "health_text dev =
     (let (cpu, ramPercent, ramUsed, ramTotal, uptime) =
        (case dev of
           None \<Rightarrow> (0, 0, ''--'', ''--'', ''--'')
         | Some d \<Rightarrow> (let m = di_Metrics d in (hm_CPUPercent m, hm_RAMPercent m,
             if hm_RAMTotalBytes m > 0
             then fmt_f0 (of_int (hm_RAMUsedBytes m) / (1024 * 1024)) @ '' MB'' else ''--'',
             if hm_RAMTotalBytes m > 0
             then fmt_f0 (of_int (hm_RAMTotalBytes m) / (1024 * 1024)) @ '' MB'' else ''--'',
             if hm_UptimeSec m > 0 then uptime_string (hm_UptimeSec m) else ''--'')))
      in join_lines [
        ''[Cloud Predefined Responder - Last Telemetry Snapshot]'',
        ''Last CPU Utilization:     '' @ fmt_f1 cpu @ '' %'',
        ''Last RAM Usage:           '' @ fmt_f1 ramPercent @ '' % ('' @ ramUsed @ '' / '' @ ramTotal @ '')'',
        ''Last Reported Uptime:     '' @ uptime,
        ''Power State:              OFFLINE / ASLEEP''])"

definition ping_text :: "Env \<Rightarrow> DeviceInfo option \<Rightarrow> string \<Rightarrow> string" where
  "ping_text e dev deviceID =
     (let lastPing =
        (case dev of
           None \<Rightarrow> ''N/A''
         | Some d \<Rightarrow> if di_LastHeartbeat d > 0
             then Duration_String (since_rounded e (di_LastHeartbeat d)) @ '' ago (''
                  @ e_format e TimeOnly (di_LastHeartbeat d) @ '')''
             else ''N/A'')
      in join_lines [
        ''[Cloud Predefined Responder - Connection Probe]'',
        ''Target:          '' @ deviceID,
        ''Relay Server:    Online (RTT < 1ms)'',
        ''Agent Status:    OFFLINE'',
        ''Last Ping Recv:  '' @ lastPing,
        ''Action:          Physical commands will be stored in FIFO Cloud Queue.''])"

text \<open>
  The listing of the queue shows the first eight characters of each identifier; slicing a
  shorter identifier panics.
\<close>

fun queue_lines :: "Env \<Rightarrow> int \<Rightarrow> CommandPayload list \<Rightarrow> string outcome" where
  "queue_lines e idx [] = Ret ''''"
| "queue_lines e idx (p # ps) =
     (if length (cp_CommandID p) < 8 then Panic SliceOutOfRange
      else andThen (queue_lines e (idx + 1) ps) (\<lambda>rest.
        Ret ('' '' @ itoa idx @ ''. ['' @ e_format e TimeOnly (cp_CreatedAt p) @ ''] ID:''
             @ take 8 (cp_CommandID p) @ '' -> '' @ cp_Command p @ newline @ rest)))"

definition queue_text :: "Env \<Rightarrow> DB \<Rightarrow> string \<Rightarrow> string outcome" where
  "queue_text e db deviceID =
     (let pending = GetPendingCommands db deviceID in
      if pending = []
      then Ret (''[Cloud Queue - '' @ deviceID @ '']'' @ newline
                @ ''(No commands currently queued for next power-on)'')
      else andThen (queue_lines e 1 pending) (\<lambda>rows.
        Ret (''[Cloud Queue - '' @ deviceID @ '': '' @ itoa (int (length pending))
             @ '' Pending Command(s)]'' @ newline @ rows)))"

definition wake_text :: "string \<Rightarrow> string" where
  "wake_text deviceID = join_lines [
     ''[Cloud Predefined Responder - Wake-on-LAN]'',
     ''Target Device: '' @ deviceID,
     ''Magic Packet:  Triggered broadcast'',
     ''Note:          If device is configured for WoL, it will boot up and establish connection.'']"

definition host_or_id :: "DeviceInfo option \<Rightarrow> string \<Rightarrow> string" where
  "host_or_id dev deviceID =
     (case dev of None \<Rightarrow> deviceID
      | Some d \<Rightarrow> if di_Hostname d \<noteq> '''' then di_Hostname d else deviceID)"

text \<open>\<open>echo\<close> and its synonyms print what follows the first space, without outer quotes.\<close>

definition echo_text :: "string \<Rightarrow> string" where
  "echo_text trimmed =
     TrimBy (\<lambda>c. c = CHR 0x22 \<or> c = CHR 0x27)
       (TrimSpace (drop 1 (dropWhile (\<lambda>c. c \<noteq> CHR '' '') trimmed)))"

definition ipconfig_text :: "Env \<Rightarrow> DeviceInfo option \<Rightarrow> string \<Rightarrow> string" where
  "ipconfig_text e dev deviceID =
     (let lastSeen = (case dev of None \<Rightarrow> ''N/A''
        | Some d \<Rightarrow> if di_LastHeartbeat d > 0 then e_format e RFC1123 (di_LastHeartbeat d) else ''N/A'')
      in join_lines [
        ''Windows IP Configuration (Cached Relay State)'',
        '''',
        ''Host Name . . . . . . . . . . . . : '' @ host_or_id dev deviceID,
        ''Power State . . . . . . . . . . . : OFFLINE'',
        ''Relay WebSocket Connection  . . . : Disconnected (Last: '' @ lastSeen @ '')'',
        ''Note  . . . . . . . . . . . . . . : Detailed adapter IPv4/IPv6 available when machine is online.''])"

definition version_text :: "DeviceInfo option \<Rightarrow> string" where
  "version_text dev =
     (let osName = (case dev of None \<Rightarrow> ''Windows (Cached)''
        | Some d \<Rightarrow> if di_OS d \<noteq> '''' then di_OS d else ''Windows (Cached)'')
      in join_lines [''Terminal App v4.0 Mobile & Cloud'', ''Relay Engine: Active'',
           ''Target OS: '' @ osName])"

definition uptime_text :: "Env \<Rightarrow> DeviceInfo option \<Rightarrow> string" where
  "uptime_text e dev =
     (let uptimeStr = (case dev of None \<Rightarrow> ''Unknown''
            | Some d \<Rightarrow> if hm_UptimeSec (di_Metrics d) > 0
                        then uptime_string (hm_UptimeSec (di_Metrics d)) else ''Unknown'');
          lastSeen = (case dev of None \<Rightarrow> ''N/A''
            | Some d \<Rightarrow> if di_LastHeartbeat d > 0
                        then Duration_String (since_rounded e (di_LastHeartbeat d)) @ '' ago''
                        else ''N/A'')
      in ''Last Reported Uptime: '' @ uptimeStr @ newline
         @ ''Power State:          OFFLINE (Disconnected '' @ lastSeen @ '')'')"

definition shutdown_text :: "string \<Rightarrow> string" where
  "shutdown_text deviceID = join_lines [
     ''[Power Management Notice]'',
     ''Target device '' @ deviceID @ '' is ALREADY powered off / offline.'',
     ''To power it on remotely, type: wake [MAC_ADDRESS]'']"

fun history_lines :: "Env \<Rightarrow> int \<Rightarrow> CommandRecord list \<Rightarrow> string" where
  "history_lines e idx [] = ''''"
| "history_lines e idx (c # cs) =
     '' '' @ itoa idx @ ''. ['' @ e_format e TimeOnly (cr_CreatedAt c) @ ''] ''
     @ pad_right 10 (cr_Status c) @ '' : '' @ cr_Command c @ newline @ history_lines e (idx + 1) cs"

definition history_text :: "Env \<Rightarrow> DB \<Rightarrow> string \<Rightarrow> string" where
  "history_text e db deviceID =
     (let cmds = ListCommands db deviceID 8 in
      if cmds = [] then ''[Command History - '' @ deviceID @ '']'' @ newline @ ''(No recent command history)''
      else ''[Command History - '' @ deviceID @ '': Latest '' @ itoa (int (length cmds))
           @ '' Commands]'' @ newline @ history_lines e 1 cmds)"

definition help_text :: string where
  "help_text = join_lines [
     ''[Terminal App - Command Help]'',
     ''BASIC & PREDEFINED COMMANDS (Execute immediately in Cloud when agent is OFFLINE):'',
     ''  status        - Check device online/offline power state and last seen time'',
     ''  health        - Show last recorded CPU, RAM, and uptime telemetry snapshot'',
     ''  systeminfo    - Display cached OS, hostname, memory and disk capacity'',
     ''  Get-Date/date - Display current date and time'',
     ''  whoami        - Display controller and target identity'',
     ''  hostname      - Display target host name'',
     ''  echo [text]   - Print text output'',
     ''  ipconfig      - Display cached network and connection state'',
     ''  ver/version   - Display software and protocol versions'',
     ''  uptime        - Show machine uptime before power-off'',
     ''  ping          - Probe Relay latency and disconnection duration'',
     ''  queue         - View commands waiting to run when laptop turns on'',
     ''  clear-queue   - Cancel and purge pending offline commands'',
     ''  wake [MAC]    - Send Wake-on-LAN Magic Packet to power on the laptop'',
     ''  history       - View command execution history'',
     ''  audit         - View recent security audit logs'',
     ''  help          - Show this command reference'',
     '''',
     ''PHYSICAL COMMANDS (Executed on machine when ONLINE, or queued if OFFLINE):'',
     ''  Any PowerShell cmdlet / script (e.g. Get-Process, Start-Sleep, Get-Service, etc.)'']"

fun audit_lines :: "Env \<Rightarrow> AuditLogRecord list \<Rightarrow> string" where
  "audit_lines e [] = ''''"
| "audit_lines e (l # ls) =
     '' '' @ [CHR 0xE2, CHR 0x80, CHR 0xA2] @ '' ['' @ e_format e RFC3339 (al_Timestamp l) @ ''] ''
     @ pad_right 12 (al_ActionType l) @ '' exit='' @ itoa (al_ExitCode l) @ '' : ''
     @ al_CommandText l @ newline @ audit_lines e ls"

definition audit_text :: "Env \<Rightarrow> DB \<Rightarrow> string \<Rightarrow> string" where
  "audit_text e db deviceID =
     (let logs = ListAuditLogs db deviceID 5 in
      if logs = [] then ''[Audit Logs - '' @ deviceID @ '']'' @ newline @ ''(No recent audit records found)''
      else ''[Audit Logs - '' @ deviceID @ '': Latest '' @ itoa (int (length logs))
           @ '' Actions]'' @ newline @ audit_lines e logs)"

text \<open>
  The switch on the lower-cased command. \<open>None\<close> is the case that no branch handles. The
  branches that change something return the database after \<open>CancelPendingCommands\<close> and
  the target of the magic packet that was sent.
\<close>

definition device_of :: "DB \<Rightarrow> string \<Rightarrow> DeviceInfo option" where
  \<comment> \<open>\<open>dev, _ := h.store.GetDevice(id)\<close>: an error leaves \<open>dev\<close> nil\<close>
  "device_of db deviceID = (case GetDevice db deviceID of Inr d \<Rightarrow> d | Inl _ \<Rightarrow> None)"

definition wake_target :: "string \<Rightarrow> string option" where
  "wake_target trimmed =
     (let parts = Fields trimmed;
          mac = (if length parts > 1 then parts ! 1 else '''')
      in if mac \<noteq> '''' then Some mac else None)"

definition predefined_stdout ::
  "Env \<Rightarrow> DB \<Rightarrow> CommandPayload \<Rightarrow> (string \<times> DB \<times> string option) option outcome" where
  "predefined_stdout e db cmd =
     (let trimmed = TrimSpace (cp_Command cmd);
          lower = ToLower trimmed;
          id = cp_DeviceID cmd;
          dev = device_of db id;
          say = (\<lambda>text. Ret (Some (text, db, None)))
      in
      if lower \<in> {''status'', ''get-status'', ''state''} then say (status_text e dev id)
      else if lower \<in> {''systeminfo'', ''get-computerinfo'', ''info'', ''device-info''}
      then say (systeminfo_text dev id)
      else if lower \<in> {''health'', ''get-health'', ''metrics''} then say (health_text dev)
      else if lower \<in> {''ping'', ''test-connection''} then say (ping_text e dev id)
      else if lower \<in> {''queue'', ''get-queue'', ''queue-status''}
      then andThen (queue_text e db id) say
      else if lower \<in> {''clear-queue'', ''cancel-queue'', ''purge-queue''}
      then Ret (Some (''[Cloud Queue - '' @ id @ '']'' @ newline
             @ ''Successfully cancelled and purged all pending commands for this device.'',
             fst (CancelPendingCommands (unix_now e) db id), None))
      else if lower \<in> {''wake'', ''wol'', ''start-computer''}
              \<or> HasPrefix lower ''wol '' \<or> HasPrefix lower ''wake ''
      then Ret (Some (wake_text id, db, wake_target trimmed))
      else if lower \<in> {''get-date'', ''date'', ''time'', ''get-time'', ''now''}
      then say (e_format e ''Monday, January 2, 2006 3:04:05 PM'' (unix_now e))
      else if lower \<in> {''whoami'', ''get-user''}
      then say (join_lines [''Controller: mobile-controller'', ''Target Device: '' @ id,
                  ''Cached Role: Administrator''])
      else if lower \<in> {''hostname'', ''get-host''} then say (host_or_id dev id)
      else if HasPrefix lower ''echo '' \<or> HasPrefix lower ''write-output '' \<or> HasPrefix lower ''print ''
      then say (echo_text trimmed)
      else if lower \<in> {''ipconfig'', ''ifconfig'', ''get-netipaddress''}
      then say (ipconfig_text e dev id)
      else if lower \<in> {''ver'', ''version'', ''get-version''} then say (version_text dev)
      else if lower \<in> {''uptime'', ''get-uptime''} then say (uptime_text e dev)
      else if lower \<in> {''cls'', ''clear'', ''clear-host''} then say ''[Console Cleared]''
      else if lower \<in> {''shutdown'', ''poweroff'', ''stop-computer'', ''reboot'', ''restart'',
                       ''restart-computer''}
      then say (shutdown_text id)
      else if lower \<in> {''history'', ''get-history''} then say (history_text e db id)
      else if lower \<in> {''help'', ''get-help'', ''?''} then say help_text
      else if lower \<in> {''audit'', ''get-audit'', ''get-auditlog''} then say (audit_text e db id)
      else Ret None)"

definition tryExecutePredefinedOffline ::
  "Env \<Rightarrow> DB \<Rightarrow> CommandPayload \<Rightarrow> (ResultPayload \<times> DB \<times> string option) option outcome" where
  "tryExecutePredefinedOffline e db cmd =
     andThen (predefined_stdout e db cmd) (\<lambda>r.
       Ret (map_option (\<lambda>(stdout, db', wol).
         (\<lparr>rp_ResultID = cp_CommandID cmd, rp_CommandID = cp_CommandID cmd,
           rp_DeviceID = cp_DeviceID cmd, rp_Stdout = stdout, rp_Stderr = '''', rp_ExitCode = 0,
           rp_ExecutedAt = unix_now e, rp_DurationMs = 1, rp_TimedOut = False\<rparr>, db', wol)) r))"

section \<open>The cloud sandbox\<close>

definition sandbox_timeout :: "CommandPayload \<Rightarrow> int" where
  "sandbox_timeout cmd = (if cp_TimeoutSec cmd > 0 then seconds (cp_TimeoutSec cmd) else seconds 15)"

definition sandbox_argv :: "Env \<Rightarrow> CommandPayload \<Rightarrow> string list" where
  "sandbox_argv e cmd =
     (if e_goos e = ''windows''
      then [''powershell.exe'', ''-NoProfile'', ''-NonInteractive'', ''-Command'', cp_Command cmd]
      else if e_hasPwsh e
      then [''pwsh'', ''-NoProfile'', ''-NonInteractive'', ''-Command'', cp_Command cmd]
      else [''sh'', ''-c'', cp_Command cmd])"

definition sandbox_header :: "string \<Rightarrow> string" where
  "sandbox_header deviceID =
     [CHR 0xE2, CHR 0x9A, CHR 0xA1] @ '' [QUEUED IN CLOUD & PROCESSED ''
     @ [CHR 0xE2, CHR 0x80, CHR 0x94] @ '' LAPTOP OFFLINE ('' @ deviceID @ '')]'' @ newline
     @ ''Status: Registered in persistent queue for physical execution on boot.'' @ newline @ newline"

definition executeCloudSandbox :: "Env \<Rightarrow> CommandPayload \<Rightarrow> ResultPayload" where
  "executeCloudSandbox e cmd =
     (let run = e_exec e (sandbox_argv e cmd) (sandbox_timeout cmd);
          (exitCode, stderr) =
            (case run_err run of
               RunOk \<Rightarrow> (0, run_stderr run)
             | RunExit code \<Rightarrow> (code, run_stderr run)
             | RunOther msg \<Rightarrow>
                 if run_deadline run
                 then (124, run_stderr run @ newline @ ''[Execution timed out in Cloud Sandbox]'')
                 else (1, run_stderr run @ newline @ msg));
          header = sandbox_header (cp_DeviceID cmd);
          stdout = (if run_stdout run \<noteq> '''' then header @ run_stdout run
                    else if stderr = ''''
                    then header @ ''(Command registered and executed in Cloud Sandbox with no standard output)''
                    else '''')
      in \<lparr>rp_ResultID = cp_CommandID cmd, rp_CommandID = cp_CommandID cmd,
          rp_DeviceID = cp_DeviceID cmd, rp_Stdout = stdout, rp_Stderr = stderr,
          rp_ExitCode = exitCode, rp_ExecutedAt = unix_now e, rp_DurationMs = run_ms run,
          rp_TimedOut = False\<rparr>)"

end
