(* ===== verification/Hub.thy ===== *)
theory Hub
  imports Offline "HOL-Library.AList"
begin

text \<open>
  The relay's hub, \<^verbatim>\<open>internal/hub/hub.go\<close>: the connected clients, the registered agents and
  controllers, and one definition per handler, each over the whole state \<open>Hub\<close>.

  A \<open>*Client\<close> is a number; \<open>h_clients\<close> is the heap it points into. The channel \<open>send\<close> is
  the list of its buffered envelopes (capacity 64) with a flag that says whether it was
  closed: a send on a closed channel panics, a send on a full one drops the envelope. The
  Go map \<open>agents\<close> is an association list with distinct keys (its order stands for the
  iteration order, which the step relation lets change freely), the map \<open>controllers\<close> the
  list of its keys. Each handler is one function here; \<open>Interleave\<close> cuts it into the steps
  between which other goroutines run. \<open>h_uuids\<close> counts the calls of \<^verbatim>\<open>uuid.NewString\<close>; \<open>h_wol\<close> lists the magic packets
  sent.
\<close>

section \<open>State\<close>

record Config =
  cfg_Port :: int
  cfg_DBPath :: string
  cfg_AuthToken :: string
  cfg_SupabaseURL :: string
  cfg_SupabaseKey :: string
  cfg_HeartbeatInterval :: int
  cfg_HeartbeatDegraded :: int
  cfg_HeartbeatTimeout :: int

type_synonym cid = nat

record Client =
  c_role :: string
  c_deviceID :: string
  c_sessionID :: string
  c_userID :: string
  c_authed :: bool
  c_send :: "Envelope list"
  c_closed :: bool
  c_connClosed :: bool

record Hub =
  h_store :: DB
  h_cfg :: Config
  h_agents :: "(string \<times> cid) list"
  h_controllers :: "cid list"
  h_clients :: "cid \<Rightarrow> Client"
  h_next :: cid
  h_uuids :: nat
  h_wol :: "(string \<times> string) list"

definition send_capacity :: nat where
  "send_capacity = 64"

definition upd_client :: "cid \<Rightarrow> (Client \<Rightarrow> Client) \<Rightarrow> Hub \<Rightarrow> Hub" where
  "upd_client c f h = h\<lparr>h_clients := (h_clients h)(c := f (h_clients h c))\<rparr>"

definition upd_store :: "(DB \<Rightarrow> exec) \<Rightarrow> Hub \<Rightarrow> Hub" where
  \<comment> \<open>\<open>_ = h.store.M(...)\<close>: the error is discarded\<close>
  "upd_store f h = h\<lparr>h_store := fst (f (h_store h))\<rparr>"

definition newEnvelope :: "Env \<Rightarrow> Hub \<Rightarrow> string \<Rightarrow> string \<Rightarrow> json \<Rightarrow> Envelope \<times> Hub" where
  "newEnvelope e h msgType deviceID payload =
     (NewEnvelope (e_uuid e (h_uuids h)) (unix_now e) msgType deviceID (Some payload),
      h\<lparr>h_uuids := Suc (h_uuids h)\<rparr>)"

definition newUUID :: "Env \<Rightarrow> Hub \<Rightarrow> string \<times> Hub" where
  "newUUID e h = (e_uuid e (h_uuids h), h\<lparr>h_uuids := Suc (h_uuids h)\<rparr>)"

section \<open>Sending\<close>

definition Send :: "Hub \<Rightarrow> cid \<Rightarrow> Envelope \<Rightarrow> Hub outcome" where
  "Send h c env =
     (if c_closed (h_clients h c) then Panic SendOnClosedChannel
      else if length (c_send (h_clients h c)) < send_capacity
      then Ret (upd_client c (\<lambda>cl. cl\<lparr>c_send := c_send cl @ [env]\<rparr>) h)
      else Ret h)"

fun sendAll :: "Hub \<Rightarrow> cid list \<Rightarrow> Envelope \<Rightarrow> Hub outcome" where
  "sendAll h [] env = Ret h"
| "sendAll h (c # cs) env = andThen (Send h c env) (\<lambda>h. sendAll h cs env)"

definition sendError :: "Env \<Rightarrow> Hub \<Rightarrow> cid \<Rightarrow> string \<Rightarrow> string \<Rightarrow> Hub outcome" where
  "sendError e h c code message =
     (let (env, h) = newEnvelope e h TypeError (c_deviceID (h_clients h c))
            (marshal_ErrorPayload \<lparr>ep_Code = code, ep_Message = message\<rparr>)
      in Send h c env)"

text \<open>A controller sees a device when one of the two has no owner or both have the same.\<close>

definition sees :: "Hub \<Rightarrow> string \<Rightarrow> cid \<Rightarrow> bool" where
  "sees h devUserID c \<longleftrightarrow>
     c_userID (h_clients h c) = '''' \<or> devUserID = '''' \<or> c_userID (h_clients h c) = devUserID"

definition owner_of :: "DB \<Rightarrow> string \<Rightarrow> string" where
  "owner_of db deviceID = (case device_of db deviceID of Some d \<Rightarrow> di_UserID d | None \<Rightarrow> '''')"

definition broadcastDeviceStatusLocked :: "Env \<Rightarrow> Hub \<Rightarrow> string \<Rightarrow> string \<Rightarrow> Hub outcome" where
  "broadcastDeviceStatusLocked e h deviceID status =
     (let (env, h) = newEnvelope e h TypeDeviceStatus deviceID
            (JObj [(''deviceId'', JStr deviceID), (''status'', JStr status)]);
          u = (case map_of (h_agents h) deviceID of Some a \<Rightarrow> c_userID (h_clients h a) | None \<Rightarrow> '''');
          devUserID = (if u = '''' then owner_of (h_store h) deviceID else u)
      in sendAll h (filter (sees h devUserID) (h_controllers h)) env)"

definition broadcastDeviceResult :: "Hub \<Rightarrow> string \<Rightarrow> Envelope \<Rightarrow> Hub outcome" where
  "broadcastDeviceResult h deviceID env =
     sendAll h (filter (sees h (owner_of (h_store h) deviceID)) (h_controllers h)) env"

definition broadcastToControllers :: "Hub \<Rightarrow> Envelope \<Rightarrow> Hub outcome" where
  "broadcastToControllers h env = sendAll h (h_controllers h) env"

section \<open>Connections\<close>

definition newClient :: "string \<Rightarrow> Client" where
  "newClient session = \<lparr>c_role = '''', c_deviceID = '''', c_sessionID = session, c_userID = '''',
     c_authed = False, c_send = [], c_closed = False, c_connClosed = False\<rparr>"

definition HandleWS :: "Env \<Rightarrow> Hub \<Rightarrow> Hub" where
  "HandleWS e h =
     (let (session, h) = newUUID e h
      in h\<lparr>h_clients := (h_clients h)(h_next h := newClient session), h_next := Suc (h_next h)\<rparr>)"

definition unregister :: "Env \<Rightarrow> Hub \<Rightarrow> cid \<Rightarrow> Hub outcome" where
  "unregister e h c =
     (let cl = h_clients h c in
      andThen
        (if c_role cl = RoleAgent \<and> c_deviceID cl \<noteq> ''''
         then if map_of (h_agents h) (c_deviceID cl) = Some c
              then broadcastDeviceStatusLocked e
                     (upd_store (\<lambda>db. UpdateDeviceStatus db (c_deviceID cl) StatusOffline)
                       (h\<lparr>h_agents := AList.delete (c_deviceID cl) (h_agents h)\<rparr>))
                     (c_deviceID cl) StatusOffline
              else Ret h
         else if c_role cl = RoleController
         then Ret (h\<lparr>h_controllers := removeAll c (h_controllers h)\<rparr>)
         else Ret h)
        (\<lambda>h. Ret (upd_client c (\<lambda>cl. cl\<lparr>c_closed := True, c_connClosed := True\<rparr>) h)))"

text \<open>\<open>Close\<close> closes the connection of every registered client.\<close>

definition Close :: "Hub \<Rightarrow> Hub" where
  "Close h =
     fold (\<lambda>c. upd_client c (\<lambda>cl. cl\<lparr>c_connClosed := True\<rparr>))
       (map snd (h_agents h) @ h_controllers h) h"

section \<open>Devices and pending commands\<close>

definition GetDevicesForUser :: "Hub \<Rightarrow> string \<Rightarrow> DeviceInfo list" where
  "GetDevicesForUser h userID =
     (let devices = (case (if userID \<noteq> '''' then ListDevicesForUser (h_store h) userID
                           else ListDevices (h_store h))
                     of Inr ds \<Rightarrow> ds | Inl _ \<Rightarrow> [])
      in map (\<lambda>d. if map_of (h_agents h) (di_DeviceID d) \<noteq> None
                  then d\<lparr>di_Status := StatusOnline\<rparr> else d) devices)"

definition GetDevices :: "Hub \<Rightarrow> DeviceInfo list" where
  "GetDevices h = GetDevicesForUser h ''''"

definition handleGetDevices :: "Env \<Rightarrow> Hub \<Rightarrow> cid \<Rightarrow> Hub outcome" where
  "handleGetDevices e h c =
     (let devices = GetDevicesForUser h (c_userID (h_clients h c));
          (env, h) = newEnvelope e h TypeDeviceList ''''
            (marshal_DeviceListPayload \<lparr>dl_Devices = devices\<rparr>)
      in Send h c env)"

definition getAgentClient :: "Hub \<Rightarrow> string \<Rightarrow> cid option" where
  "getAgentClient h deviceID =
     (case map_of (h_agents h) deviceID of
        Some a \<Rightarrow> Some a
      | None \<Rightarrow> map_option snd (find (\<lambda>(id, a). ToLower id = ToLower deviceID) (h_agents h)))"

text \<open>The loop of \<open>flushPendingCommands\<close>: dispatch each command and mark it.\<close>

fun dispatch_all :: "Env \<Rightarrow> Hub \<Rightarrow> cid \<Rightarrow> CommandPayload list \<Rightarrow> Hub outcome" where
  "dispatch_all e h agent [] = Ret h"
| "dispatch_all e h agent (cmd # cmds) =
     (let (env, h) = newEnvelope e h TypeDispatchCmd (c_deviceID (h_clients h agent))
            (marshal_CommandPayload cmd)
      in andThen (Send h agent env) (\<lambda>h.
           dispatch_all e
             (upd_store (\<lambda>db. MarkCommandDispatched (unix_now e) db (cp_CommandID cmd)) h)
             agent cmds))"

definition flushPendingCommands :: "Env \<Rightarrow> Hub \<Rightarrow> string \<Rightarrow> Hub outcome" where
  "flushPendingCommands e h deviceID =
     (let pending = GetPendingCommands (h_store h) deviceID in
      if pending = [] then Ret h
      else case getAgentClient h deviceID of
             None \<Rightarrow> Ret h
           | Some agent \<Rightarrow> dispatch_all e h agent pending)"

section \<open>Authentication\<close>

definition auth_refused :: "Hub \<Rightarrow> AuthPayload \<Rightarrow> bool" where
  "auth_refused h p \<longleftrightarrow>
     GetUserByToken (h_store h) (ap_Token p) = None
     \<and> cfg_AuthToken (h_cfg h) \<noteq> '''' \<and> ap_Token p \<noteq> cfg_AuthToken (h_cfg h)"

text \<open>The part of \<open>handleAuth\<close> under the hub's lock, for an agent.\<close>

definition register_agent :: "Env \<Rightarrow> Hub \<Rightarrow> cid \<Rightarrow> AuthPayload \<Rightarrow> UserAccount option \<Rightarrow> Hub outcome" where
  "register_agent e h c p user =
     (let h = (case map_of (h_agents h) (ap_DeviceID p) of
                 Some old \<Rightarrow> if old \<noteq> c then upd_client old (\<lambda>cl. cl\<lparr>c_connClosed := True\<rparr>) h else h
               | None \<Rightarrow> h);
          h = h\<lparr>h_agents := AList.update (ap_DeviceID p) c (h_agents h)\<rparr>;
          devInfo = \<lparr>di_DeviceID = ap_DeviceID p, di_UserID = '''', di_Hostname = ap_Hostname p,
            di_OS = ap_OS p, di_Status = StatusOnline, di_LastHeartbeat = unix_now e,
            di_ConnectedAt = unix_now e, di_MACAddress = ap_MACAddress p,
            di_Metrics = zero_HealthMetrics\<lparr>hm_MACAddress := ap_MACAddress p\<rparr>\<rparr>;
          (h, devInfo) =
            (case user of
               Some u \<Rightarrow>
                 (upd_store (\<lambda>db. BindDeviceToUser db (ap_DeviceID p) (ua_UserID u))
                    (upd_client c (\<lambda>cl. cl\<lparr>c_userID := ua_UserID u\<rparr>) h),
                  devInfo\<lparr>di_UserID := ua_UserID u\<rparr>)
             | None \<Rightarrow>
                 (let owner = owner_of (h_store h) (ap_DeviceID p) in
                  if owner \<noteq> ''''
                  then (upd_client c (\<lambda>cl. cl\<lparr>c_userID := owner\<rparr>) h, devInfo\<lparr>di_UserID := owner\<rparr>)
                  else (h, devInfo)));
          h = upd_store (\<lambda>db. UpsertDevice db devInfo) h
      in broadcastDeviceStatusLocked e h (ap_DeviceID p) StatusOnline)"

definition handleAuth :: "Env \<Rightarrow> Hub \<Rightarrow> cid \<Rightarrow> Envelope \<Rightarrow> Hub outcome" where
  "handleAuth e h c env =
     (let (err, p) = DecodePayload unmarshal_AuthPayload env zero_AuthPayload in
      if err then sendError e h c ''INVALID_PAYLOAD'' (e_jsonErr e (env_Payload env))
      else if auth_refused h p
      then let (ack, h) = newEnvelope e h TypeAuthAck (ap_DeviceID p)
                 (marshal_AuthAckPayload \<lparr>aa_Success = False, aa_DeviceID = '''', aa_SessionID = '''',
                    aa_Error = ''unauthorized: invalid token'', aa_ServerTime = unix_now e\<rparr>)
           in Send h c ack
      else
        let user = GetUserByToken (h_store h) (ap_Token p);
            h = upd_client c (\<lambda>cl. cl\<lparr>c_role := ap_Role p, c_deviceID := ap_DeviceID p,
                  c_authed := True,
                  c_userID := (case user of Some u \<Rightarrow> ua_UserID u | None \<Rightarrow> c_userID cl)\<rparr>) h
        in andThen
             (if ap_Role p = RoleAgent then register_agent e h c p user
              else Ret (h\<lparr>h_controllers := List.insert c (h_controllers h)\<rparr>))
             (\<lambda>h. let (ack, h) = newEnvelope e h TypeAuthAck (ap_DeviceID p)
                     (marshal_AuthAckPayload \<lparr>aa_Success = True, aa_DeviceID = ap_DeviceID p,
                        aa_SessionID = c_sessionID (h_clients h c), aa_Error = '''',
                        aa_ServerTime = unix_now e\<rparr>)
               in andThen (Send h c ack) (\<lambda>h.
                    andThen (if ap_Role p = RoleController then handleGetDevices e h c else Ret h)
                      (\<lambda>h. if ap_Role p = RoleAgent then flushPendingCommands e h (ap_DeviceID p)
                           else Ret h))))"

section \<open>Heartbeats\<close>

definition telemetry_of :: "int \<Rightarrow> HeartbeatPayload \<Rightarrow> TelemetryPoint" where
  "telemetry_of now p = (let m = hb_Metrics p in
     \<lparr>tp_DeviceID = hb_DeviceID p, tp_Timestamp = now, tp_CPUPercent = hm_CPUPercent m,
      tp_RAMPercent = hm_RAMPercent m, tp_RAMUsedBytes = hm_RAMUsedBytes m,
      tp_RAMTotalBytes = hm_RAMTotalBytes m, tp_DiskUsedBytes = hm_DiskUsedBytes m,
      tp_DiskTotalBytes = hm_DiskTotalBytes m, tp_ProcessCount = hm_ProcessCount m,
      tp_PingLatencyMs = 0\<rparr>)"

definition handleHeartbeat :: "Env \<Rightarrow> Hub \<Rightarrow> cid \<Rightarrow> Envelope \<Rightarrow> Hub outcome" where
  "handleHeartbeat e h c env =
     (let (err, p) = DecodePayload unmarshal_HeartbeatPayload env zero_HeartbeatPayload in
      if err then Ret h
      else
        let now = unix_now e;
            h = upd_store (\<lambda>db. UpdateDeviceHeartbeat now db (hb_DeviceID p) (hb_Metrics p) StatusOnline) h;
            h = upd_store (\<lambda>db. RecordTelemetry now db (telemetry_of now p)) h;
            (ack, h) = newEnvelope e h TypeHeartbeatAck (hb_DeviceID p)
              (marshal_HeartbeatAckPayload \<lparr>ha_DeviceID = hb_DeviceID p, ha_ServerTime = now\<rparr>)
        in andThen (Send h c ack) (\<lambda>h.
             let u = c_userID (h_clients h c);
                 devUserID = (if u = '''' then owner_of (h_store h) (hb_DeviceID p) else u);
                 (hbEnv, h) = newEnvelope e h TypeHeartbeat (hb_DeviceID p) (marshal_HeartbeatPayload p)
             in sendAll h (filter (sees h devUserID) (h_controllers h)) hbEnv))"

section \<open>Commands\<close>

text \<open>
  A controller that belongs to a user may not reach a device that belongs to another.
  The check looks the device up under the identifier as given.
\<close>

definition not_owner :: "Hub \<Rightarrow> cid \<Rightarrow> string \<Rightarrow> bool" where
  "not_owner h c deviceID \<longleftrightarrow>
     c_userID (h_clients h c) \<noteq> '''' \<and> owner_of (h_store h) deviceID \<noteq> ''''
     \<and> owner_of (h_store h) deviceID \<noteq> c_userID (h_clients h c)"

definition complete_command :: "Env \<Rightarrow> Hub \<Rightarrow> CommandPayload \<Rightarrow> CommandPayload \<times> Hub" where
  "complete_command e h p =
     (let (p, h) = (if cp_CommandID p = ''''
                    then let (uuid, h) = newUUID e h in (p\<lparr>cp_CommandID := uuid\<rparr>, h)
                    else (p, h))
      in (if cp_CreatedAt p = 0 then p\<lparr>cp_CreatedAt := unix_now e\<rparr> else p, h))"

text \<open>The audit entries for the two ways a command runs in the cloud.\<close>

definition cloud_exec_log :: "CommandPayload \<Rightarrow> ResultPayload \<Rightarrow> AuditLogRecord" where
  "cloud_exec_log p res = \<lparr>al_LogID = cp_CommandID p, al_DeviceID = cp_DeviceID p,
     al_Timestamp = rp_ExecutedAt res, al_ActionType = ''CLOUD_EXEC'',
     al_CommandText = cp_Command p, al_ExitCode = 0, al_DurationMs = 1,
     al_Details = ''Executed immediately by Cloud Predefined Responder (Agent Offline)''\<rparr>"

definition cloud_script_log :: "CommandPayload \<Rightarrow> ResultPayload \<Rightarrow> AuditLogRecord" where
  "cloud_script_log p res = \<lparr>al_LogID = cp_CommandID p, al_DeviceID = cp_DeviceID p,
     al_Timestamp = rp_ExecutedAt res, al_ActionType = ''CLOUD_SCRIPT_EXEC'',
     al_CommandText = cp_Command p, al_ExitCode = rp_ExitCode res,
     al_DurationMs = rp_DurationMs res,
     al_Details = ''Custom script executed in Cloud Sandbox (Laptop Asleep)''\<rparr>"

text \<open>
  The offline half of \<open>handleEnqueueCmd\<close> and \<open>EnqueueDirect\<close>: store effects only. The flag
  tells whether a predefined command answered.
\<close>

definition run_offline :: "Env \<Rightarrow> Hub \<Rightarrow> CommandPayload \<Rightarrow> (bool \<times> ResultPayload \<times> Hub) outcome" where
  "run_offline e h p =
     (let now = unix_now e in
      andThen (tryExecutePredefinedOffline e (h_store h) p) (\<lambda>r.
        case r of
          Some (res, db, wol) \<Rightarrow>
            (let h = h\<lparr>h_store := db,
                       h_wol := h_wol h @ (case wol of None \<Rightarrow> []
                                           | Some mac \<Rightarrow> [(mac, ''255.255.255.255'')])\<rparr>;
                 h = upd_store (\<lambda>db. SaveResult now db res) h;
                 h = upd_store (\<lambda>db. MarkCommandCompleted now db (cp_CommandID p) StatusCompleted) h;
                 h = upd_store (\<lambda>db. RecordAuditLog now db (cloud_exec_log p res)) h
             in Ret (True, res, h))
        | None \<Rightarrow>
            (let res = executeCloudSandbox e p;
                 h = upd_store (\<lambda>db. SaveSandboxResult now db res) h;
                 h = upd_store (\<lambda>db. RecordAuditLog now db (cloud_script_log p res)) h
             in Ret (False, res, h))))"

definition handleEnqueueCmd :: "Env \<Rightarrow> Hub \<Rightarrow> cid \<Rightarrow> Envelope \<Rightarrow> Hub outcome" where
  "handleEnqueueCmd e h c env =
     (let (err, p) = DecodePayload unmarshal_CommandPayload env zero_CommandPayload in
      if err then sendError e h c ''INVALID_PAYLOAD'' (e_jsonErr e (env_Payload env))
      else if not_owner h c (cp_DeviceID p)
      then sendError e h c ''UNAUTHORIZED'' ''device does not belong to your account''
      else
        let (p, h) = complete_command e h p;
            (db, err) = EnqueueCommand (unix_now e) (h_store h) p;
            h = h\<lparr>h_store := db\<rparr>
        in case err of
             Some x \<Rightarrow> sendError e h c ''STORE_ERROR'' (e_sqlErr e x)
           | None \<Rightarrow>
               (case getAgentClient h (cp_DeviceID p) of
                  Some agent \<Rightarrow>
                    (let (dispatchEnv, h) = newEnvelope e h TypeDispatchCmd
                           (c_deviceID (h_clients h agent)) (marshal_CommandPayload p)
                     in andThen (Send h agent dispatchEnv) (\<lambda>h.
                          broadcastDeviceResult
                            (upd_store (\<lambda>db. MarkCommandDispatched (unix_now e) db (cp_CommandID p)) h)
                            (cp_DeviceID p) env))
                | None \<Rightarrow>
                    andThen (run_offline e h p) (\<lambda>(predefined, res, h).
                      let (resEnv, h) = newEnvelope e h TypeCmdResult (cp_DeviceID p)
                            (marshal_ResultPayload res)
                      in broadcastDeviceResult h (cp_DeviceID p) resEnv)))"

definition EnqueueDirect :: "Env \<Rightarrow> Hub \<Rightarrow> CommandPayload \<Rightarrow> (string option \<times> Hub) outcome" where
  "EnqueueDirect e h cmd =
     (if cp_DeviceID cmd = '''' \<or> cp_Command cmd = ''''
      then Ret (Some ''deviceId and command required'', h)
      else
        let (cmd, h) = complete_command e h cmd;
            (db, err) = EnqueueCommand (unix_now e) (h_store h) cmd;
            h = h\<lparr>h_store := db\<rparr>
        in case err of
             Some x \<Rightarrow> Ret (Some (''enqueue command: '' @ e_sqlErr e x), h)
           | None \<Rightarrow>
               (case map_of (h_agents h) (cp_DeviceID cmd) of
                  Some agent \<Rightarrow>
                    (let (dispatchEnv, h) = newEnvelope e h TypeDispatchCmd (cp_DeviceID cmd)
                           (marshal_CommandPayload cmd)
                     in andThen (Send h agent dispatchEnv) (\<lambda>h.
                          let h = upd_store (\<lambda>db. MarkCommandDispatched (unix_now e) db (cp_CommandID cmd)) h;
                              (env, h) = newEnvelope e h TypeEnqueueCmd (cp_DeviceID cmd)
                                (marshal_CommandPayload cmd)
                          in andThen (broadcastToControllers h env) (\<lambda>h. Ret (None, h))))
                | None \<Rightarrow>
                    andThen (run_offline e h cmd) (\<lambda>(predefined, res, h).
                      let (resEnv, h) = newEnvelope e h TypeCmdResult (cp_DeviceID cmd)
                            (marshal_ResultPayload res)
                      in andThen (if predefined then broadcastToControllers h resEnv
                                  else broadcastDeviceResult h (cp_DeviceID cmd) resEnv)
                           (\<lambda>h. Ret (None, h)))))"

section \<open>Results and synchronisation\<close>

definition exec_log :: "string \<Rightarrow> ResultPayload \<Rightarrow> AuditLogRecord" where
  "exec_log cmdText p = \<lparr>al_LogID = rp_CommandID p, al_DeviceID = rp_DeviceID p,
     al_Timestamp = rp_ExecutedAt p, al_ActionType = ''EXEC_CMD'', al_CommandText = cmdText,
     al_ExitCode = rp_ExitCode p, al_DurationMs = rp_DurationMs p,
     al_Details = ''exit='' @ itoa (rp_ExitCode p) @ '' timedOut='' @ bool_string (rp_TimedOut p)\<rparr>"

definition handleCmdResult :: "Env \<Rightarrow> Hub \<Rightarrow> cid \<Rightarrow> Envelope \<Rightarrow> Hub outcome" where
  "handleCmdResult e h c env =
     (let (err, p) = DecodePayload unmarshal_ResultPayload env zero_ResultPayload in
      if err then Ret h
      else
        let h = upd_store (\<lambda>db. SaveResult (unix_now e) db p) h;
            cmdText = (case GetCommand (h_store h) (rp_CommandID p) of
                         Some r \<Rightarrow> cr_Command r | None \<Rightarrow> '''');
            h = upd_store (\<lambda>db. RecordAuditLog (unix_now e) db (exec_log cmdText p)) h;
            (ack, h) = newEnvelope e h TypeResultAck (rp_DeviceID p)
              (marshal_ResultAckPayload \<lparr>ra_CommandID = rp_CommandID p, ra_ResultID = rp_ResultID p,
                 ra_Success = True\<rparr>)
        in andThen (Send h c ack) (\<lambda>h. broadcastToControllers h env))"

text \<open>The first loop of \<open>handleSyncReq\<close>: save, acknowledge and broadcast each result.\<close>

fun sync_results :: "Env \<Rightarrow> Hub \<Rightarrow> string \<Rightarrow> ResultPayload list \<Rightarrow> (string list \<times> Hub) outcome" where
  "sync_results e h deviceID [] = Ret ([], h)"
| "sync_results e h deviceID (res # rs) =
     (let (db, err) = SaveResult (unix_now e) (h_store h) res; h = h\<lparr>h_store := db\<rparr> in
      case err of
        Some x \<Rightarrow> sync_results e h deviceID rs
      | None \<Rightarrow>
          (let (resEnv, h) = newEnvelope e h TypeCmdResult deviceID (marshal_ResultPayload res)
           in andThen (broadcastToControllers h resEnv) (\<lambda>h.
                andThen (sync_results e h deviceID rs) (\<lambda>(acked, h).
                  Ret (rp_CommandID res # acked, h)))))"

definition mark_all_dispatched :: "int \<Rightarrow> DB \<Rightarrow> CommandPayload list \<Rightarrow> DB" where
  "mark_all_dispatched now db cmds =
     fold (\<lambda>cmd db. fst (MarkCommandDispatched now db (cp_CommandID cmd))) cmds db"

definition handleSyncReq :: "Env \<Rightarrow> Hub \<Rightarrow> cid \<Rightarrow> Envelope \<Rightarrow> Hub outcome" where
  "handleSyncReq e h c env =
     (let (err, req) = DecodePayload unmarshal_SyncReqPayload env zero_SyncReqPayload in
      if err then Ret h
      else andThen (sync_results e h (sq_DeviceID req) (sq_UnsyncedResults req)) (\<lambda>(acked, h).
        let pending = GetPendingCommands (h_store h) (sq_DeviceID req);
            h = h\<lparr>h_store := mark_all_dispatched (unix_now e) (h_store h) pending\<rparr>;
            (resp, h) = newEnvelope e h TypeSyncResp (sq_DeviceID req)
              (marshal_SyncRespPayload \<lparr>sr_DeviceID = sq_DeviceID req, sr_AckedResults = acked,
                 sr_PendingCommands = pending\<rparr>)
        in Send h c resp))"

section \<open>Routing\<close>

definition agent_offline :: "Env \<Rightarrow> Hub \<Rightarrow> cid \<Rightarrow> Envelope \<Rightarrow> Hub outcome" where
  "agent_offline e h c env =
     sendError e h c ''AGENT_OFFLINE'' (''device '' @ env_DeviceID env @ '' is offline'')"

definition routeToAgent :: "Env \<Rightarrow> Hub \<Rightarrow> cid \<Rightarrow> Envelope \<Rightarrow> Hub outcome" where
  "routeToAgent e h c env =
     (if not_owner h c (env_DeviceID env)
      then sendError e h c ''UNAUTHORIZED'' ''device does not belong to your account''
      else case getAgentClient h (env_DeviceID env) of
        Some agent \<Rightarrow> Send h agent env
      | None \<Rightarrow>
          if env_Type env = TypeFileListReq
          then let p = snd (DecodePayload unmarshal_FileListReqPayload env zero_FileListReqPayload)
               in case GetCachedDirectoryListing (h_store h) (env_DeviceID env) (flq_Path p) of
                    None \<Rightarrow> agent_offline e h c env
                  | Some files \<Rightarrow>
                      (let (respEnv, h) = newEnvelope e h TypeFileListResp (env_DeviceID env)
                         (marshal_FileListRespPayload \<lparr>flr_DeviceID = env_DeviceID env,
                            flr_Path = flq_Path p, flr_Files = files, flr_Error = ''''\<rparr>)
                       in Send h c respEnv)
          else if env_Type env = TypeFileReadReq
          then let p = snd (DecodePayload unmarshal_FileReadReqPayload env zero_FileReadReqPayload)
               in case GetCachedFileContent (h_store h) (env_DeviceID env) (frq_Path p) of
                    None \<Rightarrow> agent_offline e h c env
                  | Some (content, sizeBytes) \<Rightarrow>
                      (let (respEnv, h) = newEnvelope e h TypeFileReadResp (env_DeviceID env)
                         (marshal_FileReadRespPayload \<lparr>frr_DeviceID = env_DeviceID env,
                            frr_Path = frq_Path p, frr_ContentBase64 = content,
                            frr_SizeBytes = sizeBytes, frr_Error = ''''\<rparr>)
                       in Send h c respEnv)
          else agent_offline e h c env)"

definition action_log :: "string \<Rightarrow> string \<Rightarrow> int \<Rightarrow> string \<Rightarrow> string \<Rightarrow> bool \<Rightarrow> string \<Rightarrow> AuditLogRecord" where
  "action_log uuid deviceID now action text success error =
     \<lparr>al_LogID = uuid, al_DeviceID = deviceID, al_Timestamp = now, al_ActionType = action,
      al_CommandText = text, al_ExitCode = 0, al_DurationMs = 0,
      al_Details = ''success='' @ bool_string success @ '' error='' @ error\<rparr>"

definition record_action :: "Env \<Rightarrow> Hub \<Rightarrow> string \<Rightarrow> string \<Rightarrow> string \<Rightarrow> bool \<Rightarrow> string \<Rightarrow> Hub" where
  "record_action e h deviceID action text success error =
     (let (uuid, h) = newUUID e h in
      upd_store (\<lambda>db. RecordAuditLog (unix_now e) db
        (action_log uuid deviceID (unix_now e) action text success error)) h)"

definition cache_and_audit :: "Env \<Rightarrow> Hub \<Rightarrow> Envelope \<Rightarrow> Hub" where
  "cache_and_audit e h env =
     (if env_Type env = TypeFileListResp
      then let (err, p) = DecodePayload unmarshal_FileListRespPayload env zero_FileListRespPayload
           in if \<not> err \<and> flr_Files p \<noteq> []
              then upd_store (\<lambda>db. CacheDirectoryListing (unix_now e) db (flr_DeviceID p)
                     (flr_Path p) (flr_Files p)) h
              else h
      else if env_Type env = TypeFileReadResp
      then let (err, p) = DecodePayload unmarshal_FileReadRespPayload env zero_FileReadRespPayload
           in if \<not> err \<and> frr_ContentBase64 p \<noteq> ''''
              then upd_store (\<lambda>db. CacheFileContent (unix_now e) db (frr_DeviceID p)
                     (frr_Path p) (frr_ContentBase64 p) (frr_SizeBytes p)) h
              else h
      else if env_Type env = TypeFileWriteResp
      then let p = snd (DecodePayload unmarshal_FileWriteRespPayload env zero_FileWriteRespPayload)
           in record_action e h (fwr_DeviceID p) ''FILE_WRITE'' (fwr_Path p) (fwr_Success p) (fwr_Error p)
      else if env_Type env = TypeFileDeleteResp
      then let p = snd (DecodePayload unmarshal_FileDeleteRespPayload env zero_FileDeleteRespPayload)
           in record_action e h (fdr_DeviceID p) ''FILE_DELETE'' (fdr_Path p) (fdr_Success p) (fdr_Error p)
      else if env_Type env = TypeProcessKillResp
      then let p = snd (DecodePayload unmarshal_ProcessKillRespPayload env zero_ProcessKillRespPayload)
           in record_action e h (pkr_DeviceID p) ''PROCESS_KILL'' (''PID: '' @ itoa (pkr_PID p))
                (pkr_Success p) (pkr_Error p)
      else h)"

definition routeToControllers :: "Env \<Rightarrow> Hub \<Rightarrow> cid \<Rightarrow> Envelope \<Rightarrow> Hub outcome" where
  "routeToControllers e h c env =
     broadcastDeviceResult (cache_and_audit e h env) (env_DeviceID env) env"

definition handleGetAuditLogs :: "Env \<Rightarrow> Hub \<Rightarrow> cid \<Rightarrow> Envelope \<Rightarrow> Hub outcome" where
  "handleGetAuditLogs e h c env =
     (let logs = ListAuditLogs (h_store h) (env_DeviceID env) 100;
          (respEnv, h) = newEnvelope e h TypeAuditLogsList (env_DeviceID env)
            (marshal_AuditLogsListPayload \<lparr>alp_Logs = logs\<rparr>)
      in Send h c respEnv)"

section \<open>The message router\<close>

definition agent_requests :: "string list" where
  "agent_requests = [TypeFileListReq, TypeFileReadReq, TypeFileWriteReq, TypeFileDeleteReq,
     TypeProcessListReq, TypeProcessKillReq, TypeScreenCaptureReq]"

definition agent_responses :: "string list" where
  "agent_responses = [TypeFileListResp, TypeFileReadResp, TypeFileWriteResp, TypeFileDeleteResp,
     TypeProcessListResp, TypeProcessKillResp, TypeScreenCaptureResp]"

definition handleMessage :: "Env \<Rightarrow> Hub \<Rightarrow> cid \<Rightarrow> Envelope \<Rightarrow> Hub outcome" where
  "handleMessage e h c env =
     (if env_Type env = TypeAuth then handleAuth e h c env
      else if env_Type env = TypeHeartbeat then handleHeartbeat e h c env
      else if env_Type env = TypeEnqueueCmd then handleEnqueueCmd e h c env
      else if env_Type env = TypeCmdResult then handleCmdResult e h c env
      else if env_Type env = TypeSyncReq then handleSyncReq e h c env
      else if env_Type env = TypeGetDevices then handleGetDevices e h c
      else if env_Type env = TypeGetAuditLogs then handleGetAuditLogs e h c env
      else if env_Type env \<in> set agent_requests then routeToAgent e h c env
      else if env_Type env \<in> set agent_responses then routeToControllers e h c env
      else Ret h)"

text \<open>One turn of \<open>readPump\<close>: a message that is not an envelope is skipped.\<close>

definition readMessage :: "Env \<Rightarrow> Hub \<Rightarrow> cid \<Rightarrow> json option \<Rightarrow> Hub outcome" where
  "readMessage e h c raw =
     (case raw of
        None \<Rightarrow> Ret h
      | Some j \<Rightarrow> (let (err, env) = unmarshal_Envelope j zero_Envelope
                   in if err then Ret h else handleMessage e h c env))"

text \<open>One turn of \<open>writePump\<close>: take the oldest buffered envelope.\<close>

definition writeNext :: "Hub \<Rightarrow> cid \<Rightarrow> (Envelope \<times> Hub) option" where
  "writeNext h c =
     (case c_send (h_clients h c) of
        [] \<Rightarrow> None
      | env # rest \<Rightarrow> Some (env, upd_client c (\<lambda>cl. cl\<lparr>c_send := rest\<rparr>) h))"

section \<open>Liveness\<close>

definition liveness_status :: "Config \<Rightarrow> int \<Rightarrow> bool \<Rightarrow> int \<Rightarrow> string" where
  "liveness_status cfg now isLiveConn lastHeartbeat =
     (if isLiveConn then StatusOnline
      else if lastHeartbeat = 0 then StatusOffline
      else
        let elapsed = seconds (now - lastHeartbeat) in
        if elapsed \<ge> cfg_HeartbeatTimeout cfg then StatusOffline
        else if elapsed \<ge> cfg_HeartbeatDegraded cfg then StatusDegraded
        else StatusOnline)"

fun update_liveness :: "Env \<Rightarrow> Hub \<Rightarrow> DeviceInfo list \<Rightarrow> Hub outcome" where
  "update_liveness e h [] = Ret h"
| "update_liveness e h (d # ds) =
     (let newStatus = liveness_status (h_cfg h) (unix_now e)
            (map_of (h_agents h) (di_DeviceID d) \<noteq> None) (di_LastHeartbeat d)
      in andThen
           (if newStatus \<noteq> di_Status d
            then broadcastDeviceStatusLocked e
                   (upd_store (\<lambda>db. UpdateDeviceStatus db (di_DeviceID d) newStatus) h)
                   (di_DeviceID d) newStatus
            else Ret h)
           (\<lambda>h. update_liveness e h ds))"

definition livenessTick :: "Env \<Rightarrow> Hub \<Rightarrow> Hub outcome" where
  "livenessTick e h =
     (case ListDevices (h_store h) of Inl _ \<Rightarrow> Ret h | Inr devices \<Rightarrow> update_liveness e h devices)"

definition NewHub :: "DB \<Rightarrow> Config \<Rightarrow> Hub" where
  "NewHub st cfg = \<lparr>h_store = st, h_cfg = cfg, h_agents = [], h_controllers = [],
     h_clients = (\<lambda>_. newClient ''''), h_next = 0, h_uuids = 0, h_wol = []\<rparr>"

end
