(* ===== verification/Bytes.thy ===== *)
theory Bytes
  imports Prelude
begin

text \<open>
  Text and byte conversions of the Go library that several components use: decimal numbers
  (\<^verbatim>\<open>strconv.Atoi\<close>), hardware addresses (\<^verbatim>\<open>net.ParseMAC\<close>), base64 (\<^verbatim>\<open>base64.StdEncoding\<close>), UTF-8 to
  UTF-16, and the escaping of query parameters (\<^verbatim>\<open>url.QueryEscape\<close>). A byte slice is a
  \<open>string\<close>, one character per byte. The locale \<open>text_codec\<close> is the contract of an encoding and
  its partial inverse; base64, query escaping and decimal numbers are interpretations.
\<close>

section \<open>Encodings with a partial inverse\<close>

locale text_codec =
  fixes enc :: "'a \<Rightarrow> string" and dec :: "string \<Rightarrow> 'a option" and valid :: "'a \<Rightarrow> bool"
  assumes dec_enc: "valid x \<Longrightarrow> dec (enc x) = Some x"
begin

lemma enc_inject: "valid x \<Longrightarrow> valid y \<Longrightarrow> enc x = enc y \<longleftrightarrow> x = y"
  using dec_enc by (metis option.inject)

lemma inj_enc: "inj_on enc (Collect valid)"
  by (rule inj_onI) (simp add: enc_inject)

end

abbreviation byte :: "nat \<Rightarrow> char" where
  "byte n \<equiv> char_of n"

abbreviation code :: "char \<Rightarrow> nat" where
  "code c \<equiv> of_char c"

lemma code_less_256 [simp]: "code c < 256"
  by (metis of_char_mod_256 mod_less_divisor zero_less_numeral)

lemma code_byte [simp]: "n < 256 \<Longrightarrow> code (byte n) = n"
  by simp

lemma byte_eq_iff: "m < 256 \<Longrightarrow> n < 256 \<Longrightarrow> byte m = byte n \<longleftrightarrow> m = n"
  by (metis code_byte)

section \<open>Decimal numbers\<close>

definition digit_val :: "char \<Rightarrow> nat option" where
  "digit_val c = (if 48 \<le> code c \<and> code c \<le> 57 then Some (code c - 48) else None)"

text \<open>
  \<open>scan_uint\<close> is the loop of \<^verbatim>\<open>strconv.ParseUint\<close>: it stops at the first character that is no
  digit (a syntax error), and at the first digit with which the number leaves 64 bits.
\<close>

fun scan_uint :: "nat \<Rightarrow> string \<Rightarrow> nat option" where
  "scan_uint n [] = Some n"
| "scan_uint n (c # cs) =
     (case digit_val c of
        None \<Rightarrow> None
      | Some d \<Rightarrow> if n * 10 + d \<ge> 2 ^ 64 then Some (2 ^ 64 - 1) else scan_uint (n * 10 + d) cs)"

text \<open>
  \<open>Atoi\<close> gives the error flag and the number: zero on a syntax error, the nearest
  64-bit number when the value is out of range.
\<close>

definition Atoi :: "string \<Rightarrow> bool \<times> int" where
  "Atoi s =
     (let neg = (s \<noteq> [] \<and> hd s = CHR ''-'');
          ds = (if s \<noteq> [] \<and> (hd s = CHR ''-'' \<or> hd s = CHR ''+'') then tl s else s)
      in if ds = [] then (True, 0)
         else case scan_uint 0 ds of
                None \<Rightarrow> (True, 0)
              | Some u \<Rightarrow>
                  if \<not> neg \<and> u \<ge> 2 ^ 63 then (True, 2 ^ 63 - 1)
                  else if neg \<and> u > 2 ^ 63 then (True, - (2 ^ 63))
                  else (False, if neg then - int u else int u))"

definition parse_int :: "string \<Rightarrow> int option" where
  "parse_int s = (case Atoi s of (True, _) \<Rightarrow> None | (False, n) \<Rightarrow> Some n)"

lemma digit_val_digit [simp]: "n < 10 \<Longrightarrow> digit_val (byte (48 + n)) = Some n"
  by (simp add: digit_val_def)

lemma scan_uint_append:
  "scan_uint n xs = Some m \<Longrightarrow> m < 2 ^ 64 - 1 \<Longrightarrow> scan_uint n (xs @ ys) = scan_uint m ys"
  by (induction n xs rule: scan_uint.induct) (auto split: option.splits if_splits)

lemma scan_uint_digits: "n < 2 ^ 64 - 1 \<Longrightarrow> scan_uint 0 (digits n) = Some n"
proof (induction n rule: digits.induct)
  case (1 n)
  show ?case
  proof (cases "n < 10")
    case True
    then show ?thesis by (subst digits.simps) simp
  next
    case False
    then have ih: "scan_uint 0 (digits (n div 10)) = Some (n div 10)" and small: "n div 10 < 2 ^ 64 - 1"
      using 1 by auto
    have last: "scan_uint (n div 10) [byte (48 + n mod 10)] = Some n"
      using 1(2) digit_val_digit [of "n mod 10"] by simp
    have "scan_uint 0 (digits (n div 10) @ [byte (48 + n mod 10)]) = Some n"
      using scan_uint_append [OF ih small, of "[byte (48 + n mod 10)]"] last by (simp only:)
    then show ?thesis using False by (subst digits.simps) simp
  qed
qed

lemma hd_digits: "digits n \<noteq> [] \<and> digit_val (hd (digits n)) \<noteq> None"
proof (induction n rule: digits.induct)
  case (1 n)
  then show ?case
    by (subst (1 2) digits.simps) (auto simp: hd_append)
qed

lemma Atoi_itoa: "in_int64 n \<Longrightarrow> Atoi (itoa n) = (False, n)"
proof -
  assume n: "in_int64 n"
  have no_sign: "hd (digits m) \<noteq> CHR ''-''" "hd (digits m) \<noteq> CHR ''+''" for m
    using hd_digits [of m] by (auto simp: digit_val_def)
  show ?thesis
  proof (cases "n < 0")
    case True
    then show ?thesis
      using n scan_uint_digits [of "nat (- n)"] hd_digits [of "nat (- n)"]
      by (simp add: Atoi_def itoa_def in_int64_def)
  next
    case False
    then show ?thesis
      using n scan_uint_digits [of "nat n"] hd_digits [of "nat n"] no_sign [of "nat n"]
      by (simp add: Atoi_def itoa_def in_int64_def nat_less_iff not_le [symmetric])
  qed
qed

interpretation decimal: text_codec itoa parse_int in_int64
  by unfold_locales (simp add: parse_int_def Atoi_itoa)

lemma Atoi_range: "in_int64 (snd (Atoi s))"
  by (auto simp: Atoi_def in_int64_def Let_def split: option.splits)

section \<open>Hexadecimal digits and hardware addresses\<close>

definition hex_val :: "char \<Rightarrow> nat option" where
  "hex_val c =
     (if 48 \<le> code c \<and> code c \<le> 57 then Some (code c - 48)
      else if 97 \<le> code c \<and> code c \<le> 102 then Some (code c - 87)
      else if 65 \<le> code c \<and> code c \<le> 70 then Some (code c - 55)
      else None)"

definition hex_upper :: "nat \<Rightarrow> char" where
  "hex_upper n = (if n < 10 then byte (48 + n) else byte (55 + n))"

definition hex_byte :: "char \<Rightarrow> char \<Rightarrow> char option" where
  "hex_byte a b =
     (case (hex_val a, hex_val b) of (Some m, Some n) \<Rightarrow> Some (byte (16 * m + n)) | _ \<Rightarrow> None)"

lemma hex_val_upper [simp]: "n < 16 \<Longrightarrow> hex_val (hex_upper n) = Some n"
  by (auto simp: hex_val_def hex_upper_def)

lemma hex_byte_upper [simp]: "n < 256 \<Longrightarrow> hex_byte (hex_upper (n div 16)) (hex_upper (n mod 16)) = Some (byte n)"
  by (simp add: hex_byte_def)

text \<open>
  \<^verbatim>\<open>net.ParseMAC\<close>: 6, 8 or 20 bytes as pairs of hexadecimal digits separated by colons or hyphens,
  or as groups of four digits separated by points. Two digits not followed by the separator
  are an error.
\<close>

fun mac_pairs :: "nat \<Rightarrow> char \<Rightarrow> string \<Rightarrow> string option" where
  "mac_pairs 0 sep s = Some []"
| "mac_pairs (Suc n) sep (a # b # rest) =
     (case hex_byte a b of
        None \<Rightarrow> None
      | Some v \<Rightarrow>
          if rest \<noteq> [] \<and> hd rest \<noteq> sep then None
          else map_option ((#) v) (mac_pairs n sep (tl rest)))"
| "mac_pairs (Suc n) sep s = None"

fun mac_quads :: "nat \<Rightarrow> string \<Rightarrow> string option" where
  "mac_quads 0 s = Some []"
| "mac_quads (Suc n) (a # b # c # d # rest) =
     (case (hex_byte a b, hex_byte c d) of
        (Some v, Some w) \<Rightarrow>
          if rest \<noteq> [] \<and> hd rest \<noteq> CHR ''.'' then None
          else map_option (\<lambda>xs. v # w # xs) (mac_quads n (tl rest))
      | _ \<Rightarrow> None)"
| "mac_quads (Suc n) s = None"

definition ParseMAC :: "string \<Rightarrow> string option" where
  "ParseMAC s =
     (if length s < 14 then None
      else if s ! 2 = CHR '':'' \<or> s ! 2 = CHR ''-''
      then let n = (length s + 1) div 3
           in if (length s + 1) mod 3 \<noteq> 0 \<or> n \<notin> {6, 8, 20} then None else mac_pairs n (s ! 2) s
      else if s ! 4 = CHR ''.''
      then let n = 2 * (length s + 1) div 5
           in if (length s + 1) mod 5 \<noteq> 0 \<or> n \<notin> {6, 8, 20} then None else mac_quads (n div 2) s
      else None)"

lemma length_mac_pairs: "mac_pairs n sep s = Some hw \<Longrightarrow> length hw = n"
  by (induction n sep s arbitrary: hw rule: mac_pairs.induct) (auto split: option.splits if_splits)

lemma length_mac_quads: "mac_quads n s = Some hw \<Longrightarrow> length hw = 2 * n"
  by (induction n s arbitrary: hw rule: mac_quads.induct) (auto split: option.splits if_splits)

lemma length_ParseMAC: "ParseMAC s = Some hw \<Longrightarrow> length hw \<in> {6, 8, 20}"
  by (auto simp: ParseMAC_def Let_def split: if_splits dest!: length_mac_pairs length_mac_quads)

text \<open>\<open>HardwareAddr.String\<close> after \<open>strings.ToUpper\<close>, the form in which agents report their address.\<close>

fun mac_string :: "string \<Rightarrow> string" where
  "mac_string [] = []"
| "mac_string [c] = [hex_upper (code c div 16), hex_upper (code c mod 16)]"
| "mac_string (c # cs) = [hex_upper (code c div 16), hex_upper (code c mod 16), CHR '':''] @ mac_string cs"

lemma length_mac_string: "hw \<noteq> [] \<Longrightarrow> length (mac_string hw) = 3 * length hw - 1"
  by (induction hw rule: mac_string.induct) auto

lemma mac_pairs_mac_string: "mac_pairs (length hw) CHR '':'' (mac_string hw) = Some hw"
  by (induction hw rule: mac_string.induct) auto

lemma ParseMAC_mac_string:
  assumes "length hw \<in> {6, 8, 20}"
  shows "ParseMAC (mac_string hw) = Some hw"
proof -
  obtain a b c where hw: "hw = a # b # c" using assms by (cases hw rule: mac_string.cases) auto
  then have third: "mac_string hw ! 2 = CHR '':''" by simp
  have len: "length (mac_string hw) = 3 * length hw - 1" using length_mac_string hw by simp
  show ?thesis
    using assms third mac_pairs_mac_string [of hw]
    by (auto simp: ParseMAC_def len)
qed

interpretation mac: text_codec mac_string ParseMAC "\<lambda>hw. length hw \<in> {6, 8, 20}"
  by unfold_locales (rule ParseMAC_mac_string)

section \<open>Base64\<close>

definition b64_char :: "nat \<Rightarrow> char" where
  "b64_char n =
     (if n < 26 then byte (65 + n) else if n < 52 then byte (71 + n)
      else if n < 62 then byte (n - 4) else if n = 62 then CHR ''+'' else CHR ''/'')"

definition b64_val :: "char \<Rightarrow> nat option" where
  "b64_val c =
     (if 65 \<le> code c \<and> code c \<le> 90 then Some (code c - 65)
      else if 97 \<le> code c \<and> code c \<le> 122 then Some (code c - 71)
      else if 48 \<le> code c \<and> code c \<le> 57 then Some (code c + 4)
      else if c = CHR ''+'' then Some 62 else if c = CHR ''/'' then Some 63 else None)"

fun b64_encode :: "string \<Rightarrow> string" where
  "b64_encode [] = []"
| "b64_encode [x] =
     (let v = code x * 16
      in [b64_char (v div 64), b64_char (v mod 64), CHR ''='', CHR ''=''])"
| "b64_encode [x, y] =
     (let v = (code x * 256 + code y) * 4
      in [b64_char (v div 4096), b64_char (v div 64 mod 64), b64_char (v mod 64), CHR ''=''])"
| "b64_encode (x # y # z # rest) =
     (let v = code x * 65536 + code y * 256 + code z
      in [b64_char (v div 262144), b64_char (v div 4096 mod 64), b64_char (v div 64 mod 64),
          b64_char (v mod 64)] @ b64_encode rest)"

text \<open>
  \<open>DecodeString\<close> skips line breaks, demands the padding, and does not look at the bits that the
  padding leaves over.
\<close>

fun b64_quanta :: "string \<Rightarrow> string option" where
  "b64_quanta [] = Some []"
| "b64_quanta (a # b # c # d # rest) =
     (case (b64_val a, b64_val b) of
        (Some p, Some q) \<Rightarrow>
          if c = CHR ''='' then
            (if d = CHR ''='' \<and> rest = [] then Some [byte ((p * 64 + q) div 16)] else None)
          else
            (case b64_val c of
               None \<Rightarrow> None
             | Some r \<Rightarrow>
                 if d = CHR ''='' then
                   (if rest = []
                    then let v = p * 4096 + q * 64 + r in Some [byte (v div 1024), byte (v div 4 mod 256)]
                    else None)
                 else
                   (case b64_val d of
                      None \<Rightarrow> None
                    | Some s \<Rightarrow>
                        let v = p * 262144 + q * 4096 + r * 64 + s
                        in map_option (\<lambda>xs. byte (v div 65536) # byte (v div 256 mod 256) # byte (v mod 256) # xs)
                             (b64_quanta rest)))
      | _ \<Rightarrow> None)"
| "b64_quanta s = None"

definition b64_decode :: "string \<Rightarrow> string option" where
  "b64_decode s = b64_quanta (filter (\<lambda>c. code c \<noteq> 10 \<and> code c \<noteq> 13) s)"

lemma b64_val_char [simp]: "n < 64 \<Longrightarrow> b64_val (b64_char n) = Some n"
  by (auto simp: b64_val_def b64_char_def)

lemma b64_char_text:
  "code (b64_char n) \<noteq> 10 \<and> code (b64_char n) \<noteq> 13 \<and> b64_char n \<noteq> CHR ''=''"
  by (auto simp: b64_char_def char_of_eq_iff take_bit_eq_mod)

lemma b64_encode_one_line: "c \<in> set (b64_encode s) \<Longrightarrow> code c \<noteq> 10 \<and> code c \<noteq> 13"
  using b64_char_text by (induction s rule: b64_encode.induct) (auto simp: Let_def)

text \<open>Splitting a number into its base-64 digits, and putting the bytes together again.\<close>

lemma digits64:
  fixes x y z :: nat
  assumes "x < 256" "y < 256" "z < 256" and "v = x * 65536 + y * 256 + z"
  shows "v div 262144 < 64" "v div 262144 * 262144 + v div 4096 mod 64 * 4096 + v div 64 mod 64 * 64 + v mod 64 = v"
    "v div 65536 = x" "v div 256 mod 256 = y" "v mod 256 = z"
proof -
  show "v div 262144 < 64" using assms by simp
  have "v div 4096 = v div 64 div 64" "v div 262144 = v div 64 div 64 div 64"
    using div_mult2_eq [of v 64 64] div_mult2_eq [of v "64 * 64" 64] by simp_all
  moreover have "t * 262144 + c * 4096 + b * 64 + a = u" if "u = p * 64 + a" "p = q * 64 + b" "q = t * 64 + c" for a b c p q t u :: nat
    using that by simp
  ultimately show "v div 262144 * 262144 + v div 4096 mod 64 * 4096 + v div 64 mod 64 * 64 + v mod 64 = v"
    by (metis div_mult_mod_eq)
  have v: "v = (x * 256 + y) * 256 + z" using assms(4) by simp
  show "v div 65536 = x" using assms by auto
  show "v mod 256 = z" using assms(3) by (simp only: v mod_mult_self3 mod_less)
  have "v div 256 = x * 256 + y" using assms(3) unfolding v by simp
  then show "v div 256 mod 256 = y" using assms(2) by (simp only: mod_mult_self3 mod_less)
qed

lemma b64_quanta_encode: "b64_quanta (b64_encode s) = Some s"
proof (induction s rule: b64_encode.induct)
  case (2 x)
  let ?v = "code x * 16"
  have "?v div 64 = code x div 4" by simp
  then have "code x div 4 * 64 + ?v mod 64 = ?v" by (metis div_mult_mod_eq)
  moreover have "code x div 4 < 64" using code_less_256 [of x] by (simp add: less_mult_imp_div_less)
  ultimately show ?case by (simp add: Let_def)
next
  case (3 x y)
  let ?v = "(code x * 256 + code y) * 4"
  have "m < 256 \<Longrightarrow> n < 256 \<Longrightarrow> (m * 256 + n) * 4 < 64 * 4096" for m n :: nat by simp
  then have "?v < 64 * 4096" by (metis code_less_256)
  then have v: "?v div 4096 < 64" by (rule less_mult_imp_div_less)
  have "?v div 4096 = ?v div 64 div 64" using div_mult2_eq [of ?v 64 64] by simp
  moreover have "q * 4096 + b * 64 + a = u" if "u = p * 64 + a" "p = q * 64 + b" for a b p q u :: nat
    using that by simp
  ultimately have "?v div 4096 * 4096 + ?v div 64 mod 64 * 64 + ?v mod 64 = ?v"
    by (metis div_mult_mod_eq)
  moreover have "?v div 1024 = code x"
  proof -
    have "?v div (256 * 4) = (code x * 256 + code y) div 256" by (rule div_mult_mult2) simp
    then show ?thesis by simp
  qed
  moreover have "?v div 4 mod 256 = code y"
    using code_less_256 [of y] by (simp only: nonzero_mult_div_cancel_right mod_mult_self3 mod_less)
  ultimately show ?case using v b64_char_text by (simp only: Let_def b64_encode.simps b64_quanta.simps) simp
next
  case (4 x y z rest)
  let ?v = "code x * 65536 + code y * 256 + code z"
  note d = digits64 [of "code x" "code y" "code z" ?v, OF code_less_256 code_less_256 code_less_256 refl]
  show ?case
    using b64_char_text 4 by (simp add: Let_def d del: char_of_mod_256)
qed simp

lemma b64_decode_encode: "b64_decode (b64_encode s) = Some s"
proof -
  have "filter (\<lambda>c. code c \<noteq> 10 \<and> code c \<noteq> 13) (b64_encode s) = b64_encode s"
    by (simp add: filter_id_conv b64_encode_one_line)
  then show ?thesis by (simp add: b64_decode_def b64_quanta_encode)
qed

interpretation base64: text_codec b64_encode b64_decode "\<lambda>_. True"
  by unfold_locales (rule b64_decode_encode)

lemma length_b64_encode: "length (b64_encode s) = 4 * ((length s + 2) div 3)"
proof (induction s rule: b64_encode.induct)
  case (4 x y z rest)
  have "(length rest + 2 + 3) div 3 = (length rest + 2) div 3 + 1" by (rule div_add_self2) simp
  then show ?case using 4 by (simp add: Let_def)
qed (simp_all add: Let_def)

section \<open>UTF-8 and UTF-16\<close>

definition is_cont :: "char \<Rightarrow> bool" where
  "is_cont c \<longleftrightarrow> 0x80 \<le> code c \<and> code c \<le> 0xBF"

text \<open>
  \<open>utf8_width\<close> is the number of bytes of the well-formed sequence at the head of a byte string,
  zero when there is none: overlong forms, surrogates and values above \<open>U+10FFFF\<close> are not
  well formed. A conversion to \<^verbatim>\<open>[]rune\<close> replaces each byte outside such a sequence by
  \<open>U+FFFD\<close>.
\<close>

definition utf8_width :: "string \<Rightarrow> nat" where
  "utf8_width s =
     (case s of [] \<Rightarrow> 0 | c # cs \<Rightarrow>
        let b = code c;
            second = (\<lambda>lo hi. cs \<noteq> [] \<and> lo \<le> code (hd cs) \<and> code (hd cs) \<le> (hi :: nat));
            conts = (\<lambda>n. n \<le> length cs \<and> list_all is_cont (take n cs))
        in if b < 0x80 then 1
           else if 0xC2 \<le> b \<and> b \<le> 0xDF then (if conts 1 then 2 else 0)
           else if b = 0xE0 then (if conts 2 \<and> second 0xA0 0xBF then 3 else 0)
           else if b = 0xED then (if conts 2 \<and> second 0x80 0x9F then 3 else 0)
           else if 0xE1 \<le> b \<and> b \<le> 0xEF then (if conts 2 then 3 else 0)
           else if b = 0xF0 then (if conts 3 \<and> second 0x90 0xBF then 4 else 0)
           else if b = 0xF4 then (if conts 3 \<and> second 0x80 0x8F then 4 else 0)
           else if 0xF1 \<le> b \<and> b \<le> 0xF3 then (if conts 3 then 4 else 0)
           else 0)"

definition utf8_rune :: "string \<Rightarrow> nat" where
  "utf8_rune s =
     (let w = utf8_width s; tails = map (\<lambda>c. code c mod 64) (take (w - 1) (tl s));
          lead = (if w = 1 then code (hd s) else if w = 2 then code (hd s) mod 32
                  else if w = 3 then code (hd s) mod 16 else code (hd s) mod 8)
      in if w = 0 then 0xFFFD else foldl (\<lambda>r t. r * 64 + t) lead tails)"

function runes :: "string \<Rightarrow> nat list" where
  "runes s = (if s = [] then [] else utf8_rune s # runes (drop (max 1 (utf8_width s)) s))"
  by auto
termination by (relation "measure length") auto

declare runes.simps [simp del]

fun utf16_units :: "nat list \<Rightarrow> nat list" where
  "utf16_units [] = []"
| "utf16_units (r # rs) =
     (if r < 0x10000 then r # utf16_units rs
      else (0xD800 + (r - 0x10000) div 1024) # (0xDC00 + (r - 0x10000) mod 1024) # utf16_units rs)"

definition utf16Encode :: "string \<Rightarrow> string" where
  "utf16Encode s = concat (map (\<lambda>u. [byte (u mod 256), byte (u div 256)]) (utf16_units (runes s)))"

lemma utf8_width_ascii: "code c < 128 \<Longrightarrow> utf8_width (c # cs) = 1"
  by (simp add: utf8_width_def Let_def)

lemma runes_ascii: "\<forall>c \<in> set s. code c < 128 \<Longrightarrow> runes s = map code s"
proof (induction s)
  case Nil
  then show ?case by (subst runes.simps) simp
next
  case (Cons c s)
  then show ?case
    using utf8_width_ascii [of c s] by (subst runes.simps) (simp add: utf8_rune_def Let_def)
qed

lemma utf16Encode_ascii:
  assumes "\<forall>c \<in> set s. code c < 128"
  shows "utf16Encode s = concat (map (\<lambda>c. [c, CHR 0x00]) s)"
proof -
  have "utf16_units (map code s) = map code s" using assms by (induction s) auto
  then show ?thesis
    using assms by (auto simp: utf16Encode_def runes_ascii comp_def char_of_eq_iff intro!: arg_cong [where f = concat] map_cong)
qed

section \<open>Query parameters\<close>

definition unreserved :: "char \<Rightarrow> bool" where
  "unreserved c \<longleftrightarrow> (48 \<le> code c \<and> code c \<le> 57) \<or> (65 \<le> code c \<and> code c \<le> 90)
     \<or> (97 \<le> code c \<and> code c \<le> 122) \<or> c \<in> {CHR ''-'', CHR ''_'', CHR ''.'', CHR ''~''}"

fun QueryEscape :: "string \<Rightarrow> string" where
  "QueryEscape [] = []"
| "QueryEscape (c # cs) =
     (if unreserved c then [c]
      else if c = CHR '' '' then [CHR ''+'']
      else [CHR ''%'', hex_upper (code c div 16), hex_upper (code c mod 16)]) @ QueryEscape cs"

fun QueryUnescape :: "string \<Rightarrow> string option" where
  "QueryUnescape [] = Some []"
| "QueryUnescape (c # cs) =
     (if c = CHR ''+'' then map_option ((#) CHR '' '') (QueryUnescape cs)
      else if c = CHR ''%''
      then (case cs of
              a # b # rest \<Rightarrow>
                (case hex_byte a b of None \<Rightarrow> None | Some v \<Rightarrow> map_option ((#) v) (QueryUnescape rest))
            | _ \<Rightarrow> None)
      else map_option ((#) c) (QueryUnescape cs))"

lemma QueryUnescape_Escape: "QueryUnescape (QueryEscape s) = Some s"
proof (induction s)
  case (Cons c s)
  have "\<not> unreserved CHR ''+''" "\<not> unreserved CHR ''%''" by (simp_all add: unreserved_def)
  moreover have "hex_byte (hex_upper (code c div 16)) (hex_upper (code c mod 16)) = Some c"
    using hex_byte_upper [of "code c"] by simp
  ultimately show ?case using Cons by (cases "unreserved c"; cases "c = CHR '' ''") auto
qed simp

interpretation query: text_codec QueryEscape QueryUnescape "\<lambda>_. True"
  by unfold_locales (rule QueryUnescape_Escape)

lemma hex_upper_unreserved: "n < 16 \<Longrightarrow> unreserved (hex_upper n)"
  by (auto simp: unreserved_def hex_upper_def)

lemma QueryEscape_chars: "c \<in> set (QueryEscape s) \<Longrightarrow> unreserved c \<or> c = CHR ''+'' \<or> c = CHR ''%''"
proof (induction s)
  case (Cons x s)
  have "code x div 16 < 16" by (rule less_mult_imp_div_less) simp
  then show ?case using Cons by (auto split: if_splits simp: hex_upper_unreserved)
qed simp

end
