(* ===== verification/Web.thy ===== *)
theory Web
  imports Hub Bytes
begin

text \<open>
  The REST interface, \<^verbatim>\<open>internal/web/web.go\<close>: one definition per handler over the hub and its store, and
  \<open>serve\<close>, which dispatches as \<open>RegisterRoutes\<close> registers them.

  A request is its method, path, host, query parameters in their order, the \<open>Authorization\<close> header
  (empty when absent), and the first JSON value of the body (\<open>None\<close> when the body does not start
  with one). \<open>WebEnv\<close> is what the server takes from outside: the relay's environment, whether the
  store is the Supabase one, sending a UDP datagram, the embedded and local files, and the
  answer of the WebSocket upgrade when it refuses a request. A panic in a handler other than the WebSocket one is caught
  by \<^verbatim>\<open>net/http\<close>, which drops the connection; the value \<open>Panic\<close> then stands for the aborted request.
\<close>

section \<open>Requests and responses\<close>

record Request =
  rq_Method :: string
  rq_Path :: string
  rq_Host :: string
  rq_Query :: "(string \<times> string) list"
  rq_Authorization :: string
  rq_Body :: "json option"

datatype body = Text string | Json json | File string | Redirect string | Upgraded

record Response =
  rs_Code :: int
  rs_Type :: string
  rs_Body :: body

datatype udp_step = ResolveErr string | DialErr string | WriteErr string | Sent

record WebEnv =
  v_env :: Env
  v_supabase :: bool
  v_udp :: "string \<Rightarrow> string \<Rightarrow> udp_step"
  v_staticFile :: "string \<Rightarrow> string option"
  v_readFile :: "string \<Rightarrow> string option"
  v_upgrade :: "Request \<Rightarrow> Response option"
  v_static :: "Request \<Rightarrow> Response"

definition http_error :: "string \<Rightarrow> int \<Rightarrow> Response" where
  "http_error msg c = \<lparr>rs_Code = c, rs_Type = ''text/plain; charset=utf-8'', rs_Body = Text (msg @ newline)\<rparr>"

definition json_response :: "int \<Rightarrow> json \<Rightarrow> Response" where
  "json_response c j = \<lparr>rs_Code = c, rs_Type = ''application/json'', rs_Body = Json j\<rparr>"

abbreviation method_not_allowed :: Response where
  "method_not_allowed \<equiv> http_error ''Method not allowed'' 405"

definition query_get :: "Request \<Rightarrow> string \<Rightarrow> string" where
  "query_get rq k = (case map_of (rq_Query rq) k of Some v \<Rightarrow> v | None \<Rightarrow> '''')"

definition extractToken :: "Request \<Rightarrow> string" where
  "extractToken rq =
     (if HasPrefix (rq_Authorization rq) ''Bearer '' then TrimSpace (drop 7 (rq_Authorization rq))
      else if query_get rq ''token'' \<noteq> '''' then TrimSpace (query_get rq ''token'')
      else '''')"

text \<open>Decoding the body into a struct: the error flag and the value decoded so far.\<close>

definition decode_body :: "'a dec \<Rightarrow> 'a \<Rightarrow> Request \<Rightarrow> bool \<times> 'a" where
  "decode_body dec zero rq = (case rq_Body rq of None \<Rightarrow> (True, zero) | Some j \<Rightarrow> dec j zero)"

section \<open>Accounts\<close>

record UserAuthResponse =
  us_Success :: bool
  us_Error :: string
  us_User :: "UserAccount option"
  us_Devices :: "DeviceInfo list"

definition marshal_UserAuthResponse :: "UserAuthResponse \<Rightarrow> json" where
  "marshal_UserAuthResponse r = JObj (
      [(''success'', JBool (us_Success r))]
    @ omitempty (us_Error r = '''') ''error'' (JStr (us_Error r))
    @ (case us_User r of None \<Rightarrow> [] | Some u \<Rightarrow> [(''user'', marshal_UserAccount u)])
    @ omitempty (us_Devices r = []) ''devices'' (JArr (map marshal_DeviceInfo (us_Devices r))))"

definition auth_failed :: "int \<Rightarrow> string \<Rightarrow> Response" where
  "auth_failed c msg = json_response c (marshal_UserAuthResponse
     \<lparr>us_Success = False, us_Error = msg, us_User = None, us_Devices = []\<rparr>)"

definition auth_granted :: "Hub \<Rightarrow> UserAccount \<Rightarrow> Response" where
  "auth_granted h user = json_response 200 (marshal_UserAuthResponse
     \<lparr>us_Success = True, us_Error = '''', us_User = Some user,
      us_Devices = GetDevicesForUser h (ua_UserID user)\<rparr>)"

definition handleRegister :: "WebEnv \<Rightarrow> Hub \<Rightarrow> Request \<Rightarrow> Response \<times> Hub" where
  "handleRegister v h rq =
     (if rq_Method rq \<noteq> ''POST'' then (method_not_allowed, h)
      else
        let (err, req) = decode_body unmarshal_UserAuthRequest zero_UserAuthRequest rq in
        if err then (auth_failed 400 ''Invalid request payload'', h)
        else
          let (uuid1, h) = newUUID (v_env v) h;
              (uuid2, h) = newUUID (v_env v) h;
              (db, r) = CreateUser uuid1 uuid2 (unix_now (v_env v)) (h_store h) (ur_Username req) (ur_Password req);
              h = h\<lparr>h_store := db\<rparr>
          in case r of
               Inl x \<Rightarrow> (auth_failed 400 (e_sqlErr (v_env v) x), h)
             | Inr user \<Rightarrow> (auth_granted h user, h))"

definition handleLogin :: "WebEnv \<Rightarrow> Hub \<Rightarrow> Request \<Rightarrow> Response" where
  "handleLogin v h rq =
     (if rq_Method rq \<noteq> ''POST'' then method_not_allowed
      else
        let (err, req) = decode_body unmarshal_UserAuthRequest zero_UserAuthRequest rq in
        if err then auth_failed 400 ''Invalid request payload''
        else case AuthenticateUser (h_store h) (ur_Username req) (ur_Password req) of
               Inl x \<Rightarrow> auth_failed 401 (e_sqlErr (v_env v) x)
             | Inr user \<Rightarrow> auth_granted h user)"

definition handleAuthMe :: "Hub \<Rightarrow> Request \<Rightarrow> Response" where
  "handleAuthMe h rq =
     (let token = extractToken rq in
      if token = '''' then auth_failed 401 ''No token provided''
      else case GetUserByToken (h_store h) token of
             None \<Rightarrow> auth_failed 401 ''Invalid session token''
           | Some user \<Rightarrow> auth_granted h user)"

section \<open>Devices, commands, results and logs\<close>

definition handleDevices :: "Hub \<Rightarrow> Request \<Rightarrow> Response" where
  "handleDevices h rq =
     (if rq_Method rq \<noteq> ''GET'' then method_not_allowed
      else
        let token = extractToken rq;
            devices = (if token \<noteq> ''''
                       then case GetUserByToken (h_store h) token of
                              Some u \<Rightarrow> GetDevicesForUser h (ua_UserID u)
                            | None \<Rightarrow> GetDevices h
                       else GetDevices h)
        in json_response 200 (JArr (map marshal_DeviceInfo devices)))"

record enqueueReq =
  eq_DeviceID :: string
  eq_Command :: string
  eq_TimeoutSec :: int

definition zero_enqueueReq :: enqueueReq where
  "zero_enqueueReq = \<lparr>eq_DeviceID = '''', eq_Command = '''', eq_TimeoutSec = 0\<rparr>"

definition unmarshal_enqueueReq :: "enqueueReq dec" where
  "unmarshal_enqueueReq = dec_struct [
      (''deviceId'', into dec_string eq_DeviceID eq_DeviceID_update),
      (''command'', into dec_string eq_Command eq_Command_update),
      (''timeoutSec'', into dec_int64 eq_TimeoutSec eq_TimeoutSec_update)]"

text \<open>A \<open>CommandRecord\<close> has no field tags: its members have the Go names.\<close>

definition marshal_CommandRecord :: "CommandRecord \<Rightarrow> json" where
  "marshal_CommandRecord r = JObj [
      (''CommandID'', JStr (cr_CommandID r)), (''DeviceID'', JStr (cr_DeviceID r)),
      (''Command'', JStr (cr_Command r)), (''TimeoutSec'', enc_int (cr_TimeoutSec r)),
      (''Status'', JStr (cr_Status r)), (''CreatedAt'', enc_int (cr_CreatedAt r)),
      (''DispatchedAt'', enc_int (cr_DispatchedAt r)), (''CompletedAt'', enc_int (cr_CompletedAt r))]"

text \<open>The query parameter \<open>limit\<close>; a text that is no number counts as zero, and zero as the default.\<close>

definition query_limit :: "Request \<Rightarrow> int \<Rightarrow> int" where
  "query_limit rq dflt =
     (let limit = snd (Atoi (query_get rq ''limit'')) in if limit \<le> 0 then dflt else limit)"

text \<open>
  The handler passes the command to \<open>EnqueueDirect\<close> by value: the identifier generated there is not
  the one of the answer.
\<close>

definition postCommand :: "WebEnv \<Rightarrow> Hub \<Rightarrow> Request \<Rightarrow> (Response \<times> Hub) outcome" where
  "postCommand v h rq =
     (let (err, req) = decode_body unmarshal_enqueueReq zero_enqueueReq rq in
      if err then Ret (http_error (''Invalid JSON: '' @ e_jsonErr (v_env v) (rq_Body rq)) 400, h)
      else if eq_DeviceID req = '''' \<or> eq_Command req = ''''
      then Ret (http_error ''deviceId and command are required'' 400, h)
      else
        let cmd = \<lparr>cp_CommandID = '''', cp_DeviceID = eq_DeviceID req, cp_Command = eq_Command req,
                   cp_TimeoutSec = eq_TimeoutSec req, cp_CreatedAt = 0\<rparr>
        in andThen (EnqueueDirect (v_env v) h cmd) (\<lambda>(err, h).
             Ret (case err of
                    Some msg \<Rightarrow> http_error (''Failed to enqueue: '' @ msg) 500
                  | None \<Rightarrow> json_response 200 (JObj [(''commandId'', JStr (cp_CommandID cmd)),
                      (''deviceId'', JStr (cp_DeviceID cmd)), (''success'', JBool True)]), h)))"

definition handleCommands :: "WebEnv \<Rightarrow> Hub \<Rightarrow> Request \<Rightarrow> (Response \<times> Hub) outcome" where
  "handleCommands v h rq =
     (if rq_Method rq = ''POST'' then postCommand v h rq
      else if rq_Method rq = ''GET''
      then if v_supabase v then Panic NilDereference \<comment> \<open>\<open>Store.ListCommands\<close> on a nil \<open>db\<close>\<close>
           else Ret (json_response 200 (enc_slice marshal_CommandRecord
             (ListCommands (h_store h) (query_get rq ''deviceId'') (query_limit rq 50))), h)
      else Ret (method_not_allowed, h))"

definition handleResults :: "Hub \<Rightarrow> Request \<Rightarrow> Response" where
  "handleResults h rq =
     (if rq_Method rq \<noteq> ''GET'' then method_not_allowed
      else
        let commandID = TrimSpace (query_get rq ''commandId'') in
        if commandID \<noteq> ''''
        then case GetResult (h_store h) commandID of
               None \<Rightarrow> http_error ''Result not found'' 404
             | Some res \<Rightarrow> json_response 200 (marshal_ResultPayload res)
        else json_response 200 (enc_slice marshal_ResultPayload
               (ListResults (h_store h) (query_get rq ''deviceId'') (query_limit rq 50))))"

definition handleAuditLogs :: "Hub \<Rightarrow> Request \<Rightarrow> Response" where
  "handleAuditLogs h rq =
     (if rq_Method rq \<noteq> ''GET'' then method_not_allowed
      else json_response 200 (enc_slice marshal_AuditLogRecord
             (ListAuditLogs (h_store h) (query_get rq ''deviceId'') (query_limit rq 100))))"

definition handleTelemetryHistory :: "Hub \<Rightarrow> Request \<Rightarrow> Response" where
  "handleTelemetryHistory h rq =
     (let deviceID = query_get rq ''device_id'' in
      if deviceID = '''' then http_error ''missing device_id'' 400
      else
        let (err, l) = Atoi (query_get rq ''limit'');
            limit = (if \<not> err \<and> l > 0 then l else 60)
        in json_response 200 (marshal_TelemetryHistoryResponse
             \<lparr>thr_DeviceID = deviceID, thr_Points = GetTelemetryHistory (h_store h) deviceID limit\<rparr>))"

section \<open>Wake on LAN\<close>

text \<open>\<open>copy_at i src dst\<close> is Go's \<^verbatim>\<open>copy(dst[i:], src)\<close>: as many bytes as fit.\<close>

definition copy_at :: "nat \<Rightarrow> 'a list \<Rightarrow> 'a list \<Rightarrow> 'a list" where
  "copy_at i src dst = take i dst @ take (length dst - i) src @ drop (i + length src) dst"

definition magic_packet :: "string \<Rightarrow> string" where
  "magic_packet hw =
     (let packet = replicate (6 + 16 * length hw) (byte 0);
          packet = fold (\<lambda>i p. p[i := byte 0xFF]) [0..<6] packet
      in fold (\<lambda>i p. copy_at (6 + i * length hw) hw p) [0..<16] packet)"

text \<open>The error, when there is one, and the datagram that was sent, with its destination.\<close>

definition sendMagicPacket :: "WebEnv \<Rightarrow> string \<Rightarrow> string \<Rightarrow> string option \<times> (string \<times> string) list" where
  "sendMagicPacket v macStr broadcastIP =
     (case ParseMAC macStr of
        None \<Rightarrow> (Some (''invalid MAC address: address '' @ macStr @ '': invalid MAC address''), [])
      | Some hw \<Rightarrow>
          (let addr = broadcastIP @ '':9''; packet = magic_packet hw in
           case v_udp v addr packet of
             ResolveErr msg \<Rightarrow> (Some (''resolve UDP addr: '' @ msg), [])
           | DialErr msg \<Rightarrow> (Some (''dial UDP: '' @ msg), [])
           | WriteErr msg \<Rightarrow> (Some msg, [])
           | Sent \<Rightarrow> (None, [(addr, packet)])))"

text \<open>The hub has its own copy, for the offline command \<open>wake\<close>; \<open>h_wol\<close> lists its calls, whose errors the hub ignores.\<close>

definition hub_sendMagicPacket :: "WebEnv \<Rightarrow> string \<Rightarrow> string \<Rightarrow> string option \<times> (string \<times> string) list" where
  "hub_sendMagicPacket v macStr broadcastIP =
     (case ParseMAC macStr of
        None \<Rightarrow> (Some (''invalid MAC address: address '' @ macStr @ '': invalid MAC address''), [])
      | Some hw \<Rightarrow>
          (let packet = magic_packet hw; addr = broadcastIP @ '':9'' in
           case v_udp v addr packet of
             ResolveErr msg \<Rightarrow> (Some (''resolve UDP addr: '' @ msg), [])
           | DialErr msg \<Rightarrow> (Some (''dial UDP: '' @ msg), [])
           | WriteErr msg \<Rightarrow> (Some msg, [])
           | Sent \<Rightarrow> (None, [(addr, packet)])))"

definition hub_datagrams :: "WebEnv \<Rightarrow> Hub \<Rightarrow> (string \<times> string) list" where
  "hub_datagrams v h = concat (map (\<lambda>(mac, ip). snd (hub_sendMagicPacket v mac ip)) (h_wol h))"

record wolRequest =
  wq_MACAddress :: string
  wq_BroadcastIP :: string

definition zero_wolRequest :: wolRequest where
  "zero_wolRequest = \<lparr>wq_MACAddress = '''', wq_BroadcastIP = ''''\<rparr>"

definition unmarshal_wolRequest :: "wolRequest dec" where
  "unmarshal_wolRequest = dec_struct [
      (''macAddress'', into dec_string wq_MACAddress wq_MACAddress_update),
      (''broadcastIp'', into dec_string wq_BroadcastIP wq_BroadcastIP_update)]"

definition handleWakeOnLAN :: "WebEnv \<Rightarrow> Request \<Rightarrow> Response \<times> (string \<times> string) list" where
  "handleWakeOnLAN v rq =
     (if rq_Method rq \<noteq> ''POST'' then (method_not_allowed, [])
      else
        let (err, req) = decode_body unmarshal_wolRequest zero_wolRequest rq in
        if err then (http_error (''Invalid JSON: '' @ e_jsonErr (v_env v) (rq_Body rq)) 400, [])
        else if wq_MACAddress req = ''''
        then (http_error ''macAddress is required (e.g. AA:BB:CC:DD:EE:FF)'' 400, [])
        else
          let ip = (if wq_BroadcastIP req = '''' then ''255.255.255.255'' else wq_BroadcastIP req);
              (err, sent) = sendMagicPacket v (wq_MACAddress req) ip
          in (case err of
                Some msg \<Rightarrow> http_error (''Failed to send WoL packet: '' @ msg) 500
              | None \<Rightarrow> json_response 200 (JObj [(''broadcast'', JStr (ip @ '':9'')),
                  (''macAddress'', JStr (wq_MACAddress req)),
                  (''message'', JStr ''Magic packet sent successfully''), (''success'', JBool True)]), sent))"

section \<open>Health and downloads\<close>

definition storage_backend :: "WebEnv \<Rightarrow> string" where
  "storage_backend v = (if v_supabase v then ''supabase'' else ''sqlite'')"

definition handleHealth :: "WebEnv \<Rightarrow> Hub \<Rightarrow> Response" where
  "handleHealth v h =
     (let devices = GetDevices h;
          onlineCount = length (filter (\<lambda>d. di_Status d = StatusOnline) devices)
      in json_response 200 (JObj [
           (''online_devices'', enc_int (int onlineCount)), (''service'', JStr ''terminal-relay''),
           (''status'', JStr ''ok''), (''storage_backend'', JStr (storage_backend v)),
           (''timestamp'', enc_int (unix_now (v_env v))), (''total_devices'', enc_int (int (length devices))),
           (''version'', JStr ''4.0'')]))"

definition handleSystemStatus :: "WebEnv \<Rightarrow> Response" where
  "handleSystemStatus v = json_response 200 (JObj [(''is_supabase'', JBool (v_supabase v)),
     (''storage_backend'', JStr (storage_backend v))])"

text \<open>
  The installer is a PowerShell script in a batch file, encoded as base64 of UTF-16; \<open>dq\<close> and \<open>bs\<close>
  are a double quote and a backslash. The token of the request becomes part of the
  script as it is.
\<close>

definition dq :: string where
  "dq = [CHR 0x22]"

definition bs :: string where
  "bs = [CHR 0x5C]"

definition installer_script :: "string \<Rightarrow> int \<Rightarrow> string \<Rightarrow> string \<Rightarrow> string" where
  "installer_script exeURL now relayURL token = join_lines [
      '''',
      ''$agentDir = '' @ dq @ ''$env:LOCALAPPDATA'' @ bs @ ''TerminalAgent'' @ dq,
      ''if (-not (Test-Path $agentDir)) {'',
      ''    New-Item -ItemType Directory -Path $agentDir -Force | Out-Null'',
      ''}'',
      ''$destExe = Join-Path $agentDir '' @ dq @ ''terminal-agent.exe'' @ dq,
      '''',
      ''# Stop existing processes and services so binary can be upgraded'',
      ''Stop-Service -Name '' @ dq @ ''TerminalAgent'' @ dq @ '' -Force -ErrorAction SilentlyContinue'',
      ''Stop-Process -Name '' @ dq @ ''terminal-agent'' @ dq @ '' -Force -ErrorAction SilentlyContinue'',
      ''Start-Sleep -Milliseconds 600'',
      '''',
      ''$copied = $false'',
      ''# 1. Try local disk binary if available'',
      ''$localExe = Get-Item -Path '' @ dq @ ''terminal-agent.exe'' @ dq @ '' -ErrorAction SilentlyContinue'',
      ''if ($localExe -ne $null -and $localExe.Length -gt 100000) {'',
      ''    try { Copy-Item -Path $localExe.FullName -Destination $destExe -Force; $copied = $true } catch {}'',
      ''}'',
      ''if (-not $copied) {'',
      ''    $parentExe = Get-Item -Path '' @ dq @ ''..'' @ bs @ ''agent'' @ bs @ ''terminal-agent.exe'' @ dq @ '' -ErrorAction SilentlyContinue'',
      ''    if ($parentExe -ne $null -and $parentExe.Length -gt 100000) {'',
      ''        try { Copy-Item -Path $parentExe.FullName -Destination $destExe -Force; $copied = $true } catch {}'',
      ''    }'',
      ''}'',
      '''',
      ''# 2. Always fetch latest cloud binary'',
      ''if (-not $copied) {'',
      ''    Write-Host '' @ dq @ ''Updating agent binary with Screen Capture & File Editor...'' @ dq @ '' -ForegroundColor Yellow'',
      ''    try {'',
      ''        [Net.ServicePointManager]::SecurityProtocol = [Net.SecurityProtocolType]::Tls12'',
      ''        Invoke-WebRequest -Uri '' @ dq @ exeURL @ ''?v='' @ itoa now @ dq @ '' -OutFile $destExe -UseBasicParsing -Headers @'' @ ''{'' @ dq @ ''Cache-Control'' @ dq @ ''='' @ dq @ ''no-cache'' @ dq @ ''}'',
      ''        $downItem = Get-Item -Path $destExe -ErrorAction SilentlyContinue'',
      ''        if ($downItem -ne $null -and $downItem.Length -gt 100000) { $copied = $true }'',
      ''    } catch {}'',
      ''    '',
      ''    if (-not $copied) {'',
      ''        try {'',
      ''            Invoke-WebRequest -Uri '' @ dq @ ''https://raw.githubusercontent.com/jeevan-bhat/relay_network/main/agent/terminal-agent.exe'' @ dq @ '' -OutFile $destExe -UseBasicParsing'',
      ''            $downItem = Get-Item -Path $destExe -ErrorAction SilentlyContinue'',
      ''            if ($downItem -ne $null -and $downItem.Length -gt 100000) { $copied = $true }'',
      ''        } catch {}'',
      ''    }'',
      ''}'',
      '''',
      ''$configPath = Join-Path $agentDir '' @ dq @ ''config.json'' @ dq,
      ''$configObj = [PSCustomObject]@'' @ ''{'',
      ''    relay_url          = '' @ dq @ relayURL @ dq,
      ''    device_id          = $env:COMPUTERNAME.ToLower()'',
      ''    auth_token         = '' @ dq @ token @ dq,
      ''    db_path            = (Join-Path $agentDir '' @ dq @ ''queue.db'' @ dq @ '')'',
      ''    heartbeat_interval = '' @ dq @ ''15s'' @ dq,
      ''}'',
      ''$configObj | ConvertTo-Json -Depth 4 | Set-Content -Path $configPath -Force -Encoding UTF8'',
      ''try { $configObj | ConvertTo-Json -Depth 4 | Set-Content -Path '' @ dq @ ''C:'' @ bs @ ''ProgramData'' @ bs @ ''TerminalAgent'' @ bs @ ''config.json'' @ dq @ '' -Force -Encoding UTF8 -ErrorAction SilentlyContinue } catch {}'',
      '''',
      ''$startupFolder = [Environment]::GetFolderPath('' @ dq @ ''Startup'' @ dq @ '')'',
      ''$shortcutPath = Join-Path $startupFolder '' @ dq @ ''TerminalAgent.lnk'' @ dq,
      ''try {'',
      ''    $wsh = New-Object -ComObject WScript.Shell'',
      ''    $sc = $wsh.CreateShortcut($shortcutPath)'',
      ''    $sc.TargetPath = $destExe'',
      ''    $sc.Arguments = '' @ dq @ ''run'' @ dq,
      ''    $sc.WindowStyle = 7'',
      ''    $sc.Save()'',
      ''} catch {}'',
      '''',
      ''if (Test-Path $destExe) {'',
      ''    Start-Process -FilePath $destExe -ArgumentList '' @ dq @ ''run'' @ dq @ '' -WindowStyle Hidden'',
      ''    Write-Host '' @ dq @ dq,
      ''    Write-Host '' @ dq @ ''=========================================================='' @ dq @ '' -ForegroundColor Green'',
      ''    Write-Host '' @ dq @ ''  SUCCESS! Updated agent running with Screen Capture.'' @ dq @ '' -ForegroundColor Green'',
      ''    Write-Host ('' @ dq @ ''  Device ID: '' @ dq @ '' + $env:COMPUTERNAME.ToLower()) -ForegroundColor Cyan'',
      ''    Write-Host '' @ dq @ ''  Relay URL: '' @ relayURL @ dq @ '' -ForegroundColor Cyan'',
      ''    Write-Host '' @ dq @ ''=========================================================='' @ dq @ '' -ForegroundColor Green'',
      ''    Write-Host '' @ dq @ dq,
      ''} else {'',
      ''    Write-Host '' @ dq @ ''Error: Could not start agent. Please check your internet connection.'' @ dq @ '' -ForegroundColor Red'',
      ''}'',
      '''']"

definition installer_bat :: "string \<Rightarrow> string" where
  "installer_bat encoded = join_lines [
      ''@echo off'',
      ''setlocal'',
      ''title Terminal Agent - 1-Click Laptop Installer'',
      ''cd /d '' @ dq @ ''%'' @ ''~dp0'' @ dq,
      ''echo =========================================================='',
      ''echo   Terminal Agent - 1-Click Laptop Auto-Start Setup'',
      ''echo =========================================================='',
      ''echo.'',
      ''powershell.exe -NoProfile -ExecutionPolicy Bypass -EncodedCommand '' @ encoded,
      ''echo.'',
      ''echo Setup complete. You can close this window.'',
      ''pause'',
      '''']"

definition handleDownloadInstaller :: "WebEnv \<Rightarrow> Request \<Rightarrow> Response" where
  "handleDownloadInstaller v rq =
     (let token = (if query_get rq ''token'' \<noteq> '''' then query_get rq ''token'' else extractToken rq);
          host = rq_Host rq;
          is_local = HasPrefix host ''localhost'' \<or> HasPrefix host ''127.0.0.1'';
          relayURL = (if is_local then ''ws://'' else ''wss://'') @ host @ ''/ws'';
          downloadExeURL = (if is_local then ''http://'' else ''https://'') @ host @ ''/api/download/terminal-agent.exe'';
          psScript = installer_script downloadExeURL (unix_now (v_env v)) relayURL token
      in \<lparr>rs_Code = 200, rs_Type = ''application/x-bat; charset=utf-8'',
          rs_Body = File (installer_bat (b64_encode (utf16Encode psScript)))\<rparr>)"

definition agent_candidates :: "string list" where
  "agent_candidates = [''agent/terminal-agent.exe'', ''internal/web/static/terminal-agent.exe'',
     ''terminal-agent.exe'', ''bin/terminal-agent.exe'', ''../agent/terminal-agent.exe'']"

definition handleDownloadAgentExe :: "WebEnv \<Rightarrow> Response" where
  "handleDownloadAgentExe v =
     (let big = (\<lambda>f. case f of None \<Rightarrow> False | Some data \<Rightarrow> length data > 100000);
          files = filter big (v_staticFile v ''static/terminal-agent.exe'' # map (v_readFile v) agent_candidates)
      in case files of
           Some data # _ \<Rightarrow> \<lparr>rs_Code = 200, rs_Type = ''application/octet-stream'', rs_Body = File data\<rparr>
         | _ \<Rightarrow> \<lparr>rs_Code = 307, rs_Type = ''text/html; charset=utf-8'', rs_Body = Redirect
             ''https://raw.githubusercontent.com/jeevan-bhat/relay_network/main/agent/terminal-agent.exe''\<rparr>)"

section \<open>Routes\<close>

definition serve :: "WebEnv \<Rightarrow> Hub \<Rightarrow> Request \<Rightarrow> (Response \<times> Hub \<times> (string \<times> string) list) outcome" where
  "serve v h rq =
     (let path = rq_Path rq; answer = (\<lambda>r. Ret (r, h, [])) in
      if path = ''/ws''
      then Ret (case v_upgrade v rq of
                  None \<Rightarrow> (\<lparr>rs_Code = 101, rs_Type = '''', rs_Body = Upgraded\<rparr>, HandleWS (v_env v) h, [])
                | Some refusal \<Rightarrow> (refusal, h, []))
      else if path \<in> {''/health'', ''/healthz'', ''/api/health''} then answer (handleHealth v h)
      else if path = ''/api/system/status'' then answer (handleSystemStatus v)
      else if path = ''/api/download/installer.bat'' then answer (handleDownloadInstaller v rq)
      else if path = ''/api/download/terminal-agent.exe'' then answer (handleDownloadAgentExe v)
      else if path = ''/api/auth/register''
      then (let (r, h) = handleRegister v h rq in Ret (r, h, []))
      else if path = ''/api/auth/login'' then answer (handleLogin v h rq)
      else if path = ''/api/auth/me'' then answer (handleAuthMe h rq)
      else if path = ''/api/devices'' then answer (handleDevices h rq)
      else if path = ''/api/commands''
      then andThen (handleCommands v h rq) (\<lambda>(r, h). Ret (r, h, []))
      else if path = ''/api/results'' then answer (handleResults h rq)
      else if path = ''/api/audit'' then answer (handleAuditLogs h rq)
      else if path = ''/api/wol''
      then (let (r, sent) = handleWakeOnLAN v rq in Ret (r, h, sent))
      else if path = ''/api/telemetry/history'' then answer (handleTelemetryHistory h rq)
      else answer (v_static v rq))"

end
