(* ===== verification/RelayStoreProps.thy ===== *)
theory RelayStoreProps
  imports RelayStore
begin

text \<open>
  What the relay's store promises: the integrity of its tables (\<open>db_ok\<close>) under every
  method that writes, the life cycle of a command, the append-only audit log, the FIFO
  order of the pending commands, and the round trips of devices, results, users and cached
  files. \<open>store_step\<close> has one rule per writing method.
\<close>

section \<open>Integrity\<close>

definition db_ok :: "DB \<Rightarrow> bool" where
  "db_ok db \<longleftrightarrow>
       pk_ok dr_DeviceId (Devices db)
     \<and> pk_ok cr_CommandID (CloudCommandQueue db)
     \<and> pk_ok rr_ResultId (CloudResultQueue db)
     \<and> pk_ok al_LogID (AuditLogs db)
     \<and> pk_ok fc_key (CloudFileCache db)
     \<and> pk_ok ua_UserID (Users db) \<and> pk_ok ua_Username (Users db) \<and> pk_ok ua_AuthToken (Users db)
     \<and> (\<forall>r \<in> set (CloudCommandQueue db). cr_Status r \<in> set command_statuses)
     \<and> cr_DeviceID ` set (CloudCommandQueue db) \<subseteq> dr_DeviceId ` set (Devices db)"

inductive store_step :: "DB \<Rightarrow> DB \<Rightarrow> bool" where
  upsert_device: "store_step db (fst (UpsertDevice db info))"
| heartbeat: "store_step db (fst (UpdateDeviceHeartbeat now db dev metrics st))"
| device_status: "store_step db (fst (UpdateDeviceStatus db dev st))"
| bind_device: "store_step db (fst (BindDeviceToUser db dev user))"
| create_user: "store_step db (fst (CreateUser u1 u2 now db name pw))"
| enqueue: "store_step db (fst (EnqueueCommand now db cmd))"
| cancel: "store_step db (fst (CancelPendingCommands now db dev))"
| dispatched: "store_step db (fst (MarkCommandDispatched now db cmdID))"
| completed: "st \<in> {StatusCompleted, StatusFailed} \<Longrightarrow>
    store_step db (fst (MarkCommandCompleted now db cmdID st))"
| save_result: "store_step db (fst (SaveResult now db res))"
| save_sandbox: "store_step db (fst (SaveSandboxResult now db res))"
| audit: "store_step db (fst (RecordAuditLog now db entry))"
| telemetry: "store_step db (fst (RecordTelemetry now db point))"
| cache_dir: "store_step db (fst (CacheDirectoryListing now db dev path files))"
| cache_file: "store_step db (fst (CacheFileContent now db dev path content sz))"

lemmas device_write_defs = UpsertDevice_def UpdateDeviceHeartbeat_def UpdateDeviceStatus_def
  BindDeviceToUser_def

lemmas db_ok_simps = db_ok_def pk_ok_update_rows pk_ok_insert image_key_update_rows

lemma device_writes_db_ok:
  assumes "db_ok db"
  shows "db_ok (fst (UpsertDevice db info))"
    and "db_ok (fst (UpdateDeviceHeartbeat now db dev metrics st))"
    and "db_ok (fst (UpdateDeviceStatus db dev st))"
    and "db_ok (fst (BindDeviceToUser db dev user))"
  using assms
  by (auto simp: device_write_defs db_ok_simps Let_def split: option.split)

lemma CreateUser_db_ok: "db_ok db \<Longrightarrow> db_ok (fst (CreateUser u1 u2 now db name pw))"
  by (auto simp: CreateUser_def db_ok_def Let_def pk_ok_def)

lemma ensure_device_db_ok:
  "db_ok db \<Longrightarrow> db_ok (ensure_device db dev)"
  by (auto simp: ensure_device_def db_ok_simps split: option.split)

lemma ensure_device_present: "dev \<in> dr_DeviceId ` set (Devices (ensure_device db dev))"
  by (auto simp: ensure_device_def dest: select_pk_SomeD split: option.split)

lemma ensure_device_tables [simp]:
  "CloudCommandQueue (ensure_device db dev) = CloudCommandQueue db"
  "CloudResultQueue (ensure_device db dev) = CloudResultQueue db"
  "AuditLogs (ensure_device db dev) = AuditLogs db"
  "Users (ensure_device db dev) = Users db"
  "CloudFileCache (ensure_device db dev) = CloudFileCache db"
  "TelemetryHistory (ensure_device db dev) = TelemetryHistory db"
  by (simp_all add: ensure_device_def split: option.split)

lemma EnqueueCommand_db_ok: "db_ok db \<Longrightarrow> db_ok (fst (EnqueueCommand now db cmd))"
  using ensure_device_db_ok [of db "cp_DeviceID cmd"] ensure_device_present [of "cp_DeviceID cmd" db]
  by (auto simp: EnqueueCommand_def db_ok_simps Let_def command_statuses_def split: option.split)

lemma command_update_db_ok:
  assumes "db_ok db"
    and "\<And>r. p r \<Longrightarrow> cr_CommandID (f r) = cr_CommandID r \<and> cr_DeviceID (f r) = cr_DeviceID r
           \<and> cr_Status (f r) \<in> set command_statuses"
  shows "db_ok (db\<lparr>CloudCommandQueue := update_rows p f (CloudCommandQueue db)\<rparr>)"
proof -
  have "cr_DeviceID ` set (update_rows p f (CloudCommandQueue db)) = cr_DeviceID ` set (CloudCommandQueue db)"
    using assms(2) by (simp add: image_key_update_rows)
  then show ?thesis
    using assms by (auto simp: db_ok_def pk_ok_update_rows set_update_rows)
qed

lemma command_writes_db_ok:
  assumes "db_ok db"
  shows "db_ok (fst (CancelPendingCommands now db dev))"
    and "db_ok (fst (MarkCommandDispatched now db cmdID))"
    and "st \<in> {StatusCompleted, StatusFailed} \<Longrightarrow> db_ok (fst (MarkCommandCompleted now db cmdID st))"
  using assms
  by (auto simp: CancelPendingCommands_def MarkCommandDispatched_def MarkCommandCompleted_def
      command_statuses_def intro!: command_update_db_ok)

lemma upsert_result_db_ok: "db_ok db \<Longrightarrow> db_ok (upsert_result now db res)"
  by (auto simp: upsert_result_def db_ok_simps Let_def split: option.split)

lemma result_writes_db_ok:
  assumes "db_ok db"
  shows "db_ok (fst (SaveResult now db res))" and "db_ok (fst (SaveSandboxResult now db res))"
  using assms
  by (auto simp: SaveResult_def SaveSandboxResult_def Let_def
      intro!: upsert_result_db_ok command_writes_db_ok)

lemma log_writes_db_ok:
  assumes "db_ok db"
  shows "db_ok (fst (RecordAuditLog now db entry))" and "db_ok (fst (RecordTelemetry now db point))"
  using assms
  by (auto simp: RecordAuditLog_def RecordTelemetry_def db_ok_simps Let_def split: option.split)

lemma cache_writes_db_ok:
  assumes "db_ok db"
  shows "db_ok (fst (CacheDirectoryListing now db dev path files))"
    and "db_ok (fst (CacheFileContent now db dev path content sz))"
  using assms
  by (auto simp: CacheDirectoryListing_def CacheFileContent_def db_ok_simps fc_key_def Let_def
      split: option.split)

lemmas store_writes_db_ok = device_writes_db_ok CreateUser_db_ok EnqueueCommand_db_ok
  command_writes_db_ok result_writes_db_ok log_writes_db_ok cache_writes_db_ok

lemma store_step_db_ok: "store_step db db' \<Longrightarrow> db_ok db \<Longrightarrow> db_ok db'"
  by (induction rule: store_step.induct) (simp_all add: store_writes_db_ok)

lemma db_ok_empty: "db_ok empty_db"
  by (simp add: db_ok_def empty_db_def)

interpretation relay_db: invariant_system "\<lambda>db. db = empty_db" store_step db_ok
  by unfold_locales (auto simp: db_ok_empty intro: store_step_db_ok)

text \<open>
  C16. From the empty database, every sequence of the store's methods keeps its integrity: no two rows share a
  primary key or a unique column, every command has one of the four statuses the schema
  allows, and belongs to a device that exists.
\<close>

theorem store_integrity: "reach (\<lambda>db. db = empty_db) store_step db \<Longrightarrow> db_ok db"
  by (rule relay_db.reach_inv)

theorem store_integrity_witness:
  "db_ok (fst (EnqueueCommand 5 empty_db (zero_CommandPayload\<lparr>cp_CommandID := ''c'', cp_DeviceID := ''d''\<rparr>)))"
proof (rule store_integrity)
  show "reach (\<lambda>db. db = empty_db) store_step
    (fst (EnqueueCommand 5 empty_db (zero_CommandPayload\<lparr>cp_CommandID := ''c'', cp_DeviceID := ''d''\<rparr>)))"
    by (rule reach_step [where s = empty_db]) (auto intro: reach_init store_step.enqueue)
qed

section \<open>The life cycle of a command\<close>

text \<open>
  The abstract view of a command: what it asks for never changes, and its status only
  moves forward. \<open>may_follow\<close> is the specification; the store's methods implement it.
\<close>

definition may_follow :: "string \<Rightarrow> string \<Rightarrow> bool" where
  "may_follow old new \<longleftrightarrow>
     new = old
     \<or> old = StatusPending \<and> new = StatusDispatched
     \<or> new \<in> {StatusCompleted, StatusFailed}"

definition same_request :: "CommandRecord \<Rightarrow> CommandRecord \<Rightarrow> bool" where
  "same_request r r' \<longleftrightarrow> command_of_record r' = command_of_record r"

definition advances :: "DB \<Rightarrow> DB \<Rightarrow> bool" where
  "advances db db' \<longleftrightarrow>
     (\<forall>cmdID r. GetCommand db cmdID = Some r \<longrightarrow>
        (\<exists>r'. GetCommand db' cmdID = Some r' \<and> same_request r r'
              \<and> may_follow (cr_Status r) (cr_Status r')))"

lemma may_follow_trans: "may_follow a b \<Longrightarrow> may_follow b c \<Longrightarrow> may_follow a c"
  by (auto simp: may_follow_def)

lemma advances_refl: "CloudCommandQueue db' = CloudCommandQueue db \<Longrightarrow> advances db db'"
  by (simp add: advances_def GetCommand_def same_request_def may_follow_def)

lemma advances_trans: "advances a b \<Longrightarrow> advances b c \<Longrightarrow> advances a c"
  unfolding advances_def same_request_def by (blast intro: may_follow_trans dest: trans)

lemma advances_update:
  assumes "\<And>r. p r \<Longrightarrow> same_request r (f r) \<and> may_follow (cr_Status r) (cr_Status (f r))"
    and "CloudCommandQueue db' = update_rows p f (CloudCommandQueue db)"
  shows "advances db db'"
proof -
  have "cr_CommandID (f r) = cr_CommandID r" if "p r" for r
    using assms(1) [OF that] by (simp add: same_request_def command_of_record_def)
  then show ?thesis
    using assms by (auto simp: advances_def GetCommand_def select_pk_update_rows same_request_def may_follow_def)
qed

lemma upsert_result_tables [simp]:
  "CloudCommandQueue (upsert_result now db res) = CloudCommandQueue db"
  "Devices (upsert_result now db res) = Devices db"
  "AuditLogs (upsert_result now db res) = AuditLogs db"
  "Users (upsert_result now db res) = Users db"
  by (simp_all add: upsert_result_def Let_def split: option.split)

lemma MarkCommandCompleted_advances:
  assumes "st \<in> {StatusCompleted, StatusFailed}"
    and "CloudCommandQueue db' = CloudCommandQueue db"
  shows "advances db (fst (MarkCommandCompleted now db' cmdID st))"
proof (rule advances_update)
  show "CloudCommandQueue (fst (MarkCommandCompleted now db' cmdID st)) =
      update_rows (\<lambda>r. cr_CommandID r = cmdID) (\<lambda>r. r\<lparr>cr_Status := st, cr_CompletedAt := now\<rparr>)
        (CloudCommandQueue db)"
    using assms by (auto simp: MarkCommandCompleted_def command_statuses_def)
qed (use assms in \<open>auto simp: same_request_def may_follow_def command_of_record_def\<close>)

lemma EnqueueCommand_advances: "advances db (fst (EnqueueCommand now db cmd))"
  by (auto simp: advances_def GetCommand_def EnqueueCommand_def Let_def select_pk_append
      same_request_def may_follow_def split: option.split)

lemma store_step_advances: "store_step db db' \<Longrightarrow> advances db db'"
proof (induction rule: store_step.induct)
  case (enqueue db now cmd)
  show ?case by (rule EnqueueCommand_advances)
next
  case (cancel db now dev)
  show ?case
    by (rule advances_update [where p = "\<lambda>r. cr_DeviceID r = dev \<and> cr_Status r = StatusPending"
          and f = "\<lambda>r. r\<lparr>cr_Status := StatusFailed, cr_CompletedAt := now\<rparr>"])
       (auto simp: CancelPendingCommands_def same_request_def may_follow_def command_of_record_def)
next
  case (dispatched db now cmdID)
  show ?case
    by (rule advances_update [where p = "\<lambda>r. cr_CommandID r = cmdID \<and> cr_Status r = StatusPending"
          and f = "\<lambda>r. r\<lparr>cr_Status := StatusDispatched, cr_DispatchedAt := now\<rparr>"])
       (auto simp: MarkCommandDispatched_def same_request_def may_follow_def command_of_record_def)
next
  case (completed st db now cmdID)
  then show ?case by (intro MarkCommandCompleted_advances) auto
next
  case (save_result db now res)
  show ?case by (auto simp: SaveResult_def Let_def intro!: MarkCommandCompleted_advances)
qed (auto intro!: advances_refl simp: device_write_defs CreateUser_def SaveSandboxResult_def
      RecordAuditLog_def RecordTelemetry_def CacheDirectoryListing_def CacheFileContent_def Let_def
      split: option.split)

lemma store_steps_advance: "rtranclp store_step db db' \<Longrightarrow> advances db db'"
proof (induction rule: rtranclp_induct)
  case base
  show ?case by (rule advances_refl) simp
next
  case (step b c)
  then show ?case by (blast intro: advances_trans store_step_advances)
qed

lemma store_steps_db_ok: "rtranclp store_step db db' \<Longrightarrow> db_ok db \<Longrightarrow> db_ok db'"
  by (induction rule: rtranclp_induct) (auto intro: store_step_db_ok)

text \<open>
  Whatever sequence of methods the store executes, a command that is in the queue stays
  there with its device, its text, its timeout and its creation time, and its status only
  moves forward: from PENDING to DISPATCHED, and from anywhere to COMPLETED or FAILED,
  never back to PENDING and never from a final status to DISPATCHED.
\<close>

theorem command_lifecycle: "rtranclp store_step db db' \<Longrightarrow> advances db db'"
  by (rule store_steps_advance)

theorem command_lifecycle_witness:
  "(let db = fst (EnqueueCommand 5 empty_db (zero_CommandPayload\<lparr>cp_CommandID := ''c''\<rparr>))
    in advances db (fst (MarkCommandDispatched 9 db ''c'')))"
  unfolding Let_def by (rule command_lifecycle) (rule r_into_rtranclp, rule store_step.dispatched)

section \<open>The audit log\<close>

lemma store_step_audit: "store_step db db' \<Longrightarrow> \<exists>new. AuditLogs db' = AuditLogs db @ new"
  by (induction rule: store_step.induct)
     (auto simp: device_write_defs CreateUser_def EnqueueCommand_def CancelPendingCommands_def
        MarkCommandDispatched_def MarkCommandCompleted_def SaveResult_def SaveSandboxResult_def
        RecordAuditLog_def RecordTelemetry_def CacheDirectoryListing_def CacheFileContent_def Let_def
        split: option.split)

lemma store_steps_audit: "rtranclp store_step db db' \<Longrightarrow> \<exists>new. AuditLogs db' = AuditLogs db @ new"
  by (induction rule: rtranclp_induct) (auto dest!: store_step_audit)

text \<open>
  The audit log is append-only: no method changes or removes an entry, or reorders them.
\<close>

theorem audit_append_only:
  "rtranclp store_step db db' \<Longrightarrow> \<exists>new. AuditLogs db' = AuditLogs db @ new"
  by (rule store_steps_audit)

theorem audit_append_only_witness:
  "\<exists>new. AuditLogs (fst (RecordAuditLog 7 empty_db \<lparr>al_LogID = ''x'', al_DeviceID = ''d'',
       al_Timestamp = 0, al_ActionType = ''EXEC_CMD'', al_CommandText = ''dir'', al_ExitCode = 0,
       al_DurationMs = 1, al_Details = ''''\<rparr>)) = AuditLogs empty_db @ new"
  by (rule audit_append_only) (rule r_into_rtranclp, rule store_step.audit)

section \<open>Pending commands\<close>

definition pending_rows :: "DB \<Rightarrow> string \<Rightarrow> CommandRecord list" where
  "pending_rows db dev =
     filter (\<lambda>r. cr_DeviceID r = dev \<and> cr_Status r = StatusPending) (CloudCommandQueue db)"

definition cp_order :: "CommandPayload \<Rightarrow> int \<times> string" where
  "cp_order c = (cp_CreatedAt c, cp_CommandID c)"

lemma GetPendingCommands_alt:
  "GetPendingCommands db dev =
     map command_of_record (sort_key (\<lambda>r. (cr_CreatedAt r, cr_CommandID r)) (pending_rows db dev))"
  by (simp add: GetPendingCommands_def pending_rows_def)

lemma map_cp_order:
  "map cp_order (map command_of_record rs) = map (\<lambda>r. (cr_CreatedAt r, cr_CommandID r)) rs"
  by (simp add: cp_order_def command_of_record_def)

lemma set_GetPendingCommands:
  "set (GetPendingCommands db dev) = command_of_record ` set (pending_rows db dev)"
  by (simp add: GetPendingCommands_alt)

lemma distinct_pending_ids:
  assumes "pk_ok cr_CommandID (CloudCommandQueue db)"
  shows "distinct (map cp_CommandID (GetPendingCommands db dev))"
proof -
  have "distinct (map cr_CommandID (pending_rows db dev))"
    using assms by (simp add: pk_ok_def pending_rows_def distinct_map_filter)
  then have "distinct (map cr_CommandID (sort_key (\<lambda>r. (cr_CreatedAt r, cr_CommandID r)) (pending_rows db dev)))"
    by (simp add: distinct_map)
  moreover have "cp_CommandID \<circ> command_of_record = cr_CommandID"
    by (auto simp: command_of_record_def)
  ultimately show ?thesis by (simp add: GetPendingCommands_alt)
qed

lemma GetPendingCommands_empty_iff: "GetPendingCommands db dev = [] \<longleftrightarrow> pending_rows db dev = []"
  using set_GetPendingCommands [of db dev] by (metis image_is_empty set_empty)

text \<open>
  \<open>GetPendingCommands\<close> returns the device's pending commands, each exactly once, in
  first-in-first-out order: strictly increasing in creation time, the identifier breaking ties.
\<close>

theorem pending_fifo:
  assumes "db_ok db"
  shows "set (GetPendingCommands db dev) =
           {command_of_record r | r. r \<in> set (CloudCommandQueue db) \<and> cr_DeviceID r = dev
              \<and> cr_Status r = StatusPending}
       \<and> sorted_wrt (<) (map cp_order (GetPendingCommands db dev))
       \<and> distinct (map cp_CommandID (GetPendingCommands db dev))"
proof (intro conjI)
  show "set (GetPendingCommands db dev) =
           {command_of_record r | r. r \<in> set (CloudCommandQueue db) \<and> cr_DeviceID r = dev
              \<and> cr_Status r = StatusPending}"
    by (auto simp: set_GetPendingCommands pending_rows_def)
  show d: "distinct (map cp_CommandID (GetPendingCommands db dev))"
    using assms by (intro distinct_pending_ids) (simp add: db_ok_def)
  have "sorted (map cp_order (GetPendingCommands db dev))"
    unfolding GetPendingCommands_alt map_cp_order by (rule sorted_sort_key)
  moreover have "distinct (map cp_order (GetPendingCommands db dev))"
    using d by (auto simp: distinct_map cp_order_def inj_on_def)
  ultimately show "sorted_wrt (<) (map cp_order (GetPendingCommands db dev))"
    by (simp add: strict_sorted_iff)
qed

definition sample_cmd :: "string \<Rightarrow> string \<Rightarrow> string \<Rightarrow> int \<Rightarrow> CommandPayload" where
  "sample_cmd i dev text t = \<lparr>cp_CommandID = i, cp_DeviceID = dev, cp_Command = text,
     cp_TimeoutSec = 0, cp_CreatedAt = t\<rparr>"

definition sample_db :: DB where
  "sample_db = fst (EnqueueCommand 9 (fst (EnqueueCommand 9 empty_db (sample_cmd ''b'' ''d'' ''ls'' 7)))
                 (sample_cmd ''a'' ''d'' ''pwd'' 4))"

lemma sample_db_ok: "db_ok sample_db"
  unfolding sample_db_def by (intro store_writes_db_ok db_ok_empty)

theorem pending_fifo_witness:
  "sorted_wrt (<) (map cp_order (GetPendingCommands sample_db ''d''))
   \<and> map cp_CommandID (GetPendingCommands sample_db ''d'') = [''a'', ''b'']"
proof
  show "map cp_CommandID (GetPendingCommands sample_db ''d'') = [''a'', ''b'']"
    by code_simp
qed (use pending_fifo [OF sample_db_ok] in simp)

section \<open>Enqueueing\<close>

definition command_entry :: "int \<Rightarrow> CommandPayload \<Rightarrow> CommandRecord" where
  "command_entry now cmd = \<lparr>cr_CommandID = cp_CommandID cmd, cr_DeviceID = cp_DeviceID cmd,
     cr_Command = cp_Command cmd, cr_TimeoutSec = cp_TimeoutSec cmd, cr_Status = StatusPending,
     cr_CreatedAt = (if cp_CreatedAt cmd = 0 then now else cp_CreatedAt cmd),
     cr_DispatchedAt = 0, cr_CompletedAt = 0\<rparr>"

interpretation cloud_queue: idempotent_queue "\<lambda>cmd db. fst (EnqueueCommand now db cmd)" cp_CommandID
  GetCommand "command_entry now" for now
  by unfold_locales
     (auto simp: GetCommand_def EnqueueCommand_def command_entry_def Let_def select_pk_append
       split: option.split)

text \<open>
  Enqueueing any list of commands, with repetitions, leaves in the queue exactly one entry
  per identifier: the one that was there before, or the first one of the list, PENDING; and
  delivering any of them again changes no entry.
\<close>

theorem enqueue_first_wins:
  "GetCommand (fold (\<lambda>cmd db. fst (EnqueueCommand now db cmd)) cmds db) cmdID =
     (case GetCommand db cmdID of Some r \<Rightarrow> Some r
      | None \<Rightarrow> map_option (command_entry now) (find (\<lambda>c. cp_CommandID c = cmdID) cmds))
   \<and> GetCommand (fold (\<lambda>cmd db. fst (EnqueueCommand now db cmd)) (cmds @ cmds) db)
     = GetCommand (fold (\<lambda>cmd db. fst (EnqueueCommand now db cmd)) cmds db)"
  using cloud_queue.redelivery [of cmds cmds now db]
  by (simp add: cloud_queue.get_fold_put)

section \<open>Results\<close>

definition stored_result :: "int \<Rightarrow> ResultPayload \<Rightarrow> ResultPayload" where
  "stored_result now res = res\<lparr>rp_ResultID := (if rp_ResultID res = '''' then rp_CommandID res else rp_ResultID res),
     rp_ExecutedAt := (if rp_ExecutedAt res = 0 then now else rp_ExecutedAt res),
     rp_DurationMs := 0, rp_TimedOut := False\<rparr>"

definition final_status :: "ResultPayload \<Rightarrow> string" where
  "final_status res = (if rp_ExitCode res \<noteq> 0 \<or> rp_TimedOut res then StatusFailed else StatusCompleted)"

lemma final_status_in: "final_status res \<in> {StatusCompleted, StatusFailed}"
  by (simp add: final_status_def)

lemma SaveResult_alt:
  "SaveResult now db res =
     ((upsert_result now db res)\<lparr>CloudCommandQueue :=
        update_rows (\<lambda>r. cr_CommandID r = rp_CommandID res)
          (\<lambda>r. r\<lparr>cr_Status := final_status res, cr_CompletedAt := now\<rparr>) (CloudCommandQueue db)\<rparr>, None)"
  by (simp add: SaveResult_def MarkCommandCompleted_def Let_def final_status_def command_statuses_def)

lemma GetResult_None_iff:
  "GetResult db cmdID = None \<longleftrightarrow> (\<forall>r \<in> set (CloudResultQueue db). rr_CommandId r \<noteq> cmdID)"
  by (auto simp: GetResult_def find_None_iff)

text \<open>
  Saving the first result of a command makes it readable under the command's identifier,
  with the output, the exit code and the time that were reported, and gives the command its
  final status: FAILED when the exit code is not zero or the command timed out, COMPLETED
  otherwise. Other commands keep their record.
\<close>

theorem save_result_readback:
  assumes "GetResult db (rp_CommandID res) = None"
    and "select_pk rr_ResultId (rp_ResultID (stored_result now res)) (CloudResultQueue db) = None"
    and "GetCommand db (rp_CommandID res) = Some r"
  shows "GetResult (fst (SaveResult now db res)) (rp_CommandID res) = Some (stored_result now res)
    \<and> GetCommand (fst (SaveResult now db res)) (rp_CommandID res)
        = Some (r\<lparr>cr_Status := (if rp_ExitCode res \<noteq> 0 \<or> rp_TimedOut res then StatusFailed
                                 else StatusCompleted), cr_CompletedAt := now\<rparr>)
    \<and> (\<forall>other. other \<noteq> rp_CommandID res \<longrightarrow>
         GetCommand (fst (SaveResult now db res)) other = GetCommand db other)"
proof -
  have "GetResult (fst (SaveResult now db res)) (rp_CommandID res) = Some (stored_result now res)"
    using assms(1,2)
    by (simp add: SaveResult_alt upsert_result_def Let_def stored_result_def GetResult_def
        find_append_single result_of_row_def)
  moreover have "GetCommand (fst (SaveResult now db res)) other =
      map_option (\<lambda>r. if cr_CommandID r = rp_CommandID res
        then r\<lparr>cr_Status := final_status res, cr_CompletedAt := now\<rparr> else r) (GetCommand db other)" for other
    by (simp add: SaveResult_alt GetCommand_def select_pk_update_rows)
  moreover have "cr_CommandID x = other" if "GetCommand db other = Some x" for other x
    using that select_pk_SomeD by (fastforce simp: GetCommand_def)
  ultimately show ?thesis
    using assms(3) by (auto simp: final_status_def option.map_ident_strong intro!: option.map_ident_strong)
qed

definition sample_result :: "string \<Rightarrow> int \<Rightarrow> ResultPayload" where
  "sample_result i code = zero_ResultPayload\<lparr>rp_CommandID := i, rp_DeviceID := ''d'',
     rp_Stdout := ''out'', rp_ExitCode := code, rp_ExecutedAt := 11\<rparr>"

theorem save_result_readback_witness:
  "GetResult (fst (SaveResult 12 sample_db (sample_result ''a'' 3))) ''a''
     = Some (stored_result 12 (sample_result ''a'' 3))"
proof -
  have "GetResult sample_db ''a'' = None" by code_simp
  moreover have "select_pk rr_ResultId ''a'' (CloudResultQueue sample_db) = None" by code_simp
  moreover have "GetCommand sample_db ''a'' = Some (command_entry 9 (sample_cmd ''a'' ''d'' ''pwd'' 4))"
    by code_simp
  ultimately show ?thesis
    using save_result_readback [of sample_db "sample_result ''a'' 3" 12]
    by (simp add: sample_result_def stored_result_def zero_ResultPayload_def)
qed

lemma upsert_result_idem: "upsert_result now (upsert_result now db res) res = upsert_result now db res"
proof -
  define rid where "rid = (if rp_ResultID res = '''' then rp_CommandID res else rp_ResultID res)"
  show ?thesis
  proof (cases "select_pk rr_ResultId rid (CloudResultQueue db)")
    case None
    then have "\<And>r. r \<in> set (CloudResultQueue db) \<Longrightarrow> rr_ResultId r \<noteq> rid"
      by (auto simp: select_pk_None_iff)
    then have "map (\<lambda>r. if rr_ResultId r = rid then f r else r) (CloudResultQueue db)
        = CloudResultQueue db" for f
      by (auto intro!: map_idI)
    then show ?thesis
      using None by (simp add: upsert_result_def Let_def rid_def [symmetric] select_pk_append update_rows_def)
  next
    case (Some r)
    then show ?thesis
      by (simp add: upsert_result_def Let_def rid_def [symmetric] select_pk_update_rows update_rows_twice)
  qed
qed

text \<open>
  Receiving the same result twice is the same as receiving it once, and a sandbox result
  never touches the command queue, so the command stays PENDING for the machine itself.
\<close>

theorem save_result_idempotent:
  "fst (SaveResult now (fst (SaveResult now db res)) res) = fst (SaveResult now db res)
   \<and> CloudCommandQueue (fst (SaveSandboxResult now db res)) = CloudCommandQueue db"
proof
  have "upsert_result now (db\<lparr>CloudCommandQueue := q\<rparr>) res = (upsert_result now db res)\<lparr>CloudCommandQueue := q\<rparr>"
    for q db
    by (simp add: upsert_result_def Let_def split: option.split)
  then show "fst (SaveResult now (fst (SaveResult now db res)) res) = fst (SaveResult now db res)"
    by (simp add: SaveResult_alt upsert_result_idem update_rows_def comp_def)
qed (simp add: SaveSandboxResult_def)

end
