(* ===== verification/RelayRecords.thy ===== *)
theory RelayRecords
  imports RelayStoreProps "HOL-Library.Multiset"
begin

text \<open>
  Round trips and queries of the relay's store: devices, user accounts, the file cache, and
  the queries with an ORDER BY and a LIMIT (telemetry, the audit log).
\<close>

section \<open>Devices\<close>

text \<open>What \<open>GetDevice\<close> returns after a device was stored with \<open>UpsertDevice\<close>.\<close>

definition stored_device :: "DB \<Rightarrow> DeviceInfo \<Rightarrow> DeviceInfo" where
  "stored_device db info = info\<lparr>
     di_UserID := (if di_UserID info \<noteq> '''' then di_UserID info
                   else case select_pk dr_DeviceId (di_DeviceID info) (Devices db) of
                          Some r \<Rightarrow> dr_UserId r | None \<Rightarrow> ''''),
     di_MACAddress := ''''\<rparr>"

lemma metrics_roundtrip:
  "valid_HealthMetrics m \<Longrightarrow> snd (unmarshal_HealthMetrics (marshal_HealthMetrics m) zero_HealthMetrics) = m"
  by (simp add: HealthMetrics_codec.dec_enc)

lemma UpsertDevice_GetDevice:
  assumes "valid_HealthMetrics (di_Metrics info)"
  shows "GetDevice (fst (UpsertDevice db info)) (di_DeviceID info) = Inr (Some (stored_device db info))
    \<and> (\<forall>other. other \<noteq> di_DeviceID info \<longrightarrow>
         GetDevice (fst (UpsertDevice db info)) other = GetDevice db other)"
proof (cases "select_pk dr_DeviceId (di_DeviceID info) (Devices db)")
  case None
  then show ?thesis
    using assms
    by (auto simp: GetDevice_def UpsertDevice_def Let_def select_pk_append scan_device_def
        metrics_roundtrip stored_device_def split: option.split)
next
  case (Some r)
  have "map_option (\<lambda>r. if dr_DeviceId r = di_DeviceID info then f r else r)
          (select_pk dr_DeviceId other (Devices db)) = select_pk dr_DeviceId other (Devices db)"
    if "other \<noteq> di_DeviceID info" for other f
    using that by (cases "select_pk dr_DeviceId other (Devices db)") (auto dest: select_pk_SomeD)
  moreover have "dr_DeviceId r = di_DeviceID info"
    using Some by (auto dest: select_pk_SomeD)
  ultimately show ?thesis
    using Some assms
    by (simp add: GetDevice_def UpsertDevice_def Let_def select_pk_update_rows scan_device_def
        metrics_roundtrip stored_device_def)
qed

text \<open>
  A device stored with \<open>UpsertDevice\<close> is read back by \<open>GetDevice\<close> as it was given, with two
  exceptions: an empty owner keeps the owner the device had, and the field \<open>MACAddress\<close> is not read
  back. All other devices are read back as before.
\<close>

theorem device_roundtrip:
  assumes "valid_HealthMetrics (di_Metrics info)"
  shows "GetDevice (fst (UpsertDevice db info)) (di_DeviceID info) = Inr (Some (stored_device db info))
    \<and> (\<forall>other. other \<noteq> di_DeviceID info \<longrightarrow>
         GetDevice (fst (UpsertDevice db info)) other = GetDevice db other)"
  by (rule UpsertDevice_GetDevice [OF assms])

definition sample_device :: "string \<Rightarrow> DeviceInfo" where
  "sample_device i = zero_DeviceInfo\<lparr>di_DeviceID := i, di_Hostname := ''pc'', di_OS := ''windows'',
     di_Status := StatusOnline, di_LastHeartbeat := 10\<rparr>"

lemma sample_device_valid: "valid_HealthMetrics (di_Metrics (sample_device i))"
  by (simp add: sample_device_def zero_DeviceInfo_def zero_HealthMetrics_def valid_HealthMetrics_def
      in_int64_def in_uint64_def)

theorem device_roundtrip_witness:
  "GetDevice (fst (UpsertDevice sample_db (sample_device ''d''))) ''d''
     = Inr (Some (stored_device sample_db (sample_device ''d'')))
   \<and> di_Hostname (stored_device sample_db (sample_device ''d'')) = ''pc''"
  using device_roundtrip [OF sample_device_valid [of "''d''"], of sample_db]
  by (simp add: sample_device_def stored_device_def)

text \<open>A query over devices fails as soon as one row has no host name.\<close>

lemma scan_devices_Inl_iff:
  "(\<exists>err. scan_devices rs = Inl err) \<longleftrightarrow> (\<exists>r \<in> set rs. \<exists>err. scan_device r = Inl err)"
  by (induction rs) (auto simp: Let_def split: sum.splits)

lemma scan_device_Inl_only: "scan_device r = Inl err \<Longrightarrow> err = ScanNull"
  by (auto simp: scan_device_def split: option.splits)

lemma scan_devices_Inl_only: "scan_devices rs = Inl err \<Longrightarrow> err = ScanNull"
  by (induction rs) (auto simp: Let_def dest: scan_device_Inl_only split: sum.splits)

lemma ListDevices_fails_iff:
  "ListDevices db = Inl ScanNull \<longleftrightarrow> (\<exists>r \<in> set (Devices db). scan_device r = Inl ScanNull)"
  using scan_devices_Inl_iff [of "sort_key (\<lambda>r. - dr_LastHeartbeat r) (Devices db)"]
    scan_devices_Inl_only scan_device_Inl_only
  unfolding ListDevices_def by (metis set_sort)

text \<open>
  Enqueueing a command for a device the relay does not know creates the device without a
  host name, and from then on \<open>ListDevices\<close> fails for every caller, whatever other devices there
  are; the device cannot be read by \<open>GetDevice\<close> either.
\<close>

theorem enqueue_unknown_device:
  assumes "select_pk dr_DeviceId (cp_DeviceID cmd) (Devices db) = None"
  shows "ListDevices (fst (EnqueueCommand now db cmd)) = Inl ScanNull
    \<and> GetDevice (fst (EnqueueCommand now db cmd)) (cp_DeviceID cmd) = Inl ScanNull"
proof -
  let ?row = "\<lparr>dr_DeviceId = cp_DeviceID cmd, dr_UserId = '''', dr_Hostname = None, dr_OS = None,
    dr_Status = StatusOffline, dr_LastHeartbeat = 0, dr_ConnectedAt = 0, dr_HealthJSON = None\<rparr>"
  have dev: "Devices (fst (EnqueueCommand now db cmd)) = Devices db @ [?row]"
    using assms by (simp add: EnqueueCommand_def Let_def ensure_device_def split: option.split)
  then have "\<exists>r \<in> set (Devices (fst (EnqueueCommand now db cmd))). scan_device r = Inl ScanNull"
    by (simp add: scan_device_def)
  then have "ListDevices (fst (EnqueueCommand now db cmd)) = Inl ScanNull"
    by (simp only: ListDevices_fails_iff)
  then show ?thesis
    using assms by (simp add: GetDevice_def dev select_pk_append scan_device_def)
qed

theorem enqueue_unknown_device_witness:
  "ListDevices (fst (EnqueueCommand 5 (fst (UpsertDevice empty_db (sample_device ''pc1'')))
     (sample_cmd ''c'' ''typo'' ''dir'' 1))) = Inl ScanNull
   \<and> (\<exists>d. ListDevices (fst (UpsertDevice empty_db (sample_device ''pc1''))) = Inr [d])"
proof
  have "select_pk dr_DeviceId ''typo'' (Devices (fst (UpsertDevice empty_db (sample_device ''pc1'')))) = None"
    by code_simp
  then show "ListDevices (fst (EnqueueCommand 5 (fst (UpsertDevice empty_db (sample_device ''pc1'')))
     (sample_cmd ''c'' ''typo'' ''dir'' 1))) = Inl ScanNull"
    using enqueue_unknown_device [of "sample_cmd ''c'' ''typo'' ''dir'' 1"
        "fst (UpsertDevice empty_db (sample_device ''pc1''))" 5]
    by (simp add: sample_cmd_def)
  show "\<exists>d. ListDevices (fst (UpsertDevice empty_db (sample_device ''pc1''))) = Inr [d]"
    by (simp add: ListDevices_def UpsertDevice_def empty_db_def sample_device_def scan_device_def Let_def
        select_pk_def)
qed

section \<open>User accounts\<close>

lemma CreateUser_Inr:
  assumes "snd (CreateUser u1 u2 now db name pw) = Inr u"
  shows "Users (fst (CreateUser u1 u2 now db name pw)) = Users db @ [u]"
    and "ua_Username u = name" and "ua_Password u = pw" and "ua_AuthToken u \<noteq> ''''"
    and "\<forall>x \<in> set (Users db). ua_Username x \<noteq> name \<and> ua_AuthToken x \<noteq> ua_AuthToken u"
  using assms by (auto simp: CreateUser_def Let_def split: if_splits)

text \<open>
  An account that was created can be logged into with its name and password and with its
  token, and no other password opens it; accounts that existed before keep working; and a second
  account under the same name is refused and changes nothing.
\<close>

theorem user_accounts:
  assumes "snd (CreateUser u1 u2 now db name pw) = Inr u"
  defines "db' \<equiv> fst (CreateUser u1 u2 now db name pw)"
  shows "AuthenticateUser db' name pw' = (if pw' = pw then Inr u else Inl InvalidCredentials)
    \<and> GetUserByToken db' (ua_AuthToken u) = Some u
    \<and> GetUserByUsername db' name = Some u
    \<and> (\<forall>name' pw'' v. AuthenticateUser db name' pw'' = Inr v \<longrightarrow> AuthenticateUser db' name' pw'' = Inr v)
    \<and> fst (CreateUser v1 v2 later db' name pw2) = db'"
proof -
  note u = CreateUser_Inr [OF assms(1), folded db'_def]
  have "find (\<lambda>x. ua_Username x = name \<and> ua_Password x = p) (Users db) = None" for p
    using u(5) by (auto simp: find_None_iff)
  then have "AuthenticateUser db' name pw' = (if pw' = pw then Inr u else Inl InvalidCredentials)"
    using u(2,3) by (auto simp: AuthenticateUser_def u(1) find_append)
  moreover have "GetUserByToken db' (ua_AuthToken u) = Some u"
    using u(4,5) by (auto simp: GetUserByToken_def u(1) find_append find_None_iff split: option.split
        dest: find_Some_iff [THEN iffD1])
  moreover have "GetUserByUsername db' name = Some u"
    using u(2,5) by (auto simp: GetUserByUsername_def u(1) find_append find_None_iff split: option.split
        dest: find_Some_iff [THEN iffD1])
  moreover have "AuthenticateUser db name' pw'' = Inr v \<Longrightarrow> AuthenticateUser db' name' pw'' = Inr v"
    for name' pw'' v
    by (auto simp: AuthenticateUser_def u(1) find_append split: option.splits)
  moreover have "fst (CreateUser v1 v2 later db' name pw2) = db'"
    using u(2) by (auto simp: CreateUser_def Let_def u(1))
  ultimately show ?thesis by blast
qed

theorem user_accounts_witness:
  "(let db' = fst (CreateUser ''0123456789'' ''abcdefghijklmn'' 7 empty_db ''ann'' ''pw'')
    in AuthenticateUser db' ''ann'' ''guess'' = Inl InvalidCredentials
       \<and> map_option ua_Username (GetUserByToken db' ''usr_tok_abcdefghijkl'') = Some ''ann'')"
proof -
  let ?u = "\<lparr>ua_UserID = ''usr_01234567'', ua_Username = ''ann'', ua_Password = ''pw'',
    ua_AuthToken = ''usr_tok_abcdefghijkl'', ua_CreatedAt = 7\<rparr>"
  have "snd (CreateUser ''0123456789'' ''abcdefghijklmn'' 7 empty_db ''ann'' ''pw'') = Inr ?u"
    by code_simp
  from user_accounts [OF this, of "''guess''"] show ?thesis by simp
qed

section \<open>The file cache\<close>

definition cached_kind :: "DB \<Rightarrow> string \<Rightarrow> string \<Rightarrow> int option" where
  "cached_kind db dev path = map_option fc_IsDir (select_pk fc_key (dev, path) (CloudFileCache db))"

lemma cache_dir_lookup:
  "select_pk fc_key (dev, path) (CloudFileCache (fst (CacheDirectoryListing now db dev path files))) =
     Some (case select_pk fc_key (dev, path) (CloudFileCache db) of
             Some r \<Rightarrow> r\<lparr>fc_FilesJSON := Some (enc_slice marshal_FileInfo files), fc_UpdatedAt := now\<rparr>
           | None \<Rightarrow> \<lparr>fc_DeviceId = dev, fc_Path = path, fc_IsDir = 1, fc_SizeBytes = 0,
               fc_ContentBase64 = None, fc_FilesJSON = Some (enc_slice marshal_FileInfo files),
               fc_UpdatedAt = now\<rparr>)"
  by (auto simp: CacheDirectoryListing_def Let_def select_pk_append select_pk_update_rows fc_key_def
      dest: select_pk_SomeD split: option.split)

lemma cache_file_lookup:
  "select_pk fc_key (dev, path) (CloudFileCache (fst (CacheFileContent now db dev path content sz))) =
     Some (case select_pk fc_key (dev, path) (CloudFileCache db) of
             Some r \<Rightarrow> r\<lparr>fc_SizeBytes := sz, fc_ContentBase64 := Some content, fc_UpdatedAt := now\<rparr>
           | None \<Rightarrow> \<lparr>fc_DeviceId = dev, fc_Path = path, fc_IsDir = 0, fc_SizeBytes = sz,
               fc_ContentBase64 = Some content, fc_FilesJSON = None, fc_UpdatedAt = now\<rparr>)"
  by (auto simp: CacheFileContent_def select_pk_append select_pk_update_rows fc_key_def
      dest: select_pk_SomeD split: option.split)

text \<open>
  A cached directory listing is returned as it was stored when the path was not cached or was
  cached as a directory, and file content likewise when the path was not cached as a directory. When
  the path is already cached as the other kind, the new entry is stored but never returned: the
  update leaves the kind of the row as it was.
\<close>

theorem file_cache_roundtrip:
  assumes "\<forall>f \<in> set files. valid_FileInfo f"
  shows "GetCachedDirectoryListing (fst (CacheDirectoryListing now db dev path files)) dev path =
           (if cached_kind db dev path \<in> {None, Some 1} then Some files else None)
       \<and> GetCachedFileContent (fst (CacheFileContent now db dev path content sz)) dev path =
           (if cached_kind db dev path \<in> {None, Some 0} then Some (content, sz) else None)"
proof
  show "GetCachedDirectoryListing (fst (CacheDirectoryListing now db dev path files)) dev path =
      (if cached_kind db dev path \<in> {None, Some 1} then Some files else None)"
    using FileInfo_codec.slice_roundtrip [OF assms]
    by (simp add: GetCachedDirectoryListing_def cache_dir_lookup cached_kind_def split: option.split)
  show "GetCachedFileContent (fst (CacheFileContent now db dev path content sz)) dev path =
      (if cached_kind db dev path \<in> {None, Some 0} then Some (content, sz) else None)"
    by (simp add: GetCachedFileContent_def cache_file_lookup cached_kind_def split: option.split)
qed

theorem file_cache_roundtrip_witness:
  "GetCachedDirectoryListing (fst (CacheDirectoryListing 3 empty_db ''d'' ''/tmp'' [zero_FileInfo])) ''d'' ''/tmp''
     = Some [zero_FileInfo]
   \<and> GetCachedDirectoryListing
       (fst (CacheDirectoryListing 3 (fst (CacheFileContent 2 empty_db ''d'' ''/tmp'' ''eA=='' 1))
         ''d'' ''/tmp'' [zero_FileInfo])) ''d'' ''/tmp'' = None"
proof -
  have "\<forall>f \<in> set [zero_FileInfo]. valid_FileInfo f"
    by (simp add: zero_FileInfo_def valid_FileInfo_def in_int64_def)
  note rt = file_cache_roundtrip [OF this]
  have "cached_kind empty_db ''d'' ''/tmp'' = None" by code_simp
  moreover have "cached_kind (fst (CacheFileContent 2 empty_db ''d'' ''/tmp'' ''eA=='' 1)) ''d'' ''/tmp'' = Some 0"
    by code_simp
  ultimately show ?thesis
    using rt by simp
qed

section \<open>Queries with a limit\<close>

text \<open>The newest entries: at most \<open>n\<close> of them, none of the others newer.\<close>

definition newest :: "nat \<Rightarrow> ('a \<Rightarrow> int) \<Rightarrow> 'a list \<Rightarrow> 'a list \<Rightarrow> bool" where
  "newest n key xs ys \<longleftrightarrow>
     length ys = min n (length xs)
     \<and> (\<exists>rest. mset xs = mset ys + mset rest \<and> (\<forall>y \<in> set ys. \<forall>x \<in> set rest. key x \<le> key y))"

lemma newest_take: "newest n key xs (take n (sort_key (\<lambda>x. - key x) xs))"
proof -
  let ?s = "sort_key (\<lambda>x. - key x) xs"
  have "sorted (map (\<lambda>x. - key x) (take n ?s @ drop n ?s))"
    by (simp only: append_take_drop_id sorted_sort_key)
  then have "\<forall>y \<in> set (take n ?s). \<forall>x \<in> set (drop n ?s). key x \<le> key y"
    unfolding map_append sorted_append by auto
  moreover have "mset xs = mset (take n ?s) + mset (drop n ?s)"
    by (metis append_take_drop_id mset_append mset_sort)
  ultimately show ?thesis
    unfolding newest_def by (auto simp: min.commute intro!: exI [of _ "drop n ?s"])
qed

lemma newest_perm: "newest n key xs ys \<Longrightarrow> mset zs = mset ys \<Longrightarrow> newest n key xs zs"
  unfolding newest_def by (metis size_mset set_mset_mset)

text \<open>
  \<open>GetTelemetryHistory\<close> returns the newest points of the device, as many as the limit
  allows (60 when it is not positive), from the oldest to the newest; \<open>ListAuditLogs\<close> returns the newest
  entries of the device (of all devices when it is empty), from the newest to the oldest.
\<close>

theorem newest_first_queries:
  "newest (limit_or 60 limit) tp_Timestamp (filter (\<lambda>p. tp_DeviceID p = dev) (TelemetryHistory db))
     (GetTelemetryHistory db dev limit)
   \<and> sorted (map tp_Timestamp (GetTelemetryHistory db dev limit))
   \<and> newest (limit_or 100 limit) al_Timestamp
       (filter (\<lambda>l. dev = '''' \<or> al_DeviceID l = dev) (AuditLogs db)) (ListAuditLogs db dev limit)
   \<and> sorted (map (\<lambda>l. - al_Timestamp l) (ListAuditLogs db dev limit))"
proof (intro conjI)
  show "newest (limit_or 60 limit) tp_Timestamp (filter (\<lambda>p. tp_DeviceID p = dev) (TelemetryHistory db))
     (GetTelemetryHistory db dev limit)"
    by (rule newest_perm [OF newest_take]) (simp add: GetTelemetryHistory_def)
  show "sorted (map tp_Timestamp (GetTelemetryHistory db dev limit))"
    by (simp add: GetTelemetryHistory_def)
  have alt: "ListAuditLogs db dev limit = take (limit_or 100 limit) (sort_key (\<lambda>l. - al_Timestamp l)
      (filter (\<lambda>l. dev = '''' \<or> al_DeviceID l = dev) (AuditLogs db)))"
    by (simp add: ListAuditLogs_def)
  show "newest (limit_or 100 limit) al_Timestamp
       (filter (\<lambda>l. dev = '''' \<or> al_DeviceID l = dev) (AuditLogs db)) (ListAuditLogs db dev limit)"
    unfolding alt by (rule newest_take)
  show "sorted (map (\<lambda>l. - al_Timestamp l) (ListAuditLogs db dev limit))"
    unfolding alt take_map [symmetric] by (intro sorted_wrt_take sorted_sort_key)
qed

end
