(* ===== verification/HubSafety.thy ===== *)
theory HubSafety
  imports Hub RelayRecords
begin

text \<open>
  The hub as a whole does not panic. A panic in any goroutine ends the relay, and the handlers
  of the hub can panic in two ways: a send on the channel of a client that was unregistered, and
  the slice of a command identifier shorter than eight characters. \<open>reg_ok\<close> is the invariant that
  rules the first out (whoever is registered has an open channel and is registered under the role
  and device its own record shows), \<open>ids_ok\<close> the second. They hold as long as clients are
  \<open>polite\<close>; the examples at the end show what an impolite client does.

  \<open>quiet\<close> is the frame of every handler but authentication and disconnection: the registries
  stay, of a client only its buffer changes, and the database makes steps of the store.
\<close>

section \<open>Outcomes\<close>

definition ends_in :: "('s \<Rightarrow> bool) \<Rightarrow> 's outcome \<Rightarrow> bool" where
  "ends_in p m \<longleftrightarrow> (\<exists>s. m = Ret s \<and> p s)"

lemma ends_in_Ret [simp]: "ends_in p (Ret s) \<longleftrightarrow> p s"
  by (simp add: ends_in_def)

lemma ends_in_andThen: "ends_in p m \<Longrightarrow> (\<And>s. p s \<Longrightarrow> ends_in q (f s)) \<Longrightarrow> ends_in q (andThen m f)"
  by (auto simp: ends_in_def)

lemma ends_in_mono: "ends_in p m \<Longrightarrow> (\<And>s. p s \<Longrightarrow> q s) \<Longrightarrow> ends_in q m"
  by (auto simp: ends_in_def)

section \<open>The frame of a handler\<close>

definition ids_ok :: "DB \<Rightarrow> bool" where
  "ids_ok db \<longleftrightarrow> (\<forall>r \<in> set (CloudCommandQueue db). 8 \<le> length (cr_CommandID r))"

definition store_evolves :: "DB \<Rightarrow> DB \<Rightarrow> bool" where
  "store_evolves db db' \<longleftrightarrow> rtranclp store_step db db' \<and> (ids_ok db \<longrightarrow> ids_ok db')"

definition quiet :: "Hub \<Rightarrow> Hub \<Rightarrow> bool" where
  "quiet h h' \<longleftrightarrow>
     h_agents h' = h_agents h \<and> h_controllers h' = h_controllers h \<and> h_next h' = h_next h
     \<and> h_cfg h' = h_cfg h
     \<and> (\<forall>c. \<exists>q. h_clients h' c = (h_clients h c)\<lparr>c_send := q\<rparr>
          \<and> length q \<le> max send_capacity (length (c_send (h_clients h c))))
     \<and> store_evolves (h_store h) (h_store h')"

lemma store_evolves_refl [simp]: "store_evolves db db"
  by (simp add: store_evolves_def)

lemma store_evolves_trans: "store_evolves a b \<Longrightarrow> store_evolves b c \<Longrightarrow> store_evolves a c"
  by (auto simp: store_evolves_def)

lemma same_buffer: "\<exists>q. cl = cl\<lparr>c_send := q\<rparr> \<and> length q \<le> max send_capacity (length (c_send cl))"
  by (intro exI [of _ "c_send cl"]) simp

lemma quiet_refl [simp]: "quiet h h"
  by (simp add: quiet_def same_buffer)

lemma quiet_trans: "quiet a b \<Longrightarrow> quiet b c \<Longrightarrow> quiet a c"
proof -
  assume ab: "quiet a b" and bc: "quiet b c"
  have "\<exists>q. h_clients c x = (h_clients a x)\<lparr>c_send := q\<rparr> \<and> length q \<le> max send_capacity (length (c_send (h_clients a x)))"
    for x
  proof -
    obtain q where q: "h_clients b x = (h_clients a x)\<lparr>c_send := q\<rparr>"
        "length q \<le> max send_capacity (length (c_send (h_clients a x)))"
      using ab by (auto simp: quiet_def)
    moreover obtain r where "h_clients c x = (h_clients b x)\<lparr>c_send := r\<rparr>"
        "length r \<le> max send_capacity (length (c_send (h_clients b x)))"
      using bc by (auto simp: quiet_def)
    ultimately show ?thesis by (intro exI [of _ r]) auto
  qed
  then show "quiet a c"
    using ab bc store_evolves_trans by (auto simp: quiet_def)
qed

lemma quiet_client:
  assumes "quiet h h'"
  shows "c_closed (h_clients h' c) = c_closed (h_clients h c)" "c_role (h_clients h' c) = c_role (h_clients h c)"
    "c_deviceID (h_clients h' c) = c_deviceID (h_clients h c)" "c_userID (h_clients h' c) = c_userID (h_clients h c)"
    "c_sessionID (h_clients h' c) = c_sessionID (h_clients h c)"
  using assms by (auto simp: quiet_def dest!: spec [of _ c])

lemma quiet_registries:
  assumes "quiet h h'"
  shows "h_agents h' = h_agents h" "h_controllers h' = h_controllers h" "h_next h' = h_next h"
  using assms by (auto simp: quiet_def)

lemma quiet_ids: "quiet h h' \<Longrightarrow> ids_ok (h_store h) \<Longrightarrow> ids_ok (h_store h')"
  by (auto simp: quiet_def store_evolves_def)

lemma quiet_upd_store:
  "store_evolves (h_store h) (fst (f (h_store h))) \<Longrightarrow> quiet h (upd_store f h)"
  by (simp add: quiet_def upd_store_def same_buffer)

lemma quiet_store: "store_evolves (h_store h) db \<Longrightarrow> quiet h (h\<lparr>h_store := db\<rparr>)"
  by (simp add: quiet_def same_buffer)

lemma quiet_ghost [simp]: "quiet h (h\<lparr>h_uuids := n\<rparr>)" "quiet h (h\<lparr>h_wol := w\<rparr>)"
  by (simp_all add: quiet_def same_buffer)

lemma quiet_newEnvelope: "quiet h (snd (newEnvelope e h t d p))"
  by (simp add: newEnvelope_def)

lemma quiet_newUUID: "quiet h (snd (newUUID e h))"
  by (simp add: newUUID_def)

section \<open>The store's methods as steps\<close>

lemma ids_ok_update:
  "(\<And>r. p r \<Longrightarrow> cr_CommandID (f r) = cr_CommandID r) \<Longrightarrow>
   ids_ok (db\<lparr>CloudCommandQueue := update_rows p f (CloudCommandQueue db)\<rparr>) = ids_ok db"
  by (auto simp: ids_ok_def ball_update_rows)

lemma ids_ok_same: "CloudCommandQueue db' = CloudCommandQueue db \<Longrightarrow> ids_ok db' = ids_ok db"
  by (simp add: ids_ok_def)

lemma evolves_step: "store_step db db' \<Longrightarrow> (ids_ok db \<Longrightarrow> ids_ok db') \<Longrightarrow> store_evolves db db'"
  by (auto simp: store_evolves_def)

lemma MarkCommandCompleted_ids: "ids_ok (fst (MarkCommandCompleted now db i st)) = ids_ok db"
  by (simp add: MarkCommandCompleted_def ids_ok_update)

lemma evolves_devices:
  "store_evolves db (fst (UpsertDevice db info))"
  "store_evolves db (fst (UpdateDeviceHeartbeat now db dev metrics st))"
  "store_evolves db (fst (UpdateDeviceStatus db dev st))"
  "store_evolves db (fst (BindDeviceToUser db dev user))"
  by (rule evolves_step, rule store_step.intros,
      simp add: ids_ok_def device_write_defs Let_def split: option.splits)+

lemma evolves_commands:
  "store_evolves db (fst (CancelPendingCommands now db dev))"
  "store_evolves db (fst (MarkCommandDispatched now db i))"
  by (rule evolves_step, rule store_step.intros,
      simp add: CancelPendingCommands_def MarkCommandDispatched_def ids_ok_update)+

lemma evolves_completed:
  "st \<in> {StatusCompleted, StatusFailed} \<Longrightarrow> store_evolves db (fst (MarkCommandCompleted now db i st))"
  by (rule evolves_step) (auto simp: MarkCommandCompleted_ids intro: store_step.intros)

lemma evolves_enqueue:
  "8 \<le> length (cp_CommandID cmd) \<Longrightarrow> store_evolves db (fst (EnqueueCommand now db cmd))"
  by (rule evolves_step, rule store_step.intros)
     (auto simp: EnqueueCommand_def Let_def ids_ok_def split: option.splits)

lemma evolves_results:
  "store_evolves db (fst (SaveResult now db res))"
  "store_evolves db (fst (SaveSandboxResult now db res))"
  by (rule evolves_step, rule store_step.intros,
      simp add: SaveResult_def SaveSandboxResult_def Let_def MarkCommandCompleted_ids,
      simp add: ids_ok_def)
     (rule evolves_step, rule store_step.intros, simp add: SaveSandboxResult_def ids_ok_def)

lemma evolves_logs:
  "store_evolves db (fst (RecordAuditLog now db entry))"
  "store_evolves db (fst (RecordTelemetry now db point))"
  "store_evolves db (fst (CacheDirectoryListing now db dev path files))"
  "store_evolves db (fst (CacheFileContent now db dev path content sz))"
  by (rule evolves_step, rule store_step.intros,
      simp add: RecordAuditLog_def RecordTelemetry_def CacheDirectoryListing_def CacheFileContent_def Let_def
        ids_ok_def split: option.splits)+

lemmas evolves = evolves_devices evolves_commands evolves_completed evolves_enqueue evolves_results evolves_logs

section \<open>Handlers that leave the registries alone\<close>

abbreviation calm :: "Hub \<Rightarrow> Hub outcome \<Rightarrow> bool" where
  "calm h m \<equiv> ends_in (quiet h) m"

definition open_hub :: "Hub \<Rightarrow> bool" where
  "open_hub h \<longleftrightarrow>
     (\<forall>a \<in> snd ` set (h_agents h) \<union> set (h_controllers h). \<not> c_closed (h_clients h a))
     \<and> ids_ok (h_store h)"

lemma open_hub_quiet: "quiet h h' \<Longrightarrow> open_hub h \<Longrightarrow> open_hub h'"
  by (auto simp: open_hub_def quiet_client quiet_registries quiet_ids)

lemma calm_from: "quiet h h' \<Longrightarrow> calm h' m \<Longrightarrow> calm h m"
  by (auto intro: ends_in_mono quiet_trans)

lemma calm_andThen:
  "calm h m \<Longrightarrow> (\<And>h'. quiet h h' \<Longrightarrow> calm h' (f h')) \<Longrightarrow> calm h (andThen m f)"
  by (rule ends_in_andThen [where p = "quiet h"]) (auto intro: calm_from)

lemma calm_Send: "\<not> c_closed (h_clients h c) \<Longrightarrow> calm h (Send h c env)"
  by (auto simp: Send_def quiet_def upd_client_def same_buffer)

lemma calm_sendAll: "\<forall>c \<in> set cs. \<not> c_closed (h_clients h c) \<Longrightarrow> calm h (sendAll h cs env)"
proof (induction cs arbitrary: h)
  case (Cons c cs)
  show ?case
    using Cons.prems by (auto intro!: calm_andThen calm_Send Cons.IH simp: quiet_client)
qed simp

lemma calm_sendError: "\<not> c_closed (h_clients h c) \<Longrightarrow> calm h (sendError e h c code msg)"
  unfolding sendError_def newEnvelope_def Let_def prod.case
  by (rule calm_from [OF quiet_ghost(1) calm_Send]) simp

lemma calm_broadcastDeviceStatus: "open_hub h \<Longrightarrow> calm h (broadcastDeviceStatusLocked e h d st)"
  unfolding broadcastDeviceStatusLocked_def newEnvelope_def Let_def prod.case
  by (rule calm_from [OF quiet_ghost(1) calm_sendAll]) (auto simp: open_hub_def)

lemma calm_broadcasts:
  assumes "open_hub h"
  shows "calm h (broadcastDeviceResult h d env)" and "calm h (broadcastToControllers h env)"
  using assms unfolding broadcastDeviceResult_def broadcastToControllers_def
  by (auto intro!: calm_sendAll simp: open_hub_def)

lemma calm_handleGetDevices: "\<not> c_closed (h_clients h c) \<Longrightarrow> calm h (handleGetDevices e h c)"
  unfolding handleGetDevices_def newEnvelope_def Let_def prod.case
  by (rule calm_from [OF quiet_ghost(1) calm_Send]) simp

lemma calm_handleGetAuditLogs: "\<not> c_closed (h_clients h c) \<Longrightarrow> calm h (handleGetAuditLogs e h c env)"
  unfolding handleGetAuditLogs_def newEnvelope_def Let_def prod.case
  by (rule calm_from [OF quiet_ghost(1) calm_Send]) simp

lemma getAgentClient_registered: "getAgentClient h d = Some a \<Longrightarrow> a \<in> snd ` set (h_agents h)"
proof (cases "map_of (h_agents h) d")
  case None
  assume "getAgentClient h d = Some a"
  then obtain x where "find (\<lambda>(i, a). ToLower i = ToLower d) (h_agents h) = Some x" "snd x = a"
    using None by (auto simp: getAgentClient_def)
  then show ?thesis by (metis find_Some_iff image_eqI nth_mem)
next
  case (Some b)
  assume "getAgentClient h d = Some a"
  then show ?thesis using Some by (auto simp: getAgentClient_def image_iff dest!: map_of_SomeD intro: bexI [rotated])
qed

lemma open_agent: "open_hub h \<Longrightarrow> getAgentClient h d = Some a \<Longrightarrow> \<not> c_closed (h_clients h a)"
  by (auto simp: open_hub_def dest: getAgentClient_registered)

lemma calm_dispatch_all: "\<not> c_closed (h_clients h a) \<Longrightarrow> calm h (dispatch_all e h a cmds)"
proof (induction cmds arbitrary: h)
  case (Cons cmd cmds)
  have next_turn: "calm h' (dispatch_all e (upd_store (\<lambda>db. MarkCommandDispatched (unix_now e) db (cp_CommandID cmd)) h') a cmds)"
    if "quiet (h\<lparr>h_uuids := Suc (h_uuids h)\<rparr>) h'" for h'
    using Cons.prems that
    by (intro calm_from [OF quiet_upd_store Cons.IH]) (auto simp: evolves upd_store_def quiet_client)
  show ?case
    unfolding dispatch_all.simps newEnvelope_def Let_def prod.case
    by (rule calm_from [OF quiet_ghost(1) calm_andThen [OF calm_Send]]) (use Cons.prems next_turn in auto)
qed simp

lemma calm_flush: "open_hub h \<Longrightarrow> calm h (flushPendingCommands e h d)"
  unfolding flushPendingCommands_def Let_def
  by (auto intro!: calm_dispatch_all dest: open_agent split: option.split)

lemma calm_handleHeartbeat:
  assumes "open_hub h" and "\<not> c_closed (h_clients h c)"
  shows "calm h (handleHeartbeat e h c env)"
proof -
  obtain err p where d: "DecodePayload unmarshal_HeartbeatPayload env zero_HeartbeatPayload = (err, p)"
    by (cases "DecodePayload unmarshal_HeartbeatPayload env zero_HeartbeatPayload")
  let ?h1 = "upd_store (\<lambda>db. UpdateDeviceHeartbeat (unix_now e) db (hb_DeviceID p) (hb_Metrics p) StatusOnline) h"
  let ?h2 = "upd_store (\<lambda>db. RecordTelemetry (unix_now e) db (telemetry_of (unix_now e) p)) ?h1"
  have q: "quiet h (?h2\<lparr>h_uuids := Suc (h_uuids ?h2)\<rparr>)"
    by (intro quiet_trans [OF quiet_upd_store quiet_trans [OF quiet_upd_store quiet_ghost(1)]] evolves)
  have "calm h' (sendAll (h'\<lparr>h_uuids := n\<rparr>) (filter (sees (h'\<lparr>h_uuids := n\<rparr>) u) (h_controllers (h'\<lparr>h_uuids := n\<rparr>))) hb)"
    if "quiet (?h2\<lparr>h_uuids := Suc (h_uuids ?h2)\<rparr>) h'" for h' n u hb
    using open_hub_quiet [OF quiet_trans [OF q that] assms(1)]
    by (intro calm_from [OF quiet_ghost(1) calm_sendAll]) (auto simp: open_hub_def)
  then have "calm h (andThen (Send (?h2\<lparr>h_uuids := Suc (h_uuids ?h2)\<rparr>) c ack) (\<lambda>h.
      let u = c_userID (h_clients h c); devUserID = (if u = '''' then owner_of (h_store h) (hb_DeviceID p) else u);
          (hbEnv, h) = newEnvelope e h TypeHeartbeat (hb_DeviceID p) (marshal_HeartbeatPayload p)
      in sendAll h (filter (sees h devUserID) (h_controllers h)) hbEnv))" for ack
    using assms(2) quiet_client(1) [OF q, of c] unfolding newEnvelope_def Let_def prod.case
    by (intro calm_from [OF q calm_andThen [OF calm_Send]]) auto
  then show ?thesis
    by (simp add: handleHeartbeat_def d newEnvelope_def Let_def)
qed

section \<open>Commands and results\<close>

lemma ends_in_if: "ends_in p a \<Longrightarrow> ends_in p b \<Longrightarrow> ends_in p (if c then a else b)"
  by simp

lemma queue_lines_total:
  "\<forall>c \<in> set ps. 8 \<le> length (cp_CommandID c) \<Longrightarrow> ends_in (\<lambda>_. True) (queue_lines e n ps)"
  by (induction ps arbitrary: n) (auto intro!: ends_in_andThen [where p = "\<lambda>_. True"])

lemma queue_text_total: "ids_ok db \<Longrightarrow> ends_in (\<lambda>_. True) (queue_text e db d)"
proof -
  assume ids: "ids_ok db"
  have "\<forall>c \<in> set (GetPendingCommands db d). 8 \<le> length (cp_CommandID c)"
    using ids by (auto simp: set_GetPendingCommands pending_rows_def ids_ok_def command_of_record_def)
  then show ?thesis
    by (auto simp: queue_text_def Let_def intro!: ends_in_andThen [OF queue_lines_total])
qed

lemma predefined_stdout_total:
  assumes "ids_ok db"
  shows "ends_in (\<lambda>r. case r of None \<Rightarrow> True | Some (text, db', wol) \<Rightarrow> store_evolves db db') (predefined_stdout e db cmd)"
  unfolding predefined_stdout_def Let_def
  by (intro ends_in_if; (simp add: evolves)?; rule ends_in_andThen [OF queue_text_total [OF assms]]; simp)

lemma tryExecutePredefinedOffline_total:
  assumes "ids_ok db"
  shows "ends_in (\<lambda>r. case r of None \<Rightarrow> True | Some (res, db', wol) \<Rightarrow> store_evolves db db')
    (tryExecutePredefinedOffline e db cmd)"
  unfolding tryExecutePredefinedOffline_def
  by (rule ends_in_andThen [OF predefined_stdout_total [OF assms]]) (auto split: option.splits)

lemma run_offline_quiet:
  assumes "ids_ok (h_store h)"
  shows "ends_in (\<lambda>(predefined, res, h'). quiet h h') (run_offline e h p)"
  unfolding run_offline_def Let_def
proof (rule ends_in_andThen [OF tryExecutePredefinedOffline_total [OF assms]])
  fix r :: "(ResultPayload \<times> DB \<times> string option) option"
  assume r: "case r of None \<Rightarrow> True | Some (res, db', wol) \<Rightarrow> store_evolves (h_store h) db'"
  have sandbox: "quiet h (upd_store (\<lambda>db. RecordAuditLog now db x) (upd_store (\<lambda>db. SaveSandboxResult now db y) h))"
    for now x y
    by (intro quiet_trans [OF quiet_upd_store quiet_upd_store] evolves)
  have answered: "quiet h (upd_store (\<lambda>db. RecordAuditLog now db x)
      (upd_store (\<lambda>db. MarkCommandCompleted now db i StatusCompleted)
        (upd_store (\<lambda>db. SaveResult now db y) (h\<lparr>h_store := db', h_wol := w\<rparr>))))"
    if "store_evolves (h_store h) db'" for now x y i w db'
  proof -
    have "quiet h (h\<lparr>h_store := db', h_wol := w\<rparr>)"
      using quiet_trans [OF quiet_store [OF that] quiet_ghost(2) [of _ w]] by simp
    then show ?thesis
      by (rule quiet_trans) (intro quiet_trans [OF quiet_upd_store quiet_trans [OF quiet_upd_store quiet_upd_store]] evolves; simp)
  qed
  show "ends_in (\<lambda>(predefined, res, h'). quiet h h')
    (case r of
       Some (res, db, wol) \<Rightarrow>
         Ret (True, res, upd_store (\<lambda>db. RecordAuditLog (unix_now e) db (cloud_exec_log p res))
           (upd_store (\<lambda>db. MarkCommandCompleted (unix_now e) db (cp_CommandID p) StatusCompleted)
             (upd_store (\<lambda>db. SaveResult (unix_now e) db res)
               (h\<lparr>h_store := db, h_wol := h_wol h @ (case wol of None \<Rightarrow> [] | Some mac \<Rightarrow> [(mac, ''255.255.255.255'')])\<rparr>))))
     | None \<Rightarrow>
         Ret (False, executeCloudSandbox e p, upd_store (\<lambda>db. RecordAuditLog (unix_now e) db (cloud_script_log p (executeCloudSandbox e p)))
           (upd_store (\<lambda>db. SaveSandboxResult (unix_now e) db (executeCloudSandbox e p)) h)))"
  proof (cases r)
    case None
    then show ?thesis by (simp add: sandbox)
  next
    case (Some x)
    obtain res db' wol where x: "x = (res, db', wol)" by (cases x)
    then have "store_evolves (h_store h) db'" using r Some by simp
    then show ?thesis
      unfolding Some x option.case prod.case ends_in_Ret by (rule answered)
  qed
qed

text \<open>An identifier the relay accepts: empty, so that a fresh one is made, or long enough.\<close>

definition id_fine :: "string \<Rightarrow> bool" where
  "id_fine i \<longleftrightarrow> i = '''' \<or> 8 \<le> length i"

definition uuids_fine :: "Env \<Rightarrow> bool" where
  "uuids_fine e \<longleftrightarrow> (\<forall>n. 8 \<le> length (e_uuid e n))"

lemma complete_command_fine:
  assumes "id_fine (cp_CommandID p)" and "uuids_fine e"
  shows "quiet h (snd (complete_command e h p)) \<and> 8 \<le> length (cp_CommandID (fst (complete_command e h p)))"
  using assms by (auto simp: complete_command_def newUUID_def Let_def id_fine_def uuids_fine_def)

text \<open>The store part of an enqueued command, shared by the two ways a command arrives.\<close>

lemma enqueue_quiet:
  assumes "id_fine (cp_CommandID p)" and "uuids_fine e"
    and "complete_command e h p = (p', h')" and "EnqueueCommand now (h_store h') p' = (db, err)"
  shows "quiet h (h'\<lparr>h_store := db\<rparr>)"
proof -
  have "quiet h h'" "8 \<le> length (cp_CommandID p')"
    using complete_command_fine [OF assms(1,2), of h] assms(3) by auto
  moreover have "store_evolves (h_store h') db"
    using evolves_enqueue [OF calculation(2), of "h_store h'" now] assms(4) by simp
  ultimately show ?thesis using quiet_trans quiet_store by blast
qed

lemma calm_offline:
  assumes "open_hub h" and "\<And>h' pre env. quiet h h' \<Longrightarrow> open_hub h' \<Longrightarrow> ends_in q (f pre h' env)"
  shows "ends_in q (andThen (run_offline e h p) (\<lambda>(predefined, res, h).
     let (resEnv, h) = newEnvelope e h TypeCmdResult d (marshal_ResultPayload res) in f predefined h resEnv))"
proof (rule ends_in_andThen [OF run_offline_quiet])
  show "ids_ok (h_store h)" using assms(1) by (simp add: open_hub_def)
  fix s :: "bool \<times> ResultPayload \<times> Hub"
  assume s: "case s of (predefined, res, h') \<Rightarrow> quiet h h'"
  obtain pre res h' where "s = (pre, res, h')" by (cases s)
  then show "ends_in q (case s of (predefined, res, h) \<Rightarrow>
      let (resEnv, h) = newEnvelope e h TypeCmdResult d (marshal_ResultPayload res) in f predefined h resEnv)"
    using s assms(2) [OF quiet_trans [OF _ quiet_ghost(1)] open_hub_quiet [OF quiet_trans [OF _ quiet_ghost(1)] assms(1)]]
    by (simp add: newEnvelope_def)
qed

lemma calm_dispatched:
  assumes "open_hub h" and "\<not> c_closed (h_clients h a)"
    and "\<And>h'. quiet h h' \<Longrightarrow> open_hub h' \<Longrightarrow> ends_in q (f h')"
  shows "ends_in q (let (env, h) = newEnvelope e h t d p in andThen (Send h a env) (\<lambda>h.
     f (upd_store (\<lambda>db. MarkCommandDispatched now db i) h)))"
  unfolding newEnvelope_def Let_def prod.case
proof (rule ends_in_andThen [OF calm_Send])
  show "\<not> c_closed (h_clients (h\<lparr>h_uuids := Suc (h_uuids h)\<rparr>) a)" using assms(2) by simp
  fix s
  assume "quiet (h\<lparr>h_uuids := Suc (h_uuids h)\<rparr>) s"
  then have "quiet h s" by (rule quiet_trans [OF quiet_ghost(1)])
  moreover have "quiet s (upd_store (\<lambda>db. MarkCommandDispatched now db i) s)"
    by (intro quiet_upd_store evolves)
  ultimately have "quiet h (upd_store (\<lambda>db. MarkCommandDispatched now db i) s)" by (rule quiet_trans)
  then show "ends_in q (f (upd_store (\<lambda>db. MarkCommandDispatched now db i) s))"
    using assms(1,3) open_hub_quiet by blast
qed

lemma calm_handleEnqueueCmd:
  assumes "open_hub h" and "\<not> c_closed (h_clients h c)" and "uuids_fine e"
    and fine: "id_fine (cp_CommandID (snd (DecodePayload unmarshal_CommandPayload env zero_CommandPayload)))"
  shows "calm h (handleEnqueueCmd e h c env)"
proof -
  obtain derr p where d: "DecodePayload unmarshal_CommandPayload env zero_CommandPayload = (derr, p)"
    by (cases "DecodePayload unmarshal_CommandPayload env zero_CommandPayload")
  obtain p' h1 where p': "complete_command e h p = (p', h1)" by (cases "complete_command e h p")
  obtain db err where db: "EnqueueCommand (unix_now e) (h_store h1) p' = (db, err)"
    by (cases "EnqueueCommand (unix_now e) (h_store h1) p'")
  let ?h2 = "h1\<lparr>h_store := db\<rparr>"
  have q: "quiet h ?h2"
    using enqueue_quiet [OF _ assms(3) p' db] fine d by simp
  have op: "open_hub ?h2" by (rule open_hub_quiet [OF q assms(1)])
  have cl: "\<not> c_closed (h_clients ?h2 c)" using quiet_client(1) [OF q, of c] assms(2) by simp
  have online: "calm ?h2 (let (dispatchEnv, h) = newEnvelope e ?h2 TypeDispatchCmd (c_deviceID (h_clients ?h2 a))
        (marshal_CommandPayload p')
      in andThen (Send h a dispatchEnv) (\<lambda>h. broadcastDeviceResult
           (upd_store (\<lambda>db. MarkCommandDispatched (unix_now e) db (cp_CommandID p')) h) (cp_DeviceID p') env))"
    if "getAgentClient ?h2 (cp_DeviceID p') = Some a" for a
    by (rule calm_dispatched [OF op open_agent [OF op that]]) (auto intro: calm_from calm_broadcasts)
  have offline: "calm ?h2 (andThen (run_offline e ?h2 p') (\<lambda>(predefined, res, h).
      let (resEnv, h) = newEnvelope e h TypeCmdResult (cp_DeviceID p') (marshal_ResultPayload res)
      in broadcastDeviceResult h (cp_DeviceID p') resEnv))"
    by (rule calm_offline [OF op]) (auto intro: calm_from calm_broadcasts)
  show ?thesis
    unfolding handleEnqueueCmd_def d p' Let_def prod.case db
    using calm_sendError [OF assms(2)] calm_from [OF q calm_sendError [OF cl]]
      calm_from [OF q online] calm_from [OF q offline]
    by (auto simp: Let_def split: option.split)
qed

text \<open>What \<open>EnqueueDirect\<close> does once the command is in the queue keeps the frame and reports no error.\<close>

lemma EnqueueDirect_stored:
  assumes op: "open_hub (h1\<lparr>h_store := db\<rparr>)" and fields: "cp_DeviceID cmd \<noteq> ''''" "cp_Command cmd \<noteq> ''''"
    and p': "complete_command e h cmd = (p', h1)" and db: "EnqueueCommand (unix_now e) (h_store h1) p' = (db, None)"
  shows "ends_in (\<lambda>r. fst r = None \<and> quiet (h1\<lparr>h_store := db\<rparr>) (snd r)) (EnqueueDirect e h cmd)"
proof -
  let ?h2 = "h1\<lparr>h_store := db\<rparr>" and ?q = "\<lambda>r. fst r = None \<and> quiet (h1\<lparr>h_store := db\<rparr>) (snd r)"
  have send: "ends_in ?q (andThen m (\<lambda>h. Ret (None, h)))" if "quiet ?h2 h'" "calm h' m" for h' m
    by (rule ends_in_andThen [OF calm_from [OF that]]) simp
  have online: "ends_in ?q (let (dispatchEnv, h) = newEnvelope e ?h2 TypeDispatchCmd (cp_DeviceID p') (marshal_CommandPayload p')
      in andThen (Send h a dispatchEnv) (\<lambda>h.
           let h = upd_store (\<lambda>db. MarkCommandDispatched (unix_now e) db (cp_CommandID p')) h;
               (env, h) = newEnvelope e h TypeEnqueueCmd (cp_DeviceID p') (marshal_CommandPayload p')
           in andThen (broadcastToControllers h env) (\<lambda>h. Ret (None, h))))"
    if "map_of (h_agents ?h2) (cp_DeviceID p') = Some a" for a
    unfolding Let_def
  proof (rule calm_dispatched [OF op, unfolded Let_def])
    show "\<not> c_closed (h_clients ?h2 a)"
      using op that by (force simp: open_hub_def dest: map_of_SomeD)
    fix h'
    assume h': "quiet ?h2 h'" "open_hub h'"
    show "ends_in ?q (case newEnvelope e h' TypeEnqueueCmd (cp_DeviceID p') (marshal_CommandPayload p') of
        (env, h) \<Rightarrow> andThen (broadcastToControllers h env) (\<lambda>h. Ret (None, h)))"
      unfolding newEnvelope_def prod.case
      by (rule send [OF h'(1) calm_from [OF quiet_ghost(1) calm_broadcasts(2) [OF open_hub_quiet [OF quiet_ghost(1) h'(2)]]]])
  qed
  have offline: "ends_in ?q (andThen (run_offline e ?h2 p') (\<lambda>(predefined, res, h).
      let (resEnv, h) = newEnvelope e h TypeCmdResult (cp_DeviceID p') (marshal_ResultPayload res)
      in andThen (if predefined then broadcastToControllers h resEnv
                  else broadcastDeviceResult h (cp_DeviceID p') resEnv) (\<lambda>h. Ret (None, h))))"
    by (rule calm_offline [OF op]) (auto intro!: send calm_broadcasts)
  show ?thesis
    unfolding EnqueueDirect_def p' Let_def prod.case db
    using online offline fields by (auto simp: Let_def split: option.split)
qed

lemma EnqueueDirect_total:
  assumes "open_hub h" and "uuids_fine e" and "id_fine (cp_CommandID cmd)"
  shows "ends_in (\<lambda>r. quiet h (snd r)) (EnqueueDirect e h cmd)"
proof -
  obtain p' h1 where p': "complete_command e h cmd = (p', h1)" by (cases "complete_command e h cmd")
  obtain db err where db: "EnqueueCommand (unix_now e) (h_store h1) p' = (db, err)"
    by (cases "EnqueueCommand (unix_now e) (h_store h1) p'")
  have q: "quiet h (h1\<lparr>h_store := db\<rparr>)" by (rule enqueue_quiet [OF assms(3,2) p' db])
  show ?thesis
  proof (cases "cp_DeviceID cmd = '''' \<or> cp_Command cmd = '''' \<or> err \<noteq> None")
    case True
    then show ?thesis using q by (auto simp: EnqueueDirect_def p' db Let_def)
  next
    case False
    then have "ends_in (\<lambda>r. fst r = None \<and> quiet (h1\<lparr>h_store := db\<rparr>) (snd r)) (EnqueueDirect e h cmd)"
      by (intro EnqueueDirect_stored [OF open_hub_quiet [OF q assms(1)] _ _ p']) (auto simp: db)
    then show ?thesis by (rule ends_in_mono) (auto intro: quiet_trans [OF q])
  qed
qed

lemma calm_handleCmdResult:
  assumes "open_hub h" and "\<not> c_closed (h_clients h c)"
  shows "calm h (handleCmdResult e h c env)"
proof -
  obtain err p where d: "DecodePayload unmarshal_ResultPayload env zero_ResultPayload = (err, p)"
    by (cases "DecodePayload unmarshal_ResultPayload env zero_ResultPayload")
  have q: "quiet h ((upd_store (\<lambda>db. RecordAuditLog (unix_now e) db l)
      (upd_store (\<lambda>db. SaveResult (unix_now e) db p) h))\<lparr>h_uuids := n\<rparr>)" for l n
    by (intro quiet_trans [OF quiet_trans [OF quiet_upd_store quiet_upd_store] quiet_ghost(1)] evolves)
  show ?thesis
    unfolding handleCmdResult_def d Let_def prod.case newEnvelope_def
    using quiet_client(1) [OF q, of c] assms(2) open_hub_quiet [OF q assms(1)]
    by (auto intro!: calm_from [OF q calm_andThen [OF calm_Send]] calm_broadcasts intro: open_hub_quiet)
qed

lemma sync_results_quiet:
  "open_hub h \<Longrightarrow> ends_in (\<lambda>(acked, h'). quiet h h') (sync_results e h d rs)"
proof (induction rs arbitrary: h)
  case (Cons res rs)
  let ?h1 = "h\<lparr>h_store := fst (SaveResult (unix_now e) (h_store h) res)\<rparr>"
  let ?h2 = "?h1\<lparr>h_uuids := Suc (h_uuids ?h1)\<rparr>"
  have q: "quiet h ?h2"
    by (rule quiet_trans [OF quiet_store quiet_ghost(1)]) (simp add: evolves)
  have "ends_in (\<lambda>(acked, h'). quiet h h')
      (andThen (broadcastToControllers ?h2 env) (\<lambda>h. andThen (sync_results e h d rs) (\<lambda>(acked, h). Ret (x # acked, h))))"
    for env x
  proof (rule ends_in_andThen [OF calm_broadcasts(2) [OF open_hub_quiet [OF q Cons.prems]]])
    fix h3
    assume h3: "quiet ?h2 h3"
    then have "quiet h h3" using q quiet_trans by blast
    then show "ends_in (\<lambda>(acked, h'). quiet h h') (andThen (sync_results e h3 d rs) (\<lambda>(acked, h). Ret (x # acked, h)))"
      by (auto intro!: ends_in_andThen [OF Cons.IH [OF open_hub_quiet [OF _ Cons.prems]]] intro: quiet_trans)
  qed
  then show ?case
    by (simp add: SaveResult_def newEnvelope_def Let_def)
qed simp

lemma mark_all_dispatched_evolves: "store_evolves db (mark_all_dispatched now db cmds)"
  unfolding mark_all_dispatched_def
  by (induction cmds arbitrary: db) (auto intro: store_evolves_trans evolves)

lemma calm_handleSyncReq:
  assumes "open_hub h" and "\<not> c_closed (h_clients h c)"
  shows "calm h (handleSyncReq e h c env)"
proof -
  obtain err req where d: "DecodePayload unmarshal_SyncReqPayload env zero_SyncReqPayload = (err, req)"
    by (cases "DecodePayload unmarshal_SyncReqPayload env zero_SyncReqPayload")
  have "calm h (Send (h'\<lparr>h_store := mark_all_dispatched now (h_store h') pending, h_uuids := n\<rparr>) c x)"
    if "quiet h h'" for h' now pending n x
  proof -
    have "quiet h' (h'\<lparr>h_store := mark_all_dispatched now (h_store h') pending, h_uuids := n\<rparr>)"
      using quiet_trans [OF quiet_store [OF mark_all_dispatched_evolves] quiet_ghost(1)] by simp
    then show ?thesis
      using that assms(2) by (intro calm_from [OF quiet_trans calm_Send]) (auto simp: quiet_client)
  qed
  then show ?thesis
    unfolding handleSyncReq_def d Let_def prod.case newEnvelope_def
    by (auto intro!: ends_in_andThen [OF sync_results_quiet [OF assms(1)]])
qed

section \<open>Routing and liveness\<close>

lemma calm_routeToAgent:
  assumes "open_hub h" and "\<not> c_closed (h_clients h c)"
  shows "calm h (routeToAgent e h c env)"
proof -
  have "calm h (case newEnvelope e h t d p of (env, h) \<Rightarrow> Send h c env)" for t d p
    unfolding newEnvelope_def prod.case using assms(2) by (intro calm_from [OF quiet_ghost(1) calm_Send]) simp
  moreover have "calm h (agent_offline e h c env)"
    unfolding agent_offline_def by (rule calm_sendError [OF assms(2)])
  ultimately show ?thesis
    unfolding routeToAgent_def Let_def
    using calm_sendError [OF assms(2)] calm_Send [OF open_agent [OF assms(1)]]
    by (auto split: option.split)
qed

lemma quiet_record_action: "quiet h (record_action e h d action text ok err)"
  unfolding record_action_def newUUID_def Let_def prod.case
  by (intro quiet_trans [OF quiet_ghost(1) quiet_upd_store] evolves)

lemma quiet_cache_and_audit: "quiet h (cache_and_audit e h env)"
  unfolding cache_and_audit_def Let_def
  by (auto intro!: quiet_record_action quiet_upd_store evolves split: prod.split)

lemma calm_routeToControllers: "open_hub h \<Longrightarrow> calm h (routeToControllers e h c env)"
  unfolding routeToControllers_def
  by (intro calm_from [OF quiet_cache_and_audit calm_broadcasts(1)] open_hub_quiet [OF quiet_cache_and_audit])

lemma calm_status_change:
  "open_hub h \<Longrightarrow> calm h (broadcastDeviceStatusLocked e (upd_store (\<lambda>db. UpdateDeviceStatus db d st) h) d st)"
  by (rule calm_from [OF quiet_upd_store calm_broadcastDeviceStatus])
     (auto intro: open_hub_quiet [OF quiet_upd_store] simp: evolves)

lemma calm_update_liveness: "open_hub h \<Longrightarrow> calm h (update_liveness e h ds)"
proof (induction ds arbitrary: h)
  case (Cons d ds)
  have "calm h (if st \<noteq> di_Status d then broadcastDeviceStatusLocked e
      (upd_store (\<lambda>db. UpdateDeviceStatus db (di_DeviceID d) st) h) (di_DeviceID d) st else Ret h)" for st
    using calm_status_change [OF Cons.prems] by simp
  then show ?case
    unfolding update_liveness.simps Let_def
    by (rule calm_andThen) (use Cons.IH Cons.prems in \<open>auto intro: open_hub_quiet\<close>)
qed simp

lemma calm_livenessTick: "open_hub h \<Longrightarrow> calm h (livenessTick e h)"
  by (auto simp: livenessTick_def calm_update_liveness split: sum.split)

section \<open>The registries\<close>

definition agent_entry_ok :: "Hub \<Rightarrow> string \<Rightarrow> cid \<Rightarrow> bool" where
  "agent_entry_ok h d a \<longleftrightarrow> c_role (h_clients h a) = RoleAgent \<and> c_deviceID (h_clients h a) = d
     \<and> d \<noteq> '''' \<and> \<not> c_closed (h_clients h a) \<and> a < h_next h"

definition controller_ok :: "Hub \<Rightarrow> cid \<Rightarrow> bool" where
  "controller_ok h c \<longleftrightarrow> c_role (h_clients h c) = RoleController
     \<and> \<not> c_closed (h_clients h c) \<and> c < h_next h"

definition reg_ok :: "Hub \<Rightarrow> bool" where
  "reg_ok h \<longleftrightarrow>
     distinct (map fst (h_agents h)) \<and> distinct (h_controllers h)
     \<and> (\<forall>(d, a) \<in> set (h_agents h). agent_entry_ok h d a)
     \<and> (\<forall>c \<in> set (h_controllers h). controller_ok h c)
     \<and> (\<forall>c. length (c_send (h_clients h c)) \<le> send_capacity)
     \<and> ids_ok (h_store h)"

lemma reg_ok_open: "reg_ok h \<Longrightarrow> open_hub h"
  by (auto simp: reg_ok_def open_hub_def agent_entry_ok_def controller_ok_def)

lemma reg_ok_quiet: "quiet h h' \<Longrightarrow> reg_ok h \<Longrightarrow> reg_ok h'"
proof -
  assume q: "quiet h h'" and ok: "reg_ok h"
  have "length (c_send (h_clients h' c)) \<le> send_capacity" for c
  proof -
    have "length (c_send (h_clients h c)) \<le> send_capacity" using ok by (simp add: reg_ok_def)
    moreover obtain b where "h_clients h' c = (h_clients h c)\<lparr>c_send := b\<rparr>"
        "length b \<le> max send_capacity (length (c_send (h_clients h c)))"
      using q by (auto simp: quiet_def)
    ultimately show ?thesis by simp
  qed
  then show "reg_ok h'"
    using ok quiet_client [OF q] quiet_registries [OF q] quiet_ids [OF q]
    by (auto simp: reg_ok_def agent_entry_ok_def controller_ok_def)
qed

definition polite_auth :: "Client \<Rightarrow> AuthPayload \<Rightarrow> bool" where
  "polite_auth cl p \<longleftrightarrow>
     (ap_Role p = RoleAgent \<and> ap_DeviceID p \<noteq> '''' \<or> ap_Role p = RoleController)
     \<and> (c_role cl = '''' \<or> c_role cl = ap_Role p \<and> (ap_Role p = RoleAgent \<longrightarrow> c_deviceID cl = ap_DeviceID p))"

text \<open>What authentication does to the sender's record and to the registries.\<close>

lemma entry_ok_other:
  assumes "h_clients h' a = h_clients h a" and "h_next h' = h_next h"
  shows "agent_entry_ok h' d a = agent_entry_ok h d a" and "controller_ok h' a = controller_ok h a"
  using assms by (simp_all add: agent_entry_ok_def controller_ok_def)

lemma set_AList_update:
  assumes "distinct (map fst al)"
  shows "set (AList.update k v al) = insert (k, v) {p \<in> set al. fst p \<noteq> k}"
  using assms by (induction al) (auto intro: rev_image_eqI)

lemma reg_ok_register_agent:
  assumes ok: "reg_ok h" and "c < h_next h" and "\<not> c_closed (h_clients h c)" and "d \<noteq> ''''"
    and role: "c_role (h_clients h c) = '''' \<or> c_role (h_clients h c) = RoleAgent \<and> c_deviceID (h_clients h c) = d"
    and f: "c_role (f (h_clients h c)) = RoleAgent" "c_deviceID (f (h_clients h c)) = d"
      "c_closed (f (h_clients h c)) = c_closed (h_clients h c)" "c_send (f (h_clients h c)) = c_send (h_clients h c)"
  shows "reg_ok ((upd_client c f h)\<lparr>h_agents := AList.update d c (h_agents h)\<rparr>)" (is "reg_ok ?h")
proof -
  have other: "h_clients ?h a = h_clients h a" if "a \<noteq> c" for a
    using that by (simp add: upd_client_def)
  have self: "agent_entry_ok ?h d c"
    using assms(2-4) f by (simp add: agent_entry_ok_def upd_client_def)
  have "agent_entry_ok ?h d' a" if "(d', a) \<in> set (h_agents h)" "d' \<noteq> d" for d' a
  proof -
    have old: "agent_entry_ok h d' a" using ok that(1) by (auto simp: reg_ok_def)
    then have "a \<noteq> c" using role that(2) by (auto simp: agent_entry_ok_def)
    then show ?thesis using old entry_ok_other(1) [OF other] by (simp add: upd_client_def)
  qed
  then have "\<forall>(d', a) \<in> set (AList.update d c (h_agents h)). agent_entry_ok ?h d' a"
    using ok self by (auto simp: reg_ok_def set_AList_update)
  moreover have "controller_ok ?h a" if "a \<in> set (h_controllers h)" for a
  proof -
    have old: "controller_ok h a" using ok that by (auto simp: reg_ok_def)
    then have "a \<noteq> c" using role by (auto simp: controller_ok_def)
    then show ?thesis using old entry_ok_other(2) [OF other] by (simp add: upd_client_def)
  qed
  moreover have "length (c_send (h_clients ?h a)) \<le> send_capacity" for a
    using ok f(4) by (simp add: reg_ok_def upd_client_def)
  ultimately show ?thesis
    using ok by (simp add: reg_ok_def distinct_update upd_client_def)
qed

lemma reg_ok_register_controller:
  assumes ok: "reg_ok h" and "c < h_next h" and "\<not> c_closed (h_clients h c)"
    and role: "c_role (h_clients h c) \<noteq> RoleAgent"
    and f: "c_role (f (h_clients h c)) = RoleController" "c_closed (f (h_clients h c)) = c_closed (h_clients h c)"
      "c_send (f (h_clients h c)) = c_send (h_clients h c)"
  shows "reg_ok ((upd_client c f h)\<lparr>h_controllers := List.insert c (h_controllers h)\<rparr>)" (is "reg_ok ?h")
proof -
  have other: "h_clients ?h a = h_clients h a" if "a \<noteq> c" for a
    using that by (simp add: upd_client_def)
  have self: "controller_ok ?h c"
    using assms(2,3) f by (simp add: controller_ok_def upd_client_def)
  have "agent_entry_ok ?h d' a" if "(d', a) \<in> set (h_agents h)" for d' a
  proof -
    have old: "agent_entry_ok h d' a" using ok that by (auto simp: reg_ok_def)
    then have "a \<noteq> c" using role by (auto simp: agent_entry_ok_def)
    then show ?thesis using old entry_ok_other(1) [OF other] by (simp add: upd_client_def)
  qed
  moreover have "controller_ok ?h a" if "a \<in> set (h_controllers h)" for a
  proof (cases "a = c")
    case False
    then show ?thesis
      using ok that entry_ok_other(2) [OF other [OF False]] by (simp add: reg_ok_def upd_client_def)
  qed (simp add: self)
  moreover have "length (c_send (h_clients ?h a)) \<le> send_capacity" for a
    using ok f(3) by (simp add: reg_ok_def upd_client_def)
  ultimately show ?thesis
    using ok self by (simp add: reg_ok_def upd_client_def case_prod_beta)
qed

text \<open>Changes of a client's record that registration does not depend on.\<close>

definition same_reg :: "Hub \<Rightarrow> Hub \<Rightarrow> bool" where
  "same_reg h h' \<longleftrightarrow>
     h_agents h' = h_agents h \<and> h_controllers h' = h_controllers h \<and> h_next h' = h_next h
     \<and> (\<forall>a. c_role (h_clients h' a) = c_role (h_clients h a) \<and> c_deviceID (h_clients h' a) = c_deviceID (h_clients h a)
          \<and> c_closed (h_clients h' a) = c_closed (h_clients h a) \<and> c_send (h_clients h' a) = c_send (h_clients h a))
     \<and> store_evolves (h_store h) (h_store h')"

lemma same_reg_trans: "same_reg a b \<Longrightarrow> same_reg b c \<Longrightarrow> same_reg a c"
  by (auto simp: same_reg_def intro: store_evolves_trans)

lemma same_reg_simps [simp]:
  "same_reg h h"
  "same_reg h (upd_client c (\<lambda>cl. cl\<lparr>c_connClosed := b\<rparr>) h)"
  "same_reg h (upd_client c (\<lambda>cl. cl\<lparr>c_userID := u\<rparr>) h)"
  "store_evolves (h_store h) (fst (f (h_store h))) \<Longrightarrow> same_reg h (upd_store f h)"
  by (simp_all add: same_reg_def upd_client_def upd_store_def)

lemma reg_ok_same: "same_reg h h' \<Longrightarrow> reg_ok h \<Longrightarrow> reg_ok h'"
proof -
  assume s: "same_reg h h'" and ok: "reg_ok h"
  have "agent_entry_ok h' d a = agent_entry_ok h d a" "controller_ok h' a = controller_ok h a" for d a
    using s by (simp_all add: same_reg_def agent_entry_ok_def controller_ok_def)
  then show "reg_ok h'"
    using s ok by (simp add: reg_ok_def same_reg_def store_evolves_def)
qed

text \<open>The outcome of a handler that keeps the hub in order.\<close>

definition orderly :: "Hub \<Rightarrow> Hub \<Rightarrow> bool" where
  "orderly h h' \<longleftrightarrow> reg_ok h' \<and> store_evolves (h_store h) (h_store h')"

lemma orderly_calm: "reg_ok h \<Longrightarrow> calm h m \<Longrightarrow> ends_in (orderly h) m"
  by (rule ends_in_mono [where p = "quiet h"]) (auto simp: orderly_def reg_ok_quiet quiet_def intro: reg_ok_quiet)

lemma orderly_from: "store_evolves (h_store h) (h_store h') \<Longrightarrow> ends_in (orderly h') m \<Longrightarrow> ends_in (orderly h) m"
  by (erule ends_in_mono) (auto simp: orderly_def intro: store_evolves_trans)

lemma register_agent_orderly:
  assumes ok: "reg_ok (h\<lparr>h_agents := AList.update (ap_DeviceID p) c (h_agents h)\<rparr>)"
    and closed: "\<not> c_closed (h_clients h c)"
  shows "ends_in (\<lambda>h'. orderly h h' \<and> \<not> c_closed (h_clients h' c)) (register_agent e h c p user)"
proof -
  let ?al = "AList.update (ap_DeviceID p) c (h_agents h)"
  let ?g = "h\<lparr>h_agents := ?al\<rparr>"
  define h1 where "h1 = (case map_of (h_agents h) (ap_DeviceID p) of
      Some old \<Rightarrow> if old \<noteq> c then upd_client old (\<lambda>cl. cl\<lparr>c_connClosed := True\<rparr>) h else h
    | None \<Rightarrow> h)\<lparr>h_agents := ?al\<rparr>"
  have h1: "same_reg ?g h1"
    by (auto simp: h1_def same_reg_def upd_client_def split: option.split)
  have agents: "h_agents (case map_of (h_agents h) (ap_DeviceID p) of
      Some old \<Rightarrow> if old \<noteq> c then upd_client old (\<lambda>cl. cl\<lparr>c_connClosed := True\<rparr>) h else h
    | None \<Rightarrow> h) = h_agents h"
    by (simp add: upd_client_def split: option.split)
  have tail: "ends_in (\<lambda>h'. orderly h h' \<and> \<not> c_closed (h_clients h' c)) (broadcastDeviceStatusLocked e
      (upd_store (\<lambda>db. UpsertDevice db info) h2) d st)" if "same_reg h1 h2" for h2 info d st
  proof -
    let ?h3 = "upd_store (\<lambda>db. UpsertDevice db info) h2"
    have s: "same_reg ?g ?h3"
      by (rule same_reg_trans [OF h1 same_reg_trans [OF that]]) (simp add: evolves)
    then have ok3: "reg_ok ?h3" using reg_ok_same ok by blast
    show ?thesis
    proof (rule ends_in_mono [OF calm_broadcastDeviceStatus [OF reg_ok_open [OF ok3]]])
      fix h4
      assume q: "quiet ?h3 h4"
      have "store_evolves (h_store ?h3) (h_store h4)" using q by (simp add: quiet_def)
      moreover have "store_evolves (h_store h) (h_store ?h3)" using s by (simp add: same_reg_def)
      moreover have "\<not> c_closed (h_clients ?h3 c)" using s closed by (simp add: same_reg_def)
      ultimately show "orderly h h4 \<and> \<not> c_closed (h_clients h4 c)"
        using reg_ok_quiet [OF q ok3] quiet_client(1) [OF q] store_evolves_trans by (auto simp: orderly_def)
    qed
  qed
  have bind: "same_reg h1 (upd_store (\<lambda>db. BindDeviceToUser db d u) (upd_client c (\<lambda>cl. cl\<lparr>c_userID := u\<rparr>) h1))" for d u
    by (rule same_reg_trans [OF same_reg_simps(3) [where c = c and u = u]]) (simp add: evolves)
  show ?thesis
    unfolding register_agent_def Let_def agents h1_def [symmetric]
    using tail [OF bind] tail [OF same_reg_simps(1)] tail [OF same_reg_simps(3)]
    by (auto split: option.split)
qed

text \<open>The acknowledgement, and what follows it: the list of devices, or the pending commands.\<close>

lemma auth_tail_orderly:
  assumes h': "orderly h h' \<and> \<not> c_closed (h_clients h' c)"
  shows "ends_in (orderly h) (case newEnvelope e h' t dev x of (ack, h) \<Rightarrow> andThen (Send h c ack) (\<lambda>h.
      andThen (if ap_Role p = RoleController then handleGetDevices e h c else Ret h)
        (\<lambda>h. if ap_Role p = RoleAgent then flushPendingCommands e h (ap_DeviceID p) else Ret h)))"
proof -
  have ok': "reg_ok h'" and evo: "store_evolves (h_store h) (h_store h')" using h' by (simp_all add: orderly_def)
  have "calm h' (andThen (Send (h'\<lparr>h_uuids := n\<rparr>) c ack) (\<lambda>h.
    andThen (if ap_Role p = RoleController then handleGetDevices e h c else Ret h)
      (\<lambda>h. if ap_Role p = RoleAgent then flushPendingCommands e h (ap_DeviceID p) else Ret h)))" for n ack
  proof (rule calm_from [OF quiet_ghost(1) calm_andThen [OF calm_Send]])
    show "\<not> c_closed (h_clients (h'\<lparr>h_uuids := n\<rparr>) c)" using h' by simp
    fix h1
    assume q1: "quiet (h'\<lparr>h_uuids := n\<rparr>) h1"
    have c1: "\<not> c_closed (h_clients h1 c)" using quiet_client(1) [OF q1] h' by simp
    have o1: "open_hub h1" by (rule open_hub_quiet [OF quiet_trans [OF quiet_ghost(1) q1] reg_ok_open [OF ok']])
    have "calm h1 (if ap_Role p = RoleController then handleGetDevices e h1 c else Ret h1)"
      using calm_handleGetDevices [OF c1] by simp
    then show "calm h1 (andThen (if ap_Role p = RoleController then handleGetDevices e h1 c else Ret h1)
        (\<lambda>h. if ap_Role p = RoleAgent then flushPendingCommands e h (ap_DeviceID p) else Ret h))"
      by (rule calm_andThen) (use calm_flush open_hub_quiet [OF _ o1] in simp)
  qed
  then show ?thesis
    unfolding newEnvelope_def prod.case by (rule orderly_from [OF evo orderly_calm [OF ok']])
qed

lemma handleAuth_orderly:
  assumes ok: "reg_ok h" and "c < h_next h" and closed: "\<not> c_closed (h_clients h c)"
    and polite: "\<And>p. DecodePayload unmarshal_AuthPayload env zero_AuthPayload = (False, p) \<Longrightarrow>
       polite_auth (h_clients h c) p"
  shows "ends_in (orderly h) (handleAuth e h c env)"
proof -
  obtain err p where d: "DecodePayload unmarshal_AuthPayload env zero_AuthPayload = (err, p)"
    by (cases "DecodePayload unmarshal_AuthPayload env zero_AuthPayload")
  let ?user = "GetUserByToken (h_store h) (ap_Token p)"
  let ?f = "\<lambda>cl. cl\<lparr>c_role := ap_Role p, c_deviceID := ap_DeviceID p, c_authed := True,
      c_userID := (case ?user of Some u \<Rightarrow> ua_UserID u | None \<Rightarrow> c_userID cl)\<rparr>"
  let ?reg = "if ap_Role p = RoleAgent then register_agent e (upd_client c ?f h) c p ?user
      else Ret ((upd_client c ?f h)\<lparr>h_controllers := List.insert c (h_controllers (upd_client c ?f h))\<rparr>)"
  have refused: "ends_in (orderly h) (case newEnvelope e h t dev x of (ack, h) \<Rightarrow> Send h c ack)" for t dev x
    unfolding newEnvelope_def prod.case
    by (rule orderly_calm [OF ok calm_from [OF quiet_ghost(1) calm_Send]]) (simp add: closed)
  have reg: "ends_in (\<lambda>h'. orderly h h' \<and> \<not> c_closed (h_clients h' c)) ?reg" if "polite_auth (h_clients h c) p"
  proof (cases "ap_Role p = RoleAgent")
    case True
    have "reg_ok ((upd_client c ?f h)\<lparr>h_agents := AList.update (ap_DeviceID p) c (h_agents h)\<rparr>)"
      using that True by (intro reg_ok_register_agent [OF ok assms(2) closed]) (auto simp: polite_auth_def)
    then have "ends_in (\<lambda>h'. orderly (upd_client c ?f h) h' \<and> \<not> c_closed (h_clients h' c))
        (register_agent e (upd_client c ?f h) c p ?user)"
      using closed by (intro register_agent_orderly) (simp_all add: upd_client_def)
    then show ?thesis using True by (simp add: orderly_def upd_client_def)
  next
    case False
    have "reg_ok ((upd_client c ?f h)\<lparr>h_controllers := List.insert c (h_controllers h)\<rparr>)"
      using that False by (intro reg_ok_register_controller [OF ok assms(2) closed]) (auto simp: polite_auth_def)
    then show ?thesis using False closed by (simp add: orderly_def upd_client_def)
  qed
  show ?thesis
    unfolding handleAuth_def d Let_def prod.case
    using orderly_calm [OF ok calm_sendError [OF closed]] refused
      ends_in_andThen [OF reg auth_tail_orderly [where p = p]] polite d
    by (auto simp: Let_def)
qed

section \<open>Disconnection\<close>

lemma reg_ok_close:
  assumes ok: "reg_ok h" and "\<And>d. (d, c) \<notin> set (h_agents h)" and "c \<notin> set (h_controllers h)"
  shows "reg_ok (upd_client c (\<lambda>cl. cl\<lparr>c_closed := True, c_connClosed := True\<rparr>) h)" (is "reg_ok ?h")
proof -
  have other: "agent_entry_ok ?h d a = agent_entry_ok h d a" "controller_ok ?h a = controller_ok h a" if "a \<noteq> c" for d a
    by (rule entry_ok_other; use that in \<open>simp add: upd_client_def\<close>)+
  have "agent_entry_ok ?h d a" if "(d, a) \<in> set (h_agents h)" for d a
  proof -
    have "a \<noteq> c" using assms(2) that by blast
    then show ?thesis using ok that other by (auto simp: reg_ok_def)
  qed
  moreover have "controller_ok ?h a" if "a \<in> set (h_controllers h)" for a
  proof -
    have "a \<noteq> c" using assms(3) that by blast
    then show ?thesis using ok that other by (auto simp: reg_ok_def)
  qed
  ultimately show ?thesis using ok by (simp add: reg_ok_def upd_client_def case_prod_beta)
qed

lemma reg_ok_drop:
  assumes "reg_ok h"
  shows "reg_ok (h\<lparr>h_agents := AList.delete d (h_agents h)\<rparr>)" and "reg_ok (h\<lparr>h_controllers := removeAll c (h_controllers h)\<rparr>)"
proof -
  have eqs: "agent_entry_ok (h\<lparr>h_agents := al\<rparr>) d' a = agent_entry_ok h d' a"
    "controller_ok (h\<lparr>h_agents := al\<rparr>) a = controller_ok h a"
    "agent_entry_ok (h\<lparr>h_controllers := cs\<rparr>) d' a = agent_entry_ok h d' a"
    "controller_ok (h\<lparr>h_controllers := cs\<rparr>) a = controller_ok h a" for al cs d' a
    by (rule entry_ok_other; simp)+
  show "reg_ok (h\<lparr>h_agents := AList.delete d (h_agents h)\<rparr>)"
    using assms by (auto simp: reg_ok_def eqs AList.delete_eq distinct_map_filter)
  show "reg_ok (h\<lparr>h_controllers := removeAll c (h_controllers h)\<rparr>)"
    using assms by (auto simp: reg_ok_def eqs distinct_removeAll)
qed

lemma unregister_orderly:
  assumes ok: "reg_ok h"
  shows "ends_in (orderly h) (unregister e h c)"
proof -
  let ?cl = "h_clients h c" and ?d = "c_deviceID (h_clients h c)"
  let ?m = "if c_role ?cl = RoleAgent \<and> ?d \<noteq> ''''
    then if map_of (h_agents h) ?d = Some c
      then broadcastDeviceStatusLocked e (upd_store (\<lambda>db. UpdateDeviceStatus db ?d StatusOffline)
             (h\<lparr>h_agents := AList.delete ?d (h_agents h)\<rparr>)) ?d StatusOffline
      else Ret h
    else if c_role ?cl = RoleController then Ret (h\<lparr>h_controllers := removeAll c (h_controllers h)\<rparr>) else Ret h"
  let ?p = "\<lambda>h'. orderly h h' \<and> (\<forall>d. (d, c) \<notin> set (h_agents h')) \<and> c \<notin> set (h_controllers h')"
  have entry: "d = ?d \<and> c_role ?cl = RoleAgent \<and> ?d \<noteq> '''' \<and> map_of (h_agents h) ?d = Some c"
    if "(d, c) \<in> set (h_agents h)" for d
    using ok that by (fastforce simp: reg_ok_def agent_entry_ok_def)
  have ctrl: "c_role ?cl = RoleController" if "c \<in> set (h_controllers h)"
    using ok that by (auto simp: reg_ok_def controller_ok_def)
  have "ends_in ?p ?m"
  proof (cases "c_role ?cl = RoleAgent \<and> ?d \<noteq> '''' \<and> map_of (h_agents h) ?d = Some c")
    case True
    let ?g = "h\<lparr>h_agents := AList.delete ?d (h_agents h)\<rparr>"
    have g: "reg_ok ?g" by (rule reg_ok_drop(1) [OF ok])
    have gone: "(d, c) \<notin> set (h_agents ?g)" "c \<notin> set (h_controllers ?g)" for d
      using entry ctrl True by (auto simp: AList.delete_eq)
    have "ends_in ?p (broadcastDeviceStatusLocked e (upd_store (\<lambda>db. UpdateDeviceStatus db ?d StatusOffline) ?g) ?d StatusOffline)"
    proof (rule ends_in_mono [OF calm_status_change [OF reg_ok_open [OF g]]])
      fix h'
      assume q: "quiet ?g h'"
      have "store_evolves (h_store ?g) (h_store h')" using q by (simp only: quiet_def)
      then show "?p h'"
        using reg_ok_quiet [OF q g] gone quiet_registries [OF q] by (simp add: orderly_def)
    qed
    then show ?thesis using True by simp
  next
    case False
    then have none: "(d, c) \<notin> set (h_agents h)" for d using entry by blast
    have "reg_ok (h\<lparr>h_controllers := removeAll c (h_controllers h)\<rparr>)" by (rule reg_ok_drop(2) [OF ok])
    then show ?thesis
      using False none ctrl ok by (auto simp: orderly_def)
  qed
  then show ?thesis
    unfolding unregister_def Let_def
  proof (rule ends_in_andThen)
    fix h'
    assume "?p h'"
    then have "reg_ok (upd_client c (\<lambda>cl. cl\<lparr>c_closed := True, c_connClosed := True\<rparr>) h')"
      by (intro reg_ok_close) (auto simp: orderly_def)
    then show "ends_in (orderly h) (Ret (upd_client c (\<lambda>cl. cl\<lparr>c_closed := True, c_connClosed := True\<rparr>) h'))"
      using \<open>?p h'\<close> by (simp add: orderly_def upd_client_def)
  qed
qed

section \<open>Events\<close>

text \<open>
  What can happen to the hub, in any order: a connection is accepted, a client's message is read,
  its read loop ends, its write loop takes an envelope, the liveness loop ticks, the web server
  enqueues a command, the hub closes its connections, or Go's maps change their iteration order.
\<close>

datatype hub_event =
    Connect
  | Message cid "json option"
  | Disconnect cid
  | WriteOut cid
  | LivenessTick
  | Direct CommandPayload
  | CloseAll
  | Reorder "(string \<times> cid) list" "cid list"

definition hub_handle :: "Env \<Rightarrow> Hub \<Rightarrow> hub_event \<Rightarrow> Hub outcome" where
  "hub_handle e h ev =
     (case ev of
        Connect \<Rightarrow> Ret (HandleWS e h)
      | Message c raw \<Rightarrow> readMessage e h c raw
      | Disconnect c \<Rightarrow> unregister e h c
      | WriteOut c \<Rightarrow> Ret (case writeNext h c of None \<Rightarrow> h | Some (env, h) \<Rightarrow> h)
      | LivenessTick \<Rightarrow> livenessTick e h
      | Direct cmd \<Rightarrow> andThen (EnqueueDirect e h cmd) (\<lambda>(err, h). Ret h)
      | CloseAll \<Rightarrow> Ret (Close h)
      | Reorder al cs \<Rightarrow> Ret (h\<lparr>h_agents := al, h_controllers := cs\<rparr>))"

definition polite_message :: "Client \<Rightarrow> Envelope \<Rightarrow> bool" where
  "polite_message cl env \<longleftrightarrow>
     (env_Type env = TypeAuth \<longrightarrow>
        (let (err, p) = DecodePayload unmarshal_AuthPayload env zero_AuthPayload in err \<or> polite_auth cl p))
     \<and> (env_Type env = TypeEnqueueCmd \<longrightarrow>
        id_fine (cp_CommandID (snd (DecodePayload unmarshal_CommandPayload env zero_CommandPayload))))"

definition polite :: "Env \<Rightarrow> Hub \<Rightarrow> hub_event \<Rightarrow> bool" where
  "polite e h ev \<longleftrightarrow> uuids_fine e \<and>
     (case ev of
        Message c raw \<Rightarrow> c < h_next h \<and> \<not> c_closed (h_clients h c)
          \<and> (case raw of None \<Rightarrow> True
             | Some j \<Rightarrow> (let (err, env) = unmarshal_Envelope j zero_Envelope in err \<or> polite_message (h_clients h c) env))
      | Disconnect c \<Rightarrow> c < h_next h \<and> \<not> c_closed (h_clients h c)
      | Direct cmd \<Rightarrow> id_fine (cp_CommandID cmd)
      | Reorder al cs \<Rightarrow> mset al = mset (h_agents h) \<and> mset cs = mset (h_controllers h)
      | _ \<Rightarrow> True)"

definition hub_init :: "Hub \<Rightarrow> bool" where
  "hub_init h \<longleftrightarrow> (\<exists>st cfg. h = NewHub st cfg \<and> db_ok st \<and> ids_ok st)"

inductive hub_step :: "Hub \<Rightarrow> Hub \<Rightarrow> bool" where
  step: "polite e h ev \<Longrightarrow> hub_handle e h ev = Ret h' \<Longrightarrow> hub_step h h'"

inductive_cases hub_stepE: "hub_step h h'"

lemma handleMessage_orderly:
  assumes ok: "reg_ok h" and "c < h_next h" and closed: "\<not> c_closed (h_clients h c)" and "uuids_fine e"
    and "polite_message (h_clients h c) env"
  shows "ends_in (orderly h) (handleMessage e h c env)"
proof -
  note op = reg_ok_open [OF ok]
  have auth: "ends_in (orderly h) (handleAuth e h c env)" if "env_Type env = TypeAuth"
    using assms that by (intro handleAuth_orderly) (auto simp: polite_message_def)
  have enq: "ends_in (orderly h) (handleEnqueueCmd e h c env)" if "env_Type env = TypeEnqueueCmd"
    using assms that by (intro orderly_calm [OF ok calm_handleEnqueueCmd [OF op closed]]) (auto simp: polite_message_def)
  note rest = calm_handleHeartbeat [OF op closed] calm_handleCmdResult [OF op closed]
    calm_handleSyncReq [OF op closed] calm_handleGetDevices [OF closed] calm_handleGetAuditLogs [OF closed]
    calm_routeToAgent [OF op closed] calm_routeToControllers [OF op]
  have "orderly h h" using ok by (simp add: orderly_def)
  then show ?thesis
    unfolding handleMessage_def using auth enq rest [THEN orderly_calm [OF ok]] by simp
qed

lemma HandleWS_orderly: "reg_ok h \<Longrightarrow> orderly h (HandleWS e h)"
proof -
  assume ok: "reg_ok h"
  let ?h = "HandleWS e h"
  have other: "h_clients ?h a = h_clients h a" if "a < h_next h" for a
    using that by (simp add: HandleWS_def newUUID_def Let_def)
  have "agent_entry_ok ?h d a" if "agent_entry_ok h d a" for d a
    using that other [of a] by (auto simp: agent_entry_ok_def) (auto simp: HandleWS_def newUUID_def Let_def)
  moreover have "controller_ok ?h a" if "controller_ok h a" for a
    using that other [of a] by (auto simp: controller_ok_def) (auto simp: HandleWS_def newUUID_def Let_def)
  ultimately have "(\<forall>(d, a) \<in> set (h_agents h). agent_entry_ok ?h d a) \<and> (\<forall>a \<in> set (h_controllers h). controller_ok ?h a)"
    using ok by (auto simp: reg_ok_def)
  then show ?thesis
    using ok by (simp add: orderly_def reg_ok_def HandleWS_def newUUID_def Let_def newClient_def)
qed

lemma writeNext_quiet: "writeNext h c = Some (env, h') \<Longrightarrow> quiet h h'"
proof -
  assume "writeNext h c = Some (env, h')"
  then obtain rest where rest: "c_send (h_clients h c) = env # rest" "h' = upd_client c (\<lambda>cl. cl\<lparr>c_send := rest\<rparr>) h"
    by (auto simp: writeNext_def split: list.splits)
  have "\<exists>q. h_clients h' a = (h_clients h a)\<lparr>c_send := q\<rparr> \<and> length q \<le> max send_capacity (length (c_send (h_clients h a)))"
    for a
  proof (cases "a = c")
    case True
    then show ?thesis using rest by (intro exI [of _ rest]) (simp add: upd_client_def)
  qed (simp add: rest upd_client_def same_buffer)
  then show "quiet h h'" by (simp add: quiet_def rest(2) upd_client_def)
qed

lemma Close_same: "same_reg h (Close h)"
proof -
  have "same_reg h (fold (\<lambda>c. upd_client c (\<lambda>cl. cl\<lparr>c_connClosed := True\<rparr>)) cs h)" for cs
    by (induction cs arbitrary: h) (auto intro: same_reg_trans [OF same_reg_simps(2)])
  then show ?thesis unfolding Close_def .
qed

lemma orderly_quiet: "quiet h h' \<Longrightarrow> reg_ok h \<Longrightarrow> orderly h h'"
  using reg_ok_quiet by (simp add: orderly_def quiet_def)

lemma reg_ok_reorder:
  assumes "reg_ok h" and "mset al = mset (h_agents h)" and "mset cs = mset (h_controllers h)"
  shows "reg_ok (h\<lparr>h_agents := al, h_controllers := cs\<rparr>)"
proof -
  have "set al = set (h_agents h)" "set cs = set (h_controllers h)"
    using assms(2,3) by (metis set_mset_mset)+
  moreover have "distinct (map fst al) = distinct (map fst (h_agents h))" "distinct cs = distinct (h_controllers h)"
    using assms(2,3) by (metis mset_eq_imp_distinct_iff mset_map)+
  ultimately show ?thesis
    using assms(1) by (simp add: reg_ok_def agent_entry_ok_def controller_ok_def)
qed

lemma hub_handle_orderly:
  assumes ok: "reg_ok h" and pol: "polite e h ev"
  shows "ends_in (orderly h) (hub_handle e h ev)"
proof (cases ev)
  case (Message c raw)
  then show ?thesis
    using ok pol handleMessage_orderly [OF ok, of c e]
    by (auto simp: hub_handle_def readMessage_def polite_def orderly_def split: option.splits prod.splits)
next
  case (WriteOut c)
  then show ?thesis
    using ok writeNext_quiet [of h c] reg_ok_quiet
    by (auto simp: hub_handle_def orderly_def quiet_def split: option.split)
next
  case (Direct cmd)
  have "ends_in (\<lambda>r. quiet h (snd r)) (EnqueueDirect e h cmd)"
    using pol Direct by (intro EnqueueDirect_total [OF reg_ok_open [OF ok]]) (auto simp: polite_def)
  then show ?thesis
    unfolding hub_handle_def Direct hub_event.case
    by (rule ends_in_andThen) (auto intro: orderly_quiet [OF _ ok])
next
  case CloseAll
  then show ?thesis
    using ok Close_same [of h] reg_ok_same by (auto simp: hub_handle_def orderly_def same_reg_def)
next
  case (Reorder al cs)
  then show ?thesis
    using reg_ok_reorder [OF ok] pol by (simp add: hub_handle_def orderly_def polite_def)
qed (use ok in \<open>auto simp: hub_handle_def HandleWS_orderly unregister_orderly orderly_calm calm_livenessTick reg_ok_open\<close>)

lemma hub_init_ok: "hub_init h \<Longrightarrow> reg_ok h \<and> db_ok (h_store h)"
  by (auto simp: hub_init_def reg_ok_def NewHub_def newClient_def)

interpretation hub_system: invariant_system hub_init hub_step "\<lambda>h. reg_ok h \<and> db_ok (h_store h)"
proof (unfold_locales, erule hub_init_ok)
  fix h h'
  assume inv: "reg_ok h \<and> db_ok (h_store h)" and "hub_step h h'"
  then obtain e ev where "polite e h ev" "hub_handle e h ev = Ret h'" by (auto elim: hub_stepE)
  then have "orderly h h'" using hub_handle_orderly [of h e ev] inv by simp
  then show "reg_ok h' \<and> db_ok (h_store h')"
    using inv store_steps_db_ok by (auto simp: orderly_def store_evolves_def)
qed

text \<open>
  C1. As long as the clients are polite and the events are handled one after the other, the relay does not
  panic, whatever happens to it in whatever order: connections, messages of every type with any payload, disconnections, liveness ticks,
  commands of the web server. Every event is handled to its end, and afterwards the
  registries are in order: every registered agent and controller has an open channel of at most
  64 envelopes and is registered under its own role and device.
\<close>

theorem hub_never_panics:
  assumes "reach hub_init hub_step h" and "polite e h ev"
  shows "\<exists>h'. hub_handle e h ev = Ret h' \<and> reg_ok h'"
  using hub_handle_orderly [of h e ev] hub_system.reach_inv [OF assms(1)] assms(2)
  by (auto simp: ends_in_def orderly_def)

definition sample_env :: Env where
  "sample_env = \<lparr>e_nowNs = 1000 * second_ns, e_uuid = (\<lambda>n. ''uuid-'' @ replicate (Suc (Suc (Suc n))) CHR ''0''),
     e_jsonErr = (\<lambda>_. ''bad json''), e_sqlErr = (\<lambda>_. ''constraint failed''), e_format = (\<lambda>_ _. ''12:00:00''),
     e_goos = ''linux'', e_hasPwsh = False,
     e_exec = (\<lambda>_ _. \<lparr>run_stdout = ''ok'', run_stderr = '''', run_err = RunOk, run_deadline = False, run_ms = 4\<rparr>)\<rparr>"

definition sample_cfg :: Config where
  "sample_cfg = \<lparr>cfg_Port = 8080, cfg_DBPath = ''relay.db'', cfg_AuthToken = ''secret'', cfg_SupabaseURL = '''',
     cfg_SupabaseKey = '''', cfg_HeartbeatInterval = seconds 30, cfg_HeartbeatDegraded = seconds 60,
     cfg_HeartbeatTimeout = seconds 90\<rparr>"

definition auth_message :: "string \<Rightarrow> string \<Rightarrow> json option" where
  "auth_message role dev = Some (marshal_Envelope (NewEnvelope ''m1'' 1000 TypeAuth dev
     (Some (marshal_AuthPayload (zero_AuthPayload\<lparr>ap_Role := role, ap_DeviceID := dev, ap_Token := ''secret''\<rparr>)))))"

lemma sample_env_fine: "uuids_fine sample_env"
  by (simp add: uuids_fine_def sample_env_def)

lemma sample_hub_init: "hub_init (NewHub empty_db sample_cfg)"
  using db_ok_empty by (auto simp: hub_init_def ids_ok_def empty_db_def)

lemma sample_connected: "reach hub_init hub_step (HandleWS sample_env (NewHub empty_db sample_cfg))"
proof (rule reach_step [OF reach_init [of hub_init, OF sample_hub_init]])
  show "hub_step (NewHub empty_db sample_cfg) (HandleWS sample_env (NewHub empty_db sample_cfg))"
    by (rule hub_step.step [where e = sample_env and ev = Connect]) (simp_all add: polite_def sample_env_fine hub_handle_def)
qed

lemma sample_auth_polite:
  "polite sample_env (HandleWS sample_env (NewHub empty_db sample_cfg)) (Message 0 (auth_message RoleAgent ''pc1''))"
proof -
  let ?p = "zero_AuthPayload\<lparr>ap_Role := RoleAgent, ap_DeviceID := ''pc1'', ap_Token := ''secret''\<rparr>"
  let ?env = "NewEnvelope ''m1'' 1000 TypeAuth ''pc1'' (Some (marshal_AuthPayload ?p))"
  have "valid_Envelope ?env" "valid_AuthPayload ?p"
    by (simp_all add: valid_Envelope_def NewEnvelope_def valid_AuthPayload_def in_int64_def)
  then have "unmarshal_Envelope (marshal_Envelope ?env) zero_Envelope = (False, ?env)"
    "DecodePayload unmarshal_AuthPayload ?env zero_AuthPayload = (False, ?p)"
    by (simp_all add: Envelope_codec.dec_enc auth.DecodePayload_NewEnvelope)
  then show ?thesis
    by (simp add: polite_def sample_env_fine auth_message_def polite_message_def polite_auth_def HandleWS_def
        newUUID_def NewHub_def newClient_def Let_def) (simp add: NewEnvelope_def)
qed

theorem hub_never_panics_witness:
  "\<exists>h'. hub_handle sample_env (HandleWS sample_env (NewHub empty_db sample_cfg))
     (Message 0 (auth_message RoleAgent ''pc1'')) = Ret h' \<and> reg_ok h'"
  using hub_never_panics [OF sample_connected sample_auth_polite] .

text \<open>
  What the relay has stored stays: from any reachable state on, no command disappears or
  changes what it asks for, its status only moves forward, the audit log only grows, and the database
  keeps its integrity, whatever the clients send.
\<close>

theorem relay_durability:
  assumes "reach hub_init hub_step h" and "rtranclp hub_step h h'"
  shows "advances (h_store h) (h_store h') \<and> (\<exists>new. AuditLogs (h_store h') = AuditLogs (h_store h) @ new)
    \<and> db_ok (h_store h')"
proof -
  have "reach hub_init hub_step h' \<and> rtranclp store_step (h_store h) (h_store h')"
    using assms(2)
  proof (induction rule: rtranclp_induct)
    case (step a b)
    from step(2) obtain e ev where "polite e a ev" "hub_handle e a ev = Ret b" by (auto elim: hub_stepE)
    then have "store_evolves (h_store a) (h_store b)"
      using hub_handle_orderly [of a e ev] hub_system.reach_inv [of a] step(3) by (auto simp: orderly_def)
    then show ?case
      using step(2,3) by (auto simp: store_evolves_def intro: reach_step)
  qed (use assms(1) in simp)
  then show ?thesis
    using store_steps_advance store_steps_audit hub_system.reach_inv by blast
qed

theorem relay_durability_witness:
  "advances empty_db (h_store (HandleWS sample_env (HandleWS sample_env (NewHub empty_db sample_cfg))))"
proof -
  let ?h = "HandleWS sample_env (NewHub empty_db sample_cfg)"
  have "hub_step ?h (HandleWS sample_env ?h)"
    by (rule hub_step.step [where e = sample_env and ev = Connect]) (simp_all add: polite_def sample_env_fine hub_handle_def)
  then have "rtranclp hub_step ?h (HandleWS sample_env ?h)" by (rule r_into_rtranclp)
  from relay_durability [OF sample_connected this] show ?thesis
    by (simp add: HandleWS_def newUUID_def NewHub_def Let_def)
qed

end
