(* ===== verification/HubProps.thy ===== *)
theory HubProps
  imports HubSafety
begin

text \<open>
  What the hub's handlers do: the crash an impolite client causes, authentication and ownership,
  the dispatch of pending commands, synchronisation, heartbeats and liveness, and what is answered in
  the cloud while a device is offline.
\<close>

section \<open>Impolite clients\<close>

fun hub_run :: "Env \<Rightarrow> Hub \<Rightarrow> hub_event list \<Rightarrow> Hub outcome" where
  "hub_run e h [] = Ret h"
| "hub_run e h (ev # evs) = andThen (hub_handle e h ev) (\<lambda>h. hub_run e h evs)"

primrec panic_of :: "'a outcome \<Rightarrow> go_panic option" where
  "panic_of (Panic p) = Some p"
| "panic_of (Ret x) = None"


section \<open>Dispatching pending commands\<close>

definition carries :: "string \<Rightarrow> Envelope \<Rightarrow> CommandPayload \<Rightarrow> bool" where
  "carries d env cmd \<longleftrightarrow> env_Type env = TypeDispatchCmd \<and> env_DeviceID env = d
     \<and> DecodePayload unmarshal_CommandPayload env zero_CommandPayload = (False, cmd)"

lemma mark_all_dispatched_queue:
  "CloudCommandQueue (mark_all_dispatched now db cmds) =
     update_rows (\<lambda>r. cr_CommandID r \<in> cp_CommandID ` set cmds \<and> cr_Status r = StatusPending)
       (\<lambda>r. r\<lparr>cr_Status := StatusDispatched, cr_DispatchedAt := now\<rparr>) (CloudCommandQueue db)"
proof (induction cmds arbitrary: db)
  case (Cons cmd cmds)
  have "mark_all_dispatched now db (cmd # cmds) =
      mark_all_dispatched now (fst (MarkCommandDispatched now db (cp_CommandID cmd))) cmds"
    by (simp add: mark_all_dispatched_def)
  then show ?case
    by (simp add: Cons.IH) (auto simp: MarkCommandDispatched_def update_rows_def)
qed (simp add: mark_all_dispatched_def update_rows_def)

lemma mark_all_dispatched_pending:
  "GetPendingCommands (mark_all_dispatched now db (GetPendingCommands db d)) d = []"
proof -
  have "pending_rows (mark_all_dispatched now db (GetPendingCommands db d)) d = []"
    by (auto simp: pending_rows_def mark_all_dispatched_queue filter_empty_conv set_update_rows
        set_GetPendingCommands command_of_record_def image_image)
  then show ?thesis by (simp add: GetPendingCommands_empty_iff)
qed

lemma take_Suc_diff: "length xs < n \<Longrightarrow> take (n - length xs) (y # ys) = y # take (n - length (xs @ [z])) ys"
proof -
  assume "length xs < n"
  then have "n - length xs = Suc (n - length (xs @ [z]))" by simp
  then show ?thesis by simp
qed

lemma dispatch_all_effect:
  assumes "\<not> c_closed (h_clients h a)" and "\<forall>cmd \<in> set cmds. valid_CommandPayload cmd"
  shows "\<exists>h' envs. dispatch_all e h a cmds = Ret h'
    \<and> h_store h' = mark_all_dispatched (unix_now e) (h_store h) cmds
    \<and> h_clients h' = (h_clients h)(a := (h_clients h a)\<lparr>c_send := c_send (h_clients h a) @ envs\<rparr>)
    \<and> list_all2 (carries (c_deviceID (h_clients h a))) envs
        (take (send_capacity - length (c_send (h_clients h a))) cmds)"
  using assms
proof (induction cmds arbitrary: h)
  case Nil
  then show ?case by (intro exI [of _ h] exI [of _ "[]"]) (simp add: mark_all_dispatched_def)
next
  case (Cons cmd cmds)
  let ?d = "c_deviceID (h_clients h a)"
  let ?env = "NewEnvelope (e_uuid e (h_uuids h)) (unix_now e) TypeDispatchCmd ?d (Some (marshal_CommandPayload cmd))"
  let ?u = "h\<lparr>h_uuids := Suc (h_uuids h)\<rparr>"
  let ?room = "length (c_send (h_clients h a)) < send_capacity"
  let ?s = "if ?room then upd_client a (\<lambda>cl. cl\<lparr>c_send := c_send cl @ [?env]\<rparr>) ?u else ?u"
  define h1 where "h1 = upd_store (\<lambda>db. MarkCommandDispatched (unix_now e) db (cp_CommandID cmd)) ?s"
  have open1: "\<not> c_closed (h_clients h1 a)" using Cons.prems(1) by (simp add: h1_def upd_store_def upd_client_def)
  have valid: "\<forall>c \<in> set cmds. valid_CommandPayload c" using Cons.prems(2) by simp
  obtain h' envs where h': "dispatch_all e h1 a cmds = Ret h'"
      "h_store h' = mark_all_dispatched (unix_now e) (h_store h1) cmds"
      "h_clients h' = (h_clients h1)(a := (h_clients h1 a)\<lparr>c_send := c_send (h_clients h1 a) @ envs\<rparr>)"
      "list_all2 (carries (c_deviceID (h_clients h1 a))) envs
        (take (send_capacity - length (c_send (h_clients h1 a))) cmds)"
    using Cons.IH [OF open1 valid] by blast
  have env: "carries ?d ?env cmd"
    using Cons.prems(2) dispatch.DecodePayload_NewEnvelope [of cmd] by (simp add: carries_def) (simp add: NewEnvelope_def)
  have run: "dispatch_all e h a (cmd # cmds) = Ret h'"
    using h'(1) Cons.prems(1) by (auto simp: h1_def newEnvelope_def Send_def Let_def split: if_splits)
  have store: "h_store h' = mark_all_dispatched (unix_now e) (h_store h) (cmd # cmds)"
    using h'(2) by (simp add: h1_def mark_all_dispatched_def upd_store_def upd_client_def)
  show ?case
  proof (cases ?room)
    case True
    then show ?thesis
      using h'(3,4) env run store
      by (intro exI [of _ h'] exI [of _ "?env # envs"])
         (simp add: h1_def upd_store_def upd_client_def take_Suc_diff [of _ _ _ _ ?env])
  next
    case False
    then show ?thesis
      using h'(3,4) run store
      by (intro exI [of _ h'] exI [of _ envs]) (simp add: h1_def upd_store_def upd_client_def)
  qed
qed

text \<open>
  C17. When an agent comes online, its pending commands are put into its buffer in FIFO order, each as one
  DISPATCH_CMD envelope that decodes to the stored command, until the buffer holds 64 envelopes. All of
  them are marked DISPATCHED, also those that did not fit and were dropped; no command of the
  device stays PENDING, and no other client receives anything.
\<close>

theorem flush_pending:
  assumes "getAgentClient h d = Some a" and "\<not> c_closed (h_clients h a)"
    and "\<forall>cmd \<in> set (GetPendingCommands (h_store h) d). valid_CommandPayload cmd"
  shows "\<exists>h' envs. flushPendingCommands e h d = Ret h'
    \<and> h_clients h' = (h_clients h)(a := (h_clients h a)\<lparr>c_send := c_send (h_clients h a) @ envs\<rparr>)
    \<and> list_all2 (carries (c_deviceID (h_clients h a))) envs
        (take (64 - length (c_send (h_clients h a))) (GetPendingCommands (h_store h) d))
    \<and> GetPendingCommands (h_store h') d = []
    \<and> (\<forall>i r. GetCommand (h_store h) i = Some r \<and> cr_DeviceID r = d \<and> cr_Status r = StatusPending \<longrightarrow>
         (\<exists>r'. GetCommand (h_store h') i = Some r' \<and> cr_Status r' = StatusDispatched))"
proof (cases "GetPendingCommands (h_store h) d = []")
  case True
  then have "pending_rows (h_store h) d = []" by (simp add: GetPendingCommands_empty_iff)
  then have "\<not> (GetCommand (h_store h) i = Some r \<and> cr_DeviceID r = d \<and> cr_Status r = StatusPending)" for i r
    by (auto simp: pending_rows_def filter_empty_conv GetCommand_def dest: select_pk_SomeD)
  then show ?thesis
    using True by (intro exI [of _ h] exI [of _ "[]"]) (simp add: flushPendingCommands_def)
next
  case False
  obtain h' envs where h': "dispatch_all e h a (GetPendingCommands (h_store h) d) = Ret h'"
      "h_store h' = mark_all_dispatched (unix_now e) (h_store h) (GetPendingCommands (h_store h) d)"
      "h_clients h' = (h_clients h)(a := (h_clients h a)\<lparr>c_send := c_send (h_clients h a) @ envs\<rparr>)"
      "list_all2 (carries (c_deviceID (h_clients h a))) envs
        (take (send_capacity - length (c_send (h_clients h a))) (GetPendingCommands (h_store h) d))"
    using dispatch_all_effect [OF assms(2,3), of e] by blast
  have "flushPendingCommands e h d = Ret h'"
    using False assms(1) h'(1) by (simp add: flushPendingCommands_def)
  moreover have "\<exists>r'. GetCommand (h_store h') i = Some r' \<and> cr_Status r' = StatusDispatched"
    if "GetCommand (h_store h) i = Some r" "cr_DeviceID r = d" "cr_Status r = StatusPending" for i r
    using that by (auto simp: GetCommand_def h'(2) mark_all_dispatched_queue select_pk_update_rows set_GetPendingCommands
        pending_rows_def command_of_record_def image_image dest: select_pk_SomeD intro!: rev_image_eqI)
  ultimately show ?thesis
    using h' by (auto simp: mark_all_dispatched_pending send_capacity_def)
qed

definition sample_online :: "nat \<Rightarrow> Hub" where
  \<comment> \<open>an agent with \<open>n\<close> envelopes in its buffer and two pending commands\<close>
  "sample_online n = (NewHub sample_db sample_cfg)\<lparr>h_agents := [(''d'', 0)], h_next := 1,
     h_clients := (\<lambda>_. (newClient ''s'')\<lparr>c_role := RoleAgent, c_deviceID := ''d'', c_authed := True,
       c_send := replicate n zero_Envelope\<rparr>)\<rparr>"

lemma sample_pending: "GetPendingCommands sample_db ''d'' = [sample_cmd ''a'' ''d'' ''pwd'' 4, sample_cmd ''b'' ''d'' ''ls'' 7]"
  by code_simp

theorem flush_pending_witness:
  "\<exists>h' envs. flushPendingCommands sample_env (sample_online 63) ''d'' = Ret h'
    \<and> c_send (h_clients h' 0) = replicate 63 zero_Envelope @ envs
    \<and> list_all2 (carries ''d'') envs [sample_cmd ''a'' ''d'' ''pwd'' 4]
    \<and> GetPendingCommands (h_store h') ''d'' = []"
proof -
  have "getAgentClient (sample_online 63) ''d'' = Some 0"
    by (simp add: getAgentClient_def sample_online_def)
  moreover have "\<not> c_closed (h_clients (sample_online 63) 0)"
    by (simp add: sample_online_def newClient_def)
  moreover have "\<forall>cmd \<in> set (GetPendingCommands (h_store (sample_online 63)) ''d''). valid_CommandPayload cmd"
    by (simp add: sample_online_def NewHub_def sample_pending sample_cmd_def valid_CommandPayload_def in_int64_def)
  ultimately show ?thesis
    using flush_pending [of "sample_online 63" "''d''" 0 sample_env]
    by (auto simp: sample_online_def NewHub_def sample_pending)
qed

section \<open>Synchronisation\<close>

definition save_all :: "int \<Rightarrow> DB \<Rightarrow> ResultPayload list \<Rightarrow> DB" where
  "save_all now db rs = fold (\<lambda>res db. fst (SaveResult now db res)) rs db"

lemma sendAll_other:
  assumes "\<forall>x \<in> set cs. \<not> c_closed (h_clients h x)" and "c \<notin> set cs"
  shows "ends_in (\<lambda>h'. h_clients h' c = h_clients h c \<and> h_store h' = h_store h) (sendAll h cs env)"
  using assms
proof (induction cs arbitrary: h)
  case (Cons x cs)
  let ?h1 = "if length (c_send (h_clients h x)) < send_capacity
    then upd_client x (\<lambda>cl. cl\<lparr>c_send := c_send cl @ [env]\<rparr>) h else h"
  have "Send h x env = Ret ?h1" using Cons.prems by (simp add: Send_def)
  moreover have "h_clients ?h1 c = h_clients h c" "h_store ?h1 = h_store h"
    using Cons.prems(2) by (auto simp: upd_client_def)
  moreover have "\<forall>y \<in> set cs. \<not> c_closed (h_clients ?h1 y)"
    using Cons.prems(1) by (auto simp: upd_client_def)
  ultimately show ?case
    using Cons.IH [of ?h1] Cons.prems(2) by (simp add: ends_in_def)
qed simp

lemma sync_results_effect:
  assumes "open_hub h" and "c \<notin> set (h_controllers h)"
  shows "ends_in (\<lambda>(acked, h'). acked = map rp_CommandID rs \<and> h_store h' = save_all (unix_now e) (h_store h) rs
      \<and> h_clients h' c = h_clients h c \<and> quiet h h') (sync_results e h d rs)"
  using assms
proof (induction rs arbitrary: h)
  case Nil
  then show ?case by (simp add: save_all_def)
next
  case (Cons res rs)
  let ?db = "fst (SaveResult (unix_now e) (h_store h) res)"
  define h2 where "h2 = h\<lparr>h_store := ?db, h_uuids := Suc (h_uuids h)\<rparr>"
  have q2: "quiet h h2"
    unfolding h2_def using quiet_trans [OF quiet_store [OF evolves_results(1)] quiet_ghost(1)] by simp
  note op2 = open_hub_quiet [OF q2 Cons.prems(1)]
  let ?env = "NewEnvelope (e_uuid e (h_uuids h)) (unix_now e) TypeCmdResult d (Some (marshal_ResultPayload res))"
  have "ends_in (\<lambda>h3. quiet h2 h3 \<and> h_clients h3 c = h_clients h2 c \<and> h_store h3 = h_store h2) (broadcastToControllers h2 ?env)"
  proof -
    have "\<forall>x \<in> set (h_controllers h2). \<not> c_closed (h_clients h2 x)" "c \<notin> set (h_controllers h2)"
      using op2 Cons.prems(2) by (auto simp: open_hub_def h2_def)
    from calm_broadcasts(2) [OF op2, of ?env] sendAll_other [OF this, of ?env] show ?thesis
      by (auto simp: broadcastToControllers_def ends_in_def)
  qed
  then obtain h3 where h3: "broadcastToControllers h2 ?env = Ret h3" "quiet h2 h3" "h_clients h3 c = h_clients h c" "h_store h3 = ?db"
    by (auto simp: ends_in_def h2_def)
  have q3: "quiet h h3" by (rule quiet_trans [OF q2 h3(2)])
  have "open_hub h3" "c \<notin> set (h_controllers h3)"
    using open_hub_quiet [OF q3 Cons.prems(1)] quiet_registries(2) [OF q3] Cons.prems(2) by simp_all
  from Cons.IH [OF this] obtain h4 where h4: "sync_results e h3 d rs = Ret (map rp_CommandID rs, h4)"
      "h_store h4 = save_all (unix_now e) ?db rs" "h_clients h4 c = h_clients h c" "quiet h3 h4"
    by (auto simp: ends_in_def h3)
  have "sync_results e h d (res # rs) = Ret (map rp_CommandID (res # rs), h4)"
    using h3(1) h4(1) by (simp add: h2_def newEnvelope_def SaveResult_def Let_def)
  then show ?case
    using h4 quiet_trans [OF q3 h4(4)] by (simp add: save_all_def)
qed

lemma handleSyncReq_effect:
  fixes e :: Env
  assumes "open_hub h" and "c \<notin> set (h_controllers h)" and "\<not> c_closed (h_clients h c)"
    and "DecodePayload unmarshal_SyncReqPayload env zero_SyncReqPayload = (False, req)"
  defines "db1 \<equiv> save_all (unix_now e) (h_store h) (sq_UnsyncedResults req)"
  defines "pending \<equiv> GetPendingCommands db1 (sq_DeviceID req)"
  shows "\<exists>h' uuid. handleSyncReq e h c env = Ret h' \<and> h_store h' = mark_all_dispatched (unix_now e) db1 pending
    \<and> c_send (h_clients h' c) = (if length (c_send (h_clients h c)) < send_capacity
        then c_send (h_clients h c) @ [NewEnvelope uuid (unix_now e) TypeSyncResp (sq_DeviceID req)
          (Some (marshal_SyncRespPayload \<lparr>sr_DeviceID = sq_DeviceID req,
             sr_AckedResults = map rp_CommandID (sq_UnsyncedResults req), sr_PendingCommands = pending\<rparr>))]
        else c_send (h_clients h c))"
proof -
  obtain h1 where h1: "sync_results e h (sq_DeviceID req) (sq_UnsyncedResults req) = Ret (map rp_CommandID (sq_UnsyncedResults req), h1)"
      "h_store h1 = db1" "h_clients h1 c = h_clients h c"
    using sync_results_effect [OF assms(1,2), of "sq_UnsyncedResults req" e "sq_DeviceID req"]
    by (auto simp: ends_in_def db1_def)
  show ?thesis
    using h1 assms(3) unfolding handleSyncReq_def assms(4)
    by (auto simp: newEnvelope_def Send_def Let_def upd_client_def pending_def)
qed

section \<open>Who receives what\<close>

definition push :: "Envelope \<Rightarrow> Client \<Rightarrow> Client" where
  "push env cl = (if length (c_send cl) < send_capacity then cl\<lparr>c_send := c_send cl @ [env]\<rparr> else cl)"

lemma push_fields [simp]:
  "c_closed (push env cl) = c_closed cl" "c_userID (push env cl) = c_userID cl" "c_role (push env cl) = c_role cl"
  "c_deviceID (push env cl) = c_deviceID cl"
  by (simp_all add: push_def)

lemma Send_push: "\<not> c_closed (h_clients h c) \<Longrightarrow> Send h c env = Ret (upd_client c (push env) h)"
  by (simp add: Send_def upd_client_def push_def)

lemma sendAll_push:
  assumes "\<forall>x \<in> set cs. \<not> c_closed (h_clients h x)" and "distinct cs"
  shows "sendAll h cs env = Ret (h\<lparr>h_clients := \<lambda>x. if x \<in> set cs then push env (h_clients h x) else h_clients h x\<rparr>)"
  using assms
proof (induction cs arbitrary: h)
  case (Cons c cs)
  have "sendAll (upd_client c (push env) h) cs env = Ret ((upd_client c (push env) h)\<lparr>h_clients :=
      \<lambda>x. if x \<in> set cs then push env (h_clients (upd_client c (push env) h) x) else h_clients (upd_client c (push env) h) x\<rparr>)"
    using Cons.prems by (intro Cons.IH) (auto simp: upd_client_def)
  moreover have "(\<lambda>x. if x \<in> set cs then push env (h_clients (upd_client c (push env) h) x)
        else h_clients (upd_client c (push env) h) x)
      = (\<lambda>x. if x \<in> set (c # cs) then push env (h_clients h x) else h_clients h x)"
    using Cons.prems(2) by (auto simp: upd_client_def)
  ultimately show ?case
    using Cons.prems(1) by (simp add: Send_push upd_client_def)
qed simp

lemma refusal_effect:
  assumes "\<not> c_closed (h_clients h c)"
  shows "\<exists>h' uuid. sendError e h c code msg = Ret h' \<and> h_store h' = h_store h \<and> h_agents h' = h_agents h
    \<and> h_controllers h' = h_controllers h \<and> h_wol h' = h_wol h
    \<and> h_clients h' = (h_clients h)(c := push (NewEnvelope uuid (unix_now e) TypeError (c_deviceID (h_clients h c))
         (Some (marshal_ErrorPayload \<lparr>ep_Code = code, ep_Message = msg\<rparr>))) (h_clients h c))"
  using assms by (auto simp: sendError_def newEnvelope_def Send_push upd_client_def)

section \<open>Ownership\<close>


definition ann_device :: DB where
  "ann_device = fst (UpsertDevice empty_db ((sample_device ''pc1'')\<lparr>di_UserID := ''ann''\<rparr>))"

definition shared_hub :: Hub where
  \<comment> \<open>Ann's computer is connection 0, Bob's phone is connection 1\<close>
  "shared_hub = (NewHub ann_device sample_cfg)\<lparr>h_agents := [(''pc1'', 0)], h_controllers := [1], h_next := 3,
     h_clients := (\<lambda>c. if c = 0 then (newClient ''s0'')\<lparr>c_role := RoleAgent, c_deviceID := ''pc1'', c_userID := ''ann''\<rparr>
       else if c = 1 then (newClient ''s1'')\<lparr>c_role := RoleController, c_userID := ''bob''\<rparr>
       else newClient ''s2'')\<rparr>"

definition file_request :: "string \<Rightarrow> Envelope" where
  "file_request dev = NewEnvelope ''m7'' 1000 TypeFileReadReq dev
     (Some (marshal_FileReadReqPayload \<lparr>frq_DeviceID = dev, frq_Path = ''secret.txt''\<rparr>))"

lemma shared_hub_owner: "owner_of (h_store shared_hub) ''pc1'' = ''ann''"
  by code_simp


text \<open>
  The guard compares the device identifier exactly while the lookup of the agent ignores case: the
  request that is refused under the identifier \<open>pc1\<close> is delivered to the same agent, which belongs
  to another user, when the identifier is written \<open>PC1\<close>.
\<close>

theorem ownership_case_bypass:
  "(case handleMessage sample_env shared_hub 1 (file_request ''pc1'') of
      Ret h' \<Rightarrow> c_send (h_clients h' 0) = [] \<and> map env_Type (c_send (h_clients h' 1)) = [TypeError] | _ \<Rightarrow> False)
   \<and> (case handleMessage sample_env shared_hub 1 (file_request ''PC1'') of
      Ret h' \<Rightarrow> c_send (h_clients h' 0) = [file_request ''PC1''] | _ \<Rightarrow> False)"
  by code_simp

section \<open>Enqueueing\<close>

lemma complete_command_hub: "\<exists>n. snd (complete_command e h p) = h\<lparr>h_uuids := n\<rparr>"
  by (cases h) (auto simp: complete_command_def newUUID_def Let_def)

lemma complete_command_device [simp]: "cp_DeviceID (fst (complete_command e h p)) = cp_DeviceID p"
  by (simp add: complete_command_def newUUID_def Let_def)

lemma EnqueueCommand_new:
  assumes "GetCommand db (cp_CommandID p) = None"
  shows "EnqueueCommand now db p = (fst (EnqueueCommand now db p), None)"
    and "CloudCommandQueue (fst (EnqueueCommand now db p)) = CloudCommandQueue db @ [command_entry now p]"
    and "GetCommand (fst (EnqueueCommand now db p)) (cp_CommandID p) = Some (command_entry now p)"
    and "CloudResultQueue (fst (EnqueueCommand now db p)) = CloudResultQueue db"
  using assms by (simp_all add: EnqueueCommand_def GetCommand_def Let_def command_entry_def select_pk_append)

lemma getAgentClient_cong: "h_agents h' = h_agents h \<Longrightarrow> getAgentClient h' d = getAgentClient h d"
  by (simp only: getAgentClient_def)

text \<open>The store and the clients after the broadcast that ends \<open>handleEnqueueCmd\<close>.\<close>

lemma broadcastDeviceResult_effect:
  assumes "reg_ok h"
  shows "broadcastDeviceResult h d env = Ret (h\<lparr>h_clients := \<lambda>x.
    if x \<in> set (filter (sees h (owner_of (h_store h) d)) (h_controllers h)) then push env (h_clients h x) else h_clients h x\<rparr>)"
  unfolding broadcastDeviceResult_def
  using assms by (intro sendAll_push) (auto simp: reg_ok_def controller_ok_def)

lemma agent_not_controller:
  assumes "reg_ok h" and "getAgentClient h d = Some a"
  shows "a \<notin> set (h_controllers h)" and "\<not> c_closed (h_clients h a)"
  using assms getAgentClient_registered [OF assms(2)]
  by (auto simp: reg_ok_def agent_entry_ok_def controller_ok_def)

lemma enqueue_online_run:
  assumes "reg_ok h" and "env_Type env = TypeEnqueueCmd"
    and "DecodePayload unmarshal_CommandPayload env zero_CommandPayload = (False, p)"
    and "\<not> not_owner h c (cp_DeviceID p)"
    and "p' = fst (complete_command e h p)"
    and "GetCommand (h_store h) (cp_CommandID p') = None" and "getAgentClient h (cp_DeviceID p) = Some a"
  obtains h' u where "handleMessage e h c env = Ret h'"
    and "h_store h' = fst (MarkCommandDispatched (unix_now e) (fst (EnqueueCommand (unix_now e) (h_store h) p')) (cp_CommandID p'))"
    and "h_clients h' a = push (NewEnvelope u (unix_now e) TypeDispatchCmd (c_deviceID (h_clients h a))
        (Some (marshal_CommandPayload p'))) (h_clients h a)"
    and "h_controllers h' = h_controllers h" and "\<And>x. c_closed (h_clients h' x) = c_closed (h_clients h x)"
proof -
  obtain n where n: "complete_command e h p = (p', h\<lparr>h_uuids := n\<rparr>)"
    using complete_command_hub [of e h p] assms(5) by (metis prod.collapse)
  define db where "db = fst (EnqueueCommand (unix_now e) (h_store h) p')"
  let ?h2 = "h\<lparr>h_uuids := n, h_store := db\<rparr>"
  let ?env = "NewEnvelope (e_uuid e n) (unix_now e) TypeDispatchCmd (c_deviceID (h_clients h a)) (Some (marshal_CommandPayload p'))"
  note enq = EnqueueCommand_new [OF assms(6), of "unix_now e", folded db_def]
  have dev: "cp_DeviceID p' = cp_DeviceID p" using assms(5) by simp
  note ag = agent_not_controller [OF assms(1,7)]
  define h3 where "h3 = upd_store (\<lambda>db. MarkCommandDispatched (unix_now e) db (cp_CommandID p'))
    (upd_client a (push ?env) (?h2\<lparr>h_uuids := Suc n\<rparr>))"
  have ctrl: "\<forall>x \<in> set (filter q (h_controllers h3)). \<not> c_closed (h_clients h3 x)" "distinct (filter q (h_controllers h3))" for q
    using assms(1) by (auto simp: h3_def reg_ok_def controller_ok_def upd_store_def upd_client_def)
  have "handleMessage e h c env = broadcastDeviceResult h3 (cp_DeviceID p') env"
    using assms(2,3,4,7) enq(1) ag(2)
    by (simp add: handleMessage_def handleEnqueueCmd_def n dev getAgentClient_cong [of ?h2 h]
        newEnvelope_def Send_push h3_def Let_def)
  also have "\<dots> = Ret (h3\<lparr>h_clients := \<lambda>x. if x \<in> set (filter (sees h3 (owner_of (h_store h3) (cp_DeviceID p'))) (h_controllers h3))
      then push env (h_clients h3 x) else h_clients h3 x\<rparr>)" (is "_ = Ret ?h4")
    unfolding broadcastDeviceResult_def by (rule sendAll_push [OF ctrl])
  finally have run: "handleMessage e h c env = Ret ?h4" .
  show thesis
    by (rule that [OF run, of "e_uuid e n"]) (use ag(1) in \<open>simp_all add: h3_def upd_store_def upd_client_def push_def db_def\<close>)
qed


definition enqueue_message :: "CommandPayload \<Rightarrow> Envelope" where
  "enqueue_message p = NewEnvelope ''m9'' 1000 TypeEnqueueCmd (cp_DeviceID p) (Some (marshal_CommandPayload p))"

lemma shared_hub_ok: "reg_ok shared_hub"
  by (simp add: reg_ok_def shared_hub_def agent_entry_ok_def controller_ok_def newClient_def ids_ok_def
      ann_device_def UpsertDevice_def NewHub_def empty_db_def Let_def split: option.split)


end
