(* ===== verification/HubOffline.thy ===== *)
theory HubOffline
  imports HubProps
begin

text \<open>
  What the relay does for devices that are offline and about the state of devices: the cloud
  responder and the sandbox, authentication, heartbeats, results and the liveness tracker.
\<close>

section \<open>Commands for an offline device\<close>

lemma predefined_db:
  "predefined_stdout e db cmd = Ret (Some (text, db', wol)) \<Longrightarrow>
   db' = db \<or> db' = fst (CancelPendingCommands (unix_now e) db (cp_DeviceID cmd))"
  unfolding predefined_stdout_def Let_def
  by (auto split: if_splits simp: andThen_Ret_iff simp del: insert_iff)

text \<open>What a result looks like when it was inserted under the command's identifier.\<close>

lemma GetResult_after_upsert:
  assumes "GetResult db (rp_CommandID res) = None"
    and "select_pk rr_ResultId (rp_ResultID (stored_result now res)) (CloudResultQueue db) = None"
  shows "GetResult (upsert_result now db res) (rp_CommandID res) = Some (stored_result now res)"
  using assms
  by (simp add: upsert_result_def Let_def stored_result_def GetResult_def find_append_single result_of_row_def)

lemma RecordAuditLog_tables [simp]:
  "CloudCommandQueue (fst (RecordAuditLog now db l)) = CloudCommandQueue db"
  "CloudResultQueue (fst (RecordAuditLog now db l)) = CloudResultQueue db"
  by (simp_all add: RecordAuditLog_def Let_def split: option.split)

definition answered_store :: "int \<Rightarrow> DB \<Rightarrow> ResultPayload \<Rightarrow> AuditLogRecord \<Rightarrow> DB" where
  "answered_store now db res l = fst (RecordAuditLog now
     (fst (MarkCommandCompleted now (fst (SaveResult now db res)) (rp_CommandID res) StatusCompleted)) l)"

definition sandbox_store :: "int \<Rightarrow> DB \<Rightarrow> ResultPayload \<Rightarrow> AuditLogRecord \<Rightarrow> DB" where
  "sandbox_store now db res l = fst (RecordAuditLog now (fst (SaveSandboxResult now db res)) l)"

lemma answered_store_effect:
  assumes "GetResult db (rp_CommandID res) = None"
    and "select_pk rr_ResultId (rp_ResultID (stored_result now res)) (CloudResultQueue db) = None"
    and "GetCommand db (rp_CommandID res) = Some r"
  shows "GetResult (answered_store now db res l) (rp_CommandID res) = Some (stored_result now res)"
    and "map_option cr_Status (GetCommand (answered_store now db res l) (rp_CommandID res)) = Some StatusCompleted"
proof -
  have "CloudResultQueue (answered_store now db res l) = CloudResultQueue (upsert_result now db res)"
    by (simp add: answered_store_def SaveResult_alt MarkCommandCompleted_def command_statuses_def)
  then have "GetResult (answered_store now db res l) i = GetResult (upsert_result now db res) i" for i
    by (simp add: GetResult_def)
  then show "GetResult (answered_store now db res l) (rp_CommandID res) = Some (stored_result now res)"
    using GetResult_after_upsert [OF assms(1,2)] by simp
  show "map_option cr_Status (GetCommand (answered_store now db res l) (rp_CommandID res)) = Some StatusCompleted"
    using assms(3) select_pk_SomeD [of cr_CommandID "rp_CommandID res" "CloudCommandQueue db" r]
    by (simp add: answered_store_def GetCommand_def MarkCommandCompleted_def SaveResult_alt command_statuses_def
        select_pk_update_rows)
qed

lemma sandbox_store_effect:
  assumes "GetResult db (rp_CommandID res) = None"
    and "select_pk rr_ResultId (rp_ResultID (stored_result now res)) (CloudResultQueue db) = None"
  shows "GetResult (sandbox_store now db res l) (rp_CommandID res) = Some (stored_result now res)"
    and "CloudCommandQueue (sandbox_store now db res l) = CloudCommandQueue db"
  using GetResult_after_upsert [OF assms]
  by (simp_all add: sandbox_store_def SaveSandboxResult_def) (simp add: GetResult_def)

lemma run_offline_effect:
  assumes "predefined_stdout e db p = Ret r" and "h_store h = db"
  shows "\<exists>res h'. run_offline e h p = Ret (r \<noteq> None, res, h') \<and> h_agents h' = h_agents h \<and> h_controllers h' = h_controllers h
    \<and> h_clients h' = h_clients h \<and> h_next h' = h_next h
    \<and> (case r of
         None \<Rightarrow> res = executeCloudSandbox e p
           \<and> h_store h' = sandbox_store (unix_now e) db res (cloud_script_log p res)
       | Some (text, db', wol) \<Rightarrow> rp_Stdout res = text \<and> rp_Stderr res = '''' \<and> rp_ExitCode res = 0 \<and> rp_TimedOut res = False
           \<and> rp_CommandID res = cp_CommandID p \<and> rp_ResultID res = cp_CommandID p
           \<and> h_store h' = answered_store (unix_now e) db' res (cloud_exec_log p res))"
proof (cases r)
  case None
  then show ?thesis
    using assms by (simp add: run_offline_def tryExecutePredefinedOffline_def upd_store_def sandbox_store_def Let_def)
next
  case (Some x)
  obtain out db' wol where "x = (out, db', wol)" by (cases x)
  then show ?thesis
    using assms Some
    by (simp add: run_offline_def tryExecutePredefinedOffline_def upd_store_def answered_store_def Let_def)
qed

lemma executeCloudSandbox_ids [simp]:
  "rp_CommandID (executeCloudSandbox e p) = cp_CommandID p" "rp_ResultID (executeCloudSandbox e p) = cp_CommandID p"
  "rp_TimedOut (executeCloudSandbox e p) = False"
  by (simp_all add: executeCloudSandbox_def Let_def split: prod.split)

lemma stored_result_id: "rp_ResultID res = i \<Longrightarrow> rp_CommandID res = i \<Longrightarrow> rp_ResultID (stored_result now res) = i"
  by (auto simp: stored_result_def)

lemma enqueue_offline_run:
  assumes ok: "reg_ok h" and "env_Type env = TypeEnqueueCmd"
    and "DecodePayload unmarshal_CommandPayload env zero_CommandPayload = (False, p)"
    and "\<not> not_owner h c (cp_DeviceID p)" and "cp_CommandID p \<noteq> ''''" and "cp_CreatedAt p \<noteq> 0"
    and new: "GetCommand (h_store h) (cp_CommandID p) = None" and "getAgentClient h (cp_DeviceID p) = None"
    and db: "db = fst (EnqueueCommand (unix_now e) (h_store h) p)" and pre: "predefined_stdout e db p = Ret r"
  shows "\<exists>h' res. handleMessage e h c env = Ret h'
    \<and> (r = None \<longrightarrow> h_store h' = sandbox_store (unix_now e) db (executeCloudSandbox e p) (cloud_script_log p res))
    \<and> (\<forall>out db' wol. r = Some (out, db', wol) \<longrightarrow> rp_Stdout res = out \<and> rp_CommandID res = cp_CommandID p
      \<and> rp_ResultID res = cp_CommandID p \<and> h_store h' = answered_store (unix_now e) db' res (cloud_exec_log p res))"
proof -
  note enq = EnqueueCommand_new [OF new, of "unix_now e", folded db]
  let ?h2 = "h\<lparr>h_store := db\<rparr>"
  obtain res h3 where run: "run_offline e ?h2 p = Ret (r \<noteq> None, res, h3)"
    and h3: "h_controllers h3 = h_controllers h" "h_clients h3 = h_clients h"
    and eff: "case r of None \<Rightarrow> res = executeCloudSandbox e p
           \<and> h_store h3 = sandbox_store (unix_now e) db res (cloud_script_log p res)
       | Some (text, db', wol) \<Rightarrow> rp_Stdout res = text \<and> rp_Stderr res = '''' \<and> rp_ExitCode res = 0 \<and> rp_TimedOut res = False
           \<and> rp_CommandID res = cp_CommandID p \<and> rp_ResultID res = cp_CommandID p
           \<and> h_store h3 = answered_store (unix_now e) db' res (cloud_exec_log p res)"
    using run_offline_effect [OF pre, of ?h2] by auto
  define h4 where "h4 = h3\<lparr>h_uuids := Suc (h_uuids h3)\<rparr>"
  have "complete_command e h p = (p, h)" using assms(5,6) by (simp add: complete_command_def Let_def)
  then have "handleMessage e h c env = broadcastDeviceResult h4 (cp_DeviceID p)
      (NewEnvelope (e_uuid e (h_uuids h3)) (unix_now e) TypeCmdResult (cp_DeviceID p) (Some (marshal_ResultPayload res)))"
    using assms(2-4) enq(1) run assms(8)
    by (simp add: handleMessage_def handleEnqueueCmd_def getAgentClient_cong [of ?h2 h] newEnvelope_def h4_def Let_def)
  moreover have "\<forall>x \<in> set (filter q (h_controllers h4)). \<not> c_closed (h_clients h4 x)" "distinct (filter q (h_controllers h4))" for q
    using ok h3 by (auto simp: h4_def reg_ok_def controller_ok_def)
  ultimately obtain h' where "handleMessage e h c env = Ret h'" "h_store h' = h_store h3"
    unfolding broadcastDeviceResult_def by (auto simp: sendAll_push h4_def)
  then show ?thesis using eff by (intro exI [of _ h'] exI [of _ res]) auto
qed

text \<open>
  C24. A command enqueued for a device that is not connected is stored and answered at once. When it is one of
  the predefined commands, its answer is stored as its result with exit code 0 and the command is
  COMPLETED, so the machine never runs it. Otherwise it runs in the cloud sandbox, the sandbox's result is
  stored, and the command stays PENDING for the machine.
\<close>

theorem enqueue_offline:
  assumes ok: "reg_ok h" and "env_Type env = TypeEnqueueCmd"
    and "DecodePayload unmarshal_CommandPayload env zero_CommandPayload = (False, p)"
    and "\<not> not_owner h c (cp_DeviceID p)" and "cp_CommandID p \<noteq> ''''" and "cp_CreatedAt p \<noteq> 0"
    and new: "GetCommand (h_store h) (cp_CommandID p) = None" "GetResult (h_store h) (cp_CommandID p) = None"
      "select_pk rr_ResultId (cp_CommandID p) (CloudResultQueue (h_store h)) = None"
    and "getAgentClient h (cp_DeviceID p) = None"
    and pre: "predefined_stdout e (fst (EnqueueCommand (unix_now e) (h_store h) p)) p = Ret r"
  shows "\<exists>h'. handleMessage e h c env = Ret h' \<and>
    (case r of
       Some (text, db', wol) \<Rightarrow>
         map_option rp_Stdout (GetResult (h_store h') (cp_CommandID p)) = Some text
         \<and> map_option cr_Status (GetCommand (h_store h') (cp_CommandID p)) = Some StatusCompleted
     | None \<Rightarrow>
         GetResult (h_store h') (cp_CommandID p) = Some (stored_result (unix_now e) (executeCloudSandbox e p))
         \<and> p \<in> set (GetPendingCommands (h_store h') (cp_DeviceID p)))"
proof -
  define db where "db = fst (EnqueueCommand (unix_now e) (h_store h) p)"
  note enq = EnqueueCommand_new [OF new(1), of "unix_now e", folded db_def]
  have res0: "GetResult db (cp_CommandID p) = None" "select_pk rr_ResultId (cp_CommandID p) (CloudResultQueue db) = None"
    using new(2,3) enq(4) by (simp_all add: GetResult_def)
  obtain h' res where h': "handleMessage e h c env = Ret h'"
    and sandbox: "r = None \<Longrightarrow> h_store h' = sandbox_store (unix_now e) db (executeCloudSandbox e p) (cloud_script_log p res)"
    and answer: "\<And>out db' wol. r = Some (out, db', wol) \<Longrightarrow> rp_Stdout res = out \<and> rp_CommandID res = cp_CommandID p
      \<and> rp_ResultID res = cp_CommandID p \<and> h_store h' = answered_store (unix_now e) db' res (cloud_exec_log p res)"
    using enqueue_offline_run [OF assms(1-6) new(1) assms(10) db_def pre [folded db_def]] by auto
  show ?thesis
  proof (cases r)
    case None
    note st = sandbox [OF None]
    have "p \<in> set (GetPendingCommands (h_store h') (cp_DeviceID p))"
      using enq(2) assms(6) sandbox_store_effect(2) [of db "executeCloudSandbox e p" "unix_now e"] res0
      by (simp add: st set_GetPendingCommands pending_rows_def stored_result_id)
         (simp add: command_entry_def command_of_record_def)
    then show ?thesis
      using None h' sandbox_store_effect(1) [of db "executeCloudSandbox e p" "unix_now e"] res0
      by (simp add: st stored_result_id)
  next
    case (Some x)
    obtain out db' wol where x: "x = (out, db', wol)" by (cases x)
    have "db' = db \<or> db' = fst (CancelPendingCommands (unix_now e) db (cp_DeviceID p))"
      using predefined_db [of e db p out db' wol] pre Some x by (simp add: db_def)
    then have db': "CloudResultQueue db' = CloudResultQueue db" "\<exists>q. GetCommand db' (cp_CommandID p) = Some q"
      using enq(3) by (auto simp: CancelPendingCommands_def GetCommand_def select_pk_update_rows)
    have res: "rp_Stdout res = out" "rp_CommandID res = cp_CommandID p" "rp_ResultID res = cp_CommandID p"
        "h_store h' = answered_store (unix_now e) db' res (cloud_exec_log p res)"
      using answer Some x by auto
    have "GetResult db' (rp_CommandID res) = None"
      "select_pk rr_ResultId (rp_ResultID (stored_result (unix_now e) res)) (CloudResultQueue db') = None"
      using res0 db'(1) res(2,3) by (simp_all add: stored_result_id GetResult_def)
    note fin = answered_store_effect [OF this, of _ "cloud_exec_log p res"]
    obtain q where "GetCommand db' (rp_CommandID res) = Some q" using db'(2) res(2) by auto
    then show ?thesis
      using Some x h' fin [of q] res(1,2,4) by (simp add: stored_result_def)
  qed
qed

definition quiet_hub :: Hub where
  \<comment> \<open>a hub without agents and one connection\<close>
  "quiet_hub = (NewHub ann_device sample_cfg)\<lparr>h_next := 1\<rparr>"

lemma quiet_hub_ok: "reg_ok quiet_hub"
  by (simp add: reg_ok_def quiet_hub_def newClient_def ids_ok_def
      ann_device_def UpsertDevice_def NewHub_def empty_db_def Let_def split: option.split)

lemma decode_enqueue_message:
  "valid_CommandPayload p \<Longrightarrow>
   DecodePayload unmarshal_CommandPayload (enqueue_message p) zero_CommandPayload = (False, p)"
  by (simp add: enqueue_message_def DecodePayload_def NewEnvelope_def CommandPayload_codec.dec_enc)

theorem enqueue_offline_witness:
  "\<exists>h'. handleMessage sample_env quiet_hub 0 (enqueue_message (sample_cmd ''command-1'' ''pc1'' '' CLEAR '' 5)) = Ret h'
     \<and> map_option rp_Stdout (GetResult (h_store h') ''command-1'') = Some ''[Console Cleared]''
     \<and> map_option cr_Status (GetCommand (h_store h') ''command-1'') = Some StatusCompleted"
proof -
  let ?p = "sample_cmd ''command-1'' ''pc1'' '' CLEAR '' 5"
  let ?db = "fst (EnqueueCommand (unix_now sample_env) (h_store quiet_hub) ?p)"
  have fields: "cp_CommandID ?p = ''command-1''" "cp_DeviceID ?p = ''pc1''" "cp_CreatedAt ?p \<noteq> 0" by (simp_all add: sample_cmd_def)
  have "valid_CommandPayload ?p" by (simp add: sample_cmd_def valid_CommandPayload_def in_int64_def)
  note d = decode_enqueue_message [OF this]
  have t: "env_Type (enqueue_message ?p) = TypeEnqueueCmd" by (simp add: enqueue_message_def NewEnvelope_def)
  have own: "\<not> not_owner quiet_hub 0 (cp_DeviceID ?p)"
    by (simp add: not_owner_def quiet_hub_def NewHub_def newClient_def)
  have new: "GetCommand (h_store quiet_hub) (cp_CommandID ?p) = None" "GetResult (h_store quiet_hub) (cp_CommandID ?p) = None"
    "select_pk rr_ResultId (cp_CommandID ?p) (CloudResultQueue (h_store quiet_hub)) = None"
    by code_simp+
  have ag: "getAgentClient quiet_hub (cp_DeviceID ?p) = None"
    by (simp add: getAgentClient_def quiet_hub_def NewHub_def)
  have pre: "predefined_stdout sample_env ?db ?p = Ret (Some (''[Console Cleared]'', ?db, None))"
    by code_simp
  show ?thesis
    using enqueue_offline [OF quiet_hub_ok t d own _ fields(3) new ag pre] fields by simp
qed

section \<open>Authentication\<close>

text \<open>
  An authentication the relay refuses (a wrong token that is no user's token) has no effect
  but the negative acknowledgement: the client keeps its record, stays unregistered, and the
  database stays as it is.
\<close>

theorem auth_refusal:
  assumes "\<not> c_closed (h_clients h c)" and "env_Type env = TypeAuth"
    and "DecodePayload unmarshal_AuthPayload env zero_AuthPayload = (False, p)" and "auth_refused h p"
    and "in_int64 (unix_now e)"
  shows "\<exists>h' ack. handleMessage e h c env = Ret h' \<and> h_store h' = h_store h \<and> h_agents h' = h_agents h
    \<and> h_controllers h' = h_controllers h \<and> h_clients h' = (h_clients h)(c := push ack (h_clients h c))
    \<and> env_Type ack = TypeAuthAck
    \<and> (\<exists>a. DecodePayload unmarshal_AuthAckPayload ack zero_AuthAckPayload = (False, a) \<and> \<not> aa_Success a)"
proof -
  let ?a = "\<lparr>aa_Success = False, aa_DeviceID = '''', aa_SessionID = '''',
    aa_Error = ''unauthorized: invalid token'', aa_ServerTime = unix_now e\<rparr>"
  let ?ack = "NewEnvelope (e_uuid e (h_uuids h)) (unix_now e) TypeAuthAck (ap_DeviceID p) (Some (marshal_AuthAckPayload ?a))"
  have "handleMessage e h c env = Ret (upd_client c (push ?ack) (h\<lparr>h_uuids := Suc (h_uuids h)\<rparr>))"
    using assms by (simp add: handleMessage_def handleAuth_def newEnvelope_def Send_push)
  moreover have "DecodePayload unmarshal_AuthAckPayload ?ack zero_AuthAckPayload = (False, ?a)"
    using assms(5) AuthAckPayload_codec.dec_enc [of ?a] by (simp add: DecodePayload_def NewEnvelope_def valid_AuthAckPayload_def)
  ultimately show ?thesis
    by (intro exI [of _ "upd_client c (push ?ack) (h\<lparr>h_uuids := Suc (h_uuids h)\<rparr>)"] exI [of _ ?ack])
       (simp add: upd_client_def NewEnvelope_def)
qed

definition auth_envelope :: "AuthPayload \<Rightarrow> Envelope" where
  "auth_envelope p = NewEnvelope ''m1'' 1000 TypeAuth (ap_DeviceID p) (Some (marshal_AuthPayload p))"

lemma decode_auth_envelope:
  "DecodePayload unmarshal_AuthPayload (auth_envelope p) zero_AuthPayload = (False, p)" "env_Type (auth_envelope p) = TypeAuth"
  using AuthPayload_codec.dec_enc [of p]
  by (simp_all add: auth_envelope_def DecodePayload_def NewEnvelope_def valid_AuthPayload_def)

theorem auth_refusal_witness:
  "\<exists>h'. handleMessage sample_env quiet_hub 0 (auth_envelope (zero_AuthPayload\<lparr>ap_Role := RoleAgent, ap_Token := ''guess''\<rparr>))
      = Ret h' \<and> h_agents h' = h_agents quiet_hub"
proof -
  let ?p = "zero_AuthPayload\<lparr>ap_Role := RoleAgent, ap_Token := ''guess''\<rparr>"
  have "\<not> c_closed (h_clients quiet_hub 0)" by (simp add: quiet_hub_def NewHub_def newClient_def)
  moreover have "auth_refused quiet_hub ?p" by code_simp
  moreover have "in_int64 (unix_now sample_env)" by code_simp
  ultimately show ?thesis
    using auth_refusal [of quiet_hub 0 "auth_envelope ?p" ?p sample_env] decode_auth_envelope [of ?p] by auto
qed

lemma dispatch_all_devices:
  "dispatch_all e h a cmds = Ret h' \<Longrightarrow> Devices (h_store h') = Devices (h_store h) \<and> h_agents h' = h_agents h"
proof (induction cmds arbitrary: h)
  case (Cons cmd cmds)
  from Cons.prems obtain s where s: "Send (h\<lparr>h_uuids := Suc (h_uuids h)\<rparr>) a
        (NewEnvelope (e_uuid e (h_uuids h)) (unix_now e) TypeDispatchCmd (c_deviceID (h_clients h a)) (Some (marshal_CommandPayload cmd))) = Ret s"
      "dispatch_all e (upd_store (\<lambda>db. MarkCommandDispatched (unix_now e) db (cp_CommandID cmd)) s) a cmds = Ret h'"
    by (auto simp: newEnvelope_def andThen_Ret_iff)
  have "h_store s = h_store h" "h_agents s = h_agents h"
    using s(1) by (auto simp: Send_def upd_client_def split: if_splits)
  then show ?case
    using Cons.IH [OF s(2)] by (simp add: upd_store_def MarkCommandDispatched_def)
qed simp

lemma flush_devices:
  "flushPendingCommands e h d = Ret h' \<Longrightarrow> Devices (h_store h') = Devices (h_store h) \<and> h_agents h' = h_agents h"
  by (auto simp: flushPendingCommands_def Let_def dest: dispatch_all_devices split: if_splits option.splits)

lemma Send_Ret: "Send h c env = Ret h' \<Longrightarrow> h_store h' = h_store h \<and> h_agents h' = h_agents h"
  by (auto simp: Send_def upd_client_def split: if_splits)

lemma sendAll_Ret: "sendAll h cs env = Ret h' \<Longrightarrow> h_store h' = h_store h \<and> h_agents h' = h_agents h"
  by (induction cs arbitrary: h) (auto simp: andThen_Ret_iff dest: Send_Ret)

lemma GetDevice_cong: "Devices db' = Devices db \<Longrightarrow> GetDevice db' d = GetDevice db d"
  by (simp add: GetDevice_def)

text \<open>The device row an accepted agent leaves behind.\<close>

lemma register_agent_Ret:
  assumes "register_agent e h c p user = Ret h'"
  shows "h_agents h' = AList.update (ap_DeviceID p) c (h_agents h)
    \<and> (\<exists>dev. GetDevice (h_store h') (ap_DeviceID p) = Inr (Some dev) \<and> di_Status dev = StatusOnline
         \<and> di_LastHeartbeat dev = unix_now e \<and> (\<forall>u. user = Some u \<longrightarrow> di_UserID dev = ua_UserID u))"
proof -
  let ?info = "\<lambda>uid. \<lparr>di_DeviceID = ap_DeviceID p, di_UserID = uid, di_Hostname = ap_Hostname p,
            di_OS = ap_OS p, di_Status = StatusOnline, di_LastHeartbeat = unix_now e,
            di_ConnectedAt = unix_now e, di_MACAddress = ap_MACAddress p,
            di_Metrics = zero_HealthMetrics\<lparr>hm_MACAddress := ap_MACAddress p\<rparr>\<rparr>"
  have agents: "h_agents (case map_of (h_agents h) (ap_DeviceID p) of
      Some old \<Rightarrow> if old \<noteq> c then upd_client old (\<lambda>cl. cl\<lparr>c_connClosed := True\<rparr>) h else h
    | None \<Rightarrow> h) = h_agents h" "h_store (case map_of (h_agents h) (ap_DeviceID p) of
      Some old \<Rightarrow> if old \<noteq> c then upd_client old (\<lambda>cl. cl\<lparr>c_connClosed := True\<rparr>) h else h
    | None \<Rightarrow> h) = h_store h"
    by (simp_all add: upd_client_def split: option.split)
  have valid: "valid_HealthMetrics (di_Metrics (?info uid))" for uid
    by (simp add: valid_HealthMetrics_def zero_HealthMetrics_def in_int64_def in_uint64_def)
  obtain db uid where h': "h_agents h' = AList.update (ap_DeviceID p) c (h_agents h)"
      "h_store h' = fst (UpsertDevice db (?info uid))"
      "user = Some u \<Longrightarrow> uid = ua_UserID u \<and> db = fst (BindDeviceToUser (h_store h) (ap_DeviceID p) uid)" for u
    using assms unfolding register_agent_def broadcastDeviceStatusLocked_def newEnvelope_def Let_def agents
    by (cases user) (auto simp: upd_store_def upd_client_def agents dest!: sendAll_Ret split: if_splits)
  have dev: "GetDevice (h_store h') (ap_DeviceID p) = Inr (Some (stored_device db (?info uid)))"
    using UpsertDevice_GetDevice [OF valid, of db uid] h'(2) by simp
  have "di_UserID (stored_device db (?info uid)) = ua_UserID u" if "user = Some u" for u
    using h'(3) [OF that]
    by (auto simp: stored_device_def BindDeviceToUser_def select_pk_update_rows dest: select_pk_SomeD split: option.split)
  then show ?thesis
    using h'(1) dev by (auto simp: stored_device_def)
qed

text \<open>
  C29. An accepted agent is registered under its device, replacing the connection registered there before, and
  the device is stored as ONLINE with the current time. When the token is a user's token, the
  device then belongs to that user, whoever it belonged to before.
\<close>

theorem agent_registered:
  assumes "reg_ok h" and "c < h_next h" and "\<not> c_closed (h_clients h c)" and "uuids_fine e" and "env_Type env = TypeAuth"
    and "DecodePayload unmarshal_AuthPayload env zero_AuthPayload = (False, p)"
    and "polite_auth (h_clients h c) p" and "ap_Role p = RoleAgent" and "\<not> auth_refused h p"
  shows "\<exists>h'. handleMessage e h c env = Ret h' \<and> map_of (h_agents h') (ap_DeviceID p) = Some c
    \<and> (\<exists>dev. GetDevice (h_store h') (ap_DeviceID p) = Inr (Some dev) \<and> di_Status dev = StatusOnline
         \<and> di_LastHeartbeat dev = unix_now e
         \<and> (\<forall>u. GetUserByToken (h_store h) (ap_Token p) = Some u \<longrightarrow> di_UserID dev = ua_UserID u))"
proof -
  have "polite_message (h_clients h c) env"
    using assms(5-7) by (simp add: polite_message_def)
  from handleMessage_orderly [OF assms(1-4) this] obtain h' where h': "handleMessage e h c env = Ret h'"
    by (auto simp: ends_in_def)
  let ?user = "GetUserByToken (h_store h) (ap_Token p)"
  let ?f = "\<lambda>cl. cl\<lparr>c_role := ap_Role p, c_deviceID := ap_DeviceID p, c_authed := True,
      c_userID := (case ?user of Some u \<Rightarrow> ua_UserID u | None \<Rightarrow> c_userID cl)\<rparr>"
  from h' obtain h1 h2 ack where reg: "register_agent e (upd_client c ?f h) c p ?user = Ret h1"
    and send: "Send (h1\<lparr>h_uuids := Suc (h_uuids h1)\<rparr>) c ack = Ret h2" and flush: "flushPendingCommands e h2 (ap_DeviceID p) = Ret h'"
    using assms(5,6,8,9) by (auto simp: handleMessage_def handleAuth_def newEnvelope_def andThen_Ret_iff Let_def)
  have "h_agents h' = h_agents h1" "Devices (h_store h') = Devices (h_store h1)"
    using Send_Ret [OF send] flush_devices [OF flush] by auto
  then show ?thesis
    using h' register_agent_Ret [OF reg] GetDevice_cong [of "h_store h'" "h_store h1"] by (simp add: update_conv)
qed

definition pc1_auth :: AuthPayload where
  "pc1_auth = zero_AuthPayload\<lparr>ap_Role := RoleAgent, ap_DeviceID := ''pc1'', ap_Token := ''secret''\<rparr>"

theorem agent_registered_witness:
  "\<exists>h' dev. handleMessage sample_env quiet_hub 0 (auth_envelope pc1_auth) = Ret h'
     \<and> map_of (h_agents h') ''pc1'' = Some 0
     \<and> GetDevice (h_store h') ''pc1'' = Inr (Some dev) \<and> di_Status dev = StatusOnline"
proof -
  have cl: "0 < h_next quiet_hub" "\<not> c_closed (h_clients quiet_hub 0)" "polite_auth (h_clients quiet_hub 0) pc1_auth"
    by (simp_all add: quiet_hub_def NewHub_def newClient_def polite_auth_def pc1_auth_def zero_AuthPayload_def)
  have p: "ap_Role pc1_auth = RoleAgent" "ap_DeviceID pc1_auth = ''pc1''" by (simp_all add: pc1_auth_def)
  have "\<not> auth_refused quiet_hub pc1_auth" by code_simp
  from agent_registered [OF quiet_hub_ok cl(1,2) sample_env_fine decode_auth_envelope(2,1) cl(3) p(1) this] p(2)
  show ?thesis by auto
qed

section \<open>Heartbeats and results\<close>

lemma controllers_open:
  assumes "reg_ok h"
  shows "\<forall>x \<in> set (filter q (h_controllers h)). \<not> c_closed (h_clients h x)" "distinct (filter q (h_controllers h))"
  using assms by (auto simp: reg_ok_def controller_ok_def)

text \<open>
  C31. A heartbeat stores the device as ONLINE with the current time and appends one telemetry point, unless a byte
  count has its high bit set, which the SQL driver refuses. It is
  acknowledged to the sender, and the controllers that receive it are exactly those that may see
  the device: no other client receives anything.
\<close>

theorem heartbeat_effect:
  assumes ok: "reg_ok h" and closed: "\<not> c_closed (h_clients h c)" and "env_Type env = TypeHeartbeat"
    and "DecodePayload unmarshal_HeartbeatPayload env zero_HeartbeatPayload = (False, p)"
  shows "\<exists>h' ack hb devUser. handleMessage e h c env = Ret h'
    \<and> devUser = (if c_userID (h_clients h c) = '''' then owner_of (h_store h') (hb_DeviceID p) else c_userID (h_clients h c))
    \<and> h_clients h' = (\<lambda>x. (if x \<in> set (h_controllers h) \<and> sees h devUser x then push hb else id)
         ((if x = c then push ack else id) (h_clients h x)))
    \<and> env_Type ack = TypeHeartbeatAck \<and> env_Type hb = TypeHeartbeat \<and> env_DeviceID hb = hb_DeviceID p
    \<and> TelemetryHistory (h_store h') = TelemetryHistory (h_store h)
         @ (if sql_uint64s (telemetry_of (unix_now e) p) then [telemetry_of (unix_now e) p\<lparr>tp_Timestamp := unix_now e\<rparr>] else [])
    \<and> (\<forall>r. select_pk dr_DeviceId (hb_DeviceID p) (Devices (h_store h)) = Some r \<longrightarrow>
         select_pk dr_DeviceId (hb_DeviceID p) (Devices (h_store h')) = Some (r\<lparr>dr_LastHeartbeat := unix_now e,
           dr_HealthJSON := Some (marshal_HealthMetrics (hb_Metrics p)), dr_Status := StatusOnline\<rparr>))"
proof -
  let ?d = "hb_DeviceID p"
  define db where "db = fst (RecordTelemetry (unix_now e)
    (fst (UpdateDeviceHeartbeat (unix_now e) (h_store h) ?d (hb_Metrics p) StatusOnline)) (telemetry_of (unix_now e) p))"
  define ack where "ack = NewEnvelope (e_uuid e (h_uuids h)) (unix_now e) TypeHeartbeatAck ?d
    (Some (marshal_HeartbeatAckPayload \<lparr>ha_DeviceID = ?d, ha_ServerTime = unix_now e\<rparr>))"
  define hb where "hb = NewEnvelope (e_uuid e (Suc (h_uuids h))) (unix_now e) TypeHeartbeat ?d (Some (marshal_HeartbeatPayload p))"
  define u where "u = (if c_userID (h_clients h c) = '''' then owner_of db ?d else c_userID (h_clients h c))"
  define h1 where "h1 = (upd_client c (push ack) (h\<lparr>h_store := db, h_uuids := Suc (h_uuids h)\<rparr>))\<lparr>h_uuids := Suc (Suc (h_uuids h))\<rparr>"
  have "\<forall>x \<in> set (filter q (h_controllers h1)). \<not> c_closed (h_clients h1 x)" "distinct (filter q (h_controllers h1))" for q
    using controllers_open [OF ok, of q] by (auto simp: h1_def upd_client_def)
  note all = sendAll_push [OF this, of "sees h1 u" hb]
  have run: "handleMessage e h c env = sendAll h1 (filter (sees h1 u) (h_controllers h1)) hb"
    using closed assms(3,4)
    by (simp add: handleMessage_def handleHeartbeat_def newEnvelope_def upd_store_def Send_push upd_client_def
        u_def h1_def hb_def ack_def db_def Let_def)
  have sees: "sees h1 u x = sees h u x" for x
    by (auto simp: sees_def h1_def upd_client_def)
  let ?h' = "h1\<lparr>h_clients := \<lambda>x. if x \<in> set (filter (sees h1 u) (h_controllers h1)) then push hb (h_clients h1 x) else h_clients h1 x\<rparr>"
  have "h_clients ?h' = (\<lambda>x. (if x \<in> set (h_controllers h) \<and> sees h u x then push hb else id)
         ((if x = c then push ack else id) (h_clients h x)))"
  proof -
    have "h_controllers h1 = h_controllers h" "h_clients h1 = (h_clients h)(c := push ack (h_clients h c))"
      by (simp_all add: h1_def upd_client_def)
    then show ?thesis by (auto simp: sees)
  qed
  moreover have "h_store ?h' = db" by (simp add: h1_def upd_client_def)
  moreover have "TelemetryHistory db = TelemetryHistory (h_store h)
      @ (if sql_uint64s (telemetry_of (unix_now e) p) then [telemetry_of (unix_now e) p\<lparr>tp_Timestamp := unix_now e\<rparr>] else [])"
    by (simp add: db_def RecordTelemetry_def UpdateDeviceHeartbeat_def telemetry_of_def sql_uint64s_def Let_def)
  moreover have "select_pk dr_DeviceId ?d (Devices db) = Some (r\<lparr>dr_LastHeartbeat := unix_now e,
           dr_HealthJSON := Some (marshal_HealthMetrics (hb_Metrics p)), dr_Status := StatusOnline\<rparr>)"
    if "select_pk dr_DeviceId ?d (Devices (h_store h)) = Some r" for r
    using that select_pk_SomeD [OF that]
    by (simp add: db_def RecordTelemetry_def UpdateDeviceHeartbeat_def select_pk_update_rows Let_def)
  ultimately show ?thesis
    using run all by (intro exI [of _ ?h'] exI [of _ ack] exI [of _ hb] exI [of _ u])
      (auto simp: u_def ack_def hb_def NewEnvelope_def)
qed

definition pc1_heartbeat :: Envelope where
  "pc1_heartbeat = NewEnvelope ''m2'' 1000 TypeHeartbeat ''pc1''
     (Some (marshal_HeartbeatPayload \<lparr>hb_DeviceID = ''pc1'', hb_Metrics = zero_HealthMetrics\<rparr>))"

lemma shared_hub_clients:
  "\<not> c_closed (h_clients shared_hub c)" "c_userID (h_clients shared_hub 0) = ''ann''"
  "c_userID (h_clients shared_hub (Suc 0)) = ''bob''" "h_controllers shared_hub = [1]"
  by (simp_all add: shared_hub_def newClient_def)

theorem heartbeat_effect_witness:
  "\<exists>h'. handleMessage sample_env shared_hub 0 pc1_heartbeat = Ret h' \<and> h_clients h' 1 = h_clients shared_hub 1
     \<and> length (TelemetryHistory (h_store h')) = Suc (length (TelemetryHistory (h_store shared_hub)))"
proof -
  let ?p = "\<lparr>hb_DeviceID = ''pc1'', hb_Metrics = zero_HealthMetrics\<rparr>"
  have "valid_HeartbeatPayload ?p"
    by (simp add: valid_HeartbeatPayload_def valid_HealthMetrics_def zero_HealthMetrics_def in_int64_def in_uint64_def)
  from heartbeat.DecodePayload_NewEnvelope [OF this]
  have d: "DecodePayload unmarshal_HeartbeatPayload pc1_heartbeat zero_HeartbeatPayload = (False, ?p)"
    by (simp add: pc1_heartbeat_def)
  have t: "env_Type pc1_heartbeat = TypeHeartbeat" by (simp add: pc1_heartbeat_def NewEnvelope_def)
  have "sql_uint64s (telemetry_of (unix_now sample_env) ?p)"
    by (simp add: sql_uint64s_def telemetry_of_def zero_HealthMetrics_def Let_def)
  with heartbeat_effect [OF shared_hub_ok shared_hub_clients(1) [of 0] t d, of sample_env] show ?thesis
    by (auto simp: shared_hub_clients sees_def)
qed

lemma SaveResult_audit [simp]: "AuditLogs (fst (SaveResult now db res)) = AuditLogs db"
  by (simp add: SaveResult_alt)

lemma handleCmdResult_effect:
  assumes ok: "\<forall>x \<in> set (h_controllers h). \<not> c_closed (h_clients h x)" "distinct (h_controllers h)" and closed: "\<not> c_closed (h_clients h c)" and "c \<notin> set (h_controllers h)"
    and "env_Type env = TypeCmdResult" and "DecodePayload unmarshal_ResultPayload env zero_ResultPayload = (False, p)"
  shows "\<exists>h' ack. handleMessage e h c env = Ret h'
    \<and> h_clients h' = (\<lambda>x. if x = c then push ack (h_clients h x)
         else if x \<in> set (h_controllers h) then push env (h_clients h x) else h_clients h x)
    \<and> DecodePayload unmarshal_ResultAckPayload ack zero_ResultAckPayload =
        (False, \<lparr>ra_CommandID = rp_CommandID p, ra_ResultID = rp_ResultID p, ra_Success = True\<rparr>)
    \<and> (\<exists>u d p. ack = NewEnvelope u (unix_now e) TypeResultAck d p)
    \<and> CloudResultQueue (h_store h') = CloudResultQueue (fst (SaveResult (unix_now e) (h_store h) p))
    \<and> CloudCommandQueue (h_store h') = CloudCommandQueue (fst (SaveResult (unix_now e) (h_store h) p))
    \<and> (if select_pk al_LogID (rp_CommandID p) (AuditLogs (h_store h)) \<noteq> None
       then AuditLogs (h_store h') = AuditLogs (h_store h)
       else \<exists>l. AuditLogs (h_store h') = AuditLogs (h_store h) @ [l] \<and> al_LogID l = rp_CommandID p
          \<and> al_ActionType l = ''EXEC_CMD'' \<and> al_ExitCode l = rp_ExitCode p
          \<and> al_CommandText l = (case GetCommand (h_store h) (rp_CommandID p) of Some r \<Rightarrow> cr_Command r | None \<Rightarrow> ''''))"
proof -
  let ?a = "\<lparr>ra_CommandID = rp_CommandID p, ra_ResultID = rp_ResultID p, ra_Success = True\<rparr>"
  define db1 where "db1 = fst (SaveResult (unix_now e) (h_store h) p)"
  define cmdText where "cmdText = (case GetCommand db1 (rp_CommandID p) of Some r \<Rightarrow> cr_Command r | None \<Rightarrow> '''')"
  define db where "db = fst (RecordAuditLog (unix_now e) db1 (exec_log cmdText p))"
  define ack where "ack = NewEnvelope (e_uuid e (h_uuids h)) (unix_now e) TypeResultAck (rp_DeviceID p) (Some (marshal_ResultAckPayload ?a))"
  define h1 where "h1 = upd_client c (push ack) (h\<lparr>h_store := db, h_uuids := Suc (h_uuids h)\<rparr>)"
  have h1: "h_controllers h1 = h_controllers h" "h_clients h1 = (h_clients h)(c := push ack (h_clients h c))" "h_store h1 = db"
    by (simp_all add: h1_def upd_client_def)
  have ctrl: "\<forall>x \<in> set (h_controllers h1). \<not> c_closed (h_clients h1 x)" "distinct (h_controllers h1)"
    using ok by (auto simp: h1)
  have "handleMessage e h c env = broadcastToControllers h1 env"
    using closed assms(5,6)
    by (simp add: handleMessage_def handleCmdResult_def newEnvelope_def upd_store_def Send_push h1_def ack_def db_def db1_def
        cmdText_def Let_def)
  also have "\<dots> = Ret (h1\<lparr>h_clients := \<lambda>x. if x \<in> set (h_controllers h1) then push env (h_clients h1 x) else h_clients h1 x\<rparr>)"
      (is "_ = Ret ?h'")
    unfolding broadcastToControllers_def by (rule sendAll_push [OF ctrl])
  finally have run: "handleMessage e h c env = Ret ?h'" .
  have cl: "h_clients ?h' = (\<lambda>x. if x = c then push ack (h_clients h x)
         else if x \<in> set (h_controllers h) then push env (h_clients h x) else h_clients h x)"
    using assms(4) by (auto simp: h1)
  have dec: "DecodePayload unmarshal_ResultAckPayload ack zero_ResultAckPayload = (False, ?a)"
    using ResultAckPayload_codec.dec_enc [of ?a] by (simp add: ack_def DecodePayload_def NewEnvelope_def valid_ResultAckPayload_def)
  have shape: "\<exists>u d p. ack = NewEnvelope u (unix_now e) TypeResultAck d p" unfolding ack_def by blast
  have "map_option cr_Command (GetCommand db1 (rp_CommandID p)) = map_option cr_Command (GetCommand (h_store h) (rp_CommandID p))"
    by (simp add: db1_def SaveResult_alt GetCommand_def select_pk_update_rows option.map_comp comp_def if_distrib cong: if_cong)
  then have cmdText: "cmdText = (case GetCommand (h_store h) (rp_CommandID p) of Some r \<Rightarrow> cr_Command r | None \<Rightarrow> '''')"
    by (auto simp: cmdText_def split: option.splits)
  have logs: "if select_pk al_LogID (rp_CommandID p) (AuditLogs (h_store h)) \<noteq> None
       then AuditLogs db = AuditLogs (h_store h)
       else \<exists>l. AuditLogs db = AuditLogs (h_store h) @ [l] \<and> al_LogID l = rp_CommandID p
          \<and> al_ActionType l = ''EXEC_CMD'' \<and> al_ExitCode l = rp_ExitCode p \<and> al_CommandText l = cmdText"
    by (auto simp: db_def db1_def RecordAuditLog_def exec_log_def Let_def split: option.split)
  have "CloudResultQueue db = CloudResultQueue db1" "CloudCommandQueue db = CloudCommandQueue db1"
    by (simp_all add: db_def)
  moreover have "h_store ?h' = db" by (simp add: h1)
  ultimately show ?thesis
    using run cl dec shape logs unfolding cmdText db1_def
    by (intro exI [of _ ?h'] exI [of _ ack]) (simp only: simp_thms)
qed

text \<open>
  C30. A result an agent reports is saved, acknowledged to the sender under the identifiers it
  carried, and forwarded unchanged to every controller, also to those of other users. It is
  recorded in the audit log with the text of the stored command, but only when no entry has the
  command's identifier yet: after a run in the cloud, which logs under the same identifier,
  the run on the machine leaves no entry.
\<close>

theorem cmd_result_effect:
  assumes ok: "reg_ok h" and closed: "\<not> c_closed (h_clients h c)" and "c \<notin> set (h_controllers h)"
    and "env_Type env = TypeCmdResult" and "DecodePayload unmarshal_ResultPayload env zero_ResultPayload = (False, p)"
  shows "\<exists>h' ack. handleMessage e h c env = Ret h'
    \<and> h_clients h' = (\<lambda>x. if x = c then push ack (h_clients h x)
         else if x \<in> set (h_controllers h) then push env (h_clients h x) else h_clients h x)
    \<and> DecodePayload unmarshal_ResultAckPayload ack zero_ResultAckPayload =
        (False, \<lparr>ra_CommandID = rp_CommandID p, ra_ResultID = rp_ResultID p, ra_Success = True\<rparr>)
    \<and> CloudResultQueue (h_store h') = CloudResultQueue (fst (SaveResult (unix_now e) (h_store h) p))
    \<and> CloudCommandQueue (h_store h') = CloudCommandQueue (fst (SaveResult (unix_now e) (h_store h) p))
    \<and> (if select_pk al_LogID (rp_CommandID p) (AuditLogs (h_store h)) \<noteq> None
       then AuditLogs (h_store h') = AuditLogs (h_store h)
       else \<exists>l. AuditLogs (h_store h') = AuditLogs (h_store h) @ [l] \<and> al_LogID l = rp_CommandID p
          \<and> al_ActionType l = ''EXEC_CMD'' \<and> al_ExitCode l = rp_ExitCode p
          \<and> al_CommandText l = (case GetCommand (h_store h) (rp_CommandID p) of Some r \<Rightarrow> cr_Command r | None \<Rightarrow> ''''))"
proof -
  have ctrl: "\<forall>x \<in> set (h_controllers h). \<not> c_closed (h_clients h x)" "distinct (h_controllers h)"
    using controllers_open [OF ok, of "\<lambda>_. True"] by simp_all
  show ?thesis
    by (rule ex_forward [OF handleCmdResult_effect [OF ctrl assms(2-), of e]], erule ex_forward, elim conjE, intro conjI)
qed

definition pc1_result :: "ResultPayload \<Rightarrow> Envelope" where
  "pc1_result p = NewEnvelope ''m3'' 1000 TypeCmdResult ''pc1'' (Some (marshal_ResultPayload p))"

theorem cmd_result_effect_witness:
  "\<exists>h'. handleMessage sample_env shared_hub 0 (pc1_result (sample_result ''command-1'' 0)) = Ret h'
     \<and> h_clients h' 1 = push (pc1_result (sample_result ''command-1'' 0)) (h_clients shared_hub 1)"
proof -
  let ?p = "sample_result ''command-1'' 0"
  have "valid_ResultPayload ?p"
    by (simp add: sample_result_def zero_ResultPayload_def valid_ResultPayload_def in_int64_def)
  then have d: "DecodePayload unmarshal_ResultPayload (pc1_result ?p) zero_ResultPayload = (False, ?p)"
    unfolding pc1_result_def by (rule cmd_result.DecodePayload_NewEnvelope)
  have t: "env_Type (pc1_result ?p) = TypeCmdResult" by (simp add: pc1_result_def NewEnvelope_def)
  have "0 \<notin> set (h_controllers shared_hub)" by (simp add: shared_hub_clients)
  from cmd_result_effect [OF shared_hub_ok shared_hub_clients(1) this t d, of sample_env] show ?thesis
    by (auto simp: shared_hub_clients)
qed

section \<open>Liveness\<close>

definition next_status :: "Env \<Rightarrow> Hub \<Rightarrow> DeviceInfo \<Rightarrow> string" where
  "next_status e h d = liveness_status (h_cfg h) (unix_now e) (map_of (h_agents h) (di_DeviceID d) \<noteq> None) (di_LastHeartbeat d)"

definition set_status :: "(DeviceInfo \<Rightarrow> string) \<Rightarrow> DeviceInfo \<Rightarrow> DeviceRow list \<Rightarrow> DeviceRow list" where
  "set_status new d rows = (if new d \<noteq> di_Status d
     then update_rows (\<lambda>r. dr_DeviceId r = di_DeviceID d) (\<lambda>r. r\<lparr>dr_Status := new d\<rparr>) rows else rows)"

lemma update_liveness_devices:
  "open_hub h \<Longrightarrow> ends_in (\<lambda>h'. Devices (h_store h') = fold (set_status (next_status e h)) ds (Devices (h_store h)))
     (update_liveness e h ds)"
proof (induction ds arbitrary: h)
  case (Cons d ds)
  let ?m = "if next_status e h d \<noteq> di_Status d then broadcastDeviceStatusLocked e
      (upd_store (\<lambda>db. UpdateDeviceStatus db (di_DeviceID d) (next_status e h d)) h) (di_DeviceID d) (next_status e h d)
    else Ret h"
  have "calm h ?m" using calm_status_change [OF Cons.prems] by simp
  then obtain h1 where h1: "?m = Ret h1" "quiet h h1" by (auto simp: ends_in_def)
  have "Devices (h_store h1) = set_status (next_status e h) d (Devices (h_store h))"
    using h1(1) by (auto simp: set_status_def broadcastDeviceStatusLocked_def newEnvelope_def Let_def upd_store_def
        UpdateDeviceStatus_def dest!: sendAll_Ret split: if_splits)
  moreover have "next_status e h1 = next_status e h"
    using h1(2) by (auto simp: next_status_def quiet_def)
  moreover have "update_liveness e h (d # ds) = andThen ?m (\<lambda>h. update_liveness e h ds)"
    unfolding update_liveness.simps Let_def next_status_def ..
  ultimately show ?case
    using Cons.IH [OF open_hub_quiet [OF h1(2) Cons.prems]] h1(1) by (simp only: andThen.simps fold_Cons comp_apply)
qed simp

lemma fold_set_status_lookup:
  assumes "distinct (map di_DeviceID ds)"
  shows "select_pk dr_DeviceId i (fold (set_status new) ds rows) =
    map_option (\<lambda>r. case find (\<lambda>d. di_DeviceID d = i) ds of
        Some d \<Rightarrow> if new d \<noteq> di_Status d then r\<lparr>dr_Status := new d\<rparr> else r | None \<Rightarrow> r) (select_pk dr_DeviceId i rows)"
  using assms
proof (induction ds arbitrary: rows)
  case (Cons d ds)
  have "select_pk dr_DeviceId i (set_status new d rows) =
      map_option (\<lambda>r. if di_DeviceID d = i \<and> new d \<noteq> di_Status d then r\<lparr>dr_Status := new d\<rparr> else r) (select_pk dr_DeviceId i rows)"
    by (cases "select_pk dr_DeviceId i rows")
       (auto simp: set_status_def select_pk_update_rows dest: select_pk_SomeD)
  moreover have "find (\<lambda>d. di_DeviceID d = i) ds = None" if "di_DeviceID d = i"
    using Cons.prems that by (simp add: find_None_iff) (metis image_eqI)
  ultimately show ?case
    using Cons by (cases "select_pk dr_DeviceId i rows") auto
qed (simp add: option.map_ident)

lemma scan_devices_fields:
  "scan_devices rs = Inr ds \<Longrightarrow>
   map (\<lambda>d. (di_DeviceID d, di_Status d, di_LastHeartbeat d)) ds = map (\<lambda>r. (dr_DeviceId r, dr_Status r, dr_LastHeartbeat r)) rs"
proof (induction rs arbitrary: ds)
  case (Cons r rs)
  obtain d where d: "scan_device r = Inr d" using Cons.prems by (auto split: sum.splits)
  then have "di_DeviceID d = dr_DeviceId r" "di_Status d = dr_Status r" "di_LastHeartbeat d = dr_LastHeartbeat r"
    by (auto simp: scan_device_def split: option.splits)
  then show ?case using Cons d by (auto simp: Let_def split: sum.splits if_splits)
qed simp

lemma ListDevices_row:
  assumes "ListDevices db = Inr ds" and "pk_ok dr_DeviceId (Devices db)" and "select_pk dr_DeviceId i (Devices db) = Some r"
  shows "distinct (map di_DeviceID ds)" and "\<exists>d. find (\<lambda>d. di_DeviceID d = i) ds = Some d \<and> di_DeviceID d = i
    \<and> di_Status d = dr_Status r \<and> di_LastHeartbeat d = dr_LastHeartbeat r"
proof -
  let ?rs = "sort_key (\<lambda>r. - dr_LastHeartbeat r) (Devices db)"
  have f: "map (\<lambda>d. (di_DeviceID d, di_Status d, di_LastHeartbeat d)) ds = map (\<lambda>r. (dr_DeviceId r, dr_Status r, dr_LastHeartbeat r)) ?rs"
    using assms(1) by (intro scan_devices_fields) (simp add: ListDevices_def)
  from arg_cong [OF f, of "map fst"] have ids: "map di_DeviceID ds = map dr_DeviceId ?rs" by (simp add: comp_def)
  have rs: "distinct (map dr_DeviceId ?rs)"
    using assms(2) by (simp add: pk_ok_def distinct_map)
  then show dist: "distinct (map di_DeviceID ds)" by (simp only: ids)
  have "(dr_DeviceId r, dr_Status r, dr_LastHeartbeat r) \<in> set (map (\<lambda>r. (dr_DeviceId r, dr_Status r, dr_LastHeartbeat r)) ?rs)"
    using select_pk_SomeD [OF assms(3)] by auto
  then obtain d where d: "d \<in> set ds" "di_DeviceID d = i" "di_Status d = dr_Status r" "di_LastHeartbeat d = dr_LastHeartbeat r"
    unfolding f [symmetric] using select_pk_SomeD [OF assms(3)] by auto
  have "select_pk di_DeviceID i ds = Some d"
    using d dist by (simp add: select_pk_Some_iff pk_ok_def)
  then show "\<exists>d. find (\<lambda>d. di_DeviceID d = i) ds = Some d \<and> di_DeviceID d = i \<and> di_Status d = dr_Status r
    \<and> di_LastHeartbeat d = dr_LastHeartbeat r"
    using d by (auto simp: select_pk_def)
qed

text \<open>
  C32. After a tick of the liveness tracker the status of every stored device is the one that its connection and the age
  of its last heartbeat give: ONLINE while its agent is connected, otherwise ONLINE, DEGRADED or
  OFFLINE by the configured thresholds; nothing else about a device changes. When the devices cannot
  be listed, which one device without a host name is enough for, the tick does nothing.
\<close>

theorem liveness_tick:
  assumes ok: "reg_ok h" and "db_ok (h_store h)"
  shows "\<exists>h'. livenessTick e h = Ret h' \<and>
    (case ListDevices (h_store h) of
       Inl err \<Rightarrow> h' = h
     | Inr ds \<Rightarrow> \<forall>i. select_pk dr_DeviceId i (Devices (h_store h')) =
         map_option (\<lambda>r. r\<lparr>dr_Status := liveness_status (h_cfg h) (unix_now e) (map_of (h_agents h) i \<noteq> None) (dr_LastHeartbeat r)\<rparr>)
           (select_pk dr_DeviceId i (Devices (h_store h))))"
proof (cases "ListDevices (h_store h)")
  case (Inl err)
  then show ?thesis by (simp add: livenessTick_def)
next
  case (Inr ds)
  obtain h' where h': "update_liveness e h ds = Ret h'"
      "Devices (h_store h') = fold (set_status (next_status e h)) ds (Devices (h_store h))"
    using update_liveness_devices [OF reg_ok_open [OF ok], of e ds] by (auto simp: ends_in_def)
  have "select_pk dr_DeviceId i (Devices (h_store h')) =
      map_option (\<lambda>r. r\<lparr>dr_Status := liveness_status (h_cfg h) (unix_now e) (map_of (h_agents h) i \<noteq> None) (dr_LastHeartbeat r)\<rparr>)
        (select_pk dr_DeviceId i (Devices (h_store h)))" for i
  proof (cases "select_pk dr_DeviceId i (Devices (h_store h))")
    case (Some r)
    have pk: "pk_ok dr_DeviceId (Devices (h_store h))" using assms(2) by (simp add: db_ok_def)
    note row = ListDevices_row [OF Inr pk Some]
    then obtain d where "find (\<lambda>d. di_DeviceID d = i) ds = Some d" "di_DeviceID d = i" "di_Status d = dr_Status r"
        "di_LastHeartbeat d = dr_LastHeartbeat r" by blast
    then show ?thesis
      using fold_set_status_lookup [OF row(1), of i] Some h'(2) by (auto simp: next_status_def)
  next
    case None
    have "map dr_DeviceId (fold (set_status new) ds' rows) = map dr_DeviceId rows" for new ds' rows
      by (induction ds' arbitrary: rows) (auto simp: set_status_def map_key_update_rows)
    from arg_cong [OF this, of set] have "select_pk dr_DeviceId i (Devices (h_store h')) = None"
      using None h'(2) by (auto simp: select_pk_None_iff)
    then show ?thesis using None by simp
  qed
  then show ?thesis
    using Inr h'(1) by (simp add: livenessTick_def)
qed

theorem liveness_tick_witness:
  "\<exists>h'. livenessTick sample_env quiet_hub = Ret h'
     \<and> map_option dr_Status (select_pk dr_DeviceId ''pc1'' (Devices (h_store h'))) = Some StatusOffline"
proof -
  have "db_ok (h_store quiet_hub)"
    using store_writes_db_ok(1) [OF db_ok_empty] by (simp add: quiet_hub_def NewHub_def ann_device_def)
  note tick = liveness_tick [OF quiet_hub_ok this, of sample_env]
  have "\<exists>ds. ListDevices (h_store quiet_hub) = Inr ds"
    by (simp add: quiet_hub_def NewHub_def ann_device_def ListDevices_def UpsertDevice_def empty_db_def sample_device_def
        scan_device_def select_pk_def Let_def)
  moreover have "map_option dr_LastHeartbeat (select_pk dr_DeviceId ''pc1'' (Devices (h_store quiet_hub))) = Some 10"
    by code_simp
  moreover have "liveness_status (h_cfg quiet_hub) (unix_now sample_env) (map_of (h_agents quiet_hub) ''pc1'' \<noteq> None) 10 = StatusOffline"
    by code_simp
  ultimately show ?thesis using tick by auto
qed

section \<open>Bounds\<close>

text \<open>
  The deadline of a sandbox run is the requested number of seconds as long as that number fits a
  64-bit count of nanoseconds, up to 9223372036 seconds, and 15 seconds when none is requested. One
  second more and the product wraps around: the deadline lies in the past.
\<close>

theorem sandbox_deadline:
  "(0 < cp_TimeoutSec cmd \<and> cp_TimeoutSec cmd \<le> 9223372036 \<longrightarrow> sandbox_timeout cmd = cp_TimeoutSec cmd * second_ns)
   \<and> (cp_TimeoutSec cmd \<le> 0 \<longrightarrow> sandbox_timeout cmd = 15 * second_ns)
   \<and> in_int64 (sandbox_timeout cmd)
   \<and> (cp_TimeoutSec cmd = 9223372037 \<longrightarrow> sandbox_timeout cmd < 0)"
proof (intro conjI impI)
  assume "0 < cp_TimeoutSec cmd \<and> cp_TimeoutSec cmd \<le> 9223372036"
  then show "sandbox_timeout cmd = cp_TimeoutSec cmd * second_ns"
    by (simp add: sandbox_timeout_def seconds_exact)
next
  assume "cp_TimeoutSec cmd \<le> 0"
  then show "sandbox_timeout cmd = 15 * second_ns"
    by (simp add: sandbox_timeout_def seconds_exact)
next
  show "in_int64 (sandbox_timeout cmd)"
    by (simp add: sandbox_timeout_def seconds_def wrap_int64_range)
next
  assume "cp_TimeoutSec cmd = 9223372037"
  moreover have "seconds 9223372037 < 0" by code_simp
  ultimately show "sandbox_timeout cmd < 0" by (simp add: sandbox_timeout_def)
qed

theorem sandbox_deadline_witness:
  "sandbox_timeout (sample_cmd ''a'' ''d'' ''dir'' 4) = 15 * second_ns
   \<and> sandbox_timeout ((sample_cmd ''a'' ''d'' ''dir'' 4)\<lparr>cp_TimeoutSec := 9223372037\<rparr>) < 0"
  using sandbox_deadline [of "sample_cmd ''a'' ''d'' ''dir'' 4"]
    sandbox_deadline [of "(sample_cmd ''a'' ''d'' ''dir'' 4)\<lparr>cp_TimeoutSec := 9223372037\<rparr>"]
  by (simp add: sample_cmd_def)

text \<open>
  The predefined command \<open>queue\<close> lists the first eight characters of every pending identifier, and it panics as soon
  as one pending command of the device has a shorter one. Clients choose identifiers freely: one
  client enqueues a command under a short identifier for a device that is offline, and the next
  \<open>queue\<close> for that device ends the relay.
\<close>

theorem short_id_crash:
  "(panics (queue_text e db d) \<longleftrightarrow> list_ex (\<lambda>c. length (cp_CommandID c) < 8) (GetPendingCommands db d))
   \<and> panic_of (andThen (handleMessage sample_env quiet_hub 0 (enqueue_message (sample_cmd ''x'' ''pc1'' ''dir'' 5)))
        (\<lambda>h. handleMessage sample_env h 0 (enqueue_message (sample_cmd ''command-2'' ''pc1'' ''queue'' 6))))
      = Some SliceOutOfRange"
proof
  have "panics (queue_lines e n ps) = list_ex (\<lambda>c. length (cp_CommandID c) < 8) ps" for n ps
  proof (induction ps arbitrary: n)
    case (Cons p ps)
    show ?case using Cons [of "n + 1"] by (cases "queue_lines e (n + 1) ps") auto
  qed simp
  then have lines: "panics (andThen (queue_lines e n ps) (\<lambda>rows. Ret (f rows))) = list_ex (\<lambda>c. length (cp_CommandID c) < 8) ps"
    for n ps and f :: "string \<Rightarrow> string"
    by (cases "queue_lines e n ps") (metis andThen.simps(1) panics.simps(1), metis andThen.simps(2) panics.simps(2))
  show "panics (queue_text e db d) \<longleftrightarrow> list_ex (\<lambda>c. length (cp_CommandID c) < 8) (GetPendingCommands db d)"
    by (cases "GetPendingCommands db d = []") (simp_all add: queue_text_def lines Let_def)
  show "panic_of (andThen (handleMessage sample_env quiet_hub 0 (enqueue_message (sample_cmd ''x'' ''pc1'' ''dir'' 5)))
        (\<lambda>h. handleMessage sample_env h 0 (enqueue_message (sample_cmd ''command-2'' ''pc1'' ''queue'' 6))))
      = Some SliceOutOfRange"
    by code_simp
qed

text \<open>
  A result the agent reports while it is connected carries no identifier of its own and is stored under the
  command's; the same result synchronised later carries its identifier and is stored a second time:
  the relay then has two rows for one execution.
\<close>

theorem report_and_sync_duplicate:
  assumes "rp_ResultID res = ''''" and "rid \<noteq> ''''" and "rid \<noteq> rp_CommandID res"
    and "\<forall>r \<in> set (CloudResultQueue db). rr_CommandId r \<noteq> rp_CommandID res"
    and "rp_CommandID res \<notin> rr_ResultId ` set (CloudResultQueue db)" and "rid \<notin> rr_ResultId ` set (CloudResultQueue db)"
  shows "length (filter (\<lambda>r. rr_CommandId r = rp_CommandID res)
    (CloudResultQueue (fst (SaveResult later (fst (SaveResult now db res)) (res\<lparr>rp_ResultID := rid\<rparr>))))) = 2"
proof -
  have none: "select_pk rr_ResultId (rp_CommandID res) (CloudResultQueue db) = None"
    "select_pk rr_ResultId rid (CloudResultQueue db) = None"
    using assms(5,6) by (simp_all add: select_pk_None_iff)
  have old: "filter (\<lambda>r. rr_CommandId r = rp_CommandID res) (CloudResultQueue db) = []"
    using assms(4) by (simp add: filter_empty_conv)
  show ?thesis
    using assms(1-3) none old
    by (simp add: SaveResult_alt upsert_result_def Let_def select_pk_append)
qed

theorem report_and_sync_duplicate_witness:
  "length (filter (\<lambda>r. rr_CommandId r = ''a'')
    (CloudResultQueue (fst (SaveResult 13 (fst (SaveResult 12 sample_db (sample_result ''a'' 0)))
      ((sample_result ''a'' 0)\<lparr>rp_ResultID := ''r1''\<rparr>))))) = 2"
proof -
  have "CloudResultQueue sample_db = []" by code_simp
  then show ?thesis
    using report_and_sync_duplicate [of "sample_result ''a'' 0" "''r1''" sample_db 13 12]
    by (simp add: sample_result_def zero_ResultPayload_def)
qed

end
