(* ===== verification/WebProps.thy ===== *)
theory WebProps
  imports Web HubOffline
begin

text \<open>
  The REST interface on top of the hub: requests are steps of the relay that keep everything the
  hub's own events keep, accounts registered over it can be used over it, commands posted over
  it are stored and run, and the wake-up packets it sends have the documented form.
\<close>

section \<open>Requests as steps of the relay\<close>

lemma handleRegister_quiet: "quiet h (snd (handleRegister v h rq))"
proof -
  let ?h = "h\<lparr>h_uuids := Suc (Suc (h_uuids h))\<rparr>"
  have "store_evolves db (fst (CreateUser u1 u2 now db name pw))" for u1 u2 now db name pw
    by (rule evolves_step [OF store_step.create_user]) (simp add: CreateUser_def ids_ok_def Let_def)
  then have "quiet ?h (?h\<lparr>h_store := fst (CreateUser u1 u2 now (h_store ?h) name pw)\<rparr>)" for u1 u2 now name pw
    by (intro quiet_store) simp
  then have "quiet h (?h\<lparr>h_store := fst (CreateUser u1 u2 now (h_store h) name pw)\<rparr>)" for u1 u2 now name pw
    using quiet_trans [OF quiet_ghost(1) [of h "Suc (Suc (h_uuids h))"]] by simp
  then show ?thesis
    by (auto simp: handleRegister_def newUUID_def Let_def split: prod.splits sum.splits)
       (metis fst_conv)+
qed

lemma handleCommands_quiet:
  assumes "open_hub h" and "uuids_fine (v_env v)" and "\<not> v_supabase v"
  shows "ends_in (\<lambda>r. quiet h (snd r)) (handleCommands v h rq)"
proof -
  have fine: "id_fine ''''" by (simp add: id_fine_def)
  show ?thesis
    unfolding handleCommands_def postCommand_def Let_def
    by (auto split: prod.split intro!: ends_in_andThen [OF EnqueueDirect_total [OF assms(1,2)]] simp: fine assms(3))
qed

lemma serve_orderly:
  assumes ok: "reg_ok h" and "uuids_fine (v_env v)" and "\<not> v_supabase v"
  shows "ends_in (\<lambda>(r, h', sent). orderly h h') (serve v h rq)"
proof -
  note q = orderly_quiet [OF _ ok]
  have reg: "orderly h (snd (handleRegister v h rq))" by (rule q [OF handleRegister_quiet])
  have cmds: "ends_in (\<lambda>(r, h', sent). orderly h h') (andThen (handleCommands v h rq) (\<lambda>(r, h). Ret (r, h, [])))"
    by (rule ends_in_andThen [OF handleCommands_quiet [OF reg_ok_open [OF ok] assms(2,3)]]) (auto intro: q)
  show ?thesis
    using reg cmds HandleWS_orderly [OF ok] q [OF quiet_refl]
    by (auto simp: serve_def Let_def split: option.split prod.splits)
qed

inductive relay_step :: "Hub \<Rightarrow> Hub \<Rightarrow> bool" where
  event: "hub_step h h' \<Longrightarrow> relay_step h h'"
| request: "uuids_fine (v_env v) \<Longrightarrow> \<not> v_supabase v \<Longrightarrow> serve v h rq = Ret (r, h', sent) \<Longrightarrow> relay_step h h'"

inductive_cases relay_stepE: "relay_step h h'"

lemma relay_step_orderly: "relay_step h h' \<Longrightarrow> reg_ok h \<Longrightarrow> orderly h h'"
  using hub_handle_orderly [of h] serve_orderly [of h]
  by (auto elim!: relay_stepE hub_stepE) (metis case_prodD ends_in_Ret)+

interpretation relay_system: invariant_system hub_init relay_step "\<lambda>h. reg_ok h \<and> db_ok (h_store h)"
proof (unfold_locales, erule hub_init_ok)
  fix h h'
  assume "reg_ok h \<and> db_ok (h_store h)" and "relay_step h h'"
  then show "reg_ok h' \<and> db_ok (h_store h')"
    using relay_step_orderly [of h h'] store_steps_db_ok by (auto simp: orderly_def store_evolves_def)
qed


definition sample_wenv0 :: WebEnv where
  "sample_wenv0 = \<lparr>v_env = sample_env, v_supabase = False, v_udp = (\<lambda>_ _. Sent), v_staticFile = (\<lambda>_. None),
     v_readFile = (\<lambda>_. None), v_upgrade = (\<lambda>_. None),
     v_static = (\<lambda>_. http_error ''404 page not found'' 404)\<rparr>"

definition sample_request :: "string \<Rightarrow> string \<Rightarrow> json option \<Rightarrow> Request" where
  "sample_request m path j = \<lparr>rq_Method = m, rq_Path = path, rq_Host = ''localhost'', rq_Query = [],
     rq_Authorization = '''', rq_Body = j\<rparr>"


section \<open>Accounts\<close>

definition credentials :: "string \<Rightarrow> string \<Rightarrow> Request \<Rightarrow> bool" where
  "credentials name pw rq \<longleftrightarrow> rq_Method rq = ''POST''
     \<and> decode_body unmarshal_UserAuthRequest zero_UserAuthRequest rq = (False, \<lparr>ur_Username = name, ur_Password = pw\<rparr>)"

lemma auth_codes [simp]:
  "rs_Code (auth_failed c msg) = c" "rs_Code (auth_granted h u) = 200"
  by (simp_all add: auth_failed_def auth_granted_def json_response_def)

lemma CreateUser_taken:
  "x \<in> set (Users db) \<Longrightarrow> ua_Username x = name \<Longrightarrow> \<exists>err. CreateUser v1 v2 t db name pw = (db, Inl err)"
  by (auto simp: CreateUser_def Let_def)

lemma register_effect:
  assumes "credentials name pw rq" and "rs_Code (fst (handleRegister v h rq)) = 200"
  obtains u u1 u2 now where "snd (CreateUser u1 u2 now (h_store h) name pw) = Inr u"
    and "h_store (snd (handleRegister v h rq)) = fst (CreateUser u1 u2 now (h_store h) name pw)"
    and "fst (handleRegister v h rq) = auth_granted (snd (handleRegister v h rq)) u"
  using assms
  by (auto simp: credentials_def handleRegister_def newUUID_def Let_def split: prod.splits sum.splits)
     (metis fst_conv snd_conv)

text \<open>
  A registration that succeeds returns an account that can be used: logging in with the same name and
  password, or presenting the account's token, gives the same answer as the registration, another
  password is refused with status 401, and a second registration of the name with status 400 and
  without any change to the database.
\<close>

theorem rest_accounts:
  assumes "credentials name pw rq" and "rs_Code (fst (handleRegister v h rq)) = 200"
  shows "\<exists>u. fst (handleRegister v h rq) = auth_granted (snd (handleRegister v h rq)) u
    \<and> ua_Username u = name
    \<and> (\<forall>pw' rq'. credentials name pw' rq' \<longrightarrow>
         handleLogin v (snd (handleRegister v h rq)) rq' =
           (if pw' = pw then fst (handleRegister v h rq)
            else auth_failed 401 (e_sqlErr (v_env v) InvalidCredentials)))
    \<and> (\<forall>rq'. extractToken rq' = ua_AuthToken u \<longrightarrow>
         handleAuthMe (snd (handleRegister v h rq)) rq' = fst (handleRegister v h rq))
    \<and> (\<forall>pw' rq'. credentials name pw' rq' \<longrightarrow>
         rs_Code (fst (handleRegister v (snd (handleRegister v h rq)) rq')) = 400
         \<and> h_store (snd (handleRegister v (snd (handleRegister v h rq)) rq')) = h_store (snd (handleRegister v h rq)))"
proof -
  let ?h = "snd (handleRegister v h rq)"
  obtain u u1 u2 now where u: "snd (CreateUser u1 u2 now (h_store h) name pw) = Inr u"
    and db: "h_store ?h = fst (CreateUser u1 u2 now (h_store h) name pw)"
    and r: "fst (handleRegister v h rq) = auth_granted ?h u"
    by (rule register_effect [OF assms])
  note acc = user_accounts [OF u, folded db]
  have "u \<in> set (Users (h_store ?h))" unfolding db CreateUser_Inr(1) [OF u] by simp
  then have taken: "\<exists>x. CreateUser v1 v2 t (h_store ?h) name pw' = (h_store ?h, Inl x)" for v1 v2 t pw'
    using CreateUser_taken CreateUser_Inr(2) [OF u] by blast
  have login: "handleLogin v ?h rq' = (if pw' = pw then auth_granted ?h u
      else auth_failed 401 (e_sqlErr (v_env v) InvalidCredentials))" if "credentials name pw' rq'" for pw' rq'
    using that acc by (auto simp: credentials_def handleLogin_def)
  have me: "handleAuthMe ?h rq' = auth_granted ?h u" if "extractToken rq' = ua_AuthToken u" for rq'
    using that acc CreateUser_Inr(4) [OF u] by (simp add: handleAuthMe_def)
  have second: "rs_Code (fst (handleRegister v ?h rq')) = 400 \<and> h_store (snd (handleRegister v ?h rq')) = h_store ?h"
    if "credentials name pw' rq'" for pw' rq'
  proof -
    obtain x where "CreateUser (e_uuid (v_env v) (h_uuids ?h)) (e_uuid (v_env v) (Suc (h_uuids ?h))) (unix_now (v_env v))
        (h_store ?h) name pw' = (h_store ?h, Inl x)"
      using taken by blast
    then show ?thesis using that by (simp add: credentials_def handleRegister_def newUUID_def Let_def)
  qed
  show ?thesis
    unfolding r
    by (rule exI [of _ u], intro conjI allI impI)
       (rule refl CreateUser_Inr(2) [OF u] | erule login me second [THEN conjunct1] second [THEN conjunct2])+
qed

definition ann_credentials :: "string \<Rightarrow> Request" where
  "ann_credentials pw = sample_request ''POST'' ''/api/auth/register''
     (Some (marshal_UserAuthRequest \<lparr>ur_Username = ''ann'', ur_Password = pw\<rparr>))"

theorem rest_accounts_witness:
  "handleLogin sample_wenv0 (snd (handleRegister sample_wenv0 (NewHub empty_db sample_cfg) (ann_credentials ''pw'')))
     (ann_credentials ''guess'') = auth_failed 401 ''constraint failed''"
proof -
  have cred: "credentials ''ann'' pw (ann_credentials pw)" for pw
    using UserAuthRequest_codec.dec_enc [of "\<lparr>ur_Username = ''ann'', ur_Password = pw\<rparr>"]
    by (simp add: credentials_def ann_credentials_def sample_request_def decode_body_def valid_UserAuthRequest_def)
  have "rs_Code (fst (handleRegister sample_wenv0 (NewHub empty_db sample_cfg) (ann_credentials ''pw''))) = 200"
    by code_simp
  from rest_accounts [OF cred this] show ?thesis
    using cred [of "''guess''"] by (auto simp: sample_wenv0_def sample_env_def)
qed

section \<open>Commands\<close>

text \<open>
  A command posted with a device and a text is accepted without any authentication, stored as it
  was asked for under a fresh identifier, and handed on; the answer is a success but its
  \<open>commandId\<close> is empty, so the caller does not learn the identifier of its command.
\<close>

theorem rest_enqueue:
  assumes ok: "reg_ok h" and fine: "uuids_fine (v_env v)"
    and "rq_Path rq = ''/api/commands''" and "rq_Method rq = ''POST''"
    and body: "decode_body unmarshal_enqueueReq zero_enqueueReq rq = (False, req)"
    and given: "eq_DeviceID req \<noteq> ''''" "eq_Command req \<noteq> ''''"
    and uuid: "uuid = e_uuid (v_env v) (h_uuids h)" and fresh: "GetCommand (h_store h) uuid = None"
  shows "\<exists>h' r. serve v h rq = Ret (json_response 200 (JObj [(''commandId'', JStr ''''),
        (''deviceId'', JStr (eq_DeviceID req)), (''success'', JBool True)]), h', [])
    \<and> GetCommand (h_store h') uuid = Some r \<and> cr_DeviceID r = eq_DeviceID req \<and> cr_Command r = eq_Command req
    \<and> cr_TimeoutSec r = eq_TimeoutSec req"
proof -
  let ?e = "v_env v"
  let ?cmd = "\<lparr>cp_CommandID = '''', cp_DeviceID = eq_DeviceID req, cp_Command = eq_Command req,
    cp_TimeoutSec = eq_TimeoutSec req, cp_CreatedAt = 0\<rparr>"
  let ?p = "?cmd\<lparr>cp_CommandID := uuid, cp_CreatedAt := unix_now ?e\<rparr>" and ?h1 = "h\<lparr>h_uuids := Suc (h_uuids h)\<rparr>"
  let ?db = "fst (EnqueueCommand (unix_now ?e) (h_store ?h1) ?p)" let ?h2 = "?h1\<lparr>h_store := ?db\<rparr>"
  have p: "complete_command ?e h ?cmd = (?p, ?h1)"
    by (simp add: complete_command_def newUUID_def uuid Let_def)
  have new: "GetCommand (h_store ?h1) (cp_CommandID ?p) = None" using fresh by simp
  note enq = EnqueueCommand_new [OF new, of "unix_now ?e"]
  have db: "EnqueueCommand (unix_now ?e) (h_store ?h1) ?p = (?db, None)" using enq(1) by simp
  have "quiet h ?h2" by (rule enqueue_quiet [OF _ fine p db]) (simp add: id_fine_def)
  then have op: "open_hub ?h2" by (rule open_hub_quiet [OF _ reg_ok_open [OF ok]])
  have "ends_in (\<lambda>r. fst r = None \<and> quiet ?h2 (snd r)) (EnqueueDirect ?e h ?cmd)"
    by (rule EnqueueDirect_stored [OF op _ _ p db]) (use given in simp_all)
  then obtain h' where run: "EnqueueDirect ?e h ?cmd = Ret (None, h')" and q: "quiet ?h2 h'"
    by (auto simp: ends_in_def)
  from q have "advances ?db (h_store h')"
    using store_steps_advance by (auto simp: quiet_def store_evolves_def)
  then obtain r where "GetCommand (h_store h') uuid = Some r" "same_request (command_entry (unix_now ?e) ?p) r"
    using enq(3) by (force simp: advances_def)
  then show ?thesis
    using assms(3,4) body given run
    by (auto simp: serve_def handleCommands_def postCommand_def same_request_def command_of_record_def command_entry_def)
qed

definition pc1_command :: Request where
  "pc1_command = sample_request ''POST'' ''/api/commands''
     (Some (JObj [(''deviceId'', JStr ''pc1''), (''command'', JStr ''dir'')]))"

theorem rest_enqueue_witness:
  "\<exists>h' r. serve sample_wenv0 quiet_hub pc1_command = Ret (json_response 200 (JObj [(''commandId'', JStr ''''),
       (''deviceId'', JStr ''pc1''), (''success'', JBool True)]), h', [])
     \<and> GetCommand (h_store h') (e_uuid sample_env (h_uuids quiet_hub)) = Some r \<and> cr_Command r = ''dir''"
proof -
  let ?req = "\<lparr>eq_DeviceID = ''pc1'', eq_Command = ''dir'', eq_TimeoutSec = 0\<rparr>"
  have "uuids_fine (v_env sample_wenv0)" by (simp add: sample_wenv0_def sample_env_fine)
  moreover have "decode_body unmarshal_enqueueReq zero_enqueueReq pc1_command = (False, ?req)" by code_simp
  moreover have "GetCommand (h_store quiet_hub) (e_uuid sample_env (h_uuids quiet_hub)) = None" by code_simp
  ultimately show ?thesis
    using rest_enqueue [OF quiet_hub_ok, of sample_wenv0 pc1_command ?req "e_uuid sample_env (h_uuids quiet_hub)"]
    by (auto simp: pc1_command_def sample_request_def sample_wenv0_def)
qed

section \<open>Wake on LAN\<close>

lemma copy_at_append: "length p = i \<Longrightarrow> length src \<le> length r \<Longrightarrow> copy_at i src (p @ r) = p @ src @ drop (length src) r"
  by (simp add: copy_at_def)

lemma fold_copy:
  "fold (\<lambda>i p. copy_at (6 + i * length hw) hw p) [0..<n] (pre @ replicate (n * length hw + k) z) =
     pre @ concat (replicate n hw) @ replicate k z" if "length pre = 6"
proof (induction n arbitrary: k)
  case (Suc n)
  have split: "Suc n * length hw + k = n * length hw + (length hw + k)" by simp
  have "fold (\<lambda>i p. copy_at (6 + i * length hw) hw p) [0..<Suc n] (pre @ replicate (Suc n * length hw + k) z) =
      copy_at (6 + n * length hw) hw (pre @ concat (replicate n hw) @ replicate (length hw + k) z)"
    unfolding split using Suc.IH [of "length hw + k"] by simp
  also have "\<dots> = pre @ concat (replicate n hw) @ hw @ replicate k z"
    using copy_at_append [of "pre @ concat (replicate n hw)" "6 + n * length hw" hw "replicate (length hw + k) z"] that
    by (simp add: length_concat sum_list_replicate replicate_add)
  also have "\<dots> = pre @ concat (replicate (Suc n) hw) @ replicate k z"
    by (simp add: replicate_append_same [symmetric] del: replicate_Suc) (simp flip: replicate_append_same)
  finally show ?case .
qed simp

lemma magic_packet_form: "magic_packet hw = replicate 6 (byte 0xFF) @ concat (replicate 16 hw)"
proof -
  have "fold (\<lambda>i p. p[i := byte 0xFF]) [0..<6] (replicate (6 + n) (byte 0)) = replicate 6 (byte 0xFF) @ replicate n (byte 0)" for n
    by (simp add: upt_rec numeral_eq_Suc)
  then show ?thesis
    using fold_copy [of "replicate 6 (byte 0xFF)" hw 16 0 "byte 0"] by (simp add: magic_packet_def)
qed

text \<open>
  For every hardware address, the request to wake a machine sends one datagram to port 9 of the
  broadcast address: six bytes \<open>0xFF\<close> followed by sixteen copies of the address, 102 bytes for
  the usual six-byte address written with colons. An address that cannot be read sends nothing
  and is answered with status 500.
\<close>

theorem wake_on_lan:
  assumes "rq_Method rq = ''POST''" and "decode_body unmarshal_wolRequest zero_wolRequest rq = (False, req)"
    and "wq_MACAddress req \<noteq> ''''" and "wq_BroadcastIP req = ''''"
  shows "(length hw = 6 \<and> wq_MACAddress req = mac_string hw \<and> v_udp v ''255.255.255.255:9'' (magic_packet hw) = Sent \<longrightarrow>
      rs_Code (fst (handleWakeOnLAN v rq)) = 200
      \<and> snd (handleWakeOnLAN v rq) = [(''255.255.255.255:9'', replicate 6 (byte 0xFF) @ concat (replicate 16 hw))]
      \<and> length (magic_packet hw) = 102)
    \<and> (ParseMAC (wq_MACAddress req) = None \<longrightarrow>
      rs_Code (fst (handleWakeOnLAN v rq)) = 500 \<and> snd (handleWakeOnLAN v rq) = [])"
  using assms
  by (auto simp: handleWakeOnLAN_def sendMagicPacket_def ParseMAC_mac_string magic_packet_form Let_def
      json_response_def http_error_def length_concat sum_list_replicate split: udp_step.split)

theorem wake_on_lan_witness:
  "snd (handleWakeOnLAN sample_wenv0 (sample_request ''POST'' ''/api/wol'' (Some (JObj [(''macAddress'', JStr ''AA:BB:CC:DD:EE:0F'')]))))
     = [(''255.255.255.255:9'', replicate 6 (byte 0xFF) @ concat (replicate 16 (map byte [0xAA, 0xBB, 0xCC, 0xDD, 0xEE, 0x0F])))]"
proof -
  let ?rq = "sample_request ''POST'' ''/api/wol'' (Some (JObj [(''macAddress'', JStr ''AA:BB:CC:DD:EE:0F'')]))"
  let ?req = "\<lparr>wq_MACAddress = ''AA:BB:CC:DD:EE:0F'', wq_BroadcastIP = ''''\<rparr>"
  let ?hw = "map byte [0xAA, 0xBB, 0xCC, 0xDD, 0xEE, 0x0F]"
  have "decode_body unmarshal_wolRequest zero_wolRequest ?rq = (False, ?req)" by code_simp
  moreover have "''AA:BB:CC:DD:EE:0F'' = mac_string ?hw" by code_simp
  moreover have "v_udp sample_wenv0 ''255.255.255.255:9'' (magic_packet ?hw) = Sent" by (simp add: sample_wenv0_def)
  ultimately show ?thesis
    using wake_on_lan [of ?rq ?req ?hw sample_wenv0] by (simp add: sample_request_def)
qed

end
