(* ===== verification/Typing.thy ===== *)
theory Typing
  imports RelayStoreProps
begin

text \<open>
  Types at run time. Go's integers have 64 bits, the model's do not: a record is \<open>valid\<close> when every number in it
  fits its Go type. Here: what a decoder writes is always valid (locale \<open>typed_codec\<close>, a \<open>codec\<close> whose decoder keeps
  validity whatever the input), and the predicate \<open>db_typed\<close>, every number in the relay's tables fits its
  column, with its preservation by every writing method of the store.
\<close>

section \<open>Decoders keep types\<close>

definition keeps_type :: "('a \<Rightarrow> bool) \<Rightarrow> 'a dec \<Rightarrow> bool" where
  "keeps_type P d \<longleftrightarrow> (\<forall>j x. P x \<longrightarrow> P (snd (d j x)))"

named_theorems typed_intros \<open>decoders that keep the type of what they decode into\<close>

lemma keeps_typeD: "keeps_type P d \<Longrightarrow> P x \<Longrightarrow> P (snd (d j x))"
  by (simp add: keeps_type_def)

lemma keeps_type_scalars [typed_intros]:
  "keeps_type in_int64 dec_int64" "keeps_type in_uint64 dec_uint64"
  "keeps_type (\<lambda>_. True) ds" "keeps_type (\<lambda>_. True) db" "keeps_type (\<lambda>_. True) df"
  by (auto simp: keeps_type_def dec_integer_def split: json.split)

lemma keeps_type_into:
  assumes "keeps_type Q d" and "\<And>r. P r \<Longrightarrow> Q (get_fld r)" and "\<And>r x. P r \<Longrightarrow> Q x \<Longrightarrow> P (upd (\<lambda>_. x) r)"
  shows "keeps_type P (into d get_fld upd)"
  unfolding keeps_type_def into_def
  using keeps_typeD [OF assms(1)] assms(2,3) by (auto simp: Let_def split: prod.split) (metis snd_conv)

lemma keeps_type_members:
  assumes "\<forall>f \<in> set fs. keeps_type P (snd f)" and "P r"
  shows "P (snd (dec_members fs kvs r))"
  using assms
proof (induction fs kvs r rule: dec_members.induct)
  case (2 fs k v kvs r)
  show ?case
  proof (cases "find_field fs k")
    case (Some d)
    then have "\<exists>k. (k, d) \<in> set fs"
      by (auto simp: find_field_def find_Some_iff split: option.splits) (metis nth_mem prod.collapse)+
    then obtain k' where "(k', d) \<in> set fs" by blast
    then have "P (snd (d v r))" using keeps_typeD [of P d r v] "2.prems" by fastforce
    then show ?thesis using "2.IH"(2) [OF Some] "2.prems"(1) Some by (auto simp: Let_def split: prod.splits)
  qed (use 2 in simp)
qed simp

lemma keeps_type_struct: "\<forall>f \<in> set fs. keeps_type P (snd f) \<Longrightarrow> keeps_type P (dec_struct fs)"
  using keeps_type_members [of fs P] by (auto simp: keeps_type_def dec_struct_def split: json.split)

lemma keeps_type_slice [typed_intros]:
  assumes "keeps_type P d" and "P zero"
  shows "keeps_type (\<lambda>xs. \<forall>x \<in> set xs. P x) (dec_slice d zero)"
proof -
  have "\<forall>x \<in> set (snd (dec_elems d zero js)). P x" for js
    using keeps_typeD [OF assms] by (induction js) (auto simp: Let_def split: prod.split, metis snd_conv)
  then show ?thesis by (auto simp: keeps_type_def dec_slice_def split: json.split)
qed

locale typed_codec = codec +
  assumes valid_zero: "valid zero" and dec_keeps: "keeps_type valid dec"
begin

lemma dec_valid: "valid (snd (dec j zero))"
  by (rule keeps_typeD [OF dec_keeps valid_zero])

lemma DecodePayload_valid: "valid (snd (DecodePayload dec env zero))"
  using dec_valid valid_zero by (simp add: DecodePayload_def split: option.split)

lemma decoded_valid: "DecodePayload dec env zero = (err, x) \<Longrightarrow> valid x"
  using DecodePayload_valid [of env] by simp

lemma slice_valid: "\<forall>x \<in> set (snd (dec_slice dec zero j [])). valid x"
  using keeps_typeD [OF keeps_type_slice [OF dec_keeps valid_zero], of "[]"] by simp

end

lemma typed_range_zero [simp]: "in_int64 0" "in_uint64 0" "in_int64 1" "in_int64 (- 1)" "in_int64 124"
  by (simp_all add: in_int64_def in_uint64_def)

lemma keeps_type_fields:
  "\<lbrakk>\<And>r. P r \<Longrightarrow> in_int64 (get_i r); \<And>r x. P r \<Longrightarrow> in_int64 x \<Longrightarrow> P (upd_i (\<lambda>_. x) r)\<rbrakk> \<Longrightarrow> keeps_type P (into dec_int64 get_i upd_i)"
  "\<lbrakk>\<And>r. P r \<Longrightarrow> in_uint64 (get_i r); \<And>r x. P r \<Longrightarrow> in_uint64 x \<Longrightarrow> P (upd_i (\<lambda>_. x) r)\<rbrakk> \<Longrightarrow> keeps_type P (into dec_uint64 get_i upd_i)"
  "(\<And>r x. P r \<Longrightarrow> P (upd_s (\<lambda>_. x) r)) \<Longrightarrow> keeps_type P (into dec_string get_s upd_s)"
  "(\<And>r x. P r \<Longrightarrow> P (upd_b (\<lambda>_. x) r)) \<Longrightarrow> keeps_type P (into dec_bool get_b upd_b)"
  "(\<And>r x. P r \<Longrightarrow> P (upd_f (\<lambda>_. x) r)) \<Longrightarrow> keeps_type P (into dec_float get_f upd_f)"
  "(\<And>r x. P r \<Longrightarrow> P (upd_r (\<lambda>_. x) r)) \<Longrightarrow> keeps_type P (into dec_raw get_r upd_r)"
  by (blast intro: keeps_type_into keeps_type_scalars(1,2) keeps_type_scalars(3))+

interpretation Envelope_typed: typed_codec marshal_Envelope unmarshal_Envelope zero_Envelope valid_Envelope
  by unfold_locales
     (auto simp: zero_Envelope_def valid_Envelope_def unmarshal_Envelope_def intro!: keeps_type_struct keeps_type_fields)

interpretation CommandPayload_typed: typed_codec marshal_CommandPayload unmarshal_CommandPayload zero_CommandPayload valid_CommandPayload
  by unfold_locales
     (auto simp: zero_CommandPayload_def valid_CommandPayload_def unmarshal_CommandPayload_def intro!: keeps_type_struct keeps_type_fields)

interpretation ResultPayload_typed: typed_codec marshal_ResultPayload unmarshal_ResultPayload zero_ResultPayload valid_ResultPayload
  by unfold_locales
     (auto simp: zero_ResultPayload_def valid_ResultPayload_def unmarshal_ResultPayload_def intro!: keeps_type_struct keeps_type_fields)

interpretation HealthMetrics_typed: typed_codec marshal_HealthMetrics unmarshal_HealthMetrics zero_HealthMetrics valid_HealthMetrics
  by unfold_locales
     (auto simp: zero_HealthMetrics_def valid_HealthMetrics_def unmarshal_HealthMetrics_def intro!: keeps_type_struct keeps_type_fields)

interpretation HeartbeatPayload_typed: typed_codec marshal_HeartbeatPayload unmarshal_HeartbeatPayload zero_HeartbeatPayload valid_HeartbeatPayload
  by unfold_locales
     (auto simp: zero_HeartbeatPayload_def valid_HeartbeatPayload_def unmarshal_HeartbeatPayload_def HealthMetrics_typed.valid_zero
       intro!: keeps_type_struct keeps_type_fields keeps_type_into [OF HealthMetrics_typed.dec_keeps])

interpretation SyncReqPayload_typed: typed_codec marshal_SyncReqPayload unmarshal_SyncReqPayload zero_SyncReqPayload valid_SyncReqPayload
  by unfold_locales
     (auto simp: zero_SyncReqPayload_def valid_SyncReqPayload_def unmarshal_SyncReqPayload_def
       intro!: keeps_type_struct keeps_type_fields
         keeps_type_into [OF keeps_type_slice [OF ResultPayload_typed.dec_keeps ResultPayload_typed.valid_zero]])

interpretation FileInfo_typed: typed_codec marshal_FileInfo unmarshal_FileInfo zero_FileInfo valid_FileInfo
  by unfold_locales
     (auto simp: zero_FileInfo_def valid_FileInfo_def unmarshal_FileInfo_def intro!: keeps_type_struct keeps_type_fields)

interpretation FileListRespPayload_typed: typed_codec marshal_FileListRespPayload unmarshal_FileListRespPayload zero_FileListRespPayload valid_FileListRespPayload
  by unfold_locales
     (auto simp: zero_FileListRespPayload_def valid_FileListRespPayload_def unmarshal_FileListRespPayload_def
       intro!: keeps_type_struct keeps_type_fields keeps_type_into [OF keeps_type_slice [OF FileInfo_typed.dec_keeps FileInfo_typed.valid_zero]])

interpretation FileReadRespPayload_typed: typed_codec marshal_FileReadRespPayload unmarshal_FileReadRespPayload zero_FileReadRespPayload valid_FileReadRespPayload
  by unfold_locales
     (auto simp: zero_FileReadRespPayload_def valid_FileReadRespPayload_def unmarshal_FileReadRespPayload_def
       intro!: keeps_type_struct keeps_type_fields)

section \<open>Typed tables\<close>

definition command_typed :: "CommandRecord \<Rightarrow> bool" where
  "command_typed r \<longleftrightarrow> valid_CommandPayload (command_of_record r) \<and> in_int64 (cr_DispatchedAt r) \<and> in_int64 (cr_CompletedAt r)"

definition device_typed :: "DeviceRow \<Rightarrow> bool" where
  "device_typed d \<longleftrightarrow> in_int64 (dr_LastHeartbeat d) \<and> in_int64 (dr_ConnectedAt d)
     \<and> (\<forall>j. dr_HealthJSON d = Some j \<longrightarrow> (\<exists>m. valid_HealthMetrics m \<and> j = marshal_HealthMetrics m))"

definition result_typed :: "ResultRow \<Rightarrow> bool" where
  "result_typed r \<longleftrightarrow> in_int64 (rr_ExitCode r) \<and> in_int64 (rr_ExecutedAt r) \<and> in_int64 (rr_ReceivedAt r)"

definition cache_typed :: "FileCacheRow \<Rightarrow> bool" where
  "cache_typed f \<longleftrightarrow> in_int64 (fc_SizeBytes f) \<and> in_int64 (fc_UpdatedAt f)
     \<and> (\<forall>j. fc_FilesJSON f = Some j \<longrightarrow> (\<exists>files. (\<forall>x \<in> set files. valid_FileInfo x) \<and> j = enc_slice marshal_FileInfo files))"

definition db_typed :: "DB \<Rightarrow> bool" where
  "db_typed db \<longleftrightarrow> (\<forall>u \<in> set (Users db). valid_UserAccount u) \<and> (\<forall>d \<in> set (Devices db). device_typed d)
     \<and> (\<forall>r \<in> set (CloudCommandQueue db). command_typed r) \<and> (\<forall>r \<in> set (CloudResultQueue db). result_typed r)
     \<and> (\<forall>l \<in> set (AuditLogs db). valid_AuditLogRecord l)
     \<and> (\<forall>p \<in> set (TelemetryHistory db). valid_TelemetryPoint p \<and> sql_uint64s p)
     \<and> (\<forall>f \<in> set (CloudFileCache db). cache_typed f)"

lemma update_rows_all:
  "\<forall>r \<in> set rows. P r \<Longrightarrow> (\<And>r. P r \<Longrightarrow> P (f r)) \<Longrightarrow> \<forall>r \<in> set (update_rows q f rows). P r"
  by (auto simp: update_rows_def)

lemmas typed_rows = command_typed_def device_typed_def result_typed_def cache_typed_def command_of_record_def
  valid_CommandPayload_def

lemma device_writes_typed:
  assumes "db_typed db"
  shows "valid_DeviceInfo info \<Longrightarrow> db_typed (fst (UpsertDevice db info))"
    and "in_int64 now \<Longrightarrow> valid_HealthMetrics m \<Longrightarrow> db_typed (fst (UpdateDeviceHeartbeat now db d m st))"
    and "db_typed (fst (UpdateDeviceStatus db d st))"
    and "db_typed (fst (BindDeviceToUser db d u))"
    and "in_int64 now \<Longrightarrow> db_typed (fst (CreateUser u1 u2 now db name pw))"
    and "db_typed (ensure_device db d)"
  using assms
  by (auto simp: UpsertDevice_def UpdateDeviceHeartbeat_def UpdateDeviceStatus_def BindDeviceToUser_def CreateUser_def
      ensure_device_def db_typed_def valid_DeviceInfo_def valid_UserAccount_def typed_rows Let_def update_rows_def split: option.split)

lemma queue_writes_typed:
  assumes "db_typed db" and "in_int64 now"
  shows "valid_CommandPayload cmd \<Longrightarrow> db_typed (fst (EnqueueCommand now db cmd))"
    and "db_typed (fst (CancelPendingCommands now db d))"
    and "db_typed (fst (MarkCommandDispatched now db i))"
    and "db_typed (fst (MarkCommandCompleted now db i st))"
proof -
  show "db_typed (fst (EnqueueCommand now db cmd))" if "valid_CommandPayload cmd"
    using that assms device_writes_typed(6) [OF assms(1), of "cp_DeviceID cmd"]
    by (auto simp: EnqueueCommand_def db_typed_def typed_rows Let_def split: option.split)
  show "db_typed (fst (CancelPendingCommands now db d))" "db_typed (fst (MarkCommandDispatched now db i))"
    "db_typed (fst (MarkCommandCompleted now db i st))"
    using assms
    by (auto simp: CancelPendingCommands_def MarkCommandDispatched_def MarkCommandCompleted_def db_typed_def
        command_typed_def command_of_record_def valid_CommandPayload_def update_rows_def)
qed

lemma result_writes_typed:
  assumes "db_typed db" and "in_int64 now" and "valid_ResultPayload res"
  shows "db_typed (fst (SaveResult now db res))" and "db_typed (fst (SaveSandboxResult now db res))"
proof -
  have "db_typed (upsert_result now db res)"
    using assms by (auto simp: upsert_result_def db_typed_def result_typed_def valid_ResultPayload_def update_rows_def Let_def
        split: option.split)
  then show "db_typed (fst (SaveResult now db res))" "db_typed (fst (SaveSandboxResult now db res))"
    using queue_writes_typed(4) [OF _ assms(2)] by (simp_all add: SaveResult_def SaveSandboxResult_def Let_def)
qed

lemma log_writes_typed:
  assumes "db_typed db" and "in_int64 now"
  shows "valid_AuditLogRecord l \<Longrightarrow> db_typed (fst (RecordAuditLog now db l))"
    and "valid_TelemetryPoint p \<Longrightarrow> db_typed (fst (RecordTelemetry now db p))"
    and "(\<forall>x \<in> set files. valid_FileInfo x) \<Longrightarrow> db_typed (fst (CacheDirectoryListing now db d path files))"
    and "in_int64 n \<Longrightarrow> db_typed (fst (CacheFileContent now db d path content n))"
  using assms
  by (auto simp: RecordAuditLog_def RecordTelemetry_def CacheDirectoryListing_def CacheFileContent_def db_typed_def cache_typed_def
      valid_AuditLogRecord_def valid_TelemetryPoint_def update_rows_def Let_def split: option.split)

lemma scan_devices_typed:
  "\<forall>r \<in> set rs. device_typed r \<Longrightarrow> scan_devices rs = Inr ds \<Longrightarrow> \<forall>d \<in> set ds. valid_DeviceInfo d"
proof (induction rs arbitrary: ds)
  case (Cons r rs)
  have "valid_HealthMetrics (snd (unmarshal_HealthMetrics j zero_HealthMetrics))" for j by (rule HealthMetrics_typed.dec_valid)
  then show ?case
    using Cons HealthMetrics_typed.valid_zero
    by (auto simp: scan_device_def device_typed_def valid_DeviceInfo_def Let_def split: option.splits sum.splits if_splits)
qed simp

lemma ListDevices_typed:
  assumes "db_typed db"
  shows "ListDevices db = Inr ds \<Longrightarrow> \<forall>d \<in> set ds. valid_DeviceInfo d"
    and "ListDevicesForUser db u = Inr ds \<Longrightarrow> \<forall>d \<in> set ds. valid_DeviceInfo d"
proof -
  have rows: "\<forall>r \<in> set (sort_key f (Devices db)). device_typed r" "\<forall>r \<in> set (sort_key f (filter q (Devices db))). device_typed r"
    for f :: "DeviceRow \<Rightarrow> int" and q
    using assms by (auto simp: db_typed_def)
  show one: "ListDevices db = Inr ds \<Longrightarrow> \<forall>d \<in> set ds. valid_DeviceInfo d" for ds
    unfolding ListDevices_def by (rule scan_devices_typed [OF rows(1)])
  show "ListDevicesForUser db u = Inr ds \<Longrightarrow> \<forall>d \<in> set ds. valid_DeviceInfo d"
    using one scan_devices_typed [OF rows(2)] by (auto simp: ListDevicesForUser_def split: if_splits)
qed

lemma GetPendingCommands_typed: "db_typed db \<Longrightarrow> \<forall>cmd \<in> set (GetPendingCommands db d). valid_CommandPayload cmd"
  by (auto simp: GetPendingCommands_def db_typed_def command_typed_def)

end
