(* ===== verification/HubTyping.thy ===== *)
theory HubTyping
  imports WebProps Typing
begin

text \<open>
  Types and origins at the relay. Whatever the clients send, every number in the relay's tables and in the envelopes it
  has ready to send fits its Go type, so that the receiver decodes exactly what was encoded; and every command that is on
  its way to an agent, as a dispatch or in the answer to a synchronisation, is a command of the queue. Both are one
  invariant, \<open>hub_typed\<close>, that every handler keeps whenever it returns, with polite and impolite clients.
\<close>

section \<open>The invariant\<close>

definition env_typed :: "Env \<Rightarrow> bool" where
  \<comment> \<open>the clock, exit codes and durations are 64-bit numbers\<close>
  "env_typed e \<longleftrightarrow> in_int64 (unix_now e)
     \<and> (\<forall>argv t. in_int64 (run_ms (e_exec e argv t)) \<and> (\<forall>c. run_err (e_exec e argv t) = RunExit c \<longrightarrow> in_int64 c))"

definition recorded :: "DB \<Rightarrow> CommandPayload \<Rightarrow> bool" where
  "recorded db cmd \<longleftrightarrow> cmd \<in> command_of_record ` set (CloudCommandQueue db)"

text \<open>An envelope for a client that speaks for the devices \<open>D\<close>.\<close>

definition envelope_ok :: "string set \<Rightarrow> DB \<Rightarrow> Envelope \<Rightarrow> bool" where
  "envelope_ok D db env \<longleftrightarrow> valid_Envelope env
     \<and> (env_Type env = TypeDispatchCmd \<longrightarrow>
          (\<exists>cmd. env_Payload env = Some (marshal_CommandPayload cmd) \<and> valid_CommandPayload cmd \<and> recorded db cmd
             \<and> (\<exists>d \<in> D. ToLower d = ToLower (cp_DeviceID cmd))))
     \<and> (env_Type env = TypeSyncResp \<longrightarrow>
          (\<exists>resp. env_Payload env = Some (marshal_SyncRespPayload resp) \<and> valid_SyncRespPayload resp
             \<and> (\<forall>cmd \<in> set (sr_PendingCommands resp). recorded db cmd \<and> cp_DeviceID cmd \<in> D)))"

text \<open>
  What the invariant is relative to: the devices that each client speaks for, commands that are known to be in the
  queue, and a number of connections that were accepted.
\<close>

record Scope =
  speaks :: "cid \<Rightarrow> string set"
  known :: "CommandPayload set"
  accepted :: nat

definition hub_typed :: "Scope \<Rightarrow> Hub \<Rightarrow> bool" where
  "hub_typed S h \<longleftrightarrow> db_typed (h_store h) \<and> (\<forall>(d, a) \<in> set (h_agents h). d \<in> speaks S a) \<and> (\<forall>cmd \<in> known S. recorded (h_store h) cmd) \<and> accepted S \<le> h_next h
     \<and> (\<forall>c. \<forall>env \<in> set (c_send (h_clients h c)). envelope_ok (speaks S c) (h_store h) env)"

definition typed_ret :: "Scope \<Rightarrow> Hub outcome \<Rightarrow> bool" where
  "typed_ret S m \<longleftrightarrow> (\<forall>h. m = Ret h \<longrightarrow> hub_typed S h)"

section \<open>The steps handlers are made of\<close>

lemma store_step_recorded: "store_step db db' \<Longrightarrow> recorded db cmd \<Longrightarrow> recorded db' cmd"
proof -
  have upd: "command_of_record ` set (update_rows p (\<lambda>r. r\<lparr>cr_Status := s, cr_CompletedAt := t\<rparr>) rows) = command_of_record ` set rows"
    "command_of_record ` set (update_rows p (\<lambda>r. r\<lparr>cr_Status := s, cr_DispatchedAt := t\<rparr>) rows) = command_of_record ` set rows" for p s t rows
    by (simp_all add: image_key_update_rows command_of_record_def)
  have queue: "CloudCommandQueue (upsert_result now db res) = CloudCommandQueue db" for now db res
    by (simp add: upsert_result_def Let_def split: option.split)
  show "store_step db db' \<Longrightarrow> recorded db cmd \<Longrightarrow> recorded db' cmd"
    unfolding recorded_def
    by (erule store_step.cases; simp add: UpsertDevice_def UpdateDeviceHeartbeat_def UpdateDeviceStatus_def BindDeviceToUser_def
          CreateUser_def EnqueueCommand_def CancelPendingCommands_def MarkCommandDispatched_def MarkCommandCompleted_def SaveResult_def
          SaveSandboxResult_def RecordAuditLog_def RecordTelemetry_def CacheDirectoryListing_def CacheFileContent_def queue upd
          Let_def split: option.split)
qed

lemma envelope_ok_mono: "store_step db db' \<Longrightarrow> envelope_ok D db env \<Longrightarrow> envelope_ok D db' env"
  using store_step_recorded by (fastforce simp: envelope_ok_def)

lemma hub_typed_store:
  "hub_typed S h \<Longrightarrow> store_step (h_store h) db \<Longrightarrow> db_typed db \<Longrightarrow> hub_typed S (h\<lparr>h_store := db\<rparr>)"
  using envelope_ok_mono store_step_recorded by (auto simp: hub_typed_def)

lemma hub_typed_upd_store:
  "hub_typed S h \<Longrightarrow> store_step (h_store h) (fst (f (h_store h))) \<Longrightarrow> db_typed (fst (f (h_store h))) \<Longrightarrow> hub_typed S (upd_store f h)"
  unfolding upd_store_def by (rule hub_typed_store)

lemma hub_typed_db: "hub_typed S h \<Longrightarrow> db_typed (h_store h)"
  by (simp add: hub_typed_def)

lemma hub_typed_ghost [simp]:
  "hub_typed S (h\<lparr>h_uuids := n\<rparr>) = hub_typed S h" "hub_typed S (h\<lparr>h_wol := w\<rparr>) = hub_typed S h"
  "hub_typed S (h\<lparr>h_controllers := cs\<rparr>) = hub_typed S h"
  by (simp_all add: hub_typed_def)

lemma hub_typed_upd_client [simp]:
  "(\<And>cl. c_send (f cl) = c_send cl) \<Longrightarrow> hub_typed S (upd_client c f h) = hub_typed S h"
  by (auto simp: hub_typed_def upd_client_def)

lemma envelope_ok_new [simp]:
  "t \<notin> {TypeDispatchCmd, TypeSyncResp} \<Longrightarrow> in_int64 now \<Longrightarrow> envelope_ok D db (NewEnvelope uuid now t d p)"
  by (simp add: envelope_ok_def NewEnvelope_def valid_Envelope_def)

lemma envelope_ok_other:
  "env_Type env \<notin> {TypeDispatchCmd, TypeSyncResp} \<Longrightarrow> valid_Envelope env \<Longrightarrow> envelope_ok D db env"
  by (simp add: envelope_ok_def)

lemma Send_typed: "hub_typed S h \<Longrightarrow> envelope_ok (speaks S c) (h_store h) env \<Longrightarrow> Send h c env = Ret h' \<Longrightarrow>
   hub_typed S h' \<and> h_store h' = h_store h \<and> h_agents h' = h_agents h"
  by (auto simp: Send_def hub_typed_def upd_client_def split: if_splits)

lemma sendAll_typed:
  "hub_typed S h \<Longrightarrow> (\<And>D. envelope_ok D (h_store h) env) \<Longrightarrow> sendAll h cs env = Ret h' \<Longrightarrow> hub_typed S h' \<and> h_store h' = h_store h"
proof (induction cs arbitrary: h)
  case (Cons c cs)
  then obtain s where s: "Send h c env = Ret s" "sendAll s cs env = Ret h'" by (auto simp: andThen_Ret_iff)
  then show ?case using Cons.IH [of s] Cons.prems Send_typed [OF Cons.prems(1,2) s(1)] by simp
qed simp

lemma typed_ret_simps [simp]: "typed_ret S (Ret h) = hub_typed S h" "typed_ret S (Panic p)"
  by (simp_all add: typed_ret_def)

lemma typed_ret_Send: "hub_typed S h \<Longrightarrow> envelope_ok (speaks S c) (h_store h) env \<Longrightarrow> typed_ret S (Send h c env)"
  unfolding typed_ret_def using Send_typed by blast

lemma typed_ret_sendAll: "hub_typed S h \<Longrightarrow> (\<And>D. envelope_ok D (h_store h) env) \<Longrightarrow> typed_ret S (sendAll h cs env)"
  unfolding typed_ret_def using sendAll_typed by blast

lemma typed_ret_andThen: "(\<And>x. m = Ret x \<Longrightarrow> typed_ret S (f x)) \<Longrightarrow> typed_ret S (andThen m f)"
  by (cases m) auto

lemma typed_ret_after_Send:
  assumes "hub_typed S h" and "envelope_ok (speaks S c) (h_store h) env"
    and "\<And>s. hub_typed S s \<Longrightarrow> h_store s = h_store h \<Longrightarrow> typed_ret S (f s)"
  shows "typed_ret S (andThen (Send h c env) f)"
  using assms Send_typed by (intro typed_ret_andThen) blast

lemma typed_ret_seq: "typed_ret S m \<Longrightarrow> (\<And>s. hub_typed S s \<Longrightarrow> typed_ret S (f s)) \<Longrightarrow> typed_ret S (andThen m f)"
  by (rule typed_ret_andThen) (auto simp: typed_ret_def)

lemma typed_ret_if: "(b \<Longrightarrow> typed_ret S m) \<Longrightarrow> (\<not> b \<Longrightarrow> typed_ret S m') \<Longrightarrow> typed_ret S (if b then m else m')"
  by simp

section \<open>Handlers\<close>

lemma typed_sendError: "hub_typed S h \<Longrightarrow> in_int64 (unix_now e) \<Longrightarrow> typed_ret S (sendError e h c cd msg)"
  by (auto simp: sendError_def newEnvelope_def intro!: typed_ret_Send)

lemma typed_broadcasts:
  assumes "hub_typed S h"
  shows "in_int64 (unix_now e) \<Longrightarrow> typed_ret S (broadcastDeviceStatusLocked e h d st)"
    and "(\<And>D. envelope_ok D (h_store h) env) \<Longrightarrow> typed_ret S (broadcastDeviceResult h d env)"
    and "(\<And>D. envelope_ok D (h_store h) env) \<Longrightarrow> typed_ret S (broadcastToControllers h env)"
  using assms
  by (auto simp: broadcastDeviceStatusLocked_def broadcastDeviceResult_def broadcastToControllers_def newEnvelope_def Let_def
      intro!: typed_ret_sendAll)

lemma typed_answers:
  assumes "hub_typed S h" and "in_int64 (unix_now e)"
  shows "typed_ret S (handleGetDevices e h c)" and "typed_ret S (handleGetAuditLogs e h c env)"
  using assms by (auto simp: handleGetDevices_def handleGetAuditLogs_def newEnvelope_def Let_def intro!: typed_ret_Send)

lemma typed_dispatch_all:
  assumes "in_int64 (unix_now e)"
  shows "hub_typed S h \<Longrightarrow> \<forall>cmd \<in> set cmds. valid_CommandPayload cmd \<and> recorded (h_store h) cmd
      \<and> (\<exists>d \<in> speaks S a. ToLower d = ToLower (cp_DeviceID cmd)) \<Longrightarrow>
    typed_ret S (dispatch_all e h a cmds)"
proof (induction cmds arbitrary: h)
  case (Cons cmd cmds)
  let ?env = "NewEnvelope (e_uuid e (h_uuids h)) (unix_now e) TypeDispatchCmd (c_deviceID (h_clients h a)) (Some (marshal_CommandPayload cmd))"
  have "envelope_ok (speaks S a) (h_store h) ?env"
    using Cons.prems(2) assms by (auto simp: envelope_ok_def NewEnvelope_def valid_Envelope_def)
  moreover have "typed_ret S (dispatch_all e (upd_store (\<lambda>db. MarkCommandDispatched (unix_now e) db (cp_CommandID cmd)) s) a cmds)"
    if "hub_typed S s" "h_store s = h_store h" for s
  proof (rule Cons.IH)
    note ev = store_step.dispatched [of "h_store s" "unix_now e" "cp_CommandID cmd"]
    have "db_typed (h_store s)" using that(1) by (simp add: hub_typed_def)
    then show "hub_typed S (upd_store (\<lambda>db. MarkCommandDispatched (unix_now e) db (cp_CommandID cmd)) s)"
      by (intro hub_typed_upd_store that ev queue_writes_typed(3) assms)
    show "\<forall>x \<in> set cmds. valid_CommandPayload x
        \<and> recorded (h_store (upd_store (\<lambda>db. MarkCommandDispatched (unix_now e) db (cp_CommandID cmd)) s)) x
        \<and> (\<exists>d \<in> speaks S a. ToLower d = ToLower (cp_DeviceID x))"
      using Cons.prems(2) that(2) store_step_recorded [OF ev] by (auto simp: upd_store_def)
  qed
  ultimately show ?case
    using Cons.prems(1) by (auto simp: newEnvelope_def intro!: typed_ret_after_Send)
qed simp

lemma pending_recorded: "\<forall>cmd \<in> set (GetPendingCommands db d). recorded db cmd \<and> cp_DeviceID cmd = d"
  by (auto simp: GetPendingCommands_def recorded_def command_of_record_def)

lemma hub_typed_agent:
  assumes "hub_typed S h"
  shows "map_of (h_agents h) d = Some a \<Longrightarrow> d \<in> speaks S a"
    and "getAgentClient h d = Some a \<Longrightarrow> \<exists>d' \<in> speaks S a. ToLower d' = ToLower d"
  using assms by (auto simp: hub_typed_def getAgentClient_def find_Some_iff dest!: map_of_SomeD split: option.splits)
     (metis nth_mem case_prodD fst_conv snd_conv)+

lemma typed_flush: "hub_typed S h \<Longrightarrow> in_int64 (unix_now e) \<Longrightarrow> typed_ret S (flushPendingCommands e h d)"
  using GetPendingCommands_typed [OF hub_typed_db, of S h d] pending_recorded [of "h_store h" d] hub_typed_agent(2) [of S h d]
  by (auto simp: flushPendingCommands_def Let_def split: option.split intro!: typed_dispatch_all)

lemma upd_store_simps [simp]: "h_store (upd_store f h) = fst (f (h_store h))" "h_store (upd_client c g h) = h_store h"
  by (simp_all add: upd_store_def upd_client_def)

lemma hub_typed_writes:
  assumes "hub_typed S h"
  shows "valid_DeviceInfo info \<Longrightarrow> hub_typed S (upd_store (\<lambda>db. UpsertDevice db info) h)"
    and "hub_typed S (upd_store (\<lambda>db. UpdateDeviceStatus db d st) h)"
    and "hub_typed S (upd_store (\<lambda>db. BindDeviceToUser db d u) h)"
    and "in_int64 now \<Longrightarrow> valid_HealthMetrics m \<Longrightarrow> hub_typed S (upd_store (\<lambda>db. UpdateDeviceHeartbeat now db d m st) h)"
    and "in_int64 now \<Longrightarrow> hub_typed S (upd_store (\<lambda>db. MarkCommandDispatched now db i) h)"
    and "in_int64 now \<Longrightarrow> hub_typed S (upd_store (\<lambda>db. MarkCommandCompleted now db i StatusCompleted) h)"
    and "in_int64 now \<Longrightarrow> valid_ResultPayload res \<Longrightarrow> hub_typed S (upd_store (\<lambda>db. SaveResult now db res) h)"
    and "in_int64 now \<Longrightarrow> valid_ResultPayload res \<Longrightarrow> hub_typed S (upd_store (\<lambda>db. SaveSandboxResult now db res) h)"
    and "in_int64 now \<Longrightarrow> valid_AuditLogRecord l \<Longrightarrow> hub_typed S (upd_store (\<lambda>db. RecordAuditLog now db l) h)"
    and "in_int64 now \<Longrightarrow> valid_TelemetryPoint p \<Longrightarrow> hub_typed S (upd_store (\<lambda>db. RecordTelemetry now db p) h)"
    and "in_int64 now \<Longrightarrow> \<forall>x \<in> set files. valid_FileInfo x \<Longrightarrow>
      hub_typed S (upd_store (\<lambda>db. CacheDirectoryListing now db d path files) h)"
    and "in_int64 now \<Longrightarrow> in_int64 n \<Longrightarrow> hub_typed S (upd_store (\<lambda>db. CacheFileContent now db d path content n) h)"
  by (rule hub_typed_upd_store [OF assms],
      (rule store_step.intros; simp),
      (rule device_writes_typed queue_writes_typed result_writes_typed log_writes_typed, rule hub_typed_db [OF assms], assumption+ |
       rule device_writes_typed, rule hub_typed_db [OF assms]))+

lemma hub_typed_agents:
  "hub_typed S h \<Longrightarrow> \<forall>(d, a) \<in> set al. d \<in> speaks S a \<Longrightarrow> hub_typed S (h\<lparr>h_agents := al\<rparr>)"
  by (simp add: hub_typed_def)

lemma typed_register_agent:
  assumes "hub_typed S h" and "in_int64 (unix_now e)" and "ap_DeviceID p \<in> speaks S c"
  shows "typed_ret S (register_agent e h c p user)"
proof -
  define h1 where "h1 = (case map_of (h_agents h) (ap_DeviceID p) of
      Some old \<Rightarrow> if old \<noteq> c then upd_client old (\<lambda>cl. cl\<lparr>c_connClosed := True\<rparr>) h else h
    | None \<Rightarrow> h)"
  have "hub_typed S h1" using assms(1) by (auto simp: h1_def split: option.split)
  moreover have upd: "\<forall>(d, a) \<in> set (AList.update d' c al). d \<in> speaks S a" if "\<forall>(d, a) \<in> set al. d \<in> speaks S a" "d' \<in> speaks S c" for al d'
    using that by (induction al) auto
  ultimately have h1: "hub_typed S (h1\<lparr>h_agents := AList.update (ap_DeviceID p) c (h_agents h1)\<rparr>)"
    using assms(3) by (intro hub_typed_agents upd) (simp_all add: hub_typed_def)

  have v: "valid_DeviceInfo \<lparr>di_DeviceID = d, di_UserID = u, di_Hostname = n, di_OS = os, di_Status = st, di_LastHeartbeat = unix_now e,
      di_ConnectedAt = unix_now e, di_MACAddress = mac, di_Metrics = zero_HealthMetrics\<lparr>hm_MACAddress := mac\<rparr>\<rparr>" for d u n os st mac
    using assms(2) by (simp add: valid_DeviceInfo_def valid_HealthMetrics_def zero_HealthMetrics_def)
  show ?thesis
    unfolding register_agent_def h1_def [symmetric] Let_def
    using h1 assms(2) by (auto simp: Let_def split: option.split intro!: typed_broadcasts(1) hub_typed_writes(1,3) v)
qed

lemma typed_handleAuth:
  assumes "hub_typed S h" and "in_int64 (unix_now e)"
    and "\<And>p. DecodePayload unmarshal_AuthPayload env zero_AuthPayload = (False, p) \<Longrightarrow> ap_Role p = RoleAgent \<Longrightarrow> ap_DeviceID p \<in> speaks S c"
  shows "typed_ret S (handleAuth e h c env)"
proof -
  obtain err p where d: "DecodePayload unmarshal_AuthPayload env zero_AuthPayload = (err, p)" by fastforce
  define user where "user = GetUserByToken (h_store h) (ap_Token p)"
  define h1 where "h1 = upd_client c (\<lambda>cl. cl\<lparr>c_role := ap_Role p, c_deviceID := ap_DeviceID p, c_authed := True,
      c_userID := (case user of Some u \<Rightarrow> ua_UserID u | None \<Rightarrow> c_userID cl)\<rparr>) h"
  have h1: "hub_typed S h1" using assms(1) by (simp add: h1_def)
  have reg: "typed_ret S (if ap_Role p = RoleAgent then register_agent e h1 c p user
      else Ret (h1\<lparr>h_controllers := List.insert c (h_controllers h1)\<rparr>))" if "\<not> err"
    using typed_register_agent [OF h1 assms(2)] h1 assms(3) [of p] d that by simp
  have rest: "typed_ret S (andThen (if ap_Role p = RoleController then handleGetDevices e s c else Ret s)
      (\<lambda>h. if ap_Role p = RoleAgent then flushPendingCommands e h (ap_DeviceID p) else Ret h))" if "hub_typed S s" for s
    by (rule typed_ret_seq) (auto intro: that typed_answers(1) typed_flush assms(2))
  have ack: "typed_ret S (andThen (Send (s\<lparr>h_uuids := n\<rparr>) c (NewEnvelope uuid (unix_now e) TypeAuthAck d' b))
      (\<lambda>s. andThen (if ap_Role p = RoleController then handleGetDevices e s c else Ret s)
      (\<lambda>h. if ap_Role p = RoleAgent then flushPendingCommands e h (ap_DeviceID p) else Ret h)))" if "hub_typed S s" for s n uuid d' b
    using that assms(2) by (intro typed_ret_after_Send rest) auto
  show ?thesis
    unfolding handleAuth_def d prod.case Let_def newEnvelope_def user_def [symmetric] h1_def [symmetric]
    by (intro typed_ret_if typed_sendError typed_ret_Send typed_ret_seq [OF reg] ack assms(1,2)) (use assms(1,2) in auto)
qed

lemma telemetry_typed: "in_int64 now \<Longrightarrow> valid_HeartbeatPayload p \<Longrightarrow> valid_TelemetryPoint (telemetry_of now p)"
  by (simp add: telemetry_of_def valid_TelemetryPoint_def valid_HeartbeatPayload_def valid_HealthMetrics_def Let_def)

lemma typed_handleHeartbeat:
  assumes "hub_typed S h" and "in_int64 (unix_now e)"
  shows "typed_ret S (handleHeartbeat e h c env)"
proof -
  obtain err p where d: "DecodePayload unmarshal_HeartbeatPayload env zero_HeartbeatPayload = (err, p)" by fastforce
  note v = HeartbeatPayload_typed.decoded_valid [OF d]
  let ?h1 = "upd_store (\<lambda>db. UpdateDeviceHeartbeat (unix_now e) db (hb_DeviceID p) (hb_Metrics p) StatusOnline) h"
  let ?h2 = "upd_store (\<lambda>db. RecordTelemetry (unix_now e) db (telemetry_of (unix_now e) p)) ?h1"
  have "hub_typed S ?h2"
    using v by (intro hub_typed_writes telemetry_typed assms) (simp_all add: valid_HeartbeatPayload_def)
  then show ?thesis
    using assms by (auto simp: handleHeartbeat_def d newEnvelope_def Let_def intro!: typed_ret_after_Send typed_ret_sendAll)
qed

section \<open>Commands and results\<close>

lemma sandbox_typed: "env_typed e \<Longrightarrow> valid_ResultPayload (executeCloudSandbox e cmd)"
  by (auto simp: executeCloudSandbox_def valid_ResultPayload_def env_typed_def Let_def split: run_err.split prod.split)

lemma predefined_typed:
  assumes "tryExecutePredefinedOffline e db cmd = Ret (Some (res, db', wol))" and "env_typed e" and "db_typed db"
  shows "valid_ResultPayload res \<and> db_typed db' \<and> (db' = db \<or> store_step db db')"
proof -
  obtain out where r: "predefined_stdout e db cmd = Ret (Some (out, db', wol))" "res = \<lparr>rp_ResultID = cp_CommandID cmd,
      rp_CommandID = cp_CommandID cmd, rp_DeviceID = cp_DeviceID cmd, rp_Stdout = out, rp_Stderr = '''', rp_ExitCode = 0,
      rp_ExecutedAt = unix_now e, rp_DurationMs = 1, rp_TimedOut = False\<rparr>"
    using assms(1) by (auto simp: tryExecutePredefinedOffline_def andThen_Ret_iff)
  then show ?thesis
    using predefined_db [OF r(1)] assms(2,3) queue_writes_typed(2) store_step.cancel
    by (auto simp: valid_ResultPayload_def env_typed_def)
qed

lemma typed_run_offline:
  assumes "hub_typed S h" and "env_typed e" and "run_offline e h p = Ret (b, res, h')"
  shows "hub_typed S h' \<and> valid_ResultPayload res"
proof -
  have now: "in_int64 (unix_now e)" using assms(2) by (simp add: env_typed_def)
  obtain r where r: "tryExecutePredefinedOffline e (h_store h) p = Ret r"
    using assms(3) by (auto simp: run_offline_def andThen_Ret_iff Let_def)
  show ?thesis
  proof (cases r)
    case None
    then show ?thesis
      using assms(3) r sandbox_typed [OF assms(2), of p] hub_typed_writes(9) [OF hub_typed_writes(8) [OF assms(1) now] now]
      by (auto simp: run_offline_def Let_def cloud_script_log_def valid_AuditLogRecord_def valid_ResultPayload_def)
  next
    case (Some x)
    then obtain res' db' wol where x: "r = Some (res', db', wol)" by (cases x) auto
    note t = predefined_typed [OF r [unfolded x] assms(2) hub_typed_db [OF assms(1)]]
    have "hub_typed S (h\<lparr>h_store := db', h_wol := w\<rparr>)" for w
      using t hub_typed_store [OF assms(1), of db'] assms(1) by auto
    note w = hub_typed_writes(9) [OF hub_typed_writes(6) [OF hub_typed_writes(7) [OF this now] now] now]
    show ?thesis
      using assms(3) r x t
      by (auto simp: run_offline_def Let_def cloud_exec_log_def valid_AuditLogRecord_def valid_ResultPayload_def intro!: w)
  qed
qed

lemma complete_command_typed:
  assumes "complete_command e h p = (p', h')" and "valid_CommandPayload p" and "in_int64 (unix_now e)"
  shows "valid_CommandPayload p' \<and> (\<exists>n. h' = h\<lparr>h_uuids := n\<rparr>) \<and> (cp_CreatedAt p' = 0 \<longrightarrow> unix_now e = 0)"
  using assms by (auto simp: complete_command_def newUUID_def valid_CommandPayload_def Let_def split: if_splits) (metis Hub.surjective Hub.update_convs(7))+

lemma EnqueueCommand_recorded:
  assumes "EnqueueCommand now db p = (db', None)" and "cp_CreatedAt p = 0 \<longrightarrow> now = 0"
  shows "recorded db' p"
  using assms by (auto simp: EnqueueCommand_def recorded_def command_of_record_def Let_def split: option.splits)

lemma EnqueueCommand_hub:
  assumes "hub_typed S h" and "valid_CommandPayload p" and "in_int64 (unix_now e)" and "EnqueueCommand (unix_now e) (h_store h) p = (db, err)"
  shows "hub_typed S (h\<lparr>h_store := db\<rparr>)"
  using hub_typed_store [OF assms(1) store_step.enqueue queue_writes_typed(1) [OF hub_typed_db [OF assms(1)] assms(3,2)]] assms(4)
  by simp

lemma dispatch_envelope_ok:
  "in_int64 now \<Longrightarrow> valid_CommandPayload p \<Longrightarrow> recorded db p \<Longrightarrow> d' \<in> D \<Longrightarrow> ToLower d' = ToLower (cp_DeviceID p) \<Longrightarrow>
   envelope_ok D db (NewEnvelope uuid now TypeDispatchCmd d (Some (marshal_CommandPayload p)))"
  by (auto simp: envelope_ok_def NewEnvelope_def valid_Envelope_def)

lemma typed_dispatch:
  assumes "hub_typed S h" and "in_int64 (unix_now e)" and "valid_CommandPayload p" and "recorded (h_store h) p"
    and "\<exists>d' \<in> speaks S a. ToLower d' = ToLower (cp_DeviceID p)" and "\<And>s. hub_typed S s \<Longrightarrow> typed_ret S (f s)"
  shows "typed_ret S (andThen (Send (h\<lparr>h_uuids := n\<rparr>) a (NewEnvelope uuid (unix_now e) TypeDispatchCmd d (Some (marshal_CommandPayload p))))
    (\<lambda>h. f (upd_store (\<lambda>db. MarkCommandDispatched (unix_now e) db (cp_CommandID p)) h)))"
  using assms by (intro typed_ret_after_Send assms(6) hub_typed_writes(5)) (auto intro: dispatch_envelope_ok)

lemma typed_handleEnqueueCmd:
  assumes "hub_typed S h" and "env_typed e" and "valid_Envelope env" and "env_Type env = TypeEnqueueCmd"
  shows "typed_ret S (handleEnqueueCmd e h c env)"
proof -
  have now: "in_int64 (unix_now e)" using assms(2) by (simp add: env_typed_def)
  obtain err p where d: "DecodePayload unmarshal_CommandPayload env zero_CommandPayload = (err, p)" by fastforce
  obtain p' h' where cc: "complete_command e h p = (p', h')" by fastforce
  obtain db serr where enq: "EnqueueCommand (unix_now e) (h_store h') p' = (db, serr)" by fastforce
  note cct = complete_command_typed [OF cc CommandPayload_typed.decoded_valid [OF d] now]
  have h': "hub_typed S h'" using cct assms(1) by auto
  have h2: "hub_typed S (h'\<lparr>h_store := db\<rparr>)" by (rule EnqueueCommand_hub [OF h' _ now enq]) (use cct in simp)
  have fwd: "envelope_ok D db' env" for D db' using assms(3,4) by (intro envelope_ok_other) auto
  have on: "typed_ret S (andThen (Send (h'\<lparr>h_store := db, h_uuids := n\<rparr>) a
        (NewEnvelope uuid (unix_now e) TypeDispatchCmd d' (Some (marshal_CommandPayload p'))))
      (\<lambda>h. broadcastDeviceResult (upd_store (\<lambda>db. MarkCommandDispatched (unix_now e) db (cp_CommandID p')) h) (cp_DeviceID p') env))"
    if "serr = None" "getAgentClient (h'\<lparr>h_store := db\<rparr>) (cp_DeviceID p') = Some a" for n a uuid d'
    by (rule typed_dispatch [OF h2 now, where f = "\<lambda>s. broadcastDeviceResult s (cp_DeviceID p') env"])
       (use cct EnqueueCommand_recorded [OF enq [unfolded that]] fwd hub_typed_agent(2) [OF h2 that(2)] in \<open>auto intro: typed_broadcasts(2)\<close>)
  have off: "typed_ret S (andThen (run_offline e (h'\<lparr>h_store := db\<rparr>) p') (\<lambda>(predefined, res, h).
      let (resEnv, h) = newEnvelope e h TypeCmdResult (cp_DeviceID p') (marshal_ResultPayload res)
      in broadcastDeviceResult h (cp_DeviceID p') resEnv))"
    using typed_run_offline [OF h2 assms(2)] now
    by (intro typed_ret_andThen) (auto simp: newEnvelope_def intro!: typed_broadcasts(2))
  show ?thesis
    using on off h2 typed_sendError [OF h2 now] typed_sendError [OF assms(1) now]
    by (auto simp: handleEnqueueCmd_def d cc enq newEnvelope_def [of e "h'\<lparr>h_store := db\<rparr>"] Let_def split: option.split)
qed

lemma typed_EnqueueDirect:
  assumes "hub_typed S h" and "env_typed e" and "valid_CommandPayload p" and "EnqueueDirect e h p = Ret (err, h'')"
  shows "hub_typed S h''"
proof -
  have now: "in_int64 (unix_now e)" using assms(2) by (simp add: env_typed_def)
  obtain p' h' where cc: "complete_command e h p = (p', h')" by fastforce
  obtain db serr where enq: "EnqueueCommand (unix_now e) (h_store h') p' = (db, serr)" by fastforce
  note cct = complete_command_typed [OF cc assms(3) now]
  have h': "hub_typed S h'" using cct assms(1) by auto
  have h2: "hub_typed S (h'\<lparr>h_store := db\<rparr>)" by (rule EnqueueCommand_hub [OF h' _ now enq]) (use cct in simp)
  have on: "typed_ret S (andThen (Send (h'\<lparr>h_store := db, h_uuids := n\<rparr>) a
        (NewEnvelope uuid (unix_now e) TypeDispatchCmd d' (Some (marshal_CommandPayload p'))))
      (\<lambda>h. let (env, h) = newEnvelope e (upd_store (\<lambda>db. MarkCommandDispatched (unix_now e) db (cp_CommandID p')) h)
             TypeEnqueueCmd (cp_DeviceID p') (marshal_CommandPayload p') in broadcastToControllers h env))"
    if "serr = None" "map_of (h_agents h') (cp_DeviceID p') = Some a" for n a uuid d'
    by (rule typed_dispatch [OF h2 now, where f = "\<lambda>s. let (env, h) = newEnvelope e s TypeEnqueueCmd (cp_DeviceID p')
          (marshal_CommandPayload p') in broadcastToControllers h env"])
       (use cct EnqueueCommand_recorded [OF enq [unfolded that]] now hub_typed_agent(1) [OF h' that(2)] in \<open>auto simp: newEnvelope_def intro!: typed_broadcasts(3)\<close>)
  have off: "typed_ret S (andThen (run_offline e (h'\<lparr>h_store := db\<rparr>) p') (\<lambda>(predefined, res, h).
      let (resEnv, h) = newEnvelope e h TypeCmdResult (cp_DeviceID p') (marshal_ResultPayload res)
      in if predefined then broadcastToControllers h resEnv else broadcastDeviceResult h (cp_DeviceID p') resEnv))"
    using typed_run_offline [OF h2 assms(2)] now
    by (intro typed_ret_andThen) (auto simp: newEnvelope_def intro!: typed_broadcasts(2,3))
  show ?thesis
    using assms(1,4) on off h2
    by (simp add: EnqueueDirect_def cc enq newEnvelope_def andThen_Ret_iff typed_ret_def Let_def split: option.splits if_splits prod.splits)
       blast+
qed

section \<open>Results, synchronisation and routing\<close>

lemma typed_handleCmdResult:
  assumes "hub_typed S h" and "in_int64 (unix_now e)" and "valid_Envelope env" and "env_Type env = TypeCmdResult"
  shows "typed_ret S (handleCmdResult e h c env)"
proof -
  obtain err p where d: "DecodePayload unmarshal_ResultPayload env zero_ResultPayload = (err, p)" by fastforce
  have v: "valid_AuditLogRecord (exec_log t p)" for t
    using ResultPayload_typed.decoded_valid [OF d] by (simp add: exec_log_def valid_AuditLogRecord_def valid_ResultPayload_def)
  note w = hub_typed_writes(9) [OF hub_typed_writes(7) [OF assms(1,2) ResultPayload_typed.decoded_valid [OF d]] assms(2) v]
  have fwd: "envelope_ok D db env" for D db using assms(3,4) by (intro envelope_ok_other) auto
  show ?thesis
    using w assms(1,2) fwd
    by (auto simp: handleCmdResult_def d newEnvelope_def Let_def intro!: typed_ret_after_Send typed_broadcasts(3))
qed

lemma typed_sync_results:
  "hub_typed S h \<Longrightarrow> in_int64 (unix_now e) \<Longrightarrow> \<forall>r \<in> set rs. valid_ResultPayload r \<Longrightarrow> sync_results e h d rs = Ret (acked, h') \<Longrightarrow> hub_typed S h'"
proof (induction rs arbitrary: h acked)
  case (Cons res rs)
  have w: "hub_typed S (h\<lparr>h_store := fst (SaveResult (unix_now e) (h_store h) res)\<rparr>)"
    using hub_typed_writes(7) [OF Cons.prems(1,2), of res] Cons.prems(3) by (simp add: upd_store_def)
  have b: "hub_typed S s'" if "hub_typed S s" "broadcastToControllers s (NewEnvelope u (unix_now e) TypeCmdResult d p) = Ret s'" for s s' u p
    using typed_broadcasts(3) [OF that(1) envelope_ok_new, of TypeCmdResult] that(2) Cons.prems(2) by (simp add: typed_ret_def)
  show ?case
    using Cons.prems(2-) w Cons.IH
    by (auto simp: newEnvelope_def Let_def andThen_Ret_iff split: prod.splits option.splits)
       (metis b hub_typed_ghost(1))
qed simp

lemma mark_all_dispatched_typed:
  "hub_typed S h \<Longrightarrow> in_int64 now \<Longrightarrow> hub_typed S (h\<lparr>h_store := mark_all_dispatched now (h_store h) cmds\<rparr>)
     \<and> (\<forall>x. recorded (h_store h) x \<longrightarrow> recorded (mark_all_dispatched now (h_store h) cmds) x)"
proof (induction cmds arbitrary: h)
  case (Cons cmd cmds)
  let ?h = "upd_store (\<lambda>db. MarkCommandDispatched now db (cp_CommandID cmd)) h"
  have "hub_typed S ?h" by (rule hub_typed_writes(5) [OF Cons.prems])
  from Cons.IH [OF this Cons.prems(2)] show ?case
    using store_step_recorded [OF store_step.dispatched [of "h_store h" now "cp_CommandID cmd"]]
    by (auto simp: mark_all_dispatched_def upd_store_def)
qed (simp add: mark_all_dispatched_def)

lemma typed_handleSyncReq:
  assumes "hub_typed S h" and "in_int64 (unix_now e)"
    and "\<And>req. DecodePayload unmarshal_SyncReqPayload env zero_SyncReqPayload = (False, req) \<Longrightarrow> sq_DeviceID req \<in> speaks S c"
  shows "typed_ret S (handleSyncReq e h c env)"
proof -
  obtain err req where d: "DecodePayload unmarshal_SyncReqPayload env zero_SyncReqPayload = (err, req)" by fastforce
  have v: "\<forall>r \<in> set (sq_UnsyncedResults req). valid_ResultPayload r"
    using SyncReqPayload_typed.decoded_valid [OF d] by (simp add: valid_SyncReqPayload_def)
  have "typed_ret S (Send (s\<lparr>h_store := mark_all_dispatched (unix_now e) (h_store s) pending, h_uuids := n\<rparr>) c
      (NewEnvelope u (unix_now e) TypeSyncResp (sq_DeviceID req) (Some (marshal_SyncRespPayload
        \<lparr>sr_DeviceID = sq_DeviceID req, sr_AckedResults = acked, sr_PendingCommands = pending\<rparr>))))"
    if "hub_typed S s" "pending = GetPendingCommands (h_store s) (sq_DeviceID req)" "\<not> err" for s pending n u acked
    using mark_all_dispatched_typed [OF that(1) assms(2), of pending] assms(2) that(2,3) pending_recorded assms(3) [of req] d
      GetPendingCommands_typed [OF hub_typed_db [OF that(1)], of "sq_DeviceID req"]
    by (intro typed_ret_Send)
       (auto simp: envelope_ok_def NewEnvelope_def valid_Envelope_def valid_SyncRespPayload_def intro!: exI
         [of _ "\<lparr>sr_DeviceID = sq_DeviceID req, sr_AckedResults = acked, sr_PendingCommands = pending\<rparr>"])
  then show ?thesis
    using assms(1,2) typed_sync_results [OF assms(1,2) v]
    by (auto simp: handleSyncReq_def d newEnvelope_def Let_def intro!: typed_ret_andThen)
qed

lemma typed_routeToAgent:
  assumes "hub_typed S h" and "in_int64 (unix_now e)" and "valid_Envelope env" and "env_Type env \<in> set agent_requests"
  shows "typed_ret S (routeToAgent e h c env)"
proof -
  have fwd: "envelope_ok D db env" for D db using assms(3,4) by (intro envelope_ok_other) (auto simp: agent_requests_def)
  show ?thesis
    using assms(1,2) fwd
    by (auto simp: routeToAgent_def agent_offline_def newEnvelope_def Let_def split: option.split intro!: typed_sendError typed_ret_Send)
qed

lemma cache_and_audit_typed:
  assumes "hub_typed S h" and "in_int64 (unix_now e)"
  shows "hub_typed S (cache_and_audit e h env)"
proof -
  obtain err1 p1 where d1: "DecodePayload unmarshal_FileListRespPayload env zero_FileListRespPayload = (err1, p1)" by fastforce
  obtain err2 p2 where d2: "DecodePayload unmarshal_FileReadRespPayload env zero_FileReadRespPayload = (err2, p2)" by fastforce
  have "\<forall>x \<in> set (flr_Files p1). valid_FileInfo x" "in_int64 (frr_SizeBytes p2)"
    using FileListRespPayload_typed.decoded_valid [OF d1] FileReadRespPayload_typed.decoded_valid [OF d2]
    by (simp_all add: valid_FileListRespPayload_def valid_FileReadRespPayload_def)
  moreover have "hub_typed S (record_action e h d a t s er)" for d a t s er
    using assms by (auto simp: record_action_def newUUID_def action_log_def valid_AuditLogRecord_def intro!: hub_typed_writes(9))
  ultimately show ?thesis
    using assms by (auto simp: cache_and_audit_def d1 d2 Let_def intro!: hub_typed_writes(11,12))
qed

lemma typed_routeToControllers:
  assumes "hub_typed S h" and "in_int64 (unix_now e)" and "valid_Envelope env" and "env_Type env \<in> set agent_responses"
  shows "typed_ret S (routeToControllers e h c env)"
  unfolding routeToControllers_def
  by (intro typed_broadcasts(2) cache_and_audit_typed envelope_ok_other assms) (use assms(4) in \<open>auto simp: agent_responses_def\<close>)

text \<open>A client speaks for the devices it names when it authenticates as an agent and when it synchronises.\<close>

definition claims_in :: "string set \<Rightarrow> Envelope \<Rightarrow> bool" where
  "claims_in D env \<longleftrightarrow>
     (env_Type env = TypeAuth \<longrightarrow> (\<forall>p. DecodePayload unmarshal_AuthPayload env zero_AuthPayload = (False, p)
        \<and> ap_Role p = RoleAgent \<longrightarrow> ap_DeviceID p \<in> D))
     \<and> (env_Type env = TypeSyncReq \<longrightarrow> (\<forall>req. DecodePayload unmarshal_SyncReqPayload env zero_SyncReqPayload = (False, req)
        \<longrightarrow> sq_DeviceID req \<in> D))"

definition message_in :: "string set \<Rightarrow> json option \<Rightarrow> bool" where
  "message_in D raw \<longleftrightarrow> (\<forall>j env. raw = Some j \<and> unmarshal_Envelope j zero_Envelope = (False, env) \<longrightarrow> claims_in D env)"

lemma typed_handleMessage:
  assumes "hub_typed S h" and "env_typed e" and "valid_Envelope env" and "claims_in (speaks S c) env"
  shows "typed_ret S (handleMessage e h c env)"
proof -
  have "in_int64 (unix_now e)" using assms(2) by (simp add: env_typed_def)
  then show ?thesis
    unfolding handleMessage_def using assms
    by (auto simp: claims_in_def intro: typed_handleAuth typed_handleHeartbeat typed_handleEnqueueCmd typed_handleCmdResult typed_handleSyncReq typed_answers
        typed_routeToAgent typed_routeToControllers)
qed

lemma typed_readMessage: "hub_typed S h \<Longrightarrow> env_typed e \<Longrightarrow> message_in (speaks S c) raw \<Longrightarrow> typed_ret S (readMessage e h c raw)"
  using Envelope_typed.dec_valid
  by (auto simp: readMessage_def message_in_def split: option.split prod.split intro!: typed_handleMessage) (metis snd_conv)

section \<open>Connections and the liveness check\<close>

lemma typed_unregister: "hub_typed S h \<Longrightarrow> in_int64 (unix_now e) \<Longrightarrow> typed_ret S (unregister e h c)"
proof -
  assume h: "hub_typed S h" and now: "in_int64 (unix_now e)"
  have "hub_typed S (h\<lparr>h_agents := AList.delete d (h_agents h)\<rparr>)" for d
    using h by (intro hub_typed_agents) (auto simp: hub_typed_def AList.delete_eq)
  then show ?thesis
    unfolding unregister_def Let_def
    by (intro typed_ret_seq typed_ret_if typed_broadcasts(1) hub_typed_writes(2)) (simp_all add: h now)
qed

lemma typed_update_liveness:
  "hub_typed S h \<Longrightarrow> in_int64 (unix_now e) \<Longrightarrow> typed_ret S (update_liveness e h ds)"
proof (induction ds arbitrary: h)
  case (Cons d ds)
  then show ?case
    by (simp only: update_liveness.simps Let_def, intro typed_ret_seq typed_ret_if typed_broadcasts(1) hub_typed_writes(2)) simp_all
qed simp

lemma Close_typed: "hub_typed S h \<Longrightarrow> hub_typed S (Close h)"
proof -
  have "hub_typed S h \<Longrightarrow> hub_typed S (fold (\<lambda>c. upd_client c (\<lambda>cl. cl\<lparr>c_connClosed := True\<rparr>)) cs h)" for cs h
    by (induction cs arbitrary: h) simp_all
  then show "hub_typed S h \<Longrightarrow> hub_typed S (Close h)" by (simp add: Close_def del: fold_append)
qed

lemma HandleWS_typed: "hub_typed S h \<Longrightarrow> hub_typed S (HandleWS e h)"
  by (simp add: HandleWS_def newUUID_def hub_typed_def newClient_def)

lemma writeNext_typed:
  "hub_typed S h \<Longrightarrow> writeNext h c = Some (env, h') \<Longrightarrow> hub_typed S h' \<and> envelope_ok (speaks S c) (h_store h) env
     \<and> h_store h' = h_store h"
  by (auto simp: writeNext_def hub_typed_def upd_client_def split: list.splits if_splits)

section \<open>The relay as a whole\<close>

definition event_typed :: "(cid \<Rightarrow> string set) \<Rightarrow> Hub \<Rightarrow> hub_event \<Rightarrow> bool" where
  "event_typed A h ev \<longleftrightarrow>
     (case ev of
        Message c raw \<Rightarrow> message_in (A c) raw
      | Direct cmd \<Rightarrow> valid_CommandPayload cmd
      | Reorder al cs \<Rightarrow> mset al = mset (h_agents h) \<and> mset cs = mset (h_controllers h)
      | _ \<Rightarrow> True)"

lemma hub_handle_typed:
  assumes "hub_typed S h" and "env_typed e" and "event_typed (speaks S) h ev"
  shows "typed_ret S (hub_handle e h ev)"
proof -
  have now: "in_int64 (unix_now e)" using assms(2) by (simp add: env_typed_def)
  have "typed_ret S (livenessTick e h)"
    using typed_update_liveness [OF assms(1) now] assms(1) by (simp add: livenessTick_def split: sum.split)
  moreover have "typed_ret S (andThen (EnqueueDirect e h cmd) (\<lambda>(err, h). Ret h))" if "valid_CommandPayload cmd" for cmd
    using typed_EnqueueDirect [OF assms(1,2) that] by (auto intro!: typed_ret_andThen)
  moreover have "hub_typed S (h\<lparr>h_agents := al, h_controllers := cs\<rparr>)" if "mset al = mset (h_agents h)" for al cs
    using hub_typed_agents [OF assms(1), of al] assms(1) mset_eq_setD [OF that] by (simp add: hub_typed_def)
  ultimately show ?thesis
    using assms typed_readMessage [OF assms(1,2)] typed_unregister [OF assms(1) now] writeNext_typed [OF assms(1)]
      Close_typed [OF assms(1)] HandleWS_typed [OF assms(1)]
    by (auto simp: hub_handle_def event_typed_def split: hub_event.splits option.split)
qed

lemma enqueueReq_typed: "in_int64 (eq_TimeoutSec (snd (decode_body unmarshal_enqueueReq zero_enqueueReq rq)))"
proof -
  have "keeps_type (\<lambda>q. in_int64 (eq_TimeoutSec q)) unmarshal_enqueueReq"
    by (auto simp: unmarshal_enqueueReq_def intro!: keeps_type_struct keeps_type_fields)
  from keeps_typeD [OF this, of zero_enqueueReq] show ?thesis
    by (simp add: decode_body_def zero_enqueueReq_def split: option.split)
qed

lemma serve_typed:
  assumes "hub_typed S h" and "env_typed (v_env v)" and "serve v h rq = Ret (r, h', sent)"
  shows "hub_typed S h'"
proof -
  have now: "in_int64 (unix_now (v_env v))" using assms(2) by (simp add: env_typed_def)
  have reg: "hub_typed S (snd (handleRegister v h rq))"
  proof -
    let ?h = "h\<lparr>h_uuids := Suc (Suc (h_uuids h))\<rparr>"
    have "hub_typed S (?h\<lparr>h_store := fst (CreateUser u1 u2 (unix_now (v_env v)) (h_store h) name pw)\<rparr>)" for u1 u2 name pw
      using hub_typed_store [of S ?h, OF _ store_step.create_user device_writes_typed(5)] assms(1) now by (simp add: hub_typed_def)
    then show ?thesis
      using assms(1) by (auto simp: handleRegister_def newUUID_def Let_def split: prod.splits sum.splits) (metis fst_conv)+
  qed
  have "hub_typed S s" if "handleCommands v h rq = Ret (r', s)" for r' s
    using that assms(1) enqueueReq_typed [of rq]
    by (auto simp: handleCommands_def postCommand_def andThen_Ret_iff Let_def split: if_splits prod.splits)
       (drule typed_EnqueueDirect [OF assms(1,2), rotated], simp_all add: valid_CommandPayload_def)
  then show ?thesis
    using assms(1,3) reg HandleWS_typed [OF assms(1)]
    by (auto simp: serve_def Let_def andThen_Ret_iff split: if_splits prod.splits option.splits)
qed

text \<open>Events and requests of arbitrary clients; handlers that panic end the program.\<close>

inductive any_step :: "(cid \<Rightarrow> string set) \<Rightarrow> Hub \<Rightarrow> Hub \<Rightarrow> bool" for A where
  any_event: "env_typed e \<Longrightarrow> event_typed A h ev \<Longrightarrow> hub_handle e h ev = Ret h' \<Longrightarrow> any_step A h h'"
| any_request: "env_typed (v_env v) \<Longrightarrow> serve v h rq = Ret (r, h', sent) \<Longrightarrow> any_step A h h'"

inductive_cases any_stepE: "any_step A h h'"

definition typed_init :: "Hub \<Rightarrow> bool" where
  "typed_init h \<longleftrightarrow> (\<exists>st cfg. h = NewHub st cfg \<and> db_typed st)"

lemma hub_typed_init: "db_typed st \<Longrightarrow> hub_typed \<lparr>speaks = A, known = {}, accepted = 0\<rparr> (NewHub st cfg)"
  by (simp add: NewHub_def newClient_def hub_typed_def)

lemma any_step_typed: "any_step (speaks S) h h' \<Longrightarrow> hub_typed S h \<Longrightarrow> hub_typed S h'"
  by (auto elim!: any_stepE dest: hub_handle_typed serve_typed simp: typed_ret_def)

lemma any_step_recorded:
  assumes "any_step (speaks S) h h'" and "hub_typed S h" and "recorded (h_store h) cmd"
  shows "recorded (h_store h') cmd"
proof -
  have "hub_typed (S\<lparr>known := {cmd}\<rparr>) h" using assms(2,3) by (simp add: hub_typed_def)
  from any_step_typed [OF _ this, of h'] assms(1) show ?thesis by (simp add: hub_typed_def)
qed

lemma any_step_accepts: "any_step (speaks S) h h' \<Longrightarrow> hub_typed S h \<Longrightarrow> h_next h \<le> h_next h'"
  using any_step_typed [of "S\<lparr>accepted := h_next h\<rparr>" h h'] by (simp add: hub_typed_def)

lemma envelope_ok_more: "envelope_ok D db env \<Longrightarrow> D \<subseteq> D' \<Longrightarrow> envelope_ok D' db env"
  unfolding envelope_ok_def by blast

lemma hub_typed_more:
  assumes "hub_typed S h" and "\<And>c. speaks S c \<subseteq> A c"
  shows "hub_typed (S\<lparr>speaks := A\<rparr>) h"
  using assms(1) envelope_ok_more [OF _ assms(2)] subsetD [OF assms(2)] by (auto simp: hub_typed_def)

lemma recorded_valid: "db_typed db \<Longrightarrow> recorded db cmd \<Longrightarrow> valid_CommandPayload cmd"
  by (auto simp: recorded_def db_typed_def command_typed_def)

interpretation typed_relay: invariant_system typed_init "any_step A" "hub_typed \<lparr>speaks = A, known = {}, accepted = 0\<rparr>" for A
  by unfold_locales (auto simp: typed_init_def hub_typed_init intro: any_step_typed [rotated])

lemma envelope_ok_decodes:
  assumes "envelope_ok D db env"
  shows "unmarshal_Envelope (marshal_Envelope env) zero_Envelope = (False, env)"
    and "env_Type env = TypeDispatchCmd \<Longrightarrow>
      \<exists>cmd. DecodePayload unmarshal_CommandPayload env zero_CommandPayload = (False, cmd) \<and> recorded db cmd
        \<and> (\<exists>d \<in> D. ToLower d = ToLower (cp_DeviceID cmd))"
    and "env_Type env = TypeSyncResp \<Longrightarrow>
      \<exists>resp. DecodePayload unmarshal_SyncRespPayload env zero_SyncRespPayload = (False, resp)
        \<and> (\<forall>cmd \<in> set (sr_PendingCommands resp). recorded db cmd \<and> cp_DeviceID cmd \<in> D)"
  using assms
  by (auto simp: envelope_ok_def DecodePayload_def Envelope_codec.dec_enc CommandPayload_codec.dec_enc SyncRespPayload_codec.dec_enc)

text \<open>
  C7. Types, origins and addressees. From a database whose numbers fit their Go types, whatever messages and requests arrive
  from whatever clients: every number in the relay's tables still fits its type, every envelope that waits to be sent is read
  by its receiver exactly as the relay wrote it, and every command that waits to be sent, as a dispatch or in the answer to a
  synchronisation, decodes to a command of the relay's queue for a device that the receiver speaks for. \<open>A c\<close> is any set that
  contains the devices which client \<open>c\<close> names when it authenticates as an agent and when it synchronises; in a
  dispatch the case of the letters may differ.
\<close>

theorem relay_typed:
  assumes "reach typed_init (any_step A) h" and "env \<in> set (c_send (h_clients h c))"
  shows "db_typed (h_store h) \<and> unmarshal_Envelope (marshal_Envelope env) zero_Envelope = (False, env)
    \<and> (env_Type env = TypeDispatchCmd \<longrightarrow>
         (\<exists>cmd. DecodePayload unmarshal_CommandPayload env zero_CommandPayload = (False, cmd) \<and> recorded (h_store h) cmd
            \<and> (\<exists>d \<in> A c. ToLower d = ToLower (cp_DeviceID cmd))))
    \<and> (env_Type env = TypeSyncResp \<longrightarrow>
         (\<exists>resp. DecodePayload unmarshal_SyncRespPayload env zero_SyncRespPayload = (False, resp)
            \<and> (\<forall>cmd \<in> set (sr_PendingCommands resp). recorded (h_store h) cmd \<and> cp_DeviceID cmd \<in> A c)))"
proof -
  have "hub_typed \<lparr>speaks = A, known = {}, accepted = 0\<rparr> h" by (rule typed_relay.reach_inv [OF assms(1)])
  then have "db_typed (h_store h)" "envelope_ok (A c) (h_store h) env" using assms(2) by (auto simp: hub_typed_def)
  then show ?thesis using envelope_ok_decodes by blast
qed

section \<open>A concrete run\<close>

fun run_typed :: "(cid \<Rightarrow> string set) \<Rightarrow> Env \<Rightarrow> Hub \<Rightarrow> hub_event list \<Rightarrow> bool" where
  "run_typed A e h [] = True"
| "run_typed A e h (ev # evs) = (event_typed A h ev \<and> (case hub_handle e h ev of Ret h' \<Rightarrow> run_typed A e h' evs | Panic _ \<Rightarrow> True))"

lemma hub_run_reach:
  "hub_run e h evs = Ret h' \<Longrightarrow> reach typed_init (any_step A) h \<Longrightarrow> env_typed e \<Longrightarrow> run_typed A e h evs \<Longrightarrow>
   reach typed_init (any_step A) h'"
proof (induction evs arbitrary: h)
  case (Cons ev evs)
  then obtain x where "hub_handle e h ev = Ret x" "hub_run e x evs = Ret h'" by (auto simp: andThen_Ret_iff)
  then show ?case using Cons.prems by (intro Cons.IH [of x] reach_step [OF Cons.prems(2)] any_event [of e A h ev]) auto
qed simp

lemma sample_env_typed: "env_typed sample_env"
  by (simp add: env_typed_def sample_env_def unix_now_def second_ns_def in_int64_def)

lemma typed_init_empty: "typed_init (NewHub empty_db cfg)"
  by (auto simp: typed_init_def db_typed_def empty_db_def)

definition sample_ping :: CommandPayload where
  "sample_ping = \<lparr>cp_CommandID = ''c1'', cp_DeviceID = ''pc1'', cp_Command = ''ping'', cp_TimeoutSec = 5, cp_CreatedAt = 0\<rparr>"

definition sample_dispatching :: Hub where
  "sample_dispatching = (case hub_run sample_env (NewHub empty_db sample_cfg)
     [Connect, Message 0 (auth_message RoleAgent ''pc1''), WriteOut 0, Direct sample_ping] of Ret h \<Rightarrow> h)"

lemma auth_message_in: "message_in {dev} (auth_message role dev)"
proof -
  let ?p = "zero_AuthPayload\<lparr>ap_Role := role, ap_DeviceID := dev, ap_Token := ''secret''\<rparr>"
  let ?env = "NewEnvelope ''m1'' 1000 TypeAuth dev (Some (marshal_AuthPayload ?p))"
  have "unmarshal_Envelope (marshal_Envelope ?env) zero_Envelope = (False, ?env)"
    by (rule Envelope_codec.dec_enc) (simp add: valid_Envelope_def NewEnvelope_def in_int64_def)
  moreover have "DecodePayload unmarshal_AuthPayload ?env zero_AuthPayload = (False, ?p)"
    by (simp add: DecodePayload_def NewEnvelope_def AuthPayload_codec.dec_enc valid_AuthPayload_def)
  ultimately show ?thesis
    by (simp add: message_in_def auth_message_def claims_in_def) (simp add: NewEnvelope_def)
qed

theorem relay_typed_witness:
  "\<exists>env cmd. c_send (h_clients sample_dispatching 0) = [env] \<and> env_Type env = TypeDispatchCmd
     \<and> DecodePayload unmarshal_CommandPayload env zero_CommandPayload = (False, cmd) \<and> recorded (h_store sample_dispatching) cmd
     \<and> ToLower (cp_DeviceID cmd) = ToLower ''pc1''"
proof -
  let ?A = "\<lambda>_ :: cid. {''pc1''}"
  let ?evs = "[Connect, Message 0 (auth_message RoleAgent ''pc1''), WriteOut 0, Direct sample_ping]"
  have "panic_of (hub_run sample_env (NewHub empty_db sample_cfg) ?evs) = None" by code_simp
  then have run: "hub_run sample_env (NewHub empty_db sample_cfg) ?evs = Ret sample_dispatching"
    unfolding sample_dispatching_def by (cases "hub_run sample_env (NewHub empty_db sample_cfg) ?evs") simp_all
  have "run_typed ?A sample_env (NewHub empty_db sample_cfg) ?evs"
    by (simp add: event_typed_def auth_message_in valid_CommandPayload_def sample_ping_def in_int64_def split: outcome.split)
  then have r: "reach typed_init (any_step ?A) sample_dispatching"
    by (rule hub_run_reach [OF run reach_init [of typed_init, OF typed_init_empty] sample_env_typed])
  have "map env_Type (c_send (h_clients sample_dispatching 0)) = [TypeDispatchCmd]" by code_simp
  then obtain env where "c_send (h_clients sample_dispatching 0) = [env]" "env_Type env = TypeDispatchCmd" by auto
  with relay_typed [OF r, of env 0] show ?thesis by auto
qed

end
