(* ===== verification/AgentStore.thy ===== *)
theory AgentStore
  imports Protocol
begin

text \<open>
  The agent's durable queue, \<^verbatim>\<open>agent/internal/store/store.go\<close>: the tables \<open>CommandQueue\<close> and
  \<open>ResultQueue\<close> as lists of rows in rowid order, and one definition per method. The
  column \<open>Payload\<close> is text; \<open>None\<close> stands for text that is not JSON. SQLite's constraint
  errors (primary keys, the CHECK on \<open>Status\<close>, the foreign key of a result) are values of
  \<open>agent_error\<close>; I/O failures of the database file are not modelled.
\<close>

section \<open>Rows\<close>

abbreviation AStatusPending :: string where
  "AStatusPending \<equiv> ''PENDING''"

abbreviation AStatusExecuting :: string where
  "AStatusExecuting \<equiv> ''EXECUTING''"

abbreviation AStatusCompleted :: string where
  "AStatusCompleted \<equiv> ''COMPLETED''"

abbreviation AStatusFailed :: string where
  "AStatusFailed \<equiv> ''FAILED''"

definition agent_statuses :: "string list" where
  "agent_statuses = [AStatusPending, AStatusExecuting, AStatusCompleted, AStatusFailed]"

record Payload =
  pl_Command :: string
  pl_TimeoutSec :: int

definition zero_Payload :: Payload where
  "zero_Payload = \<lparr>pl_Command = '''', pl_TimeoutSec = 0\<rparr>"

definition marshal_Payload :: "Payload \<Rightarrow> json" where
  "marshal_Payload p = JObj ([(''command'', JStr (pl_Command p))]
     @ omitempty (pl_TimeoutSec p = 0) ''timeoutSec'' (enc_int (pl_TimeoutSec p)))"

definition unmarshal_Payload :: "Payload dec" where
  "unmarshal_Payload = dec_struct [
     (''command'', into dec_string pl_Command pl_Command_update),
     (''timeoutSec'', into dec_int64 pl_TimeoutSec pl_TimeoutSec_update)]"

record Command =
  ac_CommandID :: string
  ac_Payload :: "json option"
  ac_Status :: string
  ac_CreatedAt :: int
  ac_Attempts :: int

record Result =
  ar_ResultID :: string
  ar_CommandID :: string
  ar_Stdout :: string
  ar_Stderr :: string
  ar_ExitCode :: int
  ar_ExecutedAt :: int
  ar_Synced :: bool

record AgentDB =
  CommandQueue :: "Command list"
  ResultQueue :: "Result list"

definition empty_agent_db :: AgentDB where
  "empty_agent_db = \<lparr>CommandQueue = [], ResultQueue = []\<rparr>"

datatype agent_error = DuplicateKey | BadStatus | NoSuchCommand

text \<open>\<open>Decode\<close> gives the error flag and the payload decoded so far.\<close>

definition Decode :: "Command \<Rightarrow> bool \<times> Payload" where
  "Decode c = (case ac_Payload c of None \<Rightarrow> (True, zero_Payload)
     | Some j \<Rightarrow> unmarshal_Payload j zero_Payload)"

section \<open>Commands\<close>

definition agent_lookup :: "AgentDB \<Rightarrow> string \<Rightarrow> Command option" where
  "agent_lookup db cmdID = select_pk ac_CommandID cmdID (CommandQueue db)"

definition pending_row :: "int \<Rightarrow> string \<Rightarrow> Payload \<Rightarrow> Command" where
  "pending_row now cmdID p = \<lparr>ac_CommandID = cmdID, ac_Payload = Some (marshal_Payload p),
     ac_Status = AStatusPending, ac_CreatedAt = now, ac_Attempts = 0\<rparr>"

definition Enqueue :: "string \<Rightarrow> int \<Rightarrow> AgentDB \<Rightarrow> Payload \<Rightarrow> AgentDB \<times> (agent_error + string)" where
  "Enqueue uuid now db p =
     (case agent_lookup db uuid of
        Some _ \<Rightarrow> (db, Inl DuplicateKey)
      | None \<Rightarrow> (db\<lparr>CommandQueue := CommandQueue db @ [pending_row now uuid p]\<rparr>, Inr uuid))"

definition EnqueueWithID :: "int \<Rightarrow> AgentDB \<Rightarrow> string \<Rightarrow> Payload \<Rightarrow> AgentDB" where
  "EnqueueWithID now db cmdID p =
     (case agent_lookup db cmdID of
        Some _ \<Rightarrow> db
      | None \<Rightarrow> db\<lparr>CommandQueue := CommandQueue db @ [pending_row now cmdID p]\<rparr>)"

definition claimable :: "int \<Rightarrow> Command \<Rightarrow> bool" where
  "claimable maxAttempts c \<longleftrightarrow> ac_Status c = AStatusPending \<and> ac_Attempts c < maxAttempts"

definition ClaimNext :: "int \<Rightarrow> AgentDB \<Rightarrow> Command option \<times> AgentDB" where
  "ClaimNext maxAttempts db =
     (case sort_key (\<lambda>c. (ac_CreatedAt c, ac_CommandID c))
             (filter (claimable maxAttempts) (CommandQueue db)) of
        [] \<Rightarrow> (None, db)
      | c # _ \<Rightarrow>
          (let hit = (\<lambda>r. ac_CommandID r = ac_CommandID c \<and> ac_Status r = AStatusPending) in
           if filter hit (CommandQueue db) = [] then (None, db)
           else (Some (c\<lparr>ac_Status := AStatusExecuting, ac_Attempts := ac_Attempts c + 1\<rparr>),
                 db\<lparr>CommandQueue := update_rows hit
                   (\<lambda>r. r\<lparr>ac_Status := AStatusExecuting, ac_Attempts := ac_Attempts r + 1\<rparr>)
                   (CommandQueue db)\<rparr>)))"

definition Complete :: "AgentDB \<Rightarrow> string \<Rightarrow> string \<Rightarrow> AgentDB \<times> agent_error option" where
  "Complete db commandID status =
     (if status \<notin> set agent_statuses \<and> agent_lookup db commandID \<noteq> None then (db, Some BadStatus)
      else (db\<lparr>CommandQueue := update_rows (\<lambda>r. ac_CommandID r = commandID)
              (\<lambda>r. r\<lparr>ac_Status := status\<rparr>) (CommandQueue db)\<rparr>, None))"

definition Requeue :: "AgentDB \<Rightarrow> string \<Rightarrow> AgentDB" where
  "Requeue db commandID =
     db\<lparr>CommandQueue := update_rows (\<lambda>r. ac_CommandID r = commandID)
          (\<lambda>r. r\<lparr>ac_Status := AStatusPending\<rparr>) (CommandQueue db)\<rparr>"

definition RecoverStale :: "int \<Rightarrow> AgentDB \<Rightarrow> nat \<times> AgentDB" where
  "RecoverStale maxAttempts db =
     (length (filter (\<lambda>r. ac_Status r = AStatusExecuting) (CommandQueue db)),
      db\<lparr>CommandQueue := update_rows (\<lambda>r. ac_Status r = AStatusExecuting)
           (\<lambda>r. r\<lparr>ac_Status := (if ac_Attempts r \<ge> maxAttempts then AStatusFailed
                                else AStatusPending)\<rparr>) (CommandQueue db)\<rparr>)"

definition AGetCommand :: "AgentDB \<Rightarrow> string \<Rightarrow> Command option" where
  "AGetCommand db cmdID = agent_lookup db cmdID"

definition agent_limit :: "int \<Rightarrow> int \<Rightarrow> nat" where
  "agent_limit dflt limit = nat (if limit \<le> 0 then dflt else limit)"

definition AListCommands :: "AgentDB \<Rightarrow> int \<Rightarrow> Command list" where
  "AListCommands db limit =
     take (agent_limit 50 limit) (sort_key (\<lambda>c. - ac_CreatedAt c) (CommandQueue db))"

section \<open>Results\<close>

definition ASaveResult :: "string \<Rightarrow> int \<Rightarrow> AgentDB \<Rightarrow> Result \<Rightarrow> AgentDB \<times> agent_error option" where
  "ASaveResult uuid now db r =
     (let r = (if ar_ResultID r = '''' then r\<lparr>ar_ResultID := uuid\<rparr> else r);
          r = (if ar_ExecutedAt r = 0 then r\<lparr>ar_ExecutedAt := now\<rparr> else r)
      in if select_pk ar_ResultID (ar_ResultID r) (ResultQueue db) \<noteq> None then (db, Some DuplicateKey)
         else if agent_lookup db (ar_CommandID r) = None then (db, Some NoSuchCommand)
         else (db\<lparr>ResultQueue := ResultQueue db @ [r\<lparr>ar_Synced := False\<rparr>]\<rparr>, None))"

definition AListResults :: "AgentDB \<Rightarrow> string \<Rightarrow> int \<Rightarrow> Result list" where
  "AListResults db commandID limit =
     take (agent_limit 50 limit)
       (sort_key (\<lambda>r. - ar_ExecutedAt r)
         (if commandID \<noteq> '''' then filter (\<lambda>r. ar_CommandID r = commandID) (ResultQueue db)
          else ResultQueue db))"

definition ListUnsyncedResults :: "AgentDB \<Rightarrow> int \<Rightarrow> Result list" where
  "ListUnsyncedResults db limit =
     take (agent_limit 100 limit)
       (sort_key ar_ExecutedAt (filter (\<lambda>r. \<not> ar_Synced r) (ResultQueue db)))"

definition MarkResultSynced :: "AgentDB \<Rightarrow> string \<Rightarrow> AgentDB" where
  "MarkResultSynced db commandID =
     db\<lparr>ResultQueue := update_rows (\<lambda>r. ar_CommandID r = commandID) (\<lambda>r. r\<lparr>ar_Synced := True\<rparr>)
          (ResultQueue db)\<rparr>"

end
