(* ===== verification/Worker.thy ===== *)
theory Worker
  imports AgentStore
begin

text \<open>
  The agent's executor and worker, \<^verbatim>\<open>agent/internal/executor/executor.go\<close> and
  \<^verbatim>\<open>agent/internal/worker/worker.go\<close>: one command is claimed, executed, its result
  persisted, and the retry policy applied. \<open>WEnv\<close> is what one call of \<open>RunOnce\<close> takes
  from its surroundings: the clock, a fresh identifier, the outcome of the PowerShell
  process for an argument vector and a timeout, and the text of a decoding error.
\<close>

section \<open>Configuration\<close>

record AConfig =
  acfg_DBPath :: string
  acfg_Timeout :: int
  acfg_PollInterval :: int
  acfg_MaxAttempts :: int
  acfg_ExecPolicy :: string
  acfg_RelayURL :: string
  acfg_DeviceID :: string
  acfg_AuthToken :: string
  acfg_HeartbeatInterval :: int

record WEnv =
  w_now :: int
  w_uuid :: string
  w_proc :: "string list \<Rightarrow> int \<Rightarrow> RunResult"
  w_jsonErr :: "json option \<Rightarrow> string"

section \<open>The executor\<close>

record ExecResult =
  x_Stdout :: string
  x_Stderr :: string
  x_ExitCode :: int
  x_TimedOut :: bool
  x_Err :: "string option"

definition NewPowerShell :: "string \<Rightarrow> string" where
  \<comment> \<open>the execution policy of the executor \<open>New\<close> returns\<close>
  "NewPowerShell execPolicy = (if execPolicy = '''' then ''Bypass'' else execPolicy)"

definition powershell_argv :: "string \<Rightarrow> string \<Rightarrow> string list" where
  "powershell_argv policy command = [''powershell.exe'', ''-NoProfile'', ''-NonInteractive'',
     ''-ExecutionPolicy'', policy, ''-Command'', command]"

definition Run :: "WEnv \<Rightarrow> string \<Rightarrow> string \<Rightarrow> int \<Rightarrow> ExecResult" where
  "Run we policy command timeout =
     (let raw = w_proc we (powershell_argv policy command) timeout;
          res = \<lparr>x_Stdout = run_stdout raw, x_Stderr = run_stderr raw, x_ExitCode = 0,
                 x_TimedOut = False, x_Err = None\<rparr>;
          failed = (\<lambda>msg r. r\<lparr>x_ExitCode := - 1, x_Err := Some msg,
                      x_Stderr := (if x_Stderr r = '''' then msg else x_Stderr r)\<rparr>)
      in if run_deadline raw
         then (failed (''command timed out after '' @ Duration_String timeout) res)\<lparr>x_TimedOut := True\<rparr>
         else case run_err raw of
                RunOk \<Rightarrow> res
              | RunExit code \<Rightarrow> res\<lparr>x_ExitCode := code\<rparr>
              | RunOther msg \<Rightarrow> failed msg res)"

section \<open>One command\<close>

record RunOnceResult =
  ro_didWork :: bool
  ro_err :: "agent_error option"
  ro_db :: AgentDB
  ro_reported :: "Result list"

definition exec_timeout :: "AConfig \<Rightarrow> Payload \<Rightarrow> int" where
  "exec_timeout cfg p = (if pl_TimeoutSec p > 0 then seconds (pl_TimeoutSec p) else acfg_Timeout cfg)"

definition invalid_payload_result :: "WEnv \<Rightarrow> Command \<Rightarrow> Result" where
  "invalid_payload_result we cmd = \<lparr>ar_ResultID = '''', ar_CommandID = ac_CommandID cmd,
     ar_Stdout = '''', ar_Stderr = ''invalid payload: '' @ w_jsonErr we (ac_Payload cmd),
     ar_ExitCode = - 1, ar_ExecutedAt = w_now we, ar_Synced = False\<rparr>"

definition exec_result :: "WEnv \<Rightarrow> Command \<Rightarrow> ExecResult \<Rightarrow> Result" where
  "exec_result we cmd res = \<lparr>ar_ResultID = '''', ar_CommandID = ac_CommandID cmd,
     ar_Stdout = x_Stdout res, ar_Stderr = x_Stderr res, ar_ExitCode = x_ExitCode res,
     ar_ExecutedAt = w_now we, ar_Synced = False\<rparr>"

text \<open>
  \<open>ro_reported\<close> lists the results handed to \<open>onResult\<close>; when the worker has no callback
  nobody reads it. \<open>process_claimed\<close> is \<open>RunOnce\<close> from the decoding of the claimed command on:
  between the claim and it, the execution takes time and others write to the store.
\<close>

definition process_claimed :: "AConfig \<Rightarrow> WEnv \<Rightarrow> Command \<Rightarrow> AgentDB \<Rightarrow> RunOnceResult" where
  "process_claimed cfg we cmd db =
     (let (derr, p) = Decode cmd in
      if derr
      then let res = invalid_payload_result we cmd;
               db = fst (ASaveResult (w_uuid we) (w_now we) db res);
               db = fst (Complete db (ac_CommandID cmd) AStatusFailed)
           in \<lparr>ro_didWork = True, ro_err = None, ro_db = db, ro_reported = [res]\<rparr>
      else
        let res = Run we (NewPowerShell (acfg_ExecPolicy cfg)) (pl_Command p) (exec_timeout cfg p);
            stResult = exec_result we cmd res;
            (db, serr) = ASaveResult (w_uuid we) (w_now we) db stResult
        in case serr of
             Some err \<Rightarrow> \<lparr>ro_didWork = True, ro_err = Some err, ro_db = db, ro_reported = []\<rparr>
           | None \<Rightarrow>
               if x_ExitCode res = 0
               then \<lparr>ro_didWork = True, ro_err = None,
                     ro_db = fst (Complete db (ac_CommandID cmd) AStatusCompleted),
                     ro_reported = [stResult]\<rparr>
               else if ac_Attempts cmd < acfg_MaxAttempts cfg
               then \<lparr>ro_didWork = True, ro_err = None, ro_db = Requeue db (ac_CommandID cmd),
                     ro_reported = []\<rparr>
               else \<lparr>ro_didWork = True, ro_err = None,
                     ro_db = fst (Complete db (ac_CommandID cmd) AStatusFailed),
                     ro_reported = [stResult]\<rparr>)"

definition RunOnce :: "AConfig \<Rightarrow> WEnv \<Rightarrow> AgentDB \<Rightarrow> RunOnceResult" where
  "RunOnce cfg we db =
     (case ClaimNext (acfg_MaxAttempts cfg) db of
        (None, db) \<Rightarrow> \<lparr>ro_didWork = False, ro_err = None, ro_db = db, ro_reported = []\<rparr>
      | (Some cmd, db) \<Rightarrow> process_claimed cfg we cmd db)"

section \<open>Draining the queue\<close>

text \<open>
  The inner loop of \<open>Run\<close> (the loop of \<^verbatim>\<open>terminal-agent run --drain\<close> is the same without
  cancellation). \<open>we i\<close> is the environment of the \<open>i\<close>-th turn and \<open>stop i\<close> tells whether the
  context is cancelled when that turn begins. The loop ends because every turn that does
  work uses up one attempt of one command (\<open>work_left\<close>).
\<close>

datatype drain_end = Drained | Cancelled | RunError agent_error

definition work_left :: "int \<Rightarrow> AgentDB \<Rightarrow> nat" where
  "work_left maxAttempts db = (\<Sum>c \<leftarrow> CommandQueue db. nat (maxAttempts - ac_Attempts c))"

definition attempts_of :: "AgentDB \<Rightarrow> int list" where
  "attempts_of db = map ac_Attempts (CommandQueue db)"

lemma work_left_attempts: "work_left m db = (\<Sum>a \<leftarrow> attempts_of db. nat (m - a))"
  by (simp add: work_left_def attempts_of_def comp_def)

lemma attempts_of_update:
  "(\<And>r. p r \<Longrightarrow> ac_Attempts (f r) = ac_Attempts r) \<Longrightarrow>
   attempts_of (db\<lparr>CommandQueue := update_rows p f (CommandQueue db)\<rparr>) = attempts_of db"
  by (simp add: attempts_of_def map_key_update_rows)

lemma attempts_of_writes [simp]:
  "attempts_of (fst (Complete db i st)) = attempts_of db"
  "attempts_of (Requeue db i) = attempts_of db"
  "attempts_of (fst (ASaveResult u now db r)) = attempts_of db"
  by (simp_all add: Complete_def Requeue_def attempts_of_update)
     (simp add: ASaveResult_def attempts_of_def Let_def)

lemma attempts_of_process_claimed [simp]: "attempts_of (ro_db (process_claimed cfg we cmd db)) = attempts_of db"
proof -
  have "attempts_of db' = attempts_of db" if "ASaveResult u now db r = (db', err)" for u now r db' err
    using attempts_of_writes(3) [of u now db r] that by simp
  then show ?thesis
    by (auto simp: process_claimed_def Let_def split: prod.split option.split)
qed

lemma ClaimNext_SomeD:
  assumes "ClaimNext m db = (Some cmd, db')"
  obtains c where "c \<in> set (CommandQueue db)" and "claimable m c"
    and "cmd = c\<lparr>ac_Status := AStatusExecuting, ac_Attempts := ac_Attempts c + 1\<rparr>"
    and "\<forall>x \<in> set (CommandQueue db). claimable m x \<longrightarrow>
           (ac_CreatedAt c, ac_CommandID c) \<le> (ac_CreatedAt x, ac_CommandID x)"
    and "db' = db\<lparr>CommandQueue := update_rows
           (\<lambda>r. ac_CommandID r = ac_CommandID c \<and> ac_Status r = AStatusPending)
           (\<lambda>r. r\<lparr>ac_Status := AStatusExecuting, ac_Attempts := ac_Attempts r + 1\<rparr>) (CommandQueue db)\<rparr>"
proof -
  let ?key = "\<lambda>c. (ac_CreatedAt c, ac_CommandID c)"
  obtain c cs where cs: "sort_key ?key (filter (claimable m) (CommandQueue db)) = c # cs"
    using assms by (auto simp: ClaimNext_def split: list.splits)
  have elems: "set (c # cs) = set (filter (claimable m) (CommandQueue db))"
    unfolding cs [symmetric] by simp
  have "sorted (map ?key (c # cs))"
    unfolding cs [symmetric] by (rule sorted_sort_key)
  then have least: "\<forall>x \<in> set (c # cs). ?key c \<le> ?key x" by auto
  show thesis
  proof (rule that [of c])
    show "c \<in> set (CommandQueue db)" and "claimable m c" using elems by auto
    show "\<forall>x \<in> set (CommandQueue db). claimable m x \<longrightarrow> ?key c \<le> ?key x"
      using least unfolding elems by auto
  qed (use assms in \<open>auto simp: ClaimNext_def cs Let_def split: if_splits\<close>)
qed

lemma sum_list_update_less:
  assumes "c \<in> set rows" and "g (if p c then f c else c) < (g c :: nat)"
    and "\<And>r. r \<in> set rows \<Longrightarrow> g (if p r then f r else r) \<le> g r"
  shows "(\<Sum>r \<leftarrow> update_rows p f rows. g r) < (\<Sum>r \<leftarrow> rows. g r)"
  using assms
proof (induction rows)
  case (Cons a rows)
  have le: "(\<Sum>r \<leftarrow> update_rows p f rows. g r) \<le> (\<Sum>r \<leftarrow> rows. g r)"
    using Cons.prems(3) unfolding update_rows_def map_map comp_def by (intro sum_list_mono) auto
  show ?case
  proof (cases "c = a")
    case True
    then show ?thesis using le Cons.prems(2) by (auto simp: update_rows_def split: if_splits)
  next
    case False
    then have "(\<Sum>r \<leftarrow> update_rows p f rows. g r) < (\<Sum>r \<leftarrow> rows. g r)"
      using Cons by simp
    moreover have "g (if p a then f a else a) \<le> g a" using Cons.prems(3) by simp
    ultimately show ?thesis by (auto simp: update_rows_def)
  qed
qed simp

lemma ClaimNext_work_left:
  assumes "ClaimNext m db = (Some cmd, db')"
  shows "work_left m db' < work_left m db"
proof (rule ClaimNext_SomeD [OF assms])
  fix c
  assume c: "c \<in> set (CommandQueue db)" "claimable m c"
    and db': "db' = db\<lparr>CommandQueue := update_rows
           (\<lambda>r. ac_CommandID r = ac_CommandID c \<and> ac_Status r = AStatusPending)
           (\<lambda>r. r\<lparr>ac_Status := AStatusExecuting, ac_Attempts := ac_Attempts r + 1\<rparr>) (CommandQueue db)\<rparr>"
  show ?thesis
    unfolding db' work_left_def AgentDB.select_convs AgentDB.update_convs
    by simp (rule sum_list_update_less [OF c(1)]; use c(2) in \<open>auto simp: claimable_def\<close>)
qed

lemma RunOnce_work_left:
  "ro_didWork (RunOnce cfg we db) \<Longrightarrow>
   work_left (acfg_MaxAttempts cfg) (ro_db (RunOnce cfg we db)) < work_left (acfg_MaxAttempts cfg) db"
  by (auto simp: RunOnce_def work_left_attempts [of _ "ro_db x" for x] split: prod.splits option.splits)
     (simp add: work_left_attempts [symmetric] ClaimNext_work_left)

function drain :: "AConfig \<Rightarrow> (nat \<Rightarrow> WEnv) \<Rightarrow> (nat \<Rightarrow> bool) \<Rightarrow> nat \<Rightarrow> AgentDB \<Rightarrow>
    drain_end \<times> nat \<times> AgentDB \<times> Result list" where
  "drain cfg we stop i db =
     (if stop i then (Cancelled, i, db, [])
      else let r = RunOnce cfg (we i) db in
        case ro_err r of
          Some err \<Rightarrow> (RunError err, Suc i, ro_db r, ro_reported r)
        | None \<Rightarrow>
            if \<not> ro_didWork r then (Drained, Suc i, ro_db r, ro_reported r)
            else let (e, j, db, rs) = drain cfg we stop (Suc i) (ro_db r)
                 in (e, j, db, ro_reported r @ rs))"
  by pat_completeness auto
termination
  by (relation "measure (\<lambda>(cfg, we, stop, i, db). work_left (acfg_MaxAttempts cfg) db)")
     (auto intro: RunOnce_work_left)

declare drain.simps [simp del]

text \<open>
  The outer loop of \<open>Run\<close>: drain, then wait until the context is cancelled (\<open>Done\<close>), the
  client wakes the worker, or the ticker fires. The list holds what each wait ended with,
  and what others did to the store in the meantime; \<open>None\<close> at its end is a worker still waiting.
\<close>

datatype wait_end = Done | Woken | Tick

fun worker_run :: "AConfig \<Rightarrow> (nat \<Rightarrow> WEnv) \<Rightarrow> (nat \<Rightarrow> bool) \<Rightarrow> nat \<Rightarrow> (wait_end \<times> (AgentDB \<Rightarrow> AgentDB)) list \<Rightarrow>
    AgentDB \<Rightarrow> bool \<times> AgentDB \<times> Result list" where
  "worker_run cfg we stop i waits db =
     (case drain cfg we stop i db of
        (Cancelled, j, db, rs) \<Rightarrow> (True, db, rs)
      | (_, j, db, rs) \<Rightarrow>
          (case waits of
             [] \<Rightarrow> (False, db, rs)
           | (w, others) # ws \<Rightarrow>
               if w = Done then (True, others db, rs)
               else let (fin, db, rs') = worker_run cfg we stop j ws (others db) in (fin, db, rs @ rs')))"

declare worker_run.simps [simp del]

section \<open>Starting the agent\<close>

text \<open>
  What \<open>cmdRun\<close> and the service do before the worker runs: recover what a crash left behind.
  With \<open>--drain\<close> the queue is then drained once.
\<close>

definition cmdRun_drain :: "AConfig \<Rightarrow> (nat \<Rightarrow> WEnv) \<Rightarrow> AgentDB \<Rightarrow> drain_end \<times> AgentDB" where
  "cmdRun_drain cfg we db =
     (let (n, db) = RecoverStale (acfg_MaxAttempts cfg) db;
          (e, j, db, rs) = drain cfg we (\<lambda>_. False) 0 db
      in (e, db))"

definition cmdEnqueue :: "string \<Rightarrow> int \<Rightarrow> AgentDB \<Rightarrow> string \<Rightarrow> int \<Rightarrow> (AgentDB \<times> (agent_error + string)) option" where
  \<comment> \<open>\<open>words\<close> is \<open>strings.Join(fs.Args(), ' ')\<close>; \<open>None\<close> is the usage error\<close>
  "cmdEnqueue uuid now db words timeoutSec =
     (if TrimSpace words = '''' then None
      else Some (Enqueue uuid now db \<lparr>pl_Command = TrimSpace words, pl_TimeoutSec = timeoutSec\<rparr>))"

end
