(* ===== verification/NetClient.thy ===== *)
theory NetClient
  imports Worker
begin

text \<open>
  The agent's connection to the relay, \<^verbatim>\<open>agent/internal/netclient/client.go\<close>: what it
  sends when a connection opens (\<open>connectAndServe\<close>), how it handles what the relay sends
  (\<open>handleIncoming\<close>), and how results are reported. The channel \<open>send\<close> holds at most 64
  envelopes and is never closed; a full buffer drops the envelope. \<open>nc_wake\<close> is the token in
  the worker's wake channel.

  \<open>NEnv\<close> is what the client takes from the machine: the clock, identifiers, telemetry, and
  the answers of the file, process and screen packages (an error is \<open>Some\<close> of its text).
  \<open>nc_ops\<close> lists the operations on the machine that were requested.
\<close>

datatype os_op =
    OpWrite string string bool
  | OpDelete string
  | OpKill int

record NEnv =
  n_now :: int
  n_uuid :: "nat \<Rightarrow> string"
  n_hostname :: string
  n_platform :: string
  n_mac :: string
  n_metrics :: HealthMetrics
  n_listDirectory :: "string \<Rightarrow> FileInfo list \<times> string option"
  n_readFile :: "string \<Rightarrow> string \<times> int \<times> string option"
  n_writeFile :: "string \<Rightarrow> string \<Rightarrow> bool \<Rightarrow> string option"
  n_deleteFile :: "string \<Rightarrow> string option"
  n_listProcesses :: "ProcessInfo list \<times> string option"
  n_killProcess :: "int \<Rightarrow> string option"
  n_captureScreen :: "string \<Rightarrow> int \<Rightarrow> int \<Rightarrow> ScreenCaptureRespPayload"

record NetClient =
  nc_cfg :: AConfig
  nc_store :: AgentDB
  nc_send :: "Envelope list"
  nc_connected :: bool
  nc_wake :: bool
  nc_uuids :: nat
  nc_ops :: "os_op list"

definition NewNetClient :: "AgentDB \<Rightarrow> AConfig \<Rightarrow> NetClient" where
  "NewNetClient st cfg = \<lparr>nc_cfg = cfg, nc_store = st, nc_send = [], nc_connected = False,
     nc_wake = False, nc_uuids = 0, nc_ops = []\<rparr>"

section \<open>Sending\<close>

definition client_capacity :: nat where
  "client_capacity = 64"

definition NSend :: "NetClient \<Rightarrow> Envelope \<Rightarrow> NetClient" where
  "NSend nc env = (if length (nc_send nc) < client_capacity
                   then nc\<lparr>nc_send := nc_send nc @ [env]\<rparr> else nc)"

definition clientEnvelope :: "NEnv \<Rightarrow> NetClient \<Rightarrow> string \<Rightarrow> json \<Rightarrow> Envelope \<times> NetClient" where
  \<comment> \<open>\<open>protocol.NewEnvelope(msgType, c.cfg.DeviceID, payload)\<close>\<close>
  "clientEnvelope ne nc msgType body =
     (NewEnvelope (n_uuid ne (nc_uuids nc)) (n_now ne) msgType (acfg_DeviceID (nc_cfg nc)) (Some body),
      nc\<lparr>nc_uuids := Suc (nc_uuids nc)\<rparr>)"

definition sendNew :: "NEnv \<Rightarrow> NetClient \<Rightarrow> string \<Rightarrow> json \<Rightarrow> NetClient" where
  "sendNew ne nc msgType body = (let (env, nc) = clientEnvelope ne nc msgType body in NSend nc env)"

text \<open>A reply keeps the identifier of the request.\<close>

definition reply :: "NEnv \<Rightarrow> NetClient \<Rightarrow> Envelope \<Rightarrow> string \<Rightarrow> json \<Rightarrow> NetClient" where
  "reply ne nc req msgType body =
     (let (env, nc) = clientEnvelope ne nc msgType body in NSend nc (env\<lparr>env_ID := env_ID req\<rparr>))"

definition result_payload :: "NetClient \<Rightarrow> Result \<Rightarrow> ResultPayload" where
  "result_payload nc r = \<lparr>rp_ResultID = ar_ResultID r, rp_CommandID = ar_CommandID r,
     rp_DeviceID = acfg_DeviceID (nc_cfg nc), rp_Stdout = ar_Stdout r, rp_Stderr = ar_Stderr r,
     rp_ExitCode = ar_ExitCode r, rp_ExecutedAt = ar_ExecutedAt r, rp_DurationMs = 0,
     rp_TimedOut = False\<rparr>"

definition ReportResult :: "NEnv \<Rightarrow> NetClient \<Rightarrow> Result \<Rightarrow> NetClient" where
  "ReportResult ne nc res = sendNew ne nc TypeCmdResult (marshal_ResultPayload (result_payload nc res))"

definition performSync :: "NEnv \<Rightarrow> NetClient \<Rightarrow> NetClient" where
  "performSync ne nc =
     sendNew ne nc TypeSyncReq (marshal_SyncReqPayload
       \<lparr>sq_DeviceID = acfg_DeviceID (nc_cfg nc),
        sq_UnsyncedResults = map (result_payload nc) (ListUnsyncedResults (nc_store nc) 50)\<rparr>)"

definition sendHeartbeat :: "NEnv \<Rightarrow> NetClient \<Rightarrow> NetClient" where
  "sendHeartbeat ne nc =
     sendNew ne nc TypeHeartbeat (marshal_HeartbeatPayload
       \<lparr>hb_DeviceID = acfg_DeviceID (nc_cfg nc), hb_Metrics = n_metrics ne\<rparr>)"

text \<open>One tick of \<open>heartbeatLoop\<close>; \<open>False\<close> ends the loop.\<close>

definition heartbeatTick :: "NEnv \<Rightarrow> NetClient \<Rightarrow> bool \<times> NetClient" where
  "heartbeatTick ne nc = (if nc_connected nc then (True, sendHeartbeat ne nc) else (False, nc))"

section \<open>Opening a connection\<close>

definition authEnvelope :: "NEnv \<Rightarrow> NetClient \<Rightarrow> Envelope \<times> NetClient" where
  "authEnvelope ne nc = clientEnvelope ne nc TypeAuth (marshal_AuthPayload
     \<lparr>ap_Role = RoleAgent, ap_DeviceID = acfg_DeviceID (nc_cfg nc),
      ap_Token = acfg_AuthToken (nc_cfg nc), ap_Hostname = n_hostname ne, ap_OS = n_platform ne,
      ap_Version = ''1.0.0'', ap_MACAddress = n_mac ne\<rparr>)"

text \<open>
  After the handshake: the relay's answer decides, and an accepted connection starts with a
  heartbeat and the synchronisation request. The error is the text of \<open>ack.Error\<close>.
\<close>

definition acceptAck :: "NEnv \<Rightarrow> NetClient \<Rightarrow> Envelope \<Rightarrow> string + NetClient" where
  "acceptAck ne nc ackEnv =
     (let (err, ack) = DecodePayload unmarshal_AuthAckPayload ackEnv zero_AuthAckPayload in
      if err \<or> \<not> aa_Success ack then Inl (''auth rejected by relay: '' @ aa_Error ack)
      else Inr (performSync ne (sendHeartbeat ne (nc\<lparr>nc_connected := True\<rparr>))))"

section \<open>Handling the relay's messages\<close>

definition wake :: "NetClient \<Rightarrow> NetClient" where
  "wake nc = nc\<lparr>nc_wake := True\<rparr>"

definition enqueue_command :: "NEnv \<Rightarrow> CommandPayload \<Rightarrow> AgentDB \<Rightarrow> AgentDB" where
  "enqueue_command ne cmd db = EnqueueWithID (n_now ne) db (cp_CommandID cmd)
     \<lparr>pl_Command = cp_Command cmd, pl_TimeoutSec = cp_TimeoutSec cmd\<rparr>"

definition handleDispatch :: "NEnv \<Rightarrow> NetClient \<Rightarrow> Envelope \<Rightarrow> NetClient" where
  "handleDispatch ne nc env =
     (let (err, cmd) = DecodePayload unmarshal_CommandPayload env zero_CommandPayload in
      if err then nc
      else wake (nc\<lparr>nc_store := enqueue_command ne cmd (nc_store nc)\<rparr>))"

definition handleSyncResp :: "NEnv \<Rightarrow> NetClient \<Rightarrow> Envelope \<Rightarrow> NetClient" where
  "handleSyncResp ne nc env =
     (let (err, resp) = DecodePayload unmarshal_SyncRespPayload env zero_SyncRespPayload in
      if err then nc
      else
        let db = fold (\<lambda>ackID db. MarkResultSynced db ackID) (sr_AckedResults resp) (nc_store nc);
            db = fold (enqueue_command ne) (sr_PendingCommands resp) db;
            nc = nc\<lparr>nc_store := db\<rparr>
        in if sr_PendingCommands resp \<noteq> [] then wake nc else nc)"

definition handleResultAck :: "NetClient \<Rightarrow> Envelope \<Rightarrow> NetClient" where
  "handleResultAck nc env =
     (let (err, ack) = DecodePayload unmarshal_ResultAckPayload env zero_ResultAckPayload in
      if \<not> err \<and> ra_Success ack
      then nc\<lparr>nc_store := MarkResultSynced (nc_store nc) (ra_CommandID ack)\<rparr> else nc)"

definition err_text :: "string option \<Rightarrow> string" where
  "err_text err = (case err of None \<Rightarrow> '''' | Some m \<Rightarrow> m)"

definition handleFileRequest :: "NEnv \<Rightarrow> NetClient \<Rightarrow> Envelope \<Rightarrow> NetClient" where
  "handleFileRequest ne nc env =
     (let me = acfg_DeviceID (nc_cfg nc) in
      if env_Type env = TypeFileListReq
      then let p = snd (DecodePayload unmarshal_FileListReqPayload env zero_FileListReqPayload);
               (files, err) = n_listDirectory ne (flq_Path p)
           in reply ne nc env TypeFileListResp (marshal_FileListRespPayload
                \<lparr>flr_DeviceID = me, flr_Path = flq_Path p, flr_Files = files, flr_Error = err_text err\<rparr>)
      else if env_Type env = TypeFileReadReq
      then let p = snd (DecodePayload unmarshal_FileReadReqPayload env zero_FileReadReqPayload);
               (content, sizeBytes, err) = n_readFile ne (frq_Path p)
           in reply ne nc env TypeFileReadResp (marshal_FileReadRespPayload
                \<lparr>frr_DeviceID = me, frr_Path = frq_Path p, frr_ContentBase64 = content,
                 frr_SizeBytes = sizeBytes, frr_Error = err_text err\<rparr>)
      else if env_Type env = TypeFileWriteReq
      then let p = snd (DecodePayload unmarshal_FileWriteReqPayload env zero_FileWriteReqPayload);
               err = n_writeFile ne (fwq_Path p) (fwq_ContentBase64 p) (fwq_Overwrite p);
               nc = nc\<lparr>nc_ops := nc_ops nc @ [OpWrite (fwq_Path p) (fwq_ContentBase64 p) (fwq_Overwrite p)]\<rparr>
           in reply ne nc env TypeFileWriteResp (marshal_FileWriteRespPayload
                \<lparr>fwr_DeviceID = me, fwr_Path = fwq_Path p, fwr_Success = (err = None),
                 fwr_Error = err_text err\<rparr>)
      else
        let p = snd (DecodePayload unmarshal_FileDeleteReqPayload env zero_FileDeleteReqPayload);
            err = n_deleteFile ne (fdq_Path p);
            nc = nc\<lparr>nc_ops := nc_ops nc @ [OpDelete (fdq_Path p)]\<rparr>
        in reply ne nc env TypeFileDeleteResp (marshal_FileDeleteRespPayload
             \<lparr>fdr_DeviceID = me, fdr_Path = fdq_Path p, fdr_Success = (err = None),
              fdr_Error = err_text err\<rparr>))"

definition handleProcessRequest :: "NEnv \<Rightarrow> NetClient \<Rightarrow> Envelope \<Rightarrow> NetClient" where
  "handleProcessRequest ne nc env =
     (let me = acfg_DeviceID (nc_cfg nc) in
      if env_Type env = TypeProcessListReq
      then let (procs, err) = n_listProcesses ne
           in reply ne nc env TypeProcessListResp (marshal_ProcessListRespPayload
                \<lparr>plr_DeviceID = me, plr_Processes = procs, plr_Error = err_text err\<rparr>)
      else
        let p = snd (DecodePayload unmarshal_ProcessKillReqPayload env zero_ProcessKillReqPayload);
            err = n_killProcess ne (pkq_PID p);
            nc = nc\<lparr>nc_ops := nc_ops nc @ [OpKill (pkq_PID p)]\<rparr>
        in reply ne nc env TypeProcessKillResp (marshal_ProcessKillRespPayload
             \<lparr>pkr_DeviceID = me, pkr_PID = pkq_PID p, pkr_Success = (err = None),
              pkr_Error = err_text err\<rparr>))"

definition handleScreenCapture :: "NEnv \<Rightarrow> NetClient \<Rightarrow> Envelope \<Rightarrow> NetClient" where
  "handleScreenCapture ne nc env =
     (let p = snd (DecodePayload unmarshal_ScreenCaptureReqPayload env zero_ScreenCaptureReqPayload);
          quality = (if scq_Quality p \<le> 0 then 75 else scq_Quality p);
          maxWidth = (if scq_MaxWidth p \<le> 0 then 1280 else scq_MaxWidth p)
      in reply ne nc env TypeScreenCaptureResp (marshal_ScreenCaptureRespPayload
           (n_captureScreen ne (acfg_DeviceID (nc_cfg nc)) quality maxWidth)))"

definition handleIncoming :: "NEnv \<Rightarrow> NetClient \<Rightarrow> Envelope \<Rightarrow> NetClient" where
  "handleIncoming ne nc env =
     (if env_Type env = TypeDispatchCmd then handleDispatch ne nc env
      else if env_Type env = TypeSyncResp then handleSyncResp ne nc env
      else if env_Type env = TypeResultAck then handleResultAck nc env
      else if env_Type env \<in> {TypeFileListReq, TypeFileReadReq, TypeFileWriteReq, TypeFileDeleteReq}
      then handleFileRequest ne nc env
      else if env_Type env \<in> {TypeProcessListReq, TypeProcessKillReq}
      then handleProcessRequest ne nc env
      else if env_Type env = TypeScreenCaptureReq then handleScreenCapture ne nc env
      else nc)"

end
