(* ===== verification/AgentProps.thy ===== *)
theory AgentProps
  imports Worker
begin

text \<open>
  The agent's queue and worker under interleaving and crashes. A state of \<open>agent_step\<close> is the
  database, the command the worker is executing (between \<open>ClaimNext\<close> and the rest of \<open>RunOnce\<close>),
  and, as a record of what happened, the identifiers of the executions started so far. While
  a command executes, the network client may deliver commands and mark results as synced;
  at any moment the process may die and start again with \<open>RecoverStale\<close>.
\<close>

section \<open>The step relation\<close>

record AgentState =
  as_db :: AgentDB
  as_running :: "Command option"
  as_runs :: "string list"

definition agent_init :: "AgentState \<Rightarrow> bool" where
  "agent_init s \<longleftrightarrow> s = \<lparr>as_db = empty_agent_db, as_running = None, as_runs = []\<rparr>"

inductive agent_step :: "AConfig \<Rightarrow> AgentState \<Rightarrow> AgentState \<Rightarrow> bool" for cfg where
  claim: "as_running s = None \<Longrightarrow> ClaimNext (acfg_MaxAttempts cfg) (as_db s) = (Some cmd, db) \<Longrightarrow>
    agent_step cfg s \<lparr>as_db = db, as_running = Some cmd, as_runs = as_runs s @ [ac_CommandID cmd]\<rparr>"
| finish: "as_running s = Some cmd \<Longrightarrow>
    agent_step cfg s (s\<lparr>as_db := ro_db (process_claimed cfg we cmd (as_db s)), as_running := None\<rparr>)"
| deliver: "agent_step cfg s (s\<lparr>as_db := EnqueueWithID now (as_db s) i p\<rparr>)"
| enqueue_local: "agent_step cfg s (s\<lparr>as_db := fst (Enqueue uuid now (as_db s) p)\<rparr>)"
| synced: "agent_step cfg s (s\<lparr>as_db := MarkResultSynced (as_db s) i\<rparr>)"
| restart: "agent_step cfg s (s\<lparr>as_db := snd (RecoverStale (acfg_MaxAttempts cfg) (as_db s)), as_running := None\<rparr>)"

section \<open>The invariant\<close>

definition results_of :: "AgentDB \<Rightarrow> string \<Rightarrow> nat" where
  "results_of db i = length (filter (\<lambda>r. ar_CommandID r = i) (ResultQueue db))"

definition running_id :: "AgentState \<Rightarrow> string option" where
  "running_id s = map_option ac_CommandID (as_running s)"

definition row_ok :: "int \<Rightarrow> AgentState \<Rightarrow> Command \<Rightarrow> bool" where
  "row_ok m s c \<longleftrightarrow>
     ac_Status c \<in> set agent_statuses
     \<and> ac_Attempts c \<le> max 0 m
     \<and> int (count_list (as_runs s) (ac_CommandID c)) = ac_Attempts c
     \<and> int (results_of (as_db s) (ac_CommandID c))
         + (if running_id s = Some (ac_CommandID c) then 1 else 0) \<le> ac_Attempts c
     \<and> (ac_Status c = AStatusPending \<longrightarrow> ac_Attempts c < max 1 m)
     \<and> (\<forall>cmd. as_running s = Some cmd \<and> ac_CommandID cmd = ac_CommandID c \<longrightarrow>
          ac_Status c = AStatusExecuting \<and> ac_Attempts c = ac_Attempts cmd)"

definition command_ids :: "AgentDB \<Rightarrow> string set" where
  "command_ids db = ac_CommandID ` set (CommandQueue db)"

definition agent_ok :: "int \<Rightarrow> AgentState \<Rightarrow> bool" where
  "agent_ok m s \<longleftrightarrow>
     pk_ok ac_CommandID (CommandQueue (as_db s))
     \<and> pk_ok ar_ResultID (ResultQueue (as_db s))
     \<and> ar_CommandID ` set (ResultQueue (as_db s)) \<subseteq> command_ids (as_db s)
     \<and> set (as_runs s) \<subseteq> command_ids (as_db s)
     \<and> set_option (running_id s) \<subseteq> command_ids (as_db s)
     \<and> (\<forall>c \<in> set (CommandQueue (as_db s)). row_ok m s c)"

lemma count_list_append_single: "count_list (xs @ [x]) y = count_list xs y + (if x = y then 1 else 0)"
  by (induction xs) auto

lemma command_ids_update:
  "(\<And>r. p r \<Longrightarrow> ac_CommandID (f r) = ac_CommandID r) \<Longrightarrow>
   command_ids (db\<lparr>CommandQueue := update_rows p f (CommandQueue db)\<rparr>) = command_ids db"
  unfolding command_ids_def by (metis AgentDB.select_convs(1) AgentDB.update_convs(1) AgentDB.surjective
      map_key_update_rows set_map)

text \<open>A new pending row under an identifier that nothing refers to.\<close>

lemma agent_ok_insert:
  assumes "agent_ok m s" and "agent_lookup (as_db s) i = None"
  shows "agent_ok m (s\<lparr>as_db := (as_db s)\<lparr>CommandQueue := CommandQueue (as_db s) @ [pending_row now i p]\<rparr>\<rparr>)"
proof -
  have new: "i \<notin> command_ids (as_db s)"
    using assms(2) by (auto simp: agent_lookup_def select_pk_None_iff command_ids_def)
  then have "count_list (as_runs s) i = 0"
    using assms(1) by (auto simp: agent_ok_def count_list_0_iff)
  moreover have "results_of (as_db s) i = 0"
    using new assms(1) by (auto simp: agent_ok_def results_of_def filter_empty_conv)
  moreover have "running_id s \<noteq> Some i"
    using new assms(1) by (auto simp: agent_ok_def)
  moreover have "pk_ok ac_CommandID (CommandQueue (as_db s) @ [pending_row now i p])"
    using assms by (intro pk_ok_insert) (auto simp: agent_ok_def pending_row_def agent_lookup_def)
  ultimately show ?thesis
    using assms(1)
    by (auto simp: agent_ok_def row_ok_def command_ids_def running_id_def results_of_def pending_row_def
        agent_statuses_def)
qed

lemma agent_ok_deliver: "agent_ok m s \<Longrightarrow> agent_ok m (s\<lparr>as_db := EnqueueWithID now (as_db s) i p\<rparr>)"
  by (auto simp: EnqueueWithID_def agent_ok_insert split: option.split)

lemma agent_ok_enqueue: "agent_ok m s \<Longrightarrow> agent_ok m (s\<lparr>as_db := fst (Enqueue uuid now (as_db s) p)\<rparr>)"
  by (auto simp: Enqueue_def agent_ok_insert split: option.split)

lemma results_of_commands [simp]: "results_of (db\<lparr>CommandQueue := q\<rparr>) i = results_of db i"
  by (simp add: results_of_def)

lemma results_of_synced [simp]: "results_of (MarkResultSynced db i) j = results_of db j"
proof -
  have "length (filter (\<lambda>r. ar_CommandID r = j) (update_rows (\<lambda>r. ar_CommandID r = i) (\<lambda>r. r\<lparr>ar_Synced := True\<rparr>) rs))
      = length (filter (\<lambda>r. ar_CommandID r = j) rs)" for rs
    by (induction rs) (auto simp: update_rows_def)
  then show ?thesis by (simp add: results_of_def MarkResultSynced_def)
qed

lemma CommandQueue_synced [simp]: "CommandQueue (MarkResultSynced db i) = CommandQueue db"
  by (simp add: MarkResultSynced_def)

lemma agent_ok_synced:
  assumes "agent_ok m s"
  shows "agent_ok m (s\<lparr>as_db := MarkResultSynced (as_db s) i\<rparr>)"
proof -
  have "pk_ok ar_ResultID (ResultQueue (MarkResultSynced (as_db s) i))"
    "ar_CommandID ` set (ResultQueue (MarkResultSynced (as_db s) i)) = ar_CommandID ` set (ResultQueue (as_db s))"
    using assms by (simp_all add: MarkResultSynced_def agent_ok_def pk_ok_update_rows image_key_update_rows)
  then show ?thesis
    using assms by (auto simp: agent_ok_def row_ok_def command_ids_def running_id_def)
qed

text \<open>Changing the status of rows while nothing runs, with new results of an allowed number.\<close>

lemma agent_ok_set_status:
  assumes ok: "agent_ok m s"
    and f: "\<And>r. p r \<Longrightarrow> ac_CommandID (f r) = ac_CommandID r \<and> ac_Attempts (f r) = ac_Attempts r
              \<and> (ac_Status (f r) = ac_Status r \<or> ac_Status (f r) \<in> set agent_statuses)
              \<and> (ac_Status (f r) = AStatusPending \<longrightarrow> ac_Attempts r < max 1 m)"
  shows "agent_ok m (s\<lparr>as_db := (as_db s)\<lparr>CommandQueue := update_rows p f (CommandQueue (as_db s))\<rparr>,
           as_running := None\<rparr>)"
proof -
  have "row_ok m (s\<lparr>as_db := (as_db s)\<lparr>CommandQueue := q\<rparr>, as_running := None\<rparr>) (if p r then f r else r)"
    if "row_ok m s r" for r q
    using that f [of r] by (auto simp: row_ok_def running_id_def split: if_splits)
  moreover have "command_ids ((as_db s)\<lparr>CommandQueue := update_rows p f (CommandQueue (as_db s))\<rparr>) = command_ids (as_db s)"
    by (rule command_ids_update) (simp add: f)
  moreover have "pk_ok ac_CommandID (update_rows p f (CommandQueue (as_db s))) = pk_ok ac_CommandID (CommandQueue (as_db s))"
    by (rule pk_ok_update_rows) (simp add: f)
  ultimately show ?thesis
    using ok by (simp add: agent_ok_def ball_update_rows running_id_def)
qed

lemma agent_ok_restart:
  "agent_ok m s \<Longrightarrow> agent_ok m (s\<lparr>as_db := snd (RecoverStale m (as_db s)), as_running := None\<rparr>)"
  unfolding RecoverStale_def snd_conv
  by (rule agent_ok_set_status) (auto simp: agent_statuses_def)

text \<open>Claiming: the one row of the claimed command starts another attempt.\<close>

lemma agent_ok_claim:
  assumes ok: "agent_ok m s" and idle: "as_running s = None" and "ClaimNext m (as_db s) = (Some cmd, db)"
  shows "agent_ok m \<lparr>as_db = db, as_running = Some cmd, as_runs = as_runs s @ [ac_CommandID cmd]\<rparr>"
    (is "agent_ok m ?t")
  using assms(3)
proof (rule ClaimNext_SomeD)
  fix c :: Command
  let ?hit = "\<lambda>r. ac_CommandID r = ac_CommandID c \<and> ac_Status r = AStatusPending"
  let ?upd = "\<lambda>r. r\<lparr>ac_Status := AStatusExecuting, ac_Attempts := ac_Attempts r + 1\<rparr>"
  assume c: "c \<in> set (CommandQueue (as_db s))" "claimable m c"
    and cmd: "cmd = ?upd c"
    and db: "db = (as_db s)\<lparr>CommandQueue := update_rows ?hit ?upd (CommandQueue (as_db s))\<rparr>"
  have only: "r = c" if "r \<in> set (CommandQueue (as_db s))" "ac_CommandID r = ac_CommandID c" for r
    using that c(1) ok by (auto simp: agent_ok_def pk_ok_def distinct_map inj_on_def)
  have "row_ok m ?t (if ?hit r then ?upd r else r)" if "r \<in> set (CommandQueue (as_db s))" for r
  proof -
    have old: "row_ok m s r" using ok that by (simp add: agent_ok_def)
    show ?thesis
    proof (cases "r = c")
      case True
      then show ?thesis using old c(2) idle
        by (auto simp: row_ok_def claimable_def cmd db running_id_def results_of_def
            count_list_append_single agent_statuses_def)
    next
      case False
      then have "ac_CommandID r \<noteq> ac_CommandID c" using only that by blast
      then show ?thesis using old idle
        by (auto simp: row_ok_def cmd db running_id_def results_of_def count_list_append_single)
    qed
  qed
  moreover have "command_ids db = command_ids (as_db s)"
    unfolding db by (rule command_ids_update) simp
  moreover have "ac_CommandID c \<in> command_ids (as_db s)" using c(1) by (simp add: command_ids_def)
  ultimately show ?thesis
    using ok unfolding db by (simp add: agent_ok_def cmd pk_ok_update_rows ball_update_rows running_id_def)
qed

text \<open>
  What \<open>process_claimed\<close> does to the two tables: at most one result of the command is appended,
  and the status of the command's row changes to a status other than EXECUTING or stays.
\<close>

definition final_or_retry :: "int \<Rightarrow> Command \<Rightarrow> string option \<Rightarrow> bool" where
  "final_or_retry m cmd st \<longleftrightarrow>
     st \<in> {None, Some AStatusCompleted, Some AStatusFailed} \<or> st = Some AStatusPending \<and> ac_Attempts cmd < m"

definition claimed_effect :: "int \<Rightarrow> Command \<Rightarrow> AgentDB \<Rightarrow> AgentDB \<Rightarrow> bool" where
  "claimed_effect m cmd db db' \<longleftrightarrow>
     (\<exists>rs st. ResultQueue db' = ResultQueue db @ rs \<and> length rs \<le> 1
        \<and> (\<forall>r \<in> set rs. ar_CommandID r = ac_CommandID cmd
              \<and> select_pk ar_ResultID (ar_ResultID r) (ResultQueue db) = None
              \<and> ac_CommandID cmd \<in> command_ids db)
        \<and> final_or_retry m cmd st
        \<and> CommandQueue db' = update_rows (\<lambda>r. st \<noteq> None \<and> ac_CommandID r = ac_CommandID cmd)
             (\<lambda>r. r\<lparr>ac_Status := the st\<rparr>) (CommandQueue db))"

lemma ASaveResult_cases:
  obtains (saved) r' where "ASaveResult u now db r = (db\<lparr>ResultQueue := ResultQueue db @ [r']\<rparr>, None)"
      and "ar_CommandID r' = ar_CommandID r"
      and "select_pk ar_ResultID (ar_ResultID r') (ResultQueue db) = None"
      and "agent_lookup db (ar_CommandID r) \<noteq> None"
  | (refused) err where "ASaveResult u now db r = (db, Some err)"
proof -
  let ?r = "(if ar_ExecutedAt (if ar_ResultID r = '''' then r\<lparr>ar_ResultID := u\<rparr> else r) = 0
     then (if ar_ResultID r = '''' then r\<lparr>ar_ResultID := u\<rparr> else r)\<lparr>ar_ExecutedAt := now\<rparr>
     else (if ar_ResultID r = '''' then r\<lparr>ar_ResultID := u\<rparr> else r))"
  have id: "ar_CommandID ?r = ar_CommandID r" by simp
  show thesis
  proof (cases "select_pk ar_ResultID (ar_ResultID ?r) (ResultQueue db) = None \<and> agent_lookup db (ar_CommandID r) \<noteq> None")
    case True
    show ?thesis
      by (rule saved [of "?r\<lparr>ar_Synced := False\<rparr>"]; use True id in \<open>simp add: ASaveResult_def Let_def\<close>)
  next
    case False
    then obtain err where "ASaveResult u now db r = (db, Some err)"
      unfolding ASaveResult_def Let_def using id by (metis (no_types, lifting))
    then show ?thesis by (rule refused)
  qed
qed

lemma ASaveResult_effect:
  assumes "ar_CommandID r = ac_CommandID cmd" and "final_or_retry m cmd st"
  shows "claimed_effect m cmd db ((fst (ASaveResult u now db r))\<lparr>CommandQueue :=
    update_rows (\<lambda>r. st \<noteq> None \<and> ac_CommandID r = ac_CommandID cmd) (\<lambda>r. r\<lparr>ac_Status := the st\<rparr>) (CommandQueue db)\<rparr>)"
proof (cases rule: ASaveResult_cases [of u now db r])
  case (saved r')
  then have "ac_CommandID cmd \<in> command_ids db"
    using assms by (auto simp: agent_lookup_def select_pk_None_iff command_ids_def)
  then show ?thesis
    using saved assms unfolding claimed_effect_def
    by (intro exI [of _ "[r']"] exI [of _ st]) simp
next
  case (refused err)
  then show ?thesis
    using assms unfolding claimed_effect_def by (intro exI [of _ "[]"] exI [of _ st]) simp
qed

lemma CommandQueue_ASaveResult [simp]: "CommandQueue (fst (ASaveResult u now db r)) = CommandQueue db"
  by (cases rule: ASaveResult_cases [of u now db r]) auto

lemma Complete_known:
  "st \<in> set agent_statuses \<Longrightarrow> Complete db i st = (db\<lparr>CommandQueue := update_rows (\<lambda>r. ac_CommandID r = i)
      (\<lambda>r. r\<lparr>ac_Status := st\<rparr>) (CommandQueue db)\<rparr>, None)"
  by (simp add: Complete_def)

lemma update_rows_False [simp]: "update_rows (\<lambda>r. False) f rows = rows"
  by (simp add: update_rows_none)

lemma process_claimed_effect:
  "claimed_effect (acfg_MaxAttempts cfg) cmd db (ro_db (process_claimed cfg we cmd db))"
proof -
  note eff = ASaveResult_effect [where db = db and u = "w_uuid we" and now = "w_now we" and cmd = cmd
    and m = "acfg_MaxAttempts cfg"]
  have "ar_CommandID (exec_result we cmd x) = ac_CommandID cmd" for x
    by (simp add: exec_result_def)
  note exec = eff [OF this]
  have "ar_CommandID (invalid_payload_result we cmd) = ac_CommandID cmd"
    by (simp add: invalid_payload_result_def)
  note invalid = eff [OF this, where st = "Some AStatusFailed"]
  have "claimed_effect (acfg_MaxAttempts cfg) cmd db (fst (ASaveResult (w_uuid we) (w_now we) db (exec_result we cmd x)))"
    for x
    using eff [where st = None and r = "exec_result we cmd x"]
    by (cases rule: ASaveResult_cases [of "w_uuid we" "w_now we" db "exec_result we cmd x"])
       (simp_all add: final_or_retry_def exec_result_def)
  then show ?thesis
    using exec [where st = "Some AStatusPending"] exec [where st = "Some AStatusCompleted"]
      exec [where st = "Some AStatusFailed"] invalid
    by (auto simp: process_claimed_def Let_def Complete_known Requeue_def agent_statuses_def
        split_beta final_or_retry_def split: option.split)
qed

lemma claimed_effect_ids: "claimed_effect m cmd db db' \<Longrightarrow> command_ids db' = command_ids db"
  unfolding claimed_effect_def command_ids_def by (elim exE conjE) (simp add: image_key_update_rows)

lemma claimed_effect_results:
  assumes "claimed_effect m cmd db db'"
  shows "results_of db' j \<le> results_of db j + (if j = ac_CommandID cmd then 1 else 0)"
proof -
  obtain rs where "ResultQueue db' = ResultQueue db @ rs" "length rs \<le> 1"
      "\<forall>r \<in> set rs. ar_CommandID r = ac_CommandID cmd"
    using assms unfolding claimed_effect_def by blast
  then show ?thesis by (cases rs) (auto simp: results_of_def)
qed

lemma agent_ok_finish:
  assumes ok: "agent_ok m s" and run: "as_running s = Some cmd"
    and eff: "claimed_effect m cmd (as_db s) db'"
  shows "agent_ok m (s\<lparr>as_db := db', as_running := None\<rparr>)"
proof -
  obtain rs st where rs: "ResultQueue db' = ResultQueue (as_db s) @ rs" "length rs \<le> 1"
      "\<forall>r \<in> set rs. ar_CommandID r = ac_CommandID cmd \<and> select_pk ar_ResultID (ar_ResultID r) (ResultQueue (as_db s)) = None
        \<and> ac_CommandID cmd \<in> command_ids (as_db s)"
    and st: "final_or_retry m cmd st"
    and q: "CommandQueue db' = update_rows (\<lambda>r. st \<noteq> None \<and> ac_CommandID r = ac_CommandID cmd)
             (\<lambda>r. r\<lparr>ac_Status := the st\<rparr>) (CommandQueue (as_db s))"
    using eff unfolding claimed_effect_def by blast
  have "pk_ok ar_ResultID (ResultQueue db')"
  proof (cases rs)
    case (Cons r rest)
    then have "rs = [r]" using rs(2) by simp
    then show ?thesis using rs ok by (auto simp: agent_ok_def intro!: pk_ok_insert)
  qed (use rs ok in \<open>simp add: agent_ok_def\<close>)
  moreover have "ar_CommandID ` set (ResultQueue db') \<subseteq> command_ids (as_db s)"
    using rs ok by (auto simp: agent_ok_def)
  moreover have "row_ok m (s\<lparr>as_db := db', as_running := None\<rparr>)
      (if st \<noteq> None \<and> ac_CommandID r = ac_CommandID cmd then r\<lparr>ac_Status := the st\<rparr> else r)"
    if "row_ok m s r" for r
    using that st run claimed_effect_results [OF eff, of "ac_CommandID r"]
    by (cases st) (auto simp: row_ok_def running_id_def agent_statuses_def final_or_retry_def split: if_splits)
  ultimately show ?thesis
    using ok claimed_effect_ids [OF eff]
    by (simp add: agent_ok_def q ball_update_rows pk_ok_update_rows running_id_def)
qed

lemma agent_step_ok: "agent_step cfg s t \<Longrightarrow> agent_ok (acfg_MaxAttempts cfg) s \<Longrightarrow> agent_ok (acfg_MaxAttempts cfg) t"
  by (induction rule: agent_step.induct)
     (auto intro: agent_ok_claim agent_ok_finish [OF _ _ process_claimed_effect] agent_ok_deliver
        agent_ok_enqueue agent_ok_synced agent_ok_restart)

lemma agent_init_ok: "agent_init s \<Longrightarrow> agent_ok m s"
  by (simp add: agent_init_def agent_ok_def empty_agent_db_def command_ids_def running_id_def)

interpretation agent_system: invariant_system agent_init "agent_step cfg" "agent_ok (acfg_MaxAttempts cfg)" for cfg
  by unfold_locales (auto intro: agent_init_ok agent_step_ok)

lemma row_of_reachable:
  assumes "reach agent_init (agent_step cfg) s" and "AGetCommand (as_db s) i = Some c"
  shows "row_ok (acfg_MaxAttempts cfg) s c" and "ac_CommandID c = i"
  using agent_system.reach_inv [OF assms(1)] assms(2)
  by (auto simp: agent_ok_def AGetCommand_def agent_lookup_def dest: select_pk_SomeD)

text \<open>
  C4. A command is executed at most \<open>MaxAttempts\<close> times, counting every execution that was
  started, across retries, crashes and restarts and however often the relay delivers it; the
  attempts recorded in its row are exactly these executions, and it has at most one result per
  execution.
\<close>

theorem bounded_executions:
  assumes "reach agent_init (agent_step cfg) s" and "AGetCommand (as_db s) i = Some c"
  shows "int (count_list (as_runs s) i) = ac_Attempts c
    \<and> ac_Attempts c \<le> max 0 (acfg_MaxAttempts cfg)
    \<and> int (results_of (as_db s) i) \<le> ac_Attempts c"
  using row_of_reachable [OF assms] by (auto simp: row_ok_def split: if_splits)

definition sample_acfg :: AConfig where
  "sample_acfg = \<lparr>acfg_DBPath = '''', acfg_Timeout = seconds 30, acfg_PollInterval = seconds 2,
     acfg_MaxAttempts = 3, acfg_ExecPolicy = '''', acfg_RelayURL = '''', acfg_DeviceID = ''d'',
     acfg_AuthToken = '''', acfg_HeartbeatInterval = seconds 30\<rparr>"

definition sample_payload :: Payload where
  "sample_payload = \<lparr>pl_Command = ''dir'', pl_TimeoutSec = 0\<rparr>"

definition sample_queue :: AgentDB where
  "sample_queue = EnqueueWithID 5 empty_agent_db ''c'' sample_payload"

definition sample_claimed :: "Command \<times> AgentDB" where
  "sample_claimed =
     (let c = (pending_row 5 ''c'' sample_payload)\<lparr>ac_Status := AStatusExecuting, ac_Attempts := 1\<rparr>
      in (c, \<lparr>CommandQueue = [c], ResultQueue = []\<rparr>))"

lemma sample_claim: "ClaimNext 3 sample_queue = (Some (fst sample_claimed), snd sample_claimed)"
  by code_simp

definition sample_running :: AgentState where
  "sample_running = \<lparr>as_db = snd sample_claimed, as_running = Some (fst sample_claimed), as_runs = [''c'']\<rparr>"

lemma sample_running_reachable: "reach agent_init (agent_step sample_acfg) sample_running"
proof -
  let ?s0 = "\<lparr>as_db = empty_agent_db, as_running = None, as_runs = []\<rparr>"
  let ?s1 = "\<lparr>as_db = sample_queue, as_running = None, as_runs = []\<rparr>"
  have "agent_step sample_acfg ?s0 ?s1"
    using agent_step.deliver [of sample_acfg ?s0 5 "''c''" sample_payload] by (simp add: sample_queue_def)
  then have "reach agent_init (agent_step sample_acfg) ?s1"
    by (rule reach_step [rotated]) (simp add: reach_init agent_init_def)
  moreover have "agent_step sample_acfg ?s1 sample_running"
    using agent_step.claim [of ?s1 sample_acfg "fst sample_claimed" "snd sample_claimed"] sample_claim
    by (simp add: sample_acfg_def sample_running_def sample_claimed_def pending_row_def Let_def)
  ultimately show ?thesis by (rule reach_step)
qed

lemma sample_running_row: "AGetCommand (as_db sample_running) ''c'' = Some (fst sample_claimed)"
  by code_simp

theorem bounded_executions_witness:
  "int (count_list (as_runs sample_running) ''c'') = ac_Attempts (fst sample_claimed)
   \<and> ac_Attempts (fst sample_claimed) \<le> max 0 (acfg_MaxAttempts sample_acfg)"
  using bounded_executions [OF sample_running_reachable sample_running_row] by blast

section \<open>The life cycle of a command on the agent\<close>

definition final :: "Command \<Rightarrow> bool" where
  "final c \<longleftrightarrow> ac_Status c \<in> {AStatusCompleted, AStatusFailed}"

definition keeps :: "AgentDB \<Rightarrow> AgentDB \<Rightarrow> bool" where
  "keeps db db' \<longleftrightarrow>
     (\<forall>i c. AGetCommand db i = Some c \<longrightarrow>
        (\<exists>c'. AGetCommand db' i = Some c' \<and> ac_Payload c' = ac_Payload c \<and> ac_CreatedAt c' = ac_CreatedAt c
              \<and> ac_Attempts c \<le> ac_Attempts c' \<and> (final c \<longrightarrow> c' = c)))"

lemma keeps_refl: "CommandQueue db' = CommandQueue db \<Longrightarrow> keeps db db'"
  by (simp add: keeps_def AGetCommand_def agent_lookup_def)

lemma keeps_trans: "keeps a b \<Longrightarrow> keeps b c \<Longrightarrow> keeps a c"
  unfolding keeps_def by (fastforce intro: order_trans)

lemma keeps_insert:
  "keeps db (db\<lparr>CommandQueue := CommandQueue db @ [r]\<rparr>)"
  by (simp add: keeps_def AGetCommand_def agent_lookup_def select_pk_append)

lemma keeps_update:
  assumes "CommandQueue db' = update_rows p f (CommandQueue db)"
    and "\<And>r. r \<in> set (CommandQueue db) \<Longrightarrow> p r \<Longrightarrow> \<not> final r"
    and "\<And>r. p r \<Longrightarrow> ac_CommandID (f r) = ac_CommandID r \<and> ac_Payload (f r) = ac_Payload r
           \<and> ac_CreatedAt (f r) = ac_CreatedAt r \<and> ac_Attempts r \<le> ac_Attempts (f r)"
  shows "keeps db db'"
  unfolding keeps_def AGetCommand_def agent_lookup_def assms(1)
  using assms(2,3) by (auto simp: select_pk_update_rows dest!: select_pk_SomeD)

lemma agent_step_keeps:
  assumes "agent_step cfg s t" and ok: "agent_ok (acfg_MaxAttempts cfg) s"
  shows "keeps (as_db s) (as_db t)"
  using assms(1)
proof (cases rule: agent_step.cases)
  case (claim cmd db)
  from claim(3) show ?thesis
  proof (rule ClaimNext_SomeD)
    fix c
    assume "db = (as_db s)\<lparr>CommandQueue := update_rows
           (\<lambda>r. ac_CommandID r = ac_CommandID c \<and> ac_Status r = AStatusPending)
           (\<lambda>r. r\<lparr>ac_Status := AStatusExecuting, ac_Attempts := ac_Attempts r + 1\<rparr>) (CommandQueue (as_db s))\<rparr>"
    then show ?thesis
      unfolding claim(1) by (auto intro!: keeps_update simp: final_def)
  qed
next
  case (finish cmd we)
  obtain st where q: "CommandQueue (as_db t) = update_rows (\<lambda>r. st \<noteq> None \<and> ac_CommandID r = ac_CommandID cmd)
      (\<lambda>r. r\<lparr>ac_Status := the st\<rparr>) (CommandQueue (as_db s))"
    using process_claimed_effect [of cfg cmd "as_db s" we] unfolding claimed_effect_def finish(1) by auto
  have "\<not> final r" if "r \<in> set (CommandQueue (as_db s))" "ac_CommandID r = ac_CommandID cmd" for r
    using ok that finish(2) by (auto simp: agent_ok_def row_ok_def running_id_def final_def)
  then show ?thesis by (intro keeps_update [OF q]) auto
next
  case (restart)
  then show ?thesis
    by (intro keeps_update [where p = "\<lambda>r. ac_Status r = AStatusExecuting"]) (auto simp: RecoverStale_def final_def)
qed (auto intro!: keeps_refl keeps_insert simp: EnqueueWithID_def Enqueue_def split: option.split)

text \<open>
  C15. Whatever happens from a reachable state on, a command in the agent's queue is never lost:
  its payload and its creation time stay, its attempts never decrease, and once it is COMPLETED
  or FAILED its row never changes again, so it is not executed again.
\<close>

theorem agent_lifecycle:
  assumes "reach agent_init (agent_step cfg) s" and "rtranclp (agent_step cfg) s t"
  shows "keeps (as_db s) (as_db t)"
  using assms(2)
proof (induction rule: rtranclp_induct)
  case base
  show ?case by (rule keeps_refl) simp
next
  case (step b c)
  have "reach agent_init (agent_step cfg) b"
    using step(1) assms(1) by (induction rule: rtranclp_induct) (auto intro: reach_step)
  then show ?case
    using step agent_step_keeps agent_system.reach_inv keeps_trans by blast
qed

theorem agent_lifecycle_witness:
  "keeps (as_db sample_running) (snd (RecoverStale 3 (as_db sample_running)))"
proof -
  have "agent_step sample_acfg sample_running
      (sample_running\<lparr>as_db := snd (RecoverStale 3 (as_db sample_running)), as_running := None\<rparr>)"
    using agent_step.restart [of sample_acfg sample_running] by (simp add: sample_acfg_def)
  then have "rtranclp (agent_step sample_acfg) sample_running
      (sample_running\<lparr>as_db := snd (RecoverStale 3 (as_db sample_running)), as_running := None\<rparr>)"
    by (rule r_into_rtranclp)
  from agent_lifecycle [OF sample_running_reachable this] show ?thesis by simp
qed

section \<open>Claiming\<close>

lemma ClaimNext_None_iff:
  "fst (ClaimNext m db) = None \<longleftrightarrow> (\<forall>c \<in> set (CommandQueue db). \<not> claimable m c)"
proof (cases "sort_key (\<lambda>c. (ac_CreatedAt c, ac_CommandID c)) (filter (claimable m) (CommandQueue db))")
  case Nil
  then have "filter (claimable m) (CommandQueue db) = []"
    by (metis length_0_conv length_sort)
  then show ?thesis
    using Nil by (auto simp: ClaimNext_def filter_empty_conv)
next
  case (Cons c cs)
  then have "c \<in> set (filter (claimable m) (CommandQueue db))"
    by (metis list.set_intros(1) set_sort)
  then show ?thesis
    using Cons by (auto simp: ClaimNext_def Let_def filter_empty_conv claimable_def)
qed

lemma ClaimNext_None_db: "fst (ClaimNext m db) = None \<Longrightarrow> snd (ClaimNext m db) = db"
  by (auto simp: ClaimNext_def Let_def split: list.splits if_splits)

lemma claimed_lookup:
  assumes "pk_ok ac_CommandID (CommandQueue db)" and "ClaimNext m db = (Some cmd, db')"
  shows "AGetCommand db' i = (if i = ac_CommandID cmd then Some cmd else AGetCommand db i)"
  using assms(2)
proof (rule ClaimNext_SomeD)
  fix c :: Command
  assume c: "c \<in> set (CommandQueue db)" "claimable m c"
    and cmd: "cmd = c\<lparr>ac_Status := AStatusExecuting, ac_Attempts := ac_Attempts c + 1\<rparr>"
    and db': "db' = db\<lparr>CommandQueue := update_rows
           (\<lambda>r. ac_CommandID r = ac_CommandID c \<and> ac_Status r = AStatusPending)
           (\<lambda>r. r\<lparr>ac_Status := AStatusExecuting, ac_Attempts := ac_Attempts r + 1\<rparr>) (CommandQueue db)\<rparr>"
  have "select_pk ac_CommandID (ac_CommandID c) (CommandQueue db) = Some c"
    using assms(1) c(1) by (simp add: select_pk_Some_iff)
  moreover have "map_option (\<lambda>r. if ac_CommandID r = ac_CommandID c \<and> ac_Status r = AStatusPending then f r else r)
      (select_pk ac_CommandID i (CommandQueue db)) = select_pk ac_CommandID i (CommandQueue db)"
    if "i \<noteq> ac_CommandID c" for f
    using that by (cases "select_pk ac_CommandID i (CommandQueue db)") (auto dest: select_pk_SomeD)
  ultimately show ?thesis
    using c(2) by (simp add: AGetCommand_def agent_lookup_def db' cmd select_pk_update_rows claimable_def)
qed

text \<open>
  \<open>ClaimNext\<close> finds nothing exactly when no command is PENDING with attempts left, and then
  changes nothing. Otherwise it takes the oldest such command, the identifier breaking ties,
  records it as EXECUTING with one more attempt, returns it as recorded, and leaves every
  other command as it was.
\<close>

theorem claim_oldest:
  assumes "pk_ok ac_CommandID (CommandQueue db)"
  shows "case ClaimNext m db of
      (None, db') \<Rightarrow> db' = db \<and> (\<forall>c \<in> set (CommandQueue db). \<not> claimable m c)
    | (Some cmd, db') \<Rightarrow>
        (\<exists>c \<in> set (CommandQueue db). claimable m c
           \<and> cmd = c\<lparr>ac_Status := AStatusExecuting, ac_Attempts := ac_Attempts c + 1\<rparr>
           \<and> (\<forall>x \<in> set (CommandQueue db). claimable m x \<longrightarrow>
                (ac_CreatedAt c, ac_CommandID c) \<le> (ac_CreatedAt x, ac_CommandID x)))
        \<and> (\<forall>i. AGetCommand db' i = (if i = ac_CommandID cmd then Some cmd else AGetCommand db i))"
proof (cases "ClaimNext m db")
  case (Pair o' db')
  show ?thesis
  proof (cases o')
    case None
    then show ?thesis
      using Pair ClaimNext_None_iff [of m db] ClaimNext_None_db [of m db] by simp
  next
    case (Some cmd)
    then have *: "ClaimNext m db = (Some cmd, db')" using Pair by simp
    obtain c where "c \<in> set (CommandQueue db)" "claimable m c"
        "cmd = c\<lparr>ac_Status := AStatusExecuting, ac_Attempts := ac_Attempts c + 1\<rparr>"
        "\<forall>x \<in> set (CommandQueue db). claimable m x \<longrightarrow>
           (ac_CreatedAt c, ac_CommandID c) \<le> (ac_CreatedAt x, ac_CommandID x)"
      by (rule ClaimNext_SomeD [OF *])
    then show ?thesis
      using claimed_lookup [OF assms *] unfolding * prod.case option.case by blast
  qed
qed

theorem claim_oldest_witness:
  "\<forall>i. AGetCommand (snd sample_claimed) i = (if i = ''c'' then Some (fst sample_claimed) else AGetCommand sample_queue i)"
proof -
  have "pk_ok ac_CommandID (CommandQueue sample_queue)" by code_simp
  from claim_oldest [OF this, of 3] show ?thesis
    by (simp add: sample_claim) (simp add: sample_claimed_def pending_row_def Let_def)
qed

section \<open>Draining\<close>

text \<open>With a fresh result identifier, processing a claimed command cannot fail.\<close>

lemma ASaveResult_appends:
  assumes "agent_lookup db (ar_CommandID r) \<noteq> None" and "u \<notin> ar_ResultID ` set (ResultQueue db)" and "ar_ResultID r = ''''"
  shows "\<exists>r'. ASaveResult u now db r = (db\<lparr>ResultQueue := ResultQueue db @ [r']\<rparr>, None)
    \<and> ar_ResultID r' = u \<and> ar_CommandID r' = ar_CommandID r"
  using assms
  by (intro exI [of _ "(if ar_ExecutedAt r = 0 then r\<lparr>ar_ExecutedAt := now\<rparr> else r)\<lparr>ar_ResultID := u, ar_Synced := False\<rparr>"])
    (simp add: ASaveResult_def Let_def select_pk_None_iff)

lemma process_claimed_run:
  assumes "agent_lookup db (ac_CommandID cmd) \<noteq> None" and "w_uuid we \<notin> ar_ResultID ` set (ResultQueue db)"
  shows "\<exists>r st rep. process_claimed cfg we cmd db = \<lparr>ro_didWork = True, ro_err = None,
        ro_db = db\<lparr>ResultQueue := ResultQueue db @ [r],
          CommandQueue := update_rows (\<lambda>r. ac_CommandID r = ac_CommandID cmd) (\<lambda>r. r\<lparr>ac_Status := st\<rparr>) (CommandQueue db)\<rparr>,
        ro_reported = rep\<rparr>
      \<and> ar_ResultID r = w_uuid we \<and> ar_CommandID r = ac_CommandID cmd
      \<and> (st \<in> {AStatusCompleted, AStatusFailed} \<or> st = AStatusPending \<and> ac_Attempts cmd < acfg_MaxAttempts cfg)"
proof -
  obtain derr p where d: "Decode cmd = (derr, p)" by (cases "Decode cmd")
  define x where "x = Run we (NewPowerShell (acfg_ExecPolicy cfg)) (pl_Command p) (exec_timeout cfg p)"
  obtain r1 where r1: "ASaveResult (w_uuid we) (w_now we) db (invalid_payload_result we cmd) =
      (db\<lparr>ResultQueue := ResultQueue db @ [r1]\<rparr>, None)" "ar_ResultID r1 = w_uuid we" "ar_CommandID r1 = ac_CommandID cmd"
    using ASaveResult_appends [of db "invalid_payload_result we cmd" "w_uuid we" "w_now we"] assms
    by (auto simp: invalid_payload_result_def)
  obtain r2 where r2: "ASaveResult (w_uuid we) (w_now we) db (exec_result we cmd x) =
      (db\<lparr>ResultQueue := ResultQueue db @ [r2]\<rparr>, None)" "ar_ResultID r2 = w_uuid we" "ar_CommandID r2 = ac_CommandID cmd"
    using ASaveResult_appends [of db "exec_result we cmd x" "w_uuid we" "w_now we"] assms by (auto simp: exec_result_def)
  note defs = process_claimed_def Let_def d x_def [symmetric] r1 r2 Complete_known Requeue_def agent_statuses_def
  let ?st = "if derr then AStatusFailed else if x_ExitCode x = 0 then AStatusCompleted
    else if ac_Attempts cmd < acfg_MaxAttempts cfg then AStatusPending else AStatusFailed"
  show ?thesis
    by (rule exI [of _ "if derr then r1 else r2"], rule exI [of _ ?st]) (simp add: defs)
qed

lemma process_claimed_ok:
  assumes "agent_lookup db (ac_CommandID cmd) \<noteq> None" and "w_uuid we \<notin> ar_ResultID ` set (ResultQueue db)"
  shows "ro_err (process_claimed cfg we cmd db) = None \<and> ro_didWork (process_claimed cfg we cmd db)
    \<and> (\<exists>r st. ResultQueue (ro_db (process_claimed cfg we cmd db)) = ResultQueue db @ [r]
          \<and> ar_ResultID r = w_uuid we \<and> ar_CommandID r = ac_CommandID cmd
          \<and> CommandQueue (ro_db (process_claimed cfg we cmd db)) =
              update_rows (\<lambda>r. ac_CommandID r = ac_CommandID cmd) (\<lambda>r. r\<lparr>ac_Status := st\<rparr>) (CommandQueue db)
          \<and> (st \<in> {AStatusCompleted, AStatusFailed}
             \<or> st = AStatusPending \<and> ac_Attempts cmd < acfg_MaxAttempts cfg))"
  using process_claimed_run [OF assms, of cfg] by fastforce

definition progressing :: "int \<Rightarrow> AgentDB \<Rightarrow> string \<Rightarrow> bool" where
  "progressing m db i \<longleftrightarrow>
     (\<exists>c. AGetCommand db i = Some c \<and> (claimable m c \<or> final c \<and> 0 < results_of db i))"

definition fresh_uuids :: "(nat \<Rightarrow> WEnv) \<Rightarrow> nat \<Rightarrow> AgentDB \<Rightarrow> bool" where
  "fresh_uuids we i db \<longleftrightarrow>
     inj_on (\<lambda>k. w_uuid (we k)) {i..} \<and> (\<forall>k \<ge> i. w_uuid (we k) \<notin> ar_ResultID ` set (ResultQueue db))"

lemma AGetCommand_status:
  assumes "CommandQueue db' = update_rows (\<lambda>r. ac_CommandID r = k) (\<lambda>r. r\<lparr>ac_Status := st\<rparr>) (CommandQueue db)"
  shows "AGetCommand db' i = (if i = k then map_option (\<lambda>r. r\<lparr>ac_Status := st\<rparr>) (AGetCommand db i) else AGetCommand db i)"
  by (cases "select_pk ac_CommandID i (CommandQueue db)")
     (auto simp: AGetCommand_def agent_lookup_def assms select_pk_update_rows dest: select_pk_SomeD)

lemma ClaimNext_tables:
  assumes "ClaimNext m db = (Some cmd, db')"
  shows "ResultQueue db' = ResultQueue db" and "map ac_CommandID (CommandQueue db') = map ac_CommandID (CommandQueue db)"
    and "ac_Attempts cmd \<le> m" and "ac_CommandID cmd \<in> ac_CommandID ` set (CommandQueue db)"
  by (rule ClaimNext_SomeD [OF assms]; auto simp: map_key_update_rows claimable_def)+

text \<open>One turn of the loop, on a command that may be claimed.\<close>

lemma RunOnce_progress:
  fixes cfg :: AConfig and we :: WEnv
  assumes pk: "pk_ok ac_CommandID (CommandQueue db)" and fresh: "w_uuid we \<notin> ar_ResultID ` set (ResultQueue db)"
  defines "m \<equiv> acfg_MaxAttempts cfg" and "r \<equiv> RunOnce cfg we db"
  shows "ro_err r = None \<and> pk_ok ac_CommandID (CommandQueue (ro_db r))
      \<and> ar_ResultID ` set (ResultQueue (ro_db r)) \<subseteq> insert (w_uuid we) (ar_ResultID ` set (ResultQueue db))
      \<and> (\<not> ro_didWork r \<longrightarrow> ro_db r = db \<and> (\<forall>c \<in> set (CommandQueue db). \<not> claimable m c))
      \<and> (progressing m db i \<longrightarrow> progressing m (ro_db r) i)"
proof (cases "ClaimNext m db")
  case (Pair o' db1)
  show ?thesis
  proof (cases o')
    case None
    then show ?thesis
      using Pair pk ClaimNext_None_iff [of m db] ClaimNext_None_db [of m db]
      by (auto simp: r_def RunOnce_def m_def)
  next
    case (Some cmd)
    then have claim: "ClaimNext m db = (Some cmd, db1)" using Pair by simp
    note tab = ClaimNext_tables [OF claim]
    have "agent_lookup db1 (ac_CommandID cmd) \<noteq> None" "w_uuid we \<notin> ar_ResultID ` set (ResultQueue db1)"
      using tab fresh by (auto simp: agent_lookup_def select_pk_None_iff dest: arg_cong [of _ _ set])
    note processed = process_claimed_ok [OF this, of cfg]
    have r: "r = process_claimed cfg we cmd db1"
      using claim by (simp add: r_def RunOnce_def m_def)
    obtain res st where res: "ResultQueue (ro_db r) = ResultQueue db @ [res]" "ar_ResultID res = w_uuid we"
        "ar_CommandID res = ac_CommandID cmd"
      and q: "CommandQueue (ro_db r) = update_rows (\<lambda>r. ac_CommandID r = ac_CommandID cmd)
        (\<lambda>r. r\<lparr>ac_Status := st\<rparr>) (CommandQueue db1)"
      and st: "st \<in> {AStatusCompleted, AStatusFailed} \<or> st = AStatusPending \<and> ac_Attempts cmd < m"
      using processed tab(1) unfolding r m_def by auto
    have "progressing m (ro_db r) i" if "progressing m db i"
    proof (cases "i = ac_CommandID cmd")
      case True
      have "AGetCommand (ro_db r) i = Some (cmd\<lparr>ac_Status := st\<rparr>)"
        using claimed_lookup [OF pk claim, of i] True by (simp add: AGetCommand_status [OF q])
      then show ?thesis
        using st True res by (auto simp: progressing_def claimable_def final_def results_of_def)
    next
      case False
      then show ?thesis
        using that claimed_lookup [OF pk claim, of i] res
        by (auto simp: progressing_def AGetCommand_status [OF q] results_of_def)
    qed
    moreover have "pk_ok ac_CommandID (CommandQueue (ro_db r))"
      using pk tab(2) by (simp add: q pk_ok_update_rows) (simp add: pk_ok_def)
    ultimately show ?thesis
      using processed res unfolding r by auto
  qed
qed

lemma drain_progress:
  assumes "pk_ok ac_CommandID (CommandQueue db)" and "fresh_uuids we i db" and "\<forall>k. \<not> stop k"
  shows "fst (drain cfg we stop i db) = Drained
    \<and> (\<forall>c \<in> set (CommandQueue (fst (snd (snd (drain cfg we stop i db))))). \<not> claimable (acfg_MaxAttempts cfg) c)
    \<and> (\<forall>k. progressing (acfg_MaxAttempts cfg) db k \<longrightarrow>
         progressing (acfg_MaxAttempts cfg) (fst (snd (snd (drain cfg we stop i db)))) k)"
  using assms
proof (induction cfg we stop i db rule: drain.induct)
  case (1 cfg we stop i db)
  let ?r = "RunOnce cfg (we i) db"
  have fresh: "w_uuid (we i) \<notin> ar_ResultID ` set (ResultQueue db)"
    using 1(3) by (simp add: fresh_uuids_def)
  note progress = RunOnce_progress [OF 1(2) fresh, of cfg]
  then have turn: "ro_err ?r = None" "pk_ok ac_CommandID (CommandQueue (ro_db ?r))"
    "ar_ResultID ` set (ResultQueue (ro_db ?r)) \<subseteq> insert (w_uuid (we i)) (ar_ResultID ` set (ResultQueue db))"
    "\<not> ro_didWork ?r \<Longrightarrow> ro_db ?r = db \<and> (\<forall>c \<in> set (CommandQueue db). \<not> claimable (acfg_MaxAttempts cfg) c)"
    by auto
  show ?case
  proof (cases "ro_didWork ?r")
    case False
    then show ?thesis
      using turn(1) turn(4) 1(4) by (simp add: drain.simps Let_def)
  next
    case True
    have "w_uuid (we k) \<noteq> w_uuid (we i)" if "Suc i \<le> k" for k
      using 1(3) that inj_onD [of "\<lambda>k. w_uuid (we k)" "{i..}" k i] by (auto simp: fresh_uuids_def)
    moreover have "w_uuid (we k) \<notin> ar_ResultID ` set (ResultQueue db)" if "Suc i \<le> k" for k
      using 1(3) that by (simp add: fresh_uuids_def)
    moreover have "inj_on (\<lambda>k. w_uuid (we k)) {Suc i..}"
      using 1(3) by (auto simp: fresh_uuids_def elim: inj_on_subset)
    ultimately have "fresh_uuids we (Suc i) (ro_db ?r)"
      using turn(3) unfolding fresh_uuids_def by blast
    then have rest: "fst (drain cfg we stop (Suc i) (ro_db ?r)) = Drained
      \<and> (\<forall>c \<in> set (CommandQueue (fst (snd (snd (drain cfg we stop (Suc i) (ro_db ?r)))))). \<not> claimable (acfg_MaxAttempts cfg) c)
      \<and> (\<forall>k. progressing (acfg_MaxAttempts cfg) (ro_db ?r) k \<longrightarrow>
           progressing (acfg_MaxAttempts cfg) (fst (snd (snd (drain cfg we stop (Suc i) (ro_db ?r))))) k)"
      using True by (intro 1(1) [OF spec [OF 1(4)] refl turn(1) _ turn(2) _ 1(4)]) auto
    have "drain cfg we stop i db = (let (e, j, db, rs) = drain cfg we stop (Suc i) (ro_db ?r)
        in (e, j, db, ro_reported ?r @ rs))"
      using 1(4) True turn(1) by (subst drain.simps) (simp add: Let_def)
    then show ?thesis
      using rest progress by (simp add: split_beta)
  qed
qed

lemma RunOnce_keeps:
  assumes "pk_ok ac_CommandID (CommandQueue db)"
  shows "keeps db (ro_db (RunOnce cfg we db)) \<and> pk_ok ac_CommandID (CommandQueue (ro_db (RunOnce cfg we db)))"
proof (cases "ClaimNext (acfg_MaxAttempts cfg) db")
  case (Pair o' db1)
  show ?thesis
  proof (cases o')
    case None
    then show ?thesis
      using Pair ClaimNext_None_db [of "acfg_MaxAttempts cfg" db] assms by (simp add: RunOnce_def keeps_refl)
  next
    case (Some cmd)
    then have claim: "ClaimNext (acfg_MaxAttempts cfg) db = (Some cmd, db1)" using Pair by simp
    obtain c where c: "claimable (acfg_MaxAttempts cfg) c" "c \<in> set (CommandQueue db)"
        "cmd = c\<lparr>ac_Status := AStatusExecuting, ac_Attempts := ac_Attempts c + 1\<rparr>"
      by (rule ClaimNext_SomeD [OF claim])
    obtain st where q: "CommandQueue (ro_db (RunOnce cfg we db)) =
        update_rows (\<lambda>r. st \<noteq> None \<and> ac_CommandID r = ac_CommandID cmd) (\<lambda>r. r\<lparr>ac_Status := the st\<rparr>) (CommandQueue db1)"
      using process_claimed_effect [of cfg cmd db1 we] claim unfolding claimed_effect_def by (auto simp: RunOnce_def)
    have pk1: "pk_ok ac_CommandID (CommandQueue db1)"
      using assms ClaimNext_tables(2) [OF claim] by (simp add: pk_ok_def)
    have "AGetCommand db (ac_CommandID cmd) = Some c"
      using c assms by (simp add: AGetCommand_def agent_lookup_def select_pk_Some_iff)
    then have "keeps db db1"
      using c by (simp add: keeps_def claimed_lookup [OF assms claim] claimable_def final_def)
    moreover have "\<not> final r" if "r \<in> set (CommandQueue db1)" "ac_CommandID r = ac_CommandID cmd" for r
    proof -
      have "AGetCommand db1 (ac_CommandID cmd) = Some r"
        using that pk1 by (simp add: AGetCommand_def agent_lookup_def select_pk_Some_iff)
      then show ?thesis
        using claimed_lookup [OF assms claim, of "ac_CommandID cmd"] c by (simp add: final_def)
    qed
    then have "keeps db1 (ro_db (RunOnce cfg we db))"
      by (intro keeps_update [OF q]) auto
    ultimately show ?thesis
      using pk1 keeps_trans by (simp add: q pk_ok_update_rows)
  qed
qed

lemma drain_keeps:
  "pk_ok ac_CommandID (CommandQueue db) \<Longrightarrow> keeps db (fst (snd (snd (drain cfg we stop i db))))"
proof (induction cfg we stop i db rule: drain.induct)
  case (1 cfg we stop i db)
  note once = RunOnce_keeps [OF 1(2), of cfg "we i"]
  show ?case
    using once 1(1) keeps_trans [of db "ro_db (RunOnce cfg (we i) db)"] keeps_refl [of db db]
    by (subst drain.simps) (simp add: Let_def split_beta split: option.split)
qed

lemma drain_outcome:
  assumes "pk_ok ac_CommandID (CommandQueue db)" and "fresh_uuids we i db" and "\<forall>k. \<not> stop k"
  shows "\<exists>j db' rs. drain cfg we stop i db = (Drained, j, db', rs)
    \<and> (\<forall>k c. AGetCommand db k = Some c \<and> claimable (acfg_MaxAttempts cfg) c \<longrightarrow>
         (\<exists>c'. AGetCommand db' k = Some c' \<and> final c' \<and> 0 < results_of db' k))
    \<and> (\<forall>c \<in> set (CommandQueue db'). \<not> claimable (acfg_MaxAttempts cfg) c)"
proof -
  obtain e j db' rs where d: "drain cfg we stop i db = (e, j, db', rs)"
    by (metis surj_pair)
  have p: "e = Drained" "\<forall>c \<in> set (CommandQueue db'). \<not> claimable (acfg_MaxAttempts cfg) c"
    "\<And>k. progressing (acfg_MaxAttempts cfg) db k \<Longrightarrow> progressing (acfg_MaxAttempts cfg) db' k"
    using drain_progress [OF assms, of cfg] by (simp_all add: d)
  have "\<exists>c'. AGetCommand db' k = Some c' \<and> final c' \<and> 0 < results_of db' k"
    if "AGetCommand db k = Some c" "claimable (acfg_MaxAttempts cfg) c" for k c
  proof -
    have "progressing (acfg_MaxAttempts cfg) db' k"
      using that by (intro p(3)) (auto simp: progressing_def)
    then obtain c' where c': "AGetCommand db' k = Some c'"
        "claimable (acfg_MaxAttempts cfg) c' \<or> final c' \<and> 0 < results_of db' k"
      by (auto simp: progressing_def)
    then have "c' \<in> set (CommandQueue db')"
      by (auto simp: AGetCommand_def agent_lookup_def dest: select_pk_SomeD)
    then show ?thesis using c' p(2) by blast
  qed
  then show ?thesis using d p(1,2) by blast
qed

text \<open>
  C13. Draining the queue ends, and when no identifier of a result is used twice and nobody
  cancels it, it ends with the queue drained: every command that could be claimed is then
  COMPLETED or FAILED, has a result, and nothing is left to claim.
\<close>

theorem drain_completes:
  assumes "pk_ok ac_CommandID (CommandQueue db)" and "fresh_uuids we i db" and "\<forall>k. \<not> stop k"
  shows "\<exists>j db' rs. drain cfg we stop i db = (Drained, j, db', rs)
    \<and> (\<forall>k c. AGetCommand db k = Some c \<and> claimable (acfg_MaxAttempts cfg) c \<longrightarrow>
         (\<exists>c'. AGetCommand db' k = Some c' \<and> final c' \<and> 0 < results_of db' k))
    \<and> (\<forall>c \<in> set (CommandQueue db'). \<not> claimable (acfg_MaxAttempts cfg) c)"
  by (rule drain_outcome [OF assms])

definition sample_wenv :: "nat \<Rightarrow> WEnv" where
  "sample_wenv k = \<lparr>w_now = 9, w_uuid = replicate (Suc k) CHR ''r'',
     w_proc = (\<lambda>_ _. \<lparr>run_stdout = ''ok'', run_stderr = '''', run_err = RunOk, run_deadline = False, run_ms = 3\<rparr>),
     w_jsonErr = (\<lambda>_. '''')\<rparr>"

lemma sample_wenv_fresh: "ResultQueue db = [] \<Longrightarrow> fresh_uuids sample_wenv i db"
  by (auto simp: fresh_uuids_def sample_wenv_def inj_on_def dest: arg_cong [of _ _ length])

theorem drain_completes_witness:
  "\<exists>j db' rs. drain sample_acfg sample_wenv (\<lambda>_. False) 0 sample_queue = (Drained, j, db', rs)
     \<and> (\<exists>c'. AGetCommand db' ''c'' = Some c' \<and> final c' \<and> 0 < results_of db' ''c'')"
proof -
  have "pk_ok ac_CommandID (CommandQueue sample_queue)" "ResultQueue sample_queue = []" by code_simp+
  moreover have "AGetCommand sample_queue ''c'' = Some (pending_row 5 ''c'' sample_payload)" by code_simp
  moreover have "claimable (acfg_MaxAttempts sample_acfg) (pending_row 5 ''c'' sample_payload)" by code_simp
  ultimately show ?thesis
    using drain_completes [of sample_queue sample_wenv 0 "\<lambda>_. False" sample_acfg] sample_wenv_fresh [of sample_queue 0]
    by blast
qed

section \<open>Recovery\<close>

lemma RecoverStale_lookup:
  "AGetCommand (snd (RecoverStale m db)) i =
     map_option (\<lambda>c. if ac_Status c = AStatusExecuting
       then c\<lparr>ac_Status := (if ac_Attempts c \<ge> m then AStatusFailed else AStatusPending)\<rparr> else c) (AGetCommand db i)"
  by (simp add: AGetCommand_def agent_lookup_def RecoverStale_def select_pk_update_rows)

lemma RecoverStale_tables:
  "ResultQueue (snd (RecoverStale m db)) = ResultQueue db"
  "pk_ok ac_CommandID (CommandQueue (snd (RecoverStale m db))) = pk_ok ac_CommandID (CommandQueue db)"
  by (simp_all add: RecoverStale_def pk_ok_update_rows)

text \<open>After the recovery every command of a good state is final or can be claimed.\<close>

lemma recovered_cases:
  assumes "row_ok m s c" and "0 < m"
    and "c' = (if ac_Status c = AStatusExecuting
       then c\<lparr>ac_Status := (if ac_Attempts c \<ge> m then AStatusFailed else AStatusPending)\<rparr> else c)"
  shows "final c' \<or> claimable m c'"
  using assms by (auto simp: row_ok_def agent_statuses_def final_def claimable_def)

text \<open>
  C5. Wherever the agent's process dies, also in the middle of an execution, starting it again with
  \<open>--drain\<close> finishes every command of the queue: the stale commands are recovered, the drain
  ends, and every command is then COMPLETED or FAILED.
\<close>

theorem crash_recovery:
  assumes "reach agent_init (agent_step cfg) s" and "0 < acfg_MaxAttempts cfg" and "fresh_uuids we 0 (as_db s)"
  shows "\<exists>db'. cmdRun_drain cfg we (as_db s) = (Drained, db')
    \<and> (\<forall>i c. AGetCommand (as_db s) i = Some c \<longrightarrow>
         (\<exists>c'. AGetCommand db' i = Some c' \<and> ac_Payload c' = ac_Payload c \<and> final c'))"
proof -
  let ?m = "acfg_MaxAttempts cfg" and ?db = "snd (RecoverStale (acfg_MaxAttempts cfg) (as_db s))"
  have ok: "agent_ok ?m s" by (rule agent_system.reach_inv [OF assms(1)])
  have pk: "pk_ok ac_CommandID (CommandQueue ?db)" and "fresh_uuids we 0 ?db"
    using ok assms(3) by (simp_all add: agent_ok_def RecoverStale_tables fresh_uuids_def)
  then obtain j db' rs where d: "drain cfg we (\<lambda>_. False) 0 ?db = (Drained, j, db', rs)"
    and fin: "\<And>i c. AGetCommand ?db i = Some c \<Longrightarrow> claimable ?m c \<Longrightarrow> \<exists>c'. AGetCommand db' i = Some c' \<and> final c'"
    using drain_outcome [of ?db we 0 "\<lambda>_. False" cfg] by blast
  have keep: "keeps ?db db'" using drain_keeps [OF pk, of cfg we "\<lambda>_. False" 0] d by simp
  have "\<exists>c'. AGetCommand db' i = Some c' \<and> ac_Payload c' = ac_Payload c \<and> final c'"
    if c: "AGetCommand (as_db s) i = Some c" for i c
  proof -
    obtain c1 where c1: "AGetCommand ?db i = Some c1" "ac_Payload c1 = ac_Payload c" "final c1 \<or> claimable ?m c1"
      using recovered_cases [OF row_of_reachable(1) [OF assms(1) c] assms(2) refl] c
      by (auto simp: RecoverStale_lookup)
    obtain c2 where "AGetCommand db' i = Some c2" "ac_Payload c2 = ac_Payload c1" "final c1 \<longrightarrow> c2 = c1"
      using keep c1(1) by (auto simp: keeps_def)
    then show ?thesis using c1 fin by (metis option.inject)
  qed
  then show ?thesis
    using d by (auto simp: cmdRun_drain_def split_beta)
qed

theorem crash_recovery_witness:
  "\<exists>db'. cmdRun_drain sample_acfg sample_wenv (as_db sample_running) = (Drained, db')
     \<and> (\<exists>c'. AGetCommand db' ''c'' = Some c' \<and> final c')"
proof -
  have "ResultQueue (as_db sample_running) = []" by code_simp
  moreover have "0 < acfg_MaxAttempts sample_acfg" by (simp add: sample_acfg_def)
  ultimately show ?thesis
    using crash_recovery [OF sample_running_reachable, of sample_wenv] sample_wenv_fresh sample_running_row by blast
qed

section \<open>The outcome of one execution\<close>

lemma Run_ExitCode:
  "x_ExitCode (Run we policy command timeout) =
     (let raw = w_proc we (powershell_argv policy command) timeout in
      if run_deadline raw then - 1
      else case run_err raw of RunOk \<Rightarrow> 0 | RunExit code \<Rightarrow> code | RunOther msg \<Rightarrow> - 1)"
  by (simp add: Run_def Let_def split: run_err.split)

text \<open>
  The executor reports exit code 0 exactly when the process ended by itself, before the
  deadline, with code 0; a timeout always gives exit code -1, whatever the process's own code was,
  and an error text on standard error.
\<close>

theorem executor_success:
  "(x_ExitCode (Run we policy command timeout) = 0 \<longleftrightarrow>
      \<not> run_deadline (w_proc we (powershell_argv policy command) timeout)
      \<and> run_err (w_proc we (powershell_argv policy command) timeout) \<in> {RunOk, RunExit 0})
   \<and> (x_TimedOut (Run we policy command timeout) =
      run_deadline (w_proc we (powershell_argv policy command) timeout))
   \<and> \<not> (x_TimedOut (Run we policy command timeout) \<and> x_Stderr (Run we policy command timeout) = '''')"
proof (intro conjI)
  show "x_ExitCode (Run we policy command timeout) = 0 \<longleftrightarrow>
      \<not> run_deadline (w_proc we (powershell_argv policy command) timeout)
      \<and> run_err (w_proc we (powershell_argv policy command) timeout) \<in> {RunOk, RunExit 0}"
    by (simp add: Run_ExitCode Let_def split: run_err.split)
  show "x_TimedOut (Run we policy command timeout) = run_deadline (w_proc we (powershell_argv policy command) timeout)"
    "\<not> (x_TimedOut (Run we policy command timeout) \<and> x_Stderr (Run we policy command timeout) = '''')"
    by (simp_all add: Run_def Let_def split: run_err.split)
qed

lemma process_claimed_exact:
  assumes "agent_lookup db (ac_CommandID cmd) \<noteq> None" and "w_uuid we \<notin> ar_ResultID ` set (ResultQueue db)"
    and "Decode cmd = (False, p)"
    and "x = Run we (NewPowerShell (acfg_ExecPolicy cfg)) (pl_Command p) (exec_timeout cfg p)"
    and "st = (if x_ExitCode x = 0 then AStatusCompleted
               else if ac_Attempts cmd < acfg_MaxAttempts cfg then AStatusPending else AStatusFailed)"
  shows "process_claimed cfg we cmd db = \<lparr>ro_didWork = True, ro_err = None,
      ro_db = db\<lparr>ResultQueue := ResultQueue db @ [(exec_result we cmd x)\<lparr>ar_ResultID := w_uuid we\<rparr>],
        CommandQueue := update_rows (\<lambda>r. ac_CommandID r = ac_CommandID cmd)
          (\<lambda>r. r\<lparr>ac_Status := st\<rparr>) (CommandQueue db)\<rparr>, ro_reported = (if st = AStatusPending then [] else [exec_result we cmd x])\<rparr>"
proof -
  let ?r = "exec_result we cmd x"
  have save: "ASaveResult (w_uuid we) (w_now we) db ?r = (db\<lparr>ResultQueue := ResultQueue db @ [?r\<lparr>ar_ResultID := w_uuid we\<rparr>]\<rparr>, None)"
    using assms(1,2) by (simp add: ASaveResult_def Let_def select_pk_None_iff exec_result_def)
  then show ?thesis
    using assms(5)
    by (simp add: process_claimed_def assms(3) assms(4) [symmetric] Complete_known Requeue_def agent_statuses_def Let_def
        split: if_splits)
qed

text \<open>
  C28. Processing a claimed command stores exactly one result and decides by the exit code: 0 makes it COMPLETED, another
  code puts it back as PENDING while attempts are left and makes it FAILED otherwise. It is reported
  to the relay exactly when it is COMPLETED or FAILED, so a failure that will be retried is only
  stored.
\<close>

theorem retry_policy:
  assumes "agent_lookup db (ac_CommandID cmd) \<noteq> None" and "w_uuid we \<notin> ar_ResultID ` set (ResultQueue db)"
    and "Decode cmd = (False, p)"
    and "x = Run we (NewPowerShell (acfg_ExecPolicy cfg)) (pl_Command p) (exec_timeout cfg p)"
    and "st = (if x_ExitCode x = 0 then AStatusCompleted
               else if ac_Attempts cmd < acfg_MaxAttempts cfg then AStatusPending else AStatusFailed)"
  shows "ro_err (process_claimed cfg we cmd db) = None
    \<and> AGetCommand (ro_db (process_claimed cfg we cmd db)) (ac_CommandID cmd) =
        map_option (\<lambda>r. r\<lparr>ac_Status := st\<rparr>) (AGetCommand db (ac_CommandID cmd))
    \<and> results_of (ro_db (process_claimed cfg we cmd db)) (ac_CommandID cmd) = Suc (results_of db (ac_CommandID cmd))
    \<and> (ro_reported (process_claimed cfg we cmd db) \<noteq> [] \<longleftrightarrow> st \<noteq> AStatusPending)"
proof -
  have "ar_CommandID (exec_result we cmd x) = ac_CommandID cmd" by (simp add: exec_result_def)
  then show ?thesis
    using process_claimed_exact [OF assms]
      AGetCommand_status [of "ro_db (process_claimed cfg we cmd db)" "ac_CommandID cmd" st db "ac_CommandID cmd"]
    by (simp add: results_of_def)
qed

theorem retry_policy_witness:
  "\<exists>c. AGetCommand (ro_db (process_claimed sample_acfg (sample_wenv 0) (fst sample_claimed) (snd sample_claimed))) ''c'' = Some c
     \<and> ac_Status c = AStatusCompleted"
proof -
  let ?x = "Run (sample_wenv 0) (NewPowerShell (acfg_ExecPolicy sample_acfg)) (pl_Command sample_payload) (exec_timeout sample_acfg sample_payload)"
  have "agent_lookup (snd sample_claimed) (ac_CommandID (fst sample_claimed)) \<noteq> None" by code_simp
  moreover have "w_uuid (sample_wenv 0) \<notin> ar_ResultID ` set (ResultQueue (snd sample_claimed))" by code_simp
  moreover have "Decode (fst sample_claimed) = (False, sample_payload)" by code_simp
  moreover have "x_ExitCode ?x = 0" by code_simp
  moreover have "ac_CommandID (fst sample_claimed) = ''c''" by code_simp
  moreover have "AGetCommand (snd sample_claimed) ''c'' = Some (fst sample_claimed)" by code_simp
  ultimately show ?thesis
    using retry_policy [of "snd sample_claimed" "fst sample_claimed" "sample_wenv 0" sample_payload ?x sample_acfg AStatusCompleted]
    by auto
qed

end
