(* ===== verification/NetProps.thy ===== *)
theory NetProps
  imports NetClient AgentProps
begin

text \<open>
  The agent's network client: deliveries of the same command are idempotent (the queue of the agent is
  an \<open>idempotent_queue\<close>), and what a synchronisation response does.
\<close>

section \<open>Deliveries\<close>

definition delivered_row :: "NEnv \<Rightarrow> CommandPayload \<Rightarrow> Command" where
  "delivered_row ne cmd = pending_row (n_now ne) (cp_CommandID cmd)
     \<lparr>pl_Command = cp_Command cmd, pl_TimeoutSec = cp_TimeoutSec cmd\<rparr>"

interpretation agent_queue: idempotent_queue "enqueue_command ne" cp_CommandID AGetCommand "delivered_row ne" for ne
  by unfold_locales
     (auto simp: AGetCommand_def agent_lookup_def enqueue_command_def EnqueueWithID_def delivered_row_def
       select_pk_append pending_row_def split: option.split)

definition delivers :: "Envelope \<Rightarrow> CommandPayload \<Rightarrow> bool" where
  "delivers env cmd \<longleftrightarrow> env_Type env = TypeDispatchCmd
     \<and> DecodePayload unmarshal_CommandPayload env zero_CommandPayload = (False, cmd)"

lemma handleIncoming_delivers:
  "delivers env cmd \<Longrightarrow> handleIncoming ne nc env = nc\<lparr>nc_store := enqueue_command ne cmd (nc_store nc), nc_wake := True\<rparr>"
  by (simp add: delivers_def handleIncoming_def handleDispatch_def wake_def)

lemma deliver_all_store:
  "list_all2 delivers envs cmds \<Longrightarrow>
   nc_store (fold (\<lambda>env nc. handleIncoming ne nc env) envs nc) = fold (enqueue_command ne) cmds (nc_store nc)"
  by (induction arbitrary: nc rule: list_all2_induct) (auto simp: handleIncoming_delivers)

text \<open>
  C25. The agent may receive its commands any number of times: of all deliveries of an identifier only the
  first counts, and none counts for a command the queue already has, whatever its state. Each delivered
  command is in the queue afterwards.
\<close>

theorem delivery_idempotent:
  assumes "list_all2 delivers envs cmds"
  shows "AGetCommand (nc_store (fold (\<lambda>env nc. handleIncoming ne nc env) envs nc)) i =
      (case AGetCommand (nc_store nc) i of Some c \<Rightarrow> Some c
       | None \<Rightarrow> map_option (delivered_row ne) (find (\<lambda>cmd. cp_CommandID cmd = i) cmds))
    \<and> (\<forall>cmd \<in> set cmds. AGetCommand (nc_store (fold (\<lambda>env nc. handleIncoming ne nc env) envs nc)) (cp_CommandID cmd) \<noteq> None)"
  unfolding deliver_all_store [OF assms]
  using agent_queue.delivered [of _ cmds] by (simp add: agent_queue.get_fold_put)

definition dispatch_envelope :: "CommandPayload \<Rightarrow> Envelope" where
  "dispatch_envelope cmd = NewEnvelope ''m4'' 1000 TypeDispatchCmd (cp_DeviceID cmd) (Some (marshal_CommandPayload cmd))"

lemma dispatch_envelope_delivers: "valid_CommandPayload cmd \<Longrightarrow> delivers (dispatch_envelope cmd) cmd"
  using dispatch.DecodePayload_NewEnvelope [of cmd] by (simp add: delivers_def dispatch_envelope_def) (simp add: NewEnvelope_def)

definition sample_order :: "string \<Rightarrow> CommandPayload" where
  "sample_order i = \<lparr>cp_CommandID = i, cp_DeviceID = ''d'', cp_Command = ''dir'', cp_TimeoutSec = 0, cp_CreatedAt = 4\<rparr>"

lemma sample_order_valid: "valid_CommandPayload (sample_order i)"
  by (simp add: sample_order_def valid_CommandPayload_def in_int64_def)

definition sample_nenv :: NEnv where
  "sample_nenv = \<lparr>n_now = 1001, n_uuid = (\<lambda>n. ''net-'' @ replicate n CHR ''0''), n_hostname = ''pc'', n_platform = ''windows'',
     n_mac = '''', n_metrics = zero_HealthMetrics, n_listDirectory = (\<lambda>_. ([], None)), n_readFile = (\<lambda>_. ('''', 0, None)),
     n_writeFile = (\<lambda>_ _ _. None), n_deleteFile = (\<lambda>_. None), n_listProcesses = ([], None), n_killProcess = (\<lambda>_. None),
     n_captureScreen = (\<lambda>dev _ _. \<lparr>scr_DeviceID = dev, scr_ImageBase64 = '''', scr_Width = 0,
       scr_Height = 0, scr_Timestamp = 0, scr_Error = ''''\<rparr>)\<rparr>"

theorem delivery_idempotent_witness:
  "AGetCommand (nc_store (fold (\<lambda>env nc. handleIncoming sample_nenv nc env)
      [dispatch_envelope (sample_order ''x''), dispatch_envelope (sample_order ''x'')]
      (NewNetClient empty_agent_db sample_acfg))) ''x'' = Some (delivered_row sample_nenv (sample_order ''x''))"
proof -
  have "list_all2 delivers [dispatch_envelope (sample_order ''x''), dispatch_envelope (sample_order ''x'')]
      [sample_order ''x'', sample_order ''x'']"
    by (simp add: dispatch_envelope_delivers sample_order_valid)
  from delivery_idempotent [OF this, of sample_nenv "NewNetClient empty_agent_db sample_acfg" "''x''"] show ?thesis
    by (simp add: NewNetClient_def AGetCommand_def agent_lookup_def empty_agent_db_def select_pk_def sample_order_def)
qed

section \<open>Synchronisation\<close>

lemma ResultQueue_mark_all:
  "ResultQueue (fold (\<lambda>i db. MarkResultSynced db i) ids db) =
     update_rows (\<lambda>r. ar_CommandID r \<in> set ids) (\<lambda>r. r\<lparr>ar_Synced := True\<rparr>) (ResultQueue db)"
proof (induction ids arbitrary: db)
  case (Cons i ids)
  then show ?case by (simp add: MarkResultSynced_def update_rows_def)
qed (simp add: update_rows_def)

lemma CommandQueue_mark_all: "CommandQueue (fold (\<lambda>i db. MarkResultSynced db i) ids db) = CommandQueue db"
  by (induction ids arbitrary: db) auto

lemma ResultQueue_enqueue_all: "ResultQueue (fold (enqueue_command ne) cmds db) = ResultQueue db"
  by (induction cmds arbitrary: db) (auto simp: enqueue_command_def EnqueueWithID_def split: option.split)

lemma handleSyncResp_effect:
  assumes "env_Type env = TypeSyncResp"
    and "DecodePayload unmarshal_SyncRespPayload env zero_SyncRespPayload = (False, resp)"
  shows "nc_store (handleIncoming ne nc env) = fold (enqueue_command ne) (sr_PendingCommands resp)
      (fold (\<lambda>i db. MarkResultSynced db i) (sr_AckedResults resp) (nc_store nc))"
    and "nc_wake (handleIncoming ne nc env) = (nc_wake nc \<or> sr_PendingCommands resp \<noteq> [])"
  using assms by (auto simp: handleIncoming_def handleSyncResp_def wake_def Let_def)

text \<open>
  A synchronisation response delivers its pending commands exactly like dispatches (an identifier the queue has
  is left alone, any other is inserted once), wakes the worker when there are any, and marks as
  synced exactly the results of the acknowledged commands: all results of such a command, not only
  those the request contained.
\<close>

theorem sync_response:
  assumes "env_Type env = TypeSyncResp"
    and "DecodePayload unmarshal_SyncRespPayload env zero_SyncRespPayload = (False, resp)"
  shows "AGetCommand (nc_store (handleIncoming ne nc env)) i =
      (case AGetCommand (nc_store nc) i of Some c \<Rightarrow> Some c
       | None \<Rightarrow> map_option (delivered_row ne) (find (\<lambda>cmd. cp_CommandID cmd = i) (sr_PendingCommands resp)))
    \<and> ResultQueue (nc_store (handleIncoming ne nc env)) =
        map (\<lambda>r. if ar_CommandID r \<in> set (sr_AckedResults resp) then r\<lparr>ar_Synced := True\<rparr> else r) (ResultQueue (nc_store nc))
    \<and> (sr_PendingCommands resp \<noteq> [] \<longrightarrow> nc_wake (handleIncoming ne nc env))"
proof -
  have "AGetCommand (fold (\<lambda>i db. MarkResultSynced db i) ids db) i = AGetCommand db i" for ids db
    by (simp add: AGetCommand_def agent_lookup_def CommandQueue_mark_all)
  then show ?thesis
    using handleSyncResp_effect [OF assms]
    by (simp add: agent_queue.get_fold_put ResultQueue_enqueue_all ResultQueue_mark_all update_rows_def)
qed

definition sync_envelope :: "SyncRespPayload \<Rightarrow> Envelope" where
  "sync_envelope p = NewEnvelope ''m5'' 1000 TypeSyncResp ''d'' (Some (marshal_SyncRespPayload p))"

theorem sync_response_witness:
  "AGetCommand (nc_store (handleIncoming sample_nenv (NewNetClient empty_agent_db sample_acfg)
     (sync_envelope \<lparr>sr_DeviceID = ''d'', sr_AckedResults = [''y''], sr_PendingCommands = [sample_order ''x'']\<rparr>))) ''x''
     = Some (delivered_row sample_nenv (sample_order ''x''))"
proof -
  let ?p = "\<lparr>sr_DeviceID = ''d'', sr_AckedResults = [''y''], sr_PendingCommands = [sample_order ''x'']\<rparr>"
  have "valid_SyncRespPayload ?p" by (simp add: valid_SyncRespPayload_def sample_order_valid)
  then have "DecodePayload unmarshal_SyncRespPayload (sync_envelope ?p) zero_SyncRespPayload = (False, ?p)"
    unfolding sync_envelope_def by (rule sync_resp.DecodePayload_NewEnvelope)
  from sync_response [OF _ this, of sample_nenv "NewNetClient empty_agent_db sample_acfg" "''x''"] show ?thesis
    by (simp add: sync_envelope_def NewEnvelope_def NewNetClient_def AGetCommand_def agent_lookup_def empty_agent_db_def
        select_pk_def sample_order_def)
qed

end
