(* ===== verification/Paths.thy ===== *)
theory Paths
  imports Prelude
begin

text \<open>
  The functions of \<^verbatim>\<open>path/filepath\<close> that the agent uses: \<open>Clean\<close>, \<open>Dir\<close> and \<open>Join\<close>, for Windows
  (\<open>win\<close>) and for other systems. The volume of a Windows path is a drive letter with its colon, a UNC share
  or a device prefix.
\<close>

definition is_sep :: "bool \<Rightarrow> char \<Rightarrow> bool" where
  "is_sep win c \<longleftrightarrow> c = CHR ''/'' \<or> win \<and> c = CHR 0x5C"

definition separator :: "bool \<Rightarrow> char" where
  "separator win = (if win then CHR 0x5C else CHR ''/'')"

section \<open>Volumes\<close>

fun unc_len :: "string \<Rightarrow> nat \<Rightarrow> nat" where
  \<comment> \<open>the length up to the second separator\<close>
  "unc_len [] n = 0"
| "unc_len (c # cs) n =
     (if is_sep True c then (if n = 1 then 0 else Suc (unc_len cs (Suc n))) else Suc (unc_len cs n))"

definition prefix_fold :: "string \<Rightarrow> string \<Rightarrow> bool" where
  "prefix_fold s p \<longleftrightarrow>
     length p \<le> length s
     \<and> list_all2 (\<lambda>x y. if is_sep True y then is_sep True x else lower_char x = lower_char y) (take (length p) s) p
     \<and> (length s > length p \<longrightarrow> is_sep True (s ! length p))"

definition volumeNameLen :: "bool \<Rightarrow> string \<Rightarrow> nat" where
  "volumeNameLen win path =
     (if \<not> win then 0
      else if length path \<ge> 2 \<and> path ! 1 = CHR '':'' then 2
      else if path = [] \<or> \<not> is_sep True (hd path) then 0
      else if prefix_fold path (''//./UNC'') then min (length path) (8 + unc_len (drop 8 path) 0)
      else if prefix_fold path ''//.'' \<or> prefix_fold path ''//?'' \<or> prefix_fold path ''/??''
      then (if length path = 3 then 3
            else 4 + length (takeWhile (\<lambda>c. \<not> is_sep True c) (drop 4 path)))
      else if length path \<ge> 2 \<and> is_sep True (path ! 1) then 2 + unc_len (drop 2 path) 0
      else 0)"

section \<open>Clean\<close>

text \<open>
  The output buffer of \<open>Clean\<close>: its contents and whether it was allocated, which happens
  with the first character that differs from the path.
\<close>

definition out_append :: "string \<Rightarrow> string \<Rightarrow> string \<times> bool \<Rightarrow> string \<times> bool" where
  "out_append path s b = (let out = fst b @ s in (out, snd b \<or> take (length out) path \<noteq> out))"

function backtrack :: "bool \<Rightarrow> nat \<Rightarrow> string \<Rightarrow> string" where
  "backtrack win dotdot out =
     (let w = length out - 1 in
      if w > dotdot \<and> \<not> is_sep win (out ! w) then backtrack win dotdot (take w out) else take w out)"
  by auto
termination by (relation "measure (\<lambda>(_, _, out). length out)") auto

declare backtrack.simps [simp del]

fun clean_loop :: "bool \<Rightarrow> bool \<Rightarrow> string \<Rightarrow> string list \<Rightarrow> nat \<Rightarrow> string \<times> bool \<Rightarrow> string \<times> bool" where
  "clean_loop win rooted path [] dotdot b = b"
| "clean_loop win rooted path (elem # rest) dotdot b =
     (let sep = [separator win] in
      if elem = ''.'' then clean_loop win rooted path rest dotdot b
      else if elem = ''..''
      then (if length (fst b) > dotdot
            then clean_loop win rooted path rest dotdot (backtrack win dotdot (fst b), snd b)
            else if \<not> rooted
            then let b = out_append path ((if fst b = [] then [] else sep) @ ''..'') b
                 in clean_loop win rooted path rest (length (fst b)) b
            else clean_loop win rooted path rest dotdot b)
      else clean_loop win rooted path rest dotdot
             (out_append path ((if rooted \<and> length (fst b) \<noteq> 1 \<or> \<not> rooted \<and> fst b \<noteq> []
                                then sep else []) @ elem) b))"

text \<open>
  On Windows a cleaned path without a volume must not turn into one with a volume or a device
  prefix; only an allocated buffer is looked at.
\<close>

definition postClean :: "bool \<Rightarrow> nat \<Rightarrow> string \<times> bool \<Rightarrow> string" where
  "postClean win volLen b =
     (let out = fst b in
      if \<not> win \<or> volLen \<noteq> 0 \<or> \<not> snd b then out
      else if CHR '':'' \<in> set (takeWhile (\<lambda>c. \<not> is_sep True c) out) then ''.'' @ [CHR 0x5C] @ out
      else if length out \<ge> 3 \<and> is_sep True (out ! 0) \<and> out ! 1 = CHR ''?'' \<and> out ! 2 = CHR ''?''
      then [CHR 0x5C, CHR ''.''] @ out
      else out)"

definition FromSlash :: "bool \<Rightarrow> string \<Rightarrow> string" where
  "FromSlash win s = (if win then map (\<lambda>c. if c = CHR ''/'' then CHR 0x5C else c) s else s)"

definition Clean :: "bool \<Rightarrow> string \<Rightarrow> string" where
  "Clean win original =
     (let volLen = volumeNameLen win original;
          path = drop volLen original
      in if path = []
         then (if volLen > 1 \<and> is_sep win (original ! 0) \<and> is_sep win (original ! 1)
               then FromSlash win original else original @ ''.'')
         else
           let rooted = is_sep win (hd path);
               start = (if rooted then out_append path [separator win] ([], False) else ([], False));
               b = clean_loop win rooted path (runs_of (is_sep win) path) (if rooted then 1 else 0) start;
               b = (if fst b = [] then out_append path ''.'' b else b)
           in FromSlash win (take volLen original @ postClean win volLen b))"

definition Dir :: "bool \<Rightarrow> string \<Rightarrow> string" where
  "Dir win path =
     (let vol = take (volumeNameLen win path) path;
          rest = drop (length vol) path;
          dir = Clean win (rev (dropWhile (\<lambda>c. \<not> is_sep win c) (rev rest)))
      in if dir = ''.'' \<and> length vol > 2 then vol else vol @ dir)"

text \<open>\<open>Join\<close> of two elements.\<close>

definition Join :: "bool \<Rightarrow> string \<Rightarrow> string \<Rightarrow> string" where
  "Join win a b =
     (if a = [] \<and> b = [] then []
      else if a = [] then Clean win b
      else if \<not> win then Clean win (if b = [] then a else a @ ''/'' @ b)
      else if is_sep True (last a)
      then let b = dropWhile (is_sep True) b;
               dot = length a = 1 \<and> take 2 b = ''??'' \<and> (length b = 2 \<or> is_sep True (b ! 2))
           in Clean win (a @ (if dot then [CHR ''.'', CHR 0x5C] else []) @ b)
      else if last a = CHR '':'' then Clean win (a @ b)
      else Clean win (a @ [CHR 0x5C] @ b))"

definition quote :: "string \<Rightarrow> string" where
  \<comment> \<open>\<open>%q\<close> on printable ASCII: quotes and backslashes are escaped\<close>
  "quote s = [CHR 0x22] @ concat (map (\<lambda>c. if c = CHR 0x22 \<or> c = CHR 0x5C then [CHR 0x5C, c] else [c]) s) @ [CHR 0x22]"

end
