(* ===== verification/FileMgr.thy ===== *)
theory FileMgr
  imports Protocol Bytes Paths
begin

text \<open>
  The agent's file manager, \<^verbatim>\<open>agent/internal/filemgr/filemgr.go\<close>: listing a directory, reading, writing and
  deleting files by remote request.

  The file system is the list of its nodes by their cleaned path: a directory, or a file with its
  contents. \<open>FmEnv\<close> is the rest of the machine: the operating system, the environment variables, the
  clock, the modes of new nodes, the calls the system refuses (\<open>fe_denied\<close>, by operation and path), and the
  texts of system errors. Two names that differ only in case are two nodes, and a removal
  happens as a whole or not at all.
\<close>

section \<open>The file system\<close>

record Meta =
  mt_mode :: string
  mt_mtime :: int
  mt_size :: int

datatype node = DirNode Meta | FileNode Meta string

type_synonym FS = "(string \<times> node) list"

record FmEnv =
  fe_win :: bool
  fe_systemDrive :: string
  fe_home :: "string option"
  fe_now :: int
  fe_fileMode :: string
  fe_dirMode :: string
  fe_denied :: "string \<Rightarrow> string \<Rightarrow> bool"
  fe_osErr :: "string \<Rightarrow> string \<Rightarrow> string"
  fe_b64Err :: "string \<Rightarrow> string"

definition is_dir :: "FS \<Rightarrow> string \<Rightarrow> bool" where
  "is_dir fs p = (case map_of fs p of Some (DirNode m) \<Rightarrow> True | _ \<Rightarrow> False)"

datatype stat = Found node | Missing | StatFailed

definition os_Stat :: "FmEnv \<Rightarrow> FS \<Rightarrow> string \<Rightarrow> stat" where
  "os_Stat fe fs p =
     (if fe_denied fe ''stat'' p then StatFailed
      else case map_of fs p of None \<Rightarrow> Missing | Some n \<Rightarrow> Found n)"

definition os_ReadFile :: "FmEnv \<Rightarrow> FS \<Rightarrow> string \<Rightarrow> string option" where
  "os_ReadFile fe fs p =
     (case map_of fs p of
        Some (FileNode m data) \<Rightarrow> if fe_denied fe ''open'' p then None else Some data
      | _ \<Rightarrow> None)"

definition base_name :: "bool \<Rightarrow> string \<Rightarrow> string" where
  "base_name win p = rev (takeWhile (\<lambda>c. \<not> is_sep win c) (rev p))"

text \<open>\<open>os.ReadDir\<close> returns the entries of a directory sorted by their names.\<close>

definition os_ReadDir :: "FmEnv \<Rightarrow> FS \<Rightarrow> string \<Rightarrow> (string \<times> node) list option" where
  "os_ReadDir fe fs p =
     (if \<not> is_dir fs p \<or> fe_denied fe ''readdir'' p then None
      else Some (sort_key fst (map (\<lambda>(q, n). (base_name (fe_win fe) q, n))
             (filter (\<lambda>(q, n). Dir (fe_win fe) q = p \<and> q \<noteq> p) fs))))"

function os_MkdirAll :: "FmEnv \<Rightarrow> FS \<Rightarrow> string \<Rightarrow> FS \<times> string option" where
  "os_MkdirAll fe fs p =
     (case map_of fs p of
        Some (DirNode m) \<Rightarrow> (fs, None)
      | Some (FileNode m data) \<Rightarrow> (fs, Some (fe_osErr fe ''mkdir'' p))
      | None \<Rightarrow>
          (let parent = Dir (fe_win fe) p;
               (fs, err) = (if length parent < length p then os_MkdirAll fe fs parent else (fs, None))
           in if err \<noteq> None then (fs, err)
              else if \<not> is_dir fs parent \<or> fe_denied fe ''mkdir'' p then (fs, Some (fe_osErr fe ''mkdir'' p))
              else (fs @ [(p, DirNode \<lparr>mt_mode = fe_dirMode fe, mt_mtime = fe_now fe, mt_size = 0\<rparr>)], None)))"
  by auto
termination by (relation "measure (\<lambda>(fe, fs, p). length p)") auto

declare os_MkdirAll.simps [simp del]

definition os_WriteFile :: "FmEnv \<Rightarrow> FS \<Rightarrow> string \<Rightarrow> string \<Rightarrow> FS \<times> string option" where
  "os_WriteFile fe fs p data =
     (case map_of fs p of
        Some (DirNode m) \<Rightarrow> (fs, Some (fe_osErr fe ''open'' p))
      | Some (FileNode m old) \<Rightarrow>
          if fe_denied fe ''write'' p then (fs, Some (fe_osErr fe ''open'' p))
          else (map (\<lambda>(q, n). (q, if q = p then FileNode (m\<lparr>mt_mtime := fe_now fe\<rparr>) data else n)) fs, None)
      | None \<Rightarrow>
          if fe_denied fe ''write'' p \<or> \<not> is_dir fs (Dir (fe_win fe) p)
          then (fs, Some (fe_osErr fe ''open'' p))
          else (fs @ [(p, FileNode \<lparr>mt_mode = fe_fileMode fe, mt_mtime = fe_now fe, mt_size = 0\<rparr> data)], None))"

text \<open>A node lies below a directory when the directory is one of its prefixes up to a separator.\<close>

definition below :: "bool \<Rightarrow> string \<Rightarrow> string \<Rightarrow> bool" where
  "below win p q \<longleftrightarrow> p \<noteq> [] \<and> length p < length q \<and> take (length p) q = p
     \<and> (is_sep win (last p) \<or> is_sep win (q ! length p))"

definition os_RemoveAll :: "FmEnv \<Rightarrow> FS \<Rightarrow> string \<Rightarrow> FS \<times> string option" where
  "os_RemoveAll fe fs p =
     (if p = ''.'' \<or> fe_denied fe ''remove'' p then (fs, Some (fe_osErr fe ''RemoveAll'' p))
      else (filter (\<lambda>(q, n). q \<noteq> p \<and> \<not> below (fe_win fe) p q) fs, None))"

section \<open>Listing\<close>

definition MaxFileTransferBytes :: int where
  "MaxFileTransferBytes = 50 * 1024 * 1024"

definition DefaultRoot :: "FmEnv \<Rightarrow> string" where
  "DefaultRoot fe =
     (if fe_win fe
      then (if fe_systemDrive fe \<noteq> '''' then fe_systemDrive fe @ [CHR 0x5C] else ''C:'' @ [CHR 0x5C])
      else ''/'')"

definition node_info :: "bool \<Rightarrow> string \<Rightarrow> string \<times> node \<Rightarrow> FileInfo" where
  "node_info win dir e =
     (case e of (name, n) \<Rightarrow>
        let (sz, d, m) = (case n of DirNode m \<Rightarrow> (mt_size m, True, m) | FileNode m data \<Rightarrow> (int (length data), False, m))
        in \<lparr>fi_Name = name, fi_Path = Join win dir name, fi_SizeBytes = sz, fi_IsDir = d,
            fi_ModTime = mt_mtime m, fi_Mode = mt_mode m\<rparr>)"

text \<open>
  The comparison of \<open>sort.Slice\<close>. Its order of equal elements is not specified; the model keeps the
  order of the names.
\<close>

definition listing_key :: "FileInfo \<Rightarrow> bool \<times> string" where
  "listing_key f = (\<not> fi_IsDir f, ToLower (fi_Name f))"

definition quick_entry :: "string \<Rightarrow> string \<Rightarrow> FileInfo" where
  "quick_entry name path = \<lparr>fi_Name = name, fi_Path = path, fi_SizeBytes = 0, fi_IsDir = True,
     fi_ModTime = 0, fi_Mode = ''''\<rparr>"

definition exists_path :: "FmEnv \<Rightarrow> FS \<Rightarrow> string \<Rightarrow> bool" where
  "exists_path fe fs p = (case os_Stat fe fs p of Found n \<Rightarrow> True | _ \<Rightarrow> False)"

definition listWindowsDrivesAndQuickDirs :: "FmEnv \<Rightarrow> FS \<Rightarrow> FileInfo list" where
  "listWindowsDrivesAndQuickDirs fe fs =
     (let drives = map (\<lambda>n. byte n) [67..<91];
          folder = [CHR 0xF0, CHR 0x9F, CHR 0x93, CHR 0x81, CHR '' ''];
          quick = [(''Desktop'', ''Desktop''), (''Downloads'', ''Downloads''), (''Documents'', ''Documents''), (''User Home'', '''')]
      in concat (map (\<lambda>d. let p = [d, CHR '':'', CHR 0x5C] in
             if exists_path fe fs p then [quick_entry (''Local Disk ('' @ [d] @ '':)'') p] else []) drives)
         @ (case fe_home fe of
              None \<Rightarrow> []
            | Some home \<Rightarrow> concat (map (\<lambda>(name, sub). let p = Join (fe_win fe) home sub in
                if exists_path fe fs p then [quick_entry (folder @ name) p] else []) quick)))"

definition ListDirectory :: "FmEnv \<Rightarrow> FS \<Rightarrow> string \<Rightarrow> FileInfo list \<times> string option" where
  "ListDirectory fe fs dirPath =
     (let dirPath = (if dirPath = '''' \<or> dirPath = ''.'' then DefaultRoot fe else dirPath) in
      if (dirPath = ''DRIVES'' \<or> dirPath = ''ROOT'') \<and> fe_win fe
      then (listWindowsDrivesAndQuickDirs fe fs, None)
      else
        let cleanPath = Clean (fe_win fe) dirPath;
            cleanPath = (if length cleanPath = 2 \<and> cleanPath ! 1 = CHR '':'' then cleanPath @ [CHR 0x5C] else cleanPath)
        in case os_ReadDir fe fs cleanPath of
             None \<Rightarrow> ([], Some (''read directory '' @ quote cleanPath @ '': '' @ fe_osErr fe ''open'' cleanPath))
           | Some entries \<Rightarrow> (sort_key listing_key (map (node_info (fe_win fe) cleanPath) entries), None))"

section \<open>Reading, writing and deleting\<close>

definition ReadFile :: "FmEnv \<Rightarrow> FS \<Rightarrow> string \<Rightarrow> string \<times> int \<times> string option" where
  "ReadFile fe fs filePath =
     (let cleanPath = Clean (fe_win fe) filePath in
      case os_Stat fe fs cleanPath of
        Found (DirNode m) \<Rightarrow> ('''', 0, Some ''cannot read a directory as a file'')
      | Found (FileNode m content) \<Rightarrow>
          if int (length content) > MaxFileTransferBytes
          then ('''', 0, Some (''file size ('' @ itoa (int (length content)) @ '' bytes) exceeds maximum transfer limit (''
                 @ itoa MaxFileTransferBytes @ '' bytes)''))
          else (case os_ReadFile fe fs cleanPath of
                  None \<Rightarrow> ('''', 0, Some (''read file: '' @ fe_osErr fe ''open'' cleanPath))
                | Some data \<Rightarrow> (b64_encode data, int (length content), None))
      | _ \<Rightarrow> ('''', 0, Some (''file not found: '' @ fe_osErr fe ''stat'' cleanPath)))"

definition WriteFile :: "FmEnv \<Rightarrow> FS \<Rightarrow> string \<Rightarrow> string \<Rightarrow> bool \<Rightarrow> FS \<times> string option" where
  "WriteFile fe fs filePath contentBase64 overwrite =
     (let cleanPath = Clean (fe_win fe) filePath in
      if \<not> overwrite \<and> exists_path fe fs cleanPath
      then (fs, Some (''file already exists and overwrite is false: '' @ cleanPath))
      else case b64_decode contentBase64 of
        None \<Rightarrow> (fs, Some (''invalid base64 content: '' @ fe_b64Err fe contentBase64))
      | Some data \<Rightarrow>
          (case os_MkdirAll fe fs (Dir (fe_win fe) cleanPath) of
             (fs, Some err) \<Rightarrow> (fs, Some (''create parent directory: '' @ err))
           | (fs, None) \<Rightarrow>
               (case os_WriteFile fe fs cleanPath data of
                  (fs, Some err) \<Rightarrow> (fs, Some (''write file: '' @ err))
                | (fs, None) \<Rightarrow> (fs, None))))"

definition DeleteFile :: "FmEnv \<Rightarrow> FS \<Rightarrow> string \<Rightarrow> FS \<times> string option" where
  "DeleteFile fe fs path =
     (let cleanPath = Clean (fe_win fe) path in
      if os_Stat fe fs cleanPath = Missing then (fs, Some (''path does not exist: '' @ cleanPath))
      else os_RemoveAll fe fs cleanPath)"

end
