(* ===== verification/FileProps.thy ===== *)
theory FileProps
  imports FileMgr "HOL-Library.Multiset"
begin

text \<open>
  What the file manager promises: a written file reads back, a write touches nothing else, a deletion
  removes a node with everything below it, and a listing is the sorted list of a directory's nodes.
\<close>

section \<open>The system calls\<close>

text \<open>Making directories adds directories and keeps every node.\<close>

definition extends_dirs :: "FS \<Rightarrow> FS \<Rightarrow> bool" where
  "extends_dirs fs fs' \<longleftrightarrow> (\<exists>ds. fs' = fs @ ds \<and> (\<forall>(q, n) \<in> set ds. \<exists>m. n = DirNode m))"

lemma extends_dirs_refl [simp]: "extends_dirs fs fs"
  by (simp add: extends_dirs_def)

lemma extends_dirs_snoc: "extends_dirs fs fs' \<Longrightarrow> extends_dirs fs (fs' @ [(p, DirNode m)])"
  by (auto simp: extends_dirs_def)

lemma os_MkdirAll_extends: "os_MkdirAll fe fs p = (fs', err) \<Longrightarrow> extends_dirs fs fs'"
proof (induction fe fs p arbitrary: fs' err rule: os_MkdirAll.induct)
  case (1 fe fs p)
  then show ?case
    by (subst (asm) (2) os_MkdirAll.simps)
      (auto simp: Let_def extends_dirs_snoc split: option.splits node.splits if_splits prod.splits)
qed

lemma extends_dirs_map_of:
  assumes "extends_dirs fs fs'"
  shows "map_of fs q = Some n \<Longrightarrow> map_of fs' q = Some n"
    and "map_of fs q = None \<Longrightarrow> map_of fs' q = None \<or> is_dir fs' q"
proof -
  obtain ds where fs': "fs' = fs @ ds" and ds: "\<forall>(q, n) \<in> set ds. \<exists>m. n = DirNode m"
    using assms by (auto simp: extends_dirs_def)
  show "map_of fs q = Some n \<Longrightarrow> map_of fs' q = Some n" by (simp add: fs')
  have "map_of ds q = Some x \<Longrightarrow> \<exists>m. x = DirNode m" for x using ds by (auto dest!: map_of_SomeD)
  then show "map_of fs q = None \<Longrightarrow> map_of fs' q = None \<or> is_dir fs' q"
    by (cases "map_of ds q") (auto simp: fs' is_dir_def map_add_def)
qed

lemma map_of_replace:
  "map_of (map (\<lambda>(q, n). (q, if q = p then x else n)) fs) q
   = (if q = p \<and> map_of fs p \<noteq> None then Some x else map_of fs q)"
  by (induction fs) auto

lemma os_WriteFile_ok:
  assumes "os_WriteFile fe fs p data = (fs', None)"
  shows "\<exists>m. map_of fs' p = Some (FileNode m data)" and "q \<noteq> p \<Longrightarrow> map_of fs' q = map_of fs q"
  using assms
  by (auto simp: os_WriteFile_def map_of_replace map_add_def split: option.splits node.splits if_splits)

lemma os_WriteFile_err: "os_WriteFile fe fs p data = (fs', Some e) \<Longrightarrow> fs' = fs"
  by (auto simp: os_WriteFile_def split: option.splits node.splits if_splits)

lemma map_of_filter_keys: "map_of (filter (\<lambda>(q, n). P q) fs) q = (if P q then map_of fs q else None)"
  by (induction fs) auto

section \<open>Writing and reading\<close>

lemma written_reads_back:
  assumes "WriteFile fe fs path b64 overwrite = (fs', None)" "b64_decode b64 = Some data"
    and "int (length data) \<le> MaxFileTransferBytes"
    and "\<not> fe_denied fe ''stat'' (Clean (fe_win fe) path)" "\<not> fe_denied fe ''open'' (Clean (fe_win fe) path)"
  shows "ReadFile fe fs' path = (b64_encode data, int (length data), None)"
proof -
  obtain fs1 where "os_WriteFile fe fs1 (Clean (fe_win fe) path) data = (fs', None)"
    using assms(1,2) by (auto simp: WriteFile_def Let_def split: if_splits option.splits prod.splits)
  from os_WriteFile_ok(1) [OF this] assms(3-5) show ?thesis
    by (auto simp: ReadFile_def os_Stat_def os_ReadFile_def)
qed

text \<open>A write that reports success stored the decoded bytes: reading the same path returns them, base64
  encoded, and their number, unless they exceed the transfer limit or the system refuses the access. No other file or
  directory changed; what is new besides the file are directories. Without the overwrite flag the file was
  not there before.\<close>

theorem file_roundtrip:
  assumes "WriteFile fe fs path b64 overwrite = (fs', None)"
  shows "\<exists>data m. b64_decode b64 = Some data \<and> map_of fs' (Clean (fe_win fe) path) = Some (FileNode m data)
    \<and> (int (length data) \<le> MaxFileTransferBytes \<and> \<not> fe_denied fe ''stat'' (Clean (fe_win fe) path)
        \<and> \<not> fe_denied fe ''open'' (Clean (fe_win fe) path)
        \<longrightarrow> ReadFile fe fs' path = (b64_encode data, int (length data), None))
    \<and> (\<forall>q n. q \<noteq> Clean (fe_win fe) path \<and> map_of fs q = Some n \<longrightarrow> map_of fs' q = Some n)
    \<and> (\<forall>q. q \<noteq> Clean (fe_win fe) path \<and> map_of fs q = None \<longrightarrow> map_of fs' q = None \<or> is_dir fs' q)
    \<and> (\<not> overwrite \<and> \<not> fe_denied fe ''stat'' (Clean (fe_win fe) path) \<longrightarrow> map_of fs (Clean (fe_win fe) path) = None)"
proof -
  let ?p = "Clean (fe_win fe) path"
  obtain data fs1 where data: "b64_decode b64 = Some data"
    and mk: "os_MkdirAll fe fs (Dir (fe_win fe) ?p) = (fs1, None)" and wr: "os_WriteFile fe fs1 ?p data = (fs', None)"
    and fresh: "overwrite \<or> \<not> exists_path fe fs ?p"
    using assms by (auto simp: WriteFile_def Let_def split: if_splits option.splits prod.splits)
  note dirs = extends_dirs_map_of [OF os_MkdirAll_extends [OF mk]]
  have frame: "q \<noteq> ?p \<Longrightarrow> map_of fs' q = map_of fs1 q" for q using os_WriteFile_ok(2) [OF wr] by simp
  then have old: "q \<noteq> ?p \<and> map_of fs q = Some n \<longrightarrow> map_of fs' q = Some n"
    and new: "q \<noteq> ?p \<and> map_of fs q = None \<longrightarrow> map_of fs' q = None \<or> is_dir fs' q" for q n
    using dirs by (auto simp: is_dir_def)
  obtain m where "map_of fs' ?p = Some (FileNode m data)" using os_WriteFile_ok(1) [OF wr] by blast
  moreover have "int (length data) \<le> MaxFileTransferBytes \<and> \<not> fe_denied fe ''stat'' ?p \<and> \<not> fe_denied fe ''open'' ?p
      \<longrightarrow> ReadFile fe fs' path = (b64_encode data, int (length data), None)"
    using written_reads_back [OF assms data] by blast
  moreover have "\<not> overwrite \<and> \<not> fe_denied fe ''stat'' ?p \<longrightarrow> map_of fs ?p = None"
    using fresh by (auto simp: exists_path_def os_Stat_def split: option.splits)
  ultimately show ?thesis using data old new by blast
qed

definition sample_fe :: FmEnv where
  "sample_fe = \<lparr>fe_win = True, fe_systemDrive = ''C:'', fe_home = None, fe_now = 7, fe_fileMode = ''-rw-rw-rw-'',
     fe_dirMode = ''drwxrwxrwx'', fe_denied = (\<lambda>_ _. False), fe_osErr = (\<lambda>_ _. ''refused''), fe_b64Err = (\<lambda>_. ''illegal base64'')\<rparr>"

definition win_path :: "string list \<Rightarrow> string" where
  "win_path ps = ''C:'' @ concat (map (\<lambda>p. CHR 0x5C # p) ps)"

definition sample_fs :: FS where
  "sample_fs = [(''C:'' @ [CHR 0x5C], DirNode \<lparr>mt_mode = ''drwxrwxrwx'', mt_mtime = 1, mt_size = 0\<rparr>)]"

definition written_fs :: FS where
  "written_fs = sample_fs @ [(win_path [''data''], DirNode \<lparr>mt_mode = ''drwxrwxrwx'', mt_mtime = 7, mt_size = 0\<rparr>),
     (win_path [''data'', ''a.txt''], FileNode \<lparr>mt_mode = ''-rw-rw-rw-'', mt_mtime = 7, mt_size = 0\<rparr> ''hi'')]"

lemma sample_text: "b64_decode ''aGk='' = Some ''hi''" "b64_encode ''hi'' = ''aGk=''"
  by (simp_all add: b64_decode_def b64_val_def b64_char_def char_of_def bit_0)

lemma sample_paths:
  "Clean True ''C:/tmp/../data/a.txt'' = win_path [''data'', ''a.txt'']"
  "Dir True (win_path [''data'', ''a.txt'']) = win_path [''data'']"
  by code_simp+

lemma sample_calls:
  "exists_path sample_fe sample_fs (win_path [''data'', ''a.txt'']) = False"
  "os_MkdirAll sample_fe sample_fs (win_path [''data'']) = (butlast written_fs, None)"
  "os_WriteFile sample_fe (butlast written_fs) (win_path [''data'', ''a.txt'']) ''hi'' = (written_fs, None)"
  "is_dir written_fs (win_path [''data''])" "fe_win sample_fe = True"
  by code_simp+

theorem file_roundtrip_witness:
  "WriteFile sample_fe sample_fs ''C:/tmp/../data/a.txt'' ''aGk='' False = (written_fs, None)
     \<and> ReadFile sample_fe written_fs ''C:/tmp/../data/a.txt'' = (''aGk='', 2, None)"
proof -
  have wr: "WriteFile sample_fe sample_fs ''C:/tmp/../data/a.txt'' ''aGk='' False = (written_fs, None)"
    unfolding WriteFile_def by (simp add: sample_paths sample_calls sample_text)
  have "fe_denied sample_fe op p = False" for op p by (simp add: sample_fe_def)
  then show ?thesis
    using file_roundtrip [OF wr] wr by (simp add: MaxFileTransferBytes_def sample_text del: b64_encode.simps)
qed

section \<open>Deleting\<close>

text \<open>A deletion that reports success removed the node and everything below it, and nothing else; one that
  reports an error changed nothing, and a missing path is always an error.\<close>

theorem delete_exact:
  "(case DeleteFile fe fs path of
      (fs', None) \<Rightarrow> map_of fs' q = (if q = Clean (fe_win fe) path \<or> below (fe_win fe) (Clean (fe_win fe) path) q
                                     then None else map_of fs q)
    | (fs', Some e) \<Rightarrow> fs' = fs)
   \<and> (map_of fs (Clean (fe_win fe) path) = None \<longrightarrow>
      fe_denied fe ''stat'' (Clean (fe_win fe) path) = False \<longrightarrow> snd (DeleteFile fe fs path) \<noteq> None)"
  by (auto simp: DeleteFile_def os_RemoveAll_def os_Stat_def Let_def
      map_of_filter_keys [where P = "\<lambda>q. q \<noteq> Clean (fe_win fe) path \<and> \<not> below (fe_win fe) (Clean (fe_win fe) path) q"])

theorem delete_exact_witness:
  "map_of (fst (DeleteFile sample_fe written_fs (win_path [''data'']))) (win_path [''data'', ''a.txt'']) = None
   \<and> snd (DeleteFile sample_fe sample_fs (win_path [''data''])) \<noteq> None"
proof -
  have "snd (DeleteFile sample_fe written_fs (win_path [''data''])) = None"
    "Clean True (win_path [''data'']) = win_path [''data'']" "fe_denied sample_fe ''stat'' (win_path [''data'']) = False"
    "below True (win_path [''data'']) (win_path [''data'', ''a.txt''])" "map_of sample_fs (win_path [''data'']) = None"
    by code_simp+
  then show ?thesis
    using delete_exact [where fe = sample_fe and fs = written_fs and path = "win_path [''data'']"
        and q = "win_path [''data'', ''a.txt'']"]
      delete_exact [where fe = sample_fe and fs = sample_fs and path = "win_path [''data'']"]
    by (auto simp: sample_calls split: prod.splits option.splits)
qed

section \<open>Drive roots\<close>

text \<open>
  \<open>Clean\<close> never returns a bare drive: a path that starts with one has a volume of two characters and
  is not empty after it, and one without a volume gets a prefix before it looks like one.
\<close>

lemma backtrack_take: "\<exists>n. backtrack win dotdot out = take n out"
proof (induction win dotdot out rule: backtrack.induct)
  case (1 win dotdot out)
  show ?case
    using 1 by (subst backtrack.simps) (auto simp: Let_def)
qed

definition tracks :: "string \<Rightarrow> string \<times> bool \<Rightarrow> bool" where
  "tracks path b \<longleftrightarrow> snd b \<or> take (length (fst b)) path = fst b"

lemma tracks_out_append: "tracks path (out_append path s b)"
  by (auto simp: tracks_def out_append_def Let_def)

lemma tracks_backtrack: "tracks path b \<Longrightarrow> tracks path (backtrack win dotdot (fst b), snd b)"
  using backtrack_take [of win dotdot "fst b"]
  by (auto simp: tracks_def) (metis append_take_drop_id length_take min.commute take_append take_take)

lemma tracks_clean_loop: "tracks path b \<Longrightarrow> tracks path (clean_loop win rooted path elems dotdot b)"
  by (induction win rooted path elems dotdot b rule: clean_loop.induct)
    (simp_all add: Let_def tracks_out_append tracks_backtrack)

lemma tracks_start: "tracks path ([], a)"
  by (simp add: tracks_def)

lemma tracks_clean:
  "tracks path (let b = clean_loop win rooted path elems n (if rooted then out_append path s ([], False) else ([], False))
                in if fst b = [] then out_append path t b else b)"
  by (simp add: Let_def tracks_out_append tracks_clean_loop tracks_start)

lemma volumeNameLen_drive: "length path \<ge> 2 \<Longrightarrow> path ! 1 = CHR '':'' \<Longrightarrow> volumeNameLen True path = 2"
  by (simp add: volumeNameLen_def)

lemma volumeNameLen_not_1: "volumeNameLen True path \<noteq> 1"
  by (auto simp: volumeNameLen_def prefix_fold_def min_def split: if_splits)

lemma postClean_not_drive:
  assumes "tracks path b" "length path \<ge> 2 \<Longrightarrow> path ! 1 \<noteq> CHR '':''" "\<not> is_sep True x"
  shows "postClean True 0 b \<noteq> [x, CHR '':'']"
proof
  assume drive: "postClean True 0 b = [x, CHR '':'']"
  have b: "fst b = [x, CHR '':'']"
  proof -
    have "postClean True 0 b \<in> {fst b, CHR ''.'' # CHR 0x5C # fst b, CHR 0x5C # CHR ''.'' # fst b}"
      by (simp add: postClean_def Let_def)
    then show ?thesis unfolding drive by auto
  qed
  show False
  proof (cases "snd b")
    case True
    then have "postClean True 0 b = CHR ''.'' # CHR 0x5C # fst b"
      using assms(3) by (simp add: postClean_def Let_def b is_sep_def)
    then have "length (postClean True 0 b) = 2 + length (fst b)" by simp
    then show ?thesis by (simp add: drive b)
  next
    case False
    then have "take (Suc (Suc 0)) path = [x, CHR '':'']" using assms(1) b by (simp add: tracks_def)
    then obtain rest where "path = x # CHR '':'' # rest"
      by (metis append_Cons append_Nil append_take_drop_id)
    then show ?thesis using assms(2) by simp
  qed
qed

lemma FromSlash_drive: "FromSlash True s = [c, CHR '':''] \<Longrightarrow> c \<noteq> CHR 0x5C \<Longrightarrow> s = [c, CHR '':''] \<and> c \<noteq> CHR ''/''"
  by (auto simp: FromSlash_def map_eq_Cons_conv split: if_splits)

lemma postClean_nonempty: "fst b \<noteq> [] \<Longrightarrow> postClean win v b \<noteq> []"
  by (auto simp: postClean_def Let_def)

theorem Clean_not_drive:
  assumes c: "c \<noteq> CHR 0x5C"
  shows "Clean True p \<noteq> [c, CHR '':'']"
proof
  assume drive: "Clean True p = [c, CHR '':'']"
  let ?v = "volumeNameLen True p" and ?path = "drop (volumeNameLen True p) p"
  show False
  proof (cases "?path = []")
    case True
    then have "FromSlash True p = [c, CHR '':''] \<and> is_sep True (p ! 1)"
      using drive by (auto simp: Clean_def Let_def append_eq_Cons_conv split: if_splits)
    then show False using FromSlash_drive [of p c] c by (auto simp: is_sep_def)
  next
    case False
    define b where "b = (let b = clean_loop True (is_sep True (hd ?path)) ?path (runs_of (is_sep True) ?path)
        (if is_sep True (hd ?path) then 1 else 0)
        (if is_sep True (hd ?path) then out_append ?path [separator True] ([], False) else ([], False))
        in if fst b = [] then out_append ?path ''.'' b else b)"
    have "tracks ?path b" "fst b \<noteq> []"
      unfolding b_def by (rule tracks_clean) (simp add: Let_def out_append_def)
    moreover have clean: "FromSlash True (take ?v p @ postClean True ?v b) = [c, CHR '':'']"
      using drive False by (simp add: Clean_def Let_def b_def)
    then have x: "take ?v p @ postClean True ?v b = [c, CHR '':'']" "\<not> is_sep True c"
      using FromSlash_drive c by (auto simp: is_sep_def)
    moreover have "length (take ?v p) = ?v" using False by simp
    ultimately have v: "?v = 0"
      using volumeNameLen_not_1 [of p] postClean_nonempty [of b True ?v]
      by (cases "take ?v p"; cases "tl (take ?v p)") (auto simp del: length_take)
    then have "\<not> (length p \<ge> 2 \<and> p ! 1 = CHR '':'')" using volumeNameLen_drive by auto
    then show False using postClean_not_drive [of p b c] \<open>tracks ?path b\<close> v x by simp
  qed
qed

section \<open>Listing\<close>

definition children :: "FmEnv \<Rightarrow> FS \<Rightarrow> string \<Rightarrow> FS" where
  "children fe fs p = filter (\<lambda>(q, n). Dir (fe_win fe) q = p \<and> q \<noteq> p) fs"

definition entry_of :: "FmEnv \<Rightarrow> string \<Rightarrow> string \<times> node \<Rightarrow> FileInfo" where
  "entry_of fe p e = node_info (fe_win fe) p (base_name (fe_win fe) (fst e), snd e)"

lemma sorted_listing_key:
  assumes "sorted (map listing_key fs)"
  shows "sorted_wrt (\<lambda>f g. fi_IsDir g \<longrightarrow> fi_IsDir f) fs"
    and "sorted (map (\<lambda>f. ToLower (fi_Name f)) (filter (\<lambda>f. fi_IsDir f = b) fs))"
proof -
  have le: "listing_key f \<le> listing_key g \<longleftrightarrow>
      (fi_IsDir g \<longrightarrow> fi_IsDir f) \<and> (fi_IsDir f = fi_IsDir g \<longrightarrow> ToLower (fi_Name f) \<le> ToLower (fi_Name g))" for f g
    by (auto simp: listing_key_def less_eq_prod_def)
  show "sorted_wrt (\<lambda>f g. fi_IsDir g \<longrightarrow> fi_IsDir f) fs"
    using assms by (auto simp: sorted_map le elim!: sorted_wrt_mono_rel [rotated])
  show "sorted (map (\<lambda>f. ToLower (fi_Name f)) (filter (\<lambda>f. fi_IsDir f = b) fs))"
    using sorted_wrt_filter [OF assms [unfolded sorted_map], of "\<lambda>f. fi_IsDir f = b"]
    by (auto simp: sorted_map le elim!: sorted_wrt_mono_rel [rotated])
qed

text \<open>The directory that a listing reads.\<close>

definition listed_dir :: "FmEnv \<Rightarrow> string \<Rightarrow> string" where
  "listed_dir fe d = Clean (fe_win fe) (if d = '''' \<or> d = ''.'' then DefaultRoot fe else d)"

lemma ListDirectory_windows:
  assumes "fe_win fe" "d \<noteq> ''DRIVES''" "d \<noteq> ''ROOT''" "listed_dir fe d \<noteq> CHR 0x5C # '':''"
  shows "ListDirectory fe fs d =
    (case os_ReadDir fe fs (listed_dir fe d) of
       None \<Rightarrow> ([], Some (''read directory '' @ quote (listed_dir fe d) @ '': '' @ fe_osErr fe ''open'' (listed_dir fe d)))
     | Some entries \<Rightarrow> (sort_key listing_key (map (node_info True (listed_dir fe d)) entries), None))"
proof -
  let ?c = "listed_dir fe d"
  have "\<not> (length ?c = 2 \<and> ?c ! 1 = CHR '':'')"
  proof
    assume "length ?c = 2 \<and> ?c ! 1 = CHR '':''"
    then obtain x where "?c = [x, CHR '':'']" by (auto simp: numeral_eq_Suc length_Suc_conv)
    then show False using assms(1,4) Clean_not_drive [of x] by (auto simp: listed_dir_def)
  qed
  moreover have "DefaultRoot fe \<noteq> ''DRIVES''" "DefaultRoot fe \<noteq> ''ROOT''"
    using assms(1) by (auto simp: DefaultRoot_def append_eq_Cons_conv dest!: arg_cong [where f = last])
  then have "ListDirectory fe fs d =
    (let cleanPath = (if length ?c = 2 \<and> ?c ! 1 = CHR '':'' then ?c @ [CHR 0x5C] else ?c)
     in case os_ReadDir fe fs cleanPath of
          None \<Rightarrow> ([], Some (''read directory '' @ quote cleanPath @ '': '' @ fe_osErr fe ''open'' cleanPath))
        | Some entries \<Rightarrow> (sort_key listing_key (map (node_info (fe_win fe) cleanPath) entries), None))"
    using assms by (simp only: ListDirectory_def listed_dir_def Let_def if_True if_False simp_thms if_cancel split: if_split)
  ultimately show ?thesis using assms(1) by (simp only: Let_def if_False)
qed

text \<open>On Windows a directory's listing has exactly one entry for every node directly in it, with its name, its
  path, its size and its kind, and is ordered: directories first, and within each group by name without regard to
  case. The directory is the cleaned path as it is: the backslash that the code adds to a bare drive is added to no drive
  letter, since a cleaned path is never a bare drive, only to the odd name of a backslash and a colon, which
  is left out here.\<close>

theorem listing_complete_sorted:
  assumes "fe_win fe" "d \<noteq> ''DRIVES''" "d \<noteq> ''ROOT''" "listed_dir fe d \<noteq> CHR 0x5C # '':''" "is_dir fs (listed_dir fe d)" "\<not> fe_denied fe ''readdir'' (listed_dir fe d)"
  shows "\<exists>files. ListDirectory fe fs d = (files, None)
    \<and> mset files = mset (map (entry_of fe (listed_dir fe d)) (children fe fs (listed_dir fe d)))
    \<and> sorted_wrt (\<lambda>f g. fi_IsDir g \<longrightarrow> fi_IsDir f) files
    \<and> (\<forall>b. sorted (map (\<lambda>f. ToLower (fi_Name f)) (filter (\<lambda>f. fi_IsDir f = b) files)))"
proof -
  let ?p = "listed_dir fe d"
  define files where "files = sort_key listing_key (map (node_info True ?p)
    (sort_key fst (map (\<lambda>(q, n). (base_name (fe_win fe) q, n)) (children fe fs ?p))))"
  have "ListDirectory fe fs d = (files, None)"
    using assms by (simp add: ListDirectory_windows os_ReadDir_def files_def children_def)
  moreover have "mset files = mset (map (entry_of fe ?p) (children fe fs ?p))"
    using assms(1)
    by (simp add: files_def entry_of_def [abs_def] image_mset.compositionality comp_def case_prod_beta)
  moreover have "sorted (map listing_key files)" by (simp add: files_def)
  ultimately show ?thesis using sorted_listing_key by blast
qed

definition listed_fs :: FS where
  "listed_fs = written_fs @ [(win_path [''data'', ''Sub''], DirNode \<lparr>mt_mode = ''drwxrwxrwx'', mt_mtime = 7, mt_size = 0\<rparr>)]"

theorem listing_complete_sorted_witness:
  "\<exists>files. ListDirectory sample_fe listed_fs ''C:/data'' = (files, None) \<and> size (mset files) = 2"
proof -
  have "listed_dir sample_fe ''C:/data'' = win_path [''data'']" "win_path [''data''] \<noteq> CHR 0x5C # '':''"
    "is_dir listed_fs (win_path [''data''])"
    "length (children sample_fe listed_fs (win_path [''data''])) = 2" "fe_denied sample_fe ''readdir'' (win_path [''data'']) = False"
    "fe_win sample_fe"
    by code_simp+
  then show ?thesis
    using listing_complete_sorted [of sample_fe "''C:/data''" listed_fs]
    by (auto dest!: arg_cong [where f = size and y = "image_mset _ _"])
qed

end
