(* ===== verification/ProcessMgr.thy ===== *)
theory ProcessMgr
  imports Protocol Bytes
begin

text \<open>
  The agent's process manager, \<^verbatim>\<open>agent/internal/processmgr/processmgr.go\<close>: the list of processes, read from
  the CSV output of \<^verbatim>\<open>tasklist.exe\<close>, and the termination of a process.

  \<open>csv_scan\<close> is the reader of \<^verbatim>\<open>encoding/csv\<close> with its defaults. \<open>PmEnv\<close> gives the outcome of the
  external programs; \<open>pe_float\<close> is \<^verbatim>\<open>strconv.ParseFloat\<close> on texts that are not a plain number of at
  most fifteen digits.
\<close>

section \<open>Reading CSV\<close>

datatype csv_mode = FieldStart | Bare | Quoted | QuoteSeen

text \<open>
  The arguments are the mode, the field read so far (reversed), the fields of the line, the records, and
  the rest of the text, in which line ends are single newlines.
\<close>

fun csv_scan :: "csv_mode \<Rightarrow> string \<Rightarrow> string list \<Rightarrow> string list list \<Rightarrow> string \<Rightarrow> string list list option" where
  "csv_scan FieldStart cur fs recs [] = Some (if fs = [] then recs else recs @ [fs @ [[]]])"
| "csv_scan FieldStart cur fs recs (c # cs) =
     (if c = CHR 0x22 then csv_scan Quoted [] fs recs cs
      else if c = CHR '','' then csv_scan FieldStart [] (fs @ [[]]) recs cs
      else if c = CHR 0x0A
      then csv_scan FieldStart [] [] (if fs = [] then recs else recs @ [fs @ [[]]]) cs
      else csv_scan Bare [c] fs recs cs)"
| "csv_scan Bare cur fs recs [] = Some (recs @ [fs @ [rev cur]])"
| "csv_scan Bare cur fs recs (c # cs) =
     (if c = CHR 0x22 then None
      else if c = CHR '','' then csv_scan FieldStart [] (fs @ [rev cur]) recs cs
      else if c = CHR 0x0A then csv_scan FieldStart [] [] (recs @ [fs @ [rev cur]]) cs
      else csv_scan Bare (c # cur) fs recs cs)"
| "csv_scan Quoted cur fs recs [] = None"
| "csv_scan Quoted cur fs recs (c # cs) =
     (if c = CHR 0x22 then csv_scan QuoteSeen cur fs recs cs else csv_scan Quoted (c # cur) fs recs cs)"
| "csv_scan QuoteSeen cur fs recs [] = Some (recs @ [fs @ [rev cur]])"
| "csv_scan QuoteSeen cur fs recs (c # cs) =
     (if c = CHR 0x22 then csv_scan Quoted (CHR 0x22 # cur) fs recs cs
      else if c = CHR '','' then csv_scan FieldStart [] (fs @ [rev cur]) recs cs
      else if c = CHR 0x0A then csv_scan FieldStart [] [] (recs @ [fs @ [rev cur]]) cs
      else None)"

fun unix_lines :: "string \<Rightarrow> string" where
  "unix_lines [] = []"
| "unix_lines [c] = (if c = CHR 0x0D then [] else [c])"
| "unix_lines (c # d # cs) =
     (if c = CHR 0x0D \<and> d = CHR 0x0A then d # unix_lines cs else c # unix_lines (d # cs))"

text \<open>\<open>ReadAll\<close>: every record must have as many fields as the first.\<close>

definition csv_ReadAll :: "string \<Rightarrow> string list list option" where
  "csv_ReadAll s =
     (case csv_scan FieldStart [] [] [] (unix_lines s) of
        None \<Rightarrow> None
      | Some recs \<Rightarrow> if list_all (\<lambda>r. length r = length (hd recs)) recs then Some recs else None)"

section \<open>Listing processes\<close>

record PmEnv =
  pe_windows :: bool
  pe_tasklist :: "string + string"
  pe_csvErr :: "string \<Rightarrow> string"
  pe_float :: "string \<Rightarrow> float64"
  pe_pid :: int
  pe_find :: "int \<Rightarrow> string option"
  pe_taskkill :: "int \<Rightarrow> (string \<times> string) option"
  pe_kill :: "int \<Rightarrow> string option"

function replace_all :: "string \<Rightarrow> string \<Rightarrow> string \<Rightarrow> string" where
  \<comment> \<open>\<^verbatim>\<open>strings.ReplaceAll\<close> of a nonempty text\<close>
  "replace_all old new s =
     (if s = [] then []
      else if old \<noteq> [] \<and> take (length old) s = old then new @ replace_all old new (drop (length old) s)
      else hd s # replace_all old new (tl s))"
  by auto
termination by (relation "measure (\<lambda>(old, new, s). length s)") auto

declare replace_all.simps [simp del]

definition clean_memory :: "string \<Rightarrow> string" where
  "clean_memory memStr =
     TrimSpace (replace_all [CHR 0xC2, CHR 0xA0, CHR ''K''] '''' (replace_all '' K'' '''' (replace_all '','' '''' memStr)))"

definition memory_kb :: "PmEnv \<Rightarrow> string \<Rightarrow> float64" where
  "memory_kb pe s =
     (case scan_uint 0 s of
        Some n \<Rightarrow> if s \<noteq> [] \<and> length s \<le> 15 then of_nat n else pe_float pe s
      | None \<Rightarrow> pe_float pe s)"

definition process_row :: "PmEnv \<Rightarrow> string list \<Rightarrow> ProcessInfo list" where
  "process_row pe row =
     (if length row < 5 then []
      else [\<lparr>pi_PID = snd (Atoi (row ! 1)), pi_Name = row ! 0, pi_CPUPercent = 0,
             pi_MemoryMB = memory_kb pe (clean_memory (row ! 4)) / 1024, pi_Status = ''Running''\<rparr>])"

definition listWindowsProcesses :: "PmEnv \<Rightarrow> ProcessInfo list \<times> string option" where
  "listWindowsProcesses pe =
     (case pe_tasklist pe of
        Inl err \<Rightarrow> ([], Some (''tasklist error: '' @ err))
      | Inr out \<Rightarrow>
          (case csv_ReadAll out of
             None \<Rightarrow> ([], Some (''parse tasklist csv: '' @ pe_csvErr pe out))
           | Some records \<Rightarrow> (concat (map (process_row pe) records), None)))"

definition listGenericProcesses :: "PmEnv \<Rightarrow> ProcessInfo list" where
  "listGenericProcesses pe =
     [\<lparr>pi_PID = pe_pid pe, pi_Name = ''terminal-agent'', pi_CPUPercent = 0,
      pi_MemoryMB = 37 / 2, pi_Status = ''Running''\<rparr>]"

definition ListProcesses :: "PmEnv \<Rightarrow> ProcessInfo list \<times> string option" where
  "ListProcesses pe = (if pe_windows pe then listWindowsProcesses pe else (listGenericProcesses pe, None))"

section \<open>Ending a process\<close>

text \<open>The result is the error, and whether a request to end the process reached the system.\<close>

definition KillProcess :: "PmEnv \<Rightarrow> int \<Rightarrow> string option \<times> bool" where
  "KillProcess pe pid =
     (if pid \<le> 0 then (Some (''invalid PID: '' @ itoa pid), False)
      else case pe_find pe pid of
        Some err \<Rightarrow> (Some (''find process '' @ itoa pid @ '': '' @ err), False)
      | None \<Rightarrow>
          if pe_windows pe
          then (case pe_taskkill pe pid of
                  Some (err, out) \<Rightarrow> (Some (''taskkill error: '' @ err @ '' (output: '' @ out @ '')''), True)
                | None \<Rightarrow> (None, True))
          else (pe_kill pe pid, True))"

section \<open>The list read back\<close>

text \<open>How \<^verbatim>\<open>tasklist\<close> prints a field and a process.\<close>

definition csv_quote :: "string \<Rightarrow> string" where
  "csv_quote s = [CHR 0x22] @ concat (map (\<lambda>c. if c = CHR 0x22 then [CHR 0x22, CHR 0x22] else [c]) s) @ [CHR 0x22]"

fun csv_line :: "string list \<Rightarrow> string" where
  "csv_line [] = []"
| "csv_line [f] = csv_quote f @ [CHR 0x0A]"
| "csv_line (f # fs) = csv_quote f @ '','' @ csv_line fs"

lemma csv_scan_quoted:
  "csv_scan Quoted cur fs recs (concat (map (\<lambda>c. if c = CHR 0x22 then [CHR 0x22, CHR 0x22] else [c]) s) @ CHR 0x22 # rest) =
     csv_scan QuoteSeen (rev s @ cur) fs recs rest"
  by (induction s arbitrary: cur) auto

lemma csv_scan_field:
  "csv_scan FieldStart cur fs recs (csv_quote f @ rest) = csv_scan QuoteSeen (rev f) fs recs rest"
  using csv_scan_quoted [of "[]" fs recs f rest] by (simp add: csv_quote_def)

lemma csv_scan_line:
  "row \<noteq> [] \<Longrightarrow> csv_scan FieldStart cur fs recs (csv_line row @ rest) = csv_scan FieldStart [] [] (recs @ [fs @ row]) rest"
  by (induction row arbitrary: cur fs rule: csv_line.induct) (simp_all add: csv_scan_field)

lemma csv_scan_lines:
  "\<forall>row \<in> set rows. row \<noteq> [] \<Longrightarrow> csv_scan FieldStart [] [] recs (concat (map csv_line rows)) = Some (recs @ rows)"
  by (induction rows arbitrary: recs) (simp_all add: csv_scan_line)

lemma unix_lines_id: "CHR 0x0D \<notin> set s \<Longrightarrow> unix_lines s = s"
  by (induction s rule: unix_lines.induct) auto

lemma csv_line_chars: "CHR 0x0D \<in> set (csv_line row) \<Longrightarrow> \<exists>f \<in> set row. CHR 0x0D \<in> set f"
  by (induction row rule: csv_line.induct) (auto simp: csv_quote_def split: if_splits)

text \<open>Lines written with quoted fields are read back as they were.\<close>

lemma csv_roundtrip:
  assumes "\<forall>row \<in> set rows. length row = n \<and> (\<forall>f \<in> set row. CHR 0x0D \<notin> set f)" and "0 < n"
  shows "csv_ReadAll (concat (map csv_line rows)) = Some rows"
proof -
  have "unix_lines (concat (map csv_line rows)) = concat (map csv_line rows)"
    using assms(1) csv_line_chars by (intro unix_lines_id) fastforce
  moreover have "\<forall>row \<in> set rows. row \<noteq> []" using assms by auto
  moreover have "list_all (\<lambda>r. length r = length (hd rows)) rows"
    using assms(1) by (cases rows) (auto simp: list_all_iff)
  ultimately show ?thesis by (simp add: csv_ReadAll_def csv_scan_lines)
qed

end
