(* ===== verification/Health.thy ===== *)
theory Health
  imports ProcessMgr
begin

text \<open>
  The agent's telemetry, \<^verbatim>\<open>agent/internal/health/health.go\<close>: CPU load, memory, disk, uptime, and the address
  of the network adapter. Counters are 64-bit words, so that differences wrap around as in the code;
  percentages are exact quotients.

  \<open>HealthState\<close> holds the package's variables: the last sample of the system times (none before the first),
  the last CPU load and the cached address. \<open>HEnv\<close> is what Windows returns; a call that does not exist or fails
  is \<open>None\<close>. The times are the two halves of a \<open>FILETIME\<close>.
\<close>

type_synonym uint64 = "64 word"

record filetime =
  ft_dwLowDateTime :: "32 word"
  ft_dwHighDateTime :: "32 word"

definition toUint64 :: "filetime \<Rightarrow> uint64" where
  "toUint64 ft = or (push_bit 32 (ucast (ft_dwHighDateTime ft))) (ucast (ft_dwLowDateTime ft))"

record NetInterface =
  if_loopback :: bool
  if_up :: bool
  if_hw :: string

record HEnv =
  he_windows :: bool
  he_systemTimes :: "(filetime \<times> filetime \<times> filetime) option"
  he_hasSystemTimes :: bool
  he_memory :: "(uint64 \<times> uint64) option"
  he_disk :: "(uint64 \<times> uint64) option"
  he_ticks :: "uint64 option"
  he_alloc :: uint64
  he_sys :: uint64
  he_sinceSample :: int
  he_goroutines :: int
  he_interfaces :: "NetInterface list option"
  he_adapterUp :: "string option"
  he_adapterFirst :: "string option"

record HealthState =
  hs_last :: "(uint64 \<times> uint64 \<times> uint64) option"
  hs_cpu :: float64
  hs_mac :: string

section \<open>CPU\<close>

definition float_of :: "uint64 \<Rightarrow> float64" where
  "float_of w = of_nat (unat w)"

definition getWindowsCPU :: "HEnv \<Rightarrow> HealthState \<Rightarrow> float64 \<times> HealthState" where
  "getWindowsCPU he st =
     (if \<not> he_hasSystemTimes he then (0, st)
      else case he_systemTimes he of
        None \<Rightarrow> (hs_cpu st, st)
      | Some (idleTime, kernelTime, userTime) \<Rightarrow>
          (let idle = toUint64 idleTime; kernel = toUint64 kernelTime; user = toUint64 userTime in
           case hs_last st of
             None \<Rightarrow> (0, st\<lparr>hs_last := Some (idle, kernel, user)\<rparr>)
           | Some (lastIdle, lastKernel, lastUser) \<Rightarrow>
               (let idleDiff = idle - lastIdle;
                    kernelDiff = kernel - lastKernel;
                    userDiff = user - lastUser;
                    st = st\<lparr>hs_last := Some (idle, kernel, user)\<rparr>;
                    totalDiff = kernelDiff + userDiff
                in if totalDiff = 0 then (hs_cpu st, st)
                   else
                     let busyDiff = totalDiff - idleDiff;
                         cpuPercent = float_of busyDiff / float_of totalDiff * 100;
                         cpuPercent = (if cpuPercent < 0 then 0 else if cpuPercent > 100 then 100 else cpuPercent)
                     in (cpuPercent, st\<lparr>hs_cpu := cpuPercent\<rparr>))))"

section \<open>Memory, disk, uptime\<close>

definition percent_of :: "uint64 \<Rightarrow> uint64 \<Rightarrow> float64" where
  "percent_of used tot = (if tot > 0 then float_of used / float_of tot * 100 else 0)"

definition getWindowsMemory :: "HEnv \<Rightarrow> float64 \<times> uint64 \<times> uint64" where
  "getWindowsMemory he =
     (case he_memory he of
        None \<Rightarrow> (0, 0, 0)
      | Some (tot, avail) \<Rightarrow> (let used = tot - avail in (percent_of used tot, used, tot)))"

definition getWindowsDisk :: "HEnv \<Rightarrow> uint64 \<times> uint64" where
  "getWindowsDisk he = (case he_disk he of None \<Rightarrow> (0, 0) | Some (tot, free) \<Rightarrow> (tot - free, tot))"

definition getWindowsUptime :: "HEnv \<Rightarrow> int" where
  "getWindowsUptime he = (case he_ticks he of None \<Rightarrow> 0 | Some ticks \<Rightarrow> sint (ticks div 1000))"

section \<open>The address of the adapter\<close>

definition upper_char :: "char \<Rightarrow> char" where
  "upper_char c = (if 97 \<le> code c \<and> code c \<le> 122 then byte (code c - 32) else c)"

definition adapter_text :: "string option \<Rightarrow> string" where
  "adapter_text out =
     (case out of None \<Rightarrow> ''''
      | Some s \<Rightarrow> (let m = TrimSpace s in if m \<noteq> '''' then map upper_char (replace_all ''-'' '':'' m) else ''''))"

definition interface_mac :: "NetInterface list option \<Rightarrow> string" where
  "interface_mac ifs =
     (case ifs of
        None \<Rightarrow> ''''
      | Some ifs \<Rightarrow>
          (case find (\<lambda>i. \<not> if_loopback i \<and> if_up i \<and> length (if_hw i) = 6) ifs of
             Some i \<Rightarrow> mac_string (if_hw i)
           | None \<Rightarrow>
               (case find (\<lambda>i. length (if_hw i) = 6 \<and> \<not> if_loopback i) ifs of
                  Some i \<Rightarrow> mac_string (if_hw i)
                | None \<Rightarrow> '''')))"

definition GetPrimaryMACAddress :: "HEnv \<Rightarrow> HealthState \<Rightarrow> string \<times> HealthState" where
  "GetPrimaryMACAddress he st =
     (if hs_mac st \<noteq> '''' then (hs_mac st, st)
      else
        let mac = interface_mac (he_interfaces he);
            mac = (if mac = '''' \<and> he_windows he then adapter_text (he_adapterUp he) else mac);
            mac = (if mac = '''' \<and> he_windows he then adapter_text (he_adapterFirst he) else mac)
        in (mac, if mac \<noteq> '''' then st\<lparr>hs_mac := mac\<rparr> else st))"

section \<open>Collecting\<close>

text \<open>
  \<open>time.Since(lastSampled)\<close> in whole seconds. A duration is a signed 64-bit number of nanoseconds and the difference
  saturates, so that for the zero time, which no sample replaces outside Windows, it is the largest duration.
\<close>

definition since_sample :: "HEnv \<Rightarrow> HealthState \<Rightarrow> int" where
  "since_sample he st = (case hs_last st of None \<Rightarrow> (2 ^ 63 - 1) div 10 ^ 9 | Some _ \<Rightarrow> he_sinceSample he)"

definition Collect_metrics :: "HEnv \<Rightarrow> HealthState \<Rightarrow> HealthMetrics \<times> HealthState" where
  "Collect_metrics he st =
     (let m = zero_HealthMetrics;
          (m, st) =
            (if he_windows he
             then let (cpu, st) = getWindowsCPU he st;
                      (percent, used, tot) = getWindowsMemory he;
                      (dused, dtotal) = getWindowsDisk he
                  in (m\<lparr>hm_CPUPercent := cpu, hm_RAMPercent := percent, hm_RAMUsedBytes := uint used,
                        hm_RAMTotalBytes := uint tot, hm_DiskUsedBytes := uint dused,
                        hm_DiskTotalBytes := uint dtotal, hm_UptimeSec := getWindowsUptime he\<rparr>, st)
             else (m\<lparr>hm_RAMUsedBytes := uint (he_alloc he), hm_RAMTotalBytes := uint (he_sys he),
                     hm_RAMPercent := percent_of (he_alloc he) (he_sys he), hm_CPUPercent := 5,
                     hm_UptimeSec := since_sample he st\<rparr>, st));
          (mac, st) = GetPrimaryMACAddress he st
      in (m\<lparr>hm_MACAddress := mac, hm_ProcessCount := he_goroutines he\<rparr>, st))"

section \<open>Bounds\<close>

definition health_ok :: "HealthState \<Rightarrow> bool" where
  "health_ok st \<longleftrightarrow> 0 \<le> hs_cpu st \<and> hs_cpu st \<le> 100"

lemma getWindowsCPU_range:
  "health_ok st \<Longrightarrow> 0 \<le> fst (getWindowsCPU he st) \<and> fst (getWindowsCPU he st) \<le> 100 \<and> health_ok (snd (getWindowsCPU he st))"
  by (auto simp: getWindowsCPU_def health_ok_def Let_def split: option.splits prod.splits)

lemma float_of_mono: "v \<le> w \<Longrightarrow> float_of v \<le> float_of w"
  by (simp add: float_of_def word_le_nat_alt del: of_nat_unat)

lemma float_of_pos: "0 \<le> float_of w" "w \<noteq> 0 \<Longrightarrow> 0 < float_of w"
  by (simp_all add: float_of_def unat_gt_0 del: of_nat_unat)

lemma percent_of_range:
  assumes "used \<le> tot"
  shows "0 \<le> percent_of used tot \<and> percent_of used tot \<le> 100"
  using float_of_mono [OF assms] float_of_pos(1) [of used] float_of_pos(2) [of tot]
  by (auto simp: percent_of_def divide_le_eq word_gt_0)

lemma unat_widen: "unat (ucast (w :: 32 word) :: uint64) = unat w"
  by (simp add: unsigned_ucast_eq take_bit_nat_eq_self unsigned_less [THEN order_less_le_trans])

lemma unat_lt32: "unat (w :: 32 word) < 2 ^ 32"
  using unsigned_less [of w, where ?'a = nat] by simp

lemma unat_high_half: "unat (push_bit 32 (ucast (w :: 32 word) :: uint64)) = unat w * 2 ^ 32"
  using unat_lt32 [of w] by (simp add: push_bit_eq_mult unat_word_ariths unat_widen)

lemma toUint64_value: "unat (toUint64 ft) = unat (ft_dwHighDateTime ft) * 2 ^ 32 + unat (ft_dwLowDateTime ft)"
proof -
  let ?hi = "push_bit 32 (ucast (ft_dwHighDateTime ft) :: uint64)" and ?lo = "ucast (ft_dwLowDateTime ft) :: uint64"
  have "or ?hi ?lo = ?hi + ?lo"
    by (intro disjunctive_add_eq_or [symmetric] bit_word_eqI) (auto simp: bit_simps dest: bit_imp_le_length)
  then show ?thesis
    using unat_lt32 [of "ft_dwHighDateTime ft"] unat_lt32 [of "ft_dwLowDateTime ft"]
    by (simp add: toUint64_def unat_word_ariths unat_widen unat_high_half)
qed

end
