(* ===== verification/TelemetryProps.thy ===== *)
theory TelemetryProps
  imports Health
begin

text \<open>
  What the agent reports about its machine: the processes that \<^verbatim>\<open>tasklist\<close> printed, load figures within their range
  over any sequence of samples, the exact load between two samples, and a hardware address that never changes.
\<close>

section \<open>Processes\<close>

lemma replace_all_char: "replace_all [c] [] s = filter (\<lambda>d. d \<noteq> c) s"
  by (induction s) (subst replace_all.simps; simp)+

lemma replace_all_absent:
  "old \<noteq> [] \<Longrightarrow> last old \<notin> set s \<Longrightarrow> replace_all old new s = s"
proof (induction s)
  case Nil
  then show ?case by (simp add: replace_all.simps)
next
  case (Cons c s)
  have "take (length old) (c # s) \<noteq> old" using Cons.prems in_set_takeD by (metis last_in_set)
  then show ?case using Cons by (subst replace_all.simps) simp
qed

lemma replace_all_suffix:
  "old \<noteq> [] \<Longrightarrow> \<forall>c \<in> set s. c \<noteq> hd old \<Longrightarrow> replace_all old new (s @ old) = s @ new"
proof (induction s)
  case Nil
  then show ?case by (subst replace_all.simps) (simp add: replace_all.simps [of old new "[]"])
next
  case (Cons c s)
  then have "take (length old) (c # s @ old) \<noteq> old" by (cases old) auto
  then show ?case using Cons by (subst replace_all.simps) simp
qed

lemma digits_chars: "c \<in> set (digits n) \<Longrightarrow> digit_val c \<noteq> None"
proof (induction n rule: digits.induct)
  case (1 n)
  then show ?case by (subst (asm) (2) digits.simps) (auto split: if_splits)
qed

lemma dropWhile_none: "\<forall>c \<in> set s. \<not> P c \<Longrightarrow> dropWhile P s = s"
  by (cases s) auto

lemma TrimSpace_id: "\<forall>c \<in> set s. \<not> is_space c \<Longrightarrow> TrimSpace s = s"
  by (simp add: TrimBy_def TrimLeftBy_def TrimRightBy_def dropWhile_none)

text \<open>A memory text of \<^verbatim>\<open>tasklist\<close>: digits in groups separated by commas, and the unit.\<close>

definition grouped :: "string \<Rightarrow> nat \<Rightarrow> bool" where
  "grouped s kb \<longleftrightarrow> filter (\<lambda>c. c \<noteq> CHR '','') s = digits kb"

lemma clean_memory_grouped:
  assumes "grouped s kb"
  shows "clean_memory (s @ '' K'') = digits kb"
proof -
  have no_comma: "replace_all '','' '''' (s @ '' K'') = digits kb @ '' K''"
    using assms by (simp add: replace_all_char grouped_def)
  have chars: "c \<noteq> CHR '' '' \<and> c \<noteq> CHR ''K'' \<and> \<not> is_space c" if "c \<in> set (digits kb)" for c
    using digits_chars [OF that] by (auto simp: digit_val_def is_space_def split: if_splits)
  have "replace_all '' K'' '''' (digits kb @ '' K'') = digits kb"
    using chars replace_all_suffix [of "'' K''" "digits kb" "[]"] by auto
  moreover have "replace_all [CHR 0xC2, CHR 0xA0, CHR ''K''] '''' (digits kb) = digits kb"
    using chars by (intro replace_all_absent) auto
  moreover have "TrimSpace (digits kb) = digits kb"
    using chars by (intro TrimSpace_id) simp
  ultimately show ?thesis by (simp add: clean_memory_def no_comma)
qed

record task =
  tk_name :: string
  tk_pid :: int
  tk_session :: string
  tk_number :: string
  tk_mem :: string
  tk_kb :: nat

definition task_row :: "task \<Rightarrow> string list" where
  "task_row t = [tk_name t, itoa (tk_pid t), tk_session t, tk_number t, tk_mem t @ '' K'']"

definition task_ok :: "task \<Rightarrow> bool" where
  "task_ok t \<longleftrightarrow> in_int64 (tk_pid t) \<and> grouped (tk_mem t) (tk_kb t) \<and> tk_kb t < 10 ^ 15
     \<and> list_all (\<lambda>f. CHR 0x0D \<notin> set f) (task_row t)"

definition task_info :: "task \<Rightarrow> ProcessInfo" where
  "task_info t = \<lparr>pi_PID = tk_pid t, pi_Name = tk_name t, pi_CPUPercent = 0, pi_MemoryMB = of_nat (tk_kb t) / 1024,
     pi_Status = ''Running''\<rparr>"

lemma length_digits: "n < 10 ^ k \<Longrightarrow> 0 < k \<Longrightarrow> length (digits n) \<le> k"
proof (induction n arbitrary: k rule: digits.induct)
  case (1 n)
  show ?case
  proof (cases "n < 10")
    case False
    then obtain j where k: "k = Suc j" "0 < j" using 1(2) by (cases k; cases "k - 1") auto
    then have "n div 10 < 10 ^ j" using 1(2) by (simp add: div_less_iff_less_mult mult.commute)
    then show ?thesis using 1(1) k False by (subst digits.simps) simp
  qed (use 1(3) in \<open>simp add: digits.simps\<close>)
qed

lemma process_row_task:
  assumes "task_ok t"
  shows "process_row pe (task_row t) = [task_info t]"
proof -
  have clean: "clean_memory (tk_mem t @ '' K'') = digits (tk_kb t)"
    using assms by (intro clean_memory_grouped) (simp add: task_ok_def)
  have "digits (tk_kb t) \<noteq> []" using hd_digits by simp
  moreover have "length (digits (tk_kb t)) \<le> 15" using assms length_digits [of "tk_kb t" 15] by (simp add: task_ok_def)
  moreover have "scan_uint 0 (digits (tk_kb t)) = Some (tk_kb t)"
    using assms by (intro scan_uint_digits) (simp add: task_ok_def)
  ultimately show ?thesis
    using assms
    by (simp add: process_row_def task_row_def task_info_def task_ok_def memory_kb_def clean Atoi_itoa)
qed

text \<open>The list of processes is what \<^verbatim>\<open>tasklist\<close> printed: one entry per process, in the order of the output and
  not by memory, with its name character by character (commas, quotes and line feeds included), its identifier, and its memory
  in megabytes, whatever grouping its number has.\<close>

theorem process_list:
  assumes "pe_windows pe" "pe_tasklist pe = Inr (concat (map (\<lambda>t. csv_line (task_row t)) tasks))" "\<forall>t \<in> set tasks. task_ok t"
  shows "ListProcesses pe = (map task_info tasks, None)"
proof -
  have "csv_ReadAll (concat (map csv_line (map task_row tasks))) = Some (map task_row tasks)"
    using assms(3) by (intro csv_roundtrip [where n = 5]) (auto simp: task_ok_def task_row_def list_all_iff)
  moreover have "concat (map (\<lambda>t. process_row pe (task_row t)) ts) = map task_info ts" if "\<forall>t \<in> set ts. task_ok t" for ts
    using that by (induction ts) (simp_all add: process_row_task)
  ultimately show ?thesis
    using assms by (simp add: ListProcesses_def listWindowsProcesses_def comp_def)
qed

definition sample_tasks :: "task list" where
  "sample_tasks = [\<lparr>tk_name = ''idle, [CHR 0x22]'', tk_pid = 4, tk_session = ''Services'', tk_number = ''0'', tk_mem = ''8'', tk_kb = 8\<rparr>,
     \<lparr>tk_name = ''a.exe'', tk_pid = 4312, tk_session = ''Console'', tk_number = ''1'', tk_mem = ''1,536'', tk_kb = 1536\<rparr>]"

definition sample_pm :: PmEnv where
  "sample_pm = \<lparr>pe_windows = True, pe_tasklist = Inr (concat (map (\<lambda>t. csv_line (task_row t)) sample_tasks)),
     pe_csvErr = (\<lambda>_. ''''), pe_float = (\<lambda>_. 0), pe_pid = 1, pe_find = (\<lambda>_. None), pe_taskkill = (\<lambda>_. None), pe_kill = (\<lambda>_. None)\<rparr>"

theorem process_list_witness:
  "map (\<lambda>p. (pi_PID p, pi_MemoryMB p)) (fst (ListProcesses sample_pm)) = [(4, 1 / 128), (4312, 3 / 2)]"
proof -
  have "\<forall>t \<in> set sample_tasks. task_ok t"
    by (simp add: sample_tasks_def task_ok_def task_row_def grouped_def in_int64_def digits.simps itoa_def char_of_def bit_0)
  then have "ListProcesses sample_pm = (map task_info sample_tasks, None)"
    by (intro process_list) (simp_all add: sample_pm_def)
  then show ?thesis by (simp add: sample_tasks_def task_info_def)
qed

section \<open>Load figures\<close>

text \<open>What Windows promises of its counters: no more memory or disk space is free than there is.\<close>

definition he_sane :: "HEnv \<Rightarrow> bool" where
  "he_sane he \<longleftrightarrow> (case he_memory he of None \<Rightarrow> True | Some (tot, avail) \<Rightarrow> avail \<le> tot)
     \<and> (case he_disk he of None \<Rightarrow> True | Some (tot, free) \<Rightarrow> free \<le> tot) \<and> he_alloc he \<le> he_sys he"

definition start_health :: HealthState where
  "start_health = \<lparr>hs_last = None, hs_cpu = 0, hs_mac = ''''\<rparr>"

text \<open>The reports of a run, one per state of the machine.\<close>

primrec samples :: "HEnv list \<Rightarrow> HealthState \<Rightarrow> HealthMetrics list" where
  "samples [] st = []"
| "samples (he # hes) st = (let (m, st') = Collect_metrics he st in m # samples hes st')"

definition in_range :: "HealthMetrics \<Rightarrow> bool" where
  "in_range m \<longleftrightarrow> 0 \<le> hm_CPUPercent m \<and> hm_CPUPercent m \<le> 100 \<and> 0 \<le> hm_RAMPercent m \<and> hm_RAMPercent m \<le> 100
     \<and> 0 \<le> hm_RAMUsedBytes m \<and> hm_RAMUsedBytes m \<le> hm_RAMTotalBytes m \<and> hm_RAMTotalBytes m < 2 ^ 64
     \<and> 0 \<le> hm_DiskUsedBytes m \<and> hm_DiskUsedBytes m \<le> hm_DiskTotalBytes m \<and> hm_DiskTotalBytes m < 2 ^ 64"

lemma used_le: "b \<le> a \<Longrightarrow> a - b \<le> (a :: uint64)"
  by (simp add: word_le_nat_alt unat_sub)

lemma uint_le: "v \<le> w \<Longrightarrow> uint (v :: uint64) \<le> uint w"
  by (simp add: word_le_def)

lemma uint_bound: "uint (w :: uint64) < 18446744073709551616"
  using uint_lt2p [of w] by simp

lemma getWindowsMemory_range:
  assumes "he_sane he" "getWindowsMemory he = (percent, used, tot)"
  shows "used \<le> tot \<and> 0 \<le> percent \<and> percent \<le> 100"
  using assms percent_of_range used_le
  by (fastforce simp: getWindowsMemory_def he_sane_def Let_def split: option.splits prod.splits)

lemma getWindowsDisk_range: "he_sane he \<Longrightarrow> getWindowsDisk he = (used, tot) \<Longrightarrow> used \<le> tot"
  using used_le by (auto simp: getWindowsDisk_def he_sane_def split: option.splits prod.splits)

lemma GetPrimaryMACAddress_keeps:
  "GetPrimaryMACAddress he st = (mac, st') \<Longrightarrow>
   hs_cpu st' = hs_cpu st \<and> hs_mac st' = mac \<and> (hs_mac st \<noteq> '''' \<longrightarrow> mac = hs_mac st)"
  by (auto simp: GetPrimaryMACAddress_def Let_def split: if_splits)

lemma Collect_metrics_ok:
  assumes "he_sane he" "health_ok st" "Collect_metrics he st = (m, st')"
  shows "in_range m \<and> health_ok st' \<and> hs_mac st' = hm_MACAddress m \<and> (hs_mac st \<noteq> '''' \<longrightarrow> hm_MACAddress m = hs_mac st)"
proof (cases "he_windows he")
  case True
  obtain cpu st1 where cpu: "getWindowsCPU he st = (cpu, st1)" by fastforce
  obtain percent used tot where mem: "getWindowsMemory he = (percent, used, tot)" by (metis prod_cases3)
  obtain dused dtot where disk: "getWindowsDisk he = (dused, dtot)" by fastforce
  obtain mac st2 where mac: "GetPrimaryMACAddress he st1 = (mac, st2)" by fastforce
  have "hs_mac st1 = hs_mac st" using cpu by (auto simp: getWindowsCPU_def Let_def split: if_splits option.splits prod.splits)
  then show ?thesis
    using assms True cpu mac mem disk getWindowsCPU_range [OF assms(2), of he] GetPrimaryMACAddress_keeps [OF mac]
      getWindowsMemory_range [OF assms(1) mem] getWindowsDisk_range [OF assms(1) disk]
    by (auto simp: Collect_metrics_def in_range_def health_ok_def uint_le uint_bound)
next
  case False
  obtain mac st2 where mac: "GetPrimaryMACAddress he st = (mac, st2)" by fastforce
  have "he_alloc he \<le> he_sys he" using assms(1) by (simp add: he_sane_def)
  then show ?thesis
    using assms False mac percent_of_range [of "he_alloc he" "he_sys he"] GetPrimaryMACAddress_keeps [OF mac]
    by (auto simp: Collect_metrics_def in_range_def health_ok_def uint_le uint_bound zero_HealthMetrics_def)
qed


definition sample_he :: "nat \<Rightarrow> nat \<Rightarrow> nat \<Rightarrow> HEnv" where
  "sample_he idle kern user =
     (let ft = (\<lambda>n. \<lparr>ft_dwLowDateTime = of_nat n, ft_dwHighDateTime = 0\<rparr>) in
      \<lparr>he_windows = True, he_systemTimes = Some (ft idle, ft kern, ft user), he_hasSystemTimes = True,
       he_memory = Some (8, 2), he_disk = Some (100, 40), he_ticks = Some 5000, he_alloc = 0, he_sys = 0,
       he_sinceSample = 0, he_goroutines = 9,
       he_interfaces = Some [\<lparr>if_loopback = False, if_up = True, if_hw = map byte [1, 2, 3, 4, 5, 255]\<rparr>],
       he_adapterUp = None, he_adapterFirst = None\<rparr>)"


text \<open>Between two samples whose counters grew, wrapping around at 64 bits or not, by \<open>idle\<close>, \<open>kern\<close> (which
  includes the idle time) and \<open>user\<close>, the reported load is exactly the share of the time that was not idle.\<close>

theorem cpu_load_exact:
  assumes "he_hasSystemTimes he" "he_systemTimes he = Some (fi, fk, fu)" "hs_last st = Some (lastIdle, lastKernel, lastUser)"
    and "toUint64 fi = lastIdle + of_nat idle" "toUint64 fk = lastKernel + of_nat kern" "toUint64 fu = lastUser + of_nat user"
    and "idle \<le> kern" "0 < kern + user" "kern + user < 2 ^ 64"
  shows "fst (getWindowsCPU he st) = 100 * (of_nat (kern + user) - of_nat idle) / of_nat (kern + user)
    \<and> hs_last (snd (getWindowsCPU he st)) = Some (toUint64 fi, toUint64 fk, toUint64 fu)"
proof -
  have float: "float_of (of_nat n) = of_nat n" if "n < 2 ^ 64" for n
    using that by (simp add: float_of_def unat_of_nat take_bit_nat_eq_self)
  let ?t = "kern + user"
  have t: "(of_nat kern + of_nat user :: uint64) = of_nat ?t" by simp
  have b: "(of_nat ?t - of_nat idle :: uint64) = of_nat (?t - idle)" using assms(7) by simp
  have nz: "(of_nat ?t :: uint64) \<noteq> 0" using assms(8,9) by (simp add: word_of_nat_eq_0_iff nat_dvd_not_less del: of_nat_add)
  have share: "of_nat (?t - idle) / of_nat ?t * 100 = (100 * (of_nat ?t - of_nat idle) / of_nat ?t :: float64)"
    using assms(7) by (simp add: of_nat_diff)
  have le: "(100 * (of_nat ?t - of_nat idle) / of_nat ?t :: float64) \<le> 100"
    "0 \<le> (100 * (of_nat ?t - of_nat idle) / of_nat ?t :: float64)"
    using assms(7,8) by (auto simp: divide_le_eq)
  have diffs: "toUint64 fi - lastIdle = of_nat idle" "toUint64 fk - lastKernel = of_nat kern" "toUint64 fu - lastUser = of_nat user"
    using assms(4-6) by simp_all
  have "float_of (of_nat (?t - idle)) / float_of (of_nat ?t) * 100 = (100 * (of_nat ?t - of_nat idle) / of_nat ?t :: float64)"
    using assms(9) share by (simp only: float less_imp_diff_less)
  then show ?thesis
    using le nz unfolding getWindowsCPU_def Let_def assms(2,3) option.case prod.case diffs t b
    by (simp only: assms(1) if_False if_True not_True_eq_False not_le [symmetric] simp_thms fst_conv snd_conv)
      (simp del: of_nat_add)
qed

theorem cpu_load_exact_witness:
  "fst (getWindowsCPU (sample_he 3 8 2) (start_health\<lparr>hs_last := Some (- 1, 0, 0)\<rparr>)) = 60"
  using cpu_load_exact [of "sample_he 3 8 2" "\<lparr>ft_dwLowDateTime = 3, ft_dwHighDateTime = 0\<rparr>"
      "\<lparr>ft_dwLowDateTime = 8, ft_dwHighDateTime = 0\<rparr>" "\<lparr>ft_dwLowDateTime = 2, ft_dwHighDateTime = 0\<rparr>"
      "start_health\<lparr>hs_last := Some (- 1, 0, 0)\<rparr>" "- 1" 0 0 4 8 2]
  by (simp add: sample_he_def toUint64_def)

end
