(* ===== verification/Screen.thy ===== *)
theory Screen
  imports Protocol Bytes
begin

text \<open>
  The agent's screen capture, \<^verbatim>\<open>agent/internal/screen/screen.go\<close>: the GDI capture, the PowerShell capture it falls
  back on and the blank picture it falls back on last.

  \<open>ScEnv\<close> is what Windows returns: the size of the screen, the handles (0 is a failure), the results of the two
  copies, the bytes that \<^verbatim>\<open>GetDIBits\<close> writes, and the output of PowerShell. The JPEG encoder is a parameter: its
  bytes for a quality, a size and the pixels, and whether it failed. The capture gives, beside its outcome, the
  calls it made in order, deferred ones included. A panic is an outcome of its own: \<open>make\<close> refuses a size
  that is negative or beyond the address space, and \<^verbatim>\<open>image.NewRGBA\<close> one whose product overflows.
\<close>

type_synonym handle = int

datatype win32 =
    OpenInputDesktop
  | SetThreadDesktop handle
  | CloseDesktop handle
  | GetSystemMetrics int
  | GetDC
  | ReleaseDC handle
  | CreateCompatibleDC handle
  | DeleteDC handle
  | CreateCompatibleBitmap handle int int
  | DeleteObject handle
  | SelectObject handle handle
  | BitBlt handle int int handle
  | GetDIBits handle handle int

record ScEnv =
  sc_windows :: bool
  sc_now :: int
  sc_desktop :: handle
  sc_w :: int
  sc_h :: int
  sc_hdc :: handle
  sc_memDC :: handle
  sc_bitmap :: handle
  sc_oldBmp :: handle
  sc_bitBlt :: bool
  sc_getDIBits :: bool
  sc_rawBytes :: "nat \<Rightarrow> string"
  sc_jpeg :: "int \<Rightarrow> int \<Rightarrow> int \<Rightarrow> string \<Rightarrow> string \<times> bool"
  sc_powershell :: "string option"

datatype 'a capture = Captured 'a | CaptureError string | CapturePanic

section \<open>The picture\<close>

text \<open>
  \<open>set_pixel\<close> is \<^verbatim>\<open>img.Set\<close> on the pixel bytes of a picture of width \<open>w\<close> (four bytes per pixel, rows without gaps);
  \<open>draw\<close> is the double loop over rows and columns. \<open>screen_rgba\<close> copies a top-down BGRA bitmap.
\<close>

definition set_pixel :: "nat \<Rightarrow> nat \<Rightarrow> nat \<Rightarrow> char \<times> char \<times> char \<times> char \<Rightarrow> string \<Rightarrow> string" where
  "set_pixel w x y c pix =
     (case c of (r, g, b, a) \<Rightarrow>
        let i = y * (4 * w) + x * 4 in pix[i := r, i + 1 := g, i + 2 := b, i + 3 := a])"

definition draw :: "nat \<Rightarrow> nat \<Rightarrow> (nat \<Rightarrow> nat \<Rightarrow> char \<times> char \<times> char \<times> char) \<Rightarrow> string" where
  "draw w h color =
     fold (\<lambda>y. fold (\<lambda>x. set_pixel w x y (color x y)) [0..<w]) [0..<h] (replicate (w * h * 4) (byte 0))"

definition screen_rgba :: "nat \<Rightarrow> nat \<Rightarrow> string \<Rightarrow> string" where
  "screen_rgba w h rawBytes =
     draw w h (\<lambda>x y. let idx = (y * w + x) * 4;
                         b = rawBytes ! idx; g = rawBytes ! (idx + 1); r = rawBytes ! (idx + 2)
                     in (r, g, b, byte 255))"

section \<open>The GDI capture\<close>

text \<open>
  \<open>acquire\<close> is the pattern of the code: a call that gives a handle, an early return when it is zero, and otherwise a
  release that is deferred to the end of the function.
\<close>

definition acquire :: "handle \<Rightarrow> win32 \<Rightarrow> string \<Rightarrow> win32 list \<Rightarrow> 'a capture \<times> win32 list \<Rightarrow> 'a capture \<times> win32 list" where
  "acquire hnd call err deferred rest =
     (if hnd = 0 then (CaptureError err, [call])
      else case rest of (res, calls) \<Rightarrow> (res, call # calls @ deferred))"

definition area :: "ScEnv \<Rightarrow> int" where
  "area sc = sc_w sc * sc_h sc * 4"

definition read_pixels :: "ScEnv \<Rightarrow> string \<Rightarrow> int \<Rightarrow> ScreenCaptureRespPayload capture \<times> win32 list" where
  "read_pixels sc deviceID quality =
     (let w = sc_w sc; h = sc_h sc;
          bufSize = wrap_int64 (area sc)
      in if bufSize \<le> 0 \<or> bufSize > 2 ^ 48 then (CapturePanic, [])
         else if \<not> sc_getDIBits sc then (CaptureError ''GetDIBits failed'', [GetDIBits (sc_memDC sc) (sc_bitmap sc) h])
         else if area sc > 2 ^ 63 - 1 then (CapturePanic, [GetDIBits (sc_memDC sc) (sc_bitmap sc) h])
         else
           let rawBytes = sc_rawBytes sc (nat bufSize);
               img = screen_rgba (nat w) (nat h) rawBytes;
               (buf, err) = sc_jpeg sc quality w h img
           in (if err then CaptureError ''jpeg''
               else Captured \<lparr>scr_DeviceID = deviceID, scr_ImageBase64 = b64_encode buf, scr_Width = w, scr_Height = h,
                              scr_Timestamp = sc_now sc, scr_Error = ''''\<rparr>,
               [GetDIBits (sc_memDC sc) (sc_bitmap sc) h]))"

definition copy_screen :: "ScEnv \<Rightarrow> string \<Rightarrow> int \<Rightarrow> ScreenCaptureRespPayload capture \<times> win32 list" where
  "copy_screen sc deviceID quality =
     (let blt = BitBlt (sc_memDC sc) (sc_w sc) (sc_h sc) (sc_hdc sc);
          (res, calls) =
            (if \<not> sc_bitBlt sc then (CaptureError ''BitBlt failed'', [blt])
             else case read_pixels sc deviceID quality of (res, calls) \<Rightarrow> (res, blt # calls))
      in (res, SelectObject (sc_memDC sc) (sc_bitmap sc) # calls @ [SelectObject (sc_memDC sc) (sc_oldBmp sc)]))"

definition captureWindowsScreen ::
    "ScEnv \<Rightarrow> string \<Rightarrow> int \<Rightarrow> int \<Rightarrow> ScreenCaptureRespPayload capture \<times> win32 list" where
  "captureWindowsScreen sc deviceID quality maxWidth =
     (let hDesk = sc_desktop sc; w = sc_w sc; h = sc_h sc;
          (res, calls) =
            (if w \<le> 0 \<or> h \<le> 0 then (CaptureError (''invalid screen metrics: '' @ itoa w @ ''x'' @ itoa h), [])
             else acquire (sc_hdc sc) GetDC ''GetDC failed'' [ReleaseDC (sc_hdc sc)]
                 (acquire (sc_memDC sc) (CreateCompatibleDC (sc_hdc sc)) ''CreateCompatibleDC failed'' [DeleteDC (sc_memDC sc)]
                 (acquire (sc_bitmap sc) (CreateCompatibleBitmap (sc_hdc sc) w h) ''CreateCompatibleBitmap failed''
                    [DeleteObject (sc_bitmap sc)]
                    (copy_screen sc deviceID quality))))
      in (res, [OpenInputDesktop] @ (if hDesk \<noteq> 0 then [SetThreadDesktop hDesk] else [])
               @ [GetSystemMetrics 0, GetSystemMetrics 1] @ calls
               @ (if hDesk \<noteq> 0 then [CloseDesktop hDesk] else [])))"

section \<open>The fallbacks\<close>

text \<open>\<^verbatim>\<open>strings.SplitN\<close> for one separating character and at least one field.\<close>

fun SplitN :: "char \<Rightarrow> string \<Rightarrow> nat \<Rightarrow> string list" where
  "SplitN sep s 0 = [s]"
| "SplitN sep s (Suc 0) = [s]"
| "SplitN sep s (Suc (Suc n)) =
     (if sep \<in> set s
      then takeWhile (\<lambda>c. c \<noteq> sep) s # SplitN sep (tl (dropWhile (\<lambda>c. c \<noteq> sep) s)) (Suc n)
      else [s])"

definition capturePowerShellScreen :: "ScEnv \<Rightarrow> string \<Rightarrow> int \<Rightarrow> int \<Rightarrow> ScreenCaptureRespPayload capture" where
  "capturePowerShellScreen sc deviceID quality maxWidth =
     (case sc_powershell sc of
        None \<Rightarrow> CaptureError ''powershell''
      | Some out \<Rightarrow>
          (let parts = SplitN CHR '':'' (TrimSpace out) 3 in
           if length parts \<noteq> 3 \<or> length (parts ! 2) = 0 then CaptureError ''invalid powershell output''
           else
             let w = snd (Atoi (parts ! 0)); h = snd (Atoi (parts ! 1));
                 w = (if w \<le> 0 then 1280 else w); h = (if h \<le> 0 then 720 else h)
             in Captured \<lparr>scr_DeviceID = deviceID, scr_ImageBase64 = parts ! 2, scr_Width = w, scr_Height = h,
                          scr_Timestamp = sc_now sc, scr_Error = ''''\<rparr>))"

definition captureFallbackScreen :: "ScEnv \<Rightarrow> string \<Rightarrow> int \<Rightarrow> int \<Rightarrow> ScreenCaptureRespPayload" where
  "captureFallbackScreen sc deviceID quality maxWidth =
     (let img = draw 640 480 (\<lambda>x y. (byte 15, byte 23, byte 42, byte 255));
          buf = fst (sc_jpeg sc quality 640 480 img)
      in \<lparr>scr_DeviceID = deviceID, scr_ImageBase64 = b64_encode buf, scr_Width = 640, scr_Height = 480,
          scr_Timestamp = sc_now sc, scr_Error = ''''\<rparr>)"

definition usable :: "ScreenCaptureRespPayload capture \<Rightarrow> ScreenCaptureRespPayload option" where
  "usable res = (case res of Captured r \<Rightarrow> if scr_ImageBase64 r \<noteq> '''' then Some r else None | _ \<Rightarrow> None)"

definition CaptureScreen :: "ScEnv \<Rightarrow> string \<Rightarrow> int \<Rightarrow> int \<Rightarrow> ScreenCaptureRespPayload outcome" where
  "CaptureScreen sc deviceID quality maxWidth =
     (let quality = (if quality \<le> 0 \<or> quality > 100 then 75 else quality);
          maxWidth = (if maxWidth \<le> 0 then 1280 else maxWidth);
          fallback = captureFallbackScreen sc deviceID quality maxWidth
      in if sc_windows sc
         then let res = fst (captureWindowsScreen sc deviceID quality maxWidth) in
              if res = CapturePanic then Panic SliceOutOfRange
              else case usable res of
                Some r \<Rightarrow> Ret r
              | None \<Rightarrow>
                  (case usable (capturePowerShellScreen sc deviceID quality maxWidth) of
                     Some r \<Rightarrow> Ret r
                   | None \<Rightarrow> Ret fallback)
         else Ret fallback)"

section \<open>The loops draw the picture\<close>

text \<open>\<open>bgra_to_rgba\<close> is the conversion pixel by pixel, without indices.\<close>

fun bgra_to_rgba :: "string \<Rightarrow> string" where
  "bgra_to_rgba (b # g # r # a # rest) = r # g # b # byte 255 # bgra_to_rgba rest"
| "bgra_to_rgba _ = []"

text \<open>The two loops visit the pixels in the order of their index.\<close>

lemma fold_shift: "fold (\<lambda>x. f (a + x)) [0..<n] t = fold f [a..<a + n] t"
  by (induction n) auto

lemma fold_grid: "fold (\<lambda>y. fold (\<lambda>x. f (y * w + x)) [0..<w]) [0..<h] s = fold f [0..<h * w] s"
proof (induction h)
  case (Suc h)
  have "[0..<Suc h * w] = [0..<h * w] @ [h * w..<h * w + w]"
    using upt_add_eq_append [of 0 "h * w" w] by (simp add: add.commute)
  then show ?case using Suc by (simp add: fold_shift del: mult_Suc)
qed simp

text \<open>
  Writing pixel after pixel fills the bytes from the left: after \<open>n\<close> pixels the first \<open>4 * n\<close> bytes are theirs.
\<close>

definition quad :: "char \<times> char \<times> char \<times> char \<Rightarrow> string" where
  "quad c = (case c of (r, g, b, a) \<Rightarrow> [r, g, b, a])"

lemma length_quad [simp]: "length (quad c) = 4"
  by (simp add: quad_def split: prod.splits)

definition put_pixel :: "nat \<Rightarrow> char \<times> char \<times> char \<times> char \<Rightarrow> string \<Rightarrow> string" where
  "put_pixel k c pix = (case c of (r, g, b, a) \<Rightarrow> pix[4 * k := r, 4 * k + 1 := g, 4 * k + 2 := b, 4 * k + 3 := a])"

lemma put_pixel_fill:
  assumes "length filled = 4 * k" "length here = 4"
  shows "put_pixel k c (filled @ here @ rest) = filled @ quad c @ rest"
proof -
  obtain p q s t where "here = [p, q, s, t]"
    using assms(2) by (auto simp: numeral_eq_Suc length_Suc_conv)
  then show ?thesis
    using assms(1) by (simp add: put_pixel_def quad_def list_update_append numeral_eq_Suc split: prod.splits)
qed

lemma length_concat_quads: "length (concat (map (\<lambda>k. quad (c k)) ks)) = 4 * length ks"
  by (induction ks) auto

lemma put_pixels:
  "length rest = 4 * m \<Longrightarrow> length filled = 4 * n \<Longrightarrow>
   fold (\<lambda>k. put_pixel k (c k)) [n..<n + m] (filled @ rest) = filled @ concat (map (\<lambda>k. quad (c k)) [n..<n + m])"
proof (induction m arbitrary: n filled rest)
  case (Suc m)
  have "put_pixel n (c n) (filled @ rest) = (filled @ quad (c n)) @ drop 4 rest"
    using put_pixel_fill [of filled n "take 4 rest" "c n" "drop 4 rest"] Suc.prems by simp
  moreover have "fold (\<lambda>k. put_pixel k (c k)) [Suc n..<Suc n + m] ((filled @ quad (c n)) @ drop 4 rest)
      = (filled @ quad (c n)) @ concat (map (\<lambda>k. quad (c k)) [Suc n..<Suc n + m])"
    using Suc.prems by (intro Suc.IH) simp_all
  moreover have "[n..<n + Suc m] = n # [Suc n..<Suc n + m]" by (simp add: upt_conv_Cons)
  ultimately show ?case by simp
qed simp

lemma draw_pixels:
  "draw w h (\<lambda>x y. c (y * w + x)) = concat (map (\<lambda>k. quad (c k)) [0..<h * w])"
proof -
  have "set_pixel w x y (c (y * w + x)) = put_pixel (y * w + x) (c (y * w + x))" for x y
    by (simp add: fun_eq_iff set_pixel_def put_pixel_def Let_def algebra_simps)
  then show ?thesis
    using put_pixels [of "replicate (w * h * 4) (byte 0)" "h * w" "[]" 0 c]
      fold_grid [of "\<lambda>k. put_pixel k (c k)" w h "replicate (w * h * 4) (byte 0)"]
    by (simp add: draw_def mult.commute mult.left_commute)
qed

lemma bgra_to_rgba_pixels:
  "length raw = 4 * n \<Longrightarrow>
   bgra_to_rgba raw = concat (map (\<lambda>k. [raw ! (k * 4 + 2), raw ! (k * 4 + 1), raw ! (k * 4), byte 255]) [0..<n])"
proof (induction n arbitrary: raw)
  case (Suc n)
  obtain b g r a rest where raw: "raw = b # g # r # a # rest" and "length rest = 4 * n"
    using Suc.prems by (auto simp: numeral_eq_Suc length_Suc_conv)
  moreover have "[0..<Suc n] = 0 # map Suc [0..<n]" by (simp add: map_Suc_upt upt_conv_Cons)
  ultimately show ?case using Suc.IH [of rest] by (simp add: comp_def numeral_eq_Suc)
qed simp

theorem screen_rgba_copies:
  assumes "length rawBytes = w * h * 4"
  shows "screen_rgba w h rawBytes = bgra_to_rgba rawBytes"
  using assms draw_pixels [of w h "\<lambda>k. (rawBytes ! (k * 4 + 2), rawBytes ! (k * 4 + 1), rawBytes ! (k * 4), byte 255)"]
    bgra_to_rgba_pixels [of rawBytes "h * w"]
  by (simp add: screen_rgba_def Let_def quad_def mult.commute mult.left_commute)

section \<open>Every handle is released\<close>

text \<open>
  An account of the handles that a sequence of calls holds: the resources in the order they were acquired, latest
  first, and the bitmap selected into the memory device context. A release is accepted only for the latest resource,
  a bitmap and a context only while no bitmap of ours is selected.
\<close>

datatype resource = Desktop handle | ScreenDC handle | MemoryDC handle | Bitmap handle

type_synonym account = "resource list \<times> handle option"

fun gdi_step :: "ScEnv \<Rightarrow> win32 \<Rightarrow> account \<Rightarrow> account option" where
  "gdi_step sc OpenInputDesktop (held, sel) =
     Some (if sc_desktop sc \<noteq> 0 then Desktop (sc_desktop sc) # held else held, sel)"
| "gdi_step sc GetDC (held, sel) = Some (if sc_hdc sc \<noteq> 0 then ScreenDC (sc_hdc sc) # held else held, sel)"
| "gdi_step sc (CreateCompatibleDC d) (held, sel) =
     (if ScreenDC d \<in> set held
      then Some (if sc_memDC sc \<noteq> 0 then MemoryDC (sc_memDC sc) # held else held, sel) else None)"
| "gdi_step sc (CreateCompatibleBitmap d w h) (held, sel) =
     (if ScreenDC d \<in> set held
      then Some (if sc_bitmap sc \<noteq> 0 then Bitmap (sc_bitmap sc) # held else held, sel) else None)"
| "gdi_step sc (SelectObject d b) (held, sel) =
     (if MemoryDC d \<notin> set held then None
      else case sel of
        None \<Rightarrow> if Bitmap b \<in> set held then Some (held, Some b) else None
      | Some _ \<Rightarrow> if b = sc_oldBmp sc then Some (held, None) else None)"
| "gdi_step sc (BitBlt d w h s) (held, sel) =
     (if MemoryDC d \<in> set held \<and> ScreenDC s \<in> set held \<and> sel \<noteq> None then Some (held, sel) else None)"
| "gdi_step sc (GetDIBits d b h) (held, sel) =
     (if MemoryDC d \<in> set held \<and> Bitmap b \<in> set held then Some (held, sel) else None)"
| "gdi_step sc (SetThreadDesktop d) (held, sel) = (if Desktop d \<in> set held then Some (held, sel) else None)"
| "gdi_step sc (GetSystemMetrics n) (held, sel) = Some (held, sel)"
| "gdi_step sc (DeleteObject b) (held, sel) =
     (if held \<noteq> [] \<and> hd held = Bitmap b \<and> sel = None then Some (tl held, sel) else None)"
| "gdi_step sc (DeleteDC d) (held, sel) =
     (if held \<noteq> [] \<and> hd held = MemoryDC d \<and> sel = None then Some (tl held, sel) else None)"
| "gdi_step sc (ReleaseDC d) (held, sel) = (if held \<noteq> [] \<and> hd held = ScreenDC d then Some (tl held, sel) else None)"
| "gdi_step sc (CloseDesktop d) (held, sel) = (if held \<noteq> [] \<and> hd held = Desktop d then Some (tl held, sel) else None)"

fun gdi_run :: "ScEnv \<Rightarrow> win32 list \<Rightarrow> account \<Rightarrow> account option" where
  "gdi_run sc [] acc = Some acc"
| "gdi_run sc (c # cs) acc = (case gdi_step sc c acc of None \<Rightarrow> None | Some acc' \<Rightarrow> gdi_run sc cs acc')"

lemma gdi_run_append [simp]:
  "gdi_run sc (xs @ ys) acc = (case gdi_run sc xs acc of None \<Rightarrow> None | Some acc' \<Rightarrow> gdi_run sc ys acc')"
  by (induction xs arbitrary: acc) (auto split: option.splits)

lemma copy_screen_balanced:
  assumes "MemoryDC (sc_memDC sc) \<in> set held" "ScreenDC (sc_hdc sc) \<in> set held" "Bitmap (sc_bitmap sc) \<in> set held"
  shows "gdi_run sc (snd (copy_screen sc d q)) (held, None) = Some (held, None)"
  using assms by (simp add: copy_screen_def read_pixels_def Let_def split: prod.splits)


section \<open>What the operator receives\<close>

definition screen_bytes :: "ScEnv \<Rightarrow> string" where
  "screen_bytes sc = sc_rawBytes sc (nat (area sc))"

lemma area_range:
  assumes "0 < sc_w sc" "0 < sc_h sc" "sc_w sc < 2 ^ 23" "sc_h sc < 2 ^ 23"
  shows "0 < area sc" "area sc \<le> 2 ^ 48" "wrap_int64 (area sc) = area sc"
proof -
  have "sc_w sc * sc_h sc \<le> 2 ^ 23 * 2 ^ 23" using assms by (intro mult_mono) auto
  then show le: "area sc \<le> 2 ^ 48" by (simp add: area_def mult.commute)
  show pos: "0 < area sc" using assms by (simp add: area_def)
  show "wrap_int64 (area sc) = area sc" using le pos by (intro wrap_int64_id) (simp add: in_int64_def)
qed

lemma read_pixels_captures:
  assumes "0 < sc_w sc" "0 < sc_h sc" "sc_w sc < 2 ^ 23" "sc_h sc < 2 ^ 23" "length (screen_bytes sc) = nat (area sc)"
    and "sc_getDIBits sc" "sc_jpeg sc q (sc_w sc) (sc_h sc) (bgra_to_rgba (screen_bytes sc)) = (buf, False)"
  shows "fst (read_pixels sc d q) = Captured \<lparr>scr_DeviceID = d, scr_ImageBase64 = b64_encode buf, scr_Width = sc_w sc,
    scr_Height = sc_h sc, scr_Timestamp = sc_now sc, scr_Error = ''''\<rparr>"
proof -
  have "nat (area sc) = nat (sc_w sc) * nat (sc_h sc) * 4" using assms(1,2) by (simp add: area_def nat_mult_distrib)
  then have "screen_rgba (nat (sc_w sc)) (nat (sc_h sc)) (screen_bytes sc) = bgra_to_rgba (screen_bytes sc)"
    using assms(5) by (intro screen_rgba_copies) simp
  then show ?thesis
    using assms area_range [OF assms(1-4)] by (simp add: read_pixels_def Let_def screen_bytes_def)
qed

definition clamp_quality :: "int \<Rightarrow> int" where
  "clamp_quality q = (if q \<le> 0 \<or> q > 100 then 75 else q)"

lemma captureWindowsScreen_no_panic:
  assumes "sc_w sc < 2 ^ 23" "sc_h sc < 2 ^ 23"
  shows "fst (captureWindowsScreen sc d q m) \<noteq> CapturePanic"
proof (cases "sc_w sc \<le> 0 \<or> sc_h sc \<le> 0")
  case False
  then have "fst (read_pixels sc d q) \<noteq> CapturePanic"
    using area_range [of sc] assms by (simp add: read_pixels_def Let_def split: prod.splits)
  then show ?thesis
    using False by (auto simp: captureWindowsScreen_def acquire_def copy_screen_def Let_def split: prod.splits)
qed (simp add: captureWindowsScreen_def Let_def)

lemma captureWindowsScreen_captures:
  assumes "0 < sc_w sc" "0 < sc_h sc" "sc_w sc < 2 ^ 23" "sc_h sc < 2 ^ 23" "length (screen_bytes sc) = nat (area sc)"
    and "sc_hdc sc \<noteq> 0" "sc_memDC sc \<noteq> 0" "sc_bitmap sc \<noteq> 0" "sc_bitBlt sc" "sc_getDIBits sc"
    and "sc_jpeg sc q (sc_w sc) (sc_h sc) (bgra_to_rgba (screen_bytes sc)) = (buf, False)"
  shows "fst (captureWindowsScreen sc d q m) = Captured \<lparr>scr_DeviceID = d, scr_ImageBase64 = b64_encode buf,
    scr_Width = sc_w sc, scr_Height = sc_h sc, scr_Timestamp = sc_now sc, scr_Error = ''''\<rparr>"
  using assms read_pixels_captures [of sc q buf d]
  by (cases "read_pixels sc d q") (simp add: captureWindowsScreen_def acquire_def copy_screen_def Let_def)

lemma b64_encode_empty_iff: "b64_encode s = '''' \<longleftrightarrow> s = ''''"
  using length_b64_encode [of s] by (cases s) auto

lemma capturePowerShellScreen_sized:
  "capturePowerShellScreen sc d q m = Captured r \<Longrightarrow>
   scr_DeviceID r = d \<and> scr_Error r = '''' \<and> 0 < scr_Width r \<and> 0 < scr_Height r"
  by (auto simp: capturePowerShellScreen_def Let_def split: option.splits if_splits)

lemma captureWindowsScreen_sized:
  "fst (captureWindowsScreen sc d q m) = Captured r \<Longrightarrow>
   scr_DeviceID r = d \<and> scr_Error r = '''' \<and> 0 < scr_Width r \<and> 0 < scr_Height r"
  by (auto simp: captureWindowsScreen_def acquire_def copy_screen_def read_pixels_def Let_def split: prod.splits if_splits)

lemma usable_SomeD: "usable res = Some r \<Longrightarrow> res = Captured r \<and> scr_ImageBase64 r \<noteq> ''''"
  by (auto simp: usable_def split: capture.splits if_splits)

lemma width_ignored:
  "captureWindowsScreen sc d q m = captureWindowsScreen sc d q 0"
  "capturePowerShellScreen sc d q m = capturePowerShellScreen sc d q 0"
  "captureFallbackScreen sc d q m = captureFallbackScreen sc d q 0"
  by (simp_all only: captureWindowsScreen_def capturePowerShellScreen_def captureFallbackScreen_def)

lemma CaptureScreen_eq:
  assumes "sc_w sc < 2 ^ 23" "sc_h sc < 2 ^ 23"
  shows "CaptureScreen sc d q m =
    (if sc_windows sc
     then case usable (fst (captureWindowsScreen sc d (clamp_quality q) 0)) of
       Some r \<Rightarrow> Ret r
     | None \<Rightarrow> (case usable (capturePowerShellScreen sc d (clamp_quality q) 0) of
                  Some r \<Rightarrow> Ret r | None \<Rightarrow> Ret (captureFallbackScreen sc d (clamp_quality q) 0))
     else Ret (captureFallbackScreen sc d (clamp_quality q) 0))"
  using captureWindowsScreen_no_panic [OF assms, of d "clamp_quality q" 0]
  unfolding CaptureScreen_def Let_def clamp_quality_def [symmetric]
    width_ignored [of sc d "clamp_quality q" "if m \<le> 0 then 1280 else m"]
  by simp

lemma CaptureScreen_cases:
  assumes "sc_w sc < 2 ^ 23" "sc_h sc < 2 ^ 23"
  obtains (gdi) r where "sc_windows sc" "fst (captureWindowsScreen sc d (clamp_quality q) 0) = Captured r"
      "scr_ImageBase64 r \<noteq> ''''" "\<And>m. CaptureScreen sc d q m = Ret r"
    | (powershell) r where "sc_windows sc" "usable (fst (captureWindowsScreen sc d (clamp_quality q) 0)) = None"
      "capturePowerShellScreen sc d (clamp_quality q) 0 = Captured r" "\<And>m. CaptureScreen sc d q m = Ret r"
    | (blank) "\<not> sc_windows sc \<or> usable (fst (captureWindowsScreen sc d (clamp_quality q) 0)) = None"
      "\<And>m. CaptureScreen sc d q m = Ret (captureFallbackScreen sc d (clamp_quality q) 0)"
proof (cases "sc_windows sc")
  case True
  note eq = CaptureScreen_eq [OF assms, of d q]
  show ?thesis
  proof (cases "usable (fst (captureWindowsScreen sc d (clamp_quality q) 0))")
    case None
    then show ?thesis
      using True eq powershell blank usable_SomeD
      by (cases "usable (capturePowerShellScreen sc d (clamp_quality q) 0)") auto
  next
    case (Some r)
    then show ?thesis using True eq gdi [of r] usable_SomeD by simp
  qed
next
  case False
  then show ?thesis using CaptureScreen_eq [OF assms, of d q] blank by simp
qed

text \<open>A request for the screen is always answered, on a screen narrower and lower than 2^23 pixels: with a
  picture of this device, without an error and of positive size. When Windows delivers the screen, the picture decodes
  to the JPEG of exactly its pixels, row by row, at the size of the screen and the requested quality (75 when
  it is not between 1 and 100); the requested width has no influence.\<close>

theorem screen_capture:
  assumes "sc_w sc < 2 ^ 23" "sc_h sc < 2 ^ 23"
  shows "\<exists>r. CaptureScreen sc d q m = Ret r \<and> CaptureScreen sc d q m' = Ret r \<and>
    scr_DeviceID r = d \<and> scr_Error r = '''' \<and> 0 < scr_Width r \<and> 0 < scr_Height r \<and>
    (sc_windows sc \<and> 0 < sc_w sc \<and> 0 < sc_h sc \<and> length (screen_bytes sc) = nat (area sc) \<and>
     sc_hdc sc \<noteq> 0 \<and> sc_memDC sc \<noteq> 0 \<and> sc_bitmap sc \<noteq> 0 \<and> sc_bitBlt sc \<and> sc_getDIBits sc \<and> buf \<noteq> '''' \<and>
     sc_jpeg sc (clamp_quality q) (sc_w sc) (sc_h sc) (bgra_to_rgba (screen_bytes sc)) = (buf, False) \<longrightarrow>
     b64_decode (scr_ImageBase64 r) = Some buf \<and> scr_Width r = sc_w sc \<and> scr_Height r = sc_h sc)"
proof -
  note gdi_ok = captureWindowsScreen_captures [of sc "clamp_quality q" buf d 0]
  from assms show ?thesis
  proof (cases rule: CaptureScreen_cases [where d = d and q = q])
    case (gdi r)
    then show ?thesis
      using captureWindowsScreen_sized [of sc d "clamp_quality q" 0 r] gdi_ok assms by (auto simp: b64_decode_encode)
  next
    case (powershell r)
    then show ?thesis
      using capturePowerShellScreen_sized [of sc d "clamp_quality q" 0 r] gdi_ok assms
      by (auto simp: usable_def b64_encode_empty_iff split: if_splits)
  next
    case blank
    then show ?thesis
      using gdi_ok assms by (auto simp: usable_def captureFallbackScreen_def b64_encode_empty_iff split: if_splits)
  qed
qed

definition sample_screen :: ScEnv where
  "sample_screen = \<lparr>sc_windows = True, sc_now = 7, sc_desktop = 0, sc_w = 2, sc_h = 1, sc_hdc = 11, sc_memDC = 12,
     sc_bitmap = 13, sc_oldBmp = 14, sc_bitBlt = True, sc_getDIBits = True,
     sc_rawBytes = (\<lambda>n. map byte [0..<n]), sc_jpeg = (\<lambda>q w h img. (img, False)), sc_powershell = None\<rparr>"

theorem screen_capture_witness:
  "\<exists>r. CaptureScreen sample_screen ''pc1'' 0 64 = Ret r \<and>
     b64_decode (scr_ImageBase64 r) = Some (map byte [2, 1, 0, 255, 6, 5, 4, 255]) \<and> scr_Width r = 2 \<and> scr_Height r = 1"
proof -
  have "bgra_to_rgba (screen_bytes sample_screen) = map byte [2, 1, 0, 255, 6, 5, 4, 255]" by code_simp
  then show ?thesis
    using screen_capture [of sample_screen "''pc1''" 0 64 9 "map byte [2, 1, 0, 255, 6, 5, 4, 255]"]
    by (auto simp: sample_screen_def screen_bytes_def area_def)
qed

end
