(* ===== verification/Machine.thy ===== *)
theory Machine
  imports NetProps FileProps TelemetryProps Screen
begin

text \<open>
  The agent's machine: the network client of \<^verbatim>\<open>agent/internal/netclient/client.go\<close> on top of the file, process,
  health and screen packages, and the life of its connections (\<open>Run\<close>, \<open>connectAndServe\<close>, \<open>readLoop\<close>,
  \<open>writePump\<close>, \<open>heartbeatLoop\<close>) as a step relation.

  \<open>MEnv\<close> is the outside world at one moment. A machine is \<open>Sleeping\<close> between two attempts, \<open>Handshaking\<close> once its
  authentication was written, and \<open>Serving\<close> after the relay accepted it; \<open>m_pump\<close> says whether the goroutine that
  writes the connection runs, and \<open>m_wire\<close> is what was written to the current connection.
\<close>

record MEnv =
  me_now :: int
  me_uuid :: "nat \<Rightarrow> string"
  me_hostname :: string
  me_platform :: string
  me_files :: FmEnv
  me_procs :: PmEnv
  me_health :: HEnv
  me_screen :: ScEnv

datatype phase = Sleeping | Handshaking | Serving

record Machine =
  m_net :: NetClient
  m_fs :: FS
  m_health :: HealthState
  m_phase :: phase
  m_pump :: bool
  m_wire :: "Envelope list"

section \<open>What the client sees of the machine\<close>

definition captured_screen :: "MEnv \<Rightarrow> string \<Rightarrow> int \<Rightarrow> int \<Rightarrow> ScreenCaptureRespPayload" where
  \<comment> \<open>only read when the capture does not panic\<close>
  "captured_screen me d q w =
     (case CaptureScreen (me_screen me) d q w of
        Ret r \<Rightarrow> r
      | Panic _ \<Rightarrow> captureFallbackScreen (me_screen me) d q w)"

definition machine_env :: "MEnv \<Rightarrow> Machine \<Rightarrow> NEnv" where
  "machine_env me m =
     \<lparr>n_now = me_now me, n_uuid = me_uuid me, n_hostname = me_hostname me, n_platform = me_platform me,
      n_mac = fst (GetPrimaryMACAddress (me_health me) (m_health m)),
      n_metrics = fst (Collect_metrics (me_health me) (m_health m)),
      n_listDirectory = ListDirectory (me_files me) (m_fs m),
      n_readFile = ReadFile (me_files me) (m_fs m),
      n_writeFile = (\<lambda>p c ov. snd (WriteFile (me_files me) (m_fs m) p c ov)),
      n_deleteFile = (\<lambda>p. snd (DeleteFile (me_files me) (m_fs m) p)),
      n_listProcesses = ListProcesses (me_procs me),
      n_killProcess = (\<lambda>pid. fst (KillProcess (me_procs me) pid)),
      n_captureScreen = captured_screen me\<rparr>"

fun apply_op :: "MEnv \<Rightarrow> os_op \<Rightarrow> FS \<Rightarrow> FS" where
  "apply_op me (OpWrite p c ov) fs = fst (WriteFile (me_files me) fs p c ov)"
| "apply_op me (OpDelete p) fs = fst (DeleteFile (me_files me) fs p)"
| "apply_op me (OpKill pid) fs = fs"

text \<open>The screen is the only part of a request that can panic, and no goroutine of the client recovers.\<close>

definition screen_panics :: "MEnv \<Rightarrow> Machine \<Rightarrow> Envelope \<Rightarrow> bool" where
  "screen_panics me m env \<longleftrightarrow> env_Type env = TypeScreenCaptureReq
     \<and> (let p = snd (DecodePayload unmarshal_ScreenCaptureReqPayload env zero_ScreenCaptureReqPayload)
        in panics (CaptureScreen (me_screen me) (acfg_DeviceID (nc_cfg (m_net m)))
             (if scq_Quality p \<le> 0 then 75 else scq_Quality p) (if scq_MaxWidth p \<le> 0 then 1280 else scq_MaxWidth p)))"

definition receive :: "MEnv \<Rightarrow> Machine \<Rightarrow> Envelope \<Rightarrow> Machine outcome" where
  "receive me m env =
     (if screen_panics me m env then Panic SliceOutOfRange
      else
        let nc = handleIncoming (machine_env me m) ((m_net m)\<lparr>nc_ops := []\<rparr>) env
        in Ret (m\<lparr>m_net := nc, m_fs := fold (apply_op me) (nc_ops nc) (m_fs m)\<rparr>))"

section \<open>The life of a connection\<close>

definition openConnection :: "MEnv \<Rightarrow> Machine \<Rightarrow> Machine" where
  \<comment> \<open>dialling and writing the authentication\<close>
  "openConnection me m =
     (let (authEnv, nc) = authEnvelope (machine_env me m) (m_net m);
          st = snd (GetPrimaryMACAddress (me_health me) (m_health m))
      in m\<lparr>m_net := nc, m_health := st, m_phase := Handshaking, m_pump := False, m_wire := [authEnv]\<rparr>)"

definition setConnected :: "bool \<Rightarrow> Machine \<Rightarrow> Machine" where
  "setConnected v m = m\<lparr>m_net := (m_net m)\<lparr>nc_connected := v\<rparr>\<rparr>"

definition closeConnection :: "Machine \<Rightarrow> Machine" where
  "closeConnection m = setConnected False (m\<lparr>m_phase := Sleeping, m_pump := False\<rparr>)"

definition serveConnection :: "MEnv \<Rightarrow> Machine \<Rightarrow> Envelope \<Rightarrow> Machine" where
  \<comment> \<open>the relay's answer to the authentication\<close>
  "serveConnection me m ackEnv =
     (case acceptAck (machine_env me m) (m_net m) ackEnv of
        Inl err \<Rightarrow> closeConnection m
      | Inr nc \<Rightarrow> m\<lparr>m_net := nc, m_health := snd (Collect_metrics (me_health me) (m_health m)),
                    m_phase := Serving, m_pump := True\<rparr>)"

definition heartbeat :: "MEnv \<Rightarrow> Machine \<Rightarrow> Machine" where
  "heartbeat me m =
     (case heartbeatTick (machine_env me m) (m_net m) of
        (True, nc) \<Rightarrow> m\<lparr>m_net := nc, m_health := snd (Collect_metrics (me_health me) (m_health m))\<rparr>
      | (False, nc) \<Rightarrow> m)"

text \<open>
  \<open>writePump\<close> takes the oldest envelope from the channel; when the write fails the envelope is lost and the pump
  ends, while the connection stays open until its reader fails.
\<close>

definition pumpOne :: "bool \<Rightarrow> Machine \<Rightarrow> Machine" where
  "pumpOne ok m =
     (case nc_send (m_net m) of
        [] \<Rightarrow> m
      | env # rest \<Rightarrow>
          (let m = m\<lparr>m_net := (m_net m)\<lparr>nc_send := rest\<rparr>\<rparr>
           in if ok then m\<lparr>m_wire := m_wire m @ [env]\<rparr> else m\<lparr>m_pump := False\<rparr>))"

inductive session_step :: "Machine \<Rightarrow> Machine \<Rightarrow> bool" where
  dial_failed: "acfg_RelayURL (nc_cfg (m_net m)) \<noteq> '''' \<Longrightarrow> m_phase m = Sleeping \<Longrightarrow> session_step m (setConnected False m)"
| dialled: "acfg_RelayURL (nc_cfg (m_net m)) \<noteq> '''' \<Longrightarrow> m_phase m = Sleeping \<Longrightarrow> session_step m (openConnection me m)"
| handshake_failed: "m_phase m = Handshaking \<Longrightarrow> session_step m (closeConnection m)"
| answered: "m_phase m = Handshaking \<Longrightarrow> session_step m (serveConnection me m ackEnv)"
| received: "m_phase m = Serving \<Longrightarrow> receive me m env = Ret m' \<Longrightarrow> session_step m m'"
| ticked: "m_phase m = Serving \<Longrightarrow> session_step m (heartbeat me m)"
| pumped: "m_phase m = Serving \<Longrightarrow> m_pump m \<Longrightarrow> session_step m (pumpOne ok m)"
| reported: "session_step m (m\<lparr>m_net := ReportResult ne (m_net m) r\<rparr>)"
| worked: "session_step m (m\<lparr>m_net := (m_net m)\<lparr>nc_store := db, nc_wake := w\<rparr>\<rparr>)"
| closed: "m_phase m = Serving \<Longrightarrow> session_step m (closeConnection m)"

inductive_cases session_stepE: "session_step m m'"

definition start_machine :: "AgentDB \<Rightarrow> AConfig \<Rightarrow> FS \<Rightarrow> Machine" where
  "start_machine db cfg fs = \<lparr>m_net = NewNetClient db cfg, m_fs = fs, m_health = start_health, m_phase = Sleeping,
     m_pump = False, m_wire = []\<rparr>"

section \<open>Nothing before the authentication\<close>

definition is_auth :: "AConfig \<Rightarrow> Envelope \<Rightarrow> bool" where
  "is_auth cfg env \<longleftrightarrow> env_Type env = TypeAuth \<and> env_DeviceID env = acfg_DeviceID cfg
     \<and> (\<exists>p. env_Payload env = Some (marshal_AuthPayload p) \<and> ap_Role p = RoleAgent
            \<and> ap_DeviceID p = acfg_DeviceID cfg \<and> ap_Token p = acfg_AuthToken cfg)"

definition session_inv :: "AConfig \<Rightarrow> Machine \<Rightarrow> bool" where
  "session_inv cfg m \<longleftrightarrow> nc_cfg (m_net m) = cfg
     \<and> (nc_connected (m_net m) \<longleftrightarrow> m_phase m = Serving)
     \<and> (m_pump m \<longrightarrow> m_phase m = Serving)
     \<and> length (nc_send (m_net m)) \<le> client_capacity
     \<and> (m_wire m \<noteq> [] \<longrightarrow> is_auth cfg (hd (m_wire m)))
     \<and> (m_phase m = Handshaking \<longrightarrow> length (m_wire m) = 1)
     \<and> (m_phase m = Serving \<longrightarrow> m_wire m \<noteq> [])"

text \<open>What the handlers leave alone: the configuration, the connected flag, and the bound of the channel.\<close>

definition net_kept :: "NetClient \<Rightarrow> NetClient \<Rightarrow> bool" where
  "net_kept nc nc' \<longleftrightarrow> nc_cfg nc' = nc_cfg nc \<and> nc_connected nc' = nc_connected nc
     \<and> (length (nc_send nc) \<le> client_capacity \<longrightarrow> length (nc_send nc') \<le> client_capacity)"

lemma net_kept_refl [simp]: "net_kept nc nc"
  by (simp add: net_kept_def)

lemma net_kept_trans: "net_kept a b \<Longrightarrow> net_kept b c \<Longrightarrow> net_kept a c"
  by (simp add: net_kept_def)

lemma net_kept_send [simp]: "net_kept nc (NSend nc env)" "net_kept nc (sendNew ne nc t b)" "net_kept nc (reply ne nc req t b)"
  by (simp_all add: net_kept_def NSend_def sendNew_def reply_def clientEnvelope_def Let_def)

lemma net_kept_update [simp]:
  "net_kept nc (nc'\<lparr>nc_store := db\<rparr>) = net_kept nc nc'" "net_kept nc (nc'\<lparr>nc_wake := w\<rparr>) = net_kept nc nc'"
  "net_kept nc (nc'\<lparr>nc_ops := ops\<rparr>) = net_kept nc nc'" "net_kept (nc\<lparr>nc_ops := ops\<rparr>) nc' = net_kept nc nc'"
  by (simp_all add: net_kept_def)

lemma net_kept_reply_ops [simp]: "net_kept nc (reply ne (nc\<lparr>nc_ops := ops\<rparr>) req t b)"
  by (simp add: net_kept_def reply_def NSend_def clientEnvelope_def Let_def)

lemma net_kept_handleIncoming: "net_kept nc (handleIncoming ne nc env)"
  by (simp add: handleIncoming_def handleDispatch_def handleSyncResp_def handleResultAck_def wake_def
      handleFileRequest_def handleProcessRequest_def handleScreenCapture_def Let_def split: prod.splits)

lemma acceptAck_kept:
  "acceptAck ne nc ackEnv = Inr nc' \<Longrightarrow> net_kept (nc\<lparr>nc_connected := True\<rparr>) nc'"
  using net_kept_trans [OF net_kept_send(2) net_kept_send(2)]
  by (auto simp: acceptAck_def performSync_def sendHeartbeat_def Let_def split: prod.splits if_splits)

lemma session_inv_net:
  "session_inv cfg m \<Longrightarrow> net_kept (m_net m) nc \<Longrightarrow> session_inv cfg (m\<lparr>m_net := nc\<rparr>)"
  by (simp add: session_inv_def net_kept_def)

lemma session_inv_other [simp]:
  "session_inv cfg (m\<lparr>m_fs := fs\<rparr>) = session_inv cfg m" "session_inv cfg (m\<lparr>m_health := hs\<rparr>) = session_inv cfg m"
  by (simp_all add: session_inv_def)

lemma session_inv_close: "session_inv cfg m \<Longrightarrow> session_inv cfg (closeConnection m)"
  by (simp add: session_inv_def closeConnection_def setConnected_def)

lemma session_inv_open:
  assumes "session_inv cfg m" "m_phase m = Sleeping"
  shows "session_inv cfg (openConnection me m)"
  using assms
  by (auto simp: session_inv_def openConnection_def authEnvelope_def clientEnvelope_def NewEnvelope_def is_auth_def Let_def
      intro!: exI [of _ "\<lparr>ap_Role = RoleAgent, ap_DeviceID = _, ap_Token = _, ap_Hostname = _, ap_OS = _, ap_Version = _,
        ap_MACAddress = _\<rparr>"])

lemma session_inv_serve:
  assumes "session_inv cfg m" "m_phase m = Handshaking"
  shows "session_inv cfg (serveConnection me m ackEnv)"
proof (cases "acceptAck (machine_env me m) (m_net m) ackEnv")
  case (Inl err)
  then show ?thesis using session_inv_close assms by (simp add: serveConnection_def)
next
  case (Inr nc)
  then show ?thesis
    using acceptAck_kept [OF Inr] assms by (auto simp: serveConnection_def session_inv_def net_kept_def)
qed

lemma session_inv_receive:
  assumes "session_inv cfg m" "receive me m env = Ret m'"
  shows "session_inv cfg m'"
proof -
  let ?nc = "handleIncoming (machine_env me m) ((m_net m)\<lparr>nc_ops := []\<rparr>) env"
  have "net_kept (m_net m) ?nc" using net_kept_handleIncoming [of "(m_net m)\<lparr>nc_ops := []\<rparr>"] by simp
  then have "session_inv cfg (m\<lparr>m_net := ?nc\<rparr>)" using assms(1) by (rule session_inv_net [rotated])
  then show ?thesis using assms(2) by (auto simp: receive_def Let_def session_inv_def split: if_splits)
qed

lemma session_inv_heartbeat: "session_inv cfg m \<Longrightarrow> session_inv cfg (heartbeat me m)"
  using session_inv_net [of cfg m "sendHeartbeat (machine_env me m) (m_net m)"]
  by (auto simp: heartbeat_def heartbeatTick_def sendHeartbeat_def session_inv_def)

lemma session_inv_pump: "session_inv cfg m \<Longrightarrow> m_phase m = Serving \<Longrightarrow> session_inv cfg (pumpOne ok m)"
  by (auto simp: session_inv_def pumpOne_def Let_def hd_append split: list.splits)

interpretation agent_session: invariant_system "\<lambda>m. \<exists>db fs. m = start_machine db cfg fs" session_step "session_inv cfg"
proof
  show "\<exists>db fs. s = start_machine db cfg fs \<Longrightarrow> session_inv cfg s" for s
    by (auto simp: session_inv_def start_machine_def NewNetClient_def)
  show "session_inv cfg s \<Longrightarrow> session_step s t \<Longrightarrow> session_inv cfg t" for s t
  proof (erule session_stepE)
    show "session_inv cfg s \<Longrightarrow> t = s\<lparr>m_net := ReportResult ne (m_net s) r\<rparr> \<Longrightarrow> session_inv cfg t" for ne r
      using session_inv_net by (simp add: ReportResult_def)
    show "session_inv cfg s \<Longrightarrow> t = s\<lparr>m_net := (m_net s)\<lparr>nc_store := db, nc_wake := w\<rparr>\<rparr> \<Longrightarrow> session_inv cfg t" for db w
      by (simp add: session_inv_def)
    show "session_inv cfg s \<Longrightarrow> t = setConnected False s \<Longrightarrow> acfg_RelayURL (nc_cfg (m_net s)) \<noteq> '''' \<Longrightarrow>
        m_phase s = Sleeping \<Longrightarrow> session_inv cfg t"
      by (simp add: session_inv_def setConnected_def)
  qed (simp_all add: session_inv_close session_inv_open session_inv_serve session_inv_receive session_inv_heartbeat session_inv_pump)
qed

text \<open>C20. In every state that the agent can reach, whatever the relay sends and whenever connections fail: a connection
  starts with the authentication of this device with its configured token, and nothing else is written to it before
  the relay accepted; the agent counts as connected exactly while it serves an accepted connection, and only
  then a pump writes; the channel never holds more than 64 envelopes.\<close>

theorem nothing_before_authentication:
  assumes "reach (\<lambda>m. \<exists>db fs. m = start_machine db cfg fs) session_step m"
  shows "(m_wire m \<noteq> [] \<longrightarrow> is_auth cfg (hd (m_wire m)))
    \<and> (m_phase m = Handshaking \<longrightarrow> length (m_wire m) = 1)
    \<and> (nc_connected (m_net m) \<longleftrightarrow> m_phase m = Serving) \<and> (m_pump m \<longrightarrow> m_phase m = Serving)
    \<and> length (nc_send (m_net m)) \<le> 64"
  using agent_session.reach_inv [OF assms] by (auto simp: session_inv_def client_capacity_def)

definition sample_me :: MEnv where
  "sample_me = \<lparr>me_now = 7, me_uuid = (\<lambda>n. ''u''), me_hostname = ''host'', me_platform = ''windows/amd64'', me_files = sample_fe,
     me_procs = sample_pm, me_health = sample_he 3 8 2, me_screen = sample_screen\<rparr>"

definition relay_acfg :: AConfig where
  "relay_acfg = sample_acfg\<lparr>acfg_RelayURL := ''ws://relay'', acfg_DeviceID := ''pc1'', acfg_AuthToken := ''secret''\<rparr>"

theorem nothing_before_authentication_witness:
  "is_auth relay_acfg (hd (m_wire (openConnection sample_me (start_machine empty_agent_db relay_acfg []))))"
proof -
  let ?m = "start_machine empty_agent_db relay_acfg []"
  have "session_step ?m (openConnection sample_me ?m)"
    by (rule dialled) (simp_all add: start_machine_def NewNetClient_def relay_acfg_def)
  then have "reach (\<lambda>m. \<exists>db fs. m = start_machine db relay_acfg fs) session_step (openConnection sample_me ?m)"
    by (blast intro: reach_init reach_step)
  from nothing_before_authentication [OF this] show ?thesis
    by (auto simp: openConnection_def authEnvelope_def clientEnvelope_def Let_def)
qed

section \<open>Files over the wire\<close>

definition write_request :: "string \<Rightarrow> FileWriteReqPayload \<Rightarrow> Envelope" where
  "write_request i p = \<lparr>env_Type = TypeFileWriteReq, env_ID = i, env_DeviceID = fwq_DeviceID p, env_Timestamp = 0,
     env_Payload = Some (marshal_FileWriteReqPayload p)\<rparr>"

definition read_request :: "string \<Rightarrow> FileReadReqPayload \<Rightarrow> Envelope" where
  "read_request i p = \<lparr>env_Type = TypeFileReadReq, env_ID = i, env_DeviceID = frq_DeviceID p, env_Timestamp = 0,
     env_Payload = Some (marshal_FileReadReqPayload p)\<rparr>"

lemma Decode_write_request [simp]:
  "DecodePayload unmarshal_FileWriteReqPayload (write_request i p) zero_FileWriteReqPayload = (False, p)"
  by (simp add: DecodePayload_def write_request_def FileWriteReqPayload_codec.dec_enc valid_FileWriteReqPayload_def)

lemma Decode_read_request [simp]:
  "DecodePayload unmarshal_FileReadReqPayload (read_request i p) zero_FileReadReqPayload = (False, p)"
  by (simp add: DecodePayload_def read_request_def FileReadReqPayload_codec.dec_enc valid_FileReadReqPayload_def)

lemma receive_write:
  "receive me m (write_request i p) = Ret (m\<lparr>
     m_net := reply (machine_env me m) ((m_net m)\<lparr>nc_ops := [OpWrite (fwq_Path p) (fwq_ContentBase64 p) (fwq_Overwrite p)]\<rparr>)
       (write_request i p) TypeFileWriteResp (marshal_FileWriteRespPayload
         (let err = snd (WriteFile (me_files me) (m_fs m) (fwq_Path p) (fwq_ContentBase64 p) (fwq_Overwrite p))
          in \<lparr>fwr_DeviceID = acfg_DeviceID (nc_cfg (m_net m)), fwr_Path = fwq_Path p, fwr_Success = (err = None),
              fwr_Error = err_text err\<rparr>)),
     m_fs := fst (WriteFile (me_files me) (m_fs m) (fwq_Path p) (fwq_ContentBase64 p) (fwq_Overwrite p))\<rparr>)"
proof -
  have type: "env_Type (write_request i p) = TypeFileWriteReq" by (simp add: write_request_def)
  have ops: "nc_ops (reply ne nc req t b) = nc_ops nc" for ne nc req t b
    by (simp add: reply_def clientEnvelope_def NSend_def)
  show ?thesis
    by (simp add: receive_def screen_panics_def handleIncoming_def handleFileRequest_def type ops machine_env_def Let_def)
qed

lemma receive_read:
  "receive me m (read_request i p) = Ret (m\<lparr>
     m_net := reply (machine_env me m) ((m_net m)\<lparr>nc_ops := []\<rparr>) (read_request i p) TypeFileReadResp (marshal_FileReadRespPayload
       (let (content, sizeBytes, err) = ReadFile (me_files me) (m_fs m) (frq_Path p)
        in \<lparr>frr_DeviceID = acfg_DeviceID (nc_cfg (m_net m)), frr_Path = frq_Path p, frr_ContentBase64 = content,
            frr_SizeBytes = sizeBytes, frr_Error = err_text err\<rparr>))\<rparr>)"
proof -
  have type: "env_Type (read_request i p) = TypeFileReadReq" by (simp add: read_request_def)
  have ops: "nc_ops (reply ne nc req t b) = nc_ops nc" for ne nc req t b
    by (simp add: reply_def clientEnvelope_def NSend_def)
  show ?thesis
    by (simp add: receive_def screen_panics_def handleIncoming_def handleFileRequest_def type ops machine_env_def Let_def
        split: prod.split)
qed

text \<open>A message that is neither a write nor a deletion leaves the file system alone.\<close>

fun receive_all :: "MEnv \<Rightarrow> Machine \<Rightarrow> Envelope list \<Rightarrow> Machine outcome" where
  "receive_all me m [] = Ret m"
| "receive_all me m (env # envs) = andThen (receive me m env) (\<lambda>m. receive_all me m envs)"

lemma receive_keeps_files:
  assumes "receive me m env = Ret m'" "env_Type env \<notin> {TypeFileWriteReq, TypeFileDeleteReq}"
  shows "m_fs m' = m_fs m"
proof -
  let ?nc = "handleIncoming (machine_env me m) ((m_net m)\<lparr>nc_ops := []\<rparr>) env"
  have ops: "nc_ops (reply ne nc req t b) = nc_ops nc" for ne nc req t b
    by (simp add: reply_def clientEnvelope_def NSend_def)
  have "nc_ops ?nc \<in> {[]} \<union> {[OpKill pid] | pid. True}"
    using assms(2)
    by (simp add: handleIncoming_def handleDispatch_def handleSyncResp_def handleResultAck_def wake_def
        handleFileRequest_def handleProcessRequest_def handleScreenCapture_def Let_def ops split: prod.splits)
  then show ?thesis using assms(1) by (auto simp: receive_def Let_def split: if_splits)
qed

lemma receive_all_keeps_files:
  "receive_all me m envs = Ret m' \<Longrightarrow> \<forall>env \<in> set envs. env_Type env \<notin> {TypeFileWriteReq, TypeFileDeleteReq} \<Longrightarrow>
   m_fs m' = m_fs m"
  by (induction envs arbitrary: m) (auto simp: andThen_Ret_iff dest: receive_keeps_files)

lemma request_ids [simp]: "env_ID (read_request j q) = j" "n_now (machine_env me m) = me_now me"
  by (simp_all add: read_request_def machine_env_def)

lemma last_reply:
  "length (nc_send nc) < client_capacity \<Longrightarrow>
   nc_send (reply ne nc req t b) = nc_send nc @ [NewEnvelope (env_ID req) (n_now ne) t (acfg_DeviceID (nc_cfg nc)) (Some b)]"
  by (simp add: reply_def clientEnvelope_def NSend_def NewEnvelope_def)

text \<open>C21. File transfer between an operator and the machine: when the machine wrote a file that arrived base64 encoded, and
  then handled any other messages that neither write nor delete, a read of the same path is answered under the identifier of
  the request with exactly those bytes and no error, provided the file is within the transfer limit, the system
  lets it be read, and the channel has room for the answer.\<close>

theorem file_transfer:
  assumes "receive me m (write_request i p) = Ret m1" "fwq_ContentBase64 p = b64_encode data"
    and "snd (WriteFile (me_files me) (m_fs m) (fwq_Path p) (fwq_ContentBase64 p) (fwq_Overwrite p)) = None"
    and "receive_all me m1 envs = Ret m2" "\<forall>env \<in> set envs. env_Type env \<notin> {TypeFileWriteReq, TypeFileDeleteReq}"
    and "receive me m2 (read_request j (q\<lparr>frq_Path := fwq_Path p\<rparr>)) = Ret m3" "length (nc_send (m_net m2)) < 64"
    and "int (length data) \<le> MaxFileTransferBytes"
    and "\<not> fe_denied (me_files me) ''stat'' (Clean (fe_win (me_files me)) (fwq_Path p))"
      "\<not> fe_denied (me_files me) ''open'' (Clean (fe_win (me_files me)) (fwq_Path p))"
  shows "\<exists>answer resp. nc_send (m_net m3) = nc_send (m_net m2) @ [answer] \<and> env_ID answer = j \<and> env_Type answer = TypeFileReadResp
    \<and> DecodePayload unmarshal_FileReadRespPayload answer zero_FileReadRespPayload = (False, resp)
    \<and> b64_decode (frr_ContentBase64 resp) = Some data \<and> frr_SizeBytes resp = int (length data) \<and> frr_Error resp = ''''"
proof -
  let ?fe = "me_files me"
  let ?resp = "\<lparr>frr_DeviceID = acfg_DeviceID (nc_cfg (m_net m2)), frr_Path = fwq_Path p, frr_ContentBase64 = b64_encode data,
    frr_SizeBytes = int (length data), frr_Error = ''''\<rparr>"
  let ?answer = "NewEnvelope j (me_now me) TypeFileReadResp (acfg_DeviceID (nc_cfg (m_net m2))) (Some (marshal_FileReadRespPayload ?resp))"
  obtain fs' where wr: "WriteFile ?fe (m_fs m) (fwq_Path p) (b64_encode data) (fwq_Overwrite p) = (fs', None)"
    using assms(2,3) by (cases "WriteFile ?fe (m_fs m) (fwq_Path p) (b64_encode data) (fwq_Overwrite p)") simp
  have "m_fs m1 = fs'" using assms(1,2) wr by (auto simp: receive_write)
  then have "m_fs m2 = fs'" using receive_all_keeps_files [OF assms(4,5)] by simp
  moreover have "ReadFile ?fe fs' (fwq_Path p) = (b64_encode data, int (length data), None)"
    using written_reads_back [OF wr] assms(8-10) by (simp add: b64_decode_encode)
  ultimately have "nc_send (m_net m3) = nc_send (m_net m2) @ [?answer]"
    using assms(6,7) last_reply [of "(m_net m2)\<lparr>nc_ops := []\<rparr>"]
    by (auto simp: receive_read client_capacity_def err_text_def)
  moreover have "in_int64 (int (length data))" using assms(8) by (simp add: MaxFileTransferBytes_def in_int64_def)
  then have "DecodePayload unmarshal_FileReadRespPayload ?answer zero_FileReadRespPayload = (False, ?resp)"
    by (simp add: DecodePayload_def NewEnvelope_def FileReadRespPayload_codec.dec_enc valid_FileReadRespPayload_def)
  ultimately show ?thesis
    by (intro exI [of _ ?answer] exI [of _ ?resp]) (simp add: NewEnvelope_def b64_decode_encode)
qed

definition sample_write :: FileWriteReqPayload where
  "sample_write = \<lparr>fwq_DeviceID = ''pc1'', fwq_Path = ''C:/tmp/../data/a.txt'', fwq_ContentBase64 = b64_encode ''hi'', fwq_Overwrite = False\<rparr>"

theorem file_transfer_witness:
  "\<exists>m1 m2 m3 answer. receive sample_me (start_machine empty_agent_db relay_acfg sample_fs) (write_request ''1'' sample_write) = Ret m1
     \<and> receive_all sample_me m1 [\<lparr>env_Type = TypeProcessListReq, env_ID = ''2'', env_DeviceID = ''pc1'', env_Timestamp = 0, env_Payload = None\<rparr>] = Ret m2
     \<and> receive sample_me m2 (read_request ''3'' \<lparr>frq_DeviceID = ''pc1'', frq_Path = ''C:/tmp/../data/a.txt''\<rparr>) = Ret m3
     \<and> nc_send (m_net m3) = nc_send (m_net m2) @ [answer] \<and> env_ID answer = ''3''
     \<and> b64_decode (frr_ContentBase64 (snd (DecodePayload unmarshal_FileReadRespPayload answer zero_FileReadRespPayload))) = Some ''hi''"
proof -
  let ?m = "start_machine empty_agent_db relay_acfg sample_fs"
  let ?list = "\<lparr>env_Type = TypeProcessListReq, env_ID = ''2'', env_DeviceID = ''pc1'', env_Timestamp = 0, env_Payload = None\<rparr>"
  have wr: "WriteFile sample_fe sample_fs (fwq_Path sample_write) (fwq_ContentBase64 sample_write) (fwq_Overwrite sample_write) = (written_fs, None)"
    unfolding WriteFile_def
    by (simp add: sample_write_def sample_paths sample_calls sample_text b64_decode_encode del: b64_encode.simps)
  obtain m1 where m1: "receive sample_me ?m (write_request ''1'' sample_write) = Ret m1" by (simp add: receive_write)
  then have sent1: "length (nc_send (m_net m1)) \<le> 1"
    by (auto simp: receive_write reply_def clientEnvelope_def NSend_def start_machine_def NewNetClient_def)
  obtain m2 where m2: "receive sample_me m1 ?list = Ret m2" by (simp add: receive_def screen_panics_def Let_def)
  then have sent2: "length (nc_send (m_net m2)) < 64"
    using sent1 by (auto simp: receive_def screen_panics_def handleIncoming_def handleProcessRequest_def reply_def
        clientEnvelope_def NSend_def Let_def split: prod.splits)
  obtain m3 where m3: "receive sample_me m2 (read_request ''3'' \<lparr>frq_DeviceID = ''pc1'', frq_Path = ''C:/tmp/../data/a.txt''\<rparr>) = Ret m3"
    by (simp add: receive_read)
  have free: "fe_denied sample_fe op q = False" "me_files sample_me = sample_fe" for op q
    by (simp_all add: sample_fe_def sample_me_def)
  have "\<exists>answer resp. nc_send (m_net m3) = nc_send (m_net m2) @ [answer] \<and> env_ID answer = ''3'' \<and> env_Type answer = TypeFileReadResp
    \<and> DecodePayload unmarshal_FileReadRespPayload answer zero_FileReadRespPayload = (False, resp)
    \<and> b64_decode (frr_ContentBase64 resp) = Some ''hi'' \<and> frr_SizeBytes resp = int (length ''hi'') \<and> frr_Error resp = ''''"
    by (rule file_transfer [OF m1, where envs = "[?list]" and
          q = "\<lparr>frq_DeviceID = ''pc1'', frq_Path = ''''\<rparr>"])
      (use wr m2 m3 sent2 in \<open>simp_all add: sample_write_def free start_machine_def MaxFileTransferBytes_def del: b64_encode.simps\<close>)
  then show ?thesis using m1 m2 m3 by auto
qed

end
