(* ===== verification/Network.thy ===== *)
theory Network
  imports HubTyping Machine
begin

text \<open>
  The relay and one agent, connected. A state of the network has the relay's hub, the agent's machine, the connection between the
  two with the messages that are under way in either direction, as JSON, and the command the worker executes. All other
  clients of the relay, controllers, other agents and programs that speak the protocol badly, are free to send what they
  like, as is whoever uses the relay's web interface; connections break and the agent restarts at any moment.

  Two lists record what happened: the commands the worker claimed, in order, and the commands that were entered on the
  machine itself with \<^verbatim>\<open>terminal-agent enqueue\<close>.
\<close>

section \<open>The two copies of the protocol\<close>

text \<open>
  The agent has its own copy of the protocol's constants, in \<^verbatim>\<open>agent/internal/protocol/protocol.go\<close>; the model of the agent uses
  the relay's. These are the agent's, in the order of the file.
\<close>

definition agent_constants :: "string list" where
  "agent_constants = [
    ''AUTH'', ''AUTH_ACK'', ''HEARTBEAT'', ''HEARTBEAT_ACK'', ''ENQUEUE_CMD'', ''DISPATCH_CMD'', ''CMD_RESULT'', ''RESULT_ACK'',
    ''SYNC_REQ'', ''SYNC_RESP'', ''DEVICE_STATUS'', ''GET_DEVICES'', ''DEVICE_LIST'', ''ERROR'', ''FILE_LIST_REQ'',
    ''FILE_LIST_RESP'', ''FILE_READ_REQ'', ''FILE_READ_RESP'', ''FILE_WRITE_REQ'', ''FILE_WRITE_RESP'', ''FILE_DELETE_REQ'',
    ''FILE_DELETE_RESP'', ''PROCESS_LIST_REQ'', ''PROCESS_LIST_RESP'', ''PROCESS_KILL_REQ'', ''PROCESS_KILL_RESP'',
    ''AUDIT_LOG'', ''GET_AUDIT_LOGS'', ''AUDIT_LOGS_LIST'', ''SCREEN_CAPTURE_REQ'', ''SCREEN_CAPTURE_RESP'', ''agent'',
    ''controller'', ''ONLINE'', ''DEGRADED'', ''OFFLINE'']"

lemma constants_agree: "agent_constants = [
    TypeAuth, TypeAuthAck, TypeHeartbeat, TypeHeartbeatAck, TypeEnqueueCmd, TypeDispatchCmd, TypeCmdResult, TypeResultAck,
    TypeSyncReq, TypeSyncResp, TypeDeviceStatus, TypeGetDevices, TypeDeviceList, TypeError, TypeFileListReq, TypeFileListResp,
    TypeFileReadReq, TypeFileReadResp, TypeFileWriteReq, TypeFileWriteResp, TypeFileDeleteReq, TypeFileDeleteResp,
    TypeProcessListReq, TypeProcessListResp, TypeProcessKillReq, TypeProcessKillResp, TypeAuditLog, TypeGetAuditLogs,
    TypeAuditLogsList, TypeScreenCaptureReq, TypeScreenCaptureResp, RoleAgent, RoleController, StatusOnline, StatusDegraded,
    StatusOffline]"
  by (simp add: agent_constants_def)

section \<open>State\<close>

record Network =
  nw_hub :: Hub
  nw_machine :: Machine
  nw_conn :: "cid option"
  nw_down :: "json list"
  nw_up :: "json list"
  nw_running :: "Command option"
  nw_runs :: "Command list"
  nw_entered :: "(string \<times> Payload) list"

definition network_init :: "AConfig \<Rightarrow> Network \<Rightarrow> bool" where
  "network_init cfg s \<longleftrightarrow> (\<exists>st hcfg fs. db_typed st
     \<and> s = \<lparr>nw_hub = NewHub st hcfg, nw_machine = start_machine empty_agent_db cfg fs, nw_conn = None, nw_down = [], nw_up = [],
            nw_running = None, nw_runs = [], nw_entered = []\<rparr>)"

text \<open>\<open>ReadJSON\<close> gives an envelope or an error, which ends the connection.\<close>

definition readEnvelope :: "json \<Rightarrow> Envelope option" where
  "readEnvelope j = (let (err, env) = unmarshal_Envelope j zero_Envelope in if err then None else Some env)"

abbreviation agent_db :: "Network \<Rightarrow> AgentDB" where
  "agent_db s \<equiv> nc_store (m_net (nw_machine s))"

definition upd_agent_db :: "AgentDB \<Rightarrow> Network \<Rightarrow> Network" where
  "upd_agent_db db s = s\<lparr>nw_machine := (nw_machine s)\<lparr>m_net := (m_net (nw_machine s))\<lparr>nc_store := db\<rparr>\<rparr>\<rparr>"

lemma upd_agent_db_simps [simp]:
  "agent_db (upd_agent_db db s) = db" "nw_hub (upd_agent_db db s) = nw_hub s" "nw_running (upd_agent_db db s) = nw_running s"
  "nw_runs (upd_agent_db db s) = nw_runs s" "nw_entered (upd_agent_db db s) = nw_entered s"
  by (simp_all add: upd_agent_db_def)

text \<open>What the other clients, the timers and the web server make happen at the relay.\<close>

definition foreign :: "Network \<Rightarrow> hub_event \<Rightarrow> bool" where
  "foreign s ev \<longleftrightarrow>
     (case ev of
        Message c raw \<Rightarrow> c < h_next (nw_hub s) \<and> nw_conn s \<noteq> Some c
      | WriteOut c \<Rightarrow> nw_conn s \<noteq> Some c
      | Direct cmd \<Rightarrow> valid_CommandPayload cmd
      | Reorder al cs \<Rightarrow> mset al = mset (h_agents (nw_hub s)) \<and> mset cs = mset (h_controllers (nw_hub s))
      | _ \<Rightarrow> True)"

text \<open>The worker's callback reports each result through the client.\<close>

definition finish_machine :: "AConfig \<Rightarrow> MEnv \<Rightarrow> WEnv \<Rightarrow> Command \<Rightarrow> Machine \<Rightarrow> Machine" where
  "finish_machine cfg me we cmd m =
     (let r = process_claimed cfg we cmd (nc_store (m_net m)) in
      m\<lparr>m_net := fold (\<lambda>res nc. ReportResult (machine_env me m) nc res) (ro_reported r) ((m_net m)\<lparr>nc_store := ro_db r\<rparr>)\<rparr>)"

inductive network_step :: "AConfig \<Rightarrow> Network \<Rightarrow> Network \<Rightarrow> bool" for cfg where
  others: "env_typed e \<Longrightarrow> foreign s ev \<Longrightarrow> hub_handle e (nw_hub s) ev = Ret h \<Longrightarrow> network_step cfg s (s\<lparr>nw_hub := h\<rparr>)"
| request: "env_typed (v_env v) \<Longrightarrow> serve v (nw_hub s) rq = Ret (r, h, sent) \<Longrightarrow> network_step cfg s (s\<lparr>nw_hub := h\<rparr>)"
| dial: "acfg_RelayURL cfg \<noteq> '''' \<Longrightarrow> m_phase (nw_machine s) = Sleeping \<Longrightarrow> in_int64 (me_now me) \<Longrightarrow> env_typed e \<Longrightarrow>
    m = openConnection me (nw_machine s) \<Longrightarrow>
    network_step cfg s (s\<lparr>nw_machine := m, nw_hub := HandleWS e (nw_hub s), nw_conn := Some (h_next (nw_hub s)), nw_down := [],
      nw_up := map marshal_Envelope (m_wire m)\<rparr>)"
| relay_reads: "env_typed e \<Longrightarrow> nw_conn s = Some c \<Longrightarrow> nw_up s = j # rest \<Longrightarrow> hub_handle e (nw_hub s) (Message c (Some j)) = Ret h \<Longrightarrow>
    network_step cfg s (s\<lparr>nw_hub := h, nw_up := rest\<rparr>)"
| relay_writes: "nw_conn s = Some c \<Longrightarrow> writeNext (nw_hub s) c = Some (env, h) \<Longrightarrow>
    network_step cfg s (s\<lparr>nw_hub := h, nw_down := nw_down s @ [marshal_Envelope env]\<rparr>)"
| handshake: "m_phase (nw_machine s) = Handshaking \<Longrightarrow> in_int64 (me_now me) \<Longrightarrow> nw_down s = j # rest \<Longrightarrow> readEnvelope j = Some env \<Longrightarrow>
    network_step cfg s (s\<lparr>nw_machine := serveConnection me (nw_machine s) env, nw_down := rest\<rparr>)"
| agent_reads: "m_phase (nw_machine s) = Serving \<Longrightarrow> in_int64 (me_now me) \<Longrightarrow> nw_down s = j # rest \<Longrightarrow> readEnvelope j = Some env \<Longrightarrow>
    receive me (nw_machine s) env = Ret m \<Longrightarrow> network_step cfg s (s\<lparr>nw_machine := m, nw_down := rest\<rparr>)"
| agent_writes: "m_phase (nw_machine s) = Serving \<Longrightarrow> m_pump (nw_machine s) \<Longrightarrow>
    network_step cfg s (s\<lparr>nw_machine := pumpOne ok (nw_machine s),
      nw_up := nw_up s @ (if ok then map marshal_Envelope (take 1 (nc_send (m_net (nw_machine s)))) else [])\<rparr>)"
| heartbeats: "m_phase (nw_machine s) = Serving \<Longrightarrow> in_int64 (me_now me) \<Longrightarrow>
    network_step cfg s (s\<lparr>nw_machine := heartbeat me (nw_machine s)\<rparr>)"
| lost: "network_step cfg s (s\<lparr>nw_machine := closeConnection (nw_machine s)\<rparr>)"
| claims: "nw_running s = None \<Longrightarrow> ClaimNext (acfg_MaxAttempts cfg) (agent_db s) = (Some cmd, db) \<Longrightarrow>
    network_step cfg s (upd_agent_db db (s\<lparr>nw_running := Some cmd, nw_runs := nw_runs s @ [cmd]\<rparr>))"
| finishes: "nw_running s = Some cmd \<Longrightarrow> in_int64 (me_now me) \<Longrightarrow>
    network_step cfg s (s\<lparr>nw_machine := finish_machine cfg me we cmd (nw_machine s), nw_running := None\<rparr>)"
| entered: "cmdEnqueue uuid now (agent_db s) words timeoutSec = Some (db, Inr i) \<Longrightarrow> in_int64 timeoutSec \<Longrightarrow>
    network_step cfg s (upd_agent_db db (s\<lparr>nw_entered := nw_entered s @ [(i, \<lparr>pl_Command = TrimSpace words, pl_TimeoutSec = timeoutSec\<rparr>)]\<rparr>))"
| restarts: "network_step cfg s (s\<lparr>nw_machine := start_machine (snd (RecoverStale (acfg_MaxAttempts cfg) (agent_db s))) cfg
      (m_fs (nw_machine s)), nw_conn := None, nw_down := [], nw_up := [], nw_running := None\<rparr>)"

inductive_cases network_stepE: "network_step cfg s t"

section \<open>The relay's side\<close>

text \<open>
  The agent's connection speaks for its device only, other clients for any device, and nobody speaks on a connection that was not
  accepted yet.
\<close>

definition speaks_for :: "string \<Rightarrow> cid option \<Rightarrow> nat \<Rightarrow> cid \<Rightarrow> string set" where
  "speaks_for dev conn n c = (if conn = Some c then {dev} else if c < n then UNIV else {})"

definition relay_ok :: "string \<Rightarrow> Network \<Rightarrow> bool" where
  "relay_ok dev s \<longleftrightarrow>
     hub_typed \<lparr>speaks = speaks_for dev (nw_conn s) (h_next (nw_hub s)), known = {}, accepted = 0\<rparr> (nw_hub s)
     \<and> (\<forall>c. nw_conn s = Some c \<longrightarrow> c < h_next (nw_hub s))
     \<and> (\<forall>j \<in> set (nw_up s). message_in {dev} (Some j))
     \<and> (\<forall>j \<in> set (nw_down s). \<exists>env. j = marshal_Envelope env \<and> envelope_ok {dev} (h_store (nw_hub s)) env)"

lemma relay_ok_any_step:
  assumes ok: "relay_ok dev s"
    and step: "any_step (speaks_for dev (nw_conn s) (h_next (nw_hub s))) (nw_hub s) h"
  shows "relay_ok dev (s\<lparr>nw_hub := h\<rparr>) \<and> (\<forall>cmd. recorded (h_store (nw_hub s)) cmd \<longrightarrow> recorded (h_store h) cmd)"
proof -
  let ?S = "\<lparr>speaks = speaks_for dev (nw_conn s) (h_next (nw_hub s)), known = {}, accepted = 0\<rparr>"
  have S: "hub_typed ?S (nw_hub s)" using ok by (simp add: relay_ok_def)
  have step': "any_step (speaks ?S) (nw_hub s) h" using step by simp
  have rec: "recorded (h_store (nw_hub s)) cmd \<longrightarrow> recorded (h_store h) cmd" for cmd
    using any_step_recorded [OF step' S] by blast
  have next_le: "h_next (nw_hub s) \<le> h_next h" by (rule any_step_accepts [OF step' S])
  have "hub_typed (?S\<lparr>speaks := speaks_for dev (nw_conn s) (h_next h)\<rparr>) h"
    by (rule hub_typed_more [OF any_step_typed [OF step' S]]) (use next_le in \<open>auto simp: speaks_for_def\<close>)
  moreover have "envelope_ok {dev} (h_store h) env" if "envelope_ok {dev} (h_store (nw_hub s)) env" for env
    using that rec by (fastforce simp: envelope_ok_def)
  ultimately show ?thesis
    using ok rec next_le unfolding relay_ok_def by (auto simp: less_le_trans) blast
qed

lemma foreign_typed:
  "foreign s ev \<Longrightarrow> event_typed (speaks_for dev (nw_conn s) (h_next (nw_hub s))) (nw_hub s) ev"
  by (auto simp: foreign_def event_typed_def speaks_for_def message_in_def claims_in_def split: hub_event.splits)

lemma relay_ok_others:
  assumes "relay_ok dev s" and "env_typed e" and "foreign s ev" and "hub_handle e (nw_hub s) ev = Ret h"
  shows "relay_ok dev (s\<lparr>nw_hub := h\<rparr>) \<and> (\<forall>cmd. recorded (h_store (nw_hub s)) cmd \<longrightarrow> recorded (h_store h) cmd)"
  by (rule relay_ok_any_step [OF assms(1) any_event [OF assms(2) foreign_typed [OF assms(3)] assms(4)]])

lemma relay_ok_reads:
  assumes ok: "relay_ok dev s" and e: "env_typed e" and c: "nw_conn s = Some c" and up: "nw_up s = j # rest"
    and run: "hub_handle e (nw_hub s) (Message c (Some j)) = Ret h"
  shows "relay_ok dev (s\<lparr>nw_hub := h, nw_up := rest\<rparr>) \<and> (\<forall>cmd. recorded (h_store (nw_hub s)) cmd \<longrightarrow> recorded (h_store h) cmd)"
proof -
  have "event_typed (speaks_for dev (nw_conn s) (h_next (nw_hub s))) (nw_hub s) (Message c (Some j))"
    using ok c up by (simp add: event_typed_def speaks_for_def relay_ok_def)
  from relay_ok_any_step [OF ok any_event [OF e this run]] show ?thesis
    using up by (auto simp: relay_ok_def)
qed

lemma relay_ok_writes:
  assumes ok: "relay_ok dev s" and c: "nw_conn s = Some c" and w: "writeNext (nw_hub s) c = Some (env, h)"
  shows "relay_ok dev (s\<lparr>nw_hub := h, nw_down := nw_down s @ [marshal_Envelope env]\<rparr>) \<and> h_store h = h_store (nw_hub s)"
proof -
  have S: "hub_typed \<lparr>speaks = speaks_for dev (nw_conn s) (h_next (nw_hub s)), known = {}, accepted = 0\<rparr> (nw_hub s)"
    using ok by (simp add: relay_ok_def)
  have "h_next h = h_next (nw_hub s)" using w by (auto simp: writeNext_def upd_client_def split: list.splits)
  moreover have "envelope_ok {dev} (h_store (nw_hub s)) env" using writeNext_typed [OF S w] c by (simp add: speaks_for_def)
  ultimately show ?thesis
    using ok writeNext_typed [OF S w] by (auto simp: relay_ok_def)
qed

lemma relay_ok_dial:
  assumes ok: "relay_ok dev s" and up: "\<forall>env \<in> set envs. message_in {dev} (Some (marshal_Envelope env))"
  shows "relay_ok dev (s\<lparr>nw_machine := m, nw_hub := HandleWS e (nw_hub s), nw_conn := Some (h_next (nw_hub s)), nw_down := [],
      nw_up := map marshal_Envelope envs\<rparr>) \<and> h_store (HandleWS e (nw_hub s)) = h_store (nw_hub s)"
proof -
  let ?S = "\<lparr>speaks = speaks_for dev (nw_conn s) (h_next (nw_hub s)), known = {}, accepted = 0\<rparr>"
  let ?h = "HandleWS e (nw_hub s)"
  have "hub_typed ?S ?h" using ok by (intro HandleWS_typed) (simp add: relay_ok_def)
  then have "hub_typed (?S\<lparr>speaks := speaks_for dev (Some (h_next (nw_hub s))) (h_next ?h)\<rparr>) ?h"
    by (rule hub_typed_more) (use ok in \<open>auto simp: speaks_for_def relay_ok_def HandleWS_def newUUID_def split: if_splits\<close>)
  then show ?thesis using up by (auto simp: relay_ok_def HandleWS_def newUUID_def)
qed

lemma relay_ok_restart:
  assumes ok: "relay_ok dev s"
  shows "relay_ok dev (s\<lparr>nw_machine := m, nw_conn := None, nw_down := [], nw_up := [], nw_running := None\<rparr>)"
proof -
  let ?S = "\<lparr>speaks = speaks_for dev (nw_conn s) (h_next (nw_hub s)), known = {}, accepted = 0\<rparr>"
  have "hub_typed ?S (nw_hub s)" using ok by (simp add: relay_ok_def)
  then have "hub_typed (?S\<lparr>speaks := speaks_for dev None (h_next (nw_hub s))\<rparr>) (nw_hub s)"
    by (rule hub_typed_more) (use ok in \<open>auto simp: speaks_for_def relay_ok_def\<close>)
  then show ?thesis by (simp add: relay_ok_def)
qed

lemma relay_ok_agent [simp]:
  "relay_ok dev (s\<lparr>nw_machine := m\<rparr>) = relay_ok dev s" "relay_ok dev (s\<lparr>nw_running := r\<rparr>) = relay_ok dev s"
  "relay_ok dev (s\<lparr>nw_runs := rs\<rparr>) = relay_ok dev s" "relay_ok dev (s\<lparr>nw_entered := es\<rparr>) = relay_ok dev s"
  "relay_ok dev (upd_agent_db db s) = relay_ok dev s"
  by (simp_all add: relay_ok_def upd_agent_db_def)

section \<open>What the agent writes\<close>

definition own_message :: "string \<Rightarrow> Envelope \<Rightarrow> bool" where
  "own_message dev env \<longleftrightarrow> valid_Envelope env \<and> claims_in {dev} env"

lemma own_message_in: "own_message dev env \<Longrightarrow> message_in {dev} (Some (marshal_Envelope env))"
  by (auto simp: own_message_def message_in_def Envelope_codec.dec_enc)

lemma own_message_other:
  "t \<notin> {TypeAuth, TypeSyncReq} \<Longrightarrow> in_int64 now \<Longrightarrow> own_message dev (NewEnvelope u now t d p)"
  "t \<notin> {TypeAuth, TypeSyncReq} \<Longrightarrow> in_int64 now \<Longrightarrow> own_message dev ((NewEnvelope u now t d p)\<lparr>env_ID := i\<rparr>)"
  by (simp_all add: own_message_def claims_in_def NewEnvelope_def valid_Envelope_def)

lemma sync_device: "sq_DeviceID (snd (unmarshal_SyncReqPayload (marshal_SyncReqPayload req) zero_SyncReqPayload)) = sq_DeviceID req"
  by (simp add: marshal_SyncReqPayload_def unmarshal_SyncReqPayload_def zero_SyncReqPayload_def struct_simps split: prod.split)

lemma own_message_sync:
  "in_int64 now \<Longrightarrow> sq_DeviceID req = dev \<Longrightarrow> own_message dev (NewEnvelope u now TypeSyncReq d (Some (marshal_SyncReqPayload req)))"
  using sync_device [of req] by (auto simp: own_message_def claims_in_def NewEnvelope_def valid_Envelope_def DecodePayload_def)

lemma own_message_auth:
  "in_int64 now \<Longrightarrow> ap_DeviceID p = dev \<Longrightarrow> own_message dev (NewEnvelope u now TypeAuth d (Some (marshal_AuthPayload p)))"
  by (simp add: own_message_def claims_in_def NewEnvelope_def valid_Envelope_def DecodePayload_def AuthPayload_codec.dec_enc
      valid_AuthPayload_def)

definition client_ok :: "AConfig \<Rightarrow> NetClient \<Rightarrow> bool" where
  "client_ok cfg nc \<longleftrightarrow> nc_cfg nc = cfg \<and> (\<forall>env \<in> set (nc_send nc). own_message (acfg_DeviceID cfg) env)"

lemma client_ok_update [simp]:
  "client_ok cfg (nc\<lparr>nc_store := db\<rparr>) = client_ok cfg nc" "client_ok cfg (nc\<lparr>nc_wake := w\<rparr>) = client_ok cfg nc"
  "client_ok cfg (nc\<lparr>nc_ops := ops\<rparr>) = client_ok cfg nc" "client_ok cfg (nc\<lparr>nc_connected := b\<rparr>) = client_ok cfg nc"
  "client_ok cfg (nc\<lparr>nc_uuids := n\<rparr>) = client_ok cfg nc"
  by (simp_all add: client_ok_def)

lemma client_ok_send:
  "client_ok cfg nc \<Longrightarrow> own_message (acfg_DeviceID cfg) env \<Longrightarrow> client_ok cfg (NSend nc env)"
  by (auto simp: client_ok_def NSend_def)

lemma client_ok_sendNew:
  "client_ok cfg nc \<Longrightarrow> in_int64 (n_now ne) \<Longrightarrow> t \<notin> {TypeAuth, TypeSyncReq} \<Longrightarrow> client_ok cfg (sendNew ne nc t b)"
  "client_ok cfg nc \<Longrightarrow> in_int64 (n_now ne) \<Longrightarrow> t \<notin> {TypeAuth, TypeSyncReq} \<Longrightarrow> client_ok cfg (reply ne nc req t b)"
  by (auto simp: sendNew_def reply_def clientEnvelope_def intro!: client_ok_send own_message_other)

lemma client_ok_handleIncoming:
  assumes "client_ok cfg nc" and "in_int64 (n_now ne)"
  shows "client_ok cfg (handleIncoming ne nc env)"
  using assms
  by (simp add: handleIncoming_def handleDispatch_def handleSyncResp_def handleResultAck_def wake_def
      handleFileRequest_def handleProcessRequest_def handleScreenCapture_def client_ok_sendNew Let_def split: prod.splits)

lemma client_ok_acceptAck:
  assumes "acceptAck ne nc ackEnv = Inr nc'" and "client_ok cfg nc" and "in_int64 (n_now ne)"
  shows "client_ok cfg nc' \<and> nc_store nc' = nc_store nc"
proof -
  have "client_ok cfg (performSync ne nc)" if "client_ok cfg nc" for nc
  proof -
    have "nc_cfg nc = cfg" using that by (simp add: client_ok_def)
    then show ?thesis
      using that assms(3) by (auto simp: performSync_def sendNew_def clientEnvelope_def intro!: client_ok_send own_message_sync)
  qed
  moreover have "client_ok cfg (sendHeartbeat ne nc)" if "client_ok cfg nc" for nc
    using that assms(3) by (simp add: sendHeartbeat_def client_ok_sendNew)
  moreover have "nc_store (sendNew ne nc t b) = nc_store nc" for nc t b
    by (simp add: sendNew_def clientEnvelope_def NSend_def)
  then have "nc_store (performSync ne (sendHeartbeat ne nc)) = nc_store nc" for nc
    by (simp add: performSync_def sendHeartbeat_def)
  moreover have "nc' = performSync ne (sendHeartbeat ne (nc\<lparr>nc_connected := True\<rparr>))"
    using assms(1) by (auto simp: acceptAck_def split: prod.splits if_splits)
  ultimately show ?thesis using assms(2) by simp
qed

lemma client_ok_reports:
  assumes "client_ok cfg nc" and "in_int64 (n_now ne)"
  shows "client_ok cfg (fold (\<lambda>res nc. ReportResult ne nc res) rs nc)
    \<and> nc_store (fold (\<lambda>res nc. ReportResult ne nc res) rs nc) = nc_store nc"
  using assms
proof (induction rs arbitrary: nc)
  case (Cons r rs)
  have "client_ok cfg (ReportResult ne nc r)" using Cons.prems by (simp add: ReportResult_def client_ok_sendNew)
  from Cons.IH [OF this Cons.prems(2)] show ?case
    by (simp add: ReportResult_def sendNew_def clientEnvelope_def NSend_def)
qed simp

section \<open>The agent's queue\<close>

text \<open>What a command in the agent's queue says, and where it comes from.\<close>

definition asked_for :: "string \<Rightarrow> DB \<Rightarrow> string \<Rightarrow> Payload \<Rightarrow> bool" where
  "asked_for dev db i p \<longleftrightarrow> (\<exists>r \<in> set (CloudCommandQueue db). cr_CommandID r = i \<and> cr_Command r = pl_Command p
     \<and> cr_TimeoutSec r = pl_TimeoutSec p \<and> ToLower (cr_DeviceID r) = ToLower dev)"

definition origin_ok :: "string \<Rightarrow> Network \<Rightarrow> string \<Rightarrow> json option \<Rightarrow> bool" where
  "origin_ok dev s i j \<longleftrightarrow> (\<exists>p. j = Some (marshal_Payload p) \<and> in_int64 (pl_TimeoutSec p)
     \<and> ((i, p) \<in> set (nw_entered s) \<or> asked_for dev (h_store (nw_hub s)) i p))"

lemma origin_ok_frame [simp]:
  "origin_ok dev (s\<lparr>nw_machine := m\<rparr>) = origin_ok dev s" "origin_ok dev (s\<lparr>nw_down := d\<rparr>) = origin_ok dev s"
  "origin_ok dev (s\<lparr>nw_up := u\<rparr>) = origin_ok dev s" "origin_ok dev (s\<lparr>nw_running := r\<rparr>) = origin_ok dev s"
  "origin_ok dev (s\<lparr>nw_runs := rs\<rparr>) = origin_ok dev s" "origin_ok dev (s\<lparr>nw_conn := c\<rparr>) = origin_ok dev s"
  "origin_ok dev (upd_agent_db db s) = origin_ok dev s"
  by (simp_all add: fun_eq_iff origin_ok_def upd_agent_db_def)

lemma asked_for_recorded:
  assumes "recorded db cmd" and "ToLower (cp_DeviceID cmd) = ToLower dev"
  shows "asked_for dev db (cp_CommandID cmd) \<lparr>pl_Command = cp_Command cmd, pl_TimeoutSec = cp_TimeoutSec cmd\<rparr>"
  using assms by (auto simp: recorded_def asked_for_def command_of_record_def)

lemma asked_for_mono:
  assumes "\<forall>cmd. recorded db cmd \<longrightarrow> recorded db' cmd" and "asked_for dev db i p"
  shows "asked_for dev db' i p"
proof -
  obtain r where r: "r \<in> set (CloudCommandQueue db)" "cr_CommandID r = i" "cr_Command r = pl_Command p"
      "cr_TimeoutSec r = pl_TimeoutSec p" "ToLower (cr_DeviceID r) = ToLower dev"
    using assms(2) by (auto simp: asked_for_def)
  have "recorded db' (command_of_record r)" using assms(1) r(1) by (auto simp: recorded_def)
  then show ?thesis using r(2-) by (force simp: recorded_def asked_for_def command_of_record_def)
qed

text \<open>A fact about the identifier and the payload of every row survives what the agent does to its queue.\<close>

definition rows_ok :: "(string \<Rightarrow> json option \<Rightarrow> bool) \<Rightarrow> AgentDB \<Rightarrow> bool" where
  "rows_ok P db \<longleftrightarrow> (\<forall>c \<in> set (CommandQueue db). P (ac_CommandID c) (ac_Payload c))"

lemma rows_ok_update:
  "rows_ok P db \<Longrightarrow> (\<And>c. ac_CommandID (f c) = ac_CommandID c \<and> ac_Payload (f c) = ac_Payload c) \<Longrightarrow>
   rows_ok P (db\<lparr>CommandQueue := update_rows q f (CommandQueue db)\<rparr>)"
  by (simp add: rows_ok_def ball_update_rows)

lemma rows_ok_results [simp]: "rows_ok P (db\<lparr>ResultQueue := rs\<rparr>) = rows_ok P db"
  by (simp add: rows_ok_def)

lemma rows_ok_writes:
  assumes "rows_ok P db"
  shows "P i (Some (marshal_Payload p)) \<Longrightarrow> rows_ok P (EnqueueWithID now db i p)"
    and "P i (Some (marshal_Payload p)) \<Longrightarrow> rows_ok P (fst (Enqueue i now db p))"
    and "rows_ok P (MarkResultSynced db i)"
    and "rows_ok P (snd (RecoverStale m db))"
    and "rows_ok P (ro_db (process_claimed cfg we cmd db))"
proof -
  show "rows_ok P (snd (RecoverStale m db))" "rows_ok P (MarkResultSynced db i)"
    using assms by (auto simp: RecoverStale_def MarkResultSynced_def intro!: rows_ok_update)
  show "rows_ok P (ro_db (process_claimed cfg we cmd db))"
  proof -
    obtain st where q: "CommandQueue (ro_db (process_claimed cfg we cmd db)) =
        update_rows (\<lambda>r. st \<noteq> None \<and> ac_CommandID r = ac_CommandID cmd) (\<lambda>r. r\<lparr>ac_Status := the st\<rparr>) (CommandQueue db)"
      using process_claimed_effect [of cfg cmd db we] by (auto simp: claimed_effect_def)
    show ?thesis using assms unfolding rows_ok_def q ball_update_rows by simp metis
  qed
qed (use assms in \<open>auto simp: EnqueueWithID_def Enqueue_def rows_ok_def pending_row_def split: option.split\<close>)

lemma rows_ok_claim:
  assumes "rows_ok P db" and "ClaimNext m db = (Some cmd, db')"
  shows "rows_ok P db' \<and> P (ac_CommandID cmd) (ac_Payload cmd)"
proof (rule ClaimNext_SomeD [OF assms(2)])
  fix c
  assume c: "c \<in> set (CommandQueue db)" "cmd = c\<lparr>ac_Status := AStatusExecuting, ac_Attempts := ac_Attempts c + 1\<rparr>"
    and db': "db' = db\<lparr>CommandQueue := update_rows (\<lambda>r. ac_CommandID r = ac_CommandID c \<and> ac_Status r = AStatusPending)
           (\<lambda>r. r\<lparr>ac_Status := AStatusExecuting, ac_Attempts := ac_Attempts r + 1\<rparr>) (CommandQueue db)\<rparr>"
  show ?thesis
    using assms(1) c unfolding db' by (auto intro!: rows_ok_update) (auto simp: rows_ok_def)
qed

lemma rows_ok_enqueue_all:
  "rows_ok P db \<Longrightarrow>
   \<forall>cmd \<in> set cmds. P (cp_CommandID cmd) (Some (marshal_Payload \<lparr>pl_Command = cp_Command cmd, pl_TimeoutSec = cp_TimeoutSec cmd\<rparr>)) \<Longrightarrow>
   rows_ok P (fold (enqueue_command ne) cmds db)"
  by (induction cmds arbitrary: db) (simp_all add: enqueue_command_def rows_ok_writes(1))

lemma rows_ok_mark_all: "rows_ok P (fold (\<lambda>i db. MarkResultSynced db i) ids db) = rows_ok P db"
  by (simp add: rows_ok_def CommandQueue_mark_all)

text \<open>The parts of the machine that matter to the queue, and the agent's own view of a state.\<close>

definition agent_part :: "Network \<Rightarrow> AgentState" where
  "agent_part s = \<lparr>as_db = agent_db s, as_running = nw_running s, as_runs = map ac_CommandID (nw_runs s)\<rparr>"

definition network_ok :: "AConfig \<Rightarrow> Network \<Rightarrow> bool" where
  "network_ok cfg s \<longleftrightarrow> relay_ok (acfg_DeviceID cfg) s \<and> client_ok cfg (m_net (nw_machine s))
     \<and> rows_ok (origin_ok (acfg_DeviceID cfg) s) (agent_db s)
     \<and> (\<forall>cmd \<in> set (nw_runs s). origin_ok (acfg_DeviceID cfg) s (ac_CommandID cmd) (ac_Payload cmd))
     \<and> agent_ok (acfg_MaxAttempts cfg) (agent_part s)"

section \<open>Every step keeps the invariant\<close>

lemma origin_ok_mono:
  assumes "origin_ok dev s i j" and "\<forall>cmd. recorded (h_store (nw_hub s)) cmd \<longrightarrow> recorded (h_store (nw_hub t)) cmd"
    and "set (nw_entered s) \<subseteq> set (nw_entered t)"
  shows "origin_ok dev t i j"
  using assms(1,3) asked_for_mono [OF assms(2)] by (auto simp: origin_ok_def)

lemma network_ok_around:
  assumes ok: "network_ok cfg s" and relay: "relay_ok (acfg_DeviceID cfg) t"
    and mono: "\<forall>cmd. recorded (h_store (nw_hub s)) cmd \<longrightarrow> recorded (h_store (nw_hub t)) cmd" "set (nw_entered s) \<subseteq> set (nw_entered t)"
    and client: "client_ok cfg (m_net (nw_machine t))" and same: "agent_part t = agent_part s" "nw_runs t = nw_runs s"
  shows "network_ok cfg t"
proof -
  note up = origin_ok_mono [OF _ mono]
  have "agent_db t = agent_db s" using same(1) by (simp add: agent_part_def)
  then have "rows_ok (origin_ok (acfg_DeviceID cfg) t) (agent_db t)"
    using ok up by (auto simp: network_ok_def rows_ok_def)
  then show ?thesis
    using ok up relay client same by (auto simp: network_ok_def)
qed

lemma network_ok_hub:
  assumes ok: "network_ok cfg s" and relay: "relay_ok (acfg_DeviceID cfg) t"
    and mono: "\<forall>cmd. recorded (h_store (nw_hub s)) cmd \<longrightarrow> recorded (h_store (nw_hub t)) cmd"
    and same: "nw_machine t = nw_machine s" "nw_running t = nw_running s" "nw_runs t = nw_runs s" "nw_entered t = nw_entered s"
  shows "network_ok cfg t"
  by (rule network_ok_around [OF ok relay mono]) (use ok same in \<open>simp_all add: network_ok_def agent_part_def\<close>)

lemma network_ok_machine:
  assumes ok: "network_ok cfg s" and client: "client_ok cfg (m_net m)" and db: "nc_store (m_net m) = agent_db s"
  shows "network_ok cfg (s\<lparr>nw_machine := m\<rparr>)"
  by (rule network_ok_around [OF ok]) (use ok client db in \<open>simp_all add: network_ok_def agent_part_def\<close>)

lemma agent_ok_deliveries:
  "agent_ok m (s\<lparr>as_db := db\<rparr>) \<Longrightarrow> agent_ok m (s\<lparr>as_db := fold (enqueue_command ne) cmds (fold (\<lambda>i db. MarkResultSynced db i) ids db)\<rparr>)"
proof -
  have one: "agent_ok m (s\<lparr>as_db := db\<rparr>) \<Longrightarrow> agent_ok m (s\<lparr>as_db := MarkResultSynced db i\<rparr>)"
    "agent_ok m (s\<lparr>as_db := db\<rparr>) \<Longrightarrow> agent_ok m (s\<lparr>as_db := enqueue_command ne cmd db\<rparr>)" for db i cmd
    using agent_ok_synced [of m "s\<lparr>as_db := db\<rparr>"] agent_ok_deliver [of m "s\<lparr>as_db := db\<rparr>"] by (simp_all add: enqueue_command_def)
  have "agent_ok m (s\<lparr>as_db := db\<rparr>) \<Longrightarrow> agent_ok m (s\<lparr>as_db := fold (\<lambda>i db. MarkResultSynced db i) ids db\<rparr>)" for db
    by (induction ids arbitrary: db) (simp_all add: one)
  moreover have "agent_ok m (s\<lparr>as_db := db\<rparr>) \<Longrightarrow> agent_ok m (s\<lparr>as_db := fold (enqueue_command ne) cmds db\<rparr>)" for db
    by (induction cmds arbitrary: db) (simp_all add: one)
  ultimately show "agent_ok m (s\<lparr>as_db := db\<rparr>) \<Longrightarrow> agent_ok m (s\<lparr>as_db := fold (enqueue_command ne) cmds (fold (\<lambda>i db. MarkResultSynced db i) ids db)\<rparr>)"
    by blast
qed

text \<open>What a message can do to the queue: deliver commands and mark results.\<close>

lemma handleIncoming_store:
  assumes "envelope_ok D db env"
  obtains cmds ids where "nc_store (handleIncoming ne nc env) = fold (enqueue_command ne) cmds (fold (\<lambda>i db. MarkResultSynced db i) ids (nc_store nc))"
    and "\<forall>cmd \<in> set cmds. recorded db cmd \<and> (\<exists>d \<in> D. ToLower d = ToLower (cp_DeviceID cmd))"
proof -
  consider "env_Type env = TypeDispatchCmd" | "env_Type env = TypeSyncResp" | "env_Type env = TypeResultAck"
    | "env_Type env \<notin> {TypeDispatchCmd, TypeSyncResp, TypeResultAck}" by blast
  then show thesis
  proof cases
    case 1
    then obtain cmd where "DecodePayload unmarshal_CommandPayload env zero_CommandPayload = (False, cmd)" "recorded db cmd"
        "\<exists>d \<in> D. ToLower d = ToLower (cp_DeviceID cmd)"
      using envelope_ok_decodes(2) [OF assms] by blast
    then show ?thesis
      using 1 by (intro that [of "[cmd]" "[]"]) (simp_all add: handleIncoming_def handleDispatch_def wake_def)
  next
    case 2
    then obtain resp where r: "DecodePayload unmarshal_SyncRespPayload env zero_SyncRespPayload = (False, resp)"
        "\<forall>cmd \<in> set (sr_PendingCommands resp). recorded db cmd \<and> cp_DeviceID cmd \<in> D"
      using envelope_ok_decodes(3) [OF assms] by blast
    then show ?thesis
      using handleSyncResp_effect(1) [OF 2 r(1)] by (intro that [of "sr_PendingCommands resp" "sr_AckedResults resp"]) auto
  next
    case 3
    obtain err ack where d: "DecodePayload unmarshal_ResultAckPayload env zero_ResultAckPayload = (err, ack)" by fastforce
    show ?thesis
      by (rule that [of "[]" "if \<not> err \<and> ra_Success ack then [ra_CommandID ack] else []"])
         (use 3 d in \<open>simp_all add: handleIncoming_def handleResultAck_def\<close>)
  next
    case 4
    have store: "nc_store (reply ne nc req t b) = nc_store nc" for nc req t b
      by (simp add: reply_def clientEnvelope_def NSend_def)
    show ?thesis
      by (rule that [of "[]" "[]"])
         (use 4 store in \<open>simp_all add: handleIncoming_def handleFileRequest_def handleProcessRequest_def handleScreenCapture_def
           Let_def split: prod.splits\<close>)
  qed
qed

lemma origin_ok_recorded:
  assumes "recorded (h_store (nw_hub s)) cmd" and "db_typed (h_store (nw_hub s))" and "ToLower (cp_DeviceID cmd) = ToLower dev"
  shows "origin_ok dev s (cp_CommandID cmd) (Some (marshal_Payload \<lparr>pl_Command = cp_Command cmd, pl_TimeoutSec = cp_TimeoutSec cmd\<rparr>))"
  using asked_for_recorded [OF assms(1,3)] recorded_valid [OF assms(2,1)]
  unfolding origin_ok_def by (intro exI conjI disjI2) (auto simp: valid_CommandPayload_def)

lemma network_ok_agent_reads:
  assumes ok: "network_ok cfg s" and now: "in_int64 (me_now me)" and down: "nw_down s = j # rest" and j: "readEnvelope j = Some env"
    and run: "receive me (nw_machine s) env = Ret m"
  shows "network_ok cfg (s\<lparr>nw_machine := m, nw_down := rest\<rparr>)"
proof -
  let ?dev = "acfg_DeviceID cfg" and ?nc = "(m_net (nw_machine s))\<lparr>nc_ops := []\<rparr>" and ?ne = "machine_env me (nw_machine s)"
  let ?t = "s\<lparr>nw_machine := m, nw_down := rest\<rparr>"
  have relay: "relay_ok ?dev s" and client: "client_ok cfg ?nc" and rows: "rows_ok (origin_ok ?dev s) (agent_db s)"
    and agent: "agent_ok (acfg_MaxAttempts cfg) ((agent_part s)\<lparr>as_db := agent_db s\<rparr>)"
    using ok by (simp_all add: network_ok_def agent_part_def)
  have m: "m_net m = handleIncoming ?ne ?nc env" using run by (auto simp: receive_def Let_def split: if_splits)
  obtain env' where "j = marshal_Envelope env'" "envelope_ok {?dev} (h_store (nw_hub s)) env'"
    using relay down by (auto simp: relay_ok_def)
  then have env: "envelope_ok {?dev} (h_store (nw_hub s)) env"
    using j envelope_ok_decodes(1) by (fastforce simp: readEnvelope_def)
  obtain cmds ids where store: "nc_store (handleIncoming ?ne ?nc env) =
      fold (enqueue_command ?ne) cmds (fold (\<lambda>i db. MarkResultSynced db i) ids (nc_store ?nc))"
    and cmds: "\<forall>cmd \<in> set cmds. recorded (h_store (nw_hub s)) cmd \<and> (\<exists>d \<in> {?dev}. ToLower d = ToLower (cp_DeviceID cmd))"
    by (rule handleIncoming_store [OF env])
  have typed: "db_typed (h_store (nw_hub s))" using relay by (auto simp: relay_ok_def dest: hub_typed_db)
  have "rows_ok (origin_ok ?dev s) (agent_db ?t)"
    using rows cmds origin_ok_recorded [OF _ typed]
    by (simp add: m store) (intro rows_ok_enqueue_all, auto simp: rows_ok_mark_all)
  then have "rows_ok (origin_ok ?dev ?t) (agent_db ?t)" by simp
  moreover have "client_ok cfg (m_net (nw_machine ?t))"
    using client_ok_handleIncoming [OF client, of ?ne env] now by (simp add: m machine_env_def)
  moreover have "agent_ok (acfg_MaxAttempts cfg) (agent_part ?t)"
    using agent_ok_deliveries [OF agent, of ?ne cmds ids] by (simp add: agent_part_def m store)
  moreover have "relay_ok ?dev ?t" using relay down by (simp add: relay_ok_def)
  moreover have "\<forall>cmd \<in> set (nw_runs ?t). origin_ok ?dev ?t (ac_CommandID cmd) (ac_Payload cmd)"
    using ok by (simp add: network_ok_def)
  ultimately show ?thesis by (simp add: network_ok_def)
qed

lemma network_ok_dial:
  assumes ok: "network_ok cfg s" and now: "in_int64 (me_now me)" and m: "m = openConnection me (nw_machine s)"
  shows "network_ok cfg (s\<lparr>nw_machine := m, nw_hub := HandleWS e (nw_hub s), nw_conn := Some (h_next (nw_hub s)), nw_down := [],
      nw_up := map marshal_Envelope (m_wire m)\<rparr>)" (is "network_ok cfg ?t")
proof -
  have client: "client_ok cfg (m_net (nw_machine s))" using ok by (simp add: network_ok_def)
  then have "\<forall>env \<in> set (m_wire m). own_message (acfg_DeviceID cfg) env"
    using now by (auto simp: m openConnection_def authEnvelope_def clientEnvelope_def machine_env_def client_ok_def intro!: own_message_auth)
  then have "\<forall>env \<in> set (m_wire m). message_in {acfg_DeviceID cfg} (Some (marshal_Envelope env))" by (blast intro: own_message_in)
  from relay_ok_dial [OF _ this, where s = s and m = m and e = e] have r: "relay_ok (acfg_DeviceID cfg) ?t" "h_store (nw_hub ?t) = h_store (nw_hub s)"
    using ok by (simp_all add: network_ok_def)
  show ?thesis
    by (rule network_ok_around [OF ok r(1)])
       (use client r(2) in \<open>simp_all add: m openConnection_def authEnvelope_def clientEnvelope_def agent_part_def\<close>)
qed

lemma network_ok_serve:
  assumes ok: "network_ok cfg s" and now: "in_int64 (me_now me)"
  shows "network_ok cfg (s\<lparr>nw_machine := serveConnection me (nw_machine s) env\<rparr>)"
proof -
  have client: "client_ok cfg (m_net (nw_machine s))" using ok by (simp add: network_ok_def)
  show ?thesis
    by (rule network_ok_machine [OF ok])
       (use client now client_ok_acceptAck [of "machine_env me (nw_machine s)" "m_net (nw_machine s)" env _ cfg] in
         \<open>auto simp: serveConnection_def closeConnection_def setConnected_def machine_env_def split: sum.split\<close>)
qed

lemma network_ok_agent_writes:
  assumes ok: "network_ok cfg s"
  shows "network_ok cfg (s\<lparr>nw_machine := pumpOne b (nw_machine s),
      nw_up := nw_up s @ (if b then map marshal_Envelope (take 1 (nc_send (m_net (nw_machine s)))) else [])\<rparr>)" (is "network_ok cfg ?t")
proof -
  have client: "client_ok cfg (m_net (nw_machine s))" and relay: "relay_ok (acfg_DeviceID cfg) s" using ok by (simp_all add: network_ok_def)
  have "\<forall>env \<in> set (take 1 (nc_send (m_net (nw_machine s)))). own_message (acfg_DeviceID cfg) env"
    using client by (auto simp: client_ok_def dest: in_set_takeD)
  then have "relay_ok (acfg_DeviceID cfg) ?t" using relay own_message_in by (auto simp: relay_ok_def)
  moreover have "client_ok cfg (m_net (pumpOne b (nw_machine s)))" "nc_store (m_net (pumpOne b (nw_machine s))) = agent_db s"
    using client by (auto simp: pumpOne_def client_ok_def Let_def split: list.split)
  ultimately show ?thesis by (intro network_ok_around [OF ok]) (simp_all add: agent_part_def)
qed

lemma client_ok_upd: "client_ok cfg (m_net (nw_machine (upd_agent_db db s))) = client_ok cfg (m_net (nw_machine s))"
  by (simp add: upd_agent_db_def)

lemma network_ok_claims:
  assumes ok: "network_ok cfg s" and idle: "nw_running s = None" and claim: "ClaimNext (acfg_MaxAttempts cfg) (agent_db s) = (Some cmd, db)"
  shows "network_ok cfg (upd_agent_db db (s\<lparr>nw_running := Some cmd, nw_runs := nw_runs s @ [cmd]\<rparr>))"
proof -
  have "agent_ok (acfg_MaxAttempts cfg) \<lparr>as_db = db, as_running = Some cmd, as_runs = as_runs (agent_part s) @ [ac_CommandID cmd]\<rparr>"
    by (rule agent_ok_claim [of _ "agent_part s"]) (use ok idle claim in \<open>simp_all add: network_ok_def agent_part_def\<close>)
  then show ?thesis
    using ok rows_ok_claim [OF _ claim, of "origin_ok (acfg_DeviceID cfg) s"]
    by (auto simp: network_ok_def agent_part_def client_ok_upd)
qed

lemma network_ok_finishes:
  assumes ok: "network_ok cfg s" and running: "nw_running s = Some cmd" and now: "in_int64 (me_now me)"
  shows "network_ok cfg (s\<lparr>nw_machine := finish_machine cfg me we cmd (nw_machine s), nw_running := None\<rparr>)"
proof -
  let ?r = "process_claimed cfg we cmd (agent_db s)" and ?ne = "machine_env me (nw_machine s)"
  let ?nc = "(m_net (nw_machine s))\<lparr>nc_store := ro_db ?r\<rparr>"
  have "client_ok cfg ?nc" "in_int64 (n_now ?ne)" using ok now by (simp_all add: network_ok_def machine_env_def)
  from client_ok_reports [OF this, of "ro_reported ?r"]
  have m: "client_ok cfg (m_net (finish_machine cfg me we cmd (nw_machine s)))"
    "nc_store (m_net (finish_machine cfg me we cmd (nw_machine s))) = ro_db ?r"
    by (simp_all add: finish_machine_def Let_def)
  have "agent_ok (acfg_MaxAttempts cfg) ((agent_part s)\<lparr>as_db := ro_db ?r, as_running := None\<rparr>)"
    by (rule agent_ok_finish [where cmd = cmd])
       (use ok running process_claimed_effect [of cfg cmd "agent_db s" we] in \<open>simp_all add: network_ok_def agent_part_def\<close>)
  then show ?thesis
    using ok m rows_ok_writes(5) [of "origin_ok (acfg_DeviceID cfg) s" "agent_db s" cfg we cmd]
    by (simp add: network_ok_def agent_part_def)
qed

lemma network_ok_entered:
  assumes ok: "network_ok cfg s" and enq: "cmdEnqueue uuid now (agent_db s) words timeoutSec = Some (db, Inr i)" and fit: "in_int64 timeoutSec"
  shows "network_ok cfg (upd_agent_db db (s\<lparr>nw_entered := nw_entered s @ [(i, \<lparr>pl_Command = TrimSpace words, pl_TimeoutSec = timeoutSec\<rparr>)]\<rparr>))"
    (is "network_ok cfg (upd_agent_db db ?t)")
proof -
  let ?p = "\<lparr>pl_Command = TrimSpace words, pl_TimeoutSec = timeoutSec\<rparr>"
  have db: "i = uuid" "db = fst (Enqueue uuid now (agent_db s) ?p)"
    using enq by (auto simp: cmdEnqueue_def Enqueue_def split: if_splits option.splits)
  have up: "origin_ok dev s k j \<Longrightarrow> origin_ok dev ?t k j" for dev k j
    by (erule origin_ok_mono) auto
  have new: "origin_ok (acfg_DeviceID cfg) ?t uuid (Some (marshal_Payload ?p))"
    unfolding origin_ok_def by (rule exI [of _ ?p]) (use fit db in simp)
  have "rows_ok (origin_ok (acfg_DeviceID cfg) ?t) (agent_db s)"
    using ok up by (auto simp: network_ok_def rows_ok_def)
  from rows_ok_writes(2) [OF this new, of now] have "rows_ok (origin_ok (acfg_DeviceID cfg) ?t) db" by (simp add: db)
  moreover have "agent_ok (acfg_MaxAttempts cfg) ((agent_part s)\<lparr>as_db := db\<rparr>)"
    using agent_ok_enqueue [of "acfg_MaxAttempts cfg" "agent_part s" uuid now ?p] ok by (simp add: network_ok_def db agent_part_def)
  ultimately show ?thesis
    using ok up by (auto simp: network_ok_def agent_part_def client_ok_upd)
qed

lemma network_ok_restarts:
  assumes ok: "network_ok cfg s"
  shows "network_ok cfg (s\<lparr>nw_machine := start_machine (snd (RecoverStale (acfg_MaxAttempts cfg) (agent_db s))) cfg fs,
    nw_conn := None, nw_down := [], nw_up := [], nw_running := None\<rparr>)"
proof -
  have "agent_ok (acfg_MaxAttempts cfg) ((agent_part s)\<lparr>as_db := snd (RecoverStale (acfg_MaxAttempts cfg) (agent_db s)), as_running := None\<rparr>)"
    using agent_ok_restart [of "acfg_MaxAttempts cfg" "agent_part s"] ok by (simp add: network_ok_def agent_part_def)
  then show ?thesis
    using ok relay_ok_restart rows_ok_writes(4) [of "origin_ok (acfg_DeviceID cfg) s" "agent_db s"]
    by (simp add: network_ok_def agent_part_def start_machine_def NewNetClient_def client_ok_def)
qed

lemma network_step_ok:
  assumes "network_step cfg s t" and ok: "network_ok cfg s"
  shows "network_ok cfg t"
proof -
  have relay: "relay_ok (acfg_DeviceID cfg) s" and client: "client_ok cfg (m_net (nw_machine s))" using ok by (simp_all add: network_ok_def)
  show ?thesis
    using assms(1)
  proof cases
    case (others e ev h)
    with relay_ok_others [OF relay others(2-4)] show ?thesis by (intro network_ok_hub [OF ok]) auto
  next
    case (request v rq r h sent)
    with relay_ok_any_step [OF relay any_request [OF request(2,3)]] show ?thesis by (intro network_ok_hub [OF ok]) auto
  next
    case (relay_reads e c j rest h)
    with relay_ok_reads [OF relay relay_reads(2-5)] show ?thesis by (intro network_ok_hub [OF ok]) auto
  next
    case (relay_writes c env h)
    with relay_ok_writes [OF relay relay_writes(2,3)] show ?thesis by (intro network_ok_hub [OF ok]) auto
  next
    case (handshake me j rest env)
    have "network_ok cfg (s\<lparr>nw_machine := serveConnection me (nw_machine s) env\<rparr>)" by (rule network_ok_serve [OF ok handshake(3)])
    then show ?thesis
      by (rule network_ok_hub) (use relay handshake in \<open>simp_all add: relay_ok_def\<close>)
  next
    case (heartbeats me)
    have "client_ok cfg (m_net (heartbeat me (nw_machine s)))" "nc_store (m_net (heartbeat me (nw_machine s))) = agent_db s"
      using client heartbeats(3) client_ok_sendNew(1) [OF client, of "machine_env me (nw_machine s)"]
      by (auto simp: heartbeat_def heartbeatTick_def sendHeartbeat_def sendNew_def clientEnvelope_def NSend_def machine_env_def)
    then show ?thesis unfolding heartbeats(1) by (rule network_ok_machine [OF ok])
  next
    case lost
    have "client_ok cfg (m_net (closeConnection (nw_machine s)))" "nc_store (m_net (closeConnection (nw_machine s))) = agent_db s"
      using client by (simp_all add: closeConnection_def setConnected_def)
    then show ?thesis unfolding lost by (rule network_ok_machine [OF ok])
  qed (use ok in \<open>simp_all add: network_ok_dial network_ok_agent_reads network_ok_agent_writes network_ok_claims network_ok_finishes
      network_ok_entered network_ok_restarts\<close>)
qed

lemma network_init_ok: "network_init cfg s \<Longrightarrow> network_ok cfg s"
  by (auto simp: network_init_def network_ok_def relay_ok_def agent_part_def start_machine_def NewNetClient_def client_ok_def
      rows_ok_def agent_ok_def command_ids_def running_id_def empty_agent_db_def NewHub_def newClient_def hub_typed_def)

interpretation whole_network: invariant_system "network_init cfg" "network_step cfg" "network_ok cfg" for cfg
  by unfold_locales (auto intro: network_init_ok network_step_ok)

section \<open>Where commands come from\<close>

text \<open>The process that \<open>RunOnce\<close> starts for a claimed command, with its time limit; none when the payload does not decode.\<close>

definition launched :: "AConfig \<Rightarrow> Command \<Rightarrow> (string list \<times> int) option" where
  "launched cfg cmd =
     (let (derr, p) = Decode cmd in
      if derr then None
      else Some (powershell_argv (NewPowerShell (acfg_ExecPolicy cfg)) (pl_Command p), exec_timeout cfg p))"

lemma only_launched:
  assumes "\<And>argv t. launched cfg cmd = Some (argv, t) \<Longrightarrow> f argv t = w_proc we argv t"
  shows "process_claimed cfg (we\<lparr>w_proc := f\<rparr>) cmd db = process_claimed cfg we cmd db"
  using assms
  by (auto simp: process_claimed_def launched_def Run_def invalid_payload_result_def exec_result_def Let_def
      split: prod.splits option.splits)

lemma Decode_payload:
  "ac_Payload cmd = Some (marshal_Payload p) \<Longrightarrow> in_int64 (pl_TimeoutSec p) \<Longrightarrow> Decode cmd = (False, p)"
  by (simp add: Decode_def marshal_Payload_def unmarshal_Payload_def zero_Payload_def struct_simps)

text \<open>
  C3. Where commands come from, over the whole network: whatever other clients and users of the web interface do, however
  often connections break and the agent restarts, every PowerShell process that the agent starts runs, word for word and with the
  time limit asked for, a command that is in the relay's queue under the same identifier and for this device (up to the
  case of letters), or one that was entered on the machine itself; and no identifier is run more than \<open>MaxAttempts\<close> times.
\<close>

theorem command_provenance:
  assumes "reach (network_init cfg) (network_step cfg) s" and "cmd \<in> set (nw_runs s)"
  shows "\<exists>p. launched cfg cmd = Some (powershell_argv (NewPowerShell (acfg_ExecPolicy cfg)) (pl_Command p), exec_timeout cfg p)
    \<and> ((ac_CommandID cmd, p) \<in> set (nw_entered s)
       \<or> asked_for (acfg_DeviceID cfg) (h_store (nw_hub s)) (ac_CommandID cmd) p)
    \<and> int (count_list (map ac_CommandID (nw_runs s)) (ac_CommandID cmd)) \<le> max 0 (acfg_MaxAttempts cfg)"
proof -
  have ok: "network_ok cfg s" by (rule whole_network.reach_inv [OF assms(1)])
  then obtain p where p: "ac_Payload cmd = Some (marshal_Payload p)" "in_int64 (pl_TimeoutSec p)"
      "(ac_CommandID cmd, p) \<in> set (nw_entered s) \<or> asked_for (acfg_DeviceID cfg) (h_store (nw_hub s)) (ac_CommandID cmd) p"
    using assms(2) by (force simp: network_ok_def origin_ok_def)
  have agent: "agent_ok (acfg_MaxAttempts cfg) (agent_part s)" using ok by (simp add: network_ok_def)
  then obtain c where "c \<in> set (CommandQueue (agent_db s))" "ac_CommandID c = ac_CommandID cmd"
    using assms(2) by (auto simp: agent_ok_def agent_part_def command_ids_def)
  then have "int (count_list (map ac_CommandID (nw_runs s)) (ac_CommandID cmd)) \<le> max 0 (acfg_MaxAttempts cfg)"
    using agent by (auto simp: agent_ok_def row_ok_def agent_part_def)
  moreover have "launched cfg cmd = Some (powershell_argv (NewPowerShell (acfg_ExecPolicy cfg)) (pl_Command p), exec_timeout cfg p)"
    using Decode_payload [OF p(1,2)] by (simp add: launched_def)
  ultimately show ?thesis using p(3) by blast
qed

section \<open>A concrete run\<close>

text \<open>
  The agent connects and is accepted, a command is posted at the relay, written to the agent, read and claimed. The states of
  the relay are computed; \<open>sample_auth\<close> is what the agent writes first.
\<close>

definition sample_auth :: Envelope where
  "sample_auth = NewEnvelope ''u'' 7 TypeAuth ''pc1'' (Some (marshal_AuthPayload \<lparr>ap_Role = RoleAgent, ap_DeviceID = ''pc1'',
     ap_Token = ''secret'', ap_Hostname = ''host'', ap_OS = ''windows/amd64'', ap_Version = ''1.0.0'',
     ap_MACAddress = ''01:02:03:04:05:FF''\<rparr>))"

definition sample_events :: "hub_event list" where
  "sample_events = [Connect, Message 0 (Some (marshal_Envelope sample_auth)), WriteOut 0, Direct sample_ping]"

definition sample_relay :: "nat \<Rightarrow> Hub" where
  \<comment> \<open>the relay after the first \<open>n\<close> of these events\<close>
  "sample_relay n = (case hub_run sample_env (NewHub empty_db sample_cfg) (take n sample_events) of Ret h \<Rightarrow> h)"

lemma hub_run_append: "hub_run e h (xs @ ys) = andThen (hub_run e h xs) (\<lambda>h. hub_run e h ys)"
proof (induction xs arbitrary: h)
  case (Cons x xs)
  then show ?case by (cases "hub_handle e h x") simp_all
qed simp

lemma sample_relay_runs: "hub_run sample_env (NewHub empty_db sample_cfg) (take n sample_events) = Ret (sample_relay n)"
proof -
  have "panic_of (hub_run sample_env (NewHub empty_db sample_cfg) sample_events) = None" by code_simp
  then obtain h where "hub_run sample_env (NewHub empty_db sample_cfg) (take n sample_events @ drop n sample_events) = Ret h"
    by (cases "hub_run sample_env (NewHub empty_db sample_cfg) sample_events") auto
  then show ?thesis unfolding hub_run_append sample_relay_def by (auto simp: andThen_Ret_iff)
qed

lemma sample_relay_step:
  "n < length sample_events \<Longrightarrow> hub_handle sample_env (sample_relay n) (sample_events ! n) = Ret (sample_relay (Suc n))"
  using sample_relay_runs [of "Suc n"] sample_relay_runs [of n]
  by (simp add: take_Suc_conv_app_nth hub_run_append andThen_Ret_iff)

lemma sample_mac: "fst (GetPrimaryMACAddress (sample_he 3 8 2) start_health) = ''01:02:03:04:05:FF''"
  by code_simp

definition sample_machine :: Machine where
  "sample_machine = openConnection sample_me (start_machine empty_agent_db relay_acfg [])"

lemma sample_machine_facts:
  "m_phase sample_machine = Handshaking" "nc_store (m_net sample_machine) = empty_agent_db" "m_wire sample_machine = [sample_auth]"
  using sample_mac
  by (simp_all add: sample_machine_def openConnection_def start_machine_def NewNetClient_def authEnvelope_def clientEnvelope_def
      machine_env_def sample_me_def sample_auth_def relay_acfg_def Let_def)

definition network_at :: "Hub \<Rightarrow> Machine \<Rightarrow> json list \<Rightarrow> json list \<Rightarrow> Network" where
  "network_at h m down up = \<lparr>nw_hub = h, nw_machine = m, nw_conn = Some 0, nw_down = down, nw_up = up, nw_running = None, nw_runs = [],
     nw_entered = []\<rparr>"

abbreviation sample_reach :: "Network \<Rightarrow> bool" where
  "sample_reach \<equiv> reach (network_init relay_acfg) (network_step relay_acfg)"

lemma sample_me_fit: "in_int64 (me_now sample_me)"
  by (simp add: sample_me_def in_int64_def)

lemma sample_dialled: "sample_reach (network_at (sample_relay 1) sample_machine [] [marshal_Envelope sample_auth])"
proof -
  let ?s = "\<lparr>nw_hub = NewHub empty_db sample_cfg, nw_machine = start_machine empty_agent_db relay_acfg [], nw_conn = None, nw_down = [],
    nw_up = [], nw_running = None, nw_runs = [], nw_entered = []\<rparr>"
  have "network_init relay_acfg ?s"
    unfolding network_init_def
    by (rule exI [of _ empty_db], rule exI [of _ sample_cfg], rule exI [of _ "[]"]) (simp add: db_typed_def empty_db_def)
  then have "sample_reach ?s" by (rule reach_init)
  moreover have hub: "sample_relay 1 = HandleWS sample_env (NewHub empty_db sample_cfg)"
    using sample_relay_runs [of 1] by (simp add: sample_events_def hub_handle_def)
  have "network_step relay_acfg ?s (?s\<lparr>nw_machine := sample_machine, nw_hub := HandleWS sample_env (nw_hub ?s),
      nw_conn := Some (h_next (nw_hub ?s)), nw_down := [], nw_up := map marshal_Envelope (m_wire sample_machine)\<rparr>)"
    by (rule dial [OF _ _ sample_me_fit sample_env_typed])
       (simp_all add: sample_machine_def relay_acfg_def start_machine_def)
  ultimately have "sample_reach (?s\<lparr>nw_machine := sample_machine, nw_hub := HandleWS sample_env (nw_hub ?s),
      nw_conn := Some (h_next (nw_hub ?s)), nw_down := [], nw_up := map marshal_Envelope (m_wire sample_machine)\<rparr>)"
    by (rule reach_step)
  moreover have "h_next (NewHub empty_db sample_cfg) = 0" by (simp add: NewHub_def)
  ultimately show ?thesis unfolding network_at_def hub by (simp add: sample_machine_facts)
qed

definition sample_ack :: Envelope where
  "sample_ack = hd (c_send (h_clients (sample_relay 2) 0))"

lemma sample_ack_accepted:
  "writeNext (sample_relay 2) 0 = Some (sample_ack, sample_relay 3)"
  "unmarshal_Envelope (marshal_Envelope sample_ack) zero_Envelope = (False, sample_ack)"
  "\<exists>a. DecodePayload unmarshal_AuthAckPayload sample_ack zero_AuthAckPayload = (False, a) \<and> aa_Success a"
proof -
  have len: "length (c_send (h_clients (sample_relay 2) 0)) = 1" by code_simp
  then show "writeNext (sample_relay 2) 0 = Some (sample_ack, sample_relay 3)"
    using sample_relay_step [of 2]
    by (cases "c_send (h_clients (sample_relay 2) 0)")
       (simp_all add: sample_events_def hub_handle_def writeNext_def sample_ack_def numeral_eq_Suc)
  show "unmarshal_Envelope (marshal_Envelope sample_ack) zero_Envelope = (False, sample_ack)"
    by (rule Envelope_codec.dec_enc) code_simp
  have "fst (DecodePayload unmarshal_AuthAckPayload sample_ack zero_AuthAckPayload) = False
      \<and> aa_Success (snd (DecodePayload unmarshal_AuthAckPayload sample_ack zero_AuthAckPayload))"
    by code_simp
  then show "\<exists>a. DecodePayload unmarshal_AuthAckPayload sample_ack zero_AuthAckPayload = (False, a) \<and> aa_Success a"
    by (cases "DecodePayload unmarshal_AuthAckPayload sample_ack zero_AuthAckPayload") simp
qed

definition sample_serving :: Machine where
  "sample_serving = serveConnection sample_me sample_machine sample_ack"

lemma sample_serving_facts: "m_phase sample_serving = Serving" "nc_store (m_net sample_serving) = empty_agent_db"
  using sample_ack_accepted(3) sample_machine_facts
  by (auto simp: sample_serving_def serveConnection_def acceptAck_def performSync_def sendHeartbeat_def sendNew_def clientEnvelope_def
      NSend_def Let_def)

lemma sample_connected_network: "sample_reach (network_at (sample_relay 4) sample_serving [] [])"
proof -
  note step = reach_step [where init = "network_init relay_acfg" and step = "network_step relay_acfg"]
  have "network_step relay_acfg (network_at (sample_relay 1) sample_machine [] [marshal_Envelope sample_auth])
      (network_at (sample_relay 2) sample_machine [] [])"
    using relay_reads [OF sample_env_typed, of "network_at (sample_relay 1) sample_machine [] [marshal_Envelope sample_auth]" 0]
      sample_relay_step [of 1] by (simp add: network_at_def sample_events_def numeral_eq_Suc)
  note r2 = step [OF sample_dialled this]
  have "network_step relay_acfg (network_at (sample_relay 2) sample_machine [] [])
      (network_at (sample_relay 3) sample_machine [marshal_Envelope sample_ack] [])"
    using relay_writes [of "network_at (sample_relay 2) sample_machine [] []" 0] sample_ack_accepted(1) by (simp add: network_at_def)
  note r3 = step [OF r2 this]
  have "network_step relay_acfg (network_at (sample_relay 3) sample_machine [marshal_Envelope sample_ack] [])
      (network_at (sample_relay 3) sample_serving [] [])"
    using handshake [of "network_at (sample_relay 3) sample_machine [marshal_Envelope sample_ack] []", OF _ sample_me_fit]
      sample_ack_accepted(2) sample_machine_facts(1) by (simp add: network_at_def readEnvelope_def sample_serving_def)
  note r4 = step [OF r3 this]
  have "network_step relay_acfg (network_at (sample_relay 3) sample_serving [] []) (network_at (sample_relay 4) sample_serving [] [])"
    using others [OF sample_env_typed, of "network_at (sample_relay 3) sample_serving [] []" "Direct sample_ping"] sample_relay_step [of 3]
    by (simp add: network_at_def foreign_def sample_events_def numeral_eq_Suc valid_CommandPayload_def sample_ping_def in_int64_def)
  then show ?thesis by (rule step [OF r4])
qed

definition sample_dispatch :: Envelope where
  "sample_dispatch = hd (c_send (h_clients (sample_relay 4) 0))"

lemma sample_dispatch_delivers:
  "\<exists>h. writeNext (sample_relay 4) 0 = Some (sample_dispatch, h)"
  "unmarshal_Envelope (marshal_Envelope sample_dispatch) zero_Envelope = (False, sample_dispatch)"
  "delivers sample_dispatch (sample_ping\<lparr>cp_CreatedAt := 1000\<rparr>)"
proof -
  have len: "length (c_send (h_clients (sample_relay 4) 0)) = 1" by code_simp
  then show "\<exists>h. writeNext (sample_relay 4) 0 = Some (sample_dispatch, h)"
    by (cases "c_send (h_clients (sample_relay 4) 0)") (simp_all add: writeNext_def sample_dispatch_def)
  show "unmarshal_Envelope (marshal_Envelope sample_dispatch) zero_Envelope = (False, sample_dispatch)"
    by (rule Envelope_codec.dec_enc) code_simp
  show "delivers sample_dispatch (sample_ping\<lparr>cp_CreatedAt := 1000\<rparr>)" by code_simp
qed

theorem command_provenance_witness:
  "\<exists>s cmd p. sample_reach s \<and> nw_runs s = [cmd] \<and> ac_CommandID cmd = ''c1'' \<and> nw_entered s = []
     \<and> launched relay_acfg cmd = Some (powershell_argv (NewPowerShell (acfg_ExecPolicy relay_acfg)) (pl_Command p), exec_timeout relay_acfg p)
     \<and> asked_for ''pc1'' (h_store (nw_hub s)) ''c1'' p"
proof -
  note step = reach_step [where init = "network_init relay_acfg" and step = "network_step relay_acfg"]
  let ?cmd = "sample_ping\<lparr>cp_CreatedAt := 1000\<rparr>" and ?ne = "machine_env sample_me sample_serving"
  let ?db = "enqueue_command ?ne ?cmd empty_agent_db"
  obtain h where h: "writeNext (sample_relay 4) 0 = Some (sample_dispatch, h)" using sample_dispatch_delivers(1) by blast
  have "network_step relay_acfg (network_at (sample_relay 4) sample_serving [] []) (network_at h sample_serving [marshal_Envelope sample_dispatch] [])"
    using relay_writes [of "network_at (sample_relay 4) sample_serving [] []" 0] h by (simp add: network_at_def)
  note r5 = step [OF sample_connected_network this]
  obtain m where m: "receive sample_me sample_serving sample_dispatch = Ret m" "nc_store (m_net m) = ?db"
    using handleIncoming_delivers [OF sample_dispatch_delivers(3)] sample_dispatch_delivers(3) sample_serving_facts(2)
    by (simp add: receive_def screen_panics_def delivers_def Let_def)
  have "network_step relay_acfg (network_at h sample_serving [marshal_Envelope sample_dispatch] []) (network_at h m [] [])"
    using agent_reads [of "network_at h sample_serving [marshal_Envelope sample_dispatch] []", OF _ sample_me_fit] m(1)
      sample_dispatch_delivers(2) sample_serving_facts(1) by (simp add: network_at_def readEnvelope_def)
  note r6 = step [OF r5 this]
  have "acfg_MaxAttempts relay_acfg = 3" by (simp add: relay_acfg_def sample_acfg_def)
  then obtain cmd db where claim: "ClaimNext (acfg_MaxAttempts relay_acfg) ?db = (Some cmd, db)" "ac_CommandID cmd = ''c1''"
    by (simp add: ClaimNext_def enqueue_command_def EnqueueWithID_def agent_lookup_def select_pk_def empty_agent_db_def
        claimable_def pending_row_def sample_ping_def Let_def)
  let ?s = "upd_agent_db db ((network_at h m [] [])\<lparr>nw_running := Some cmd, nw_runs := [cmd]\<rparr>)"
  have "network_step relay_acfg (network_at h m [] []) ?s"
    using claims [of "network_at h m [] []" relay_acfg cmd db] claim(1) m(2) by (simp add: network_at_def)
  then have r: "sample_reach ?s" by (rule step [OF r6])
  have runs: "nw_runs ?s = [cmd]" "nw_entered ?s = []" by (simp_all add: network_at_def)
  have dev: "acfg_DeviceID relay_acfg = ''pc1''" by (simp add: relay_acfg_def)
  from command_provenance [OF r, of cmd] obtain p where
    "launched relay_acfg cmd = Some (powershell_argv (NewPowerShell (acfg_ExecPolicy relay_acfg)) (pl_Command p), exec_timeout relay_acfg p)"
    "asked_for ''pc1'' (h_store (nw_hub ?s)) ''c1'' p"
    unfolding runs dev claim(2) by auto
  then show ?thesis using r runs claim(2) by blast
qed

end
