(* ===== verification/RoundTrip.thy ===== *)
theory RoundTrip
  imports Network
begin

text \<open>
  The way of one command through the whole system, step by step over the definitions of both programs: entered by a controller,
  stored and dispatched by the relay, queued, claimed and executed by the agent, reported, stored and forwarded by the
  relay, acknowledged, and marked as synced on the agent.
\<close>

section \<open>The agent's part\<close>

text \<open>A message is handled, the worker takes one command, and its callback reports what it has to report.\<close>

definition agent_turn :: "NEnv \<Rightarrow> WEnv \<Rightarrow> NetClient \<Rightarrow> Envelope \<Rightarrow> NetClient" where
  "agent_turn ne we nc env =
     (let nc = handleIncoming ne nc env; r = RunOnce (nc_cfg nc) we (nc_store nc)
      in fold (\<lambda>res nc. ReportResult ne nc res) (ro_reported r) (nc\<lparr>nc_store := ro_db r\<rparr>))"

lemma claim_delivered:
  assumes "AGetCommand db i = None" and "\<forall>c \<in> set (CommandQueue db). \<not> claimable m c" and "0 < m"
  shows "ClaimNext m (EnqueueWithID now db i p) = (Some ((pending_row now i p)\<lparr>ac_Status := AStatusExecuting, ac_Attempts := 1\<rparr>),
    db\<lparr>CommandQueue := CommandQueue db @ [(pending_row now i p)\<lparr>ac_Status := AStatusExecuting, ac_Attempts := 1\<rparr>]\<rparr>)"
proof -
  let ?row = "pending_row now i p" and ?hit = "\<lambda>r. ac_CommandID r = i \<and> ac_Status r = AStatusPending"
  have "\<forall>c \<in> set (CommandQueue db). ac_CommandID c \<noteq> i"
    using assms(1) by (simp add: AGetCommand_def agent_lookup_def select_pk_None_iff) blast
  then have "update_rows ?hit f (CommandQueue db) = CommandQueue db" "filter ?hit (CommandQueue db) = []" for f
    by (auto simp: update_rows_none filter_empty_conv)
  moreover have "filter (claimable m) (CommandQueue db @ [?row]) = [?row]"
    using assms(2,3) by (simp add: filter_empty_conv) (simp add: claimable_def pending_row_def)
  ultimately show ?thesis
    using assms(1) by (simp add: ClaimNext_def EnqueueWithID_def AGetCommand_def Let_def) (simp add: pending_row_def update_rows_def)
qed

lemma run_delivered:
  assumes idle: "AGetCommand db i = None" "\<forall>c \<in> set (CommandQueue db). \<not> claimable (acfg_MaxAttempts cfg) c" "0 < acfg_MaxAttempts cfg"
    and fresh: "w_uuid we \<notin> ar_ResultID ` set (ResultQueue db)" and fit: "in_int64 (pl_TimeoutSec p)"
    and x: "x = Run we (NewPowerShell (acfg_ExecPolicy cfg)) (pl_Command p) (exec_timeout cfg p)" "x_ExitCode x = 0"
    and row: "row = (pending_row now i p)\<lparr>ac_Status := AStatusExecuting, ac_Attempts := 1\<rparr>"
  shows "RunOnce cfg we (EnqueueWithID now db i p) = \<lparr>ro_didWork = True, ro_err = None,
      ro_db = db\<lparr>CommandQueue := CommandQueue db @ [row\<lparr>ac_Status := AStatusCompleted\<rparr>],
        ResultQueue := ResultQueue db @ [(exec_result we row x)\<lparr>ar_ResultID := w_uuid we\<rparr>]\<rparr>,
      ro_reported = [exec_result we row x]\<rparr>"
proof -
  let ?db = "db\<lparr>CommandQueue := CommandQueue db @ [row]\<rparr>"
  have other: "\<forall>c \<in> set (CommandQueue db). ac_CommandID c \<noteq> i"
    using idle(1) by (simp add: AGetCommand_def agent_lookup_def select_pk_None_iff) blast
  have id: "ac_CommandID row = i" "Decode row = (False, p)"
    using Decode_payload [of row p] fit by (simp_all add: row pending_row_def)
  have "agent_lookup ?db (ac_CommandID row) \<noteq> None" by (simp add: agent_lookup_def select_pk_append id(1) split: option.split)
  from process_claimed_exact [OF this _ id(2) x(1) refl] show ?thesis
    using claim_delivered [OF idle, of now p] fresh other x(2)
    by (simp add: RunOnce_def row [symmetric] id(1)) (simp add: update_rows_def map_idI id(1))
qed

definition report_of :: "NetClient \<Rightarrow> WEnv \<Rightarrow> string \<Rightarrow> ExecResult \<Rightarrow> ResultPayload" where
  "report_of nc we i x = \<lparr>rp_ResultID = '''', rp_CommandID = i, rp_DeviceID = acfg_DeviceID (nc_cfg nc), rp_Stdout = x_Stdout x,
     rp_Stderr = x_Stderr x, rp_ExitCode = x_ExitCode x, rp_ExecutedAt = w_now we, rp_DurationMs = 0, rp_TimedOut = False\<rparr>"

lemma agent_turn_delivered:
  assumes del: "delivers env cmd" and fit: "valid_CommandPayload cmd"
    and idle: "AGetCommand (nc_store nc) (cp_CommandID cmd) = None"
      "\<forall>c \<in> set (CommandQueue (nc_store nc)). \<not> claimable (acfg_MaxAttempts (nc_cfg nc)) c" "0 < acfg_MaxAttempts (nc_cfg nc)"
    and fresh: "w_uuid we \<notin> ar_ResultID ` set (ResultQueue (nc_store nc))" and room: "nc_send nc = []"
    and x: "x = Run we (NewPowerShell (acfg_ExecPolicy (nc_cfg nc))) (cp_Command cmd)
        (exec_timeout (nc_cfg nc) \<lparr>pl_Command = cp_Command cmd, pl_TimeoutSec = cp_TimeoutSec cmd\<rparr>)" "x_ExitCode x = 0"
  shows "\<exists>u. nc_send (agent_turn ne we nc env) = [NewEnvelope u (n_now ne) TypeCmdResult (acfg_DeviceID (nc_cfg nc))
      (Some (marshal_ResultPayload (report_of nc we (cp_CommandID cmd) x)))]"
    and "map_option ac_Status (AGetCommand (nc_store (agent_turn ne we nc env)) (cp_CommandID cmd)) = Some AStatusCompleted"
    and "\<exists>r. ResultQueue (nc_store (agent_turn ne we nc env)) = ResultQueue (nc_store nc) @ [r] \<and> ar_CommandID r = cp_CommandID cmd
      \<and> ar_Stdout r = x_Stdout x \<and> \<not> ar_Synced r"
proof -
  let ?p = "\<lparr>pl_Command = cp_Command cmd, pl_TimeoutSec = cp_TimeoutSec cmd\<rparr>"
  define row where "row = (pending_row (n_now ne) (cp_CommandID cmd) ?p)\<lparr>ac_Status := AStatusExecuting, ac_Attempts := 1\<rparr>"
  note inc = handleIncoming_delivers [OF del, of ne nc]
  have run: "RunOnce (nc_cfg nc) we (enqueue_command ne cmd (nc_store nc)) = \<lparr>ro_didWork = True, ro_err = None,
      ro_db = (nc_store nc)\<lparr>CommandQueue := CommandQueue (nc_store nc) @ [row\<lparr>ac_Status := AStatusCompleted\<rparr>],
        ResultQueue := ResultQueue (nc_store nc) @ [(exec_result we row x)\<lparr>ar_ResultID := w_uuid we\<rparr>]\<rparr>,
      ro_reported = [exec_result we row x]\<rparr>"
    unfolding enqueue_command_def
    by (rule run_delivered [OF idle fresh]) (use fit x in \<open>simp_all add: valid_CommandPayload_def row_def\<close>)
  have id: "ac_CommandID row = cp_CommandID cmd" by (simp add: row_def pending_row_def)
  show "\<exists>u. nc_send (agent_turn ne we nc env) = [NewEnvelope u (n_now ne) TypeCmdResult (acfg_DeviceID (nc_cfg nc))
      (Some (marshal_ResultPayload (report_of nc we (cp_CommandID cmd) x)))]"
    by (rule exI [of _ "n_uuid ne (nc_uuids nc)"])
       (simp add: agent_turn_def inc run ReportResult_def sendNew_def clientEnvelope_def NSend_def client_capacity_def room
        result_payload_def report_of_def exec_result_def id)
  show "map_option ac_Status (AGetCommand (nc_store (agent_turn ne we nc env)) (cp_CommandID cmd)) = Some AStatusCompleted"
    using idle(1)
    by (simp add: agent_turn_def inc run ReportResult_def sendNew_def clientEnvelope_def NSend_def AGetCommand_def agent_lookup_def
        select_pk_append id)
  show "\<exists>r. ResultQueue (nc_store (agent_turn ne we nc env)) = ResultQueue (nc_store nc) @ [r] \<and> ar_CommandID r = cp_CommandID cmd
      \<and> ar_Stdout r = x_Stdout x \<and> \<not> ar_Synced r"
    by (simp add: agent_turn_def inc run ReportResult_def sendNew_def clientEnvelope_def NSend_def exec_result_def id)
qed

section \<open>The whole way\<close>

lemma readEnvelope_new: "in_int64 now \<Longrightarrow> readEnvelope (marshal_Envelope (NewEnvelope u now t d p)) = Some (NewEnvelope u now t d p)"
proof -
  assume "in_int64 now"
  then have "valid_Envelope (NewEnvelope u now t d p)" by (simp add: valid_Envelope_def NewEnvelope_def)
  then show ?thesis by (simp add: readEnvelope_def Envelope_codec.dec_enc)
qed

lemma readMessage_envelope: "readEnvelope (marshal_Envelope env) = Some env \<Longrightarrow> readMessage e h c (Some (marshal_Envelope env)) = handleMessage e h c env"
  by (auto simp: readEnvelope_def readMessage_def split: prod.splits if_splits)

text \<open>The relay's part: the first result of a stored command arrives on the agent's connection.\<close>

lemma result_arrives:
  assumes opn: "\<forall>x \<in> set (h_controllers h). \<not> c_closed (h_clients h x)" "distinct (h_controllers h)" "\<not> c_closed (h_clients h a)"
      "a \<notin> set (h_controllers h)" "c_send (h_clients h a) = []"
    and env: "env = NewEnvelope u now TypeCmdResult d (Some (marshal_ResultPayload res))" and fit: "valid_ResultPayload res" "in_int64 (unix_now e)"
    and first: "GetResult (h_store h) (rp_CommandID res) = None"
      "select_pk rr_ResultId (rp_ResultID (stored_result (unix_now e) res)) (CloudResultQueue (h_store h)) = None"
      "GetCommand (h_store h) (rp_CommandID res) = Some r"
  shows "\<exists>h' ack. handleMessage e h a env = Ret h' \<and> c_send (h_clients h' a) = [ack] \<and> readEnvelope (marshal_Envelope ack) = Some ack
    \<and> env_Type ack = TypeResultAck
    \<and> DecodePayload unmarshal_ResultAckPayload ack zero_ResultAckPayload =
        (False, \<lparr>ra_CommandID = rp_CommandID res, ra_ResultID = rp_ResultID res, ra_Success = True\<rparr>)
    \<and> (\<forall>x \<in> set (h_controllers h). h_clients h' x = push env (h_clients h x))
    \<and> GetResult (h_store h') (rp_CommandID res) = Some (stored_result (unix_now e) res)
    \<and> map_option cr_Status (GetCommand (h_store h') (rp_CommandID res)) = Some (final_status res)"
proof -
  have type: "env_Type env = TypeCmdResult" by (simp add: env NewEnvelope_def)
  have "DecodePayload unmarshal_ResultPayload env zero_ResultPayload = (False, res)"
    unfolding env by (rule cmd_result.DecodePayload_NewEnvelope [OF fit(1)])
  from handleCmdResult_effect [OF opn(1-4) type this, of e] obtain h' ack where run: "handleMessage e h a env = Ret h'"
    and cl: "h_clients h' = (\<lambda>x. if x = a then push ack (h_clients h x)
         else if x \<in> set (h_controllers h) then push env (h_clients h x) else h_clients h x)"
    and ack: "DecodePayload unmarshal_ResultAckPayload ack zero_ResultAckPayload =
        (False, \<lparr>ra_CommandID = rp_CommandID res, ra_ResultID = rp_ResultID res, ra_Success = True\<rparr>)"
      "\<exists>u d p. ack = NewEnvelope u (unix_now e) TypeResultAck d p"
    and tables: "CloudResultQueue (h_store h') = CloudResultQueue (fst (SaveResult (unix_now e) (h_store h) res))"
      "CloudCommandQueue (h_store h') = CloudCommandQueue (fst (SaveResult (unix_now e) (h_store h) res))"
    by blast
  have same: "GetResult (h_store h') i = GetResult (fst (SaveResult (unix_now e) (h_store h) res)) i"
    "GetCommand (h_store h') i = GetCommand (fst (SaveResult (unix_now e) (h_store h) res)) i" for i
    by (simp_all add: GetResult_def GetCommand_def tables)
  have "readEnvelope (marshal_Envelope ack) = Some ack" "env_Type ack = TypeResultAck"
    using ack(2) fit(2) by (auto simp: readEnvelope_new) (simp add: NewEnvelope_def)
  moreover have "c_send (h_clients h' a) = [ack]" using opn(5) by (simp add: cl push_def send_capacity_def)
  moreover have "\<forall>x \<in> set (h_controllers h). h_clients h' x = push env (h_clients h x)" using opn(4) by (auto simp: cl)
  moreover have "GetResult (h_store h') (rp_CommandID res) = Some (stored_result (unix_now e) res)"
    "map_option cr_Status (GetCommand (h_store h') (rp_CommandID res)) = Some (final_status res)"
    using save_result_readback [OF first] by (simp_all add: same final_status_def)
  ultimately show ?thesis using run ack(1) by blast
qed

lemma enqueue_leaves:
  assumes relay: "reg_ok h" "env_Type env = TypeEnqueueCmd"
      "DecodePayload unmarshal_CommandPayload env zero_CommandPayload = (False, p)" "\<not> not_owner h c (cp_DeviceID p)"
    and cmd: "cmd = fst (complete_command e h p)" and new: "GetCommand (h_store h) (cp_CommandID cmd) = None"
    and agent: "getAgentClient h (cp_DeviceID p) = Some a" "c_send (h_clients h a) = []"
  obtains h1 h2 u where "handleMessage e h c env = Ret h1"
    and "writeNext h1 a = Some (NewEnvelope u (unix_now e) TypeDispatchCmd (c_deviceID (h_clients h a)) (Some (marshal_CommandPayload cmd)), h2)"
    and "h_store h2 = fst (MarkCommandDispatched (unix_now e) (fst (EnqueueCommand (unix_now e) (h_store h) cmd)) (cp_CommandID cmd))"
    and "h_controllers h2 = h_controllers h" and "\<forall>x \<in> set (h_controllers h2). \<not> c_closed (h_clients h2 x)"
    and "distinct (h_controllers h2)" and "\<not> c_closed (h_clients h2 a)" and "a \<notin> set (h_controllers h2)"
    and "c_send (h_clients h2 a) = []"
proof -
  obtain h1 u where h1: "handleMessage e h c env = Ret h1"
      "h_store h1 = fst (MarkCommandDispatched (unix_now e) (fst (EnqueueCommand (unix_now e) (h_store h) cmd)) (cp_CommandID cmd))"
      "h_clients h1 a = push (NewEnvelope u (unix_now e) TypeDispatchCmd (c_deviceID (h_clients h a)) (Some (marshal_CommandPayload cmd)))
        (h_clients h a)" "h_controllers h1 = h_controllers h" "\<And>x. c_closed (h_clients h1 x) = c_closed (h_clients h x)"
    using enqueue_online_run [OF relay cmd new agent(1)] by metis
  let ?h2 = "upd_client a (\<lambda>cl. cl\<lparr>c_send := []\<rparr>) h1"
  have "c_send (h_clients h1 a) = [NewEnvelope u (unix_now e) TypeDispatchCmd (c_deviceID (h_clients h a)) (Some (marshal_CommandPayload cmd))]"
    using agent(2) h1(3) by (simp add: push_def send_capacity_def)
  then show thesis
    using that [of h1 u ?h2] h1(1,2,4,5) controllers_open [OF relay(1), of "\<lambda>_. True"] agent_not_controller [OF relay(1) agent(1)]
    by (simp add: writeNext_def upd_client_def)
qed

lemma dispatched_in_store:
  assumes "GetCommand db (cp_CommandID cmd) = None" "GetResult db (cp_CommandID cmd) = None"
    "select_pk rr_ResultId (cp_CommandID cmd) (CloudResultQueue db) = None"
    and "db' = fst (MarkCommandDispatched now (fst (EnqueueCommand now db cmd)) (cp_CommandID cmd))"
  shows "GetResult db' (cp_CommandID cmd) = None" "select_pk rr_ResultId (cp_CommandID cmd) (CloudResultQueue db') = None"
    "\<exists>r. GetCommand db' (cp_CommandID cmd) = Some r"
  using assms EnqueueCommand_new(3,4) [OF assms(1), of now]
  by (simp_all add: GetResult_def GetCommand_def MarkCommandDispatched_def select_pk_update_rows)

lemma ack_synchronises:
  assumes "env_Type ack = TypeResultAck" and "DecodePayload unmarshal_ResultAckPayload ack zero_ResultAckPayload = (False, p)" and "ra_Success p"
  shows "AGetCommand (nc_store (handleIncoming ne nc ack)) j = AGetCommand (nc_store nc) j"
    and "\<forall>r \<in> set (ResultQueue (nc_store (handleIncoming ne nc ack))). ar_CommandID r = ra_CommandID p \<longrightarrow> ar_Synced r"
proof -
  have st: "nc_store (handleIncoming ne nc ack) = MarkResultSynced (nc_store nc) (ra_CommandID p)"
    using assms by (simp add: handleIncoming_def handleResultAck_def)
  show "AGetCommand (nc_store (handleIncoming ne nc ack)) j = AGetCommand (nc_store nc) j"
    unfolding st by (simp add: AGetCommand_def agent_lookup_def)
  show "\<forall>r \<in> set (ResultQueue (nc_store (handleIncoming ne nc ack))). ar_CommandID r = ra_CommandID p \<longrightarrow> ar_Synced r"
    unfolding st by (simp add: MarkResultSynced_def ball_update_rows)
qed

text \<open>
  C6. The round trip of a command. A controller that may reach the device enters a command under a new identifier while the
  device's agent is connected and idle, and its PowerShell process ends with code 0. Then, message by message: the relay
  writes one dispatch to the agent; the agent, once it has handled it and its worker has run, writes one result; the relay
  stores it, with exactly the output of the process, marks the command COMPLETED, forwards the result to every controller with
  room in its buffer, and acknowledges; and when the agent has handled that, its copy of the command is COMPLETED too and every
  result of it is marked as synced, so that it will not be sent again.
\<close>

theorem command_round_trip:
  assumes relay: "reg_ok h" "env_Type env = TypeEnqueueCmd"
      "DecodePayload unmarshal_CommandPayload env zero_CommandPayload = (False, p)" "\<not> not_owner h c (cp_DeviceID p)"
    and cmd: "cmd = fst (complete_command e h p)" "valid_CommandPayload cmd" "i = cp_CommandID cmd"
    and new: "GetCommand (h_store h) i = None" "GetResult (h_store h) i = None" "select_pk rr_ResultId i (CloudResultQueue (h_store h)) = None"
    and agent: "getAgentClient h (cp_DeviceID p) = Some a" "c_send (h_clients h a) = []"
    and idle: "AGetCommand (nc_store nc) i = None" "\<forall>c \<in> set (CommandQueue (nc_store nc)). \<not> claimable (acfg_MaxAttempts (nc_cfg nc)) c"
      "0 < acfg_MaxAttempts (nc_cfg nc)" "nc_send nc = []" "w_uuid we \<notin> ar_ResultID ` set (ResultQueue (nc_store nc))"
    and time: "in_int64 (unix_now e)" "in_int64 (n_now ne)" "in_int64 (unix_now e')" "in_int64 (w_now we)"
    and ends: "out = w_proc we (powershell_argv (NewPowerShell (acfg_ExecPolicy (nc_cfg nc))) (cp_Command cmd))
        (exec_timeout (nc_cfg nc) \<lparr>pl_Command = cp_Command cmd, pl_TimeoutSec = cp_TimeoutSec cmd\<rparr>)"
      "\<not> run_deadline out" "run_err out = RunOk"
  shows "\<exists>h1 dispatch h2 res h3 ack. handleMessage e h c env = Ret h1
    \<and> writeNext h1 a = Some (dispatch, h2) \<and> readEnvelope (marshal_Envelope dispatch) = Some dispatch
    \<and> nc_send (agent_turn ne we nc dispatch) = [res]
    \<and> readMessage e' h2 a (Some (marshal_Envelope res)) = Ret h3
    \<and> (\<exists>r. GetResult (h_store h3) i = Some r \<and> rp_Stdout r = run_stdout out \<and> rp_Stderr r = run_stderr out \<and> rp_ExitCode r = 0)
    \<and> map_option cr_Status (GetCommand (h_store h3) i) = Some StatusCompleted
    \<and> (\<forall>x \<in> set (h_controllers h). length (c_send (h_clients h2 x)) < 64 \<longrightarrow> res \<in> set (c_send (h_clients h3 x)))
    \<and> c_send (h_clients h3 a) = [ack] \<and> readEnvelope (marshal_Envelope ack) = Some ack
    \<and> (let db = nc_store (handleIncoming ne (agent_turn ne we nc dispatch) ack) in
         map_option ac_Status (AGetCommand db i) = Some AStatusCompleted
         \<and> (\<forall>r \<in> set (ResultQueue db). ar_CommandID r = i \<longrightarrow> ar_Synced r))"
proof -
  define x where "x = Run we (NewPowerShell (acfg_ExecPolicy (nc_cfg nc))) (cp_Command cmd)
      (exec_timeout (nc_cfg nc) \<lparr>pl_Command = cp_Command cmd, pl_TimeoutSec = cp_TimeoutSec cmd\<rparr>)"
  have x: "x_ExitCode x = 0" "x_Stdout x = run_stdout out" "x_Stderr x = run_stderr out"
    unfolding x_def Run_def ends(1) [symmetric] Let_def using ends(2,3) by simp_all
  let ?res = "report_of nc we i x"
  obtain h1 h2 u where h1: "handleMessage e h c env = Ret h1"
      "writeNext h1 a = Some (NewEnvelope u (unix_now e) TypeDispatchCmd (c_deviceID (h_clients h a)) (Some (marshal_CommandPayload cmd)), h2)"
      "h_store h2 = fst (MarkCommandDispatched (unix_now e) (fst (EnqueueCommand (unix_now e) (h_store h) cmd)) i)"
      "h_controllers h2 = h_controllers h"
    and ctrl: "\<forall>x \<in> set (h_controllers h2). \<not> c_closed (h_clients h2 x)" "distinct (h_controllers h2)"
      "\<not> c_closed (h_clients h2 a)" "a \<notin> set (h_controllers h2)" "c_send (h_clients h2 a) = []"
    using enqueue_leaves [OF relay cmd(1) new(1) [unfolded cmd(3)] agent] unfolding cmd(3) by metis
  let ?dis = "NewEnvelope u (unix_now e) TypeDispatchCmd (c_deviceID (h_clients h a)) (Some (marshal_CommandPayload cmd))"
  have "delivers ?dis cmd"
    using dispatch.DecodePayload_NewEnvelope [OF cmd(2)] by (simp add: delivers_def) (simp add: NewEnvelope_def)
  note turn = agent_turn_delivered [OF this cmd(2) idle(1) [unfolded cmd(3)] idle(2,3,5,4) x_def x(1), folded cmd(3)]
  obtain u' where res: "nc_send (agent_turn ne we nc ?dis) = [NewEnvelope u' (n_now ne) TypeCmdResult (acfg_DeviceID (nc_cfg nc))
      (Some (marshal_ResultPayload ?res))]" using turn(1) by blast
  let ?env = "NewEnvelope u' (n_now ne) TypeCmdResult (acfg_DeviceID (nc_cfg nc)) (Some (marshal_ResultPayload ?res))"
  have id: "rp_CommandID ?res = i" "rp_ResultID (stored_result (unix_now e') ?res) = i" "valid_ResultPayload ?res" "final_status ?res = StatusCompleted"
    using x(1) time(4) by (simp_all add: report_of_def stored_result_def valid_ResultPayload_def final_status_def)
  note stored = dispatched_in_store [OF new [unfolded cmd(3)] h1(3) [unfolded cmd(3)], folded cmd(3)]
  then obtain h3 ack where h3: "handleMessage e' h2 a ?env = Ret h3" "c_send (h_clients h3 a) = [ack]"
      "readEnvelope (marshal_Envelope ack) = Some ack" "env_Type ack = TypeResultAck"
      "DecodePayload unmarshal_ResultAckPayload ack zero_ResultAckPayload =
        (False, \<lparr>ra_CommandID = i, ra_ResultID = rp_ResultID ?res, ra_Success = True\<rparr>)"
      "\<forall>x \<in> set (h_controllers h2). h_clients h3 x = push ?env (h_clients h2 x)"
      "GetResult (h_store h3) i = Some (stored_result (unix_now e') ?res)"
      "map_option cr_Status (GetCommand (h_store h3) i) = Some StatusCompleted"
    using result_arrives [OF ctrl refl id(3) time(3), unfolded id(1,2,4)] by blast
  have "let db = nc_store (handleIncoming ne (agent_turn ne we nc ?dis) ack) in
         map_option ac_Status (AGetCommand db i) = Some AStatusCompleted \<and> (\<forall>r \<in> set (ResultQueue db). ar_CommandID r = i \<longrightarrow> ar_Synced r)"
    using ack_synchronises [OF h3(4,5)] turn(2) by (simp add: Let_def)
  moreover have "\<forall>x \<in> set (h_controllers h). length (c_send (h_clients h2 x)) < 64 \<longrightarrow> ?env \<in> set (c_send (h_clients h3 x))"
    using h3(6) h1(4) by (simp add: push_def send_capacity_def)
  moreover have "\<exists>r. GetResult (h_store h3) i = Some r \<and> rp_Stdout r = run_stdout out \<and> rp_Stderr r = run_stderr out \<and> rp_ExitCode r = 0"
    using h3(7) x by (simp add: stored_result_def report_of_def)
  moreover have "readMessage e' h2 a (Some (marshal_Envelope ?env)) = Ret h3"
    using h3(1) readMessage_envelope [OF readEnvelope_new [OF time(2)]] by simp
  ultimately show ?thesis
    using h1(1,2) readEnvelope_new [OF time(1)] res h3(2,3,8)
    by - (rule exI [of _ h1], rule exI [of _ ?dis], rule exI [of _ h2], rule exI [of _ ?env], rule exI [of _ h3], rule exI [of _ ack], simp)
qed

theorem command_round_trip_witness:
  "\<exists>h1 dispatch h2 res h3. handleMessage sample_env shared_hub 2 (enqueue_message (sample_cmd ''command-1'' ''pc1'' ''dir'' 5)) = Ret h1
     \<and> writeNext h1 0 = Some (dispatch, h2)
     \<and> nc_send (agent_turn sample_nenv (sample_wenv 0) (NewNetClient empty_agent_db relay_acfg) dispatch) = [res]
     \<and> readMessage sample_env h2 0 (Some (marshal_Envelope res)) = Ret h3
     \<and> map_option cr_Status (GetCommand (h_store h3) ''command-1'') = Some StatusCompleted
     \<and> (\<exists>r. GetResult (h_store h3) ''command-1'' = Some r \<and> rp_Stdout r = ''ok'')"
proof -
  let ?p = "sample_cmd ''command-1'' ''pc1'' ''dir'' 5" and ?nc = "NewNetClient empty_agent_db relay_acfg" and ?we = "sample_wenv 0"
  let ?out = "w_proc ?we (powershell_argv (NewPowerShell (acfg_ExecPolicy (nc_cfg ?nc))) (cp_Command ?p))
    (exec_timeout (nc_cfg ?nc) \<lparr>pl_Command = cp_Command ?p, pl_TimeoutSec = cp_TimeoutSec ?p\<rparr>)"
  have v: "valid_CommandPayload ?p" by (simp add: sample_cmd_def valid_CommandPayload_def in_int64_def)
  then have d: "DecodePayload unmarshal_CommandPayload (enqueue_message ?p) zero_CommandPayload = (False, ?p)"
    by (simp add: enqueue_message_def DecodePayload_def NewEnvelope_def CommandPayload_codec.dec_enc)
  have t: "env_Type (enqueue_message ?p) = TypeEnqueueCmd" by (simp add: enqueue_message_def NewEnvelope_def)
  have own: "\<not> not_owner shared_hub 2 (cp_DeviceID ?p)" by (simp add: not_owner_def shared_hub_def newClient_def)
  have p: "?p = fst (complete_command sample_env shared_hub ?p)" by (simp add: complete_command_def sample_cmd_def Let_def)
  have i: "''command-1'' = cp_CommandID ?p" by (simp add: sample_cmd_def)
  have new: "GetCommand (h_store shared_hub) ''command-1'' = None" "GetResult (h_store shared_hub) ''command-1'' = None"
    "select_pk rr_ResultId ''command-1'' (CloudResultQueue (h_store shared_hub)) = None" by code_simp+
  have a: "getAgentClient shared_hub (cp_DeviceID ?p) = Some 0" "c_send (h_clients shared_hub 0) = []"
    by (simp_all add: getAgentClient_def shared_hub_def sample_cmd_def newClient_def)
  have idle: "AGetCommand (nc_store ?nc) ''command-1'' = None" "\<forall>c \<in> set (CommandQueue (nc_store ?nc)). \<not> claimable (acfg_MaxAttempts (nc_cfg ?nc)) c"
    "0 < acfg_MaxAttempts (nc_cfg ?nc)" "nc_send ?nc = []" "w_uuid ?we \<notin> ar_ResultID ` set (ResultQueue (nc_store ?nc))"
    by (simp_all add: NewNetClient_def empty_agent_db_def AGetCommand_def agent_lookup_def select_pk_def relay_acfg_def sample_acfg_def)
  have time: "in_int64 (unix_now sample_env)" "in_int64 (n_now sample_nenv)" "in_int64 (w_now ?we)" by code_simp+
  have out: "\<not> run_deadline ?out" "run_err ?out = RunOk" "run_stdout ?out = ''ok''" by (simp_all add: sample_wenv_def)
  show ?thesis
    using command_round_trip [OF shared_hub_ok t d own p v i new a idle time(1,2,1,3) refl out(1,2)] out(3) by metis
qed

end
