(* ===== verification/AgentConfig.thy ===== *)
theory AgentConfig
  imports Worker Bytes Paths
begin

text \<open>
  The agent's configuration and command line: \<^verbatim>\<open>agent/internal/config/config.go\<close> and
  \<^verbatim>\<open>agent/cmd/terminal-agent/main.go\<close>, with \<^verbatim>\<open>time.ParseDuration\<close> and the \<^verbatim>\<open>flag\<close> package.

  \<open>CEnv\<close> is the process environment: the variables (an unset one is empty), the host name, the path of the
  executable, the configuration files (by path, after the byte order mark is stripped; \<open>None\<close> when there is no file or it is
  not JSON), and the reading of integers in any base that the flag package allows.
\<close>

record CEnv =
  ce_win :: bool
  ce_getenv :: "string \<Rightarrow> string"
  ce_hostname :: string
  ce_executable :: "string option"
  ce_file :: "string \<Rightarrow> json option"
  ce_int :: "string \<Rightarrow> int option"

section \<open>Durations\<close>

definition unit_ns :: "string \<Rightarrow> nat option" where
  "unit_ns u =
     (if u = ''ns'' then Some 1 else if u = ''us'' \<or> u = [CHR 0xC2, CHR 0xB5, CHR ''s''] \<or> u = [CHR 0xCE, CHR 0xBC, CHR ''s'']
      then Some 1000
      else if u = ''ms'' then Some 1000000 else if u = ''s'' then Some 1000000000
      else if u = ''m'' then Some 60000000000 else if u = ''h'' then Some 3600000000000 else None)"

definition digits_value :: "string \<Rightarrow> nat" where
  "digits_value ds = foldl (\<lambda>v c. v * 10 + (code c - 48)) 0 ds"

definition is_digit :: "char \<Rightarrow> bool" where
  "is_digit c \<longleftrightarrow> 48 \<le> code c \<and> code c \<le> 57"

text \<open>
  One element: a number, perhaps with a fraction, and a unit. The sum is checked against 63 bits after each
  element. The fraction is computed exactly; Go computes it in floating point.
\<close>

primrec duration_elems :: "nat \<Rightarrow> nat \<Rightarrow> string \<Rightarrow> nat option" where
  "duration_elems 0 d s = (if s = [] then Some d else None)"
| "duration_elems (Suc fuel) d s =
     (if s = [] then Some d
      else
        let whole = takeWhile is_digit s;
            s1 = drop (length whole) s;
            hasDot = (s1 \<noteq> [] \<and> hd s1 = CHR ''.'');
            frac = (if hasDot then takeWhile is_digit (tl s1) else []);
            s2 = (if hasDot then drop (length frac) (tl s1) else s1);
            u = takeWhile (\<lambda>c. c \<noteq> CHR ''.'' \<and> \<not> is_digit c) s2;
            v = digits_value whole
        in if whole = [] \<and> frac = [] \<or> u = [] \<or> v > 2 ^ 63 then None
           else case unit_ns u of
             None \<Rightarrow> None
           | Some ns \<Rightarrow>
               (let v = v * ns + (digits_value frac * ns) div 10 ^ length frac
                in if v > 2 ^ 63 \<or> d + v > 2 ^ 63 then None
                   else duration_elems fuel (d + v) (drop (length u) s2)))"

definition ParseDuration :: "string \<Rightarrow> int option" where
  "ParseDuration s =
     (let neg = (s \<noteq> [] \<and> hd s = CHR ''-'');
          s = (if s \<noteq> [] \<and> (hd s = CHR ''-'' \<or> hd s = CHR ''+'') then tl s else s)
      in if s = ''0'' then Some 0
         else if s = [] then None
         else case duration_elems (length s) 0 s of
           None \<Rightarrow> None
         | Some d \<Rightarrow> if neg then Some (- int d) else if d > 2 ^ 63 - 1 then None else Some (int d))"

section \<open>The configuration\<close>

definition DefaultDBPath :: "CEnv \<Rightarrow> string" where
  "DefaultDBPath ce =
     (if ce_getenv ce ''TERMINAL_AGENT_DB'' \<noteq> '''' then ce_getenv ce ''TERMINAL_AGENT_DB''
      else let base = (if ce_getenv ce ''ProgramData'' = '''' then ''.'' else ce_getenv ce ''ProgramData'')
           in Join (ce_win ce) base (''TerminalAgent'' @ [separator (ce_win ce)] @ ''queue.db''))"

definition DataDir :: "CEnv \<Rightarrow> AConfig \<Rightarrow> string" where
  "DataDir ce cfg = Dir (ce_win ce) (acfg_DBPath cfg)"

record jsonConfig =
  jc_RelayURL :: string
  jc_DeviceID :: string
  jc_AuthToken :: string
  jc_DBPath :: string
  jc_HeartbeatInterval :: string

definition zero_jsonConfig :: jsonConfig where
  "zero_jsonConfig = \<lparr>jc_RelayURL = '''', jc_DeviceID = '''', jc_AuthToken = '''', jc_DBPath = '''', jc_HeartbeatInterval = ''''\<rparr>"

definition unmarshal_jsonConfig :: "jsonConfig dec" where
  "unmarshal_jsonConfig = dec_struct [
      (''relay_url'', into dec_string jc_RelayURL jc_RelayURL_update),
      (''device_id'', into dec_string jc_DeviceID jc_DeviceID_update),
      (''auth_token'', into dec_string jc_AuthToken jc_AuthToken_update),
      (''db_path'', into dec_string jc_DBPath jc_DBPath_update),
      (''heartbeat_interval'', into dec_string jc_HeartbeatInterval jc_HeartbeatInterval_update)]"

definition host_or_default :: "CEnv \<Rightarrow> string" where
  "host_or_default ce = (if ce_hostname ce = '''' then ''win-agent'' else ce_hostname ce)"

definition base_config :: "CEnv \<Rightarrow> AConfig" where
  "base_config ce =
     \<lparr>acfg_DBPath = DefaultDBPath ce, acfg_Timeout = seconds 60, acfg_PollInterval = seconds 1, acfg_MaxAttempts = 3,
      acfg_ExecPolicy = ''Bypass'', acfg_RelayURL = ce_getenv ce ''TERMINAL_RELAY_URL'', acfg_DeviceID = host_or_default ce,
      acfg_AuthToken = ce_getenv ce ''TERMINAL_AUTH_TOKEN'', acfg_HeartbeatInterval = seconds 15\<rparr>"

definition candidates :: "CEnv \<Rightarrow> string list" where
  "candidates ce =
     (let win = ce_win ce; sub = ''TerminalAgent'' @ [separator win] @ ''config.json''
      in (if ce_getenv ce ''LOCALAPPDATA'' \<noteq> '''' then [Join win (ce_getenv ce ''LOCALAPPDATA'') sub] else [])
       @ (if ce_getenv ce ''ProgramData'' \<noteq> '''' then [Join win (ce_getenv ce ''ProgramData'') sub] else [])
       @ (case ce_executable ce of None \<Rightarrow> [] | Some exe \<Rightarrow> [Join win (Dir win exe) ''config.json''])
       @ [Join win (DataDir ce (base_config ce)) ''config.json'', ''config.json''])"

definition apply_config :: "CEnv \<Rightarrow> jsonConfig \<Rightarrow> AConfig \<Rightarrow> AConfig" where
  "apply_config ce jc cfg =
     (let cfg = (if jc_RelayURL jc \<noteq> '''' \<and> (acfg_RelayURL cfg = '''' \<or> acfg_RelayURL cfg = ''ws://localhost:8080/ws'')
                 then cfg\<lparr>acfg_RelayURL := jc_RelayURL jc\<rparr> else cfg);
          cfg = (if jc_DeviceID jc \<noteq> '''' \<and> (acfg_DeviceID cfg = '''' \<or> acfg_DeviceID cfg = host_or_default ce)
                 then cfg\<lparr>acfg_DeviceID := jc_DeviceID jc\<rparr> else cfg);
          cfg = (if jc_AuthToken jc \<noteq> '''' \<and> acfg_AuthToken cfg = '''' then cfg\<lparr>acfg_AuthToken := jc_AuthToken jc\<rparr> else cfg);
          cfg = (if jc_DBPath jc \<noteq> '''' \<and> acfg_DBPath cfg = DefaultDBPath ce then cfg\<lparr>acfg_DBPath := jc_DBPath jc\<rparr> else cfg)
      in if jc_HeartbeatInterval jc \<noteq> ''''
         then case ParseDuration (jc_HeartbeatInterval jc) of None \<Rightarrow> cfg | Some d \<Rightarrow> cfg\<lparr>acfg_HeartbeatInterval := d\<rparr>
         else cfg)"

definition read_candidate :: "CEnv \<Rightarrow> string \<Rightarrow> AConfig \<Rightarrow> AConfig" where
  "read_candidate ce p cfg =
     (case ce_file ce p of
        None \<Rightarrow> cfg
      | Some j \<Rightarrow> (case unmarshal_jsonConfig j zero_jsonConfig of (err, jc) \<Rightarrow> if err then cfg else apply_config ce jc cfg))"

definition env_overrides :: "CEnv \<Rightarrow> AConfig \<Rightarrow> AConfig" where
  "env_overrides ce cfg =
     (let set = (\<lambda>name upd cfg. if ce_getenv ce name \<noteq> '''' then upd (\<lambda>_. ce_getenv ce name) cfg else cfg)
      in set ''TERMINAL_AUTH_TOKEN'' acfg_AuthToken_update
           (set ''TERMINAL_DEVICE_ID'' acfg_DeviceID_update
             (set ''TERMINAL_RELAY_URL'' acfg_RelayURL_update cfg)))"

definition Default :: "CEnv \<Rightarrow> AConfig" where
  "Default ce = env_overrides ce (fold (read_candidate ce) (candidates ce) (base_config ce))"

section \<open>Flags\<close>

text \<open>
  \<^verbatim>\<open>FlagSet.Parse\<close>: a flag has one or two dashes and its value after an equals sign or as the next
  argument; a Boolean flag needs no value. Parsing ends at the first argument that is no flag, or after two
  dashes. An error ends the process with code 2, a request for help with code 0.
\<close>

datatype flag_kind = FString | FBool | FInt | FDuration

datatype flag_value = VString string | VBool bool | VInt int | VDuration int

datatype flag_result = Parsed "(string \<times> flag_value) list" "string list" | FlagError | FlagHelp

definition ParseBool :: "string \<Rightarrow> bool option" where
  "ParseBool s =
     (if s \<in> {''1'', ''t'', ''T'', ''true'', ''TRUE'', ''True''} then Some True
      else if s \<in> {''0'', ''f'', ''F'', ''false'', ''FALSE'', ''False''} then Some False else None)"

definition flag_read :: "CEnv \<Rightarrow> flag_kind \<Rightarrow> string \<Rightarrow> flag_value option" where
  "flag_read ce k s =
     (case k of
        FString \<Rightarrow> Some (VString s)
      | FBool \<Rightarrow> map_option VBool (ParseBool s)
      | FInt \<Rightarrow> map_option VInt (ce_int ce s)
      | FDuration \<Rightarrow> map_option VDuration (ParseDuration s))"

function parse_flags :: "CEnv \<Rightarrow> (string \<times> flag_kind) list \<Rightarrow> (string \<times> flag_value) list \<Rightarrow> string list \<Rightarrow> flag_result" where
  "parse_flags ce flags acc args =
     (case args of
        [] \<Rightarrow> Parsed acc []
      | s # rest \<Rightarrow>
          if length s < 2 \<or> hd s \<noteq> CHR ''-'' then Parsed acc args
          else if s = ''--'' then Parsed acc rest
          else
            let name = drop (if s ! 1 = CHR ''-'' then 2 else 1) s in
            if name = [] \<or> hd name = CHR ''-'' \<or> hd name = CHR ''='' then FlagError
            else
              let hasValue = CHR ''='' \<in> set name;
                  value = drop 1 (dropWhile (\<lambda>c. c \<noteq> CHR ''='') name);
                  name = takeWhile (\<lambda>c. c \<noteq> CHR ''='') name
              in case map_of flags name of
                   None \<Rightarrow> if name = ''help'' \<or> name = ''h'' then FlagHelp else FlagError
                 | Some k \<Rightarrow>
                     (let (value, hasValue, rest) =
                        (if hasValue then (value, True, rest)
                         else if k = FBool then (''true'', True, rest)
                         else case rest of [] \<Rightarrow> ('''', False, []) | v # rest' \<Rightarrow> (v, True, rest'))
                      in if \<not> hasValue then FlagError
                         else case flag_read ce k value of
                           None \<Rightarrow> FlagError
                         | Some v \<Rightarrow> parse_flags ce flags (acc @ [(name, v)]) rest))"
  by auto
termination
  by (relation "measure (\<lambda>(ce, flags, acc, args). length args)") (auto split: if_splits list.splits)

declare parse_flags.simps [simp del]

text \<open>The last setting of a flag counts.\<close>

definition setting :: "string \<Rightarrow> (string \<times> flag_value) list \<Rightarrow> flag_value \<Rightarrow> flag_value" where
  "setting name acc dflt = (case map_of (rev acc) name of None \<Rightarrow> dflt | Some v \<Rightarrow> v)"

definition str_setting :: "string \<Rightarrow> (string \<times> flag_value) list \<Rightarrow> string \<Rightarrow> string" where
  "str_setting name acc dflt = (case setting name acc (VString dflt) of VString s \<Rightarrow> s | _ \<Rightarrow> dflt)"

definition int_setting :: "string \<Rightarrow> (string \<times> flag_value) list \<Rightarrow> int \<Rightarrow> int" where
  "int_setting name acc dflt = (case setting name acc (VInt dflt) of VInt n \<Rightarrow> n | VDuration n \<Rightarrow> n | _ \<Rightarrow> dflt)"

section \<open>The commands\<close>

definition run_flags :: "(string \<times> flag_kind) list" where
  "run_flags = [(''db'', FString), (''relay'', FString), (''device-id'', FString), (''token'', FString),
     (''timeout'', FDuration), (''poll'', FDuration), (''drain'', FBool)]"

definition run_config :: "AConfig \<Rightarrow> (string \<times> flag_value) list \<Rightarrow> AConfig" where
  "run_config def acc =
     (let dbPath = str_setting ''db'' acc (acfg_DBPath def); relayURL = str_setting ''relay'' acc (acfg_RelayURL def);
          deviceID = str_setting ''device-id'' acc (acfg_DeviceID def); token = str_setting ''token'' acc (acfg_AuthToken def);
          timeout = int_setting ''timeout'' acc (acfg_Timeout def); poll = int_setting ''poll'' acc (acfg_PollInterval def);
          cfg = def;
          cfg = (if dbPath \<noteq> '''' then cfg\<lparr>acfg_DBPath := dbPath\<rparr> else cfg);
          cfg = (if relayURL \<noteq> '''' then cfg\<lparr>acfg_RelayURL := relayURL\<rparr> else cfg);
          cfg = (if deviceID \<noteq> '''' then cfg\<lparr>acfg_DeviceID := deviceID\<rparr> else cfg);
          cfg = (if token \<noteq> '''' then cfg\<lparr>acfg_AuthToken := token\<rparr> else cfg);
          cfg = (if timeout > 0 then cfg\<lparr>acfg_Timeout := timeout\<rparr> else cfg)
      in if poll > 0 then cfg\<lparr>acfg_PollInterval := poll\<rparr> else cfg)"

datatype action =
    RunService AConfig
  | RunWorker AConfig bool
  | EnqueueLocal string string int
  | ShowResults string string int
  | ShowQueue string int
  | ControlService string
  | Usage
  | Exit int

definition exit_code :: "flag_result \<Rightarrow> int" where
  "exit_code r = (case r of FlagHelp \<Rightarrow> 0 | _ \<Rightarrow> 2)"

definition cmdRun :: "CEnv \<Rightarrow> string list \<Rightarrow> action" where
  "cmdRun ce args =
     (case parse_flags ce run_flags [] args of
        Parsed acc rest \<Rightarrow> RunWorker (run_config (Default ce) acc) (setting ''drain'' acc (VBool False) = VBool True)
      | r \<Rightarrow> Exit (exit_code r))"

fun join_words :: "string list \<Rightarrow> string" where
  "join_words [] = ''''"
| "join_words [w] = w"
| "join_words (w # ws) = w @ '' '' @ join_words ws"

definition cmdEnqueue_action :: "CEnv \<Rightarrow> string list \<Rightarrow> action" where
  "cmdEnqueue_action ce args =
     (case parse_flags ce [(''db'', FString), (''timeoutSec'', FInt)] [] args of
        Parsed acc rest \<Rightarrow>
          (let command = TrimSpace (join_words rest)
           in if command = '''' then Exit 1
              else EnqueueLocal (str_setting ''db'' acc (acfg_DBPath (Default ce))) command (int_setting ''timeoutSec'' acc 0))
      | r \<Rightarrow> Exit (exit_code r))"

definition cmdResults_action :: "CEnv \<Rightarrow> string list \<Rightarrow> action" where
  "cmdResults_action ce args =
     (case parse_flags ce [(''db'', FString), (''id'', FString), (''limit'', FInt)] [] args of
        Parsed acc rest \<Rightarrow> ShowResults (str_setting ''db'' acc (acfg_DBPath (Default ce))) (str_setting ''id'' acc '''') (int_setting ''limit'' acc 50)
      | r \<Rightarrow> Exit (exit_code r))"

definition cmdQueue_action :: "CEnv \<Rightarrow> string list \<Rightarrow> action" where
  "cmdQueue_action ce args =
     (case parse_flags ce [(''db'', FString), (''limit'', FInt)] [] args of
        Parsed acc rest \<Rightarrow> ShowQueue (str_setting ''db'' acc (acfg_DBPath (Default ce))) (int_setting ''limit'' acc 50)
      | r \<Rightarrow> Exit (exit_code r))"

definition agent_main :: "CEnv \<Rightarrow> string list \<Rightarrow> action" where
  "agent_main ce argv =
     (if length argv < 2 then RunService (Default ce)
      else let cmd = argv ! 1; args = drop 2 argv in
        if cmd = ''run'' then cmdRun ce args
        else if cmd = ''enqueue'' then cmdEnqueue_action ce args
        else if cmd = ''results'' then cmdResults_action ce args
        else if cmd = ''queue'' then cmdQueue_action ce args
        else if cmd \<in> {''install'', ''uninstall'', ''start'', ''stop'', ''restart''} then ControlService cmd
        else if cmd \<in> {''-h'', ''--help'', ''help''} then Usage
        else RunService (Default ce))"

section \<open>What the commands print\<close>

text \<open>\<open>rfc\<close> is the local time of a Unix time in RFC 3339.\<close>

definition indent :: "string \<Rightarrow> string" where
  "indent s = concat (map (\<lambda>c. if c = CHR 0x0A then CHR 0x0A # replicate 11 CHR '' '' else [c]) s)"

definition trim_newlines :: "string \<Rightarrow> string" where
  "trim_newlines s = TrimRightBy (\<lambda>c. c = CHR 0x0D \<or> c = CHR 0x0A) s"

definition print_result :: "(int \<Rightarrow> string) \<Rightarrow> Result \<Rightarrow> string" where
  "print_result rfc r =
     ''-- '' @ ar_CommandID r @ ''  exit='' @ itoa (ar_ExitCode r) @ ''  synced='' @ bool_string (ar_Synced r) @ ''  '' @ rfc (ar_ExecutedAt r) @ newline
     @ (if trim_newlines (ar_Stdout r) \<noteq> '''' then ''   stdout: '' @ indent (trim_newlines (ar_Stdout r)) @ newline else '''')
     @ (if trim_newlines (ar_Stderr r) \<noteq> '''' then ''   stderr: '' @ indent (trim_newlines (ar_Stderr r)) @ newline else '''')"

definition cmdResults :: "(int \<Rightarrow> string) \<Rightarrow> AgentDB \<Rightarrow> string \<Rightarrow> int \<Rightarrow> string" where
  "cmdResults rfc db cid limit =
     (let results = AListResults db cid limit
      in if results = [] then ''(no results)'' @ newline else concat (map (print_result rfc) results))"

definition print_command :: "(int \<Rightarrow> string) \<Rightarrow> Command \<Rightarrow> string" where
  "print_command rfc c =
     pad_right 10 (ac_Status c) @ '' attempts='' @ itoa (ac_Attempts c) @ ''  '' @ rfc (ac_CreatedAt c) @ ''  '' @ ac_CommandID c @ newline
     @ ''    '' @ pl_Command (snd (Decode c)) @ newline"

definition cmdQueue :: "(int \<Rightarrow> string) \<Rightarrow> AgentDB \<Rightarrow> int \<Rightarrow> string" where
  "cmdQueue rfc db limit =
     (let cmds = AListCommands db limit
      in if cmds = [] then ''(queue empty)'' @ newline else concat (map (print_command rfc) cmds))"

section \<open>The tickers\<close>

text \<open>
  \<^verbatim>\<open>time.NewTicker\<close> panics on an interval that is not positive. The heartbeat loop of the network client starts
  with a ticker of the configured interval, the worker's loop with one of the polling interval.
\<close>

definition NewTicker :: "int \<Rightarrow> int outcome" where
  "NewTicker d = (if d \<le> 0 then Panic NonPositiveInterval else Ret d)"

definition heartbeatLoop_start :: "AConfig \<Rightarrow> int outcome" where
  "heartbeatLoop_start cfg = NewTicker (acfg_HeartbeatInterval cfg)"

definition worker_start :: "AConfig \<Rightarrow> int outcome" where
  "worker_start cfg = NewTicker (acfg_PollInterval cfg)"

end
