(* ===== verification/Supabase.thy ===== *)
theory Supabase
  imports RelayStore Bytes
begin

text \<open>
  The store on Supabase, \<^verbatim>\<open>internal/store/supabase.go\<close>: every operation is one or two requests to a PostgREST
  service.

  The service is a parameter: a function from its state and a request to its next state and its answer. An answer is a
  failure of the transport, or a status code with the text of the body and, when that text is JSON, its value. Every
  operation takes the service and its state and returns the next state with its result. \<open>SbEnv\<close> has the clock,
  fresh identifiers, and the texts of JSON values, which two columns hold as strings: \<open>sb_print\<close> is
  \<^verbatim>\<open>json.Marshal\<close> and \<open>sb_parse\<close> the reading of such a text.
\<close>

record SbRequest =
  sq_Method :: string
  sq_URL :: string
  sq_Body :: "json option"
  sq_Headers :: "(string \<times> string) list"

datatype SbReply = TransportFailed string | Answered int string "json option"

type_synonym 's service = "'s \<Rightarrow> SbRequest \<Rightarrow> 's \<times> SbReply"

record SupabaseStore =
  ss_baseURL :: string
  ss_apiKey :: string

record SbEnv =
  sb_now :: int
  sb_uuid1 :: string
  sb_uuid2 :: string
  sb_print :: "json \<Rightarrow> string"
  sb_parse :: "string \<Rightarrow> json option"

definition NewSupabaseStore :: "string \<Rightarrow> string \<Rightarrow> string + SupabaseStore" where
  "NewSupabaseStore supabaseURL apiKey =
     (let cleanURL = TrimRightBy (\<lambda>c. c = CHR ''/'') (TrimSpace supabaseURL);
          cleanURL = (if \<not> HasPrefix cleanURL ''http://'' \<and> \<not> HasPrefix cleanURL ''https://''
                      then ''https://'' @ cleanURL else cleanURL);
          cleanKey = TrimSpace apiKey
      in if cleanURL = '''' \<or> cleanKey = '''' then Inl ''supabase URL and API key cannot be empty''
         else Inr \<lparr>ss_baseURL = cleanURL @ ''/rest/v1'', ss_apiKey = cleanKey\<rparr>)"

definition sb_request :: "SupabaseStore \<Rightarrow> string \<Rightarrow> string \<Rightarrow> json option \<Rightarrow> (string \<times> string) list \<Rightarrow> SbRequest" where
  "sb_request ss meth endpoint body headers =
     \<lparr>sq_Method = meth, sq_URL = ss_baseURL ss @ endpoint, sq_Body = body,
      sq_Headers = [(''apikey'', ss_apiKey ss), (''Authorization'', ''Bearer '' @ ss_apiKey ss),
        (''Content-Type'', ''application/json'')] @ headers\<rparr>"

definition sb_send :: "'s service \<Rightarrow> SupabaseStore \<Rightarrow> 's \<Rightarrow> string \<Rightarrow> string \<Rightarrow> json option \<Rightarrow> (string \<times> string) list \<Rightarrow> 's \<times> SbReply" where
  "sb_send svc ss s meth endpoint body headers = svc s (sb_request ss meth endpoint body headers)"

section \<open>Rows\<close>

record sbUser =
  su_UserID :: string
  su_Username :: string
  su_Password :: string
  su_AuthToken :: string
  su_CreatedAt :: int

definition zero_sbUser :: sbUser where
  "zero_sbUser = \<lparr>su_UserID = '''', su_Username = '''', su_Password = '''', su_AuthToken = '''', su_CreatedAt = 0\<rparr>"

definition marshal_sbUser :: "sbUser \<Rightarrow> json" where
  "marshal_sbUser x = JObj (
      [(''user_id'', JStr (su_UserID x))]
    @ [(''username'', JStr (su_Username x))]
    @ [(''password'', JStr (su_Password x))]
    @ [(''auth_token'', JStr (su_AuthToken x))]
    @ [(''created_at'', enc_int (su_CreatedAt x))])"

definition unmarshal_sbUser :: "sbUser dec" where
  "unmarshal_sbUser = dec_struct [
      (''user_id'', into dec_string su_UserID su_UserID_update),
      (''username'', into dec_string su_Username su_Username_update),
      (''password'', into dec_string su_Password su_Password_update),
      (''auth_token'', into dec_string su_AuthToken su_AuthToken_update),
      (''created_at'', into dec_int64 su_CreatedAt su_CreatedAt_update)]"

definition valid_sbUser :: "sbUser \<Rightarrow> bool" where
  "valid_sbUser x \<longleftrightarrow> in_int64 (su_CreatedAt x)"

interpretation sbUser_codec: codec marshal_sbUser unmarshal_sbUser zero_sbUser valid_sbUser
  by unfold_locales
     (simp add: marshal_sbUser_def unmarshal_sbUser_def zero_sbUser_def valid_sbUser_def struct_simps)

record sbDevice =
  sv_DeviceID :: string
  sv_UserID :: string
  sv_Hostname :: string
  sv_OS :: string
  sv_Status :: string
  sv_LastHeartbeat :: int
  sv_ConnectedAt :: int
  sv_HealthJSON :: string

definition zero_sbDevice :: sbDevice where
  "zero_sbDevice = \<lparr>sv_DeviceID = '''', sv_UserID = '''', sv_Hostname = '''', sv_OS = '''', sv_Status = '''', sv_LastHeartbeat = 0, sv_ConnectedAt = 0, sv_HealthJSON = ''''\<rparr>"

definition marshal_sbDevice :: "sbDevice \<Rightarrow> json" where
  "marshal_sbDevice x = JObj (
      [(''device_id'', JStr (sv_DeviceID x))]
    @ [(''user_id'', JStr (sv_UserID x))]
    @ omitempty (sv_Hostname x = '''') ''hostname'' (JStr (sv_Hostname x))
    @ omitempty (sv_OS x = '''') ''os'' (JStr (sv_OS x))
    @ [(''status'', JStr (sv_Status x))]
    @ [(''last_heartbeat'', enc_int (sv_LastHeartbeat x))]
    @ [(''connected_at'', enc_int (sv_ConnectedAt x))]
    @ omitempty (sv_HealthJSON x = '''') ''health_json'' (JStr (sv_HealthJSON x)))"

definition unmarshal_sbDevice :: "sbDevice dec" where
  "unmarshal_sbDevice = dec_struct [
      (''device_id'', into dec_string sv_DeviceID sv_DeviceID_update),
      (''user_id'', into dec_string sv_UserID sv_UserID_update),
      (''hostname'', into dec_string sv_Hostname sv_Hostname_update),
      (''os'', into dec_string sv_OS sv_OS_update),
      (''status'', into dec_string sv_Status sv_Status_update),
      (''last_heartbeat'', into dec_int64 sv_LastHeartbeat sv_LastHeartbeat_update),
      (''connected_at'', into dec_int64 sv_ConnectedAt sv_ConnectedAt_update),
      (''health_json'', into dec_string sv_HealthJSON sv_HealthJSON_update)]"

definition valid_sbDevice :: "sbDevice \<Rightarrow> bool" where
  "valid_sbDevice x \<longleftrightarrow> in_int64 (sv_LastHeartbeat x) \<and> in_int64 (sv_ConnectedAt x)"

interpretation sbDevice_codec: codec marshal_sbDevice unmarshal_sbDevice zero_sbDevice valid_sbDevice
  by unfold_locales
     (simp add: marshal_sbDevice_def unmarshal_sbDevice_def zero_sbDevice_def valid_sbDevice_def struct_simps)

record sbCommand =
  sm_CommandID :: string
  sm_DeviceID :: string
  sm_Command :: string
  sm_TimeoutSec :: int
  sm_Status :: string
  sm_CreatedAt :: int
  sm_DispatchedAt :: int
  sm_CompletedAt :: int

definition zero_sbCommand :: sbCommand where
  "zero_sbCommand = \<lparr>sm_CommandID = '''', sm_DeviceID = '''', sm_Command = '''', sm_TimeoutSec = 0, sm_Status = '''', sm_CreatedAt = 0, sm_DispatchedAt = 0, sm_CompletedAt = 0\<rparr>"

definition marshal_sbCommand :: "sbCommand \<Rightarrow> json" where
  "marshal_sbCommand x = JObj (
      [(''command_id'', JStr (sm_CommandID x))]
    @ [(''device_id'', JStr (sm_DeviceID x))]
    @ [(''command'', JStr (sm_Command x))]
    @ [(''timeout_sec'', enc_int (sm_TimeoutSec x))]
    @ [(''status'', JStr (sm_Status x))]
    @ [(''created_at'', enc_int (sm_CreatedAt x))]
    @ omitempty (sm_DispatchedAt x = 0) ''dispatched_at'' (enc_int (sm_DispatchedAt x))
    @ omitempty (sm_CompletedAt x = 0) ''completed_at'' (enc_int (sm_CompletedAt x)))"

definition unmarshal_sbCommand :: "sbCommand dec" where
  "unmarshal_sbCommand = dec_struct [
      (''command_id'', into dec_string sm_CommandID sm_CommandID_update),
      (''device_id'', into dec_string sm_DeviceID sm_DeviceID_update),
      (''command'', into dec_string sm_Command sm_Command_update),
      (''timeout_sec'', into dec_int64 sm_TimeoutSec sm_TimeoutSec_update),
      (''status'', into dec_string sm_Status sm_Status_update),
      (''created_at'', into dec_int64 sm_CreatedAt sm_CreatedAt_update),
      (''dispatched_at'', into dec_int64 sm_DispatchedAt sm_DispatchedAt_update),
      (''completed_at'', into dec_int64 sm_CompletedAt sm_CompletedAt_update)]"

definition valid_sbCommand :: "sbCommand \<Rightarrow> bool" where
  "valid_sbCommand x \<longleftrightarrow> in_int64 (sm_TimeoutSec x) \<and> in_int64 (sm_CreatedAt x) \<and> in_int64 (sm_DispatchedAt x) \<and> in_int64 (sm_CompletedAt x)"

interpretation sbCommand_codec: codec marshal_sbCommand unmarshal_sbCommand zero_sbCommand valid_sbCommand
  by unfold_locales
     (simp add: marshal_sbCommand_def unmarshal_sbCommand_def zero_sbCommand_def valid_sbCommand_def struct_simps)

record sbResult =
  sl_ResultID :: string
  sl_CommandID :: string
  sl_DeviceID :: string
  sl_Stdout :: string
  sl_Stderr :: string
  sl_ExitCode :: int
  sl_ExecutedAt :: int
  sl_ReceivedAt :: int

definition zero_sbResult :: sbResult where
  "zero_sbResult = \<lparr>sl_ResultID = '''', sl_CommandID = '''', sl_DeviceID = '''', sl_Stdout = '''', sl_Stderr = '''', sl_ExitCode = 0, sl_ExecutedAt = 0, sl_ReceivedAt = 0\<rparr>"

definition marshal_sbResult :: "sbResult \<Rightarrow> json" where
  "marshal_sbResult x = JObj (
      [(''result_id'', JStr (sl_ResultID x))]
    @ [(''command_id'', JStr (sl_CommandID x))]
    @ [(''device_id'', JStr (sl_DeviceID x))]
    @ [(''stdout'', JStr (sl_Stdout x))]
    @ [(''stderr'', JStr (sl_Stderr x))]
    @ [(''exit_code'', enc_int (sl_ExitCode x))]
    @ [(''executed_at'', enc_int (sl_ExecutedAt x))]
    @ [(''received_at'', enc_int (sl_ReceivedAt x))])"

definition unmarshal_sbResult :: "sbResult dec" where
  "unmarshal_sbResult = dec_struct [
      (''result_id'', into dec_string sl_ResultID sl_ResultID_update),
      (''command_id'', into dec_string sl_CommandID sl_CommandID_update),
      (''device_id'', into dec_string sl_DeviceID sl_DeviceID_update),
      (''stdout'', into dec_string sl_Stdout sl_Stdout_update),
      (''stderr'', into dec_string sl_Stderr sl_Stderr_update),
      (''exit_code'', into dec_int64 sl_ExitCode sl_ExitCode_update),
      (''executed_at'', into dec_int64 sl_ExecutedAt sl_ExecutedAt_update),
      (''received_at'', into dec_int64 sl_ReceivedAt sl_ReceivedAt_update)]"

definition valid_sbResult :: "sbResult \<Rightarrow> bool" where
  "valid_sbResult x \<longleftrightarrow> in_int64 (sl_ExitCode x) \<and> in_int64 (sl_ExecutedAt x) \<and> in_int64 (sl_ReceivedAt x)"

interpretation sbResult_codec: codec marshal_sbResult unmarshal_sbResult zero_sbResult valid_sbResult
  by unfold_locales
     (simp add: marshal_sbResult_def unmarshal_sbResult_def zero_sbResult_def valid_sbResult_def struct_simps)

record sbAudit =
  sa_LogID :: string
  sa_DeviceID :: string
  sa_Timestamp :: int
  sa_ActionType :: string
  sa_CommandText :: string
  sa_ExitCode :: int
  sa_DurationMs :: int
  sa_Details :: string

definition zero_sbAudit :: sbAudit where
  "zero_sbAudit = \<lparr>sa_LogID = '''', sa_DeviceID = '''', sa_Timestamp = 0, sa_ActionType = '''', sa_CommandText = '''', sa_ExitCode = 0, sa_DurationMs = 0, sa_Details = ''''\<rparr>"

definition marshal_sbAudit :: "sbAudit \<Rightarrow> json" where
  "marshal_sbAudit x = JObj (
      [(''log_id'', JStr (sa_LogID x))]
    @ [(''device_id'', JStr (sa_DeviceID x))]
    @ [(''timestamp'', enc_int (sa_Timestamp x))]
    @ [(''action_type'', JStr (sa_ActionType x))]
    @ omitempty (sa_CommandText x = '''') ''command_text'' (JStr (sa_CommandText x))
    @ [(''exit_code'', enc_int (sa_ExitCode x))]
    @ [(''duration_ms'', enc_int (sa_DurationMs x))]
    @ omitempty (sa_Details x = '''') ''details'' (JStr (sa_Details x)))"

definition unmarshal_sbAudit :: "sbAudit dec" where
  "unmarshal_sbAudit = dec_struct [
      (''log_id'', into dec_string sa_LogID sa_LogID_update),
      (''device_id'', into dec_string sa_DeviceID sa_DeviceID_update),
      (''timestamp'', into dec_int64 sa_Timestamp sa_Timestamp_update),
      (''action_type'', into dec_string sa_ActionType sa_ActionType_update),
      (''command_text'', into dec_string sa_CommandText sa_CommandText_update),
      (''exit_code'', into dec_int64 sa_ExitCode sa_ExitCode_update),
      (''duration_ms'', into dec_int64 sa_DurationMs sa_DurationMs_update),
      (''details'', into dec_string sa_Details sa_Details_update)]"

definition valid_sbAudit :: "sbAudit \<Rightarrow> bool" where
  "valid_sbAudit x \<longleftrightarrow> in_int64 (sa_Timestamp x) \<and> in_int64 (sa_ExitCode x) \<and> in_int64 (sa_DurationMs x)"

interpretation sbAudit_codec: codec marshal_sbAudit unmarshal_sbAudit zero_sbAudit valid_sbAudit
  by unfold_locales
     (simp add: marshal_sbAudit_def unmarshal_sbAudit_def zero_sbAudit_def valid_sbAudit_def struct_simps)

section \<open>The shapes of an operation\<close>

text \<open>
  A write returns the error of the transport and does not look at the status code. A query for one row gives none on
  an error status, on a body that does not decode and on an empty list; a query for a list keeps
  what could be decoded.
\<close>

definition merge_header :: "(string \<times> string) list" where
  "merge_header = [(''Prefer'', ''resolution=merge-duplicates'')]"

definition write_error :: "'s \<times> SbReply \<Rightarrow> 's \<times> string option" where
  "write_error r = (case r of (s, TransportFailed e) \<Rightarrow> (s, Some e) | (s, Answered status_code body j) \<Rightarrow> (s, None))"

definition decode_list :: "'a dec \<Rightarrow> 'a \<Rightarrow> json option \<Rightarrow> bool \<times> 'a list" where
  "decode_list d zero j = (case j of None \<Rightarrow> (True, []) | Some j \<Rightarrow> dec_slice d zero j [])"

definition first_row :: "'a dec \<Rightarrow> 'a \<Rightarrow> 's \<times> SbReply \<Rightarrow> 's \<times> (string + 'a option)" where
  "first_row d zero r =
     (case r of
        (s, TransportFailed e) \<Rightarrow> (s, Inl e)
      | (s, Answered status_code body j) \<Rightarrow>
          (s, if status_code \<ge> 300 then Inr None
              else case decode_list d zero j of (err, rows) \<Rightarrow> if err \<or> rows = [] then Inr None else Inr (Some (hd rows))))"

definition all_rows :: "'a dec \<Rightarrow> 'a \<Rightarrow> 's \<times> SbReply \<Rightarrow> 's \<times> (string + 'a list)" where
  "all_rows d zero r =
     (case r of
        (s, TransportFailed e) \<Rightarrow> (s, Inl e)
      | (s, Answered status_code body j) \<Rightarrow> (s, Inr (if status_code \<ge> 300 then [] else snd (decode_list d zero j))))"

definition sb_limit :: "int \<Rightarrow> int \<Rightarrow> int" where
  "sb_limit dflt limit = (if limit \<le> 0 then dflt else limit)"

section \<open>Users\<close>

definition user_of_row :: "sbUser \<Rightarrow> UserAccount" where
  "user_of_row u = \<lparr>ua_UserID = su_UserID u, ua_Username = su_Username u, ua_Password = su_Password u,
     ua_AuthToken = su_AuthToken u, ua_CreatedAt = su_CreatedAt u\<rparr>"

definition sb_GetUserByToken :: "'s service \<Rightarrow> SupabaseStore \<Rightarrow> 's \<Rightarrow> string \<Rightarrow> 's \<times> (string + UserAccount option)" where
  "sb_GetUserByToken svc ss s token =
     (if token = '''' then (s, Inr None)
      else map_prod id (map_sum id (map_option user_of_row))
             (first_row unmarshal_sbUser zero_sbUser
               (sb_send svc ss s ''GET'' (''/users?auth_token=eq.'' @ QueryEscape token @ ''&limit=1'') None [])))"

definition sb_GetUserByUsername :: "'s service \<Rightarrow> SupabaseStore \<Rightarrow> 's \<Rightarrow> string \<Rightarrow> 's \<times> (string + UserAccount option)" where
  "sb_GetUserByUsername svc ss s username =
     map_prod id (map_sum id (map_option user_of_row))
       (first_row unmarshal_sbUser zero_sbUser
         (sb_send svc ss s ''GET'' (''/users?username=eq.'' @ QueryEscape username @ ''&limit=1'') None []))"

datatype sb_error = SbEmptyCredentials | SbUsernameTaken string | SbCreateFailed int string | SbInvalidCredentials | SbTransport string

definition sb_CreateUser ::
    "SbEnv \<Rightarrow> 's service \<Rightarrow> SupabaseStore \<Rightarrow> 's \<Rightarrow> string \<Rightarrow> string \<Rightarrow> 's \<times> (sb_error + UserAccount)" where
  "sb_CreateUser e svc ss s username password =
     (if username = '''' \<or> password = '''' then (s, Inl SbEmptyCredentials)
      else case sb_GetUserByUsername svc ss s username of
        (s, Inr (Some u)) \<Rightarrow> (s, Inl (SbUsernameTaken username))
      | (s, _) \<Rightarrow>
          (let u = \<lparr>su_UserID = ''usr_'' @ take 8 (sb_uuid1 e), su_Username = username, su_Password = password,
                    su_AuthToken = ''usr_tok_'' @ take 12 (sb_uuid2 e), su_CreatedAt = sb_now e\<rparr>
           in case sb_send svc ss s ''POST'' ''/users'' (Some (marshal_sbUser u)) [(''Prefer'', ''return=representation'')] of
                (s, TransportFailed err) \<Rightarrow> (s, Inl (SbTransport err))
              | (s, Answered status_code body j) \<Rightarrow>
                  if status_code \<ge> 300 then (s, Inl (SbCreateFailed status_code body)) else (s, Inr (user_of_row u))))"

definition sb_AuthenticateUser ::
    "'s service \<Rightarrow> SupabaseStore \<Rightarrow> 's \<Rightarrow> string \<Rightarrow> string \<Rightarrow> 's \<times> (sb_error + UserAccount)" where
  "sb_AuthenticateUser svc ss s username password =
     (case sb_GetUserByUsername svc ss s username of
        (s, Inr (Some u)) \<Rightarrow> if ua_Password u \<noteq> password then (s, Inl SbInvalidCredentials) else (s, Inr u)
      | (s, _) \<Rightarrow> (s, Inl SbInvalidCredentials))"

section \<open>Devices\<close>

definition sb_UpsertDevice :: "SbEnv \<Rightarrow> 's service \<Rightarrow> SupabaseStore \<Rightarrow> 's \<Rightarrow> DeviceInfo \<Rightarrow> 's \<times> string option" where
  "sb_UpsertDevice e svc ss s info =
     write_error (sb_send svc ss s ''POST'' ''/devices'' (Some (marshal_sbDevice
       \<lparr>sv_DeviceID = di_DeviceID info, sv_UserID = di_UserID info, sv_Hostname = di_Hostname info, sv_OS = di_OS info,
        sv_Status = di_Status info, sv_LastHeartbeat = di_LastHeartbeat info, sv_ConnectedAt = di_ConnectedAt info,
        sv_HealthJSON = sb_print e (marshal_HealthMetrics (di_Metrics info))\<rparr>)) merge_header)"

definition device_endpoint :: "string \<Rightarrow> string" where
  "device_endpoint deviceID = ''/devices?device_id=eq.'' @ QueryEscape deviceID"

text \<open>\<^verbatim>\<open>json.Marshal\<close> writes the members of a map in the order of their keys.\<close>

definition sb_UpdateDeviceHeartbeat ::
    "SbEnv \<Rightarrow> 's service \<Rightarrow> SupabaseStore \<Rightarrow> 's \<Rightarrow> string \<Rightarrow> HealthMetrics \<Rightarrow> string \<Rightarrow> 's \<times> string option" where
  "sb_UpdateDeviceHeartbeat e svc ss s deviceID metrics status =
     write_error (sb_send svc ss s ''PATCH'' (device_endpoint deviceID) (Some (JObj
       [(''health_json'', JStr (sb_print e (marshal_HealthMetrics metrics))),
        (''last_heartbeat'', enc_int (sb_now e)), (''status'', JStr status)])) [])"

definition sb_UpdateDeviceStatus :: "'s service \<Rightarrow> SupabaseStore \<Rightarrow> 's \<Rightarrow> string \<Rightarrow> string \<Rightarrow> 's \<times> string option" where
  "sb_UpdateDeviceStatus svc ss s deviceID status =
     write_error (sb_send svc ss s ''PATCH'' (device_endpoint deviceID) (Some (JObj [(''status'', JStr status)])) [])"

definition device_of_row :: "SbEnv \<Rightarrow> sbDevice \<Rightarrow> DeviceInfo" where
  "device_of_row e d =
     (let metrics = (if sv_HealthJSON d \<noteq> ''''
                     then case sb_parse e (sv_HealthJSON d) of
                            None \<Rightarrow> zero_HealthMetrics
                          | Some j \<Rightarrow> snd (unmarshal_HealthMetrics j zero_HealthMetrics)
                     else zero_HealthMetrics)
      in \<lparr>di_DeviceID = sv_DeviceID d, di_UserID = sv_UserID d, di_Hostname = sv_Hostname d, di_OS = sv_OS d,
          di_Status = sv_Status d, di_LastHeartbeat = sv_LastHeartbeat d, di_ConnectedAt = sv_ConnectedAt d,
          di_MACAddress = hm_MACAddress metrics, di_Metrics = metrics\<rparr>)"

definition sb_GetDevice :: "SbEnv \<Rightarrow> 's service \<Rightarrow> SupabaseStore \<Rightarrow> 's \<Rightarrow> string \<Rightarrow> 's \<times> (string + DeviceInfo option)" where
  "sb_GetDevice e svc ss s deviceID =
     map_prod id (map_sum id (map_option (device_of_row e)))
       (first_row unmarshal_sbDevice zero_sbDevice (sb_send svc ss s ''GET'' (device_endpoint deviceID @ ''&limit=1'') None []))"

definition sb_ListDevices :: "SbEnv \<Rightarrow> 's service \<Rightarrow> SupabaseStore \<Rightarrow> 's \<Rightarrow> 's \<times> (string + DeviceInfo list)" where
  "sb_ListDevices e svc ss s =
     map_prod id (map_sum id (map (device_of_row e)))
       (all_rows unmarshal_sbDevice zero_sbDevice (sb_send svc ss s ''GET'' ''/devices?order=last_heartbeat.desc'' None []))"

definition sb_ListDevicesForUser ::
    "SbEnv \<Rightarrow> 's service \<Rightarrow> SupabaseStore \<Rightarrow> 's \<Rightarrow> string \<Rightarrow> 's \<times> (string + DeviceInfo list)" where
  "sb_ListDevicesForUser e svc ss s userID =
     (if userID = '''' then sb_ListDevices e svc ss s
      else map_prod id (map_sum id (map (device_of_row e)))
             (all_rows unmarshal_sbDevice zero_sbDevice (sb_send svc ss s ''GET''
               (''/devices?user_id=eq.'' @ QueryEscape userID @ ''&order=last_heartbeat.desc'') None [])))"

definition sb_BindDeviceToUser :: "'s service \<Rightarrow> SupabaseStore \<Rightarrow> 's \<Rightarrow> string \<Rightarrow> string \<Rightarrow> 's \<times> string option" where
  "sb_BindDeviceToUser svc ss s deviceID userID =
     write_error (sb_send svc ss s ''PATCH'' (device_endpoint deviceID) (Some (JObj [(''user_id'', JStr userID)])) [])"

section \<open>Commands\<close>

definition sb_EnqueueCommand :: "SbEnv \<Rightarrow> 's service \<Rightarrow> SupabaseStore \<Rightarrow> 's \<Rightarrow> CommandPayload \<Rightarrow> 's \<times> string option" where
  "sb_EnqueueCommand e svc ss s cmd =
     (let now = (if cp_CreatedAt cmd = 0 then sb_now e else cp_CreatedAt cmd)
      in write_error (sb_send svc ss s ''POST'' ''/cloud_command_queue'' (Some (marshal_sbCommand
           \<lparr>sm_CommandID = cp_CommandID cmd, sm_DeviceID = cp_DeviceID cmd, sm_Command = cp_Command cmd,
            sm_TimeoutSec = cp_TimeoutSec cmd, sm_Status = StatusPending, sm_CreatedAt = now,
            sm_DispatchedAt = 0, sm_CompletedAt = 0\<rparr>)) merge_header))"

definition payload_of_row :: "sbCommand \<Rightarrow> CommandPayload" where
  "payload_of_row c = \<lparr>cp_CommandID = sm_CommandID c, cp_DeviceID = sm_DeviceID c, cp_Command = sm_Command c,
     cp_TimeoutSec = sm_TimeoutSec c, cp_CreatedAt = sm_CreatedAt c\<rparr>"

definition sb_GetPendingCommands :: "'s service \<Rightarrow> SupabaseStore \<Rightarrow> 's \<Rightarrow> string \<Rightarrow> 's \<times> (string + CommandPayload list)" where
  "sb_GetPendingCommands svc ss s deviceID =
     map_prod id (map_sum id (map payload_of_row))
       (all_rows unmarshal_sbCommand zero_sbCommand (sb_send svc ss s ''GET''
         (''/cloud_command_queue?device_id=eq.'' @ QueryEscape deviceID @ ''&status=eq.'' @ StatusPending @ ''&order=created_at.asc'')
         None []))"

definition command_endpoint :: "string \<Rightarrow> string" where
  "command_endpoint commandID = ''/cloud_command_queue?command_id=eq.'' @ QueryEscape commandID"

definition sb_MarkCommandDispatched :: "SbEnv \<Rightarrow> 's service \<Rightarrow> SupabaseStore \<Rightarrow> 's \<Rightarrow> string \<Rightarrow> 's \<times> string option" where
  "sb_MarkCommandDispatched e svc ss s commandID =
     write_error (sb_send svc ss s ''PATCH'' (command_endpoint commandID) (Some (JObj
       [(''dispatched_at'', enc_int (sb_now e)), (''status'', JStr StatusDispatched)])) [])"

definition sb_MarkCommandCompleted ::
    "SbEnv \<Rightarrow> 's service \<Rightarrow> SupabaseStore \<Rightarrow> 's \<Rightarrow> string \<Rightarrow> string \<Rightarrow> 's \<times> string option" where
  "sb_MarkCommandCompleted e svc ss s commandID status =
     write_error (sb_send svc ss s ''PATCH'' (command_endpoint commandID) (Some (JObj
       [(''completed_at'', enc_int (sb_now e)), (''status'', JStr status)])) [])"

definition record_of_row :: "sbCommand \<Rightarrow> CommandRecord" where
  "record_of_row c = \<lparr>cr_CommandID = sm_CommandID c, cr_DeviceID = sm_DeviceID c, cr_Command = sm_Command c,
     cr_TimeoutSec = sm_TimeoutSec c, cr_Status = sm_Status c, cr_CreatedAt = sm_CreatedAt c,
     cr_DispatchedAt = sm_DispatchedAt c, cr_CompletedAt = sm_CompletedAt c\<rparr>"

definition sb_GetCommand :: "'s service \<Rightarrow> SupabaseStore \<Rightarrow> 's \<Rightarrow> string \<Rightarrow> 's \<times> (string + CommandRecord option)" where
  "sb_GetCommand svc ss s commandID =
     map_prod id (map_sum id (map_option record_of_row))
       (first_row unmarshal_sbCommand zero_sbCommand (sb_send svc ss s ''GET'' (command_endpoint commandID @ ''&limit=1'') None []))"

section \<open>Results\<close>

definition sb_SaveResult :: "SbEnv \<Rightarrow> 's service \<Rightarrow> SupabaseStore \<Rightarrow> 's \<Rightarrow> ResultPayload \<Rightarrow> 's \<times> string option" where
  "sb_SaveResult e svc ss s res =
     (let (s, err) = write_error (sb_send svc ss s ''POST'' ''/cloud_result_queue'' (Some (marshal_sbResult
            \<lparr>sl_ResultID = sb_uuid1 e, sl_CommandID = rp_CommandID res, sl_DeviceID = rp_DeviceID res,
             sl_Stdout = rp_Stdout res, sl_Stderr = rp_Stderr res, sl_ExitCode = rp_ExitCode res,
             sl_ExecutedAt = rp_ExecutedAt res, sl_ReceivedAt = sb_now e\<rparr>)) merge_header);
          (s, _) = sb_MarkCommandCompleted e svc ss s (rp_CommandID res) StatusCompleted
      in (s, err))"

definition sb_SaveSandboxResult :: "SbEnv \<Rightarrow> 's service \<Rightarrow> SupabaseStore \<Rightarrow> 's \<Rightarrow> ResultPayload \<Rightarrow> 's \<times> string option" where
  "sb_SaveSandboxResult e svc ss s res = sb_SaveResult e svc ss s res"

definition result_of_sb :: "sbResult \<Rightarrow> ResultPayload" where
  "result_of_sb r = \<lparr>rp_ResultID = '''', rp_CommandID = sl_CommandID r, rp_DeviceID = sl_DeviceID r, rp_Stdout = sl_Stdout r,
     rp_Stderr = sl_Stderr r, rp_ExitCode = sl_ExitCode r, rp_ExecutedAt = sl_ExecutedAt r, rp_DurationMs = 0, rp_TimedOut = False\<rparr>"

definition sb_GetResult :: "'s service \<Rightarrow> SupabaseStore \<Rightarrow> 's \<Rightarrow> string \<Rightarrow> 's \<times> (string + ResultPayload option)" where
  "sb_GetResult svc ss s commandID =
     map_prod id (map_sum id (map_option result_of_sb))
       (first_row unmarshal_sbResult zero_sbResult (sb_send svc ss s ''GET''
         (''/cloud_result_queue?command_id=eq.'' @ QueryEscape commandID @ ''&limit=1'') None []))"

definition sb_ListResults :: "'s service \<Rightarrow> SupabaseStore \<Rightarrow> 's \<Rightarrow> string \<Rightarrow> int \<Rightarrow> 's \<times> (string + ResultPayload list)" where
  "sb_ListResults svc ss s deviceID limit =
     map_prod id (map_sum id (map result_of_sb))
       (all_rows unmarshal_sbResult zero_sbResult (sb_send svc ss s ''GET''
         (''/cloud_result_queue?device_id=eq.'' @ QueryEscape deviceID @ ''&order=executed_at.desc&limit='' @ itoa (sb_limit 50 limit))
         None []))"

section \<open>Audit log, telemetry and file cache\<close>

definition sb_RecordAuditLog :: "'s service \<Rightarrow> SupabaseStore \<Rightarrow> 's \<Rightarrow> AuditLogRecord \<Rightarrow> 's \<times> string option" where
  "sb_RecordAuditLog svc ss s entry =
     write_error (sb_send svc ss s ''POST'' ''/audit_logs'' (Some (marshal_sbAudit
       \<lparr>sa_LogID = al_LogID entry, sa_DeviceID = al_DeviceID entry, sa_Timestamp = al_Timestamp entry,
        sa_ActionType = al_ActionType entry, sa_CommandText = al_CommandText entry, sa_ExitCode = al_ExitCode entry,
        sa_DurationMs = al_DurationMs entry, sa_Details = al_Details entry\<rparr>)) merge_header)"

definition audit_of_row :: "sbAudit \<Rightarrow> AuditLogRecord" where
  "audit_of_row a = \<lparr>al_LogID = sa_LogID a, al_DeviceID = sa_DeviceID a, al_Timestamp = sa_Timestamp a,
     al_ActionType = sa_ActionType a, al_CommandText = sa_CommandText a, al_ExitCode = sa_ExitCode a,
     al_DurationMs = sa_DurationMs a, al_Details = sa_Details a\<rparr>"

definition sb_ListAuditLogs :: "'s service \<Rightarrow> SupabaseStore \<Rightarrow> 's \<Rightarrow> string \<Rightarrow> int \<Rightarrow> 's \<times> (string + AuditLogRecord list)" where
  "sb_ListAuditLogs svc ss s deviceID limit =
     (let lim = itoa (sb_limit 100 limit);
          endpoint = (if deviceID \<noteq> ''''
                      then ''/audit_logs?device_id=eq.'' @ QueryEscape deviceID @ ''&order=timestamp.desc&limit='' @ lim
                      else ''/audit_logs?order=timestamp.desc&limit='' @ lim)
      in map_prod id (map_sum id (map audit_of_row))
           (all_rows unmarshal_sbAudit zero_sbAudit (sb_send svc ss s ''GET'' endpoint None [])))"

definition sb_telemetry_json :: "TelemetryPoint \<Rightarrow> json" where
  "sb_telemetry_json p = JObj
     [(''cpu_percent'', JNum (tp_CPUPercent p)), (''device_id'', JStr (tp_DeviceID p)),
      (''disk_total_bytes'', enc_int (tp_DiskTotalBytes p)), (''disk_used_bytes'', enc_int (tp_DiskUsedBytes p)),
      (''ping_latency_ms'', enc_int (tp_PingLatencyMs p)), (''process_count'', enc_int (tp_ProcessCount p)),
      (''ram_percent'', JNum (tp_RAMPercent p)), (''ram_total_bytes'', enc_int (tp_RAMTotalBytes p)),
      (''ram_used_bytes'', enc_int (tp_RAMUsedBytes p)), (''timestamp'', enc_int (tp_Timestamp p))]"

definition sb_telemetry_row :: "TelemetryPoint dec" where
  "sb_telemetry_row = dec_struct
     [(''device_id'', into dec_string tp_DeviceID tp_DeviceID_update),
      (''timestamp'', into dec_int64 tp_Timestamp tp_Timestamp_update),
      (''cpu_percent'', into dec_float tp_CPUPercent tp_CPUPercent_update),
      (''ram_percent'', into dec_float tp_RAMPercent tp_RAMPercent_update),
      (''ram_used_bytes'', into dec_uint64 tp_RAMUsedBytes tp_RAMUsedBytes_update),
      (''ram_total_bytes'', into dec_uint64 tp_RAMTotalBytes tp_RAMTotalBytes_update),
      (''disk_used_bytes'', into dec_uint64 tp_DiskUsedBytes tp_DiskUsedBytes_update),
      (''disk_total_bytes'', into dec_uint64 tp_DiskTotalBytes tp_DiskTotalBytes_update),
      (''process_count'', into dec_int64 tp_ProcessCount tp_ProcessCount_update),
      (''ping_latency_ms'', into dec_int64 tp_PingLatencyMs tp_PingLatencyMs_update)]"

definition sb_RecordTelemetry :: "'s service \<Rightarrow> SupabaseStore \<Rightarrow> 's \<Rightarrow> TelemetryPoint \<Rightarrow> 's \<times> string option" where
  "sb_RecordTelemetry svc ss s point =
     write_error (sb_send svc ss s ''POST'' ''/telemetry_history'' (Some (sb_telemetry_json point)) merge_header)"

definition sb_GetTelemetryHistory ::
    "'s service \<Rightarrow> SupabaseStore \<Rightarrow> 's \<Rightarrow> string \<Rightarrow> int \<Rightarrow> 's \<times> (string + TelemetryPoint list)" where
  "sb_GetTelemetryHistory svc ss s deviceID limit =
     map_prod id (map_sum id rev)
       (all_rows sb_telemetry_row zero_TelemetryPoint (sb_send svc ss s ''GET''
         (''/telemetry_history?device_id=eq.'' @ QueryEscape deviceID @ ''&order=timestamp.desc&limit='' @ itoa (sb_limit 60 limit))
         None []))"

definition sb_CacheDirectoryListing ::
    "SbEnv \<Rightarrow> 's service \<Rightarrow> SupabaseStore \<Rightarrow> 's \<Rightarrow> string \<Rightarrow> string \<Rightarrow> FileInfo list \<Rightarrow> 's \<times> string option" where
  "sb_CacheDirectoryListing e svc ss s deviceID path files =
     write_error (sb_send svc ss s ''POST'' ''/cloud_file_cache'' (Some (JObj
       [(''device_id'', JStr deviceID), (''files_json'', JStr (sb_print e (enc_slice marshal_FileInfo files))),
        (''is_dir'', enc_int 1), (''path'', JStr path), (''updated_at'', enc_int (sb_now e))])) merge_header)"

definition cache_endpoint :: "string \<Rightarrow> string \<Rightarrow> string \<Rightarrow> string" where
  "cache_endpoint deviceID path isDir =
     ''/cloud_file_cache?device_id=eq.'' @ QueryEscape deviceID @ ''&path=eq.'' @ QueryEscape path @ ''&is_dir=eq.'' @ isDir @ ''&limit=1''"

definition sb_GetCachedDirectoryListing ::
    "SbEnv \<Rightarrow> 's service \<Rightarrow> SupabaseStore \<Rightarrow> 's \<Rightarrow> string \<Rightarrow> string \<Rightarrow> 's \<times> FileInfo list option" where
  "sb_GetCachedDirectoryListing e svc ss s deviceID path =
     (case first_row (dec_struct [(''files_json'', dec_string)]) '''' (sb_send svc ss s ''GET'' (cache_endpoint deviceID path ''1'') None []) of
        (s, Inr (Some text)) \<Rightarrow>
          (s, if text = '''' then None
              else case sb_parse e text of
                None \<Rightarrow> None
              | Some j \<Rightarrow> (case dec_slice unmarshal_FileInfo zero_FileInfo j [] of (err, files) \<Rightarrow> if err then None else Some files))
      | (s, _) \<Rightarrow> (s, None))"

definition sb_CacheFileContent ::
    "SbEnv \<Rightarrow> 's service \<Rightarrow> SupabaseStore \<Rightarrow> 's \<Rightarrow> string \<Rightarrow> string \<Rightarrow> string \<Rightarrow> int \<Rightarrow> 's \<times> string option" where
  "sb_CacheFileContent e svc ss s deviceID path contentBase64 sizeBytes =
     write_error (sb_send svc ss s ''POST'' ''/cloud_file_cache'' (Some (JObj
       [(''content_base64'', JStr contentBase64), (''device_id'', JStr deviceID), (''is_dir'', enc_int 0), (''path'', JStr path),
        (''size_bytes'', enc_int sizeBytes), (''updated_at'', enc_int (sb_now e))])) merge_header)"

definition sb_GetCachedFileContent ::
    "'s service \<Rightarrow> SupabaseStore \<Rightarrow> 's \<Rightarrow> string \<Rightarrow> string \<Rightarrow> 's \<times> (string \<times> int) option" where
  "sb_GetCachedFileContent svc ss s deviceID path =
     (case first_row (dec_struct [(''content_base64'', into dec_string fst (\<lambda>f. apfst f)), (''size_bytes'', into dec_int64 snd (\<lambda>f. apsnd f))])
             ('''', 0) (sb_send svc ss s ''GET'' (cache_endpoint deviceID path ''0'') None []) of
        (s, Inr row) \<Rightarrow> (s, row)
      | (s, Inl err) \<Rightarrow> (s, None))"

end
