(* ===== verification/Schema.thy ===== *)
theory Schema
  imports AgentStore RelayStore Paths
begin

text \<open>
  Opening the two SQLite databases: the statements of the two schemas (the relay's \<^verbatim>\<open>internal/store/store.go\<close> and the
  agent's \<^verbatim>\<open>agent/internal/store/store.go\<close>), \<open>migrate\<close> and \<open>Open\<close>, and the table and the columns that each statement of the two
  stores names. A catalog is what a database file holds besides its rows: its tables, with the columns, keys and constraints as
  declared, and its indexes. Names are compared without regard to case, as SQLite does.
\<close>

section \<open>Catalogs\<close>

datatype col_type = TEXT | INTEGER | REAL

record Column =
  cl_name :: string
  cl_type :: col_type
  cl_notnull :: bool
  cl_default :: "string option"
  cl_unique :: bool
  cl_check :: "string list"

record TableDef =
  td_name :: string
  td_columns :: "Column list"
  td_key :: "string list"
  td_foreign :: "(string \<times> string \<times> string) list"

record Catalog =
  ct_tables :: "TableDef list"
  ct_indexes :: "(string \<times> string) list"

datatype schema_error = NoSuchTable string | NoSuchColumn string | NameTaken string | DuplicateColumn string | NullDefault string

datatype ddl =
    CreateTable TableDef
  | CreateIndex string string "string list"
  | AddColumn string Column

definition same_name :: "string \<Rightarrow> string \<Rightarrow> bool" where
  "same_name a b \<longleftrightarrow> ToLower a = ToLower b"

text \<open>Compared character by character, so that it can be evaluated quickly.\<close>

fun same_fold :: "string \<Rightarrow> string \<Rightarrow> bool" where
  "same_fold [] [] = True"
| "same_fold (x # xs) (y # ys) = (if x = y then same_fold xs ys else if lower_char x = lower_char y then same_fold xs ys else False)"
| "same_fold [] (y # ys) = False"
| "same_fold (x # xs) [] = False"

lemma same_name_fold [code]: "same_name a b = same_fold a b"
  by (induction a b rule: same_fold.induct) (auto simp: same_name_def ToLower_def)

definition find_table :: "Catalog \<Rightarrow> string \<Rightarrow> TableDef option" where
  "find_table c name = find (\<lambda>t. same_name (td_name t) name) (ct_tables c)"

definition has_index :: "Catalog \<Rightarrow> string \<Rightarrow> bool" where
  "has_index c name \<longleftrightarrow> list_ex (\<lambda>(i, t). same_name i name) (ct_indexes c)"

definition has_column :: "TableDef \<Rightarrow> string \<Rightarrow> bool" where
  "has_column t name \<longleftrightarrow> list_ex (\<lambda>col. same_name (cl_name col) name) (td_columns t)"

text \<open>\<open>IF NOT EXISTS\<close> makes the creation of something that exists succeed without effect.\<close>

fun exec_ddl :: "Catalog \<Rightarrow> ddl \<Rightarrow> Catalog \<times> schema_error option" where
  "exec_ddl c (CreateTable t) =
     (if find_table c (td_name t) \<noteq> None then (c, None)
      else if has_index c (td_name t) then (c, Some (NameTaken (td_name t)))
      else (c\<lparr>ct_tables := ct_tables c @ [t]\<rparr>, None))"
| "exec_ddl c (CreateIndex i t cols) =
     (case find_table c t of
        None \<Rightarrow> (c, Some (NoSuchTable t))
      | Some td \<Rightarrow>
          if find_table c i \<noteq> None then (c, Some (NameTaken i))
          else if has_index c i then (c, None)
          else case find (\<lambda>col. \<not> has_column td col) cols of
                 Some col \<Rightarrow> (c, Some (NoSuchColumn col))
               | None \<Rightarrow> (c\<lparr>ct_indexes := ct_indexes c @ [(i, t)]\<rparr>, None))"
| "exec_ddl c (AddColumn t col) =
     (case find_table c t of
        None \<Rightarrow> (c, Some (NoSuchTable t))
      | Some td \<Rightarrow>
          if has_column td (cl_name col) then (c, Some (DuplicateColumn (cl_name col)))
          else if cl_notnull col \<and> cl_default col = None then (c, Some (NullDefault (cl_name col)))
          else (c\<lparr>ct_tables := map (\<lambda>x. if same_name (td_name x) t then x\<lparr>td_columns := td_columns x @ [col]\<rparr> else x)
                   (ct_tables c)\<rparr>, None))"

text \<open>\<open>Exec\<close> of several statements stops at the first that fails; what was done before stays.\<close>

fun exec_all :: "Catalog \<Rightarrow> ddl list \<Rightarrow> Catalog \<times> schema_error option" where
  "exec_all c [] = (c, None)"
| "exec_all c (s # ss) = (case exec_ddl c s of (c, None) \<Rightarrow> exec_all c ss | (c, Some err) \<Rightarrow> (c, Some err))"

section \<open>The relay's schema\<close>

definition plain :: "string \<Rightarrow> col_type \<Rightarrow> Column" where
  "plain n t = \<lparr>cl_name = n, cl_type = t, cl_notnull = False, cl_default = None, cl_unique = False, cl_check = []\<rparr>"

definition not_null :: "string \<Rightarrow> col_type \<Rightarrow> Column" where
  "not_null n t = (plain n t)\<lparr>cl_notnull := True\<rparr>"

definition dflt :: "string \<Rightarrow> Column \<Rightarrow> Column" where
  "dflt v c = c\<lparr>cl_default := Some v\<rparr>"

definition unique :: "Column \<Rightarrow> Column" where
  "unique c = c\<lparr>cl_unique := True\<rparr>"

definition check_in :: "string list \<Rightarrow> Column \<Rightarrow> Column" where
  "check_in vs c = c\<lparr>cl_check := vs\<rparr>"

definition Users_table :: TableDef where
  "Users_table = \<lparr>td_name = ''Users'', td_columns = [plain ''UserId'' TEXT, unique (not_null ''Username'' TEXT),
     not_null ''Password'' TEXT, unique (not_null ''AuthToken'' TEXT), not_null ''CreatedAt'' INTEGER],
     td_key = [''UserId''], td_foreign = []\<rparr>"

definition Devices_table :: TableDef where
  "Devices_table = \<lparr>td_name = ''Devices'', td_columns = [plain ''DeviceId'' TEXT, dflt '''' (not_null ''UserId'' TEXT),
     plain ''Hostname'' TEXT, plain ''OS'' TEXT, dflt ''OFFLINE'' (not_null ''Status'' TEXT),
     dflt ''0'' (not_null ''LastHeartbeat'' INTEGER), dflt ''0'' (not_null ''ConnectedAt'' INTEGER), plain ''HealthJSON'' TEXT],
     td_key = [''DeviceId''], td_foreign = []\<rparr>"

definition CloudCommandQueue_table :: TableDef where
  "CloudCommandQueue_table = \<lparr>td_name = ''CloudCommandQueue'', td_columns = [plain ''CommandId'' TEXT, not_null ''DeviceId'' TEXT,
     not_null ''Command'' TEXT, dflt ''0'' (plain ''TimeoutSec'' INTEGER),
     check_in [''PENDING'', ''DISPATCHED'', ''COMPLETED'', ''FAILED''] (not_null ''Status'' TEXT), not_null ''CreatedAt'' INTEGER,
     dflt ''0'' (plain ''DispatchedAt'' INTEGER), dflt ''0'' (plain ''CompletedAt'' INTEGER)],
     td_key = [''CommandId''], td_foreign = [(''DeviceId'', ''Devices'', ''DeviceId'')]\<rparr>"

definition CloudResultQueue_table :: TableDef where
  "CloudResultQueue_table = \<lparr>td_name = ''CloudResultQueue'', td_columns = [plain ''ResultId'' TEXT, not_null ''CommandId'' TEXT,
     not_null ''DeviceId'' TEXT, plain ''Stdout'' TEXT, plain ''Stderr'' TEXT, plain ''ExitCode'' INTEGER,
     not_null ''ExecutedAt'' INTEGER, not_null ''ReceivedAt'' INTEGER],
     td_key = [''ResultId''], td_foreign = []\<rparr>"

definition AuditLogs_table :: TableDef where
  "AuditLogs_table = \<lparr>td_name = ''AuditLogs'', td_columns = [plain ''LogId'' TEXT, not_null ''DeviceId'' TEXT,
     not_null ''Timestamp'' INTEGER, not_null ''ActionType'' TEXT, plain ''CommandText'' TEXT, dflt ''0'' (plain ''ExitCode'' INTEGER),
     dflt ''0'' (plain ''DurationMs'' INTEGER), plain ''Details'' TEXT],
     td_key = [''LogId''], td_foreign = []\<rparr>"

definition TelemetryHistory_table :: TableDef where
  \<comment> \<open>\<open>Id\<close> is AUTOINCREMENT: an insertion need not give it\<close>
  "TelemetryHistory_table = \<lparr>td_name = ''TelemetryHistory'', td_columns = [plain ''Id'' INTEGER, not_null ''DeviceId'' TEXT,
     not_null ''Timestamp'' INTEGER, dflt ''0'' (not_null ''CPUPercent'' REAL), dflt ''0'' (not_null ''RAMPercent'' REAL),
     dflt ''0'' (not_null ''RAMUsedBytes'' INTEGER), dflt ''0'' (not_null ''RAMTotalBytes'' INTEGER),
     dflt ''0'' (not_null ''DiskUsedBytes'' INTEGER), dflt ''0'' (not_null ''DiskTotalBytes'' INTEGER),
     dflt ''0'' (not_null ''ProcessCount'' INTEGER), dflt ''0'' (not_null ''PingLatencyMs'' INTEGER)],
     td_key = [''Id''], td_foreign = []\<rparr>"

definition CloudFileCache_table :: TableDef where
  "CloudFileCache_table = \<lparr>td_name = ''CloudFileCache'', td_columns = [not_null ''DeviceId'' TEXT, not_null ''Path'' TEXT,
     dflt ''0'' (not_null ''IsDir'' INTEGER), dflt ''0'' (not_null ''SizeBytes'' INTEGER), plain ''ContentBase64'' TEXT,
     plain ''FilesJSON'' TEXT, not_null ''UpdatedAt'' INTEGER],
     td_key = [''DeviceId'', ''Path''], td_foreign = []\<rparr>"

definition relay_schema :: "ddl list" where
  "relay_schema = [
     CreateTable Users_table,
     CreateIndex ''idx_users_token'' ''Users'' [''AuthToken''],
     CreateTable Devices_table,
     CreateIndex ''idx_dev_user'' ''Devices'' [''UserId''],
     CreateTable CloudCommandQueue_table,
     CreateIndex ''idx_cloud_cmd'' ''CloudCommandQueue'' [''DeviceId'', ''Status'', ''CreatedAt''],
     CreateTable CloudResultQueue_table,
     CreateIndex ''idx_cloud_res_cmd'' ''CloudResultQueue'' [''CommandId''],
     CreateIndex ''idx_cloud_res_dev'' ''CloudResultQueue'' [''DeviceId'', ''ExecutedAt''],
     CreateTable AuditLogs_table,
     CreateIndex ''idx_audit_dev'' ''AuditLogs'' [''DeviceId'', ''Timestamp''],
     CreateIndex ''idx_audit_time'' ''AuditLogs'' [''Timestamp''],
     CreateTable TelemetryHistory_table,
     CreateIndex ''idx_telemetry_dev_time'' ''TelemetryHistory'' [''DeviceId'', ''Timestamp''],
     CreateTable CloudFileCache_table,
     CreateIndex ''idx_filecache_dev'' ''CloudFileCache'' [''DeviceId'', ''Path'']]"

definition relay_migrate :: "Catalog \<Rightarrow> Catalog \<times> schema_error option" where
  \<comment> \<open>the error of the last statement is discarded\<close>
  "relay_migrate c =
     (case exec_all c relay_schema of
        (c, Some err) \<Rightarrow> (c, Some err)
      | (c, None) \<Rightarrow> (fst (exec_ddl c (AddColumn ''Devices'' (dflt '''' (not_null ''UserId'' TEXT)))), None))"

section \<open>The agent's schema\<close>

definition CommandQueue_table :: TableDef where
  "CommandQueue_table = \<lparr>td_name = ''CommandQueue'', td_columns = [plain ''CommandId'' TEXT, not_null ''Payload'' TEXT,
     check_in [''PENDING'', ''EXECUTING'', ''COMPLETED'', ''FAILED''] (not_null ''Status'' TEXT), not_null ''CreatedAt'' INTEGER,
     dflt ''0'' (not_null ''Attempts'' INTEGER)],
     td_key = [''CommandId''], td_foreign = []\<rparr>"

definition ResultQueue_table :: TableDef where
  "ResultQueue_table = \<lparr>td_name = ''ResultQueue'', td_columns = [plain ''ResultId'' TEXT, not_null ''CommandId'' TEXT,
     plain ''Stdout'' TEXT, plain ''Stderr'' TEXT, plain ''ExitCode'' INTEGER, not_null ''ExecutedAt'' INTEGER,
     dflt ''0'' (not_null ''Synced'' INTEGER)],
     td_key = [''ResultId''], td_foreign = [(''CommandId'', ''CommandQueue'', ''CommandId'')]\<rparr>"

definition agent_schema :: "ddl list" where
  "agent_schema = [
     CreateTable CommandQueue_table,
     CreateIndex ''idx_cmd_status'' ''CommandQueue'' [''Status'', ''CreatedAt''],
     CreateTable ResultQueue_table,
     CreateIndex ''idx_result_synced'' ''ResultQueue'' [''Synced'']]"

definition agent_migrate :: "Catalog \<Rightarrow> Catalog \<times> schema_error option" where
  "agent_migrate c = exec_all c agent_schema"

section \<open>Opening\<close>

text \<open>
  The outside world of \<open>Open\<close>: whether the program runs on Windows, the errors of \<^verbatim>\<open>os.MkdirAll\<close>, of the driver and of the
  first contact with the file, and what the file holds, its catalog and its rows.
\<close>

record 'db SqlEnv =
  sq_win :: bool
  sq_mkdir :: "string \<Rightarrow> string option"
  sq_open :: "string \<Rightarrow> string option"
  sq_ping :: "string \<Rightarrow> string option"
  sq_file :: "string \<Rightarrow> Catalog \<times> 'db"

datatype open_error = MkdirError string string | DriverError string | PingError string string | MigrateError schema_error

definition ToSlash :: "bool \<Rightarrow> string \<Rightarrow> string" where
  "ToSlash win path = (if win then map (\<lambda>c. if c = CHR 0x5C then CHR ''/'' else c) path else path)"

definition sqlite_dsn :: "bool \<Rightarrow> string \<Rightarrow> string" where
  "sqlite_dsn win path = ToSlash win path
     @ ''?_pragma=busy_timeout(5000)&_pragma=journal_mode(WAL)&_pragma=foreign_keys(ON)''"

definition mkdir_error :: "'db SqlEnv \<Rightarrow> string \<Rightarrow> string option" where
  "mkdir_error se path =
     (let dir = Dir (sq_win se) path in if dir \<noteq> '''' \<and> dir \<noteq> ''.'' then sq_mkdir se dir else None)"

definition open_sqlite :: "(Catalog \<Rightarrow> Catalog \<times> schema_error option) \<Rightarrow> 'db SqlEnv \<Rightarrow> string \<Rightarrow> open_error + Catalog \<times> 'db" where
  "open_sqlite migrate se path =
     (case mkdir_error se path of
        Some msg \<Rightarrow> Inl (MkdirError (Dir (sq_win se) path) msg)
      | None \<Rightarrow>
          (let dsn = sqlite_dsn (sq_win se) path in
           case sq_open se dsn of
             Some msg \<Rightarrow> Inl (DriverError msg)
           | None \<Rightarrow>
               (case sq_ping se dsn of
                  Some msg \<Rightarrow> Inl (PingError path msg)
                | None \<Rightarrow>
                    (let (cat, db) = sq_file se dsn in
                     case migrate cat of
                       (cat, Some err) \<Rightarrow> Inl (MigrateError err)
                     | (cat, None) \<Rightarrow> Inr (cat, db)))))"

definition relay_open :: "DB SqlEnv \<Rightarrow> string \<Rightarrow> open_error + Catalog \<times> DB" where
  "relay_open se path = open_sqlite relay_migrate se path"

definition agent_open :: "AgentDB SqlEnv \<Rightarrow> string \<Rightarrow> open_error + Catalog \<times> AgentDB" where
  "agent_open se path = open_sqlite agent_migrate se path"

section \<open>What the statements of the stores name\<close>

text \<open>
  A statement names a table, the columns it gives values to (or reads), the columns of its conditions and order, and, for an
  insertion that updates on conflict, the columns of the conflict.
\<close>

datatype sql_use =
    Insert string "string list" "string list"
  | Update string "string list" "string list"
  | Select string "string list" "string list"

definition device_columns :: "string list" where
  "device_columns = [''DeviceId'', ''UserId'', ''Hostname'', ''OS'', ''Status'', ''LastHeartbeat'', ''ConnectedAt'', ''HealthJSON'']"

definition user_columns :: "string list" where
  "user_columns = [''UserId'', ''Username'', ''Password'', ''AuthToken'', ''CreatedAt'']"

definition command_columns :: "string list" where
  "command_columns = [''CommandId'', ''DeviceId'', ''Command'', ''TimeoutSec'', ''Status'', ''CreatedAt'', ''DispatchedAt'', ''CompletedAt'']"

definition result_columns :: "string list" where
  "result_columns = [''ResultId'', ''CommandId'', ''DeviceId'', ''Stdout'', ''Stderr'', ''ExitCode'', ''ExecutedAt'']"

definition audit_columns :: "string list" where
  "audit_columns = [''LogId'', ''DeviceId'', ''Timestamp'', ''ActionType'', ''CommandText'', ''ExitCode'', ''DurationMs'', ''Details'']"

definition telemetry_columns :: "string list" where
  "telemetry_columns = [''DeviceId'', ''Timestamp'', ''CPUPercent'', ''RAMPercent'', ''RAMUsedBytes'', ''RAMTotalBytes'',
     ''DiskUsedBytes'', ''DiskTotalBytes'', ''ProcessCount'', ''PingLatencyMs'']"

definition relay_statements :: "(string \<times> sql_use) list" where
  "relay_statements = [
     (''UpsertDevice'', Insert ''Devices'' device_columns [''DeviceId'']),
     (''UpdateDeviceHeartbeat'', Update ''Devices'' [''LastHeartbeat'', ''HealthJSON'', ''Status''] [''DeviceId'']),
     (''UpdateDeviceStatus'', Update ''Devices'' [''Status''] [''DeviceId'']),
     (''GetDevice'', Select ''Devices'' device_columns [''DeviceId'']),
     (''ListDevices'', Select ''Devices'' device_columns [''LastHeartbeat'']),
     (''CreateUser'', Insert ''Users'' user_columns []),
     (''AuthenticateUser'', Select ''Users'' user_columns [''Username'', ''Password'']),
     (''GetUserByToken'', Select ''Users'' user_columns [''AuthToken'']),
     (''GetUserByUsername'', Select ''Users'' user_columns [''Username'']),
     (''ListDevicesForUser'', Select ''Devices'' device_columns [''UserId'', ''LastHeartbeat'']),
     (''BindDeviceToUser'', Update ''Devices'' [''UserId''] [''DeviceId'']),
     (''EnqueueCommand'', Insert ''Devices'' [''DeviceId'', ''Status''] []),
     (''EnqueueCommand'', Insert ''CloudCommandQueue''
        [''CommandId'', ''DeviceId'', ''Command'', ''TimeoutSec'', ''Status'', ''CreatedAt''] []),
     (''GetPendingCommands'', Select ''CloudCommandQueue'' [''CommandId'', ''DeviceId'', ''Command'', ''TimeoutSec'', ''CreatedAt'']
        [''DeviceId'', ''Status'', ''CreatedAt'', ''CommandId'']),
     (''CancelPendingCommands'', Update ''CloudCommandQueue'' [''Status'', ''CompletedAt''] [''DeviceId'', ''Status'']),
     (''MarkCommandDispatched'', Update ''CloudCommandQueue'' [''Status'', ''DispatchedAt''] [''CommandId'', ''Status'']),
     (''MarkCommandCompleted'', Update ''CloudCommandQueue'' [''Status'', ''CompletedAt''] [''CommandId'']),
     (''GetCommand'', Select ''CloudCommandQueue'' command_columns [''CommandId'']),
     (''ListCommands'', Select ''CloudCommandQueue'' command_columns [''DeviceId'', ''CreatedAt'']),
     (''SaveResult'', Insert ''CloudResultQueue'' (result_columns @ [''ReceivedAt'']) [''ResultId'']),
     (''SaveSandboxResult'', Insert ''CloudResultQueue'' (result_columns @ [''ReceivedAt'']) [''ResultId'']),
     (''GetResult'', Select ''CloudResultQueue'' result_columns [''CommandId'']),
     (''ListResults'', Select ''CloudResultQueue'' result_columns [''DeviceId'', ''ExecutedAt'']),
     (''RecordAuditLog'', Insert ''AuditLogs'' audit_columns []),
     (''ListAuditLogs'', Select ''AuditLogs'' audit_columns [''DeviceId'', ''Timestamp'']),
     (''RecordTelemetry'', Insert ''TelemetryHistory'' telemetry_columns []),
     (''GetTelemetryHistory'', Select ''TelemetryHistory'' telemetry_columns [''DeviceId'', ''Timestamp'']),
     (''CacheDirectoryListing'', Insert ''CloudFileCache''
        [''DeviceId'', ''Path'', ''IsDir'', ''SizeBytes'', ''FilesJSON'', ''UpdatedAt''] [''DeviceId'', ''Path'']),
     (''GetCachedDirectoryListing'', Select ''CloudFileCache'' [''FilesJSON''] [''DeviceId'', ''Path'', ''IsDir'']),
     (''CacheFileContent'', Insert ''CloudFileCache''
        [''DeviceId'', ''Path'', ''IsDir'', ''SizeBytes'', ''ContentBase64'', ''UpdatedAt''] [''DeviceId'', ''Path'']),
     (''GetCachedFileContent'', Select ''CloudFileCache'' [''ContentBase64'', ''SizeBytes''] [''DeviceId'', ''Path'', ''IsDir''])]"

definition queue_columns :: "string list" where
  "queue_columns = [''CommandId'', ''Payload'', ''Status'', ''CreatedAt'', ''Attempts'']"

definition agent_result_columns :: "string list" where
  "agent_result_columns = [''ResultId'', ''CommandId'', ''Stdout'', ''Stderr'', ''ExitCode'', ''ExecutedAt'', ''Synced'']"

definition agent_uses :: "(string \<times> sql_use) list" where
  "agent_uses = [
     (''Enqueue'', Insert ''CommandQueue'' queue_columns []),
     (''EnqueueWithID'', Insert ''CommandQueue'' queue_columns [''CommandId'']),
     (''ClaimNext'', Select ''CommandQueue'' queue_columns [''Status'', ''Attempts'', ''CreatedAt'', ''CommandId'']),
     (''ClaimNext'', Update ''CommandQueue'' [''Status'', ''Attempts''] [''CommandId'', ''Status'']),
     (''Complete'', Update ''CommandQueue'' [''Status''] [''CommandId'']),
     (''Requeue'', Update ''CommandQueue'' [''Status''] [''CommandId'']),
     (''SaveResult'', Insert ''ResultQueue'' agent_result_columns []),
     (''RecoverStale'', Update ''CommandQueue'' [''Status''] [''Attempts'', ''Status'']),
     (''GetCommand'', Select ''CommandQueue'' queue_columns [''CommandId'']),
     (''ListCommands'', Select ''CommandQueue'' queue_columns [''CreatedAt'']),
     (''ListResults'', Select ''ResultQueue'' agent_result_columns [''CommandId'', ''ExecutedAt'']),
     (''ListUnsyncedResults'', Select ''ResultQueue'' agent_result_columns [''Synced'', ''ExecutedAt'']),
     (''MarkResultSynced'', Update ''ResultQueue'' [''Synced''] [''CommandId''])]"

text \<open>
  A statement fits a catalog when the table and the columns exist, an insertion gives a value to every column that must not be
  NULL and has no default, and the columns of its conflict are the primary key.
\<close>

definition column_names :: "TableDef \<Rightarrow> string list" where
  "column_names td = map cl_name (td_columns td)"

definition mandatory :: "TableDef \<Rightarrow> string list" where
  "mandatory td = map cl_name (filter (\<lambda>col. cl_notnull col \<and> cl_default col = None) (td_columns td))"

definition fits :: "Catalog \<Rightarrow> sql_use \<Rightarrow> bool" where
  "fits c u =
     (case u of
        Insert t cols conflict \<Rightarrow>
          (case find_table c t of None \<Rightarrow> False | Some td \<Rightarrow>
             list_all (has_column td) cols
             \<and> list_all (List.member cols) (mandatory td)
             \<and> (conflict = [] \<or> conflict = td_key td))
      | Update t cols conds \<Rightarrow>
          (case find_table c t of None \<Rightarrow> False | Some td \<Rightarrow> list_all (has_column td) (cols @ conds))
      | Select t cols conds \<Rightarrow>
          (case find_table c t of None \<Rightarrow> False | Some td \<Rightarrow> list_all (has_column td) (cols @ conds)))"

section \<open>Running the schema again\<close>

text \<open>What a successful statement leaves behind, and what keeps it there.\<close>

fun in_place :: "Catalog \<Rightarrow> ddl \<Rightarrow> bool" where
  "in_place c (CreateTable t) \<longleftrightarrow> find_table c (td_name t) \<noteq> None"
| "in_place c (CreateIndex i t cols) \<longleftrightarrow> find_table c t \<noteq> None \<and> find_table c i = None \<and> has_index c i"
| "in_place c (AddColumn t col) \<longleftrightarrow> False"

definition creates :: "ddl \<Rightarrow> bool" where
  "creates s \<longleftrightarrow> (case s of AddColumn t col \<Rightarrow> False | _ \<Rightarrow> True)"

lemma in_place_exec: "in_place c s \<Longrightarrow> exec_ddl c s = (c, None)"
  by (cases s) auto

lemma in_place_exec_all: "\<forall>s \<in> set ss. in_place c s \<Longrightarrow> exec_all c ss = (c, None)"
  by (induction ss) (auto simp: in_place_exec)

lemma find_table_append:
  "find_table (c\<lparr>ct_tables := ct_tables c @ [t]\<rparr>) n =
     (case find_table c n of Some x \<Rightarrow> Some x | None \<Rightarrow> if same_name (td_name t) n then Some t else None)"
  by (simp add: find_table_def find_append_single split: option.split)

lemma find_table_index [simp]: "find_table (c\<lparr>ct_indexes := is\<rparr>) n = find_table c n"
  by (simp add: find_table_def)

lemma has_index_append [simp]:
  "has_index (c\<lparr>ct_indexes := ct_indexes c @ [(i, t)]\<rparr>) n \<longleftrightarrow> has_index c n \<or> same_name i n"
  "has_index (c\<lparr>ct_tables := ts\<rparr>) n = has_index c n"
  "has_index (c\<lparr>ct_tables := ts, ct_indexes := ct_indexes c @ [(i, t)]\<rparr>) n \<longleftrightarrow> has_index c n \<or> same_name i n"
  by (auto simp: has_index_def)

lemma same_name_refl [simp]: "same_name n n"
  by (simp add: same_name_def)

lemma exec_ddl_in_place: "creates s \<Longrightarrow> exec_ddl c s = (c', None) \<Longrightarrow> in_place c' s"
  by (cases s) (auto simp: creates_def find_table_append split: if_splits option.splits)

text \<open>A statement keeps in place what was; tables that existed stay as they are.\<close>

lemma find_table_cong: "same_name a b \<Longrightarrow> find_table c a = find_table c b"
  by (simp add: find_table_def same_name_def)

lemma has_index_cong: "same_name a b \<Longrightarrow> has_index c a = has_index c b"
  by (simp add: has_index_def same_name_def)

lemma exec_ddl_keeps:
  assumes "creates s" and "exec_ddl c s = (c', err)"
  shows "find_table c n = Some t \<Longrightarrow> find_table c' n = Some t" and "in_place c u \<Longrightarrow> in_place c' u"
proof -
  show tab: "find_table c n = Some t \<Longrightarrow> find_table c' n = Some t" for n t
    using assms by (cases s) (auto simp: creates_def find_table_append split: if_splits option.splits)
  show "in_place c u \<Longrightarrow> in_place c' u"
    using assms tab
    by (cases s; cases u) (auto simp: creates_def find_table_append dest: has_index_cong split: if_splits option.splits)
qed

lemma exec_all_effect:
  assumes "\<forall>s \<in> set ss. creates s" and "exec_all c ss = (c', err)"
  shows "find_table c n = Some t \<Longrightarrow> find_table c' n = Some t" and "in_place c u \<Longrightarrow> in_place c' u"
    and "err = None \<Longrightarrow> \<forall>s \<in> set ss. in_place c' s"
proof -
  have "(\<forall>n t. find_table c n = Some t \<longrightarrow> find_table c' n = Some t) \<and> (\<forall>u. in_place c u \<longrightarrow> in_place c' u)
      \<and> (err = None \<longrightarrow> (\<forall>s \<in> set ss. in_place c' s))"
    using assms
  proof (induction ss arbitrary: c)
    case (Cons s ss)
    obtain c1 e1 where s: "exec_ddl c s = (c1, e1)" by fastforce
    have cr: "creates s" using Cons.prems(1) by simp
    note k = exec_ddl_keeps [OF cr s]
    show ?case
    proof (cases e1)
      case None
      then have "exec_all c1 ss = (c', err)" using Cons.prems(2) s by simp
      with Cons.IH [of c1] Cons.prems(1) k exec_ddl_in_place [OF cr] s None show ?thesis by auto
    next
      case (Some x)
      then show ?thesis using Cons.prems(2) s k by auto
    qed
  qed simp
  then show "find_table c n = Some t \<Longrightarrow> find_table c' n = Some t" "in_place c u \<Longrightarrow> in_place c' u"
    "err = None \<Longrightarrow> \<forall>s \<in> set ss. in_place c' s" by auto
qed

lemma exec_all_append: "exec_all c (xs @ ys) = (case exec_all c xs of (c, None) \<Rightarrow> exec_all c ys | (c, Some err) \<Rightarrow> (c, Some err))"
  by (induction xs arbitrary: c) (auto split: option.splits prod.splits)

lemma exec_all_again:
  assumes "\<forall>s \<in> set (xs @ ys). creates s" and "exec_all c xs = (c', None)"
  shows "exec_all c' (xs @ ys) = exec_all c (xs @ ys)"
proof -
  have "\<forall>s \<in> set xs. in_place c' s" by (rule exec_all_effect(3) [OF _ assms(2) refl]) (use assms(1) in simp)
  then show ?thesis using assms(2) by (simp add: exec_all_append in_place_exec_all)
qed

definition empty_catalog :: Catalog where
  "empty_catalog = \<lparr>ct_tables = [], ct_indexes = []\<rparr>"

definition relay_catalog :: Catalog where
  \<comment> \<open>every table and index of the schema\<close>
  "relay_catalog = \<lparr>ct_tables = [Users_table, Devices_table, CloudCommandQueue_table, CloudResultQueue_table, AuditLogs_table,
       TelemetryHistory_table, CloudFileCache_table],
     ct_indexes = [(''idx_users_token'', ''Users''), (''idx_dev_user'', ''Devices''), (''idx_cloud_cmd'', ''CloudCommandQueue''),
       (''idx_cloud_res_cmd'', ''CloudResultQueue''), (''idx_cloud_res_dev'', ''CloudResultQueue''), (''idx_audit_dev'', ''AuditLogs''),
       (''idx_audit_time'', ''AuditLogs''), (''idx_telemetry_dev_time'', ''TelemetryHistory''), (''idx_filecache_dev'', ''CloudFileCache'')]\<rparr>"

definition agent_catalog :: Catalog where
  "agent_catalog = \<lparr>ct_tables = [CommandQueue_table, ResultQueue_table],
     ct_indexes = [(''idx_cmd_status'', ''CommandQueue''), (''idx_result_synced'', ''ResultQueue'')]\<rparr>"

lemma schemas_create: "\<forall>s \<in> set relay_schema. creates s" "\<forall>s \<in> set agent_schema. creates s"
  by (simp_all add: relay_schema_def agent_schema_def creates_def)

lemma has_columnI: "n \<in> set (column_names t) \<Longrightarrow> has_column t n"
  by (auto simp: has_column_def list_ex_iff column_names_def intro: bexI same_name_refl)

lemmas table_defs = Users_table_def Devices_table_def CloudCommandQueue_table_def CloudResultQueue_table_def AuditLogs_table_def
  TelemetryHistory_table_def CloudFileCache_table_def CommandQueue_table_def ResultQueue_table_def
  plain_def not_null_def dflt_def unique_def check_in_def

lemma table_names:
  "td_name Users_table = ''Users''" "td_name Devices_table = ''Devices''" "td_name CloudCommandQueue_table = ''CloudCommandQueue''"
  "td_name CloudResultQueue_table = ''CloudResultQueue''" "td_name AuditLogs_table = ''AuditLogs''"
  "td_name TelemetryHistory_table = ''TelemetryHistory''" "td_name CloudFileCache_table = ''CloudFileCache''"
  "td_name CommandQueue_table = ''CommandQueue''" "td_name ResultQueue_table = ''ResultQueue''"
  by (simp_all add: table_defs)

lemma table_columns:
  "column_names Users_table = [''UserId'', ''Username'', ''Password'', ''AuthToken'', ''CreatedAt'']"
  "mandatory Users_table = [''Username'', ''Password'', ''AuthToken'', ''CreatedAt'']" "td_key Users_table = [''UserId'']"
  "column_names Devices_table = [''DeviceId'', ''UserId'', ''Hostname'', ''OS'', ''Status'', ''LastHeartbeat'', ''ConnectedAt'', ''HealthJSON'']"
  "mandatory Devices_table = []" "td_key Devices_table = [''DeviceId'']"
  "column_names CloudCommandQueue_table = [''CommandId'', ''DeviceId'', ''Command'', ''TimeoutSec'', ''Status'', ''CreatedAt'', ''DispatchedAt'', ''CompletedAt'']"
  "mandatory CloudCommandQueue_table = [''DeviceId'', ''Command'', ''Status'', ''CreatedAt'']" "td_key CloudCommandQueue_table = [''CommandId'']"
  "column_names CloudResultQueue_table = [''ResultId'', ''CommandId'', ''DeviceId'', ''Stdout'', ''Stderr'', ''ExitCode'', ''ExecutedAt'', ''ReceivedAt'']"
  "mandatory CloudResultQueue_table = [''CommandId'', ''DeviceId'', ''ExecutedAt'', ''ReceivedAt'']" "td_key CloudResultQueue_table = [''ResultId'']"
  "column_names AuditLogs_table = [''LogId'', ''DeviceId'', ''Timestamp'', ''ActionType'', ''CommandText'', ''ExitCode'', ''DurationMs'', ''Details'']"
  "mandatory AuditLogs_table = [''DeviceId'', ''Timestamp'', ''ActionType'']" "td_key AuditLogs_table = [''LogId'']"
  "column_names TelemetryHistory_table = [''Id'', ''DeviceId'', ''Timestamp'', ''CPUPercent'', ''RAMPercent'', ''RAMUsedBytes'', ''RAMTotalBytes'', ''DiskUsedBytes'', ''DiskTotalBytes'', ''ProcessCount'', ''PingLatencyMs'']"
  "mandatory TelemetryHistory_table = [''DeviceId'', ''Timestamp'']" "td_key TelemetryHistory_table = [''Id'']"
  "column_names CloudFileCache_table = [''DeviceId'', ''Path'', ''IsDir'', ''SizeBytes'', ''ContentBase64'', ''FilesJSON'', ''UpdatedAt'']"
  "mandatory CloudFileCache_table = [''DeviceId'', ''Path'', ''UpdatedAt'']" "td_key CloudFileCache_table = [''DeviceId'', ''Path'']"
  "column_names CommandQueue_table = [''CommandId'', ''Payload'', ''Status'', ''CreatedAt'', ''Attempts'']"
  "mandatory CommandQueue_table = [''Payload'', ''Status'', ''CreatedAt'']" "td_key CommandQueue_table = [''CommandId'']"
  "column_names ResultQueue_table = [''ResultId'', ''CommandId'', ''Stdout'', ''Stderr'', ''ExitCode'', ''ExecutedAt'', ''Synced'']"
  "mandatory ResultQueue_table = [''CommandId'', ''ExecutedAt'']" "td_key ResultQueue_table = [''ResultId'']"
  by (simp_all add: column_names_def mandatory_def table_defs)

lemma indexed_columns:
  "has_column Users_table ''AuthToken''" "has_column Devices_table ''UserId''" "has_column CloudCommandQueue_table ''DeviceId''"
  "has_column CloudCommandQueue_table ''Status''" "has_column CloudCommandQueue_table ''CreatedAt''"
  "has_column CloudResultQueue_table ''CommandId''" "has_column CloudResultQueue_table ''DeviceId''"
  "has_column CloudResultQueue_table ''ExecutedAt''" "has_column AuditLogs_table ''DeviceId''" "has_column AuditLogs_table ''Timestamp''"
  "has_column TelemetryHistory_table ''DeviceId''" "has_column TelemetryHistory_table ''Timestamp''"
  "has_column CloudFileCache_table ''DeviceId''" "has_column CloudFileCache_table ''Path''" "has_column CommandQueue_table ''Status''"
  "has_column CommandQueue_table ''CreatedAt''" "has_column ResultQueue_table ''Synced''"
  by (simp_all add: has_columnI table_columns)

lemma lowered:
  "ToLower ''Users'' = ''users''" "ToLower ''Devices'' = ''devices''" "ToLower ''CloudCommandQueue'' = ''cloudcommandqueue''"
  "ToLower ''CloudResultQueue'' = ''cloudresultqueue''" "ToLower ''AuditLogs'' = ''auditlogs''"
  "ToLower ''TelemetryHistory'' = ''telemetryhistory''" "ToLower ''CloudFileCache'' = ''cloudfilecache''"
  "ToLower ''CommandQueue'' = ''commandqueue''" "ToLower ''ResultQueue'' = ''resultqueue''"
  "ToLower ''idx_users_token'' = ''idx_users_token''" "ToLower ''idx_dev_user'' = ''idx_dev_user''"
  "ToLower ''idx_cloud_cmd'' = ''idx_cloud_cmd''" "ToLower ''idx_cloud_res_cmd'' = ''idx_cloud_res_cmd''"
  "ToLower ''idx_cloud_res_dev'' = ''idx_cloud_res_dev''" "ToLower ''idx_audit_dev'' = ''idx_audit_dev''"
  "ToLower ''idx_audit_time'' = ''idx_audit_time''" "ToLower ''idx_telemetry_dev_time'' = ''idx_telemetry_dev_time''"
  "ToLower ''idx_filecache_dev'' = ''idx_filecache_dev''" "ToLower ''idx_cmd_status'' = ''idx_cmd_status''"
  "ToLower ''idx_result_synced'' = ''idx_result_synced''"
  by (simp_all add: ToLower_def lower_char_def char_of_def bit_0)

lemma schemas_run: "exec_all empty_catalog relay_schema = (relay_catalog, None)" "exec_all empty_catalog agent_schema = (agent_catalog, None)"
  by (simp_all add: relay_schema_def agent_schema_def empty_catalog_def relay_catalog_def agent_catalog_def find_table_def has_index_def
      table_names indexed_columns same_name_def lowered)

lemma relay_migrate_fresh: "relay_migrate c = (relay_catalog, None)" if "exec_all c relay_schema = (relay_catalog, None)"
proof -
  have "fst (exec_ddl relay_catalog (AddColumn ''Devices'' (dflt '''' (not_null ''UserId'' TEXT)))) = relay_catalog" by code_simp
  then show ?thesis using that by (simp add: relay_migrate_def)
qed

lemma interrupted:
  assumes "\<forall>s \<in> set ss. creates s" and "exec_all c ss = (c', None)"
  shows "exec_all (fst (exec_all c (take n ss))) ss = (c', None)"
proof -
  have split: "exec_all c (take n ss @ drop n ss) = (c', None)" using assms(2) by simp
  then obtain c1 where c1: "exec_all c (take n ss) = (c1, None)"
    by (auto simp only: exec_all_append split: prod.splits option.splits)
  have "exec_all c1 (take n ss @ drop n ss) = exec_all c (take n ss @ drop n ss)"
    by (rule exec_all_again [OF _ c1]) (use assms(1) in simp)
  then show ?thesis using split c1 by simp
qed

lemma relay_tables:
  "find_table relay_catalog ''Users'' = Some Users_table" "find_table relay_catalog ''Devices'' = Some Devices_table"
  "find_table relay_catalog ''CloudCommandQueue'' = Some CloudCommandQueue_table"
  "find_table relay_catalog ''CloudResultQueue'' = Some CloudResultQueue_table"
  "find_table relay_catalog ''AuditLogs'' = Some AuditLogs_table"
  "find_table relay_catalog ''TelemetryHistory'' = Some TelemetryHistory_table"
  "find_table relay_catalog ''CloudFileCache'' = Some CloudFileCache_table"
  "find_table agent_catalog ''CommandQueue'' = Some CommandQueue_table" "find_table agent_catalog ''ResultQueue'' = Some ResultQueue_table"
  by (simp_all add: relay_catalog_def agent_catalog_def find_table_def same_name_def table_names lowered)

lemma relay_statements_fit: "list_all (fits relay_catalog) (map snd relay_statements)"
  by (simp add: relay_statements_def fits_def relay_tables device_columns_def user_columns_def command_columns_def result_columns_def
      audit_columns_def telemetry_columns_def table_columns has_columnI)

lemma agent_uses_fit: "list_all (fits agent_catalog) (map snd agent_uses)"
  by (simp add: agent_uses_def fits_def relay_tables queue_columns_def agent_result_columns_def table_columns has_columnI)

text \<open>
  C19. Both databases have the shape their programs need. Running the schema on a new file, on a complete one, or on one where an
  earlier start was interrupted after any number of statements, succeeds and gives the same tables and indexes; in these
  every statement of the two stores names existing tables and columns, gives every mandatory column a value and
  resolves conflicts on the primary key; and the statuses that the tables admit are exactly those the programs use.
\<close>

theorem schema_migration:
  "(\<forall>n. relay_migrate (fst (exec_all empty_catalog (take n relay_schema))) = (relay_catalog, None))
   \<and> (\<forall>n. agent_migrate (fst (exec_all empty_catalog (take n agent_schema))) = (agent_catalog, None))
   \<and> list_all (fits relay_catalog) (map snd relay_statements) \<and> list_all (fits agent_catalog) (map snd agent_uses)
   \<and> concat (map cl_check (td_columns CloudCommandQueue_table)) = command_statuses
   \<and> concat (map cl_check (td_columns CommandQueue_table)) = agent_statuses"
proof (intro conjI allI)
  show "relay_migrate (fst (exec_all empty_catalog (take n relay_schema))) = (relay_catalog, None)" for n
    by (rule relay_migrate_fresh [OF interrupted [OF schemas_create(1) schemas_run(1)]])
  show "agent_migrate (fst (exec_all empty_catalog (take n agent_schema))) = (agent_catalog, None)" for n
    unfolding agent_migrate_def by (rule interrupted [OF schemas_create(2) schemas_run(2)])
  show "list_all (fits relay_catalog) (map snd relay_statements)" by (rule relay_statements_fit)
  show "list_all (fits agent_catalog) (map snd agent_uses)" by (rule agent_uses_fit)
  show "concat (map cl_check (td_columns CloudCommandQueue_table)) = command_statuses" by code_simp
  show "concat (map cl_check (td_columns CommandQueue_table)) = agent_statuses" by code_simp
qed

section \<open>A database from before accounts\<close>

definition unrelated :: "string \<Rightarrow> ddl \<Rightarrow> bool" where
  "unrelated n s \<longleftrightarrow> (case s of CreateTable t \<Rightarrow> \<not> same_name (td_name t) n | CreateIndex i t cols \<Rightarrow> \<not> same_name i n | AddColumn t col \<Rightarrow> False)"

lemma exec_ddl_unrelated:
  "exec_ddl c s = (c', err) \<Longrightarrow> unrelated n s \<Longrightarrow> has_index c' n = has_index c n \<and> find_table c' n = find_table c n"
  by (cases s) (auto simp: unrelated_def find_table_append split: if_splits option.splits)

lemma exec_all_unrelated:
  "exec_all c ss = (c', err) \<Longrightarrow> \<forall>s \<in> set ss. unrelated n s \<Longrightarrow> has_index c' n = has_index c n \<and> find_table c' n = find_table c n"
  by (induction ss arbitrary: c) (auto split: prod.splits option.splits dest!: exec_ddl_unrelated)

text \<open>Devices without a column for their user, as the last statement of \<open>migrate\<close> expects them.\<close>

definition before_accounts :: "Catalog \<Rightarrow> bool" where
  "before_accounts c \<longleftrightarrow> (\<exists>t. find_table c ''Devices'' = Some t \<and> \<not> has_column t ''UserId'')
     \<and> \<not> has_index c ''idx_dev_user'' \<and> find_table c ''idx_dev_user'' = None"

lemma before_accounts_refused:
  assumes "before_accounts c"
  shows "\<exists>err. snd (relay_migrate c) = Some err"
proof -
  obtain t where t: "find_table c ''Devices'' = Some t" "\<not> has_column t ''UserId''" "\<not> has_index c ''idx_dev_user''"
      "find_table c ''idx_dev_user'' = None"
    using assms by (auto simp: before_accounts_def)
  let ?one = "[CreateTable Users_table, CreateIndex ''idx_users_token'' ''Users'' [''AuthToken''], CreateTable Devices_table]"
  obtain c1 e1 where c1: "exec_all c ?one = (c1, e1)" by fastforce
  have other: "\<not> same_name (td_name Users_table) ''idx_dev_user''" "\<not> same_name (td_name Devices_table) ''idx_dev_user''"
    "\<not> same_name ''idx_users_token'' ''idx_dev_user''" by code_simp+
  have dev: "find_table c1 ''Devices'' = Some t"
    by (rule exec_all_effect(1) [OF _ c1 t(1)]) (simp add: creates_def)
  have "has_index c1 ''idx_dev_user'' = has_index c ''idx_dev_user'' \<and> find_table c1 ''idx_dev_user'' = find_table c ''idx_dev_user''"
    by (rule exec_all_unrelated [OF c1]) (use other in \<open>simp add: unrelated_def\<close>)
  then have idx: "\<not> has_index c1 ''idx_dev_user''" "find_table c1 ''idx_dev_user'' = None" using t by simp_all
  have "snd (exec_all c1 (drop 3 relay_schema)) = Some (NoSuchColumn ''UserId'')"
    using dev idx t(2) by (simp add: relay_schema_def)
  moreover have "relay_schema = ?one @ drop 3 relay_schema" by (simp add: relay_schema_def)
  ultimately have "snd (exec_all c relay_schema) \<noteq> None"
    using c1 exec_all_append [of c ?one "drop 3 relay_schema"] by (cases e1) simp_all
  then obtain c' err where "exec_all c relay_schema = (c', Some err)" by (cases "exec_all c relay_schema") auto
  then show ?thesis by (auto simp: relay_migrate_def)
qed

end
