(* ===== verification/RelayMain.thy ===== *)
theory RelayMain
  imports Hub AgentConfig Supabase Schema
begin

text \<open>
  How the relay starts: its configuration (\<^verbatim>\<open>internal/config/config.go\<close>, \<^verbatim>\<open>internal/runner/runner.go\<close>) and the
  choice of its store (\<open>Open\<close>, \<open>OpenWithConfig\<close> of \<^verbatim>\<open>internal/store/store.go\<close>), with the operations of the store that are
  more than a call of one backend.

  The environment is the one of \<open>AgentConfig\<close>; \<open>openDB\<close> says whether the SQLite file can be opened, and gives
  its contents: \<open>sqlite_db\<close> is the code of \<open>Open\<close>, over the file system and the driver of \<open>Schema\<close>. What ends the process is an
  event: the server could not listen, or a signal came.
\<close>

section \<open>Configuration\<close>

text \<open>\<open>if v := os.Getenv(name); v != "" { x = v }\<close>\<close>

definition env_or :: "CEnv \<Rightarrow> string \<Rightarrow> string \<Rightarrow> string" where
  "env_or ce name x = (if ce_getenv ce name \<noteq> '''' then ce_getenv ce name else x)"

definition supabase_key :: "CEnv \<Rightarrow> string" where
  "supabase_key ce = env_or ce ''SUPABASE_KEY'' (env_or ce ''SUPABASE_SERVICE_ROLE_KEY'' (ce_getenv ce ''SUPABASE_ANON_KEY''))"

definition relay_Default :: "CEnv \<Rightarrow> Config" where
  "relay_Default ce =
     \<lparr>cfg_Port = 8080, cfg_DBPath = Join (ce_win ce) ''data'' ''relay.db'', cfg_AuthToken = ce_getenv ce ''AUTH_TOKEN'',
      cfg_SupabaseURL = ce_getenv ce ''SUPABASE_URL'', cfg_SupabaseKey = supabase_key ce,
      cfg_HeartbeatInterval = seconds 15, cfg_HeartbeatDegraded = seconds 20, cfg_HeartbeatTimeout = seconds 45\<rparr>"

definition relay_flags :: "(string \<times> flag_kind) list" where
  "relay_flags = [(''port'', FInt), (''db'', FString), (''token'', FString), (''heartbeat'', FDuration)]"

definition relay_config :: "CEnv \<Rightarrow> (string \<times> flag_value) list \<Rightarrow> Config" where
  "relay_config ce acc =
     (let def = relay_Default ce;
          port = int_setting ''port'' acc (cfg_Port def); dbPath = str_setting ''db'' acc (cfg_DBPath def);
          token = str_setting ''token'' acc (cfg_AuthToken def);
          (err, p) = Atoi (ce_getenv ce ''PORT'')
      in def\<lparr>cfg_HeartbeatInterval := int_setting ''heartbeat'' acc (cfg_HeartbeatInterval def),
             cfg_Port := (if ce_getenv ce ''PORT'' \<noteq> '''' \<and> \<not> err then p else port),
             cfg_DBPath := env_or ce ''DB_PATH'' dbPath,
             cfg_AuthToken := env_or ce ''AUTH_TOKEN'' token,
             cfg_SupabaseURL := env_or ce ''SUPABASE_URL'' (cfg_SupabaseURL def),
             cfg_SupabaseKey := env_or ce ''SUPABASE_KEY'' (env_or ce ''SUPABASE_SERVICE_ROLE_KEY'' (cfg_SupabaseKey def))\<rparr>)"

section \<open>The store\<close>

datatype backend = Sqlite DB | Supabase SupabaseStore

definition try_supabase :: "string \<Rightarrow> string \<Rightarrow> SupabaseStore option" where
  "try_supabase url key =
     (if url \<noteq> '''' \<and> key \<noteq> '''' then case NewSupabaseStore url key of Inl err \<Rightarrow> None | Inr sb \<Rightarrow> Some sb else None)"

definition Open :: "CEnv \<Rightarrow> (string \<Rightarrow> string + DB) \<Rightarrow> string \<Rightarrow> string + backend" where
  "Open ce openDB path =
     (case try_supabase (ce_getenv ce ''SUPABASE_URL'') (supabase_key ce) of
        Some sb \<Rightarrow> Inr (Supabase sb)
      | None \<Rightarrow> (case openDB path of Inl err \<Rightarrow> Inl err | Inr db \<Rightarrow> Inr (Sqlite db)))"

definition OpenWithConfig :: "CEnv \<Rightarrow> (string \<Rightarrow> string + DB) \<Rightarrow> string \<Rightarrow> string \<Rightarrow> string \<Rightarrow> string + backend" where
  "OpenWithConfig ce openDB path supabaseURL supabaseKey =
     (case try_supabase supabaseURL supabaseKey of
        Some sb \<Rightarrow> Inr (Supabase sb)
      | None \<Rightarrow> Open ce openDB path)"

definition IsSupabase :: "backend \<Rightarrow> bool" where
  "IsSupabase b = (case b of Sqlite db \<Rightarrow> False | Supabase sb \<Rightarrow> True)"

text \<open>
  Two methods of \<open>Store\<close> do not hand over to the backend: \<open>CancelPendingCommands\<close> does nothing on Supabase, and
  \<open>ListCommands\<close> uses the SQLite connection whatever the backend is, which is nil on Supabase.
\<close>

definition store_CancelPendingCommands :: "int \<Rightarrow> backend \<Rightarrow> string \<Rightarrow> backend \<times> sql_error option" where
  "store_CancelPendingCommands now b deviceID =
     (case b of
        Supabase sb \<Rightarrow> (b, None)
      | Sqlite db \<Rightarrow> (case CancelPendingCommands now db deviceID of (db, err) \<Rightarrow> (Sqlite db, err)))"

definition store_ListCommands :: "backend \<Rightarrow> string \<Rightarrow> int \<Rightarrow> CommandRecord list outcome" where
  "store_ListCommands b deviceID limit =
     (case b of Supabase sb \<Rightarrow> Panic NilDereference | Sqlite db \<Rightarrow> Ret (ListCommands db deviceID limit))"

datatype relay_start = Serve Config backend | RelayExit int

definition relay_Run :: "CEnv \<Rightarrow> (string \<Rightarrow> string + DB) \<Rightarrow> string list \<Rightarrow> relay_start" where
  "relay_Run ce openDB args =
     (case parse_flags ce relay_flags [] args of
        Parsed acc rest \<Rightarrow>
          (let cfg = relay_config ce acc
           in case OpenWithConfig ce openDB (cfg_DBPath cfg) (cfg_SupabaseURL cfg) (cfg_SupabaseKey cfg) of
                Inl err \<Rightarrow> RelayExit 1
              | Inr b \<Rightarrow> Serve cfg b)
      | r \<Rightarrow> RelayExit (exit_code r))"

text \<open>The second half of \<open>Open\<close>: the SQLite file with its schema.\<close>

definition open_message :: "(schema_error \<Rightarrow> string) \<Rightarrow> open_error \<Rightarrow> string" where
  "open_message sqlmsg err =
     (case err of
        MkdirError dir msg \<Rightarrow> ''create db dir '' @ quote dir @ '': '' @ msg
      | DriverError msg \<Rightarrow> msg
      | PingError path msg \<Rightarrow> ''open sqlite '' @ quote path @ '': '' @ msg
      | MigrateError e \<Rightarrow> sqlmsg e)"

definition sqlite_db :: "(schema_error \<Rightarrow> string) \<Rightarrow> DB SqlEnv \<Rightarrow> string \<Rightarrow> string + DB" where
  "sqlite_db sqlmsg se path =
     (case relay_open se path of Inl err \<Rightarrow> Inl (open_message sqlmsg err) | Inr (cat, db) \<Rightarrow> Inr db)"

section \<open>Serving and stopping\<close>

definition listen_addr :: "Config \<Rightarrow> string" where
  "listen_addr cfg = '':'' @ itoa (cfg_Port cfg)"

text \<open>The directory of the database is made before the store is opened, whatever the store is; a failure is ignored.\<close>

definition db_dir :: "bool \<Rightarrow> Config \<Rightarrow> string option" where
  "db_dir win cfg = (let dir = Dir win (cfg_DBPath cfg) in if dir \<noteq> '''' \<and> dir \<noteq> ''.'' then Some dir else None)"

definition storage_mode :: "Config \<Rightarrow> backend \<Rightarrow> string" where
  "storage_mode cfg b =
     (if IsSupabase b
      then [CHR 0xF0, CHR 0x9F, CHR 0x9F, CHR 0xA2] @ '' Supabase Cloud Active ('' @ cfg_SupabaseURL cfg @ '')''
      else ''Local SQLite ('' @ cfg_DBPath cfg @ '')'')"

definition banner :: "Config \<Rightarrow> backend \<Rightarrow> string" where
  "banner cfg b =
     newline @ ''==========================================================='' @ newline
     @ ''  '' @ [CHR 0xF0, CHR 0x9F, CHR 0x9A, CHR 0x80] @ '' TERMINAL RELAY SERVER STARTED'' @ newline
     @ ''  ---------------------------------------------------------'' @ newline
     @ ''  Web Dashboard: http://localhost:'' @ itoa (cfg_Port cfg) @ newline
     @ ''  WebSocket URL: ws://localhost:'' @ itoa (cfg_Port cfg) @ ''/ws'' @ newline
     @ ''  Storage Mode:  '' @ storage_mode cfg b @ newline
     @ ''==========================================================='' @ newline"

datatype stop_cause = ListenFailed | SignalCame

record relay_stopped =
  rs_code :: int
  rs_hub :: Hub
  rs_storeClosed :: bool

text \<open>
  A failed listener ends the process from its goroutine, and the deferred calls do not run. A signal shuts the server down
  and then runs them, the last one first: the hub closes its connections, and then the store closes.
\<close>

definition relay_stop :: "Hub \<Rightarrow> stop_cause \<Rightarrow> relay_stopped" where
  "relay_stop h cause =
     (case cause of
        ListenFailed \<Rightarrow> \<lparr>rs_code = 1, rs_hub = h, rs_storeClosed = False\<rparr>
      | SignalCame \<Rightarrow> \<lparr>rs_code = 0, rs_hub = Close h, rs_storeClosed = True\<rparr>)"

section \<open>What the relay runs with\<close>

lemma relay_config_supabase:
  "cfg_SupabaseURL (relay_config ce acc) = ce_getenv ce ''SUPABASE_URL''" "cfg_SupabaseKey (relay_config ce acc) = supabase_key ce"
  by (simp_all add: relay_config_def relay_Default_def supabase_key_def env_or_def Let_def split: prod.split)

lemma try_supabase_iff:
  "(\<exists>sb. try_supabase url key = Some sb) \<longleftrightarrow> url \<noteq> '''' \<and> TrimSpace key \<noteq> ''''"
proof -
  have "TrimSpace '''' = ''''" by (simp add: TrimBy_def TrimLeftBy_def TrimRightBy_def)
  moreover have "(\<exists>sb. NewSupabaseStore url key = Inr sb) \<longleftrightarrow> TrimSpace key \<noteq> ''''"
    by (auto simp: NewSupabaseStore_def Let_def HasPrefix_def)
  ultimately show ?thesis
    by (cases "NewSupabaseStore url key") (auto simp: try_supabase_def)
qed

text \<open>The relay keeps its data on Supabase exactly when the environment names a URL and a key that is not blank; otherwise it
  opens the SQLite file, and exits when that fails. Its token is the one of the environment before the one of the command
  line, a port that is not a number is ignored, and it considers a device degraded after 20 seconds and offline
  after 45 whatever the flags say. On Supabase, listing the commands panics and cancelling the waiting commands of a device does nothing.\<close>

theorem relay_start_up:
  "case relay_Run ce openDB args of
     Serve cfg b \<Rightarrow>
       (IsSupabase b \<longleftrightarrow> ce_getenv ce ''SUPABASE_URL'' \<noteq> '''' \<and> TrimSpace (supabase_key ce) \<noteq> '''')
       \<and> (\<forall>db. b = Sqlite db \<longrightarrow> openDB (cfg_DBPath cfg) = Inr db)
       \<and> (ce_getenv ce ''AUTH_TOKEN'' \<noteq> '''' \<longrightarrow> cfg_AuthToken cfg = ce_getenv ce ''AUTH_TOKEN'')
       \<and> (ce_getenv ce ''PORT'' \<noteq> '''' \<and> \<not> fst (Atoi (ce_getenv ce ''PORT'')) \<longrightarrow> cfg_Port cfg = snd (Atoi (ce_getenv ce ''PORT'')))
       \<and> cfg_HeartbeatDegraded cfg = seconds 20 \<and> cfg_HeartbeatTimeout cfg = seconds 45
       \<and> (panics (store_ListCommands b d n) \<longleftrightarrow> IsSupabase b)
       \<and> (IsSupabase b \<longrightarrow> store_CancelPendingCommands now b d = (b, None))
   | RelayExit c \<Rightarrow> c = 1 \<longrightarrow> (\<exists>p err. openDB p = Inl err)"
proof -
  have cfg: "cfg_HeartbeatDegraded (relay_config ce acc) = seconds 20" "cfg_HeartbeatTimeout (relay_config ce acc) = seconds 45"
    "ce_getenv ce ''AUTH_TOKEN'' \<noteq> '''' \<longrightarrow> cfg_AuthToken (relay_config ce acc) = ce_getenv ce ''AUTH_TOKEN''"
    "ce_getenv ce ''PORT'' \<noteq> '''' \<and> \<not> fst (Atoi (ce_getenv ce ''PORT'')) \<longrightarrow>
       cfg_Port (relay_config ce acc) = snd (Atoi (ce_getenv ce ''PORT''))" for acc
    by (simp_all add: relay_config_def relay_Default_def env_or_def Let_def split: prod.split)
  show ?thesis
  proof (cases "parse_flags ce relay_flags [] args")
    case (Parsed acc rest)
    show ?thesis
    proof (cases "try_supabase (ce_getenv ce ''SUPABASE_URL'') (supabase_key ce)")
      case None
      then have "\<not> (ce_getenv ce ''SUPABASE_URL'' \<noteq> '''' \<and> TrimSpace (supabase_key ce) \<noteq> '''')"
        using try_supabase_iff by (metis option.distinct(1))
      then show ?thesis
        using None Parsed cfg [of acc]
        by (cases "openDB (cfg_DBPath (relay_config ce acc))")
          (auto simp: relay_Run_def OpenWithConfig_def Open_def relay_config_supabase IsSupabase_def store_ListCommands_def Let_def)
    next
      case (Some sb)
      then have "ce_getenv ce ''SUPABASE_URL'' \<noteq> '''' \<and> TrimSpace (supabase_key ce) \<noteq> ''''"
        using try_supabase_iff by metis
      then show ?thesis
        using Some Parsed cfg [of acc]
        by (simp add: relay_Run_def OpenWithConfig_def relay_config_supabase IsSupabase_def store_ListCommands_def
            store_CancelPendingCommands_def Let_def)
    qed
  qed (simp_all add: relay_Run_def exit_code_def)
qed

definition cloud_env :: CEnv where
  "cloud_env = \<lparr>ce_win = False, ce_getenv = (\<lambda>v. if v = ''SUPABASE_URL'' then ''x.supabase.co'' else if v = ''SUPABASE_ANON_KEY'' then ''k''
       else if v = ''AUTH_TOKEN'' then ''secret'' else if v = ''PORT'' then ''9000'' else ''''),
     ce_hostname = ''relay'', ce_executable = None, ce_file = (\<lambda>p. None), ce_int = parse_int\<rparr>"

theorem relay_start_up_witness:
  "\<exists>cfg b. relay_Run cloud_env (\<lambda>p. Inl ''no disk'') [''-token'', ''other''] = Serve cfg b \<and> IsSupabase b \<and> cfg_AuthToken cfg = ''secret''"
proof -
  have parsed: "parse_flags cloud_env relay_flags [] [''-token'', ''other''] = Parsed [(''token'', VString ''other'')] []"
    by code_simp
  have env: "ce_getenv cloud_env ''SUPABASE_URL'' = ''x.supabase.co''" "TrimSpace (supabase_key cloud_env) = ''k''"
    "ce_getenv cloud_env ''AUTH_TOKEN'' = ''secret''"
    by code_simp+
  then obtain sb where "try_supabase (ce_getenv cloud_env ''SUPABASE_URL'') (supabase_key cloud_env) = Some sb"
    using try_supabase_iff [of "ce_getenv cloud_env ''SUPABASE_URL''" "supabase_key cloud_env"] by auto
  then have run: "relay_Run cloud_env (\<lambda>p. Inl ''no disk'') [''-token'', ''other''] =
      Serve (relay_config cloud_env [(''token'', VString ''other'')]) (Supabase sb)"
    by (simp add: relay_Run_def parsed OpenWithConfig_def relay_config_supabase Let_def)
  show ?thesis
    using relay_start_up [where ce = cloud_env and openDB = "\<lambda>p. Inl ''no disk''" and args = "[''-token'', ''other'']"] env
    unfolding run by simp
qed

section \<open>Opening an existing database\<close>

lemma relay_migrate_prefix: "relay_migrate (fst (exec_all empty_catalog (take n relay_schema))) = (relay_catalog, None)"
  by (rule relay_migrate_fresh [OF interrupted [OF schemas_create(1) schemas_run(1)]])

lemma sqlite_db_refused:
  assumes "before_accounts (fst (sq_file se (sqlite_dsn (sq_win se) path)))"
  shows "\<exists>err. sqlite_db sqlmsg se path = Inl err"
proof -
  obtain cat err where "relay_migrate (fst (sq_file se (sqlite_dsn (sq_win se) path))) = (cat, Some err)"
    using before_accounts_refused [OF assms] by (metis prod.collapse)
  then show ?thesis
    by (auto simp: sqlite_db_def relay_open_def open_sqlite_def Let_def split: option.splits prod.splits)
qed

lemma sqlite_db_opens:
  assumes "mkdir_error se path = None" "sq_open se (sqlite_dsn (sq_win se) path) = None" "sq_ping se (sqlite_dsn (sq_win se) path) = None"
    and "sq_file se (sqlite_dsn (sq_win se) path) = (fst (exec_all empty_catalog (take n relay_schema)), db)"
  shows "sqlite_db sqlmsg se path = Inr db"
  using assms by (simp add: sqlite_db_def relay_open_def open_sqlite_def relay_migrate_prefix Let_def)

lemma relay_Run_sqlite:
  assumes "parse_flags ce relay_flags [] args = Parsed acc rest"
    and "\<not> (ce_getenv ce ''SUPABASE_URL'' \<noteq> '''' \<and> TrimSpace (supabase_key ce) \<noteq> '''')"
  shows "relay_Run ce openDB args =
    (case openDB (cfg_DBPath (relay_config ce acc)) of Inl err \<Rightarrow> RelayExit 1 | Inr db \<Rightarrow> Serve (relay_config ce acc) (Sqlite db))"
proof -
  have "try_supabase (ce_getenv ce ''SUPABASE_URL'') (supabase_key ce) = None"
    using assms(2) try_supabase_iff by (metis not_Some_eq)
  then show ?thesis
    using assms(1)
    by (simp add: relay_Run_def OpenWithConfig_def Open_def relay_config_supabase Let_def split: sum.split)
qed

text \<open>C33. Without Supabase the relay serves the SQLite file of its configuration when the directory, the driver and the file are
  in order and the file is new, complete, or left by a start that was interrupted after any statement of the schema. On a
  file from before accounts, where \<open>Devices\<close> has no column \<open>UserId\<close>, it exits with code 1, whatever else holds: the schema's index
  on that column fails before the statement that would add it.\<close>

theorem relay_opens_database:
  assumes "parse_flags ce relay_flags [] args = Parsed acc rest"
    and "\<not> (ce_getenv ce ''SUPABASE_URL'' \<noteq> '''' \<and> TrimSpace (supabase_key ce) \<noteq> '''')"
    and "path = cfg_DBPath (relay_config ce acc)" and "dsn = sqlite_dsn (sq_win se) path"
  shows "(mkdir_error se path = None \<and> sq_open se dsn = None \<and> sq_ping se dsn = None
       \<and> sq_file se dsn = (fst (exec_all empty_catalog (take n relay_schema)), db)
       \<longrightarrow> relay_Run ce (sqlite_db sqlmsg se) args = Serve (relay_config ce acc) (Sqlite db))
     \<and> (before_accounts (fst (sq_file se dsn)) \<longrightarrow> relay_Run ce (sqlite_db sqlmsg se) args = RelayExit 1)"
proof (intro conjI impI)
  assume "mkdir_error se path = None \<and> sq_open se dsn = None \<and> sq_ping se dsn = None
       \<and> sq_file se dsn = (fst (exec_all empty_catalog (take n relay_schema)), db)"
  then have "sqlite_db sqlmsg se path = Inr db" unfolding assms(4) by (blast intro: sqlite_db_opens)
  then show "relay_Run ce (sqlite_db sqlmsg se) args = Serve (relay_config ce acc) (Sqlite db)"
    by (simp add: relay_Run_sqlite [OF assms(1,2)] assms(3))
next
  assume "before_accounts (fst (sq_file se dsn))"
  then obtain err where "sqlite_db sqlmsg se path = Inl err" unfolding assms(4) using sqlite_db_refused by blast
  then show "relay_Run ce (sqlite_db sqlmsg se) args = RelayExit 1"
    by (simp add: relay_Run_sqlite [OF assms(1,2)] assms(3))
qed

definition plain_env :: CEnv where
  "plain_env = \<lparr>ce_win = False, ce_getenv = (\<lambda>v. ''''), ce_hostname = ''relay'', ce_executable = None, ce_file = (\<lambda>p. None), ce_int = parse_int\<rparr>"

definition old_devices :: TableDef where
  "old_devices = Devices_table\<lparr>td_columns := filter (\<lambda>col. cl_name col \<noteq> ''UserId'') (td_columns Devices_table)\<rparr>"

definition disk :: "Catalog \<Rightarrow> DB SqlEnv" where
  "disk cat = \<lparr>sq_win = False, sq_mkdir = (\<lambda>d. None), sq_open = (\<lambda>d. None), sq_ping = (\<lambda>d. None), sq_file = (\<lambda>d. (cat, empty_db))\<rparr>"

theorem relay_opens_database_witness:
  "relay_Run plain_env (sqlite_db (\<lambda>e. '''') (disk empty_catalog)) [] = Serve (relay_config plain_env []) (Sqlite empty_db)
   \<and> relay_Run plain_env (sqlite_db (\<lambda>e. '''') (disk \<lparr>ct_tables = [old_devices], ct_indexes = []\<rparr>)) [] = RelayExit 1"
proof -
  have parsed: "parse_flags plain_env relay_flags [] [] = Parsed [] []" by code_simp
  have none: "\<not> (ce_getenv plain_env ''SUPABASE_URL'' \<noteq> '''' \<and> TrimSpace (supabase_key plain_env) \<noteq> '''')"
    by (simp add: plain_env_def)
  have old: "before_accounts \<lparr>ct_tables = [old_devices], ct_indexes = []\<rparr>"
  proof -
    have "find_table \<lparr>ct_tables = [old_devices], ct_indexes = []\<rparr> ''Devices'' = Some old_devices" "\<not> has_column old_devices ''UserId''"
      "find_table \<lparr>ct_tables = [old_devices], ct_indexes = []\<rparr> ''idx_dev_user'' = None" by code_simp+
    then show ?thesis by (simp add: before_accounts_def has_index_def)
  qed
  have works: "mkdir_error (disk cat) path = None" "sq_open (disk cat) dsn = None" "sq_ping (disk cat) dsn = None"
    "sq_file (disk cat) dsn = (cat, empty_db)" for cat path dsn
    by (simp_all add: disk_def mkdir_error_def Let_def)
  have "fst (exec_all empty_catalog (take 0 relay_schema)) = empty_catalog" by simp
  then show ?thesis
    using relay_opens_database [OF parsed none refl refl, where se = "disk empty_catalog" and n = 0 and db = empty_db and sqlmsg = "\<lambda>e. ''''"]
      relay_opens_database [OF parsed none refl refl, where se = "disk \<lparr>ct_tables = [old_devices], ct_indexes = []\<rparr>" and sqlmsg = "\<lambda>e. ''''"] old
    by (simp only: works prod.sel simp_thms)
qed

end
