(* ===== verification/ConfigProps.thy ===== *)
theory ConfigProps
  imports AgentConfig
begin

text \<open>
  What the agent's configuration guarantees: which source of a setting wins, that the command line gives back the
  values it was given, that the worker's intervals are positive, and that the heartbeat's need not be.
\<close>

section \<open>Which setting wins\<close>

text \<open>The configuration files that exist and decode, in the order of the candidates.\<close>

definition config_files :: "CEnv \<Rightarrow> jsonConfig list" where
  "config_files ce =
     map (\<lambda>j. snd (unmarshal_jsonConfig j zero_jsonConfig))
       (filter (\<lambda>j. \<not> fst (unmarshal_jsonConfig j zero_jsonConfig)) (List.map_filter (ce_file ce) (candidates ce)))"

definition first_of :: "string list \<Rightarrow> string" where
  "first_of xs = (case filter (\<lambda>x. x \<noteq> '''') xs of [] \<Rightarrow> '''' | x # _ \<Rightarrow> x)"

definition heartbeats :: "CEnv \<Rightarrow> int list" where
  "heartbeats ce = List.map_filter (\<lambda>jc. if jc_HeartbeatInterval jc = '''' then None else ParseDuration (jc_HeartbeatInterval jc)) (config_files ce)"

lemma fold_read_candidate:
  "fold (read_candidate ce) ps cfg =
   fold (apply_config ce) (map (\<lambda>j. snd (unmarshal_jsonConfig j zero_jsonConfig))
     (filter (\<lambda>j. \<not> fst (unmarshal_jsonConfig j zero_jsonConfig)) (List.map_filter (ce_file ce) ps))) cfg"
  by (induction ps arbitrary: cfg) (auto simp: read_candidate_def List.map_filter_def split: option.splits prod.splits)

lemma Default_files: "Default ce = env_overrides ce (fold (apply_config ce) (config_files ce) (base_config ce))"
  by (simp add: Default_def config_files_def fold_read_candidate)

lemma apply_config_fields:
  "acfg_AuthToken (apply_config ce jc cfg) = (if acfg_AuthToken cfg = '''' then jc_AuthToken jc else acfg_AuthToken cfg)"
  "acfg_HeartbeatInterval (apply_config ce jc cfg) =
     (case (if jc_HeartbeatInterval jc = '''' then None else ParseDuration (jc_HeartbeatInterval jc)) of
        None \<Rightarrow> acfg_HeartbeatInterval cfg | Some d \<Rightarrow> d)"
  "acfg_Timeout (apply_config ce jc cfg) = acfg_Timeout cfg" "acfg_PollInterval (apply_config ce jc cfg) = acfg_PollInterval cfg"
  "acfg_MaxAttempts (apply_config ce jc cfg) = acfg_MaxAttempts cfg"
  by (simp_all add: apply_config_def Let_def split: option.split)

lemma fold_apply_config:
  "acfg_AuthToken (fold (apply_config ce) jcs cfg) = (if acfg_AuthToken cfg = '''' then first_of (map jc_AuthToken jcs) else acfg_AuthToken cfg)"
  "acfg_HeartbeatInterval (fold (apply_config ce) jcs cfg) =
     last (acfg_HeartbeatInterval cfg # List.map_filter (\<lambda>jc. if jc_HeartbeatInterval jc = '''' then None else ParseDuration (jc_HeartbeatInterval jc)) jcs)"
  "acfg_Timeout (fold (apply_config ce) jcs cfg) = acfg_Timeout cfg"
  "acfg_PollInterval (fold (apply_config ce) jcs cfg) = acfg_PollInterval cfg"
  "acfg_MaxAttempts (fold (apply_config ce) jcs cfg) = acfg_MaxAttempts cfg"
  by (induction jcs arbitrary: cfg)
    (auto simp: first_of_def apply_config_fields List.map_filter_def split: option.splits)

lemma env_overrides_fields:
  "acfg_AuthToken (env_overrides ce cfg) = (if ce_getenv ce ''TERMINAL_AUTH_TOKEN'' \<noteq> '''' then ce_getenv ce ''TERMINAL_AUTH_TOKEN'' else acfg_AuthToken cfg)"
  "acfg_DeviceID (env_overrides ce cfg) = (if ce_getenv ce ''TERMINAL_DEVICE_ID'' \<noteq> '''' then ce_getenv ce ''TERMINAL_DEVICE_ID'' else acfg_DeviceID cfg)"
  "acfg_RelayURL (env_overrides ce cfg) = (if ce_getenv ce ''TERMINAL_RELAY_URL'' \<noteq> '''' then ce_getenv ce ''TERMINAL_RELAY_URL'' else acfg_RelayURL cfg)"
  "acfg_HeartbeatInterval (env_overrides ce cfg) = acfg_HeartbeatInterval cfg"
  "acfg_Timeout (env_overrides ce cfg) = acfg_Timeout cfg" "acfg_PollInterval (env_overrides ce cfg) = acfg_PollInterval cfg"
  "acfg_MaxAttempts (env_overrides ce cfg) = acfg_MaxAttempts cfg"
  by (simp_all add: env_overrides_def Let_def)

lemma Default_heartbeat: "acfg_HeartbeatInterval (Default ce) = last (seconds 15 # heartbeats ce)"
  by (simp add: Default_files env_overrides_fields fold_apply_config heartbeats_def base_config_def)

text \<open>Where the agent's settings come from: an environment variable beats every file; without one, the token is that of the
  first candidate file that has one, while the heartbeat interval is that of the last file that has a valid one, and 15
  seconds without any.\<close>

theorem config_precedence:
  "acfg_AuthToken (Default ce) = (if ce_getenv ce ''TERMINAL_AUTH_TOKEN'' \<noteq> '''' then ce_getenv ce ''TERMINAL_AUTH_TOKEN''
      else first_of (map jc_AuthToken (config_files ce)))
   \<and> acfg_HeartbeatInterval (Default ce) = last (seconds 15 # heartbeats ce)
   \<and> (ce_getenv ce ''TERMINAL_RELAY_URL'' \<noteq> '''' \<longrightarrow> acfg_RelayURL (Default ce) = ce_getenv ce ''TERMINAL_RELAY_URL'')
   \<and> (ce_getenv ce ''TERMINAL_DEVICE_ID'' \<noteq> '''' \<longrightarrow> acfg_DeviceID (Default ce) = ce_getenv ce ''TERMINAL_DEVICE_ID'')"
  by (auto simp: Default_heartbeat) (auto simp: Default_files env_overrides_fields fold_apply_config base_config_def)

definition sample_ce :: CEnv where
  "sample_ce = \<lparr>ce_win = True, ce_getenv = (\<lambda>v. if v = ''TERMINAL_RELAY_URL'' then ''ws://r'' else ''''), ce_hostname = ''pc1'', ce_executable = None,
     ce_file = (\<lambda>p. if p = ''config.json'' then Some (JObj [(''auth_token'', JStr ''tok''), (''heartbeat_interval'', JStr ''0s'')]) else None),
     ce_int = (\<lambda>s. None)\<rparr>"

theorem config_precedence_witness: "acfg_RelayURL (Default sample_ce) = ''ws://r''"
  using config_precedence [of sample_ce] by (simp add: sample_ce_def)

section \<open>Intervals\<close>

lemma run_config_fields:
  "acfg_Timeout (run_config def acc) = (let t = int_setting ''timeout'' acc (acfg_Timeout def) in if t > 0 then t else acfg_Timeout def)"
  "acfg_PollInterval (run_config def acc) = (let t = int_setting ''poll'' acc (acfg_PollInterval def) in if t > 0 then t else acfg_PollInterval def)"
  "acfg_HeartbeatInterval (run_config def acc) = acfg_HeartbeatInterval def"
  by (simp_all add: run_config_def Let_def)

lemma Default_intervals: "acfg_Timeout (Default ce) = seconds 60" "acfg_PollInterval (Default ce) = seconds 1"
  by (simp_all add: Default_files env_overrides_fields fold_apply_config base_config_def)

text \<open>Whatever the environment, the files and the command line say, the worker starts with a positive polling interval and a positive
  timeout. The heartbeat interval is not checked: the agent crashes as soon as it is authenticated, exactly when
  the last valid interval of its configuration files is zero or negative.\<close>

theorem intervals_checked:
  "(case agent_main ce argv of
      RunWorker cfg drained \<Rightarrow> \<not> panics (worker_start cfg) \<and> 0 < acfg_Timeout cfg
        \<and> (panics (heartbeatLoop_start cfg) \<longleftrightarrow> last (seconds 15 # heartbeats ce) \<le> 0)
    | RunService cfg \<Rightarrow> \<not> panics (worker_start cfg) \<and> 0 < acfg_Timeout cfg
        \<and> (panics (heartbeatLoop_start cfg) \<longleftrightarrow> last (seconds 15 # heartbeats ce) \<le> 0)
    | _ \<Rightarrow> True)"
proof -
  have pos: "0 < seconds 60" "0 < seconds 1" by (simp_all add: seconds_exact second_ns_def)
  have service: "\<not> panics (worker_start (Default ce)) \<and> 0 < acfg_Timeout (Default ce)
      \<and> (panics (heartbeatLoop_start (Default ce)) \<longleftrightarrow> last (seconds 15 # heartbeats ce) \<le> 0)"
    using pos by (simp add: worker_start_def heartbeatLoop_start_def NewTicker_def Default_intervals Default_heartbeat)
  have worker: "\<not> panics (worker_start (run_config (Default ce) acc)) \<and> 0 < acfg_Timeout (run_config (Default ce) acc)
      \<and> (panics (heartbeatLoop_start (run_config (Default ce) acc)) \<longleftrightarrow> last (seconds 15 # heartbeats ce) \<le> 0)" for acc
    using pos
    by (simp add: worker_start_def heartbeatLoop_start_def NewTicker_def run_config_fields Let_def Default_intervals Default_heartbeat)
  show ?thesis
    using service worker
    by (simp add: agent_main_def cmdRun_def cmdEnqueue_action_def cmdResults_action_def cmdQueue_action_def Let_def split: flag_result.split)
qed

section \<open>Flags\<close>

definition flag_arg :: "string \<times> string \<Rightarrow> string" where
  "flag_arg nv = ''--'' @ fst nv @ ''='' @ snd nv"

definition plain_name :: "string \<Rightarrow> bool" where
  "plain_name n \<longleftrightarrow> n \<noteq> '''' \<and> hd n \<noteq> CHR ''-'' \<and> CHR ''='' \<notin> set n"

lemma parse_flags_arg:
  assumes "plain_name n" "map_of flags n = Some FString"
  shows "parse_flags ce flags acc (flag_arg (n, v) # rest) = parse_flags ce flags (acc @ [(n, VString v)]) rest"
proof -
  have n: "n \<noteq> ''''" "hd n \<noteq> CHR ''-''" "CHR ''='' \<notin> set n" using assms(1) by (auto simp: plain_name_def)
  then have "hd n \<noteq> CHR ''=''" by (metis hd_in_set)
  moreover have "takeWhile (\<lambda>c. c \<noteq> CHR ''='') (n @ CHR ''='' # v) = n" "dropWhile (\<lambda>c. c \<noteq> CHR ''='') (n @ CHR ''='' # v) = CHR ''='' # v"
    using n(3) by (auto simp: takeWhile_append dropWhile_append)
  ultimately show ?thesis
    using n assms(2) by (subst parse_flags.simps) (simp add: flag_arg_def flag_read_def Let_def)
qed

lemma parse_flags_args:
  "\<forall>(n, v) \<in> set nvs. plain_name n \<and> map_of flags n = Some FString \<Longrightarrow>
   parse_flags ce flags acc (map flag_arg nvs @ rest) = parse_flags ce flags (acc @ map (\<lambda>(n, v). (n, VString v)) nvs) rest"
  by (induction nvs arbitrary: acc) (auto simp: parse_flags_arg)

text \<open>A command line gives back the values it was given: settings written as \<open>--name=value\<close> are read as they are, whatever
  characters the values contain (spaces, dashes, further equals signs), the last setting of a name counts, and the words after
  them become the command: \<open>enqueue\<close> enters exactly those words, joined by blanks and without blanks around.\<close>

theorem command_line_roundtrip:
  assumes "words = [] \<or> length (hd words) < 2 \<or> hd (hd words) \<noteq> CHR ''-''"
  shows "cmdEnqueue_action ce (map (\<lambda>p. flag_arg (''db'', p)) paths @ words) =
     (if TrimSpace (join_words words) = '''' then Exit 1
      else EnqueueLocal (if paths = [] then acfg_DBPath (Default ce) else last paths) (TrimSpace (join_words words)) 0)"
proof -
  let ?flags = "[(''db'', FString), (''timeoutSec'', FInt)]" and ?nvs = "map (Pair ''db'') paths"
  have stop: "parse_flags ce ?flags acc words = Parsed acc words" for acc
    using assms by (cases words) (subst parse_flags.simps; simp)+
  have "parse_flags ce ?flags [] (map flag_arg ?nvs @ words) = parse_flags ce ?flags ([] @ map (\<lambda>(n, v). (n, VString v)) ?nvs) words"
    by (rule parse_flags_args) (auto simp: plain_name_def)
  then have parsed: "parse_flags ce ?flags [] (map (\<lambda>p. flag_arg (''db'', p)) paths @ words) = Parsed (map (\<lambda>p. (''db'', VString p)) paths) words"
    by (simp add: stop comp_def)
  have "map_of (rev (map (\<lambda>p. (''db'', VString p)) paths)) ''db'' = (if paths = [] then None else Some (VString (last paths)))"
    by (cases paths rule: rev_cases) auto
  moreover have "map_of (rev (map (\<lambda>p. (''db'', VString p)) paths)) ''timeoutSec'' = None"
    by (auto simp: map_of_eq_None_iff)
  ultimately show ?thesis
    by (simp add: cmdEnqueue_action_def parsed Let_def str_setting_def int_setting_def setting_def)
qed

theorem command_line_roundtrip_witness:
  "cmdEnqueue_action sample_ce [''--db=a=b c'', ''Get-Date'', ''-x''] = EnqueueLocal ''a=b c'' ''Get-Date -x'' 0"
proof -
  have "TrimSpace (join_words [''Get-Date'', ''-x'']) = ''Get-Date -x''" by code_simp
  then show ?thesis
    using command_line_roundtrip [of "[''Get-Date'', ''-x'']" sample_ce "[''a=b c'']"] by (simp add: flag_arg_def)
qed

end
