(* ===== verification/Wakeup.thy ===== *)
theory Wakeup
  imports NetProps
begin

text \<open>
  How the network client wakes the worker: the channel \<open>wake\<close> of \<^verbatim>\<open>agent/internal/worker/worker.go\<close>, which holds one token, and
  the goroutines around it. The client writes a message's commands to the store and then calls \<open>Wake\<close>; the worker polls the store,
  runs what it claims, and waits for the token or the ticker when it finds nothing. The steps of the two interleave freely.
\<close>

section \<open>The worker's channel\<close>

record WorkerObj =
  wo_cfg :: AConfig
  wo_onResult :: bool
  wo_wake :: nat

definition wake_capacity :: nat where
  "wake_capacity = 1"

definition NewWorker :: "AConfig \<Rightarrow> WorkerObj" where
  "NewWorker cfg = \<lparr>wo_cfg = cfg, wo_onResult = False, wo_wake = 0\<rparr>"

definition SetOnResult :: "WorkerObj \<Rightarrow> WorkerObj" where
  "SetOnResult w = w\<lparr>wo_onResult := True\<rparr>"

definition Wake :: "WorkerObj \<Rightarrow> WorkerObj" where
  "Wake w = (if wo_wake w < wake_capacity then w\<lparr>wo_wake := wo_wake w + 1\<rparr> else w)"

lemma Wake_token: "0 < wo_wake (Wake w)" "wo_cfg (Wake w) = wo_cfg w" "wo_onResult (Wake w) = wo_onResult w"
  by (simp_all add: Wake_def wake_capacity_def)

lemma Wake_bounded: "wo_wake w \<le> wake_capacity \<Longrightarrow> wo_wake (Wake w) \<le> wake_capacity"
  by (simp add: Wake_def)

section \<open>The goroutines\<close>

text \<open>
  \<open>Waiting True\<close> is the wait after a poll that found nothing, \<open>Waiting False\<close> the one after an error. \<open>ws_owed\<close> tells that
  the client has written commands and not called \<open>Wake\<close> yet, \<open>ws_local\<close> that another process has entered a command since the worker
  last polled: \<open>terminal-agent enqueue\<close> has no way to wake the worker.
\<close>

datatype worker_phase = Polling | Executing Command | Waiting bool

record Wake_State =
  ws_worker :: WorkerObj
  ws_db :: AgentDB
  ws_phase :: worker_phase
  ws_owed :: bool
  ws_local :: bool

datatype actor = TheWorker | TheClient | TheTicker | AnotherProcess

inductive wake_step :: "actor \<Rightarrow> Wake_State \<Rightarrow> Wake_State \<Rightarrow> bool" where
  claim: "ws_phase s = Polling \<Longrightarrow> ClaimNext (acfg_MaxAttempts (wo_cfg (ws_worker s))) (ws_db s) = (Some cmd, db) \<Longrightarrow>
    wake_step TheWorker s (s\<lparr>ws_db := db, ws_phase := Executing cmd\<rparr>)"
| empty: "ws_phase s = Polling \<Longrightarrow> ClaimNext (acfg_MaxAttempts (wo_cfg (ws_worker s))) (ws_db s) = (None, db) \<Longrightarrow>
    wake_step TheWorker s (s\<lparr>ws_db := db, ws_phase := Waiting True, ws_local := False\<rparr>)"
| executed: "ws_phase s = Executing cmd \<Longrightarrow> r = process_claimed (wo_cfg (ws_worker s)) we cmd (ws_db s) \<Longrightarrow>
    wake_step TheWorker s (s\<lparr>ws_db := ro_db r, ws_phase := (if ro_err r = None then Polling else Waiting False)\<rparr>)"
| woken: "ws_phase s = Waiting b \<Longrightarrow> 0 < wo_wake (ws_worker s) \<Longrightarrow>
    wake_step TheWorker s (s\<lparr>ws_worker := (ws_worker s)\<lparr>wo_wake := wo_wake (ws_worker s) - 1\<rparr>, ws_phase := Polling\<rparr>)"
| ticked: "ws_phase s = Waiting b \<Longrightarrow> wake_step TheTicker s (s\<lparr>ws_phase := Polling\<rparr>)"
| arrives: "\<not> ws_owed s \<Longrightarrow> nc_store nc = ws_db s \<Longrightarrow> \<not> nc_wake nc \<Longrightarrow> nc' = handleIncoming ne nc env \<Longrightarrow>
    wake_step TheClient s (s\<lparr>ws_db := nc_store nc', ws_owed := nc_wake nc'\<rparr>)"
| wakes: "ws_owed s \<Longrightarrow> wake_step TheClient s (s\<lparr>ws_worker := Wake (ws_worker s), ws_owed := False\<rparr>)"
| entered: "cmdEnqueue uuid now (ws_db s) args timeoutSec = Some (db, r) \<Longrightarrow>
    wake_step AnotherProcess s (s\<lparr>ws_db := db, ws_local := True\<rparr>)"

definition wake_init :: "AConfig \<Rightarrow> Wake_State \<Rightarrow> bool" where
  "wake_init cfg s \<longleftrightarrow> ws_worker s = SetOnResult (NewWorker cfg) \<and> ws_phase s = Polling \<and> \<not> ws_owed s \<and> \<not> ws_local s"

definition any_wake_step :: "Wake_State \<Rightarrow> Wake_State \<Rightarrow> bool" where
  "any_wake_step s t \<longleftrightarrow> (\<exists>a. wake_step a s t)"

inductive_cases wake_stepE: "wake_step a s t"

section \<open>No command is forgotten\<close>

definition work_waiting :: "Wake_State \<Rightarrow> bool" where
  "work_waiting s \<longleftrightarrow> list_ex (claimable (acfg_MaxAttempts (wo_cfg (ws_worker s)))) (CommandQueue (ws_db s))"

definition wake_inv :: "AConfig \<Rightarrow> Wake_State \<Rightarrow> bool" where
  "wake_inv cfg s \<longleftrightarrow> wo_cfg (ws_worker s) = cfg \<and> wo_wake (ws_worker s) \<le> wake_capacity
     \<and> (ws_phase s = Waiting True \<and> work_waiting s \<longrightarrow> 0 < wo_wake (ws_worker s) \<or> ws_owed s \<or> ws_local s)"

lemma ClaimNext_empty: "ClaimNext m db = (None, db') \<Longrightarrow> db' = db \<and> \<not> list_ex (claimable m) (CommandQueue db)"
  using ClaimNext_None_iff [of m db] by (auto simp: list_ex_iff ClaimNext_def Let_def split: list.splits)

text \<open>A message that does not wake the worker leaves the queue as it is.\<close>

lemma reply_store [simp]: "nc_store (reply ne nc env t body) = nc_store nc"
  by (simp add: reply_def NSend_def clientEnvelope_def Let_def split: prod.split)

lemma quiet_message:
  assumes "\<not> nc_wake (handleIncoming ne nc env)"
  shows "CommandQueue (nc_store (handleIncoming ne nc env)) = CommandQueue (nc_store nc)"
proof -
  have "CommandQueue (nc_store (handleResultAck nc env)) = CommandQueue (nc_store nc)"
    by (simp add: handleResultAck_def MarkResultSynced_def Let_def split: prod.split)
  moreover have "nc_store (handleFileRequest ne nc env) = nc_store nc" "nc_store (handleProcessRequest ne nc env) = nc_store nc"
    "nc_store (handleScreenCapture ne nc env) = nc_store nc"
    by (simp_all add: handleFileRequest_def handleProcessRequest_def handleScreenCapture_def Let_def split: prod.split)
  moreover have "\<not> nc_wake (handleDispatch ne nc env) \<Longrightarrow> handleDispatch ne nc env = nc"
    by (simp add: handleDispatch_def wake_def split: prod.splits if_splits)
  moreover have "\<not> nc_wake (handleSyncResp ne nc env) \<Longrightarrow> CommandQueue (nc_store (handleSyncResp ne nc env)) = CommandQueue (nc_store nc)"
    by (simp add: handleSyncResp_def wake_def Let_def CommandQueue_mark_all split: prod.splits if_splits)
  ultimately show ?thesis
    using assms by (simp add: handleIncoming_def split: if_splits)
qed

lemma wake_inv_step:
  assumes "wake_inv cfg s" and "any_wake_step s t"
  shows "wake_inv cfg t"
proof -
  obtain a where "wake_step a s t" using assms(2) by (auto simp: any_wake_step_def)
  then show ?thesis
  proof (cases rule: wake_step.cases)
    case (arrives nc nc' ne env)
    then show ?thesis
      using assms(1) quiet_message [of ne nc env] by (auto simp: wake_inv_def work_waiting_def)
  qed (use assms(1) Wake_bounded Wake_token in \<open>auto simp: wake_inv_def work_waiting_def dest: ClaimNext_empty\<close>)
qed

interpretation waking: invariant_system "wake_init cfg" any_wake_step "wake_inv cfg" for cfg
proof
  show "wake_init cfg s \<Longrightarrow> wake_inv cfg s" for s
    by (simp add: wake_init_def wake_inv_def SetOnResult_def NewWorker_def)
qed (rule wake_inv_step)

text \<open>From a wait with a token, the worker claims a command in two steps.\<close>

inductive prompt :: "Wake_State \<Rightarrow> Wake_State \<Rightarrow> bool" where
  \<comment> \<open>steps of the worker and the client only\<close>
  stay: "prompt s s"
| move: "wake_step a s t \<Longrightarrow> a = TheWorker \<or> a = TheClient \<Longrightarrow> prompt t u \<Longrightarrow> prompt s u"

lemma token_claims:
  assumes "ws_phase s = Waiting b" "0 < wo_wake (ws_worker s)" "work_waiting s"
  shows "\<exists>t cmd. prompt s t \<and> ws_phase t = Executing cmd"
proof -
  let ?s = "s\<lparr>ws_worker := (ws_worker s)\<lparr>wo_wake := wo_wake (ws_worker s) - 1\<rparr>, ws_phase := Polling\<rparr>"
  have "fst (ClaimNext (acfg_MaxAttempts (wo_cfg (ws_worker ?s))) (ws_db ?s)) \<noteq> None"
    using assms(3) by (simp add: ClaimNext_None_iff work_waiting_def list_ex_iff)
  then obtain cmd db where "ClaimNext (acfg_MaxAttempts (wo_cfg (ws_worker ?s))) (ws_db ?s) = (Some cmd, db)"
    by (metis not_Some_eq prod.collapse)
  then have "wake_step TheWorker ?s (?s\<lparr>ws_db := db, ws_phase := Executing cmd\<rparr>)" by (intro claim) simp_all
  moreover have "wake_step TheWorker s ?s" by (rule woken [OF assms(1,2)])
  ultimately have "prompt s (?s\<lparr>ws_db := db, ws_phase := Executing cmd\<rparr>)" by (blast intro: prompt.intros)
  moreover have "ws_phase (?s\<lparr>ws_db := db, ws_phase := Executing cmd\<rparr>) = Executing cmd" by simp
  ultimately show ?thesis by blast
qed

text \<open>C12. No wake-up is lost. Whatever the interleaving of the worker with the client's messages, when the worker waits after an empty
  poll and a command can be claimed, then unless another process entered one since, the worker's channel has a token or the
  client is about to put one in: the worker and the client alone, without the ticker, bring a command to execution. The
  channel never holds more than one token.\<close>

theorem no_lost_wakeup:
  assumes "reach (wake_init cfg) any_wake_step s"
    and "ws_phase s = Waiting True" and "work_waiting s" and "\<not> ws_local s"
  shows "wo_wake (ws_worker s) \<le> wake_capacity \<and> (0 < wo_wake (ws_worker s) \<or> ws_owed s)
     \<and> (\<exists>t cmd. prompt s t \<and> ws_phase t = Executing cmd)"
proof -
  have inv: "wo_wake (ws_worker s) \<le> wake_capacity" "0 < wo_wake (ws_worker s) \<or> ws_owed s"
    using waking.reach_inv [OF assms(1)] assms(2-4) by (auto simp: wake_inv_def)
  have "\<exists>t cmd. prompt s t \<and> ws_phase t = Executing cmd"
  proof (cases "0 < wo_wake (ws_worker s)")
    case True
    then show ?thesis using token_claims assms(2,3) by blast
  next
    case False
    let ?s = "s\<lparr>ws_worker := Wake (ws_worker s), ws_owed := False\<rparr>"
    have "wake_step TheClient s ?s" using False inv(2) by (intro wakes) simp
    moreover have "\<exists>t cmd. prompt ?s t \<and> ws_phase t = Executing cmd"
      by (rule token_claims) (use assms(2,3) in \<open>simp_all add: Wake_token work_waiting_def\<close>)
    ultimately show ?thesis by (blast intro: move)
  qed
  with inv show ?thesis by simp
qed

definition idle_worker :: Wake_State where
  "idle_worker = \<lparr>ws_worker = SetOnResult (NewWorker sample_acfg), ws_db = empty_agent_db, ws_phase = Polling, ws_owed = False, ws_local = False\<rparr>"

definition told_worker :: Wake_State where
  \<comment> \<open>the worker waits after an empty poll, and the client has stored a command\<close>
  "told_worker = idle_worker\<lparr>ws_phase := Waiting True, ws_owed := True,
     ws_db := enqueue_command sample_nenv (sample_order ''x'') empty_agent_db\<rparr>"

lemma told_worker_reachable: "reach (wake_init sample_acfg) any_wake_step told_worker"
proof -
  let ?waits = "idle_worker\<lparr>ws_db := empty_agent_db, ws_phase := Waiting True, ws_local := False\<rparr>"
  let ?nc = "NewNetClient empty_agent_db sample_acfg"
  have "reach (wake_init sample_acfg) any_wake_step idle_worker"
    by (rule reach.intros) (simp add: wake_init_def idle_worker_def)
  moreover have "any_wake_step idle_worker ?waits"
    unfolding any_wake_step_def
    by (rule exI [of _ TheWorker], rule wake_step.empty) (simp_all add: idle_worker_def ClaimNext_def empty_agent_db_def)
  moreover have "any_wake_step ?waits told_worker"
  proof -
    have "wake_step TheClient ?waits (?waits\<lparr>ws_db := nc_store (handleIncoming sample_nenv ?nc (dispatch_envelope (sample_order ''x''))),
        ws_owed := nc_wake (handleIncoming sample_nenv ?nc (dispatch_envelope (sample_order ''x'')))\<rparr>)"
      by (rule arrives [OF _ _ _ refl]) (simp_all add: idle_worker_def NewNetClient_def)
    then show ?thesis
      unfolding any_wake_step_def
      by (intro exI [of _ TheClient]) (simp add: told_worker_def idle_worker_def NewNetClient_def
          handleIncoming_delivers [OF dispatch_envelope_delivers [OF sample_order_valid]])
  qed
  ultimately show ?thesis by (blast intro: reach.intros)
qed

theorem no_lost_wakeup_witness: "ws_phase told_worker = Waiting True \<and> (\<exists>t cmd. prompt told_worker t \<and> ws_phase t = Executing cmd)"
proof -
  have "ws_phase told_worker = Waiting True" "\<not> ws_local told_worker" by (simp_all add: told_worker_def idle_worker_def)
  moreover have "work_waiting told_worker" by code_simp
  ultimately show ?thesis using no_lost_wakeup [OF told_worker_reachable] by blast
qed

end
