(* ===== verification/AgentMain.thy ===== *)
theory AgentMain
  imports ConfigProps Schema Wakeup
begin

text \<open>
  The agent as a process: what each command of \<^verbatim>\<open>agent/cmd/terminal-agent/main.go\<close> does after its command line is read, down to
  the output and the exit code, and the service around the worker (\<^verbatim>\<open>agent/internal/service/service.go\<close>).

  \<open>PEnv\<close> is what the process meets: the SQLite file (through \<open>agent_open\<close>), identifiers and times, the executions of the
  worker, the logging file, and the answers of the service manager, which is the package \<^verbatim>\<open>kardianos/service\<close>. Log lines are not modelled.
\<close>

section \<open>The process\<close>

record PEnv =
  pe_sql :: "AgentDB SqlEnv"
  pe_sqlErr :: "schema_error \<Rightarrow> string"
  pe_storeErr :: "agent_error \<Rightarrow> string"
  pe_uuid :: string
  pe_now :: int
  pe_rfc :: "int \<Rightarrow> string"
  pe_exec :: "nat \<Rightarrow> WEnv"
  pe_logFile :: "string \<Rightarrow> bool"
  pe_interactive :: bool
  pe_new :: "string option"
  pe_control :: "string \<Rightarrow> string option"
  pe_svcRun :: "string option"

text \<open>How far a start gets: the process ends, with its output, its code and the database it leaves; or its worker runs, perhaps with a
  relay client beside it.\<close>

record ProcEnd =
  pr_out :: string
  pr_err :: string
  pr_code :: int
  pr_db :: "(string \<times> AgentDB) option"

datatype process = Ended ProcEnd | Working AConfig WorkerObj AgentDB "NetClient option"

definition ended :: "string \<Rightarrow> int \<Rightarrow> process" where
  "ended out c = Ended \<lparr>pr_out = out, pr_err = '''', pr_code = c, pr_db = None\<rparr>"

definition fatal :: "string \<Rightarrow> process" where
  "fatal msg = Ended \<lparr>pr_out = '''', pr_err = ''error: '' @ msg @ newline, pr_code = 1, pr_db = None\<rparr>"

definition usage :: string where
  "usage =
     ''terminal-agent '' @ [CHR 0xE2, CHR 0x80, CHR 0x94] @ '' resilient remote-terminal agent (Phase 2 & 3: Relay + Resilience)'' @ newline
     @ newline
     @ ''Commands:'' @ newline
     @ ''  run       [--db PATH] [--relay URL] [--device-id ID] [--token SEC] [--timeout DUR] [--poll DUR] [--drain]'' @ newline
     @ ''            run the worker in the foreground (dev / connected mode)'' @ newline
     @ ''  enqueue   [--db PATH] [--timeoutSec N] '' @ [CHR 0x22] @ ''<command>'' @ [CHR 0x22]
     @ ''             add a PowerShell command to the queue'' @ newline
     @ ''  results   [--db PATH] [--id ID] [--limit N]                    show execution results'' @ newline
     @ ''  queue     [--db PATH] [--limit N]                              show queued commands'' @ newline
     @ ''  install | uninstall | start | stop | restart                   manage the Windows service'' @ newline
     @ newline
     @ ''With no arguments, runs under the Windows Service Control Manager.'' @ newline"

section \<open>Opening the queue\<close>

definition agent_open_message :: "(schema_error \<Rightarrow> string) \<Rightarrow> open_error \<Rightarrow> string" where
  "agent_open_message sqlmsg err =
     (case err of
        MkdirError dir msg \<Rightarrow> ''create db dir '' @ quote dir @ '': '' @ msg
      | DriverError msg \<Rightarrow> msg
      | PingError path msg \<Rightarrow> ''open sqlite '' @ quote path @ '': '' @ msg
      | MigrateError e \<Rightarrow> ''migrate: '' @ sqlmsg e)"

definition store_Open :: "PEnv \<Rightarrow> string \<Rightarrow> string + AgentDB" where
  "store_Open pe path =
     (case agent_open (pe_sql pe) path of Inl err \<Rightarrow> Inl (agent_open_message (pe_sqlErr pe) err) | Inr (cat, db) \<Rightarrow> Inr db)"

definition openStore :: "PEnv \<Rightarrow> string \<Rightarrow> (AgentDB \<Rightarrow> process) \<Rightarrow> process" where
  \<comment> \<open>the argument is what the caller does with the store\<close>
  "openStore pe path use = (case store_Open pe path of Inl msg \<Rightarrow> fatal msg | Inr db \<Rightarrow> use db)"

section \<open>The worker and its client\<close>

text \<open>\<open>program.run\<close> and \<open>cmdRun\<close> build the same thing around an opened store.\<close>

definition start_worker :: "AConfig \<Rightarrow> AgentDB \<Rightarrow> process" where
  "start_worker cfg db =
     (let db = snd (RecoverStale (acfg_MaxAttempts cfg) db); w = NewWorker cfg
      in if acfg_RelayURL cfg \<noteq> '''' then Working cfg (SetOnResult w) db (Some (NewNetClient db cfg)) else Working cfg w db None)"

definition run_drain :: "PEnv \<Rightarrow> AConfig \<Rightarrow> AgentDB \<Rightarrow> process" where
  "run_drain pe cfg db =
     (case cmdRun_drain cfg (pe_exec pe) db of
        (RunError err, db) \<Rightarrow> Ended \<lparr>pr_out = '''', pr_err = ''error: '' @ pe_storeErr pe err @ newline, pr_code = 1, pr_db = Some (acfg_DBPath cfg, db)\<rparr>
      | (_, db) \<Rightarrow> Ended \<lparr>pr_out = '''', pr_err = '''', pr_code = 0, pr_db = Some (acfg_DBPath cfg, db)\<rparr>)"

section \<open>The service\<close>

definition svcConfig :: "string \<times> string \<times> string" where
  "svcConfig = (''TerminalAgent'', ''Terminal Agent'',
     ''Resilient remote-terminal agent (Phase 1: local PowerShell executor + SQLite queue).'')"

text \<open>
  The channel \<open>done\<close> is closed when \<open>run\<close> returns. The fields \<open>cancel\<close> and \<open>done\<close> are set together, by \<open>Start\<close>.
\<close>

record program =
  pg_cfg :: AConfig
  pg_started :: bool
  pg_cancelled :: bool
  pg_done :: bool

definition build :: "PEnv \<Rightarrow> AConfig \<Rightarrow> string + program" where
  "build pe cfg = (case pe_new pe of Some msg \<Rightarrow> Inl msg
     | None \<Rightarrow> Inr \<lparr>pg_cfg = cfg, pg_started = False, pg_cancelled = False, pg_done = False\<rparr>)"

definition program_Start :: "program \<Rightarrow> program \<times> string option" where
  \<comment> \<open>starts the goroutine of \<open>program_run\<close>, and reports no error\<close>
  "program_Start p = (p\<lparr>pg_started := True, pg_cancelled := False, pg_done := False\<rparr>, None)"

definition program_run :: "PEnv \<Rightarrow> program \<Rightarrow> program \<times> process option" where
  \<comment> \<open>when the store does not open, the goroutine ends and nothing runs; otherwise the worker runs until it is cancelled\<close>
  "program_run pe p =
     (case store_Open pe (acfg_DBPath (pg_cfg p)) of
        Inl msg \<Rightarrow> (p\<lparr>pg_done := True\<rparr>, None)
      | Inr db \<Rightarrow> (p, Some (start_worker (pg_cfg p) db)))"

datatype stopped = NotStarted | InTime | GaveUp

definition program_Stop :: "(program \<Rightarrow> bool) \<Rightarrow> program \<Rightarrow> program \<times> stopped" where
  \<comment> \<open>\<open>returns p\<close>: the cancelled goroutine of \<open>p\<close> returns within 15 seconds\<close>
  "program_Stop returns p =
     (if \<not> pg_started p then (p, NotStarted)
      else let p = p\<lparr>pg_cancelled := True\<rparr>
           in if pg_done p then (p, InTime)
              else if returns p then (p\<lparr>pg_done := True\<rparr>, InTime)
              else (p, GaveUp))"

definition service_Run :: "PEnv \<Rightarrow> AConfig \<Rightarrow> string option" where
  "service_Run pe cfg = (case build pe cfg of Inl msg \<Rightarrow> Some msg | Inr p \<Rightarrow> pe_svcRun pe)"

definition Control :: "PEnv \<Rightarrow> string \<Rightarrow> AConfig \<Rightarrow> string option" where
  "Control pe act cfg = (case build pe cfg of Inl msg \<Rightarrow> Some msg | Inr p \<Rightarrow> pe_control pe act)"

definition cmdService :: "PEnv \<Rightarrow> string \<Rightarrow> AConfig \<Rightarrow> process" where
  "cmdService pe act cfg =
     (case Control pe act cfg of Some msg \<Rightarrow> fatal msg | None \<Rightarrow> ended (''service: '' @ act @ '' ok'' @ newline) 0)"

definition runService :: "PEnv \<Rightarrow> AConfig \<Rightarrow> process" where
  "runService pe cfg = (case service_Run pe cfg of Some msg \<Rightarrow> ended '''' 1 | None \<Rightarrow> ended '''' 0)"

section \<open>Logging\<close>

datatype log_sink = ToStderr | ToFile string

definition serviceLogger :: "PEnv \<Rightarrow> CEnv \<Rightarrow> AConfig \<Rightarrow> log_sink list" where
  "serviceLogger pe ce cfg =
     (let logPath = Join (ce_win ce) (DataDir ce cfg) ''agent.log'' in
      if \<not> pe_logFile pe logPath then [ToStderr]
      else if pe_interactive pe then [ToStderr, ToFile logPath]
      else [ToFile logPath])"

section \<open>The commands\<close>

definition enqueue_process :: "PEnv \<Rightarrow> string \<Rightarrow> string \<Rightarrow> int \<Rightarrow> process" where
  "enqueue_process pe path command timeoutSec =
     openStore pe path (\<lambda>db.
       case Enqueue (pe_uuid pe) (pe_now pe) db \<lparr>pl_Command = command, pl_TimeoutSec = timeoutSec\<rparr> of
         (db, Inl err) \<Rightarrow> fatal (pe_storeErr pe err)
       | (db, Inr i) \<Rightarrow> Ended \<lparr>pr_out = i @ newline, pr_err = '''', pr_code = 0, pr_db = Some (path, db)\<rparr>)"

text \<open>\<open>Exit 1\<close> is the usage error of \<open>enqueue\<close>; the other codes are those of the flag package, whose messages are not modelled.\<close>

definition enqueue_usage :: string where
  "enqueue_usage = ''usage: terminal-agent enqueue [--db PATH] [--timeoutSec N] '' @ [CHR 0x22] @ ''<powershell command>'' @ [CHR 0x22]"

definition perform :: "PEnv \<Rightarrow> CEnv \<Rightarrow> action \<Rightarrow> process" where
  "perform pe ce act =
     (case act of
        RunService cfg \<Rightarrow> runService pe cfg
      | RunWorker cfg drained \<Rightarrow> openStore pe (acfg_DBPath cfg) (if drained then run_drain pe cfg else start_worker cfg)
      | EnqueueLocal path command timeoutSec \<Rightarrow> enqueue_process pe path command timeoutSec
      | ShowResults path i limit \<Rightarrow> openStore pe path (\<lambda>db. ended (cmdResults (pe_rfc pe) db i limit) 0)
      | ShowQueue path limit \<Rightarrow> openStore pe path (\<lambda>db. ended (cmdQueue (pe_rfc pe) db limit) 0)
      | ControlService a \<Rightarrow> cmdService pe a (Default ce)
      | Usage \<Rightarrow> ended usage 0
      | Exit c \<Rightarrow> if c = 1 then fatal enqueue_usage else ended '''' c)"

definition main :: "PEnv \<Rightarrow> CEnv \<Rightarrow> string list \<Rightarrow> process" where
  "main pe ce argv = perform pe ce (agent_main ce argv)"

section \<open>How the commands end\<close>

definition store_path :: "action \<Rightarrow> string option" where
  \<comment> \<open>the database that a command opens itself; the service opens its own when it is started\<close>
  "store_path act =
     (case act of
        RunWorker cfg drained \<Rightarrow> Some (acfg_DBPath cfg) | EnqueueLocal path command n \<Rightarrow> Some path
      | ShowResults path i limit \<Rightarrow> Some path | ShowQueue path limit \<Rightarrow> Some path | _ \<Rightarrow> None)"

definition well_ended :: "ProcEnd \<Rightarrow> bool" where
  \<comment> \<open>a failed command prints no result, and an error message comes with code 1\<close>
  "well_ended r \<longleftrightarrow> pr_code r \<in> {0, 1, 2} \<and> (pr_code r \<noteq> 0 \<longrightarrow> pr_out r = '''') \<and> (pr_err r \<noteq> '''' \<longrightarrow> pr_code r = 1)"

definition well_started :: "PEnv \<Rightarrow> AConfig \<Rightarrow> WorkerObj \<Rightarrow> AgentDB \<Rightarrow> NetClient option \<Rightarrow> bool" where
  "well_started pe cfg w db client \<longleftrightarrow>
     (\<exists>db0. store_Open pe (acfg_DBPath cfg) = Inr db0 \<and> db = snd (RecoverStale (acfg_MaxAttempts cfg) db0))
     \<and> list_all (\<lambda>c. ac_Status c \<noteq> AStatusExecuting) (CommandQueue db)
     \<and> wo_cfg w = cfg \<and> wo_wake w = 0 \<and> (wo_onResult w \<longleftrightarrow> client \<noteq> None) \<and> (client \<noteq> None \<longleftrightarrow> acfg_RelayURL cfg \<noteq> '''')"

definition proper :: "PEnv \<Rightarrow> process \<Rightarrow> bool" where
  "proper pe p \<longleftrightarrow> (case p of Ended r \<Rightarrow> well_ended r | Working cfg w db client \<Rightarrow> well_started pe cfg w db client)"

lemma proper_ended: "proper pe (ended out c) \<longleftrightarrow> c \<in> {0, 1, 2} \<and> (c \<noteq> 0 \<longrightarrow> out = '''')"
  by (simp add: proper_def ended_def well_ended_def)

lemma proper_fatal: "proper pe (fatal msg)"
  by (simp add: proper_def fatal_def well_ended_def)

lemma proper_openStore: "(\<And>db. store_Open pe path = Inr db \<Longrightarrow> proper pe (use db)) \<Longrightarrow> proper pe (openStore pe path use)"
  by (simp add: openStore_def proper_fatal split: sum.split)

lemma RecoverStale_none_executing: "list_all (\<lambda>c. ac_Status c \<noteq> AStatusExecuting) (CommandQueue (snd (RecoverStale m db)))"
  by (auto simp: RecoverStale_def update_rows_def list_all_iff split: if_splits)

lemma proper_start_worker: "store_Open pe (acfg_DBPath cfg) = Inr db \<Longrightarrow> proper pe (start_worker cfg db)"
  by (simp add: proper_def start_worker_def well_started_def NewWorker_def SetOnResult_def RecoverStale_none_executing Let_def)

lemma proper_run_drain: "proper pe (run_drain pe cfg db)"
  by (auto simp: proper_def run_drain_def well_ended_def split: prod.split drain_end.split)

lemma proper_enqueue: "proper pe (enqueue_process pe path command n)"
  unfolding enqueue_process_def
  by (rule proper_openStore)
    (auto simp: proper_fatal proper_def [of pe "Ended r" for r] well_ended_def split: prod.split sum.split)

lemma proper_perform: "(\<And>c. act = Exit c \<Longrightarrow> c \<in> {0, 1, 2}) \<Longrightarrow> proper pe (perform pe ce act)"
  by (cases act)
    (auto simp: perform_def runService_def cmdService_def proper_ended proper_fatal proper_enqueue proper_run_drain proper_start_worker
      intro!: proper_openStore split: option.split)

lemma agent_main_exit: "agent_main ce argv = Exit c \<Longrightarrow> c \<in> {0, 1, 2}"
  by (auto simp: agent_main_def cmdRun_def cmdEnqueue_action_def cmdResults_action_def cmdQueue_action_def exit_code_def Let_def
      split: if_splits flag_result.splits)

lemma perform_unopened: "store_path act = Some path \<Longrightarrow> store_Open pe path = Inl msg \<Longrightarrow> perform pe ce act = fatal msg"
  by (cases act) (auto simp: store_path_def perform_def enqueue_process_def openStore_def)

text \<open>C34. How the agent's commands end. A process that ends has code 0, 1 or 2, prints no result unless the code is 0, and
  an error message only with code 1; a process that goes on runs a worker on its recovered queue, in which nothing is marked as
  executing, and has a relay client, told about every result, exactly when a relay is configured. A command whose database does not open
  ends with that error. \<open>enqueue\<close> prints the identifier of the row it added. The service differs: when its database does not
  open, \<open>Start\<close> has reported success and the program ends without a worker; \<open>Stop\<close> then returns at once.\<close>

theorem agent_process:
  "(case main pe ce argv of Ended r \<Rightarrow> well_ended r | Working cfg w db client \<Rightarrow> well_started pe cfg w db client)
   \<and> (store_path (agent_main ce argv) = Some path \<and> store_Open pe path = Inl msg \<longrightarrow> main pe ce argv = fatal msg)
   \<and> (agent_main ce argv = EnqueueLocal path command n \<and> store_Open pe path = Inr db \<and> AGetCommand db (pe_uuid pe) = None \<longrightarrow>
        (\<exists>db'. main pe ce argv = Ended \<lparr>pr_out = pe_uuid pe @ newline, pr_err = '''', pr_code = 0, pr_db = Some (path, db')\<rparr>
          \<and> AGetCommand db' (pe_uuid pe) = Some (pending_row (pe_now pe) (pe_uuid pe) \<lparr>pl_Command = command, pl_TimeoutSec = n\<rparr>)))
   \<and> (store_Open pe (acfg_DBPath (pg_cfg p)) = Inl msg \<longrightarrow>
        snd (program_Start p) = None \<and> snd (program_run pe (fst (program_Start p))) = None
        \<and> snd (program_Stop returns (fst (program_run pe (fst (program_Start p))))) = InTime)"
proof (intro conjI impI)
  have "proper pe (main pe ce argv)"
    unfolding main_def by (rule proper_perform) (rule agent_main_exit)
  then show "case main pe ce argv of Ended r \<Rightarrow> well_ended r | Working cfg w db client \<Rightarrow> well_started pe cfg w db client"
    by (simp add: proper_def)
  show "main pe ce argv = fatal msg" if "store_path (agent_main ce argv) = Some path \<and> store_Open pe path = Inl msg"
    using that by (simp add: main_def perform_unopened)
  show "\<exists>db'. main pe ce argv = Ended \<lparr>pr_out = pe_uuid pe @ newline, pr_err = '''', pr_code = 0, pr_db = Some (path, db')\<rparr>
          \<and> AGetCommand db' (pe_uuid pe) = Some (pending_row (pe_now pe) (pe_uuid pe) \<lparr>pl_Command = command, pl_TimeoutSec = n\<rparr>)"
    if "agent_main ce argv = EnqueueLocal path command n \<and> store_Open pe path = Inr db \<and> AGetCommand db (pe_uuid pe) = None"
    using that
    by (simp add: main_def perform_def enqueue_process_def openStore_def Enqueue_def AGetCommand_def agent_lookup_def
        select_pk_append pending_row_def)
qed (simp_all add: program_run_def program_Start_def program_Stop_def)

definition sample_pe :: "(string \<Rightarrow> string option) \<Rightarrow> PEnv" where
  "sample_pe mkdir = \<lparr>pe_sql = \<lparr>sq_win = False, sq_mkdir = mkdir, sq_open = (\<lambda>d. None), sq_ping = (\<lambda>d. None),
       sq_file = (\<lambda>d. (empty_catalog, empty_agent_db))\<rparr>,
     pe_sqlErr = (\<lambda>e. ''schema''), pe_storeErr = (\<lambda>e. ''store''), pe_uuid = ''u-1'', pe_now = 7, pe_rfc = (\<lambda>t. ''now''), pe_exec = sample_wenv,
     pe_logFile = (\<lambda>p. True), pe_interactive = True, pe_new = None, pe_control = (\<lambda>a. None), pe_svcRun = None\<rparr>"

lemma sample_pe_opens: "store_Open (sample_pe mkdir) ''q.db'' = Inr empty_agent_db"
proof -
  have "Dir False ''q.db'' = ''.''" by code_simp
  then show ?thesis
    by (simp add: store_Open_def agent_open_def open_sqlite_def mkdir_error_def sample_pe_def agent_migrate_def schemas_run Let_def)
qed

theorem agent_process_witness:
  "\<exists>db'. main (sample_pe (\<lambda>d. None)) sample_ce [''terminal-agent'', ''enqueue'', ''--db=q.db'', ''dir''] =
       Ended \<lparr>pr_out = ''u-1'' @ newline, pr_err = '''', pr_code = 0, pr_db = Some (''q.db'', db')\<rparr>
     \<and> map_option ac_Status (AGetCommand db' ''u-1'') = Some AStatusPending"
proof -
  have "TrimSpace (join_words [''dir'']) = ''dir''" by code_simp
  then have "cmdEnqueue_action sample_ce [''--db=q.db'', ''dir''] = EnqueueLocal ''q.db'' ''dir'' 0"
    using command_line_roundtrip [of "[''dir'']" sample_ce "[''q.db'']"] by (simp add: flag_arg_def)
  then have "agent_main sample_ce [''terminal-agent'', ''enqueue'', ''--db=q.db'', ''dir''] = EnqueueLocal ''q.db'' ''dir'' 0"
    by (simp add: agent_main_def)
  moreover have "AGetCommand empty_agent_db (pe_uuid (sample_pe (\<lambda>d. None))) = None"
    by (simp add: AGetCommand_def agent_lookup_def empty_agent_db_def select_pk_def)
  ultimately obtain db' where "main (sample_pe (\<lambda>d. None)) sample_ce [''terminal-agent'', ''enqueue'', ''--db=q.db'', ''dir''] =
       Ended \<lparr>pr_out = ''u-1'' @ newline, pr_err = '''', pr_code = 0, pr_db = Some (''q.db'', db')\<rparr>"
    "AGetCommand db' ''u-1'' = Some (pending_row 7 ''u-1'' \<lparr>pl_Command = ''dir'', pl_TimeoutSec = 0\<rparr>)"
    using agent_process [of "sample_pe (\<lambda>d. None)" sample_ce "[''terminal-agent'', ''enqueue'', ''--db=q.db'', ''dir'']" "''q.db''"]
      sample_pe_opens by (fastforce simp: sample_pe_def)
  then show ?thesis by (simp add: pending_row_def)
qed

end
