(* ===== verification/SupabaseProps.thy ===== *)
theory SupabaseProps
  imports Supabase RelayStoreProps "HOL-Library.Multiset"
begin

text \<open>
  What the Supabase store promises, and where it differs from the SQLite store: its requests address exactly
  the rows they name whatever the names contain; its queue acts like the one of \<open>RelayStore\<close> as long as the service follows
  PostgREST's documentation; and three operations do something else.
\<close>

section \<open>The address of a request\<close>

text \<open>
  How a server reads the URL: the path up to the question mark, then the parameters, separated by ampersands, each a name
  and a value around the first equals sign, both unescaped.
\<close>

fun split_amp :: "string \<Rightarrow> string \<Rightarrow> string list" where
  "split_amp acc [] = [rev acc]"
| "split_amp acc (c # cs) = (if c = CHR ''&'' then rev acc # split_amp [] cs else split_amp (c # acc) cs)"

definition parse_param :: "string \<Rightarrow> (string \<times> string) option" where
  "parse_param s =
     (case (QueryUnescape (takeWhile (\<lambda>c. c \<noteq> CHR ''='') s), QueryUnescape (drop 1 (dropWhile (\<lambda>c. c \<noteq> CHR ''='') s))) of
        (Some k, Some v) \<Rightarrow> Some (k, v)
      | _ \<Rightarrow> None)"

definition parse_query :: "string \<Rightarrow> (string \<times> string) list option" where
  "parse_query q = (if q = [] then Some [] else those (map parse_param (split_amp [] q)))"

definition address :: "SupabaseStore \<Rightarrow> SbRequest \<Rightarrow> (string \<times> (string \<times> string) list) option" where
  "address ss rq =
     (let n = length (ss_baseURL ss); endpoint = drop n (sq_URL rq); path = takeWhile (\<lambda>c. c \<noteq> CHR ''?'') endpoint
      in if take n (sq_URL rq) = ss_baseURL ss
         then map_option (Pair path) (parse_query (drop (Suc (length path)) endpoint)) else None)"

lemma split_amp_pass: "CHR ''&'' \<notin> set x \<Longrightarrow> split_amp acc (x @ y) = split_amp (rev x @ acc) y"
  by (induction x arbitrary: acc) auto

lemma amp_not_escaped [simp]: "CHR ''&'' \<notin> set (QueryEscape s)" "CHR ''='' \<notin> set (QueryEscape s)"
  using QueryEscape_chars [of "CHR ''&''" s] QueryEscape_chars [of "CHR ''=''" s] by (auto simp: unreserved_def)

lemma split_amp_escaped [simp]:
  "split_amp acc (QueryEscape s @ y) = split_amp (rev (QueryEscape s) @ acc) y"
  "split_amp acc (QueryEscape s) = [rev acc @ QueryEscape s]"
  using split_amp_pass [of "QueryEscape s" acc "[]"] by (simp_all add: split_amp_pass)

lemma address_request:
  "address ss (sb_request ss meth endpoint body hs) =
     (let path = takeWhile (\<lambda>c. c \<noteq> CHR ''?'') endpoint
      in map_option (Pair path) (parse_query (drop (Suc (length path)) endpoint)))"
  by (simp add: address_def sb_request_def Let_def)

lemma sq_request [simp]:
  "sq_Method (sb_request ss meth endpoint body hs) = meth" "sq_Body (sb_request ss meth endpoint body hs) = body"
  by (simp_all add: sb_request_def)

lemmas address_simps = address_request parse_query_def parse_param_def QueryUnescape_Escape

text \<open>A service that writes down what it is asked and always gives the same answer.\<close>

definition recorder :: "SbReply \<Rightarrow> SbRequest list service" where
  "recorder r s rq = (s @ [rq], r)"

definition asked :: "SupabaseStore \<Rightarrow> SbRequest list \<times> 'a \<Rightarrow> (string \<times> (string \<times> (string \<times> string) list) option) list" where
  "asked ss out = map (\<lambda>rq. (sq_Method rq, address ss rq)) (fst out)"

lemma command_address:
  "address ss (sb_request ss m (command_endpoint c) b h) = Some (''/cloud_command_queue'', [(''command_id'', ''eq.'' @ c)])"
  "address ss (sb_request ss m (command_endpoint c @ ''&limit=1'') b h) =
     Some (''/cloud_command_queue'', [(''command_id'', ''eq.'' @ c), (''limit'', ''1'')])"
  by (simp_all add: address_simps command_endpoint_def)

lemma device_address:
  "address ss (sb_request ss m (device_endpoint d) b h) = Some (''/devices'', [(''device_id'', ''eq.'' @ d)])"
  "address ss (sb_request ss m (device_endpoint d @ ''&limit=1'') b h) =
     Some (''/devices'', [(''device_id'', ''eq.'' @ d), (''limit'', ''1'')])"
  by (simp_all add: address_simps device_endpoint_def)

lemma user_address:
  "address ss (sb_request ss m (''/users?auth_token=eq.'' @ QueryEscape t @ ''&limit=1'') b h) =
     Some (''/users'', [(''auth_token'', ''eq.'' @ t), (''limit'', ''1'')])"
  "address ss (sb_request ss m (''/users?username=eq.'' @ QueryEscape t @ ''&limit=1'') b h) =
     Some (''/users'', [(''username'', ''eq.'' @ t), (''limit'', ''1'')])"
  by (simp_all add: address_simps)

lemma list_address:
  "address ss (sb_request ss m (''/devices?user_id=eq.'' @ QueryEscape u @ ''&order=last_heartbeat.desc'') b h) =
     Some (''/devices'', [(''user_id'', ''eq.'' @ u), (''order'', ''last_heartbeat.desc'')])"
  "address ss (sb_request ss m (''/cloud_command_queue?device_id=eq.'' @ QueryEscape d @ ''&status=eq.PENDING&order=created_at.asc'') b h) =
     Some (''/cloud_command_queue'', [(''device_id'', ''eq.'' @ d), (''status'', ''eq.PENDING''), (''order'', ''created_at.asc'')])"
  by (simp_all add: address_simps)

lemma result_address:
  "address ss (sb_request ss m (''/cloud_result_queue?command_id=eq.'' @ QueryEscape c @ ''&limit=1'') b h) =
     Some (''/cloud_result_queue'', [(''command_id'', ''eq.'' @ c), (''limit'', ''1'')])"
  by (simp add: address_simps)

lemma cache_address:
  "address ss (sb_request ss m (cache_endpoint d p ''0'') b h) =
     Some (''/cloud_file_cache'', [(''device_id'', ''eq.'' @ d), (''path'', ''eq.'' @ p), (''is_dir'', ''eq.0''), (''limit'', ''1'')])"
  "address ss (sb_request ss m (cache_endpoint d p ''1'') b h) =
     Some (''/cloud_file_cache'', [(''device_id'', ''eq.'' @ d), (''path'', ''eq.'' @ p), (''is_dir'', ''eq.1''), (''limit'', ''1'')])"
  by (simp_all add: address_simps cache_endpoint_def)

lemma table_address:
  "address ss (sb_request ss m ''/cloud_command_queue'' b h) = Some (''/cloud_command_queue'', [])"
  "address ss (sb_request ss m ''/cloud_result_queue'' b h) = Some (''/cloud_result_queue'', [])"
  by (simp_all add: address_simps)

lemmas addresses = command_address device_address user_address list_address result_address cache_address table_address

lemma asked_write [simp]:
  "asked ss (write_error (sb_send (recorder r) ss [] m endpoint b h)) = [(m, address ss (sb_request ss m endpoint b h))]"
  by (cases r) (simp_all add: asked_def write_error_def sb_send_def recorder_def)

lemma asked_read [simp]:
  "asked ss (map_prod id f (first_row d z (sb_send (recorder r) ss [] m endpoint b h))) = [(m, address ss (sb_request ss m endpoint b h))]"
  "asked ss (map_prod id g (all_rows d' z' (sb_send (recorder r) ss [] m endpoint b h))) = [(m, address ss (sb_request ss m endpoint b h))]"
  by (cases r; simp add: asked_def first_row_def all_rows_def sb_send_def recorder_def)+

lemma asked_cached:
  "asked ss (sb_GetCachedFileContent (recorder r) ss [] d p) = [(''GET'', address ss (sb_request ss ''GET'' (cache_endpoint d p ''0'') None []))]"
  by (cases r)
    (auto simp: asked_def sb_GetCachedFileContent_def first_row_def sb_send_def recorder_def Let_def split: prod.splits sum.splits if_splits)


section \<open>The queue on a PostgREST service\<close>

text \<open>
  PostgREST's documented behaviour on the table of commands, as a hypothesis about the service. \<open>rows\<close> reads the table
  from the service's state. A query returns the rows that satisfy every equality, ordered and limited as asked; a PATCH
  overwrites the given columns of the rows that match; a POST that merges duplicates overwrites the given columns of the
  row with the same key, or appends a row whose other columns have their defaults; requests to other tables leave this
  one alone. A body overwrites the columns it names, which is what decoding it into the row does.
\<close>

definition column :: "string \<Rightarrow> sbCommand \<Rightarrow> string option" where
  "column k c =
     (if k = ''command_id'' then Some (sm_CommandID c) else if k = ''device_id'' then Some (sm_DeviceID c)
      else if k = ''status'' then Some (sm_Status c) else None)"

definition matches :: "(string \<times> string) list \<Rightarrow> sbCommand \<Rightarrow> bool" where
  "matches ps c \<longleftrightarrow> list_all (\<lambda>(k, v). k \<in> {''order'', ''limit''} \<or> (case column k c of None \<Rightarrow> False | Some t \<Rightarrow> v = ''eq.'' @ t)) ps"

definition selected :: "(string \<times> string) list \<Rightarrow> sbCommand list \<Rightarrow> sbCommand list" where
  "selected ps rows =
     (let rows = filter (matches ps) rows;
          rows = (if (''order'', ''created_at.asc'') \<in> set ps then sort_key sm_CreatedAt rows else rows)
      in if (''limit'', ''1'') \<in> set ps then take 1 rows else rows)"

definition patched :: "(string \<times> string) list \<Rightarrow> json \<Rightarrow> sbCommand list \<Rightarrow> sbCommand list" where
  "patched ps body rows = update_rows (matches ps) (\<lambda>c. snd (unmarshal_sbCommand body c)) rows"

definition merged :: "json \<Rightarrow> sbCommand list \<Rightarrow> sbCommand list" where
  "merged body rows =
     (let new = snd (unmarshal_sbCommand body zero_sbCommand)
      in if select_pk sm_CommandID (sm_CommandID new) rows = None then rows @ [new]
         else update_rows (\<lambda>c. sm_CommandID c = sm_CommandID new) (\<lambda>c. snd (unmarshal_sbCommand body c)) rows)"

definition postgrest :: "'s service \<Rightarrow> SupabaseStore \<Rightarrow> ('s \<Rightarrow> sbCommand list) \<Rightarrow> bool" where
  "postgrest svc ss rows \<longleftrightarrow>
     (\<forall>s rq ps. address ss rq = Some (''/cloud_command_queue'', ps) \<and> sq_Method rq = ''GET'' \<longrightarrow>
        (\<exists>s' raw. svc s rq = (s', Answered 200 raw (Some (JArr (map marshal_sbCommand (selected ps (rows s)))))) \<and> rows s' = rows s))
   \<and> (\<forall>s rq ps body. address ss rq = Some (''/cloud_command_queue'', ps) \<and> sq_Method rq = ''PATCH'' \<and> sq_Body rq = Some body \<longrightarrow>
        (\<exists>s'. svc s rq = (s', Answered 204 '''' None) \<and> rows s' = patched ps body (rows s)))
   \<and> (\<forall>s rq body. address ss rq = Some (''/cloud_command_queue'', []) \<and> sq_Method rq = ''POST'' \<and> sq_Body rq = Some body
        \<and> (''Prefer'', ''resolution=merge-duplicates'') \<in> set (sq_Headers rq) \<longrightarrow>
        (\<exists>s'. svc s rq = (s', Answered 201 '''' None) \<and> rows s' = merged body (rows s)))
   \<and> (\<forall>s rq table ps. address ss rq = Some (table, ps) \<and> table \<noteq> ''/cloud_command_queue'' \<longrightarrow> rows (fst (svc s rq)) = rows s)"

lemma postgrest_get:
  "postgrest svc ss rows \<Longrightarrow> address ss rq = Some (''/cloud_command_queue'', ps) \<Longrightarrow> sq_Method rq = ''GET'' \<Longrightarrow>
   \<exists>s' raw. svc s rq = (s', Answered 200 raw (Some (JArr (map marshal_sbCommand (selected ps (rows s)))))) \<and> rows s' = rows s"
  by (auto simp: postgrest_def)

lemma postgrest_patch:
  "postgrest svc ss rows \<Longrightarrow> address ss rq = Some (''/cloud_command_queue'', ps) \<Longrightarrow> sq_Method rq = ''PATCH'' \<Longrightarrow>
   sq_Body rq = Some body \<Longrightarrow> \<exists>s'. svc s rq = (s', Answered 204 '''' None) \<and> rows s' = patched ps body (rows s)"
  by (auto simp: postgrest_def)

lemma postgrest_post:
  "postgrest svc ss rows \<Longrightarrow> address ss rq = Some (''/cloud_command_queue'', []) \<Longrightarrow> sq_Method rq = ''POST'' \<Longrightarrow>
   sq_Body rq = Some body \<Longrightarrow> (''Prefer'', ''resolution=merge-duplicates'') \<in> set (sq_Headers rq) \<Longrightarrow>
   \<exists>s'. svc s rq = (s', Answered 201 '''' None) \<and> rows s' = merged body (rows s)"
  by (auto simp: postgrest_def)

lemma postgrest_other:
  "postgrest svc ss rows \<Longrightarrow> address ss rq = Some (table, ps) \<Longrightarrow> table \<noteq> ''/cloud_command_queue'' \<Longrightarrow> rows (fst (svc s rq)) = rows s"
  by (auto simp: postgrest_def)

text \<open>The two stores hold the same queue.\<close>

definition same_queue :: "sbCommand list \<Rightarrow> DB \<Rightarrow> bool" where
  "same_queue rows db \<longleftrightarrow> map record_of_row rows = CloudCommandQueue db"

definition rows_fit :: "sbCommand list \<Rightarrow> bool" where
  "rows_fit rows \<longleftrightarrow> (\<forall>c \<in> set rows. valid_sbCommand c)"

lemma patch_dispatched:
  "in_int64 now \<Longrightarrow> snd (unmarshal_sbCommand (JObj [(''dispatched_at'', enc_int now), (''status'', JStr st)]) c)
     = c\<lparr>sm_DispatchedAt := now, sm_Status := st\<rparr>"
  by (simp add: unmarshal_sbCommand_def struct_simps)

lemma patch_completed:
  "in_int64 now \<Longrightarrow> snd (unmarshal_sbCommand (JObj [(''completed_at'', enc_int now), (''status'', JStr st)]) c)
     = c\<lparr>sm_CompletedAt := now, sm_Status := st\<rparr>"
  by (simp add: unmarshal_sbCommand_def struct_simps)

lemma matches_command: "matches [(''command_id'', CHR ''e'' # CHR ''q'' # CHR ''.'' # i)] = (\<lambda>c. sm_CommandID c = i)"
  by (auto simp: fun_eq_iff matches_def column_def)

lemma matches_pending:
  "matches [(''device_id'', CHR ''e'' # CHR ''q'' # CHR ''.'' # d), (''status'', ''eq.PENDING''), (''order'', ''created_at.asc'')]
     = (\<lambda>c. sm_DeviceID c = d \<and> sm_Status c = StatusPending)"
  by (auto simp: fun_eq_iff matches_def column_def)

lemma record_of_row_simps [simp]:
  "cr_CommandID (record_of_row c) = sm_CommandID c" "cr_DeviceID (record_of_row c) = sm_DeviceID c"
  "cr_Status (record_of_row c) = sm_Status c" "cr_CreatedAt (record_of_row c) = sm_CreatedAt c"
  by (simp_all add: record_of_row_def)

lemma map_update_rows:
  "(\<And>c. c \<in> set rows \<Longrightarrow> q (h c) = p c \<and> (p c \<longrightarrow> g (h c) = h (f c))) \<Longrightarrow> map h (update_rows p f rows) = update_rows q g (map h rows)"
  by (auto simp: update_rows_def)

lemma sb_MarkCommandDispatched_rows:
  assumes "postgrest svc ss rows" "in_int64 (sb_now e)"
  shows "snd (sb_MarkCommandDispatched e svc ss s i) = None"
    and "rows (fst (sb_MarkCommandDispatched e svc ss s i)) =
      update_rows (\<lambda>c. sm_CommandID c = i) (\<lambda>c. c\<lparr>sm_DispatchedAt := sb_now e, sm_Status := StatusDispatched\<rparr>) (rows s)"
proof -
  let ?b = "JObj [(''dispatched_at'', enc_int (sb_now e)), (''status'', JStr StatusDispatched)]"
  let ?rq = "sb_request ss ''PATCH'' (command_endpoint i) (Some ?b) []"
  have "address ss ?rq = Some (''/cloud_command_queue'', [(''command_id'', ''eq.'' @ i)])" by (rule command_address)
  from postgrest_patch [OF assms(1) this, of ?b s] obtain s' where "svc s ?rq = (s', Answered 204 '''' None)" "rows s' = patched [(''command_id'', ''eq.'' @ i)] ?b (rows s)"
    by auto
  then show "snd (sb_MarkCommandDispatched e svc ss s i) = None"
    and "rows (fst (sb_MarkCommandDispatched e svc ss s i)) =
      update_rows (\<lambda>c. sm_CommandID c = i) (\<lambda>c. c\<lparr>sm_DispatchedAt := sb_now e, sm_Status := StatusDispatched\<rparr>) (rows s)"
    using assms(2)
    by (simp_all add: sb_MarkCommandDispatched_def write_error_def sb_send_def patched_def matches_command patch_dispatched)
qed

lemma sb_MarkCommandCompleted_rows:
  assumes "postgrest svc ss rows" "in_int64 (sb_now e)"
  shows "rows (fst (sb_MarkCommandCompleted e svc ss s i st)) =
      update_rows (\<lambda>c. sm_CommandID c = i) (\<lambda>c. c\<lparr>sm_CompletedAt := sb_now e, sm_Status := st\<rparr>) (rows s)"
proof -
  let ?b = "JObj [(''completed_at'', enc_int (sb_now e)), (''status'', JStr st)]"
  let ?rq = "sb_request ss ''PATCH'' (command_endpoint i) (Some ?b) []"
  have "address ss ?rq = Some (''/cloud_command_queue'', [(''command_id'', ''eq.'' @ i)])" by (rule command_address)
  from postgrest_patch [OF assms(1) this, of ?b s] obtain s' where "svc s ?rq = (s', Answered 204 '''' None)" "rows s' = patched [(''command_id'', ''eq.'' @ i)] ?b (rows s)"
    by auto
  then show ?thesis
    using assms(2)
    by (simp add: sb_MarkCommandCompleted_def write_error_def sb_send_def patched_def matches_command patch_completed)
qed

lemma sb_GetPendingCommands_rows:
  assumes "postgrest svc ss rows" "rows_fit (rows s)"
  shows "\<exists>s'. sb_GetPendingCommands svc ss s d = (s', Inr (map payload_of_row
      (sort_key sm_CreatedAt (filter (\<lambda>c. sm_DeviceID c = d \<and> sm_Status c = StatusPending) (rows s))))) \<and> rows s' = rows s"
proof -
  let ?ps = "[(''device_id'', ''eq.'' @ d), (''status'', ''eq.PENDING''), (''order'', ''created_at.asc'')]"
  let ?rq = "sb_request ss ''GET'' (''/cloud_command_queue?device_id=eq.'' @ QueryEscape d @ ''&status=eq.PENDING&order=created_at.asc'') None []"
  have "address ss ?rq = Some (''/cloud_command_queue'', ?ps)" by (rule list_address)
  from postgrest_get [OF assms(1) this, of s] obtain s' raw where
    "svc s ?rq = (s', Answered 200 raw (Some (JArr (map marshal_sbCommand (selected ?ps (rows s))))))" "rows s' = rows s"
    by auto
  moreover have "selected ?ps (rows s) = sort_key sm_CreatedAt (filter (\<lambda>c. sm_DeviceID c = d \<and> sm_Status c = StatusPending) (rows s))"
    by (simp add: selected_def matches_pending)
  moreover have "dec_slice unmarshal_sbCommand zero_sbCommand (JArr (map marshal_sbCommand
      (sort_key sm_CreatedAt (filter (\<lambda>c. sm_DeviceID c = d \<and> sm_Status c = StatusPending) (rows s))))) []
      = (False, sort_key sm_CreatedAt (filter (\<lambda>c. sm_DeviceID c = d \<and> sm_Status c = StatusPending) (rows s)))"
    using assms(2) by (intro sbCommand_codec.array_roundtrip) (auto simp: rows_fit_def)
  ultimately show ?thesis
    by (simp add: sb_GetPendingCommands_def all_rows_def sb_send_def decode_list_def)
qed

definition new_row :: "int \<Rightarrow> CommandPayload \<Rightarrow> sbCommand" where
  "new_row now cmd = \<lparr>sm_CommandID = cp_CommandID cmd, sm_DeviceID = cp_DeviceID cmd, sm_Command = cp_Command cmd,
     sm_TimeoutSec = cp_TimeoutSec cmd, sm_Status = StatusPending,
     sm_CreatedAt = (if cp_CreatedAt cmd = 0 then now else cp_CreatedAt cmd), sm_DispatchedAt = 0, sm_CompletedAt = 0\<rparr>"

lemma decode_new_row:
  assumes "valid_CommandPayload cmd" "in_int64 now"
  shows "snd (unmarshal_sbCommand (marshal_sbCommand (new_row now cmd)) zero_sbCommand) = new_row now cmd"
    and "snd (unmarshal_sbCommand (marshal_sbCommand (new_row now cmd)) c) =
      (new_row now cmd)\<lparr>sm_DispatchedAt := sm_DispatchedAt c, sm_CompletedAt := sm_CompletedAt c\<rparr>"
proof -
  have "valid_sbCommand (new_row now cmd)"
    using assms by (simp add: valid_sbCommand_def new_row_def valid_CommandPayload_def in_int64_def)
  then show "snd (unmarshal_sbCommand (marshal_sbCommand (new_row now cmd)) zero_sbCommand) = new_row now cmd"
    by (simp add: sbCommand_codec.dec_enc)
  show "snd (unmarshal_sbCommand (marshal_sbCommand (new_row now cmd)) c) =
      (new_row now cmd)\<lparr>sm_DispatchedAt := sm_DispatchedAt c, sm_CompletedAt := sm_CompletedAt c\<rparr>"
    using assms by (simp add: marshal_sbCommand_def unmarshal_sbCommand_def new_row_def struct_simps valid_CommandPayload_def)
qed

lemma sb_EnqueueCommand_rows:
  assumes "postgrest svc ss rows" "valid_CommandPayload cmd" "in_int64 (sb_now e)"
  shows "snd (sb_EnqueueCommand e svc ss s cmd) = None"
    and "select_pk sm_CommandID (cp_CommandID cmd) (rows s) = None \<Longrightarrow>
      rows (fst (sb_EnqueueCommand e svc ss s cmd)) = rows s @ [new_row (sb_now e) cmd]"
    and "select_pk sm_CommandID (cp_CommandID cmd) (rows s) \<noteq> None \<Longrightarrow>
      rows (fst (sb_EnqueueCommand e svc ss s cmd)) = update_rows (\<lambda>c. sm_CommandID c = cp_CommandID cmd)
        (\<lambda>c. (new_row (sb_now e) cmd)\<lparr>sm_DispatchedAt := sm_DispatchedAt c, sm_CompletedAt := sm_CompletedAt c\<rparr>) (rows s)"
proof -
  let ?b = "marshal_sbCommand (new_row (sb_now e) cmd)"
  let ?rq = "sb_request ss ''POST'' ''/cloud_command_queue'' (Some ?b) merge_header"
  have "address ss ?rq = Some (''/cloud_command_queue'', [])" by (rule table_address)
  moreover have "(''Prefer'', ''resolution=merge-duplicates'') \<in> set (sq_Headers ?rq)"
    by (simp add: sb_request_def merge_header_def)
  ultimately obtain s' where "svc s ?rq = (s', Answered 201 '''' None)" "rows s' = merged ?b (rows s)"
    using postgrest_post [OF assms(1), of ?rq ?b s] by auto
  then have out: "sb_EnqueueCommand e svc ss s cmd = (s', None)" "rows s' = merged ?b (rows s)"
    by (simp_all add: sb_EnqueueCommand_def write_error_def sb_send_def new_row_def Let_def)
  have id: "sm_CommandID (new_row (sb_now e) cmd) = cp_CommandID cmd" by (simp add: new_row_def)
  show "snd (sb_EnqueueCommand e svc ss s cmd) = None" by (simp add: out)
  show "select_pk sm_CommandID (cp_CommandID cmd) (rows s) = None \<Longrightarrow>
      rows (fst (sb_EnqueueCommand e svc ss s cmd)) = rows s @ [new_row (sb_now e) cmd]"
    by (simp add: out merged_def decode_new_row(1) [OF assms(2,3)] id)
  show "select_pk sm_CommandID (cp_CommandID cmd) (rows s) \<noteq> None \<Longrightarrow>
      rows (fst (sb_EnqueueCommand e svc ss s cmd)) = update_rows (\<lambda>c. sm_CommandID c = cp_CommandID cmd)
        (\<lambda>c. (new_row (sb_now e) cmd)\<lparr>sm_DispatchedAt := sm_DispatchedAt c, sm_CompletedAt := sm_CompletedAt c\<rparr>) (rows s)"
    by (auto simp: out merged_def decode_new_row(2) [OF assms(2,3)] id Let_def)
qed

lemma ensure_device_queue [simp]: "CloudCommandQueue (ensure_device db d) = CloudCommandQueue db"
  by (simp add: ensure_device_def split: option.split)


lemma same_queue_fresh:
  "same_queue rows db \<Longrightarrow> select_pk sm_CommandID i rows = None \<longleftrightarrow> select_pk cr_CommandID i (CloudCommandQueue db) = None"
proof -
  assume "same_queue rows db"
  then have "CloudCommandQueue db = map record_of_row rows" by (simp add: same_queue_def)
  then show ?thesis by (simp add: select_pk_None_iff image_image)
qed

lemma same_queue_update:
  assumes "same_queue rows db" "\<And>c. c \<in> set rows \<Longrightarrow> q (record_of_row c) = p c"
    and "\<And>c. p c \<Longrightarrow> g (record_of_row c) = record_of_row (f c)"
  shows "same_queue (update_rows p f rows) (db\<lparr>CloudCommandQueue := update_rows q g (CloudCommandQueue db)\<rparr>)"
  using assms map_update_rows [of rows q record_of_row p g f] by (simp add: same_queue_def)


text \<open>A service for concrete runs: one table, with the documented behaviour.\<close>

definition table_service :: "SupabaseStore \<Rightarrow> sbCommand list service" where
  "table_service ss s rq =
     (case address ss rq of
        Some (table, ps) \<Rightarrow>
          if table \<noteq> ''/cloud_command_queue'' then (s, Answered 201 '''' None)
          else if sq_Method rq = ''GET'' then (s, Answered 200 '''' (Some (JArr (map marshal_sbCommand (selected ps s)))))
          else if sq_Method rq = ''PATCH'' then (patched ps (the (sq_Body rq)) s, Answered 204 '''' None)
          else (merged (the (sq_Body rq)) s, Answered 201 '''' None)
      | None \<Rightarrow> (s, Answered 404 '''' None))"

lemma table_service_postgrest: "postgrest (table_service ss) ss id"
  by (auto simp: postgrest_def table_service_def)

definition sample_ss :: SupabaseStore where
  "sample_ss = \<lparr>ss_baseURL = ''https://x.supabase.co/rest/v1'', ss_apiKey = ''key''\<rparr>"

definition sample_sb :: SbEnv where
  "sample_sb = \<lparr>sb_now = 9, sb_uuid1 = ''u1'', sb_uuid2 = ''u2'', sb_print = (\<lambda>j. ''''), sb_parse = (\<lambda>t. None)\<rparr>"

definition cloud_cmd :: CommandPayload where
  "cloud_cmd = \<lparr>cp_CommandID = ''c1'', cp_DeviceID = ''pc1'', cp_Command = ''dir'', cp_TimeoutSec = 5, cp_CreatedAt = 3\<rparr>"

lemma cloud_cmd_ok: "valid_CommandPayload cloud_cmd" "in_int64 (sb_now sample_sb)"
  by (simp_all add: cloud_cmd_def valid_CommandPayload_def in_int64_def sample_sb_def)


section \<open>Where the two stores differ\<close>

lemma sb_SaveResult_rows:
  assumes "postgrest svc ss rows" "in_int64 (sb_now e)"
  shows "rows (fst (sb_SaveResult e svc ss s res)) =
    update_rows (\<lambda>c. sm_CommandID c = rp_CommandID res) (\<lambda>c. c\<lparr>sm_CompletedAt := sb_now e, sm_Status := StatusCompleted\<rparr>) (rows s)"
proof -
  have "rows (fst (svc s (sb_request ss ''POST'' ''/cloud_result_queue'' b h))) = rows s" for b h
    by (rule postgrest_other [OF assms(1) table_address(2)]) simp
  then have "rows (fst (write_error (sb_send svc ss s ''POST'' ''/cloud_result_queue'' b h))) = rows s" for b h
    by (auto simp: write_error_def sb_send_def split: prod.split SbReply.split) (metis fst_conv)+
  then show ?thesis
    using sb_MarkCommandCompleted_rows [OF assms] by (simp add: sb_SaveResult_def split: prod.split) (metis fst_conv)
qed



text \<open>Except when a user is created, no write looks at the status of the answer: a service that refuses the row (a missing
  table, an expired key, a violated constraint) is taken for a success, while a transport failure is reported.\<close>

theorem supabase_write_status_ignored:
  "(case svc s (sb_request ss ''POST'' ''/cloud_command_queue'' (Some (marshal_sbCommand (new_row (sb_now e) cmd))) merge_header) of
      (s', Answered c raw j) \<Rightarrow> sb_EnqueueCommand e svc ss s cmd = (s', None)
    | (s', TransportFailed err) \<Rightarrow> sb_EnqueueCommand e svc ss s cmd = (s', Some err))
   \<and> (case svc s (sb_request ss ''PATCH'' (device_endpoint d) (Some (JObj [(''status'', JStr st)])) []) of
      (s', Answered c raw j) \<Rightarrow> sb_UpdateDeviceStatus svc ss s d st = (s', None)
    | (s', TransportFailed err) \<Rightarrow> sb_UpdateDeviceStatus svc ss s d st = (s', Some err))"
  by (simp add: sb_EnqueueCommand_def sb_UpdateDeviceStatus_def write_error_def sb_send_def new_row_def Let_def
      split: prod.split SbReply.split)

section \<open>Opening\<close>

text \<open>The check for an empty URL never fires: only a blank key is refused, because the scheme is put in front of the URL before
  the check.\<close>

theorem supabase_url_check_dead:
  "(\<exists>err. NewSupabaseStore url key = Inl err) \<longleftrightarrow> TrimSpace key = ''''"
  by (auto simp: NewSupabaseStore_def Let_def HasPrefix_def)

end
