(* ===== verification/Interleave.thy ===== *)
theory Interleave
  imports HubSafety
begin

text \<open>
  The hub's goroutines, interleaved. Every WebSocket connection has a goroutine that reads and handles its messages, the web server
  runs each request in one of its own, and the liveness tracker has one. They share the store, the registries under the
  lock \<open>h.mu\<close>, and the clients' channels, which are sent to with and without the lock.

  A handler is a \<open>task\<close>: a chain of steps, each of which is one call of the store, one section under a lock, or one send outside of it. Run
  without interruption, the tasks are the handlers of \<open>Hub\<close>; between two of their steps, other goroutines run.
\<close>

section \<open>Tasks\<close>

text \<open>
  \<open>Dispatch a\<close> marks the steps that send to the channel of an agent \<open>a\<close> which was looked up in an earlier section, without the lock.
\<close>

datatype act_kind = Plain | Dispatch cid

datatype task = Finished | Act act_kind "Hub \<Rightarrow> (task \<times> Hub) outcome"

primrec run_task :: "task \<Rightarrow> Hub \<Rightarrow> Hub outcome" where
  "run_task Finished = Ret"
| "run_task (Act kind f) = (\<lambda>h. andThen (map_outcome (map_prod run_task id) (f h)) (\<lambda>(run, h'). run h'))"

definition call_step :: "(Hub \<Rightarrow> ('a \<times> Hub) outcome) \<Rightarrow> ('a \<Rightarrow> task) \<Rightarrow> task" where
  "call_step f k = Act Plain (\<lambda>h. andThen (f h) (\<lambda>(x, h). Ret (k x, h)))"

definition do_step :: "(Hub \<Rightarrow> Hub outcome) \<Rightarrow> task \<Rightarrow> task" where
  "do_step f k = Act Plain (\<lambda>h. andThen (f h) (\<lambda>h. Ret (k, h)))"

definition dispatch_step :: "cid \<Rightarrow> (Hub \<Rightarrow> Hub outcome) \<Rightarrow> task \<Rightarrow> task" where
  "dispatch_step a f k = Act (Dispatch a) (\<lambda>h. andThen (f h) (\<lambda>h. Ret (k, h)))"

definition read_step :: "(Hub \<Rightarrow> 'a) \<Rightarrow> ('a \<Rightarrow> task) \<Rightarrow> task" where
  "read_step g k = Act Plain (\<lambda>h. Ret (k (g h), h))"

definition write_step :: "(DB \<Rightarrow> exec) \<Rightarrow> task \<Rightarrow> task" where
  "write_step f k = Act Plain (\<lambda>h. Ret (k, upd_store f h))"

lemma run_Act: "run_task (Act kind f) h = andThen (f h) (\<lambda>(t, h'). run_task t h')"
  by (cases "f h") auto

declare run_task.simps(2) [simp del]

lemma run_steps [simp]:
  "run_task (call_step f k) = (\<lambda>h. andThen (f h) (\<lambda>(x, h). run_task (k x) h))"
  "run_task (do_step g t) = (\<lambda>h. andThen (g h) (run_task t))"
  "run_task (dispatch_step a g t) = (\<lambda>h. andThen (g h) (run_task t))"
  "run_task (read_step r j) = (\<lambda>h. run_task (j (r h)) h)"
  "run_task (write_step w t) = (\<lambda>h. run_task t (upd_store w h))"
  by (simp_all add: fun_eq_iff call_step_def do_step_def dispatch_step_def read_step_def write_step_def run_Act andThen_assoc
      case_prod_unfold)

section \<open>The handlers as tasks\<close>

definition error_task :: "Env \<Rightarrow> cid \<Rightarrow> string \<Rightarrow> string \<Rightarrow> task" where
  "error_task e c ecode message = do_step (\<lambda>h. sendError e h c ecode message) Finished"

definition send_task :: "Env \<Rightarrow> cid \<Rightarrow> string \<Rightarrow> string \<Rightarrow> json \<Rightarrow> task \<Rightarrow> task" where
  "send_task e c msgType deviceID payload k =
     do_step (\<lambda>h. let (env, h) = newEnvelope e h msgType deviceID payload in Send h c env) k"

text \<open>The list of devices is read first; whether they are connected is looked up under the lock.\<close>

definition getDevices_task :: "Env \<Rightarrow> cid \<Rightarrow> task" where
  "getDevices_task e c =
     read_step (\<lambda>h. let userID = c_userID (h_clients h c) in
         case (if userID \<noteq> '''' then ListDevicesForUser (h_store h) userID else ListDevices (h_store h))
         of Inr ds \<Rightarrow> ds | Inl _ \<Rightarrow> []) (\<lambda>devices.
     read_step (\<lambda>h. map (\<lambda>d. if map_of (h_agents h) (di_DeviceID d) \<noteq> None then d\<lparr>di_Status := StatusOnline\<rparr> else d) devices) (\<lambda>devices.
     send_task e c TypeDeviceList '''' (marshal_DeviceListPayload \<lparr>dl_Devices = devices\<rparr>) Finished))"

fun dispatch_task :: "Env \<Rightarrow> cid \<Rightarrow> CommandPayload list \<Rightarrow> task" where
  "dispatch_task e agent [] = Finished"
| "dispatch_task e agent (cmd # cmds) =
     dispatch_step agent (\<lambda>h. let (env, h) = newEnvelope e h TypeDispatchCmd (c_deviceID (h_clients h agent)) (marshal_CommandPayload cmd)
        in Send h agent env)
     (write_step (\<lambda>db. MarkCommandDispatched (unix_now e) db (cp_CommandID cmd)) (dispatch_task e agent cmds))"

definition flush_task :: "Env \<Rightarrow> string \<Rightarrow> task" where
  "flush_task e deviceID =
     read_step (\<lambda>h. GetPendingCommands (h_store h) deviceID) (\<lambda>pending.
       if pending = [] then Finished
       else read_step (\<lambda>h. getAgentClient h deviceID) (\<lambda>agent.
         case agent of None \<Rightarrow> Finished | Some agent \<Rightarrow> dispatch_task e agent pending))"

text \<open>The client's own record is changed under its own lock, the registries under the hub's.\<close>

definition auth_task :: "Env \<Rightarrow> cid \<Rightarrow> Envelope \<Rightarrow> task" where
  "auth_task e c env =
     (let (err, p) = DecodePayload unmarshal_AuthPayload env zero_AuthPayload in
      if err then error_task e c ''INVALID_PAYLOAD'' (e_jsonErr e (env_Payload env))
      else read_step (\<lambda>h. (GetUserByToken (h_store h) (ap_Token p), auth_refused h p)) (\<lambda>(user, refused).
        if refused
        then send_task e c TypeAuthAck (ap_DeviceID p)
               (marshal_AuthAckPayload \<lparr>aa_Success = False, aa_DeviceID = '''', aa_SessionID = '''',
                  aa_Error = ''unauthorized: invalid token'', aa_ServerTime = unix_now e\<rparr>) Finished
        else
          do_step (\<lambda>h. Ret (upd_client c (\<lambda>cl. cl\<lparr>c_role := ap_Role p, c_deviceID := ap_DeviceID p, c_authed := True,
              c_userID := (case user of Some u \<Rightarrow> ua_UserID u | None \<Rightarrow> c_userID cl)\<rparr>) h))
          (do_step (\<lambda>h. if ap_Role p = RoleAgent then register_agent e h c p user
              else Ret (h\<lparr>h_controllers := List.insert c (h_controllers h)\<rparr>))
          (do_step (\<lambda>h. let (ack, h) = newEnvelope e h TypeAuthAck (ap_DeviceID p)
                (marshal_AuthAckPayload \<lparr>aa_Success = True, aa_DeviceID = ap_DeviceID p,
                   aa_SessionID = c_sessionID (h_clients h c), aa_Error = '''', aa_ServerTime = unix_now e\<rparr>) in Send h c ack)
          (if ap_Role p = RoleController then getDevices_task e c
           else if ap_Role p = RoleAgent then flush_task e (ap_DeviceID p)
           else Finished)))))"

text \<open>The owner of the device is looked up before the lock is taken for the broadcast.\<close>

definition broadcast_task :: "string \<Rightarrow> Envelope \<Rightarrow> task" where
  "broadcast_task deviceID env =
     read_step (\<lambda>h. owner_of (h_store h) deviceID) (\<lambda>devUserID.
     do_step (\<lambda>h. sendAll h (filter (sees h devUserID) (h_controllers h)) env) Finished)"

definition heartbeat_task :: "Env \<Rightarrow> cid \<Rightarrow> Envelope \<Rightarrow> task" where
  "heartbeat_task e c env =
     (let (err, p) = DecodePayload unmarshal_HeartbeatPayload env zero_HeartbeatPayload; now = unix_now e in
      if err then Finished
      else
        write_step (\<lambda>db. UpdateDeviceHeartbeat now db (hb_DeviceID p) (hb_Metrics p) StatusOnline)
        (write_step (\<lambda>db. RecordTelemetry now db (telemetry_of now p))
        (send_task e c TypeHeartbeatAck (hb_DeviceID p)
           (marshal_HeartbeatAckPayload \<lparr>ha_DeviceID = hb_DeviceID p, ha_ServerTime = now\<rparr>)
        (read_step (\<lambda>h. let u = c_userID (h_clients h c) in if u = '''' then owner_of (h_store h) (hb_DeviceID p) else u) (\<lambda>devUserID.
        do_step (\<lambda>h. let (hbEnv, h) = newEnvelope e h TypeHeartbeat (hb_DeviceID p) (marshal_HeartbeatPayload p)
           in sendAll h (filter (sees h devUserID) (h_controllers h)) hbEnv) Finished)))))"

text \<open>
  The answer to a predefined command is put together in one step; saving the result, the status and the audit entry are three. The
  process in the sandbox runs between two steps.
\<close>

definition offline_task :: "Env \<Rightarrow> CommandPayload \<Rightarrow> (bool \<Rightarrow> ResultPayload \<Rightarrow> task) \<Rightarrow> task" where
  "offline_task e p k =
     (let now = unix_now e in
      call_step (\<lambda>h. andThen (tryExecutePredefinedOffline e (h_store h) p) (\<lambda>r.
          case r of
            Some (res, db, wol) \<Rightarrow>
              Ret (Some res, h\<lparr>h_store := db, h_wol := h_wol h @ (case wol of None \<Rightarrow> [] | Some mac \<Rightarrow> [(mac, ''255.255.255.255'')])\<rparr>)
          | None \<Rightarrow> Ret (None, h))) (\<lambda>r.
        case r of
          Some res \<Rightarrow>
            write_step (\<lambda>db. SaveResult now db res)
            (write_step (\<lambda>db. MarkCommandCompleted now db (cp_CommandID p) StatusCompleted)
            (write_step (\<lambda>db. RecordAuditLog now db (cloud_exec_log p res)) (k True res)))
        | None \<Rightarrow>
            (let res = executeCloudSandbox e p in
             write_step (\<lambda>db. SaveSandboxResult now db res)
             (write_step (\<lambda>db. RecordAuditLog now db (cloud_script_log p res)) (k False res)))))"

text \<open>Completing the command and storing it, for both ways in which commands arrive.\<close>

definition store_task :: "Env \<Rightarrow> CommandPayload \<Rightarrow> (CommandPayload \<Rightarrow> sql_error option \<Rightarrow> task) \<Rightarrow> task" where
  "store_task e p k =
     call_step (\<lambda>h. Ret (complete_command e h p)) (\<lambda>p.
     call_step (\<lambda>h. let (db, err) = EnqueueCommand (unix_now e) (h_store h) p in Ret (err, h\<lparr>h_store := db\<rparr>)) (k p))"

definition envelope_task :: "Env \<Rightarrow> string \<Rightarrow> string \<Rightarrow> json \<Rightarrow> (Envelope \<Rightarrow> task) \<Rightarrow> task" where
  "envelope_task e msgType deviceID payload k = call_step (\<lambda>h. Ret (newEnvelope e h msgType deviceID payload)) k"

text \<open>What happens with a stored command of a controller: the agent's client, or the cloud.\<close>

definition forward_task :: "Env \<Rightarrow> Envelope \<Rightarrow> CommandPayload \<Rightarrow> cid option \<Rightarrow> task" where
  "forward_task e env p agent =
     (case agent of
        Some agent \<Rightarrow>
          dispatch_step agent (\<lambda>h. let (dispatchEnv, h) = newEnvelope e h TypeDispatchCmd
              (c_deviceID (h_clients h agent)) (marshal_CommandPayload p) in Send h agent dispatchEnv)
          (write_step (\<lambda>db. MarkCommandDispatched (unix_now e) db (cp_CommandID p))
          (broadcast_task (cp_DeviceID p) env))
      | None \<Rightarrow> offline_task e p (\<lambda>predefined res.
          envelope_task e TypeCmdResult (cp_DeviceID p) (marshal_ResultPayload res) (broadcast_task (cp_DeviceID p))))"

definition queued_task :: "Env \<Rightarrow> cid \<Rightarrow> Envelope \<Rightarrow> CommandPayload \<Rightarrow> sql_error option \<Rightarrow> task" where
  "queued_task e c env p err =
     (case err of
        Some x \<Rightarrow> error_task e c ''STORE_ERROR'' (e_sqlErr e x)
      | None \<Rightarrow> read_step (\<lambda>h. getAgentClient h (cp_DeviceID p)) (forward_task e env p))"

definition enqueue_task :: "Env \<Rightarrow> cid \<Rightarrow> Envelope \<Rightarrow> task" where
  "enqueue_task e c env =
     (let (err, p) = DecodePayload unmarshal_CommandPayload env zero_CommandPayload in
      if err then error_task e c ''INVALID_PAYLOAD'' (e_jsonErr e (env_Payload env))
      else read_step (\<lambda>h. not_owner h c (cp_DeviceID p)) (\<lambda>refused.
        if refused then error_task e c ''UNAUTHORIZED'' ''device does not belong to your account''
        else store_task e p (queued_task e c env)))"

definition everyone_task :: "Envelope \<Rightarrow> task \<Rightarrow> task" where
  "everyone_task env k = do_step (\<lambda>h. broadcastToControllers h env) k"

text \<open>What happens with a stored command of the web server: the agent's client, or the cloud.\<close>

definition deliver_task :: "Env \<Rightarrow> CommandPayload \<Rightarrow> cid option \<Rightarrow> task" where
  "deliver_task e cmd agent =
     (case agent of
        Some agent \<Rightarrow>
          dispatch_step agent (\<lambda>h. let (dispatchEnv, h) = newEnvelope e h TypeDispatchCmd (cp_DeviceID cmd)
              (marshal_CommandPayload cmd) in Send h agent dispatchEnv)
          (write_step (\<lambda>db. MarkCommandDispatched (unix_now e) db (cp_CommandID cmd))
          (envelope_task e TypeEnqueueCmd (cp_DeviceID cmd) (marshal_CommandPayload cmd) (\<lambda>env. everyone_task env Finished)))
      | None \<Rightarrow> offline_task e cmd (\<lambda>predefined res.
          envelope_task e TypeCmdResult (cp_DeviceID cmd) (marshal_ResultPayload res) (\<lambda>resEnv.
            if predefined then everyone_task resEnv Finished else broadcast_task (cp_DeviceID cmd) resEnv)))"

definition stored_task :: "Env \<Rightarrow> CommandPayload \<Rightarrow> sql_error option \<Rightarrow> task" where
  "stored_task e cmd err =
     (case err of
        Some x \<Rightarrow> Finished
      | None \<Rightarrow> read_step (\<lambda>h. map_of (h_agents h) (cp_DeviceID cmd)) (deliver_task e cmd))"

definition direct_task :: "Env \<Rightarrow> CommandPayload \<Rightarrow> task" where
  "direct_task e cmd = (if cp_DeviceID cmd = '''' \<or> cp_Command cmd = '''' then Finished else store_task e cmd (stored_task e))"

definition result_task :: "Env \<Rightarrow> cid \<Rightarrow> Envelope \<Rightarrow> task" where
  "result_task e c env =
     (let (err, p) = DecodePayload unmarshal_ResultPayload env zero_ResultPayload in
      if err then Finished
      else
        write_step (\<lambda>db. SaveResult (unix_now e) db p)
        (read_step (\<lambda>h. case GetCommand (h_store h) (rp_CommandID p) of Some r \<Rightarrow> cr_Command r | None \<Rightarrow> '''') (\<lambda>cmdText.
        write_step (\<lambda>db. RecordAuditLog (unix_now e) db (exec_log cmdText p))
        (send_task e c TypeResultAck (rp_DeviceID p)
           (marshal_ResultAckPayload \<lparr>ra_CommandID = rp_CommandID p, ra_ResultID = rp_ResultID p, ra_Success = True\<rparr>)
        (everyone_task env Finished)))))"

fun mark_task :: "Env \<Rightarrow> CommandPayload list \<Rightarrow> task \<Rightarrow> task" where
  "mark_task e [] k = k"
| "mark_task e (cmd # cmds) k =
     write_step (\<lambda>db. MarkCommandDispatched (unix_now e) db (cp_CommandID cmd)) (mark_task e cmds k)"

fun sync_results_task :: "Env \<Rightarrow> string \<Rightarrow> ResultPayload list \<Rightarrow> (string list \<Rightarrow> task) \<Rightarrow> task" where
  "sync_results_task e deviceID [] k = k []"
| "sync_results_task e deviceID (res # rs) k =
     call_step (\<lambda>h. let (db, err) = SaveResult (unix_now e) (h_store h) res in Ret (err, h\<lparr>h_store := db\<rparr>)) (\<lambda>err.
       case err of
         Some x \<Rightarrow> sync_results_task e deviceID rs k
       | None \<Rightarrow> envelope_task e TypeCmdResult deviceID (marshal_ResultPayload res) (\<lambda>resEnv.
           everyone_task resEnv (sync_results_task e deviceID rs (\<lambda>acked. k (rp_CommandID res # acked)))))"

definition sync_task :: "Env \<Rightarrow> cid \<Rightarrow> Envelope \<Rightarrow> task" where
  "sync_task e c env =
     (let (err, req) = DecodePayload unmarshal_SyncReqPayload env zero_SyncReqPayload in
      if err then Finished
      else sync_results_task e (sq_DeviceID req) (sq_UnsyncedResults req) (\<lambda>acked.
        read_step (\<lambda>h. GetPendingCommands (h_store h) (sq_DeviceID req)) (\<lambda>pending.
        mark_task e pending
        (send_task e c TypeSyncResp (sq_DeviceID req)
           (marshal_SyncRespPayload \<lparr>sr_DeviceID = sq_DeviceID req, sr_AckedResults = acked, sr_PendingCommands = pending\<rparr>) Finished))))"

definition cached_reply :: "Env \<Rightarrow> cid \<Rightarrow> Envelope \<Rightarrow> string \<Rightarrow> json option \<Rightarrow> task" where
  "cached_reply e c env msgType body =
     (case body of
        None \<Rightarrow> error_task e c ''AGENT_OFFLINE'' (''device '' @ env_DeviceID env @ '' is offline'')
      | Some j \<Rightarrow> send_task e c msgType (env_DeviceID env) j Finished)"

definition toAgent_task :: "Env \<Rightarrow> cid \<Rightarrow> Envelope \<Rightarrow> task" where
  "toAgent_task e c env =
     read_step (\<lambda>h. not_owner h c (env_DeviceID env)) (\<lambda>refused.
       if refused then error_task e c ''UNAUTHORIZED'' ''device does not belong to your account''
       else read_step (\<lambda>h. getAgentClient h (env_DeviceID env)) (\<lambda>agent.
         case agent of
           Some agent \<Rightarrow> dispatch_step agent (\<lambda>h. Send h agent env) Finished
         | None \<Rightarrow>
             if env_Type env = TypeFileListReq
             then let p = snd (DecodePayload unmarshal_FileListReqPayload env zero_FileListReqPayload)
                  in read_step (\<lambda>h. map_option (\<lambda>files. marshal_FileListRespPayload \<lparr>flr_DeviceID = env_DeviceID env,
                         flr_Path = flq_Path p, flr_Files = files, flr_Error = ''''\<rparr>)
                       (GetCachedDirectoryListing (h_store h) (env_DeviceID env) (flq_Path p))) (cached_reply e c env TypeFileListResp)
             else if env_Type env = TypeFileReadReq
             then let p = snd (DecodePayload unmarshal_FileReadReqPayload env zero_FileReadReqPayload)
                  in read_step (\<lambda>h. map_option (\<lambda>(content, sizeBytes). marshal_FileReadRespPayload \<lparr>frr_DeviceID = env_DeviceID env,
                         frr_Path = frq_Path p, frr_ContentBase64 = content, frr_SizeBytes = sizeBytes, frr_Error = ''''\<rparr>)
                       (GetCachedFileContent (h_store h) (env_DeviceID env) (frq_Path p))) (cached_reply e c env TypeFileReadResp)
             else cached_reply e c env '''' None))"

definition toControllers_task :: "Env \<Rightarrow> Envelope \<Rightarrow> task" where
  "toControllers_task e env = do_step (\<lambda>h. Ret (cache_and_audit e h env)) (broadcast_task (env_DeviceID env) env)"

definition auditLogs_task :: "Env \<Rightarrow> cid \<Rightarrow> Envelope \<Rightarrow> task" where
  "auditLogs_task e c env =
     read_step (\<lambda>h. ListAuditLogs (h_store h) (env_DeviceID env) 100) (\<lambda>logs.
     send_task e c TypeAuditLogsList (env_DeviceID env) (marshal_AuditLogsListPayload \<lparr>alp_Logs = logs\<rparr>) Finished)"

definition message_task :: "Env \<Rightarrow> cid \<Rightarrow> Envelope \<Rightarrow> task" where
  "message_task e c env =
     (if env_Type env = TypeAuth then auth_task e c env
      else if env_Type env = TypeHeartbeat then heartbeat_task e c env
      else if env_Type env = TypeEnqueueCmd then enqueue_task e c env
      else if env_Type env = TypeCmdResult then result_task e c env
      else if env_Type env = TypeSyncReq then sync_task e c env
      else if env_Type env = TypeGetDevices then getDevices_task e c
      else if env_Type env = TypeGetAuditLogs then auditLogs_task e c env
      else if env_Type env \<in> set agent_requests then toAgent_task e c env
      else if env_Type env \<in> set agent_responses then toControllers_task e env
      else Finished)"

fun liveness_task :: "Env \<Rightarrow> DeviceInfo list \<Rightarrow> task" where
  "liveness_task e [] = Finished"
| "liveness_task e (d # ds) =
     read_step (\<lambda>h. liveness_status (h_cfg h) (unix_now e) (map_of (h_agents h) (di_DeviceID d) \<noteq> None) (di_LastHeartbeat d)) (\<lambda>newStatus.
       if newStatus \<noteq> di_Status d
       then write_step (\<lambda>db. UpdateDeviceStatus db (di_DeviceID d) newStatus)
            (do_step (\<lambda>h. broadcastDeviceStatusLocked e h (di_DeviceID d) newStatus) (liveness_task e ds))
       else liveness_task e ds)"

definition tick_task :: "Env \<Rightarrow> task" where
  "tick_task e = read_step (\<lambda>h. ListDevices (h_store h)) (\<lambda>devices.
     case devices of Inl _ \<Rightarrow> Finished | Inr devices \<Rightarrow> liveness_task e devices)"

definition unregister_task :: "Env \<Rightarrow> cid \<Rightarrow> task" where
  "unregister_task e c = do_step (\<lambda>h. unregister e h c) Finished"

section \<open>Without interruption the tasks are the handlers\<close>

lemma andThen_Ret [simp]: "andThen m Ret = m"
  by (cases m) auto

lemma andThen_fun_cong: "(\<And>x. f x = g x) \<Longrightarrow> andThen m f = andThen m g"
  by (cases m) auto

lemma run_small_tasks [simp]:
  "run_task (error_task e c ecode msg) = (\<lambda>h. sendError e h c ecode msg)"
  "run_task (send_task e c t d j k) = (\<lambda>h. andThen (case newEnvelope e h t d j of (env, h) \<Rightarrow> Send h c env) (run_task k))"
  "run_task (envelope_task e t d j f) = (\<lambda>h. case newEnvelope e h t d j of (env, h) \<Rightarrow> run_task (f env) h)"
  "run_task (everyone_task env k) = (\<lambda>h. andThen (broadcastToControllers h env) (run_task k))"
  "run_task (broadcast_task d env) = (\<lambda>h. broadcastDeviceResult h d env)"
  "run_task (store_task e p g) = (\<lambda>h. case complete_command e h p of (p, h) \<Rightarrow>
     case EnqueueCommand (unix_now e) (h_store h) p of (db, err) \<Rightarrow> run_task (g p err) (h\<lparr>h_store := db\<rparr>))"
  by (auto simp: error_task_def send_task_def envelope_task_def everyone_task_def broadcast_task_def broadcastDeviceResult_def
      store_task_def split: prod.split)

lemma run_getDevices: "run_task (getDevices_task e c) = (\<lambda>h. handleGetDevices e h c)"
  by (rule ext) (simp add: getDevices_task_def handleGetDevices_def GetDevicesForUser_def Let_def)

lemma run_dispatch: "run_task (dispatch_task e a cmds) = (\<lambda>h. dispatch_all e h a cmds)"
  by (induction cmds) (simp_all add: fun_eq_iff newEnvelope_def Let_def)

lemma run_flush: "run_task (flush_task e d) = (\<lambda>h. flushPendingCommands e h d)"
  by (rule ext) (simp add: flush_task_def flushPendingCommands_def run_dispatch Let_def split: option.split)

lemma run_auth: "run_task (auth_task e c env) h = handleAuth e h c env"
  by (auto simp: auth_task_def handleAuth_def run_getDevices run_flush Let_def andThen_assoc newEnvelope_def
      split: prod.split)

lemma run_heartbeat: "run_task (heartbeat_task e c env) h = handleHeartbeat e h c env"
  by (simp add: heartbeat_task_def handleHeartbeat_def Let_def newEnvelope_def split: prod.split)

lemma run_offline_task: "run_task (offline_task e p k) h = andThen (run_offline e h p) (\<lambda>(pre, res, h). run_task (k pre res) h)"
  by (simp add: offline_task_def run_offline_def Let_def andThen_assoc) (rule arg_cong [where f = "andThen x" for x], auto split: option.split)

lemma run_enqueue: "run_task (enqueue_task e c env) h = handleEnqueueCmd e h c env"
  by (auto simp: enqueue_task_def queued_task_def forward_task_def handleEnqueueCmd_def run_offline_task Let_def newEnvelope_def split: prod.split option.split)

lemma run_direct: "run_task (direct_task e cmd) h = andThen (EnqueueDirect e h cmd) (\<lambda>(err, h). Ret h)"
  by (auto simp: direct_task_def stored_task_def deliver_task_def EnqueueDirect_def run_offline_task Let_def newEnvelope_def andThen_assoc split: prod.split option.split
      intro!: andThen_fun_cong)

lemma run_result: "run_task (result_task e c env) h = handleCmdResult e h c env"
  by (simp add: result_task_def handleCmdResult_def Let_def newEnvelope_def split: prod.split)

lemma run_mark:
  "run_task (mark_task e cmds k) = (\<lambda>h. run_task k (h\<lparr>h_store := mark_all_dispatched (unix_now e) (h_store h) cmds\<rparr>))"
  by (induction cmds) (simp_all add: fun_eq_iff mark_all_dispatched_def upd_store_def)

lemma run_sync_results:
  "run_task (sync_results_task e d rs k) h = andThen (sync_results e h d rs) (\<lambda>(acked, h). run_task (k acked) h)"
proof (induction rs arbitrary: k h)
  case (Cons res rs)
  then show ?case
    by (auto simp: fun_eq_iff newEnvelope_def andThen_assoc Let_def split: prod.split option.split intro!: andThen_fun_cong)
qed simp

lemma run_sync: "run_task (sync_task e c env) h = handleSyncReq e h c env"
  by (auto simp: sync_task_def handleSyncReq_def run_sync_results run_mark Let_def newEnvelope_def split: prod.split
      intro!: andThen_fun_cong)

lemma run_toAgent: "run_task (toAgent_task e c env) h = routeToAgent e h c env"
  by (auto simp: toAgent_task_def routeToAgent_def cached_reply_def agent_offline_def Let_def newEnvelope_def split: option.split)

lemma run_toControllers: "run_task (toControllers_task e env) h = routeToControllers e h c env"
  by (simp add: toControllers_task_def routeToControllers_def)

lemma run_auditLogs: "run_task (auditLogs_task e c env) h = handleGetAuditLogs e h c env"
  by (simp add: auditLogs_task_def handleGetAuditLogs_def Let_def)

lemma run_message: "run_task (message_task e c env) h = handleMessage e h c env"
  by (simp add: message_task_def handleMessage_def run_auth run_heartbeat run_enqueue run_result run_sync run_getDevices run_auditLogs
      run_toAgent run_toControllers)

lemma run_liveness: "run_task (liveness_task e ds) h = update_liveness e h ds"
  by (induction ds arbitrary: h) (auto simp: fun_eq_iff Let_def intro!: andThen_fun_cong)

lemma run_tick: "run_task (tick_task e) h = livenessTick e h"
  by (simp add: tick_task_def livenessTick_def run_liveness split: sum.split)

lemma run_unregister: "run_task (unregister_task e c) h = unregister e h c"
  by (simp add: unregister_task_def)

section \<open>The scheduler\<close>

text \<open>
  \<open>cc_reading c\<close> tells that the read loop of \<open>c\<close> goes on; when it ends, its goroutine unregisters the client. Goroutines of web requests are
  numbered. The remaining steps do not belong to a handler: the write loops, the closing of connections, writes of the web server to
  the store, and the order in which Go ranges over its maps.
\<close>

datatype thread = Reader cid | Http nat | Tracker

record Conc =
  cc_hub :: Hub
  cc_task :: "thread \<Rightarrow> task"
  cc_reading :: "cid \<Rightarrow> bool"

definition quiet_env :: "Hub \<Rightarrow> Hub \<Rightarrow> bool" where
  "quiet_env h h' \<longleftrightarrow>
     (\<exists>c env. writeNext h c = Some (env, h')) \<or> h' = Close h \<or> (\<exists>db. store_evolves (h_store h) db \<and> h' = h\<lparr>h_store := db\<rparr>)
     \<or> (\<exists>al cs. mset al = mset (h_agents h) \<and> mset cs = mset (h_controllers h) \<and> h' = h\<lparr>h_agents := al, h_controllers := cs\<rparr>)"

inductive conc_step :: "Conc \<Rightarrow> Conc \<Rightarrow> bool" where
  connect: "conc_step s (s\<lparr>cc_hub := HandleWS e (cc_hub s), cc_reading := (cc_reading s)(h_next (cc_hub s) := True)\<rparr>)"
| message: "cc_task s (Reader c) = Finished \<Longrightarrow> cc_reading s c \<Longrightarrow> uuids_fine e \<Longrightarrow> polite_message (h_clients (cc_hub s) c) env \<Longrightarrow>
    conc_step s (s\<lparr>cc_task := (cc_task s)(Reader c := message_task e c env)\<rparr>)"
| hangup: "cc_task s (Reader c) = Finished \<Longrightarrow> cc_reading s c \<Longrightarrow>
    conc_step s (s\<lparr>cc_task := (cc_task s)(Reader c := unregister_task e c), cc_reading := (cc_reading s)(c := False)\<rparr>)"
| request: "cc_task s (Http n) = Finished \<Longrightarrow> uuids_fine e \<Longrightarrow> id_fine (cp_CommandID cmd) \<Longrightarrow>
    conc_step s (s\<lparr>cc_task := (cc_task s)(Http n := direct_task e cmd)\<rparr>)"
| tick: "cc_task s Tracker = Finished \<Longrightarrow> conc_step s (s\<lparr>cc_task := (cc_task s)(Tracker := tick_task e)\<rparr>)"
| move: "cc_task s i = Act kind f \<Longrightarrow> f (cc_hub s) = Ret (t, h) \<Longrightarrow>
    conc_step s (s\<lparr>cc_hub := h, cc_task := (cc_task s)(i := t)\<rparr>)"
| recover: "cc_task s (Http n) = Act kind f \<Longrightarrow> panics (f (cc_hub s)) \<Longrightarrow> conc_step s (s\<lparr>cc_task := (cc_task s)(Http n := Finished)\<rparr>)"
| others: "quiet_env (cc_hub s) h \<Longrightarrow> conc_step s (s\<lparr>cc_hub := h\<rparr>)"

inductive_cases conc_stepE: "conc_step s t"

definition conc_init :: "Conc \<Rightarrow> bool" where
  "conc_init s \<longleftrightarrow> hub_init (cc_hub s) \<and> cc_task s = (\<lambda>_. Finished) \<and> cc_reading s = (\<lambda>_. False)"

text \<open>
  A panic in the goroutine of a web request is recovered by \<^verbatim>\<open>net/http\<close>, which gives up the request; a panic in any other goroutine
  ends the relay.
\<close>

definition panicking :: "Conc \<Rightarrow> thread \<Rightarrow> bool" where
  "panicking s i \<longleftrightarrow> (\<exists>kind f. cc_task s i = Act kind f \<and> panics (f (cc_hub s)))"

definition crashes :: "Conc \<Rightarrow> bool" where
  "crashes s \<longleftrightarrow> (\<exists>i. panicking s i \<and> (\<forall>n. i \<noteq> Http n))"

section \<open>What a goroutine may do, and what it may rely on\<close>

text \<open>
  A goroutine with a connection of its own relies on that connection's channel being open and on its record, of which \<open>v\<close> is the role and
  the device; it guarantees to leave the other connections' channels, roles and devices alone, to keep the registries in order and to change
  the database by steps of the store. \<open>safe\<close> says that a task does so step by step, and that those of its steps panic which send to an agent
  whose channel is closed, and no others.
\<close>

definition own_ok :: "cid option \<Rightarrow> string \<times> string \<Rightarrow> Hub \<Rightarrow> bool" where
  "own_ok own v h \<longleftrightarrow> (case own of None \<Rightarrow> True
     | Some c \<Rightarrow> c < h_next h \<and> \<not> c_closed (h_clients h c) \<and> v = (c_role (h_clients h c), c_deviceID (h_clients h c)))"

definition guar :: "cid option \<Rightarrow> Hub \<Rightarrow> Hub \<Rightarrow> bool" where
  "guar own h h' \<longleftrightarrow> reg_ok h' \<and> store_evolves (h_store h) (h_store h') \<and> h_next h' = h_next h
     \<and> (\<forall>x. x < h_next h \<and> own \<noteq> Some x \<longrightarrow> c_closed (h_clients h' x) = c_closed (h_clients h x)
          \<and> c_role (h_clients h' x) = c_role (h_clients h x) \<and> c_deviceID (h_clients h' x) = c_deviceID (h_clients h x))"

inductive safe :: "cid option \<Rightarrow> string \<times> string \<Rightarrow> task \<Rightarrow> bool" for own where
  safe_done: "safe own v Finished"
| safe_act: "(\<And>h. reg_ok h \<Longrightarrow> own_ok own v h \<Longrightarrow> panics (f h) \<longleftrightarrow> (\<exists>a. kind = Dispatch a \<and> c_closed (h_clients h a))) \<Longrightarrow>
    (\<And>h t h'. reg_ok h \<Longrightarrow> own_ok own v h \<Longrightarrow> f h = Ret (t, h') \<Longrightarrow> guar own h h' \<and> (\<exists>v'. own_ok own v' h' \<and> safe own v' t)) \<Longrightarrow>
    safe own v (Act kind f)"

inductive_cases safe_actE: "safe own v (Act kind f)"

lemma guar_quiet: "reg_ok h \<Longrightarrow> quiet h h' \<Longrightarrow> guar own h h'"
proof -
  assume ok: "reg_ok h" and q: "quiet h h'"
  have "store_evolves (h_store h) (h_store h')" using q by (simp only: quiet_def)
  then show "guar own h h'"
    using reg_ok_quiet [OF q ok] quiet_client(1-3) [OF q] quiet_registries(3) [OF q] by (simp add: guar_def)
qed

lemma own_quiet: "own_ok own v h \<Longrightarrow> quiet h h' \<Longrightarrow> own_ok own v h'"
  by (auto simp: own_ok_def quiet_client quiet_registries split: option.splits)

lemma own_open: "own_ok (Some c) v h \<Longrightarrow> \<not> c_closed (h_clients h c)"
  by (simp add: own_ok_def)

lemma safe_call:
  assumes "\<And>h. reg_ok h \<Longrightarrow> own_ok own v h \<Longrightarrow> ends_in (\<lambda>(x, h'). quiet h h' \<and> safe own v (k x)) (f h)"
  shows "safe own v (call_step f k)"
  unfolding call_step_def
proof (rule safe_act)
  fix h
  assume ok: "reg_ok h" "own_ok own v h"
  obtain x h1 where f: "f h = Ret (x, h1)" "quiet h h1" "safe own v (k x)"
    using assms [OF ok] by (auto simp: ends_in_def)
  show "panics (andThen (f h) (\<lambda>(x, h). Ret (k x, h))) \<longleftrightarrow> (\<exists>a. Plain = Dispatch a \<and> c_closed (h_clients h a))"
    by (simp add: f(1))
  show "guar own h h' \<and> (\<exists>v'. own_ok own v' h' \<and> safe own v' t)" if "andThen (f h) (\<lambda>(x, h). Ret (k x, h)) = Ret (t, h')" for t h'
  proof -
    have "t = k x" "h' = h1" using that by (simp_all add: f(1))
    then show ?thesis using guar_quiet [OF ok(1) f(2)] own_quiet [OF ok(2) f(2)] f(3) by blast
  qed
qed

lemma safe_do:
  assumes "\<And>h. reg_ok h \<Longrightarrow> own_ok own v h \<Longrightarrow> calm h (f h)" and "safe own v k"
  shows "safe own v (do_step f k)"
proof -
  have "do_step f k = call_step (\<lambda>h. andThen (f h) (\<lambda>h. Ret ((), h))) (\<lambda>_. k)"
    by (simp add: do_step_def call_step_def andThen_assoc)
  moreover have "safe own v (call_step (\<lambda>h. andThen (f h) (\<lambda>h. Ret ((), h))) (\<lambda>_. k))"
    by (rule safe_call, rule ends_in_andThen, erule (1) assms(1)) (simp add: assms(2))
  ultimately show ?thesis by simp
qed

lemma safe_read:
  assumes "\<And>h. reg_ok h \<Longrightarrow> own_ok own v h \<Longrightarrow> safe own v (k (g h))"
  shows "safe own v (read_step g k)"
proof -
  have "read_step g k = call_step (\<lambda>h. Ret (g h, h)) k" by (simp add: read_step_def call_step_def)
  moreover have "safe own v (call_step (\<lambda>h. Ret (g h, h)) k)" by (rule safe_call) (simp add: assms)
  ultimately show ?thesis by simp
qed

lemma safe_write:
  assumes "\<And>db. store_evolves db (fst (f db))" and "safe own v k"
  shows "safe own v (write_step f k)"
proof -
  have "write_step f k = do_step (\<lambda>h. Ret (upd_store f h)) k" by (simp add: write_step_def do_step_def)
  then show ?thesis using safe_do [of own v "\<lambda>h. Ret (upd_store f h)" k] assms by (simp add: quiet_upd_store)
qed

lemma safe_dispatch:
  assumes "\<And>h. c_closed (h_clients h a) \<Longrightarrow> panics (f h)" and "\<And>h. \<not> c_closed (h_clients h a) \<Longrightarrow> calm h (f h)" and "safe own v k"
  shows "safe own v (dispatch_step a f k)"
  unfolding dispatch_step_def
proof (rule safe_act)
  fix h
  assume ok: "reg_ok h" "own_ok own v h"
  show "panics (andThen (f h) (\<lambda>h. Ret (k, h))) \<longleftrightarrow> (\<exists>b. Dispatch a = Dispatch b \<and> c_closed (h_clients h b))"
  proof (cases "c_closed (h_clients h a)")
    case True
    then show ?thesis using assms(1) [OF True] by (cases "f h") auto
  next
    case False
    then show ?thesis using assms(2) [OF False] by (auto simp: ends_in_def)
  qed
  fix t h'
  assume "andThen (f h) (\<lambda>h. Ret (k, h)) = Ret (t, h')"
  then have f: "f h = Ret h'" "t = k" by (auto simp: andThen_Ret_iff)
  then have "\<not> c_closed (h_clients h a)" using assms(1) [of h] by auto
  then have q: "quiet h h'" using assms(2) f by fastforce
  show "guar own h h' \<and> (\<exists>v'. own_ok own v' h' \<and> safe own v' t)"
    using guar_quiet [OF ok(1) q] own_quiet [OF ok(2) q] assms(3) f(2) by blast
qed

section \<open>The handlers are safe\<close>

lemma calm_new_Send: "\<not> c_closed (h_clients h c) \<Longrightarrow> calm h (let (env, h) = newEnvelope e h t d j in Send h c env)"
  unfolding newEnvelope_def Let_def prod.case by (rule calm_from [OF quiet_ghost(1) calm_Send]) simp

lemma new_Send_panics: "c_closed (h_clients h c) \<Longrightarrow> panics (let (env, h) = newEnvelope e h t d j in Send h c env)"
  by (simp add: newEnvelope_def Send_def)

lemma calm_ctrls: "reg_ok h \<Longrightarrow> calm h (sendAll h (filter p (h_controllers h)) env)"
  using reg_ok_open [of h] by (intro calm_sendAll) (auto simp: open_hub_def)

lemma safe_error: "safe (Some c) v (error_task e c ecode msg)"
  unfolding error_task_def by (intro safe_do safe_done calm_sendError) (rule own_open)

lemma safe_send: "safe (Some c) v k \<Longrightarrow> safe (Some c) v (send_task e c t d j k)"
  unfolding send_task_def by (intro safe_do calm_new_Send) (rule own_open)

lemma safe_envelope: "(\<And>env. safe own v (k env)) \<Longrightarrow> safe own v (envelope_task e t d j k)"
  unfolding envelope_task_def by (rule safe_call) (simp add: newEnvelope_def)

lemma safe_everyone: "safe own v k \<Longrightarrow> safe own v (everyone_task env k)"
  unfolding everyone_task_def by (intro safe_do calm_broadcasts reg_ok_open)

lemma safe_broadcast: "safe own v (broadcast_task d env)"
  unfolding broadcast_task_def by (intro safe_read safe_do calm_ctrls safe_done)

lemma safe_to_agent:
  "safe own v k \<Longrightarrow> safe own v (dispatch_step a (\<lambda>h. case newEnvelope e h t (d h) j of (env, h) \<Rightarrow> Send h a env) k)"
  by (intro safe_dispatch calm_new_Send [unfolded Let_def] new_Send_panics [unfolded Let_def])

lemma safe_getDevices: "safe (Some c) v (getDevices_task e c)"
  unfolding getDevices_task_def by (intro safe_read safe_send safe_done)

lemma safe_dispatch_all: "safe own v (dispatch_task e a cmds)"
  by (induction cmds) (auto intro!: safe_done safe_to_agent safe_write evolves)

lemma safe_flush: "safe own v (flush_task e d)"
  unfolding flush_task_def by (intro safe_read) (auto intro!: safe_done safe_read safe_dispatch_all split: option.split)

lemma safe_heartbeat: "safe (Some c) v (heartbeat_task e c env)"
proof -
  have "calm h (let (hbEnv, h) = newEnvelope e h t d j in sendAll h (filter (sees h u) (h_controllers h)) hbEnv)" if "reg_ok h" for h t d j u
    unfolding newEnvelope_def Let_def prod.case
    by (rule calm_from [OF quiet_ghost(1) calm_ctrls]) (rule reg_ok_quiet [OF quiet_ghost(1) that])
  then show ?thesis
    by (auto simp: heartbeat_task_def Let_def split: prod.split intro!: safe_done safe_write safe_send safe_read safe_do evolves)
qed

lemma safe_offline:
  assumes "\<And>pre res. safe own v (k pre res)"
  shows "safe own v (offline_task e p k)"
  unfolding offline_task_def Let_def
proof (rule safe_call)
  fix h
  assume "reg_ok h"
  then have "ids_ok (h_store h)" by (simp add: reg_ok_def)
  let ?k = "\<lambda>r. case r of
      Some res \<Rightarrow> write_step (\<lambda>db. SaveResult (unix_now e) db res)
        (write_step (\<lambda>db. MarkCommandCompleted (unix_now e) db (cp_CommandID p) StatusCompleted)
        (write_step (\<lambda>db. RecordAuditLog (unix_now e) db (cloud_exec_log p res)) (k True res)))
    | None \<Rightarrow> write_step (\<lambda>db. SaveSandboxResult (unix_now e) db (executeCloudSandbox e p))
        (write_step (\<lambda>db. RecordAuditLog (unix_now e) db (cloud_script_log p (executeCloudSandbox e p))) (k False (executeCloudSandbox e p)))"
  have rest: "safe own v (?k r)" for r
    by (auto simp: assms split: option.split intro!: safe_write evolves)
  have q: "quiet h (h\<lparr>h_store := db, h_wol := w\<rparr>)" if "store_evolves (h_store h) db" for db w
    using quiet_trans [OF quiet_store [OF that] quiet_ghost(2) [of _ w]] by simp
  show "ends_in (\<lambda>(x, h'). quiet h h' \<and> safe own v (?k x)) (andThen (tryExecutePredefinedOffline e (h_store h) p) (\<lambda>r.
      case r of Some (res, db, wol) \<Rightarrow> Ret (Some res, h\<lparr>h_store := db, h_wol := h_wol h @ (case wol of None \<Rightarrow> [] | Some mac \<Rightarrow> [(mac, ''255.255.255.255'')])\<rparr>)
      | None \<Rightarrow> Ret (None, h)))"
    by (rule ends_in_andThen [OF tryExecutePredefinedOffline_total [OF \<open>ids_ok (h_store h)\<close>]])
      (use rest [of None] rest [of "Some x" for x] q quiet_store in \<open>auto split: option.splits\<close>)
qed

lemma safe_store:
  assumes "id_fine (cp_CommandID p)" and "uuids_fine e" and "\<And>p err. safe own v (k p err)"
  shows "safe own v (store_task e p k)"
proof -
  have "safe own v (call_step (\<lambda>h. let (db, err) = EnqueueCommand (unix_now e) (h_store h) p in Ret (err, h\<lparr>h_store := db\<rparr>)) (k p))"
    if "8 \<le> length (cp_CommandID p)" for p
  proof (rule safe_call)
    show "ends_in (\<lambda>(x, h'). quiet h h' \<and> safe own v (k p x)) (let (db, err) = EnqueueCommand (unix_now e) (h_store h) p in Ret (err, h\<lparr>h_store := db\<rparr>))" for h
      using evolves_enqueue [OF that, of "h_store h" "unix_now e"] assms(3) by (auto simp: quiet_store split: prod.split)
  qed
  then show ?thesis
    unfolding store_task_def using complete_command_fine [OF assms(1,2)]
    by (intro safe_call) (auto simp: case_prod_unfold)
qed

lemma safe_enqueue:
  assumes "uuids_fine e" and "id_fine (cp_CommandID (snd (DecodePayload unmarshal_CommandPayload env zero_CommandPayload)))"
  shows "safe (Some c) v (enqueue_task e c env)"
  using assms
  by (auto simp: enqueue_task_def queued_task_def forward_task_def Let_def split: prod.split option.split
      intro!: safe_error safe_read safe_store safe_to_agent safe_write safe_broadcast safe_offline safe_envelope evolves)

lemma safe_direct:
  assumes "uuids_fine e" and "id_fine (cp_CommandID cmd)"
  shows "safe own v (direct_task e cmd)"
  using assms
  by (auto simp: direct_task_def stored_task_def deliver_task_def Let_def split: option.split
      intro!: safe_done safe_read safe_store safe_to_agent safe_write safe_broadcast safe_offline safe_envelope safe_everyone evolves)

lemma safe_result: "safe (Some c) v (result_task e c env)"
  by (auto simp: result_task_def Let_def split: prod.split intro!: safe_done safe_write safe_read safe_send safe_everyone evolves)

lemma safe_mark: "safe own v k \<Longrightarrow> safe own v (mark_task e cmds k)"
  by (induction cmds) (auto intro!: safe_write evolves)

lemma safe_sync_results: "(\<And>acked. safe own v (k acked)) \<Longrightarrow> safe own v (sync_results_task e d rs k)"
proof (induction rs arbitrary: k)
  case (Cons res rs)
  have "ends_in (\<lambda>(x, h'). quiet h h' \<and> safe own v (case x of
         Some x \<Rightarrow> sync_results_task e d rs k
       | None \<Rightarrow> envelope_task e TypeCmdResult d (marshal_ResultPayload res) (\<lambda>resEnv.
           everyone_task resEnv (sync_results_task e d rs (\<lambda>acked. k (rp_CommandID res # acked))))))
      (let (db, err) = SaveResult (unix_now e) (h_store h) res in Ret (err, h\<lparr>h_store := db\<rparr>))" for h
    using evolves_results(1) [of "h_store h" "unix_now e" res] Cons
    by (auto simp: quiet_store split: prod.split option.split intro!: safe_envelope safe_everyone)
  then show ?case by (simp only: sync_results_task.simps) (rule safe_call)
qed simp

lemma safe_sync: "safe (Some c) v (sync_task e c env)"
  by (auto simp: sync_task_def Let_def split: prod.split intro!: safe_done safe_sync_results safe_read safe_mark safe_send)

lemma safe_cached_reply: "safe (Some c) v (cached_reply e c env t body)"
  by (auto simp: cached_reply_def split: option.split intro!: safe_error safe_send safe_done)

lemma safe_toAgent: "safe (Some c) v (toAgent_task e c env)"
proof -
  have "safe (Some c) v (dispatch_step a (\<lambda>h. Send h a env) Finished)" for a
    by (intro safe_dispatch calm_Send safe_done) (simp_all add: Send_def)
  then show ?thesis
    by (auto simp: toAgent_task_def Let_def split: option.split intro!: safe_read safe_error safe_cached_reply)
qed

lemma safe_toControllers: "safe own v (toControllers_task e env)"
  unfolding toControllers_task_def by (intro safe_do safe_broadcast) (simp add: quiet_cache_and_audit)

lemma safe_auditLogs: "safe (Some c) v (auditLogs_task e c env)"
  unfolding auditLogs_task_def by (intro safe_read safe_send safe_done)

lemma safe_liveness: "safe own v (liveness_task e ds)"
  by (induction ds)
    (auto intro!: safe_done safe_read safe_write safe_do evolves calm_broadcastDeviceStatus reg_ok_open)

lemma safe_tick: "safe own v (tick_task e)"
  unfolding tick_task_def by (intro safe_read) (auto intro!: safe_done safe_liveness split: sum.split)

subsection \<open>Authentication\<close>

definition same_fields :: "Hub \<Rightarrow> Hub \<Rightarrow> bool" where
  "same_fields h h' \<longleftrightarrow> h_next h' = h_next h \<and> (\<forall>x. c_closed (h_clients h' x) = c_closed (h_clients h x)
     \<and> c_role (h_clients h' x) = c_role (h_clients h x) \<and> c_deviceID (h_clients h' x) = c_deviceID (h_clients h x))"

lemma same_fields_simps [simp]:
  "same_fields h (h'\<lparr>h_store := db\<rparr>) = same_fields h h'" "same_fields h (h'\<lparr>h_uuids := n\<rparr>) = same_fields h h'"
  "same_fields h (h'\<lparr>h_agents := al\<rparr>) = same_fields h h'" "same_fields h (h'\<lparr>h_controllers := cs\<rparr>) = same_fields h h'"
  "same_fields h (upd_store f h') = same_fields h h'"
  "same_fields h (upd_client c (\<lambda>cl. cl\<lparr>c_userID := u\<rparr>) h') = same_fields h h'"
  "same_fields h (upd_client c (\<lambda>cl. cl\<lparr>c_connClosed := b\<rparr>) h') = same_fields h h'"
  "same_fields h (upd_client c (\<lambda>cl. cl\<lparr>c_send := q cl\<rparr>) h') = same_fields h h'" "same_fields h h"
  by (auto simp: same_fields_def upd_store_def upd_client_def)

lemma sendAll_fields: "sendAll h cs env = Ret h' \<Longrightarrow> same_fields h0 h \<Longrightarrow> same_fields h0 h'"
  by (induction cs arbitrary: h) (auto simp: andThen_Ret_iff Send_def split: if_splits)

lemma broadcast_fields: "broadcastDeviceStatusLocked e h d st = Ret h' \<Longrightarrow> same_fields h0 h \<Longrightarrow> same_fields h0 h'"
  by (auto simp: broadcastDeviceStatusLocked_def newEnvelope_def Let_def dest: sendAll_fields [where ?h0.0 = h0])

lemma register_agent_fields: "register_agent e h c p user = Ret h' \<Longrightarrow> same_fields h h'"
  unfolding register_agent_def Let_def
  by (auto split: option.splits if_splits elim!: broadcast_fields [where ?h0.0 = h])

lemma reg_ok_role:
  assumes ok: "reg_ok h" and polite: "polite_auth (h_clients h c) p"
    and f: "c_role (f (h_clients h c)) = ap_Role p" "c_deviceID (f (h_clients h c)) = ap_DeviceID p"
      "c_closed (f (h_clients h c)) = c_closed (h_clients h c)" "c_send (f (h_clients h c)) = c_send (h_clients h c)"
  shows "reg_ok (upd_client c f h)" (is "reg_ok ?h")
proof -
  have other: "agent_entry_ok ?h d a = agent_entry_ok h d a" "controller_ok ?h a = controller_ok h a" if "a \<noteq> c" for d a
    by (rule entry_ok_other; use that in \<open>simp add: upd_client_def\<close>)+
  have "agent_entry_ok ?h d c" if "agent_entry_ok h d c" for d
    using that polite f by (auto simp: agent_entry_ok_def polite_auth_def upd_client_def)
  moreover have "controller_ok ?h c" if "controller_ok h c"
    using that polite f by (auto simp: controller_ok_def polite_auth_def upd_client_def)
  ultimately have "(\<forall>(d, a) \<in> set (h_agents h). agent_entry_ok ?h d a) \<and> (\<forall>a \<in> set (h_controllers h). controller_ok ?h a)"
    using ok other by (metis (mono_tags, lifting) case_prodI2 case_prodD reg_ok_def)
  then show ?thesis using ok f(4) by (simp add: reg_ok_def upd_client_def)
qed

lemma safe_guar:
  assumes "\<And>h. reg_ok h \<Longrightarrow> own_ok own v h \<Longrightarrow> ends_in (\<lambda>h'. guar own h h' \<and> own_ok own v' h') (f h)" and "safe own v' k"
  shows "safe own v (do_step f k)"
  unfolding do_step_def
proof (rule safe_act)
  fix h
  assume ok: "reg_ok h" "own_ok own v h"
  obtain h1 where f: "f h = Ret h1" "guar own h h1" "own_ok own v' h1" using assms(1) [OF ok] by (auto simp: ends_in_def)
  show "panics (andThen (f h) (\<lambda>h. Ret (k, h))) \<longleftrightarrow> (\<exists>a. Plain = Dispatch a \<and> c_closed (h_clients h a))" by (simp add: f(1))
  show "guar own h h' \<and> (\<exists>v'. own_ok own v' h' \<and> safe own v' t)" if "andThen (f h) (\<lambda>h. Ret (k, h)) = Ret (t, h')" for t h'
  proof -
    have "t = k" "h' = h1" using that by (simp_all add: f(1))
    then show ?thesis using f(2,3) assms(2) by blast
  qed
qed

lemma register_safe:
  assumes ok: "reg_ok h" and own: "own_ok (Some c) (ap_Role p, ap_DeviceID p) h" and polite: "polite_auth cl p"
  shows "ends_in (\<lambda>h'. guar (Some c) h h' \<and> own_ok (Some c) (ap_Role p, ap_DeviceID p) h')
    (if ap_Role p = RoleAgent then register_agent e h c p user else Ret (h\<lparr>h_controllers := List.insert c (h_controllers h)\<rparr>))"
proof -
  have id: "upd_client c id h = h" by (simp add: upd_client_def)
  have own': "c < h_next h" "\<not> c_closed (h_clients h c)" "c_role (h_clients h c) = ap_Role p" "c_deviceID (h_clients h c) = ap_DeviceID p"
    using own by (simp_all add: own_ok_def)
  show ?thesis
  proof (cases "ap_Role p = RoleAgent")
    case True
    then have "reg_ok ((upd_client c id h)\<lparr>h_agents := AList.update (ap_DeviceID p) c (h_agents h)\<rparr>)"
      using own' polite by (intro reg_ok_register_agent [OF ok]) (auto simp: polite_auth_def)
    then obtain h' where h': "register_agent e h c p user = Ret h'" "orderly h h'"
      using register_agent_orderly [of p c h e user] own'(2) by (auto simp: id ends_in_def)
    then show ?thesis
      using True own register_agent_fields [OF h'(1)] by (auto simp: guar_def orderly_def same_fields_def own_ok_def)
  next
    case False
    then have "reg_ok ((upd_client c id h)\<lparr>h_controllers := List.insert c (h_controllers h)\<rparr>)"
      using own' polite by (intro reg_ok_register_controller [OF ok]) (auto simp: polite_auth_def)
    then show ?thesis using False own by (simp add: guar_def own_ok_def id)
  qed
qed

lemma safe_auth:
  assumes polite: "\<And>p. DecodePayload unmarshal_AuthPayload env zero_AuthPayload = (False, p) \<Longrightarrow> polite_auth cl p"
    and v: "v = (c_role cl, c_deviceID cl)"
  shows "safe (Some c) v (auth_task e c env)"
proof -
  obtain err p where d: "DecodePayload unmarshal_AuthPayload env zero_AuthPayload = (err, p)" by fastforce
  have set_role: "ends_in (\<lambda>h'. guar (Some c) h h' \<and> own_ok (Some c) (ap_Role p, ap_DeviceID p) h')
      (Ret (upd_client c (\<lambda>cl. cl\<lparr>c_role := ap_Role p, c_deviceID := ap_DeviceID p, c_authed := True, c_userID := u cl\<rparr>) h))"
    if "reg_ok h" "own_ok (Some c) v h" "polite_auth cl p" for h u
  proof -
    have "polite_auth (h_clients h c) p" using that(2,3) v by (simp add: own_ok_def polite_auth_def)
    then have "reg_ok (upd_client c (\<lambda>cl. cl\<lparr>c_role := ap_Role p, c_deviceID := ap_DeviceID p, c_authed := True, c_userID := u cl\<rparr>) h)"
      by (intro reg_ok_role [OF that(1)]) simp_all
    then show ?thesis using that(2) by (simp add: guar_def own_ok_def upd_client_def)
  qed
  have tail: "safe (Some c) w (do_step (\<lambda>h. case newEnvelope e h t dev (j h) of (ack, h) \<Rightarrow> Send h c ack)
      (if ap_Role p = RoleController then getDevices_task e c else if ap_Role p = RoleAgent then flush_task e (ap_DeviceID p) else Finished))"
    for w t dev j
    by (intro safe_do calm_new_Send [unfolded Let_def]) (auto intro: safe_done safe_getDevices safe_flush dest: own_open)
  have accepted: "safe (Some c) v (do_step (\<lambda>h. Ret (upd_client c (\<lambda>cl. cl\<lparr>c_role := ap_Role p, c_deviceID := ap_DeviceID p,
         c_authed := True, c_userID := u cl\<rparr>) h)) (do_step (\<lambda>h. if ap_Role p = RoleAgent then register_agent e h c p user
           else Ret (h\<lparr>h_controllers := List.insert c (h_controllers h)\<rparr>)) k))"
    if "polite_auth cl p" "safe (Some c) (ap_Role p, ap_DeviceID p) k" for u user k
    by (rule safe_guar [OF set_role safe_guar [OF register_safe [where cl = cl] that(2)]]) (assumption | rule that(1))+
  show ?thesis
  proof (cases err)
    case True
    then show ?thesis by (simp add: auth_task_def d safe_error)
  next
    case False
    then have "polite_auth cl p" using polite d by simp
    note polite_p = this
    have split_if: "safe (Some c) v (if b then s else t)" if "safe (Some c) v s" "safe (Some c) v t" for b s t
      using that by simp
    show ?thesis
      unfolding auth_task_def d Let_def prod.case using False
      by (simp only: if_False) (rule safe_read, unfold prod.case, rule split_if [OF safe_send [OF safe_done] accepted [OF polite_p tail]])
  qed
qed

lemma safe_message:
  assumes "uuids_fine e" and "polite_message cl env" and "v = (c_role cl, c_deviceID cl)"
  shows "safe (Some c) v (message_task e c env)"
  using assms safe_auth [of env cl v c e] safe_enqueue [of e env c v]
  by (auto simp: message_task_def polite_message_def safe_heartbeat safe_result safe_sync safe_getDevices safe_auditLogs safe_toAgent
      safe_toControllers safe_done)

section \<open>Every interleaving\<close>

definition owner :: "thread \<Rightarrow> cid option" where
  "owner i = (case i of Reader c \<Rightarrow> Some c | _ \<Rightarrow> None)"

definition thread_ok :: "Hub \<Rightarrow> (cid \<Rightarrow> bool) \<Rightarrow> thread \<Rightarrow> task \<Rightarrow> bool" where
  "thread_ok h reading i t \<longleftrightarrow>
     (case i of
        Reader c \<Rightarrow> if reading c then \<exists>v. own_ok (Some c) v h \<and> safe (Some c) v t else t = Finished \<or> (\<exists>e. t = unregister_task e c)
      | _ \<Rightarrow> \<exists>v. safe None v t)"

definition conc_ok :: "Conc \<Rightarrow> bool" where
  "conc_ok s \<longleftrightarrow> reg_ok (cc_hub s) \<and> db_ok (h_store (cc_hub s))
     \<and> (\<forall>i. thread_ok (cc_hub s) (cc_reading s) i (cc_task s i))
     \<and> (\<forall>c. h_next (cc_hub s) \<le> c \<longrightarrow> \<not> cc_reading s c \<and> cc_task s (Reader c) = Finished)"

lemma thread_ok_kept:
  assumes "thread_ok h R i t" and "h_next h \<le> h_next h'"
    and "\<And>c. i = Reader c \<Longrightarrow> c < h_next h \<Longrightarrow> c_closed (h_clients h' c) = c_closed (h_clients h c)
      \<and> c_role (h_clients h' c) = c_role (h_clients h c) \<and> c_deviceID (h_clients h' c) = c_deviceID (h_clients h c)"
  shows "thread_ok h' R i t"
  using assms by (cases i) (auto simp: thread_ok_def own_ok_def split: if_splits)

lemma thread_ok_guar: "thread_ok h R i t \<Longrightarrow> guar own h h' \<Longrightarrow> own \<noteq> owner i \<or> own = None \<Longrightarrow> thread_ok h' R i t"
  by (erule thread_ok_kept) (auto simp: owner_def guar_def)

lemma conc_ok_update:
  assumes ok: "conc_ok s" and g: "guar (owner i) (cc_hub s) h" and t: "thread_ok h (cc_reading s) i t"
    and fresh: "\<And>c. i = Reader c \<Longrightarrow> c < h_next (cc_hub s)"
  shows "conc_ok (s\<lparr>cc_hub := h, cc_task := (cc_task s)(i := t)\<rparr>)"
proof -
  have "thread_ok h (cc_reading s) j (((cc_task s)(i := t)) j)" for j
  proof (cases "j = i")
    case False
    then have "owner i \<noteq> owner j \<or> owner i = None" by (cases i; cases j) (auto simp: owner_def)
    then show ?thesis using ok thread_ok_guar [OF _ g] False by (simp add: conc_ok_def)
  qed (simp add: t)
  moreover have "db_ok (h_store h)"
    using ok g store_steps_db_ok by (auto simp: conc_ok_def guar_def store_evolves_def)
  moreover have "\<not> cc_reading s c \<and> ((cc_task s)(i := t)) (Reader c) = Finished" if "h_next h \<le> c" for c
    using ok g that fresh [of c] by (auto simp: conc_ok_def guar_def)
  ultimately show ?thesis using g by (simp add: conc_ok_def guar_def)
qed

text \<open>A change of the hub that is nobody's step.\<close>

lemma conc_ok_others:
  assumes ok: "conc_ok s" and g: "guar None (cc_hub s) h"
  shows "conc_ok (s\<lparr>cc_hub := h\<rparr>)"
proof -
  have "thread_ok h (cc_reading s) i (cc_task s i)" for i
    using ok thread_ok_guar [OF _ g] by (simp add: conc_ok_def)
  moreover have "db_ok (h_store h)"
    using ok g store_steps_db_ok by (auto simp: conc_ok_def guar_def store_evolves_def)
  ultimately show ?thesis using ok g by (auto simp: conc_ok_def guar_def)
qed

text \<open>A handler starts.\<close>

lemma conc_ok_start:
  assumes "conc_ok s" and "thread_ok (cc_hub s) (cc_reading s) i t" and "\<And>c. i = Reader c \<Longrightarrow> c < h_next (cc_hub s)"
  shows "conc_ok (s\<lparr>cc_task := (cc_task s)(i := t)\<rparr>)"
proof -
  have "guar (owner i) (cc_hub s) (cc_hub s)" using assms(1) by (simp add: guar_def conc_ok_def)
  from conc_ok_update [OF assms(1) this assms(2,3)] show ?thesis by simp
qed

lemma guar_env: "reg_ok h \<Longrightarrow> quiet_env h h' \<Longrightarrow> guar None h h'"
proof -
  assume ok: "reg_ok h" and "quiet_env h h'"
  then consider c env where "writeNext h c = Some (env, h')" | "h' = Close h"
    | db where "store_evolves (h_store h) db" "h' = h\<lparr>h_store := db\<rparr>"
    | al cs where "mset al = mset (h_agents h)" "mset cs = mset (h_controllers h)" "h' = h\<lparr>h_agents := al, h_controllers := cs\<rparr>"
    unfolding quiet_env_def by blast
  then show "guar None h h'"
  proof cases
    case 2
    then show ?thesis using Close_same [of h] reg_ok_same [OF Close_same ok] by (simp add: guar_def same_reg_def)
  next
    case 4
    then show ?thesis using reg_ok_reorder [OF ok 4(1,2)] by (simp add: guar_def)
  qed (auto intro!: guar_quiet [OF ok] intro: writeNext_quiet quiet_store)
qed

lemma unregister_fields:
  assumes "unregister e h c = Ret h'"
  shows "h_next h' = h_next h" and "x \<noteq> c \<Longrightarrow> c_closed (h_clients h' x) = c_closed (h_clients h x)
    \<and> c_role (h_clients h' x) = c_role (h_clients h x) \<and> c_deviceID (h_clients h' x) = c_deviceID (h_clients h x)"
    and "c_closed (h_clients h' c)"
proof -
  obtain h1 where run: "(let cl = h_clients h c in
      if c_role cl = RoleAgent \<and> c_deviceID cl \<noteq> ''''
      then if map_of (h_agents h) (c_deviceID cl) = Some c
           then broadcastDeviceStatusLocked e (upd_store (\<lambda>db. UpdateDeviceStatus db (c_deviceID cl) StatusOffline)
                  (h\<lparr>h_agents := AList.delete (c_deviceID cl) (h_agents h)\<rparr>)) (c_deviceID cl) StatusOffline
           else Ret h
      else if c_role cl = RoleController then Ret (h\<lparr>h_controllers := removeAll c (h_controllers h)\<rparr>) else Ret h) = Ret h1"
    "h' = upd_client c (\<lambda>cl. cl\<lparr>c_closed := True, c_connClosed := True\<rparr>) h1"
    using assms by (auto simp: unregister_def Let_def andThen_Ret_iff)
  have "same_fields h h1"
    using run(1) by (auto simp: Let_def split: if_splits elim!: broadcast_fields)
  then show "h_next h' = h_next h" "x \<noteq> c \<Longrightarrow> c_closed (h_clients h' x) = c_closed (h_clients h x)
    \<and> c_role (h_clients h' x) = c_role (h_clients h x) \<and> c_deviceID (h_clients h' x) = c_deviceID (h_clients h x)"
    "c_closed (h_clients h' c)"
    by (simp_all add: run(2) same_fields_def upd_client_def)
qed

lemma guar_unregister: "reg_ok h \<Longrightarrow> unregister e h c = Ret h' \<Longrightarrow> guar (Some c) h h'"
  using unregister_orderly [of h e c] unregister_fields [of e h c h'] by (auto simp: guar_def orderly_def)

lemma conc_ok_connect:
  assumes ok: "conc_ok s"
  shows "conc_ok (s\<lparr>cc_hub := HandleWS e (cc_hub s), cc_reading := (cc_reading s)(h_next (cc_hub s) := True)\<rparr>)"
proof -
  let ?h = "HandleWS e (cc_hub s)" and ?c = "h_next (cc_hub s)"
  have new: "h_clients ?h ?c = newClient (e_uuid e (h_uuids (cc_hub s)))" "h_next ?h = Suc ?c"
    by (simp_all add: HandleWS_def newUUID_def)
  have others: "h_clients ?h x = h_clients (cc_hub s) x" if "x \<noteq> ?c" for x
    using that by (simp add: HandleWS_def newUUID_def)
  have idle: "cc_task s (Reader ?c) = Finished" using ok by (simp add: conc_ok_def)
  have "thread_ok ?h ((cc_reading s)(?c := True)) i (cc_task s i)" for i
  proof (cases "i = Reader ?c")
    case True
    then show ?thesis by (simp add: idle thread_ok_def own_ok_def new newClient_def safe_done)
  next
    case False
    have "thread_ok (cc_hub s) (cc_reading s) i (cc_task s i)" using ok by (simp add: conc_ok_def)
    then have "thread_ok ?h (cc_reading s) i (cc_task s i)"
      by (rule thread_ok_kept) (simp_all add: new others)
    then show ?thesis using False by (cases i) (simp_all add: thread_ok_def)
  qed
  moreover have "reg_ok ?h" using HandleWS_orderly [of "cc_hub s" e] ok by (simp add: conc_ok_def orderly_def)
  moreover have "h_store ?h = h_store (cc_hub s)" by (simp add: HandleWS_def newUUID_def)
  ultimately show ?thesis using ok by (simp add: conc_ok_def new)
qed

lemma conc_ok_reader: "conc_ok s \<Longrightarrow> cc_reading s c \<Longrightarrow> c < h_next (cc_hub s)"
  by (meson conc_ok_def not_le)

lemma conc_ok_hangup:
  assumes ok: "conc_ok s" and "cc_task s (Reader c) = Finished" and reading: "cc_reading s c"
  shows "conc_ok (s\<lparr>cc_task := (cc_task s)(Reader c := unregister_task e c), cc_reading := (cc_reading s)(c := False)\<rparr>)"
proof -
  have "thread_ok (cc_hub s) ((cc_reading s)(c := False)) i (((cc_task s)(Reader c := unregister_task e c)) i)" for i
  proof (cases "i = Reader c")
    case False
    have "thread_ok (cc_hub s) (cc_reading s) i (cc_task s i)" using ok by (simp add: conc_ok_def)
    then show ?thesis using False by (cases i) (auto simp: thread_ok_def)
  qed (auto simp: thread_ok_def)
  then show ?thesis using ok conc_ok_reader [OF ok reading] by (auto simp: conc_ok_def)
qed

lemma conc_ok_move:
  assumes ok: "conc_ok s" and act: "cc_task s i = Act kind f" and ret: "f (cc_hub s) = Ret (t, h)"
  shows "guar (owner i) (cc_hub s) h \<and> conc_ok (s\<lparr>cc_hub := h, cc_task := (cc_task s)(i := t)\<rparr>)"
proof -
  have reg: "reg_ok (cc_hub s)" and th: "thread_ok (cc_hub s) (cc_reading s) i (Act kind f)"
    using ok act [symmetric] by (simp_all add: conc_ok_def)
  have fresh: "c < h_next (cc_hub s)" if "i = Reader c" for c
    using ok act that by (metis conc_ok_def not_le task.distinct(1))
  have "guar (owner i) (cc_hub s) h \<and> thread_ok h (cc_reading s) i t"
  proof (cases "\<exists>c. i = Reader c \<and> \<not> cc_reading s c")
    case True
    then obtain c e where i: "i = Reader c" "\<not> cc_reading s c" "Act kind f = unregister_task e c"
      using th by (auto simp: thread_ok_def)
    then have "unregister e (cc_hub s) c = Ret h" "t = Finished"
      using ret by (auto simp: unregister_task_def do_step_def andThen_Ret_iff)
    then show ?thesis using guar_unregister [OF reg] i by (simp add: owner_def thread_ok_def)
  next
    case False
    then obtain v where v: "own_ok (owner i) v (cc_hub s)" "safe (owner i) v (Act kind f)"
      using th by (cases i) (auto simp: thread_ok_def owner_def own_ok_def)
    then obtain v' where "guar (owner i) (cc_hub s) h" "own_ok (owner i) v' h" "safe (owner i) v' t"
      using safe_actE [OF v(2)] reg ret by metis
    then show ?thesis using False by (cases i) (auto simp: thread_ok_def owner_def simp del: split_paired_Ex)
  qed
  then show ?thesis using conc_ok_update [OF ok] fresh by blast
qed

lemma conc_ok_step:
  assumes "conc_step s t" and ok: "conc_ok s"
  shows "conc_ok t \<and> store_evolves (h_store (cc_hub s)) (h_store (cc_hub t))"
  using assms(1)
proof cases
  case (connect e)
  then show ?thesis
    using conc_ok_connect [OF ok] HandleWS_orderly [of "cc_hub s" e] ok by (simp add: conc_ok_def orderly_def)
next
  case (message c e env)
  have "thread_ok (cc_hub s) (cc_reading s) (Reader c) (cc_task s (Reader c))" using ok by (simp add: conc_ok_def)
  then obtain v where "own_ok (Some c) v (cc_hub s)" using message by (auto simp: thread_ok_def)
  then have "thread_ok (cc_hub s) (cc_reading s) (Reader c) (message_task e c env)"
    using message safe_message [of e "h_clients (cc_hub s) c" env v c] by (auto simp: thread_ok_def own_ok_def)
  then show ?thesis using conc_ok_start [OF ok, of "Reader c"] conc_ok_reader [OF ok] message by simp
next
  case (request n e cmd)
  then have "thread_ok (cc_hub s) (cc_reading s) (Http n) (direct_task e cmd)" by (simp add: thread_ok_def safe_direct)
  then show ?thesis using conc_ok_start [OF ok, of "Http n"] request by simp
next
  case (tick e)
  have "thread_ok (cc_hub s) (cc_reading s) Tracker (tick_task e)" by (simp add: thread_ok_def safe_tick)
  then show ?thesis using conc_ok_start [OF ok, of Tracker] tick by simp
next
  case (recover n kind f)
  have "thread_ok (cc_hub s) (cc_reading s) (Http n) Finished" by (simp add: thread_ok_def safe_done)
  then show ?thesis using conc_ok_start [OF ok, of "Http n"] recover by simp
next
  case (others h)
  then have g: "guar None (cc_hub s) h" using ok by (intro guar_env) (simp_all add: conc_ok_def)
  then show ?thesis using others conc_ok_others [OF ok g] by (simp add: guar_def)
qed (use conc_ok_hangup [OF ok] conc_ok_move [OF ok] in \<open>auto simp: guar_def\<close>)

lemma conc_ok_init: "conc_init s \<Longrightarrow> conc_ok s"
  using hub_init_ok [of "cc_hub s"] by (auto simp: conc_init_def conc_ok_def thread_ok_def safe_done split: thread.split)

interpretation interleaved: invariant_system conc_init conc_step conc_ok
  by unfold_locales (auto intro: conc_ok_init dest: conc_ok_step)

lemma crash_kind:
  assumes ok: "conc_ok s" and act: "cc_task s i = Act kind f"
  shows "panics (f (cc_hub s)) \<longleftrightarrow> (\<exists>a. kind = Dispatch a \<and> c_closed (h_clients (cc_hub s) a))"
proof -
  have reg: "reg_ok (cc_hub s)" and th: "thread_ok (cc_hub s) (cc_reading s) i (Act kind f)"
    using ok act [symmetric] by (simp_all add: conc_ok_def)
  show ?thesis
  proof (cases "\<exists>c. i = Reader c \<and> \<not> cc_reading s c")
    case True
    then obtain c e where "Act kind f = unregister_task e c" using th by (auto simp: thread_ok_def)
    moreover obtain h where "unregister e (cc_hub s) c = Ret h"
      using unregister_orderly [OF reg, of e c] by (auto simp: ends_in_def)
    ultimately show ?thesis by (simp add: unregister_task_def do_step_def)
  next
    case False
    then obtain v where v: "own_ok (owner i) v (cc_hub s)" "safe (owner i) v (Act kind f)"
      using th by (cases i) (auto simp: thread_ok_def owner_def own_ok_def)
    then show ?thesis using safe_actE [OF v(2)] reg by metis
  qed
qed

end
