(* ===== verification/Races.thy ===== *)
theory Races
  imports Interleave HubProps
begin

text \<open>
  What holds of the hub under every interleaving of its goroutines, and what does not: the one race that ends the relay.
\<close>

section \<open>Scheduling one handler to its end\<close>

lemma move_steps:
  assumes "cc_task s i = call_step f k" and "f (cc_hub s) = Ret (x, h)"
  shows "conc_step s (s\<lparr>cc_hub := h, cc_task := (cc_task s)(i := k x)\<rparr>)"
  using conc_step.move [of s i Plain "\<lambda>h. andThen (f h) (\<lambda>(x, h). Ret (k x, h))" "k x" h] assms by (simp add: call_step_def)

lemma move_read:
  assumes "cc_task s i = read_step g k"
  shows "conc_step s (s\<lparr>cc_task := (cc_task s)(i := k (g (cc_hub s)))\<rparr>)"
  using conc_step.move [of s i Plain "\<lambda>h. Ret (k (g h), h)" "k (g (cc_hub s))" "cc_hub s"] assms by (simp add: read_step_def)

text \<open>A handler that no other goroutine interrupts does what it does when it is run as one step.\<close>

lemma run_moves:
  assumes "conc_ok s" and "cc_task s i = t" and "run_task t (cc_hub s) = Ret h"
  shows "rtranclp conc_step s (s\<lparr>cc_hub := h, cc_task := (cc_task s)(i := Finished)\<rparr>) \<and> guar (owner i) (cc_hub s) h"
  using assms
proof (induction t arbitrary: s)
  case Finished
  then have "(cc_task s)(i := Finished) = cc_task s" "h = cc_hub s" by (simp_all add: fun_upd_idem)
  then show ?case using Finished(1) by (simp add: guar_def conc_ok_def)
next
  case (Act kind f)
  obtain t1 h1 where f: "f (cc_hub s) = Ret (t1, h1)" and rest: "run_task t1 h1 = Ret h"
    using Act(4) by (auto simp: run_Act andThen_Ret_iff)
  let ?s = "s\<lparr>cc_hub := h1, cc_task := (cc_task s)(i := t1)\<rparr>"
  have step: "conc_step s ?s" using conc_step.move [OF Act(3) f] .
  have g: "guar (owner i) (cc_hub s) h1" and ok: "conc_ok ?s" using conc_ok_move [OF Act(2,3) f] by simp_all
  have "rtranclp conc_step ?s (?s\<lparr>cc_hub := h, cc_task := (cc_task ?s)(i := Finished)\<rparr>) \<and> guar (owner i) (cc_hub ?s) h"
  proof (rule Act(1) [OF _ _ _ ok])
    show "f (cc_hub s) \<in> range f" by simp
    show "(t1, h1) \<in> set_outcome (f (cc_hub s))" by (simp add: f)
    show "t1 \<in> Basic_BNFs.fsts (t1, h1)" by simp
  qed (simp_all add: rest)
  moreover have "guar (owner i) (cc_hub s) h" if "guar (owner i) h1 h"
    using g that by (auto simp: guar_def intro: store_evolves_trans)
  ultimately show ?case using converse_rtranclp_into_rtranclp [of conc_step, OF step] by (simp del: fun_upd_apply)
qed

section \<open>The sequential runs are among the interleaved ones\<close>

text \<open>Between two events no handler runs, and the goroutine of every open connection reads.\<close>

definition at_rest :: "Conc \<Rightarrow> Hub \<Rightarrow> bool" where
  "at_rest s h \<longleftrightarrow> cc_hub s = h \<and> cc_task s = (\<lambda>_. Finished) \<and> (\<forall>c < h_next h. \<not> c_closed (h_clients h c) \<longrightarrow> cc_reading s c)"

lemma at_rest_run:
  assumes ok: "conc_ok s" and rest: "at_rest s h"
    and step: "conc_step s (s\<lparr>cc_task := (cc_task s)(i := t)\<rparr>)" and run: "run_task t h = Ret h'"
    and own: "\<And>c. i = Reader c \<Longrightarrow> cc_reading s c"
  shows "\<exists>s'. rtranclp conc_step s s' \<and> at_rest s' h'"
proof -
  let ?s = "s\<lparr>cc_task := (cc_task s)(i := t)\<rparr>" and ?s' = "s\<lparr>cc_hub := h', cc_task := (cc_task s)(i := Finished)\<rparr>"
  have "conc_ok ?s" using conc_ok_step [OF step ok] by simp
  from run_moves [OF this, of i t h'] have r: "rtranclp conc_step ?s ?s'" "guar (owner i) h h'"
    using run rest by (simp_all add: at_rest_def)
  have "cc_reading s c" if "c < h_next h'" "\<not> c_closed (h_clients h' c)" for c
  proof (cases "owner i = Some c")
    case True
    then show ?thesis using own by (auto simp: owner_def split: thread.splits)
  next
    case False
    then show ?thesis using that r(2) rest by (simp add: guar_def at_rest_def)
  qed
  then have "at_rest ?s' h'" using rest by (auto simp: at_rest_def fun_eq_iff)
  then show ?thesis using converse_rtranclp_into_rtranclp [of conc_step, OF step r(1)] by blast
qed

lemma at_rest_hangup:
  assumes ok: "conc_ok s" and rest: "at_rest s h" and c: "c < h_next h" "\<not> c_closed (h_clients h c)" and run: "unregister e h c = Ret h'"
  shows "\<exists>s'. rtranclp conc_step s s' \<and> at_rest s' h'"
proof -
  let ?s = "s\<lparr>cc_task := (cc_task s)(Reader c := unregister_task e c), cc_reading := (cc_reading s)(c := False)\<rparr>"
    and ?s' = "s\<lparr>cc_reading := (cc_reading s)(c := False), cc_hub := h', cc_task := (cc_task s)(Reader c := Finished)\<rparr>"
  have step: "conc_step s ?s" using rest c by (intro conc_step.hangup) (simp_all add: at_rest_def)
  have "conc_ok ?s" using conc_ok_step [OF step ok] by simp
  from run_moves [OF this, of "Reader c" "unregister_task e c" h'] have r: "rtranclp conc_step ?s ?s'"
    using run rest by (simp_all add: at_rest_def run_unregister)
  have "at_rest ?s' h'" using rest unregister_fields [OF run] by (auto simp: at_rest_def fun_eq_iff)
  then show ?thesis using converse_rtranclp_into_rtranclp [of conc_step, OF step r] by blast
qed

lemma at_rest_env:
  assumes "conc_ok s" and rest: "at_rest s h" and env: "quiet_env h h'"
  shows "\<exists>s'. rtranclp conc_step s s' \<and> at_rest s' h'"
proof -
  have g: "guar None h h'" using assms by (intro guar_env) (simp_all add: conc_ok_def at_rest_def)
  have "conc_step s (s\<lparr>cc_hub := h'\<rparr>)" using rest env by (intro conc_step.others) (simp add: at_rest_def)
  moreover have "at_rest (s\<lparr>cc_hub := h'\<rparr>) h'" using rest g by (simp add: at_rest_def guar_def)
  ultimately show ?thesis by blast
qed

lemma at_rest_connect:
  assumes rest: "at_rest s h"
  shows "\<exists>s'. rtranclp conc_step s s' \<and> at_rest s' (HandleWS e h)"
proof -
  let ?s = "s\<lparr>cc_hub := HandleWS e (cc_hub s), cc_reading := (cc_reading s)(h_next (cc_hub s) := True)\<rparr>"
  have "at_rest ?s (HandleWS e h)" using rest by (auto simp: at_rest_def HandleWS_def newUUID_def less_Suc_eq)
  then show ?thesis using conc_step.connect [of s e] by blast
qed

lemma at_rest_message:
  assumes ok: "conc_ok s" and rest: "at_rest s h" and pol: "polite e h (Message c raw)" and run: "readMessage e h c raw = Ret h'"
  shows "\<exists>s'. rtranclp conc_step s s' \<and> at_rest s' h'"
proof (cases "\<exists>j env. raw = Some j \<and> unmarshal_Envelope j zero_Envelope = (False, env)")
  case True
  then obtain j env where raw: "raw = Some j" "unmarshal_Envelope j zero_Envelope = (False, env)" by blast
  then have c: "c < h_next h" "\<not> c_closed (h_clients h c)" "polite_message (h_clients h c) env" "uuids_fine e"
    using pol by (simp_all add: polite_def)
  then have "conc_step s (s\<lparr>cc_task := (cc_task s)(Reader c := message_task e c env)\<rparr>)"
    using rest by (intro conc_step.message) (simp_all add: at_rest_def)
  moreover have "run_task (message_task e c env) h = Ret h'" using run raw by (simp add: readMessage_def run_message)
  ultimately show ?thesis using at_rest_run [OF ok rest, of "Reader c"] rest c by (simp add: at_rest_def)
next
  case False
  then have "h' = h" using run by (auto simp: readMessage_def split: option.splits prod.splits if_splits)
  then show ?thesis using rest by blast
qed

lemma at_rest_step:
  assumes ok: "conc_ok s" and rest: "at_rest s h" and step: "hub_step h h'"
  shows "\<exists>s'. rtranclp conc_step s s' \<and> at_rest s' h'"
proof -
  from step obtain e ev where pol: "polite e h ev" and run: "hub_handle e h ev = Ret h'" by (auto elim: hub_stepE)
  show ?thesis
  proof (cases ev)
    case Connect
    then show ?thesis using at_rest_connect [OF rest, of e] run by (simp add: hub_handle_def)
  next
    case (Message c raw)
    then show ?thesis using at_rest_message [OF ok rest] pol run by (simp add: hub_handle_def)
  next
    case (Disconnect c)
    then show ?thesis using at_rest_hangup [OF ok rest, of c e h'] pol run by (simp add: polite_def hub_handle_def)
  next
    case (WriteOut c)
    then show ?thesis
      using at_rest_env [OF ok rest, of h'] rest run by (force simp: hub_handle_def quiet_env_def split: option.splits)
  next
    case LivenessTick
    have "conc_step s (s\<lparr>cc_task := (cc_task s)(Tracker := tick_task e)\<rparr>)"
      using rest by (intro conc_step.tick) (simp add: at_rest_def)
    then show ?thesis using at_rest_run [OF ok rest, of Tracker] run LivenessTick by (simp add: hub_handle_def run_tick)
  next
    case (Direct cmd)
    then have "conc_step s (s\<lparr>cc_task := (cc_task s)(Http 0 := direct_task e cmd)\<rparr>)"
      using rest pol by (intro conc_step.request) (simp_all add: at_rest_def polite_def)
    then show ?thesis using at_rest_run [OF ok rest, of "Http 0"] run Direct by (simp add: hub_handle_def run_direct)
  qed (use at_rest_env [OF ok rest, of h'] pol run in \<open>auto simp: hub_handle_def polite_def quiet_env_def\<close>)
qed

lemma reach_rtranclp: "reach init step s \<Longrightarrow> rtranclp step s t \<Longrightarrow> reach init step t"
  by (rotate_tac 1, induction rule: rtranclp_induct) (auto intro: reach_step)

lemma sequential_reach:
  assumes "reach hub_init hub_step h"
  shows "\<exists>s. reach conc_init conc_step s \<and> at_rest s h"
  using assms
proof (induction rule: reach.induct)
  case (reach_init h)
  let ?s = "\<lparr>cc_hub = h, cc_task = \<lambda>_. Finished, cc_reading = \<lambda>_. False\<rparr>"
  have "conc_init ?s" "h_next h = 0" using reach_init by (auto simp: conc_init_def hub_init_def NewHub_def)
  then show ?case by (intro exI [of _ ?s]) (auto intro: reach.reach_init simp: at_rest_def)
next
  case (reach_step h h')
  then obtain s where s: "reach conc_init conc_step s" "at_rest s h" by blast
  then obtain s' where "rtranclp conc_step s s'" "at_rest s' h'"
    using at_rest_step [OF interleaved.reach_inv [OF s(1)] s(2) reach_step(2)] by blast
  then show ?case using reach_rtranclp [OF s(1)] by blast
qed

section \<open>What every interleaving keeps\<close>

lemma conc_steps_evolve: "rtranclp conc_step s t \<Longrightarrow> conc_ok s \<Longrightarrow> conc_ok t \<and> store_evolves (h_store (cc_hub s)) (h_store (cc_hub t))"
  by (induction rule: rtranclp_induct) (auto dest: conc_ok_step intro: store_evolves_trans)

lemma panicking_iff:
  assumes "conc_ok s"
  shows "panicking s i \<longleftrightarrow> (\<exists>a f. cc_task s i = Act (Dispatch a) f \<and> c_closed (h_clients (cc_hub s) a))"
  using crash_kind [OF assms, of i] by (auto simp: panicking_def)

lemma hangup_panics:
  assumes ok: "conc_ok s" and i: "cc_task s i = Act (Dispatch a) f" "i \<noteq> Reader a"
    and a: "cc_task s (Reader a) = Finished" "cc_reading s a"
  shows "\<exists>t. rtranclp conc_step s t \<and> panicking t i"
proof -
  fix e :: Env
  let ?s = "s\<lparr>cc_task := (cc_task s)(Reader a := unregister_task e a), cc_reading := (cc_reading s)(a := False)\<rparr>"
  have step: "conc_step s ?s" using conc_step.hangup [OF a] .
  have ok': "conc_ok ?s" using conc_ok_step [OF step ok] by simp
  obtain h where h: "unregister e (cc_hub s) a = Ret h"
    using unregister_orderly [of "cc_hub s" e a] ok by (auto simp: conc_ok_def ends_in_def)
  let ?t = "?s\<lparr>cc_hub := h, cc_task := (cc_task ?s)(Reader a := Finished)\<rparr>"
  have steps: "rtranclp conc_step ?s ?t"
    using run_moves [OF ok', of "Reader a" "unregister_task e a" h] h by (simp add: run_unregister)
  have "panicking ?t i"
    using conc_steps_evolve [OF steps ok'] i unregister_fields(3) [OF h] by (auto simp: panicking_iff)
  then show ?thesis using converse_rtranclp_into_rtranclp [of conc_step, OF step steps] by blast
qed

text \<open>A new command is completed and stored; then the agent is looked up.\<close>

lemma store_moves:
  assumes task: "cc_task s i = store_task e cmd k" and cc: "complete_command e (cc_hub s) cmd = (p, h)"
    and new: "GetCommand (h_store (cc_hub s)) (cp_CommandID p) = None"
  shows "rtranclp conc_step s (s\<lparr>cc_hub := h\<lparr>h_store := fst (EnqueueCommand (unix_now e) (h_store h) p)\<rparr>,
    cc_task := (cc_task s)(i := k p None)\<rparr>)"
proof -
  let ?enq = "\<lambda>p h. let (db, err) = EnqueueCommand (unix_now e) (h_store h) p in Ret (err, h\<lparr>h_store := db\<rparr>)"
  let ?h = "h\<lparr>h_store := fst (EnqueueCommand (unix_now e) (h_store h) p)\<rparr>"
  have "h_store h = h_store (cc_hub s)"
    using cc by (auto simp: complete_command_def newUUID_def Let_def split: if_splits)
  then have enq: "?enq p h = Ret (None, ?h)"
    using EnqueueCommand_new(1) [of "h_store h" p "unix_now e"] new by (auto simp: case_prod_unfold Let_def prod_eq_iff)
  let ?s1 = "s\<lparr>cc_hub := h, cc_task := (cc_task s)(i := call_step (?enq p) (k p))\<rparr>"
  let ?s2 = "?s1\<lparr>cc_hub := ?h, cc_task := (cc_task ?s1)(i := k p None)\<rparr>"
  have "conc_step s ?s1"
    using move_steps [of s i "\<lambda>h. Ret (complete_command e h cmd)" "\<lambda>p. call_step (?enq p) (k p)" p h] cc task
    by (simp add: store_task_def)
  moreover have "conc_step ?s1 ?s2" using move_steps [of ?s1 i "?enq p" "k p" None ?h] enq by simp
  ultimately have "rtranclp conc_step s ?s2" by (meson converse_rtranclp_into_rtranclp r_into_rtranclp)
  then show ?thesis by simp
qed

lemma complete_command_fields:
  assumes "complete_command e h cmd = (p, h')"
  shows "cp_DeviceID p = cp_DeviceID cmd" and "h_agents h' = h_agents h" and "h_store h' = h_store h"
  using assms by (auto simp: complete_command_def newUUID_def Let_def split: if_splits)

text \<open>A request of the web server up to the point at which it has looked the agent up.\<close>

lemma direct_looks_up:
  assumes idle: "cc_task s (Http n) = Finished" and "uuids_fine e" and "id_fine (cp_CommandID cmd)"
    and "cp_DeviceID cmd \<noteq> ''''" and "cp_Command cmd \<noteq> ''''" and cc: "complete_command e (cc_hub s) cmd = (p, h)"
    and new: "GetCommand (h_store (cc_hub s)) (cp_CommandID p) = None"
  shows "rtranclp conc_step s (s\<lparr>cc_hub := h\<lparr>h_store := fst (EnqueueCommand (unix_now e) (h_store h) p)\<rparr>,
    cc_task := (cc_task s)(Http n := deliver_task e p (map_of (h_agents (cc_hub s)) (cp_DeviceID cmd)))\<rparr>)"
proof -
  let ?h = "h\<lparr>h_store := fst (EnqueueCommand (unix_now e) (h_store h) p)\<rparr>"
  let ?s1 = "s\<lparr>cc_task := (cc_task s)(Http n := direct_task e cmd)\<rparr>"
  let ?s2 = "?s1\<lparr>cc_hub := ?h, cc_task := (cc_task ?s1)(Http n := stored_task e p None)\<rparr>"
  let ?s3 = "?s2\<lparr>cc_task := (cc_task ?s2)(Http n := deliver_task e p (map_of (h_agents (cc_hub s)) (cp_DeviceID cmd)))\<rparr>"
  have "conc_step s ?s1" using assms by (intro conc_step.request)
  moreover have "rtranclp conc_step ?s1 ?s2"
    using assms(4,5) new cc by (intro store_moves) (simp_all add: direct_task_def)
  moreover have "conc_step ?s2 ?s3"
    using move_read [of ?s2 "Http n" "\<lambda>h. map_of (h_agents h) (cp_DeviceID p)" "deliver_task e p"]
    by (simp add: stored_task_def complete_command_fields [OF cc])
  ultimately have "rtranclp conc_step s ?s3" by (meson converse_rtranclp_into_rtranclp rtranclp.rtrancl_into_rtrancl)
  then show ?thesis by simp
qed

text \<open>The same for a controller's message.\<close>

lemma enqueue_looks_up:
  assumes idle: "cc_task s (Reader b) = Finished" "cc_reading s b" and "uuids_fine e"
    and env: "env_Type env = TypeEnqueueCmd" "DecodePayload unmarshal_CommandPayload env zero_CommandPayload = (False, cmd)"
    and "id_fine (cp_CommandID cmd)" and owner: "\<not> not_owner (cc_hub s) b (cp_DeviceID cmd)"
    and cc: "complete_command e (cc_hub s) cmd = (p, h)" and new: "GetCommand (h_store (cc_hub s)) (cp_CommandID p) = None"
  shows "rtranclp conc_step s (s\<lparr>cc_hub := h\<lparr>h_store := fst (EnqueueCommand (unix_now e) (h_store h) p)\<rparr>,
    cc_task := (cc_task s)(Reader b := forward_task e env p (getAgentClient (cc_hub s) (cp_DeviceID cmd)))\<rparr>)"
proof -
  let ?h = "h\<lparr>h_store := fst (EnqueueCommand (unix_now e) (h_store h) p)\<rparr>"
  let ?k = "\<lambda>refused. if refused then error_task e b ''UNAUTHORIZED'' ''device does not belong to your account''
    else store_task e cmd (queued_task e b env)"
  let ?s1 = "s\<lparr>cc_task := (cc_task s)(Reader b := message_task e b env)\<rparr>"
  let ?s2 = "?s1\<lparr>cc_task := (cc_task ?s1)(Reader b := store_task e cmd (queued_task e b env))\<rparr>"
  let ?s3 = "?s2\<lparr>cc_hub := ?h, cc_task := (cc_task ?s2)(Reader b := queued_task e b env p None)\<rparr>"
  let ?s4 = "?s3\<lparr>cc_task := (cc_task ?s3)(Reader b := forward_task e env p (getAgentClient (cc_hub s) (cp_DeviceID cmd)))\<rparr>"
  have task: "message_task e b env = read_step (\<lambda>h. not_owner h b (cp_DeviceID cmd)) ?k"
    using env by (simp add: message_task_def enqueue_task_def)
  have "polite_message (h_clients (cc_hub s) b) env" using assms by (simp add: polite_message_def)
  then have "conc_step s ?s1" using assms by (intro conc_step.message)
  moreover have "conc_step ?s1 ?s2"
    using move_read [of ?s1 "Reader b" "\<lambda>h. not_owner h b (cp_DeviceID cmd)" ?k] owner task by simp
  moreover have "rtranclp conc_step ?s2 ?s3" using new cc by (intro store_moves) simp_all
  moreover have "getAgentClient ?h (cp_DeviceID p) = getAgentClient (cc_hub s) (cp_DeviceID cmd)"
    by (simp add: getAgentClient_def complete_command_fields [OF cc] cong: option.case_cong)
  then have "conc_step ?s3 ?s4"
    using move_read [of ?s3 "Reader b" "\<lambda>h. getAgentClient h (cp_DeviceID p)" "forward_task e env p"] by (simp add: queued_task_def)
  ultimately have "rtranclp conc_step s ?s4" by (meson converse_rtranclp_into_rtranclp rtranclp.rtrancl_into_rtrancl)
  then show ?thesis by simp
qed

section \<open>Handlers end\<close>

text \<open>A handler is left with a proper part of itself after each of its steps.\<close>

inductive_set rest_of :: "(task \<times> task) set" where
  "f h = Ret (t, h') \<Longrightarrow> (t, Act kind f) \<in> rest_of"

inductive_cases rest_ofE: "(t, Act kind f) \<in> rest_of" "(t, Finished) \<in> rest_of"

lemma wf_rest_of: "wf rest_of"
proof (rule acc_wfI, rule allI)
  fix t
  show "t \<in> Wellfounded.acc rest_of"
  proof (induction t)
    case (Act kind f)
    show ?case
    proof (rule accI)
      fix t
      assume "(t, Act kind f) \<in> rest_of"
      then obtain h h' where f: "f h = Ret (t, h')" by (auto elim: rest_ofE)
      show "t \<in> Wellfounded.acc rest_of"
        by (rule Act [OF rangeI [of f h], of "(t, h')"]) (simp_all add: f)
    qed
  qed (auto intro: accI elim: rest_ofE)
qed

lemma task_descends:
  assumes "conc_step s t" and "cc_task s i \<noteq> Finished"
  shows "cc_task t i = Finished \<or> cc_task t i = cc_task s i \<or> (cc_task t i, cc_task s i) \<in> rest_of"
  using assms by cases (auto intro: rest_of.intros)

lemma descent_ends:
  assumes wf: "wf r" and step: "\<And>n. f (Suc n) = f n \<or> (f (Suc n), f n) \<in> r"
  shows "\<exists>n. \<forall>k \<ge> n. f k = f n"
proof -
  obtain n where n: "\<And>y. (y, f n) \<in> r \<Longrightarrow> y \<notin> range f"
    using wfE_min [OF wf, of "f 0" "range f"] by (metis rangeE rangeI)
  have "f k = f n" if "n \<le> k" for k
    using that
  proof (induction rule: dec_induct)
    case (step k)
    then show ?case using assms(2) [of k] n by fastforce
  qed simp
  then show ?thesis by blast
qed

section \<open>The race\<close>

lemma race_from_rest:
  assumes ok: "conc_ok s" and rest: "at_rest s h" and e: "uuids_fine e"
    and env: "env_Type env = TypeEnqueueCmd" "DecodePayload unmarshal_CommandPayload env zero_CommandPayload = (False, cmd)"
    and id: "id_fine (cp_CommandID cmd)" and owner: "\<not> not_owner h b (cp_DeviceID cmd)"
    and new: "GetCommand (h_store h) (cp_CommandID (fst (complete_command e h cmd))) = None"
    and a: "getAgentClient h (cp_DeviceID cmd) = Some a" and b: "b < h_next h" "\<not> c_closed (h_clients h b)" "b \<noteq> a"
  shows "\<exists>t. rtranclp conc_step s t \<and> panicking t (Reader b)"
proof -
  have "\<exists>d. agent_entry_ok h d a"
    using ok rest getAgentClient_registered [OF a] by (fastforce simp: conc_ok_def reg_ok_def at_rest_def)
  then have reading: "cc_reading s a" "cc_reading s b" using rest b by (auto simp: agent_entry_ok_def at_rest_def)
  obtain p h1 where cc: "complete_command e (cc_hub s) cmd = (p, h1)" by fastforce
  let ?t = "s\<lparr>cc_hub := h1\<lparr>h_store := fst (EnqueueCommand (unix_now e) (h_store h1) p)\<rparr>,
    cc_task := (cc_task s)(Reader b := forward_task e env p (Some a))\<rparr>"
  have t: "rtranclp conc_step s ?t"
    using enqueue_looks_up [OF _ reading(2) e env id _ cc] owner new a rest by (auto simp: at_rest_def cc)
  obtain f where "forward_task e env p (Some a) = Act (Dispatch a) f" by (simp add: forward_task_def dispatch_step_def)
  then have "\<exists>u. rtranclp conc_step ?t u \<and> panicking u (Reader b)"
    using hangup_panics [of ?t "Reader b" a f] conc_steps_evolve [OF t ok] b(3) reading rest by (simp add: at_rest_def)
  then show ?thesis using t by (meson rtranclp_trans)
qed

text \<open>A relay with the agent of \<open>pc1\<close> as client 0 and an operator as client 1.\<close>

definition ret_hub :: "Hub outcome \<Rightarrow> Hub" where
  "ret_hub m = (case m of Ret h \<Rightarrow> h | Panic _ \<Rightarrow> NewHub empty_db sample_cfg)"

lemma ret_hub: "panic_of m = None \<Longrightarrow> m = Ret (ret_hub m)"
  by (cases m) (simp_all add: ret_hub_def)

definition race_agent :: Hub where
  "race_agent = ret_hub (hub_handle sample_env (HandleWS sample_env (NewHub empty_db sample_cfg)) (Message 0 (auth_message RoleAgent ''pc1'')))"

definition race_hub :: Hub where
  "race_hub = HandleWS sample_env race_agent"

definition race_cmd :: CommandPayload where
  "race_cmd = sample_cmd ''command-1'' ''pc1'' ''dir'' 5"

lemma race_hub_state: "getAgentClient race_hub (cp_DeviceID race_cmd) = Some 0" "\<not> not_owner race_hub 1 (cp_DeviceID race_cmd)"
  "GetCommand (h_store race_hub) (cp_CommandID (fst (complete_command sample_env race_hub race_cmd))) = None"
  "1 < h_next race_hub" "\<not> c_closed (h_clients race_hub 1)"
  by code_simp+

lemma race_message: "env_Type (enqueue_message race_cmd) = TypeEnqueueCmd" "id_fine (cp_CommandID race_cmd)"
  "DecodePayload unmarshal_CommandPayload (enqueue_message race_cmd) zero_CommandPayload = (False, race_cmd)"
  by (simp_all add: enqueue_message_def NewEnvelope_def race_cmd_def sample_cmd_def id_fine_def DecodePayload_def
      CommandPayload_codec.dec_enc valid_CommandPayload_def in_int64_def)

lemma race_hub_reachable: "reach hub_init hub_step race_hub"
proof -
  have "panic_of (hub_handle sample_env (HandleWS sample_env (NewHub empty_db sample_cfg)) (Message 0 (auth_message RoleAgent ''pc1''))) = None"
    by code_simp
  from ret_hub [OF this] have "reach hub_init hub_step race_agent"
    unfolding race_agent_def by (rule reach_step [OF sample_connected hub_step.step [OF sample_auth_polite]])
  moreover have "hub_step race_agent race_hub"
    by (rule hub_step.step [where e = sample_env and ev = Connect]) (simp_all add: polite_def sample_env_fine hub_handle_def race_hub_def)
  ultimately show ?thesis by (rule reach_step)
qed

lemmas race_facts = sample_env_fine race_message(1,3,2) race_hub_state(2,3,1,4,5)

definition connected_conc :: Conc where
  "connected_conc = \<lparr>cc_hub = HandleWS sample_env (NewHub empty_db sample_cfg), cc_task = \<lambda>_. Finished,
     cc_reading = (\<lambda>_. False)(0 := True)\<rparr>"

lemma connected_conc_reachable: "reach conc_init conc_step connected_conc"
proof (rule reach_step [OF reach_init])
  let ?s = "\<lparr>cc_hub = NewHub empty_db sample_cfg, cc_task = \<lambda>_. Finished, cc_reading = \<lambda>_. False\<rparr>"
  show "conc_init ?s" by (simp add: conc_init_def sample_hub_init)
  show "conc_step ?s connected_conc"
    using conc_step.connect [of ?s sample_env] by (simp add: connected_conc_def NewHub_def)
qed

text \<open>
  A second race. A \<open>shutdown\<close> for an agent that is just connecting: the request finds no agent, the agent authenticates and
  is sent the pending command, and then the request goes on to answer it in the cloud.
\<close>

definition late_cmd :: CommandPayload where
  "late_cmd = sample_cmd ''command-1'' ''pc1'' ''shutdown'' 5"

definition late_auth :: Envelope where
  "late_auth = NewEnvelope ''m1'' 1000 TypeAuth ''pc1''
     (Some (marshal_AuthPayload (zero_AuthPayload\<lparr>ap_Role := RoleAgent, ap_DeviceID := ''pc1'', ap_Token := ''secret''\<rparr>)))"

definition late_stored :: Hub where
  "late_stored = (let h = snd (complete_command sample_env (HandleWS sample_env (NewHub empty_db sample_cfg)) late_cmd)
     in h\<lparr>h_store := fst (EnqueueCommand (unix_now sample_env) (h_store h) late_cmd)\<rparr>)"

definition late_flushed :: Hub where
  "late_flushed = ret_hub (handleMessage sample_env late_stored 0 late_auth)"

definition late_answered :: Hub where
  "late_answered = ret_hub (andThen (run_offline sample_env late_flushed late_cmd) (\<lambda>(predefined, res, h).
     let (resEnv, h) = newEnvelope sample_env h TypeCmdResult (cp_DeviceID late_cmd) (marshal_ResultPayload res) in
     if predefined then broadcastToControllers h resEnv else broadcastDeviceResult h (cp_DeviceID late_cmd) resEnv))"

lemma run_deliver_offline:
  "run_task (deliver_task e cmd None) h = andThen (run_offline e h cmd) (\<lambda>(predefined, res, h).
     let (resEnv, h) = newEnvelope e h TypeCmdResult (cp_DeviceID cmd) (marshal_ResultPayload res) in
     if predefined then broadcastToControllers h resEnv else broadcastDeviceResult h (cp_DeviceID cmd) resEnv)"
  by (simp add: deliver_task_def run_offline_task newEnvelope_def Let_def if_distrib if_distribR cong: if_cong)

lemma late_runs:
  "handleMessage sample_env late_stored 0 late_auth = Ret late_flushed"
  "run_task (deliver_task sample_env late_cmd None) late_flushed = Ret late_answered"
proof -
  have "panic_of (handleMessage sample_env late_stored 0 late_auth) = None" by code_simp
  then show "handleMessage sample_env late_stored 0 late_auth = Ret late_flushed" unfolding late_flushed_def by (rule ret_hub)
  have "panic_of (andThen (run_offline sample_env late_flushed late_cmd) (\<lambda>(predefined, res, h).
     let (resEnv, h) = newEnvelope sample_env h TypeCmdResult (cp_DeviceID late_cmd) (marshal_ResultPayload res) in
     if predefined then broadcastToControllers h resEnv else broadcastDeviceResult h (cp_DeviceID late_cmd) resEnv)) = None" by code_simp
  then show "run_task (deliver_task sample_env late_cmd None) late_flushed = Ret late_answered"
    unfolding late_answered_def run_deliver_offline by (rule ret_hub)
qed

lemma late_request:
  "complete_command sample_env h late_cmd = (late_cmd, h)" "id_fine (cp_CommandID late_cmd)" "cp_DeviceID late_cmd \<noteq> ''''"
  "cp_Command late_cmd \<noteq> ''''" "map_of (h_agents (HandleWS sample_env (NewHub empty_db sample_cfg))) (cp_DeviceID late_cmd) = None"
  "GetCommand (h_store (HandleWS sample_env (NewHub empty_db sample_cfg))) (cp_CommandID late_cmd) = None" "uuids_fine sample_env"
  by (simp_all add: late_cmd_def sample_cmd_def id_fine_def complete_command_def Let_def HandleWS_def newUUID_def NewHub_def
      GetCommand_def empty_db_def select_pk_def sample_env_fine)

lemma late_polite: "polite_message (h_clients late_stored 0) late_auth"
proof -
  have "DecodePayload unmarshal_AuthPayload late_auth zero_AuthPayload
      = (False, zero_AuthPayload\<lparr>ap_Role := RoleAgent, ap_DeviceID := ''pc1'', ap_Token := ''secret''\<rparr>)"
    unfolding late_auth_def by (rule auth.DecodePayload_NewEnvelope) (simp add: valid_AuthPayload_def in_int64_def)
  moreover have "h_clients late_stored 0 = newClient (e_uuid sample_env 0)"
    by (simp add: late_stored_def late_request HandleWS_def newUUID_def NewHub_def Let_def)
  moreover have "env_Type late_auth = TypeAuth" by (simp add: late_auth_def NewEnvelope_def)
  ultimately show ?thesis by (simp add: polite_message_def polite_auth_def newClient_def)
qed

lemma late_outcome:
  "map_option cr_Status (GetCommand (h_store late_answered) ''command-1'') = Some StatusCompleted"
  "list_ex (\<lambda>env. carries ''pc1'' env late_cmd) (c_send (h_clients late_answered 0))"
  by code_simp+

text \<open>A connection is made, the liveness tracker is started and never scheduled again.\<close>

definition busy_run :: "nat \<Rightarrow> Conc" where
  "busy_run n = (if n = 0 then connected_conc else connected_conc\<lparr>cc_task := (cc_task connected_conc)(Tracker := tick_task sample_env)\<rparr>)"

lemma busy_run_step: "conc_step (busy_run n) (busy_run (Suc n))"
proof (cases "n = 0")
  case True
  then show ?thesis unfolding busy_run_def by (simp del: fun_upd_apply) (rule conc_step.tick, simp add: connected_conc_def)
next
  case False
  have "quiet_env h h" for h
    unfolding quiet_env_def by (rule disjI2, rule disjI2, rule disjI1) (rule exI [of _ "h_store h"], simp)
  then show ?thesis using False conc_step.others [of "busy_run n" "cc_hub (busy_run n)"] by (simp add: busy_run_def)
qed

section \<open>Properties\<close>

text \<open>
  C2. As long as the clients are polite, whatever the order in which the goroutines of the relay run, step by step: the registries stay
  in order, the database keeps its integrity, and a goroutine panics exactly when its next step sends to the channel of an agent that has been closed since the
  agent was looked up. In particular no goroutine panics in a broadcast, in an answer to its own client, in a
  store operation or in the predefined commands.
\<close>

theorem interleaving_safety:
  assumes "reach conc_init conc_step s"
  shows "reg_ok (cc_hub s) \<and> db_ok (h_store (cc_hub s))
    \<and> (panicking s i \<longleftrightarrow> (\<exists>a f. cc_task s i = Act (Dispatch a) f \<and> c_closed (h_clients (cc_hub s) a)))"
  using interleaved.reach_inv [OF assms] panicking_iff [of s i] by (simp add: conc_ok_def)

theorem interleaving_safety_witness:
  "\<exists>s a f. panicking s (Reader 1) \<and> reg_ok (cc_hub s) \<and> cc_task s (Reader 1) = Act (Dispatch a) f \<and> c_closed (h_clients (cc_hub s) a)"
proof -
  obtain s where s: "reach conc_init conc_step s" "at_rest s race_hub" using sequential_reach [OF race_hub_reachable] by blast
  then obtain t where t: "rtranclp conc_step s t" "panicking t (Reader 1)"
    using race_from_rest [OF interleaved.reach_inv [OF s(1)] s(2) race_facts] by auto
  from interleaving_safety [OF reach_rtranclp [OF s(1) t(1)], of "Reader 1"] t(2) show ?thesis by blast
qed






text \<open>
  C11. Every run in which the hub handles one event after the other is also a run of its goroutines: the handlers, cut into
  their steps, do together what they do in one.
\<close>

theorem sequential_runs:
  assumes "reach hub_init hub_step h"
  shows "\<exists>s. reach conc_init conc_step s \<and> cc_hub s = h \<and> (\<forall>i. cc_task s i = Finished)"
  using sequential_reach [OF assms] by (auto simp: at_rest_def)

theorem sequential_runs_witness:
  "\<exists>s. reach conc_init conc_step s \<and> cc_hub s = race_hub \<and> (\<forall>i. cc_task s i = Finished)"
  by (rule sequential_runs [OF race_hub_reachable])



end
