(* ===== verification/Spec2Isabelle.thy ===== *)
theory Spec2Isabelle
  imports RoundTrip RelayMain AgentMain SupabaseProps Races
begin

text \<open>
  A verification of the relay network: a relay server in Go (\<^verbatim>\<open>src/main.go\<close>, \<^verbatim>\<open>src/internal\<close>) that dispatches commands from
  operators to Windows machines, and the agent that runs on those machines (\<^verbatim>\<open>src/agent\<close>).

  \<^bold>\<open>The program.\<close> Operators and agents hold WebSocket connections to the relay's hub (\<^verbatim>\<open>internal/hub/hub.go\<close>) and exchange JSON
  envelopes (\<^verbatim>\<open>internal/protocol/protocol.go\<close>, of which the agent has a copy). The hub authenticates a connection, keeps a registry
  of agents and operators, enters commands into its store (\<^verbatim>\<open>internal/store/store.go\<close> on SQLite, \<^verbatim>\<open>supabase.go\<close> on Supabase), dispatches
  them to a connected agent or answers for an absent one, records results, and follows the agents' heartbeats. A REST interface
  (\<^verbatim>\<open>internal/web/web.go\<close>) offers accounts, the queue, results, wake on LAN and the installer. The agent keeps its own queue
  (\<^verbatim>\<open>agent/internal/store\<close>), a worker that runs PowerShell with retries (\<^verbatim>\<open>worker\<close>, \<^verbatim>\<open>executor\<close>), and a network client
  (\<^verbatim>\<open>netclient\<close>) that synchronises the two queues after every connection and serves requests for files (\<^verbatim>\<open>filemgr\<close>), processes
  (\<^verbatim>\<open>processmgr\<close>), telemetry (\<^verbatim>\<open>health\<close>) and the screen (\<^verbatim>\<open>screen\<close>).

  \<^bold>\<open>The theories.\<close>
  \<^item> \<open>Prelude\<close>: panics as outcomes, Go's string functions, 64-bit ranges, SQL tables as lists under a primary key, invariants of step
    relations (locale \<open>invariant_system\<close>), queues that ignore a known identifier (locale \<open>idempotent_queue\<close>).
  \<^item> \<open>Json\<close>, \<open>Protocol\<close>: \<^verbatim>\<open>encoding/json\<close> on values and one record with its encoder and decoder per struct of the protocol; locale
    \<open>codec\<close> is the contract of such a pair and is interpreted for each.
  \<^item> \<open>Bytes\<close>, \<open>Paths\<close>: numbers, hardware addresses, base64, UTF-16 and URL escaping as byte strings (locale \<open>text_codec\<close>), and
    \<^verbatim>\<open>path/filepath\<close> for both kinds of system.
  \<^item> \<open>RelayStore\<close>, with \<open>RelayStoreProps\<close> and \<open>RelayRecords\<close>: every query of the SQLite store and what the tables keep.
  \<^item> \<open>Supabase\<close>, \<open>SupabaseProps\<close>: every operation of the Supabase store as requests to a service that is a parameter; what the
    requests address, agreement with the SQLite queue on a service that follows PostgREST's documentation (predicate \<open>postgrest\<close>), and the
    operations that depart from it.
  \<^item> \<open>Offline\<close>, \<open>Hub\<close>, with \<open>HubSafety\<close>, \<open>HubProps\<close> and \<open>HubOffline\<close>: the answers for absent devices; the hub's whole state and
    every handler; the registry's invariant over all steps, absence of crashes and the crashes that remain, dispatching, ownership, the
    sandbox.
  \<^item> \<open>Interleave\<close>, \<open>Races\<close>: the same handlers cut into their steps, and the goroutines of the relay interleaved; by rely and guarantee
    what holds under every schedule, and two races that the code has.
  \<^item> \<open>Web\<close>, \<open>WebProps\<close>: the REST handlers over the hub; that no request breaks the hub, the accounts, entering commands, the magic packet.
  \<^item> \<open>Schema\<close>: opening a SQLite file, and the schemas of both stores over a catalog of tables and indexes; that they run on new, complete and
    half-migrated files, and that every statement of the two stores fits them.
  \<^item> \<open>RelayMain\<close>: flags and environment of the relay, the choice and the opening of its store, which databases it serves and which it
    refuses, and how it stops.
  \<^item> \<open>AgentStore\<close>, \<open>Worker\<close>, with \<open>AgentProps\<close>: the agent's queue, the worker with its loop, and what happens to a command over any
    sequence of steps.
  \<^item> \<open>NetClient\<close>, \<open>NetProps\<close>: the network client's handlers and the delivery of commands.
  \<^item> \<open>Wakeup\<close>: the channel by which the client wakes the worker, with every interleaving of the two; that no wake-up is lost.
  \<^item> \<open>FileMgr\<close>, \<open>FileProps\<close>; \<open>ProcessMgr\<close>, \<open>Health\<close>, \<open>TelemetryProps\<close>; \<open>Screen\<close>: the machine as the operator sees it.
  \<^item> \<open>Machine\<close>: the network client on top of these packages, and the life of its connections as a step relation.
  \<^item> \<open>AgentConfig\<close>, \<open>ConfigProps\<close>, \<open>AgentMain\<close>: configuration files, environment, command line; the agent's commands as processes with
    their output, database and exit code; the Windows service around the worker.
  \<^item> \<open>Typing\<close>, \<open>HubTyping\<close>: the numbers of the relay's tables and messages fit their Go types (locale \<open>typed_codec\<close> on top of \<open>codec\<close>), and
    what waits to be sent to a client comes from the queue and is meant for it, over every event.
  \<^item> \<open>Network\<close>, \<open>RoundTrip\<close>: the relay and an agent connected by JSON messages, beside clients that send what they like; where the commands
    come from that the agent runs, and one command from its entry to the acknowledged result.
  \<^item> This theory: further properties that span the relay and the agent, a synchronisation and waking a machine.

  \<^bold>\<open>How the code is modelled.\<close> A struct is a record with the struct's fields; a method is a function from the state to the next state
  and the results, errors included as values; what a method takes from outside (clock, identifiers, processes, sockets, Windows calls) is
  a field of an environment record. A panic is an \<open>outcome\<close>: in the relay's WebSocket goroutines and in the agent nobody recovers, so it ends
  the process; \<^verbatim>\<open>net/http\<close> recovers those of REST handlers. In \<open>Hub\<close> and the theories on it, a handler runs to its
  end before the next one starts, and reads the clock once. \<open>Interleave\<close> cuts every handler of the hub into its
  store operations, sections under a lock and sends (\<open>conc_step\<close>), shows that without interruption these are the handler, and \<open>Races\<close>
  which properties survive interruption. Histories are sequences of such steps: \<open>hub_step\<close>, \<open>conc_step\<close> and \<open>relay_step\<close>
  for the relay, \<open>agent_step\<close> for the worker, \<open>wake_step\<close> for the worker with the client and the ticker, \<open>session_step\<close> for the agent's
  connections and \<open>network_step\<close> for all of them, each with its invariant by rule induction.
  Loops that end by themselves are proved to (\<open>drain\<close>, \<open>parse_flags\<close>, \<open>os_MkdirAll\<close>, \<open>Clean\<close>); \<open>worker_run\<close> consumes the
  list of what each wait ended with, and \<open>duration_elems\<close> gets the length of its text as fuel, of which every round uses a character.

  \<^bold>\<open>Limits.\<close> String functions treat bytes and change the case of ASCII letters only; \<open>float64\<close> is an exact rational; SQLite returns rows that
  tie in the order of insertion, \<^verbatim>\<open>sort.Slice\<close> keeps the order of names; errors of the disk are outside the stores; file names that differ in
  case are different, symbolic links do not occur, and a removal happens as a whole; a JSON text is its value, and the two Supabase columns
  that hold such a text go through a parameter.

  \<^bold>\<open>Not modelled.\<close> The JPEG encoder, PowerShell, \<^verbatim>\<open>tasklist\<close>, the Win32 interface, UDP and WebSocket transport and the PostgREST service are
  parameters, and so are serving the static files, opening a WebSocket, the SQLite driver with the tables a file holds, and the service
  manager of Windows. Left out, because they only produce output or arrange for the operating system to call the code, are the log lines, the
  messages of the flag package, the HTTP server of \<^verbatim>\<open>net/http\<close>, deadlines and pings of sockets, and the vendored packages. Steps inside
  one section under a lock, and the store operations behind one predefined command or one cached response, are not interleaved with others; the
  properties of a single handler and those of relay and agent together are about handlers that run one after the other. The hub
  and the REST handlers are modelled on the SQLite store; on
  Supabase only the store itself is, and what differs there.
\<close>

section \<open>A synchronisation, end to end\<close>

lemma set_sort_take: "set (take n (sort_key f xs)) \<subseteq> set xs"
  by (metis set_sort set_take_subset)

lemma save_all_Cons: "save_all now db (res # rs) = save_all now (fst (SaveResult now db res)) rs"
  by (simp add: save_all_def)

lemma save_all_requests:
  "command_of_record ` set (CloudCommandQueue (save_all now db rs)) = command_of_record ` set (CloudCommandQueue db)"
proof (induction rs arbitrary: db)
  case (Cons res rs)
  then show ?case
    by (simp add: save_all_Cons SaveResult_alt image_key_update_rows command_of_record_def)
qed (simp add: save_all_def)

lemma save_all_other:
  "i \<notin> rp_CommandID ` set rs \<Longrightarrow> GetCommand (save_all now db rs) i = GetCommand db i"
proof (induction rs arbitrary: db)
  case (Cons res rs)
  have "GetCommand (fst (SaveResult now db res)) i = GetCommand db i"
    using Cons.prems by (cases "select_pk cr_CommandID i (CloudCommandQueue db)")
      (auto simp: SaveResult_alt GetCommand_def select_pk_update_rows dest: select_pk_SomeD)
  then show ?case using Cons by (simp add: save_all_Cons)
qed (simp add: save_all_def)

definition result_key :: "ResultPayload \<Rightarrow> string" where
  "result_key res = (if rp_ResultID res = '''' then rp_CommandID res else rp_ResultID res)"

lemma upsert_result_ids:
  "rr_ResultId ` set (CloudResultQueue (upsert_result now db res)) =
     insert (result_key res) (rr_ResultId ` set (CloudResultQueue db))"
proof (cases "select_pk rr_ResultId (result_key res) (CloudResultQueue db)")
  case None
  then show ?thesis by (simp add: upsert_result_def Let_def result_key_def [symmetric])
next
  case (Some r)
  then have "result_key res \<in> rr_ResultId ` set (CloudResultQueue db)"
    using select_pk_SomeD [OF Some] by (metis image_eqI)
  then show ?thesis
    using Some by (simp add: upsert_result_def Let_def result_key_def [symmetric] image_key_update_rows insert_absorb)
qed

lemma save_all_ids:
  "result_key ` set rs \<union> rr_ResultId ` set (CloudResultQueue db) \<subseteq> rr_ResultId ` set (CloudResultQueue (save_all now db rs))"
proof (induction rs arbitrary: db)
  case (Cons res rs)
  show ?case
    using Cons [of "fst (SaveResult now db res)"] upsert_result_ids [of now db res]
    by (simp add: save_all_Cons SaveResult_alt)
qed (simp add: save_all_def)

lemma mark_all_dispatched_results: "CloudResultQueue (mark_all_dispatched now db cmds) = CloudResultQueue db"
  unfolding mark_all_dispatched_def
  by (induction cmds arbitrary: db) (auto simp: MarkCommandDispatched_def)

lemma pending_after_save:
  assumes "GetCommand db i = Some r" and "cr_Status r = StatusPending" and "cr_DeviceID r = d" and "i \<notin> rp_CommandID ` set rs"
  shows "command_of_record r \<in> set (GetPendingCommands (save_all now db rs) d)" and "cr_CommandID r = i"
proof -
  have "GetCommand (save_all now db rs) i = Some r" using save_all_other [OF assms(4)] assms(1) by simp
  then have r: "r \<in> set (CloudCommandQueue (save_all now db rs))" "cr_CommandID r = i"
    by (auto simp: GetCommand_def dest: select_pk_SomeD)
  then show "command_of_record r \<in> set (GetPendingCommands (save_all now db rs) d)" "cr_CommandID r = i"
    using assms(2,3) by (auto simp: set_GetPendingCommands pending_rows_def)
qed

text \<open>The request the agent puts on the wire, and how the relay reads it.\<close>

definition sync_request :: "NetClient \<Rightarrow> SyncReqPayload" where
  "sync_request nc = \<lparr>sq_DeviceID = acfg_DeviceID (nc_cfg nc),
     sq_UnsyncedResults = map (result_payload nc) (ListUnsyncedResults (nc_store nc) 50)\<rparr>"

definition results_fit :: "AgentDB \<Rightarrow> bool" where
  "results_fit db \<longleftrightarrow> (\<forall>r \<in> set (ResultQueue db). in_int64 (ar_ExitCode r) \<and> in_int64 (ar_ExecutedAt r) \<and> ar_ResultID r \<noteq> '''')"

definition commands_fit :: "DB \<Rightarrow> bool" where
  "commands_fit db \<longleftrightarrow> (\<forall>r \<in> set (CloudCommandQueue db). valid_CommandPayload (command_of_record r))"

lemma save_all_fit: "commands_fit (save_all now db rs) = commands_fit db"
proof -
  have "commands_fit x \<longleftrightarrow> (\<forall>p \<in> command_of_record ` set (CloudCommandQueue x). valid_CommandPayload p)" for x
    by (simp add: commands_fit_def)
  then show ?thesis by (simp only: save_all_requests)
qed

lemma ListUnsyncedResults_subset: "set (ListUnsyncedResults db n) \<subseteq> set (ResultQueue db)"
proof
  fix r
  assume "r \<in> set (ListUnsyncedResults db n)"
  then show "r \<in> set (ResultQueue db)"
    using set_sort_take [of "agent_limit 100 n" ar_ExecutedAt "filter (\<lambda>r. \<not> ar_Synced r) (ResultQueue db)"]
    by (auto simp: ListUnsyncedResults_def)
qed

lemma sync_request_valid: "results_fit (nc_store nc) \<Longrightarrow> valid_SyncReqPayload (sync_request nc)"
  using ListUnsyncedResults_subset [of "nc_store nc" 50]
  by (auto simp: sync_request_def valid_SyncReqPayload_def valid_ResultPayload_def result_payload_def results_fit_def in_int64_def)

lemma performSync_sends:
  assumes "length (nc_send nc) < client_capacity"
  shows "\<exists>uuid. performSync ne nc = nc\<lparr>nc_uuids := Suc (nc_uuids nc),
    nc_send := nc_send nc @ [NewEnvelope uuid (n_now ne) TypeSyncReq (acfg_DeviceID (nc_cfg nc))
      (Some (marshal_SyncReqPayload (sync_request nc)))]\<rparr>"
  using assms by (auto simp: performSync_def sendNew_def clientEnvelope_def NSend_def sync_request_def)

lemma wire_envelope: "in_int64 now \<Longrightarrow>
  unmarshal_Envelope (marshal_Envelope (NewEnvelope uuid now t d p)) zero_Envelope = (False, NewEnvelope uuid now t d p)"
  by (rule Envelope_codec.dec_enc) (simp add: valid_Envelope_def NewEnvelope_def)

text \<open>The two messages of a synchronisation, and the stores when both have been handled.\<close>

lemma sync_exchange:
  assumes ok: "reg_ok h" and closed: "\<not> c_closed (h_clients h c)" and "c \<notin> set (h_controllers h)"
    and room: "length (c_send (h_clients h c)) < 64" "length (nc_send nc) < 64"
    and time: "in_int64 (n_now ne)" "in_int64 (unix_now e)"
    and fit: "results_fit (nc_store nc)" "commands_fit (h_store h)"
    and d: "d = acfg_DeviceID (nc_cfg nc)"
    and sent: "sent = ListUnsyncedResults (nc_store nc) 50"
    and db1: "db1 = save_all (unix_now e) (h_store h) (map (result_payload nc) sent)"
  shows "\<exists>req h' resp. nc_send (performSync ne nc) = nc_send nc @ [req]
    \<and> readMessage e h c (Some (marshal_Envelope req)) = Ret h'
    \<and> h_store h' = mark_all_dispatched (unix_now e) db1 (GetPendingCommands db1 d)
    \<and> c_send (h_clients h' c) = c_send (h_clients h c) @ [resp]
    \<and> snd (unmarshal_Envelope (marshal_Envelope resp) zero_Envelope) = resp
    \<and> nc_store (handleIncoming ne (performSync ne nc) resp) = fold (enqueue_command ne) (GetPendingCommands db1 d)
        (fold (\<lambda>i db. MarkResultSynced db i) (map ar_CommandID sent) (nc_store nc))"
proof -
  let ?req = "sync_request nc"
  have req: "sq_DeviceID ?req = d" "sq_UnsyncedResults ?req = map (result_payload nc) sent"
    by (simp_all add: sync_request_def d sent)
  obtain uuid where send: "performSync ne nc = nc\<lparr>nc_uuids := Suc (nc_uuids nc),
      nc_send := nc_send nc @ [NewEnvelope uuid (n_now ne) TypeSyncReq d (Some (marshal_SyncReqPayload ?req))]\<rparr>"
    using performSync_sends [of nc ne] room(2) by (auto simp: client_capacity_def d)
  let ?env = "NewEnvelope uuid (n_now ne) TypeSyncReq d (Some (marshal_SyncReqPayload ?req))"
  have dec: "DecodePayload unmarshal_SyncReqPayload ?env zero_SyncReqPayload = (False, ?req)"
    by (rule sync_req.DecodePayload_NewEnvelope) (rule sync_request_valid [OF fit(1)])
  define pending where "pending = GetPendingCommands db1 d"
  let ?p = "\<lparr>sr_DeviceID = d, sr_AckedResults = map rp_CommandID (sq_UnsyncedResults ?req), sr_PendingCommands = pending\<rparr>"
  obtain h' uuid' where h': "handleSyncReq e h c ?env = Ret h'" "h_store h' = mark_all_dispatched (unix_now e) db1 pending"
      "c_send (h_clients h' c) = c_send (h_clients h c) @
        [NewEnvelope uuid' (unix_now e) TypeSyncResp d (Some (marshal_SyncRespPayload ?p))]"
    using handleSyncReq_effect [OF reg_ok_open [OF ok] assms(3) closed dec, of e] room(1)
    by (auto simp: db1 pending_def req send_capacity_def)
  let ?resp = "NewEnvelope uuid' (unix_now e) TypeSyncResp d (Some (marshal_SyncRespPayload ?p))"
  have "readMessage e h c (Some (marshal_Envelope ?env)) = Ret h'"
    using h'(1) by (simp add: readMessage_def wire_envelope [OF time(1)]) (simp add: handleMessage_def NewEnvelope_def)
  moreover have "\<forall>cmd \<in> set pending. valid_CommandPayload cmd"
    using fit(2) save_all_fit [of "unix_now e" "h_store h" "map (result_payload nc) sent", folded db1]
    by (auto simp: pending_def set_GetPendingCommands pending_rows_def commands_fit_def)
  then have "DecodePayload unmarshal_SyncRespPayload ?resp zero_SyncRespPayload = (False, ?p)"
    by (intro sync_resp.DecodePayload_NewEnvelope) (simp add: valid_SyncRespPayload_def)
  from handleSyncResp_effect(1) [OF _ this, of ne "performSync ne nc"]
  have "nc_store (handleIncoming ne (performSync ne nc) ?resp) = fold (enqueue_command ne) pending
      (fold (\<lambda>i db. MarkResultSynced db i) (map ar_CommandID sent) (nc_store nc))"
    by (simp add: send req(2) NewEnvelope_def result_payload_def comp_def)
  moreover have "nc_send (performSync ne nc) = nc_send nc @ [?env]" by (simp add: send)
  ultimately show ?thesis
    using h'(2,3) wire_envelope [OF time(2)] unfolding pending_def [symmetric]
    by (intro exI [of _ ?env] exI [of _ h'] exI [of _ ?resp]) simp
qed

text \<open>
  C8. One synchronisation between an agent and the relay, over the wire in both directions: the agent sends
  its oldest unsynced results (at most 50), the relay answers, and the agent handles the answer. Then
  every result that was sent has its row at the relay and is marked as synced on the agent; no
  command of the device is PENDING at the relay any more; and every command that was
  PENDING and of which no result was sent is in the agent's queue.
\<close>

theorem sync_end_to_end:
  assumes ok: "reg_ok h" and closed: "\<not> c_closed (h_clients h c)" and "c \<notin> set (h_controllers h)"
    and room: "length (c_send (h_clients h c)) < 64" "length (nc_send nc) < 64"
    and time: "in_int64 (n_now ne)" "in_int64 (unix_now e)"
    and fit: "results_fit (nc_store nc)" "commands_fit (h_store h)"
  shows "\<exists>req h' resp. nc_send (performSync ne nc) = nc_send nc @ [req]
    \<and> readMessage e h c (Some (marshal_Envelope req)) = Ret h'
    \<and> c_send (h_clients h' c) = c_send (h_clients h c) @ [resp]
    \<and> (let nc' = handleIncoming ne (performSync ne nc) (snd (unmarshal_Envelope (marshal_Envelope resp) zero_Envelope)) in
        (\<forall>r \<in> set (ListUnsyncedResults (nc_store nc) 50).
           select_pk rr_ResultId (ar_ResultID r) (CloudResultQueue (h_store h')) \<noteq> None
           \<and> r\<lparr>ar_Synced := True\<rparr> \<in> set (ResultQueue (nc_store nc')))
        \<and> GetPendingCommands (h_store h') (acfg_DeviceID (nc_cfg nc)) = []
        \<and> (\<forall>i r. GetCommand (h_store h) i = Some r \<and> cr_Status r = StatusPending
             \<and> cr_DeviceID r = acfg_DeviceID (nc_cfg nc)
             \<and> i \<notin> ar_CommandID ` set (ListUnsyncedResults (nc_store nc) 50) \<longrightarrow>
             AGetCommand (nc_store nc') i \<noteq> None))"
proof -
  let ?d = "acfg_DeviceID (nc_cfg nc)" and ?sent = "ListUnsyncedResults (nc_store nc) 50"
  define db1 where "db1 = save_all (unix_now e) (h_store h) (map (result_payload nc) ?sent)"
  obtain req h' resp where ex: "nc_send (performSync ne nc) = nc_send nc @ [req]"
      "readMessage e h c (Some (marshal_Envelope req)) = Ret h'" "c_send (h_clients h' c) = c_send (h_clients h c) @ [resp]"
      "snd (unmarshal_Envelope (marshal_Envelope resp) zero_Envelope) = resp"
    and h': "h_store h' = mark_all_dispatched (unix_now e) db1 (GetPendingCommands db1 ?d)"
    and nc': "nc_store (handleIncoming ne (performSync ne nc) resp) = fold (enqueue_command ne) (GetPendingCommands db1 ?d)
      (fold (\<lambda>i db. MarkResultSynced db i) (map ar_CommandID ?sent) (nc_store nc))"
    using sync_exchange [OF assms refl refl db1_def] by blast
  have "select_pk rr_ResultId (ar_ResultID r) (CloudResultQueue (h_store h')) \<noteq> None" if "r \<in> set ?sent" for r
  proof -
    have "ar_ResultID r = result_key (result_payload nc r)"
      using that ListUnsyncedResults_subset fit(1) by (auto simp: result_key_def result_payload_def results_fit_def)
    then show ?thesis
      using save_all_ids [of "map (result_payload nc) ?sent" "h_store h" "unix_now e"] that
      by (auto simp: h' mark_all_dispatched_results select_pk_None_iff db1_def)
  qed
  moreover have "r\<lparr>ar_Synced := True\<rparr> \<in> set (ResultQueue (nc_store (handleIncoming ne (performSync ne nc) resp)))"
    if "r \<in> set ?sent" for r
    using that ListUnsyncedResults_subset [of "nc_store nc" 50]
    by (auto simp: nc' ResultQueue_enqueue_all ResultQueue_mark_all set_update_rows image_iff)
  moreover have "GetPendingCommands (h_store h') ?d = []" by (simp add: h' mark_all_dispatched_pending)
  moreover have "AGetCommand (nc_store (handleIncoming ne (performSync ne nc) resp)) i \<noteq> None"
    if "GetCommand (h_store h) i = Some r" "cr_Status r = StatusPending" "cr_DeviceID r = ?d" "i \<notin> ar_CommandID ` set ?sent" for i r
  proof -
    have "i \<notin> rp_CommandID ` set (map (result_payload nc) ?sent)" using that(4) by (auto simp: result_payload_def)
    note p = pending_after_save(1) [OF that(1-3) this, of "unix_now e"] pending_after_save(2) [OF that(1-3) this]
    then show ?thesis
      using agent_queue.delivered [of "command_of_record r" "GetPendingCommands db1 ?d" ne] unfolding nc'
      by (simp add: db1_def command_of_record_def)
  qed
  ultimately show ?thesis
    using ex unfolding Let_def by - (rule exI [of _ req], rule exI [of _ h'], rule exI [of _ resp], auto)
qed

definition finished_queue :: AgentDB where
  \<comment> \<open>an agent that finished a command and has not reported it\<close>
  "finished_queue = \<lparr>CommandQueue = [(pending_row 5 ''old'' sample_payload)\<lparr>ac_Status := AStatusCompleted, ac_Attempts := 1\<rparr>],
     ResultQueue = [\<lparr>ar_ResultID = ''r1'', ar_CommandID = ''old'', ar_Stdout = ''ok'', ar_Stderr = '''', ar_ExitCode = 0,
       ar_ExecutedAt = 9, ar_Synced = False\<rparr>]\<rparr>"

definition waiting_hub :: Hub where
  \<comment> \<open>its agent is connected and has one pending command\<close>
  "waiting_hub = (sample_online 0)\<lparr>h_store := fst (EnqueueCommand 9 empty_db (sample_cmd ''command-a'' ''d'' ''pwd'' 4))\<rparr>"

lemma waiting_hub_ok: "reg_ok waiting_hub" "commands_fit (h_store waiting_hub)"
  by (simp_all add: waiting_hub_def sample_online_def NewHub_def newClient_def reg_ok_def agent_entry_ok_def ids_ok_def
      commands_fit_def EnqueueCommand_def ensure_device_def empty_db_def sample_cmd_def select_pk_def command_of_record_def
      valid_CommandPayload_def in_int64_def Let_def)

theorem sync_end_to_end_witness:
  "\<exists>req h' resp. nc_send (performSync sample_nenv (NewNetClient finished_queue sample_acfg)) = [req]
     \<and> readMessage sample_env waiting_hub 0 (Some (marshal_Envelope req)) = Ret h'
     \<and> GetPendingCommands (h_store h') ''d'' = []
     \<and> AGetCommand (nc_store (handleIncoming sample_nenv (performSync sample_nenv (NewNetClient finished_queue sample_acfg))
          (snd (unmarshal_Envelope (marshal_Envelope resp) zero_Envelope)))) ''command-a'' \<noteq> None"
proof -
  let ?nc = "NewNetClient finished_queue sample_acfg"
  have cl: "\<not> c_closed (h_clients waiting_hub 0)" "0 \<notin> set (h_controllers waiting_hub)" "c_send (h_clients waiting_hub 0) = []"
    by (simp_all add: waiting_hub_def sample_online_def NewHub_def newClient_def)
  have nc: "nc_send ?nc = []" "nc_store ?nc = finished_queue" "acfg_DeviceID (nc_cfg ?nc) = ''d''"
    by (simp_all add: NewNetClient_def sample_acfg_def)
  have time: "in_int64 (n_now sample_nenv)" "in_int64 (unix_now sample_env)" by code_simp+
  have fit: "results_fit (nc_store ?nc)" by code_simp
  have sent: "ar_CommandID ` set (ListUnsyncedResults (nc_store ?nc) 50) = {''old''}" by code_simp
  have cmd: "GetCommand (h_store waiting_hub) ''command-a'' = Some (command_entry 9 (sample_cmd ''command-a'' ''d'' ''pwd'' 4))"
    by code_simp
  have room: "length (c_send (h_clients waiting_hub 0)) < 64" "length (nc_send ?nc) < 64" by (simp_all add: cl(3) nc(1))
  from sync_end_to_end [OF waiting_hub_ok(1) cl(1,2) room time fit waiting_hub_ok(2)]
  obtain req h' resp where e2e: "nc_send (performSync sample_nenv ?nc) = [req]"
      "readMessage sample_env waiting_hub 0 (Some (marshal_Envelope req)) = Ret h'"
      "GetPendingCommands (h_store h') ''d'' = []"
      "\<forall>i r. GetCommand (h_store waiting_hub) i = Some r \<and> cr_Status r = StatusPending \<and> cr_DeviceID r = ''d'' \<and>
         i \<notin> {''old''} \<longrightarrow> AGetCommand (nc_store (handleIncoming sample_nenv (performSync sample_nenv ?nc)
           (snd (unmarshal_Envelope (marshal_Envelope resp) zero_Envelope)))) i \<noteq> None"
    unfolding cl(3) nc(1,3) sent Let_def append_Nil by blast
  have "cr_Status (command_entry 9 (sample_cmd ''command-a'' ''d'' ''pwd'' 4)) = StatusPending"
    "cr_DeviceID (command_entry 9 (sample_cmd ''command-a'' ''d'' ''pwd'' 4)) = ''d''"
    by (simp_all add: command_entry_def sample_cmd_def)
  with e2e(4) cmd have "AGetCommand (nc_store (handleIncoming sample_nenv (performSync sample_nenv ?nc)
      (snd (unmarshal_Envelope (marshal_Envelope resp) zero_Envelope)))) ''command-a'' \<noteq> None"
    by simp
  with e2e(1-3) show ?thesis by blast
qed

section \<open>The reported address wakes the machine\<close>

lemma reported_address:
  assumes "he_interfaces he = Some ifs"
    and "find (\<lambda>i. \<not> if_loopback i \<and> if_up i \<and> length (if_hw i) = 6) ifs = Some i"
  shows "hm_MACAddress (fst (Collect_metrics he start_health)) = mac_string (if_hw i)"
proof -
  have hw: "length (if_hw i) = 6" using assms(2) by (auto simp: find_Some_iff)
  then have ne: "mac_string (if_hw i) \<noteq> ''''" using length_mac_string [of "if_hw i"] by force
  have "hs_mac (snd (getWindowsCPU he start_health)) = ''''"
    by (auto simp: getWindowsCPU_def start_health_def Let_def split: option.split prod.split)
  then have "hs_mac st = '''' \<Longrightarrow> fst (GetPrimaryMACAddress he st) = mac_string (if_hw i)" for st
    using assms ne by (simp add: GetPrimaryMACAddress_def interface_mac_def Let_def)
  then have "GetPrimaryMACAddress he st = (mac, st') \<Longrightarrow> hs_mac st = '''' \<Longrightarrow> mac = mac_string (if_hw i)" for st mac st'
    by (metis fst_conv)
  then show ?thesis
    using \<open>hs_mac (snd (getWindowsCPU he start_health)) = ''''\<close>
    by (cases "he_windows he") (fastforce simp: Collect_metrics_def start_health_def Let_def split: prod.splits)+
qed



end
